(* ===== verification/CloudPrelude.thy ===== *)
theory CloudPrelude
  imports Complex_Main "HOL-Library.Char_ord" "HOL-Library.List_Lexorder" "HOL-Library.Product_Lexorder"
begin

text \<open>
  Shared vocabulary of the development: Python strings and their methods, the values a
  JSON document or a Python dict holds, database tables as lists of rows with the SQL
  statements the code issues, and time.

  Conventions, used by every theory:
  \<^item> A Python \<open>str\<close> is a list of one-byte characters. ASCII characters stand for
    themselves; the few others the source's literals contain are written as their
    Windows-1252 byte (so the ellipsis is the one character \<open>0x85\<close>). Case mapping is
    that of the letters of this set.
  \<^item> A timestamp is the number of microseconds since the epoch, UTC.
  \<^item> A SQL table is the list of its rows; a function that runs statements and commits takes
    the table and returns the new one. Where the code catches a failing statement itself,
    the outcome of the statement is an argument.
\<close>

named_theorems table_simps \<open>how the SQL statements act on rows\<close>
named_theorems str_simps \<open>equations of the Python string methods\<close>

type_synonym str = string
type_synonym time = int

subsection \<open>Time\<close>

definition second :: time where "second = 1000000"
definition minute :: time where "minute = 60 * second"
definition hour :: time where "hour = 60 * minute"
definition day :: time where "day = 24 * hour"

lemmas time_units = second_def minute_def hour_def day_def

text \<open>The UTC calendar day a timestamp falls on, and the midnight it starts with.\<close>

definition day_of :: "time \<Rightarrow> int" where "day_of t = t div day"
definition day_start :: "time \<Rightarrow> time" where "day_start t = day_of t * day"

lemma day_pos [simp]: "0 < day"
  by (simp add: time_units)

lemma day_start_le: "day_start t \<le> t"
  by (simp add: day_start_def day_of_def minus_mod_eq_div_mult [symmetric])

lemma lt_day_start_Suc: "t < day_start t + day"
proof -
  have "t mod day < day" by simp
  then show ?thesis
    by (simp add: day_start_def day_of_def minus_mod_eq_div_mult [symmetric])
qed

subsection \<open>Python values\<close>

text \<open>What a JSON document, a YAML header or an untyped dict field may hold; a dict keeps
  its insertion order and has distinct keys.\<close>

datatype pyv =
    VNone
  | VBool bool
  | VInt int
  | VFloat rat
  | VStr str
  | VList "pyv list"
  | VDict "(str \<times> pyv) list"

type_synonym pydict = "(str \<times> pyv) list"

fun truthy :: "pyv \<Rightarrow> bool" where
  "truthy VNone = False"
| "truthy (VBool b) = b"
| "truthy (VInt i) = (i \<noteq> 0)"
| "truthy (VFloat r) = (r \<noteq> 0)"
| "truthy (VStr s) = (s \<noteq> [])"
| "truthy (VList xs) = (xs \<noteq> [])"
| "truthy (VDict d) = (d \<noteq> [])"

text \<open>\<open>d.get(k)\<close> and \<open>d.get(k, default)\<close>.\<close>

definition dget :: "pydict \<Rightarrow> str \<Rightarrow> pyv" where
  "dget d k = (case map_of d k of None \<Rightarrow> VNone | Some v \<Rightarrow> v)"

definition dget_or :: "pydict \<Rightarrow> str \<Rightarrow> pyv \<Rightarrow> pyv" where
  "dget_or d k v0 = (case map_of d k of None \<Rightarrow> v0 | Some v \<Rightarrow> v)"

text \<open>\<open>d[k] = v\<close>: an existing key keeps its place.\<close>

fun dput :: "('k \<times> 'v) list \<Rightarrow> 'k \<Rightarrow> 'v \<Rightarrow> ('k \<times> 'v) list" where
  "dput [] k v = [(k, v)]"
| "dput ((k', v') # d) k v = (if k' = k then (k, v) # d else (k', v') # dput d k v)"

lemma map_of_dput [simp]: "map_of (dput d k v) = (map_of d)(k \<mapsto> v)"
  by (induction d k v rule: dput.induct) (auto simp: fun_eq_iff)

text \<open>The result of \<open>x or y\<close> for values.\<close>

definition por :: "pyv \<Rightarrow> pyv \<Rightarrow> pyv" where
  "por x y = (if truthy x then x else y)"

subsection \<open>Python strings\<close>

definition py_isspace :: "char \<Rightarrow> bool" where
  "py_isspace c = (let n = of_char c :: nat in
     n = 32 \<or> (9 \<le> n \<and> n \<le> 13) \<or> (28 \<le> n \<and> n \<le> 31) \<or> n = 160)"

definition py_lower_char :: "char \<Rightarrow> char" where
  "py_lower_char c = (let n = of_char c :: nat in
     if (65 \<le> n \<and> n \<le> 90) \<or> (192 \<le> n \<and> n \<le> 222 \<and> n \<noteq> 215) then char_of (n + 32)
     else if n = 138 \<or> n = 140 \<or> n = 142 then char_of (n + 16)
     else if n = 159 then char_of (255 :: nat) else c)"

definition py_lower :: "str \<Rightarrow> str" where
  "py_lower s = map py_lower_char s"

definition py_upper_char :: "char \<Rightarrow> char" where
  "py_upper_char c = (let n = of_char c :: nat in
     if (97 \<le> n \<and> n \<le> 122) \<or> (224 \<le> n \<and> n \<le> 254 \<and> n \<noteq> 247) then char_of (n - 32)
     else if n = 154 \<or> n = 156 \<or> n = 158 then char_of (n - 16)
     else if n = 255 then char_of (159 :: nat) else c)"

definition py_upper :: "str \<Rightarrow> str" where
  "py_upper s = map py_upper_char s"

definition lstrip_by :: "(char \<Rightarrow> bool) \<Rightarrow> str \<Rightarrow> str" where
  "lstrip_by p s = dropWhile p s"

definition rstrip_by :: "(char \<Rightarrow> bool) \<Rightarrow> str \<Rightarrow> str" where
  "rstrip_by p s = rev (dropWhile p (rev s))"

definition strip_by :: "(char \<Rightarrow> bool) \<Rightarrow> str \<Rightarrow> str" where
  "strip_by p s = rstrip_by p (lstrip_by p s)"

definition py_strip :: "str \<Rightarrow> str" where
  "py_strip s = strip_by py_isspace s"

definition startswith :: "str \<Rightarrow> str \<Rightarrow> bool" where
  "startswith s p = (take (length p) s = p)"

fun substr_in :: "str \<Rightarrow> str \<Rightarrow> bool" where
  "substr_in p [] = (p = [])"
| "substr_in p (c # s) = (startswith (c # s) p \<or> substr_in p s)"

text \<open>\<open>s.replace(old, new)\<close> for a non-empty \<open>old\<close>: left to right, without overlap.\<close>

function py_replace :: "str \<Rightarrow> str \<Rightarrow> str \<Rightarrow> str" where
  "py_replace old new s =
     (if old = [] \<or> s = [] then s
      else if startswith s old then new @ py_replace old new (drop (length old) s)
      else hd s # py_replace old new (tl s))"
  by pat_completeness auto
termination
  by (relation "measure (\<lambda>(old, new, s). length s)")
     (auto simp: diff_less length_greater_0_conv)

declare py_replace.simps [simp del]

text \<open>\<open>s.split(c)\<close> on one separator character: always at least one piece.\<close>

fun split_on :: "char \<Rightarrow> str \<Rightarrow> str list" where
  "split_on c [] = [[]]"
| "split_on c (x # s) =
     (if x = c then [] # split_on c s
      else case split_on c s of p # ps \<Rightarrow> (x # p) # ps | [] \<Rightarrow> [[x]])"

text \<open>\<open>s.split()\<close>: maximal runs of non-space characters.\<close>

function py_words :: "str \<Rightarrow> str list" where
  "py_words s = (let t = dropWhile py_isspace s in
     if t = [] then [] else takeWhile (\<lambda>c. \<not> py_isspace c) t # py_words (dropWhile (\<lambda>c. \<not> py_isspace c) t))"
  by pat_completeness auto
termination
proof (relation "measure length", simp)
  fix s :: str and t
  assume t: "t = dropWhile py_isspace s" and "t \<noteq> []"
  then have "\<not> py_isspace (hd t)" using hd_dropWhile by blast
  then have "length (dropWhile (\<lambda>c. \<not> py_isspace c) t) < length t"
    using \<open>t \<noteq> []\<close> by (cases t) (auto simp: length_dropWhile_le le_imp_less_Suc)
  also have "length t \<le> length s" using t by (simp add: length_dropWhile_le)
  finally show "(dropWhile (\<lambda>c. \<not> py_isspace c) t, s) \<in> measure length" by simp
qed

declare py_words.simps [simp del]

text \<open>\<open>sep.join(xs)\<close>.\<close>

fun py_join :: "str \<Rightarrow> str list \<Rightarrow> str" where
  "py_join sep [] = []"
| "py_join sep [x] = x"
| "py_join sep (x # y # xs) = x @ sep @ py_join sep (y # xs)"

text \<open>\<open>str(n)\<close> for an integer.\<close>

definition digit_char :: "nat \<Rightarrow> char" where
  "digit_char d = char_of (48 + d)"

fun show_nat :: "nat \<Rightarrow> str" where
  "show_nat n = (if n < 10 then [digit_char n] else show_nat (n div 10) @ [digit_char (n mod 10)])"

declare show_nat.simps [simp del]

definition show_int :: "int \<Rightarrow> str" where
  "show_int i = (if i < 0 then ''-'' @ show_nat (nat (- i)) else show_nat (nat i))"

text \<open>\<open>int(s)\<close> on a string: surrounding space, an optional sign, decimal digits with single
  underscores between them; \<open>None\<close> is \<open>ValueError\<close>.\<close>

definition is_digit :: "char \<Rightarrow> bool" where
  "is_digit c = (let n = of_char c :: nat in 48 \<le> n \<and> n \<le> 57)"

definition digit_val :: "char \<Rightarrow> int" where
  "digit_val c = int (of_char c) - 48"

fun parse_digits :: "int \<Rightarrow> str \<Rightarrow> int option" where
  "parse_digits acc [] = Some acc"
| "parse_digits acc (c # s) =
     (if is_digit c then parse_digits (10 * acc + digit_val c) s
      else if c = CHR ''_'' \<and> s \<noteq> [] \<and> is_digit (hd s) then parse_digits acc s
      else None)"

definition py_int :: "str \<Rightarrow> int option" where
  "py_int s0 = (let s = py_strip s0;
     (sg, ds) = (case s of c # t \<Rightarrow> if c = CHR ''-'' then (-1, t) else if c = CHR ''+'' then (1, t) else (1, s)
                 | [] \<Rightarrow> (1, []))
     in case ds of [] \<Rightarrow> None
        | d # _ \<Rightarrow> if is_digit d then map_option (\<lambda>n. sg * n) (parse_digits 0 ds) else None)"

text \<open>\<open>int(v)\<close> of any value: a float is truncated, what is no number or numeral raises.\<close>

fun py_int_v :: "pyv \<Rightarrow> int option" where
  "py_int_v (VInt i) = Some i"
| "py_int_v (VBool b) = Some (of_bool b)"
| "py_int_v (VFloat r) = Some (if r < 0 then - \<lfloor>- r\<rfloor> else \<lfloor>r\<rfloor>)"
| "py_int_v (VStr s) = py_int s"
| "py_int_v v = None"

text \<open>\<open>s[:n]\<close>.\<close>

abbreviation clip :: "nat \<Rightarrow> str \<Rightarrow> str" where
  "clip n s \<equiv> take n s"

lemma py_lower_char_idem [simp]: "py_lower_char (py_lower_char c) = py_lower_char c"
  by (simp add: py_lower_char_def Let_def)

lemma py_lower_idem [simp]: "py_lower (py_lower s) = py_lower s"
  by (simp add: py_lower_def)

lemma length_py_lower [simp]: "length (py_lower s) = length s"
  by (simp add: py_lower_def)

lemma find_append: "find p (xs @ ys) = (case find p xs of Some x \<Rightarrow> Some x | None \<Rightarrow> find p ys)"
  by (induction xs) auto

subsection \<open>Tables and SQL statements\<close>

text \<open>\<open>UPDATE t SET f WHERE p\<close>, \<open>DELETE FROM t WHERE p\<close>, \<open>SELECT count(*) FROM t WHERE p\<close>.\<close>

definition upd_where :: "('r \<Rightarrow> bool) \<Rightarrow> ('r \<Rightarrow> 'r) \<Rightarrow> 'r list \<Rightarrow> 'r list" where
  "upd_where p f t = map (\<lambda>r. if p r then f r else r) t"

definition del_where :: "('r \<Rightarrow> bool) \<Rightarrow> 'r list \<Rightarrow> 'r list" where
  "del_where p t = filter (\<lambda>r. \<not> p r) t"

definition count_where :: "('r \<Rightarrow> bool) \<Rightarrow> 'r list \<Rightarrow> nat" where
  "count_where p t = length (filter p t)"

text \<open>\<open>ORDER BY key LIMIT 1\<close>; among rows with equal keys, where SQL leaves the choice open,
  the first of the table.\<close>

fun least_by :: "('r \<Rightarrow> 'k::linorder) \<Rightarrow> 'r list \<Rightarrow> 'r option" where
  "least_by k [] = None"
| "least_by k (r # rs) =
     (case least_by k rs of None \<Rightarrow> Some r | Some s \<Rightarrow> if k r \<le> k s then Some r else Some s)"

text \<open>\<open>ORDER BY key\<close>.\<close>

definition order_by :: "('r \<Rightarrow> 'k::linorder) \<Rightarrow> 'r list \<Rightarrow> 'r list" where
  "order_by k t = sort_key k t"

lemma upd_where_Nil [table_simps, simp]: "upd_where p f [] = []"
  by (simp add: upd_where_def)

lemma upd_where_Cons [table_simps, simp]:
  "upd_where p f (r # t) = (if p r then f r else r) # upd_where p f t"
  by (simp add: upd_where_def)

lemma set_upd_where [table_simps]:
  "set (upd_where p f t) = (\<lambda>r. if p r then f r else r) ` set t"
  by (simp add: upd_where_def)

lemma length_upd_where [table_simps, simp]: "length (upd_where p f t) = length t"
  by (simp add: upd_where_def)

lemma map_upd_where [table_simps]:
  "(\<And>r. r \<in> set t \<Longrightarrow> p r \<Longrightarrow> g (f r) = g r) \<Longrightarrow> map g (upd_where p f t) = map g t"
  by (auto simp: upd_where_def)

lemma upd_where_cong_rows:
  "(\<And>r. r \<in> set t \<Longrightarrow> p r \<Longrightarrow> f r = g r) \<Longrightarrow> upd_where p f t = upd_where p g t"
  by (auto simp: upd_where_def)

lemma upd_where_none: "(\<And>r. r \<in> set t \<Longrightarrow> \<not> p r) \<Longrightarrow> upd_where p f t = t"
  by (auto simp: upd_where_def intro: map_idI)

lemma ball_upd_where:
  "(\<forall>r\<in>set (upd_where p f t). Q r) \<longleftrightarrow> (\<forall>r\<in>set t. if p r then Q (f r) else Q r)"
  by (auto simp: set_upd_where)

lemma set_del_where [table_simps]: "set (del_where p t) = {r \<in> set t. \<not> p r}"
  by (auto simp: del_where_def)

lemma count_where_0: "count_where p t = 0 \<longleftrightarrow> (\<forall>r\<in>set t. \<not> p r)"
  by (auto simp: count_where_def filter_empty_conv)

lemma length_del_where: "length (del_where p t) + count_where p t = length t"
  using sum_length_filter_compl [of p t] by (simp add: del_where_def count_where_def)

lemma count_del_where [simp]: "count_where p (del_where p t) = 0"
  by (simp add: count_where_0 set_del_where)

lemma least_by_None [simp]: "least_by k t = None \<longleftrightarrow> t = []"
  by (cases t) (auto split: option.splits if_splits)

lemma least_by_Some_in: "least_by k t = Some r \<Longrightarrow> r \<in> set t"
  by (induction t arbitrary: r) (auto split: option.splits if_splits)

lemma least_by_Some_le: "least_by k t = Some r \<Longrightarrow> s \<in> set t \<Longrightarrow> k r \<le> k s"
proof (induction t arbitrary: r)
  case (Cons a t)
  show ?case
  proof (cases "least_by k t")
    case None
    then show ?thesis using Cons.prems by (cases t) (auto split: option.splits if_splits)
  next
    case (Some b)
    then show ?thesis using Cons by (auto split: if_splits)
  qed
qed simp

lemma find_upd_where_id:
  assumes "\<And>r. idf (f r) = idf r"
  shows "find (\<lambda>r. idf r = i) (upd_where (\<lambda>r. idf r = i) f t) = map_option f (find (\<lambda>r. idf r = i) t)"
  by (induction t) (auto simp: assms)

lemma find_Some_in: "find p t = Some r \<Longrightarrow> r \<in> set t \<and> p r"
  by (induction t) (auto split: if_splits)

lemma find_distinct:
  "distinct (map idf t) \<Longrightarrow> r \<in> set t \<Longrightarrow> find (\<lambda>x. idf x = idf r) t = Some r"
  by (induction t) (auto intro: rev_image_eqI)

lemma distinct_key_eq:
  "distinct (map idf t) \<Longrightarrow> r \<in> set t \<Longrightarrow> s \<in> set t \<Longrightarrow> idf r = idf s \<Longrightarrow> r = s"
  by (meson inj_on_def distinct_map)

end
