(* ===== verification/Contracts.thy ===== *)
theory Contracts
  imports CloudPrelude
begin

text \<open>
  The shared contract types of \<open>src/cloudos/contracts.py\<close>: the enumerations with their
  string values, the error codes that fail closed and those that defer, the structured
  error, and the request, result and decision records the components exchange.
\<close>

subsection \<open>Enumerations\<close>

datatype job_status = QUEUED | RUNNING | SUCCEEDED | FAILED | CANCELLED | BLOCKED

fun job_status_value :: "job_status \<Rightarrow> str" where
  "job_status_value QUEUED = ''queued''"
| "job_status_value RUNNING = ''running''"
| "job_status_value SUCCEEDED = ''succeeded''"
| "job_status_value FAILED = ''failed''"
| "job_status_value CANCELLED = ''cancelled''"
| "job_status_value BLOCKED = ''blocked''"

datatype privacy_label = PUBLIC | INTERNAL | PERSONAL | SENSITIVE | SECRET

fun privacy_label_value :: "privacy_label \<Rightarrow> str" where
  "privacy_label_value PUBLIC = ''public''"
| "privacy_label_value INTERNAL = ''internal''"
| "privacy_label_value PERSONAL = ''personal''"
| "privacy_label_value SENSITIVE = ''sensitive''"
| "privacy_label_value SECRET = ''secret''"

text \<open>\<open>PrivacyLabel(s)\<close>; \<open>None\<close> is \<open>ValueError\<close>.\<close>

definition privacy_label_of :: "str \<Rightarrow> privacy_label option" where
  "privacy_label_of s =
     (if s = ''public'' then Some PUBLIC else if s = ''internal'' then Some INTERNAL
      else if s = ''personal'' then Some PERSONAL else if s = ''sensitive'' then Some SENSITIVE
      else if s = ''secret'' then Some SECRET else None)"

datatype error_code =
    LIMIT_REACHED | QUOTA_EXHAUSTED | PAID_DISABLED | MODEL_NOT_ALLOWED | PRIVACY_BLOCKED
  | SECRET_DETECTED | AUTH_REQUIRED | BILLING_RISK | DEPENDENCY_UNAVAILABLE | VALIDATION_ERROR
  | INTERNAL_ERROR

fun error_code_value :: "error_code \<Rightarrow> str" where
  "error_code_value LIMIT_REACHED = ''LIMIT_REACHED''"
| "error_code_value QUOTA_EXHAUSTED = ''QUOTA_EXHAUSTED''"
| "error_code_value PAID_DISABLED = ''PAID_DISABLED''"
| "error_code_value MODEL_NOT_ALLOWED = ''MODEL_NOT_ALLOWED''"
| "error_code_value PRIVACY_BLOCKED = ''PRIVACY_BLOCKED''"
| "error_code_value SECRET_DETECTED = ''SECRET_DETECTED''"
| "error_code_value AUTH_REQUIRED = ''AUTH_REQUIRED''"
| "error_code_value BILLING_RISK = ''BILLING_RISK''"
| "error_code_value DEPENDENCY_UNAVAILABLE = ''DEPENDENCY_UNAVAILABLE''"
| "error_code_value VALIDATION_ERROR = ''VALIDATION_ERROR''"
| "error_code_value INTERNAL_ERROR = ''INTERNAL_ERROR''"

datatype provider_state =
    AVAILABLE_SUBSCRIPTION | PS_QUOTA_EXHAUSTED | PS_AUTH_REQUIRED | UNAVAILABLE | PS_BILLING_RISK

fun provider_state_value :: "provider_state \<Rightarrow> str" where
  "provider_state_value AVAILABLE_SUBSCRIPTION = ''AVAILABLE_SUBSCRIPTION''"
| "provider_state_value PS_QUOTA_EXHAUSTED = ''QUOTA_EXHAUSTED''"
| "provider_state_value PS_AUTH_REQUIRED = ''AUTH_REQUIRED''"
| "provider_state_value UNAVAILABLE = ''UNAVAILABLE''"
| "provider_state_value PS_BILLING_RISK = ''BILLING_RISK''"

definition FAIL_CLOSED_CODES :: "error_code list" where
  "FAIL_CLOSED_CODES = [LIMIT_REACHED, PAID_DISABLED, PRIVACY_BLOCKED, SECRET_DETECTED, BILLING_RISK]"

definition DEFER_CODES :: "error_code list" where
  "DEFER_CODES = [QUOTA_EXHAUSTED, AUTH_REQUIRED]"

subsection \<open>Errors\<close>

text \<open>\<open>CloudOSError\<close>, and an exception in general: a structured error, or any other
  exception with its type name and text.\<close>

record cloud_error =
  ce_code :: error_code
  ce_message :: str
  ce_details :: pydict

definition CloudOSError :: "error_code \<Rightarrow> str \<Rightarrow> pydict \<Rightarrow> cloud_error" where
  "CloudOSError c m d = \<lparr>ce_code = c, ce_message = m, ce_details = d\<rparr>"

datatype exn = CloudExn cloud_error | OtherExn str str

definition error_response :: "error_code \<Rightarrow> str \<Rightarrow> pydict \<Rightarrow> pydict" where
  "error_response c m d =
     [(''error'', VDict [(''code'', VStr (error_code_value c)), (''message'', VStr m), (''details'', VDict d)])]"

definition to_dict_error :: "cloud_error \<Rightarrow> pydict" where
  "to_dict_error e =
     [(''error'', VDict [(''code'', VStr (error_code_value (ce_code e))), (''message'', VStr (ce_message e)),
        (''details'', VDict (ce_details e))])]"

lemma CloudOSError_sel [simp]:
  "ce_code (CloudOSError c m d) = c" "ce_message (CloudOSError c m d) = m"
  "ce_details (CloudOSError c m d) = d"
  by (simp_all add: CloudOSError_def)

subsection \<open>Requests, results, decisions\<close>

record route_request =
  rq_prompt :: str
  rq_task :: str
  rq_label :: privacy_label
  rq_max_tokens :: int
  rq_model_hint :: pyv
  rq_meta :: pydict

record route_result =
  rr_ok :: bool
  rr_text :: "str option"
  rr_model :: "str option"
  rr_level :: "int option"
  rr_error_code :: "error_code option"
  rr_error :: "str option"
  rr_prompt_tokens :: int
  rr_completion_tokens :: int
  rr_cost_usd :: rat

definition vopt :: "('a \<Rightarrow> pyv) \<Rightarrow> 'a option \<Rightarrow> pyv" where
  "vopt f x = (case x of None \<Rightarrow> VNone | Some a \<Rightarrow> f a)"

definition to_dict_result :: "route_result \<Rightarrow> pydict" where
  "to_dict_result r =
     [(''ok'', VBool (rr_ok r)), (''text'', vopt VStr (rr_text r)), (''model'', vopt VStr (rr_model r)),
      (''level'', vopt VInt (rr_level r)),
      (''error_code'', vopt (\<lambda>c. VStr (error_code_value c)) (rr_error_code r)),
      (''error'', vopt VStr (rr_error r)),
      (''prompt_tokens'', VInt (rr_prompt_tokens r)), (''completion_tokens'', VInt (rr_completion_tokens r)),
      (''cost_usd'', VFloat (rr_cost_usd r))]"

record secret_hit =
  sh_name :: str
  sh_start :: nat
  sh_end :: nat
  sh_sample :: str

record gate_decision =
  gd_allowed :: bool
  gd_reason :: str
  gd_hits :: "secret_hit list"

record context_bundle =
  cb_files :: "str list"
  cb_text :: str
  cb_truncated :: bool
  cb_excluded :: "str list"

subsection \<open>Facts about the codes\<close>

lemma error_code_value_inj [simp]: "error_code_value c = error_code_value d \<longleftrightarrow> c = d"
  by (cases c; cases d) simp_all

lemma job_status_value_inj [simp]: "job_status_value c = job_status_value d \<longleftrightarrow> c = d"
  by (cases c; cases d) simp_all

lemma privacy_label_roundtrip [simp]: "privacy_label_of (privacy_label_value l) = Some l"
  by (cases l) (simp_all add: privacy_label_of_def)

lemma privacy_label_of_Some: "privacy_label_of s = Some l \<Longrightarrow> s = privacy_label_value l"
  by (auto simp: privacy_label_of_def split: if_splits)

text \<open>No code both fails closed and defers: the two lists drive disjoint branches.\<close>

lemma codes_disjoint: "c \<in> set FAIL_CLOSED_CODES \<Longrightarrow> c \<notin> set DEFER_CODES"
  by (cases c) (simp_all add: FAIL_CLOSED_CODES_def DEFER_CODES_def)

end
