(* ===== verification/Queue.thy ===== *)
theory Queue
  imports Contracts
begin

text \<open>
  The Postgres-backed job queue of \<open>src/cloudos/worker/queue.py\<close>. The state is the
  table \<open>jobs\<close>; each operation is one committed transaction of the code, from the old
  table to the new one, with \<open>now()\<close> and the generated row id as arguments. The rows
  other open transactions hold locks on, which \<open>FOR UPDATE SKIP LOCKED\<close> passes over, are
  the argument \<open>lk\<close> of the claim.
\<close>

record job =
  j_id :: str
  j_type :: str
  j_status :: job_status
  j_priority :: int
  j_payload :: pyv
  j_result :: "pydict option"
  j_error_code :: "str option"
  j_error :: "str option"
  j_attempts :: int
  j_max_attempts :: int
  j_run_at :: time
  j_created_at :: time
  j_started_at :: "time option"
  j_finished_at :: "time option"
  j_locked_by :: "str option"
  j_locked_at :: "time option"

type_synonym jobs = "job list"

definition MAX_ERROR_LEN :: nat where "MAX_ERROR_LEN = 2000"

subsection \<open>The statements\<close>

text \<open>The rows \<open>CLAIM_SQL\<close> may return, its order, and the row changes of the updates.\<close>

definition claimable :: "time \<Rightarrow> str list \<Rightarrow> job \<Rightarrow> bool" where
  "claimable now lk j \<longleftrightarrow> j_status j = QUEUED \<and> j_run_at j \<le> now \<and> j_id j \<notin> set lk"

definition claim_key :: "job \<Rightarrow> int \<times> int" where
  "claim_key j = (j_priority j, j_run_at j)"

definition claim_select :: "time \<Rightarrow> str list \<Rightarrow> jobs \<Rightarrow> job option" where
  "claim_select now lk t = least_by claim_key (filter (claimable now lk) t)"

definition lock_row :: "time \<Rightarrow> str \<Rightarrow> job \<Rightarrow> job" where
  "lock_row now inst j = j\<lparr>j_status := RUNNING, j_locked_by := Some inst, j_locked_at := Some now,
     j_started_at := Some now\<rparr>"

definition complete_row :: "time \<Rightarrow> pydict \<Rightarrow> job \<Rightarrow> job" where
  "complete_row now res j = j\<lparr>j_status := SUCCEEDED, j_result := Some res, j_finished_at := Some now,
     j_locked_by := None, j_locked_at := None\<rparr>"

definition retry_row :: "time \<Rightarrow> int \<Rightarrow> str option \<Rightarrow> str \<Rightarrow> int \<Rightarrow> job \<Rightarrow> job" where
  "retry_row now att code err mins j = j\<lparr>j_status := QUEUED, j_attempts := att, j_error_code := code,
     j_error := Some err, j_run_at := now + mins * minute, j_locked_by := None, j_locked_at := None,
     j_started_at := None\<rparr>"

definition fail_row :: "time \<Rightarrow> int \<Rightarrow> str option \<Rightarrow> str \<Rightarrow> job \<Rightarrow> job" where
  "fail_row now att code err j = j\<lparr>j_status := FAILED, j_attempts := att, j_error_code := code,
     j_error := Some err, j_finished_at := Some now, j_locked_by := None, j_locked_at := None\<rparr>"

definition block_row :: "time \<Rightarrow> str option \<Rightarrow> str \<Rightarrow> job \<Rightarrow> job" where
  "block_row now code err j = j\<lparr>j_status := BLOCKED, j_error_code := code, j_error := Some err,
     j_finished_at := Some now, j_locked_by := None, j_locked_at := None\<rparr>"

definition defer_row :: "time \<Rightarrow> str option \<Rightarrow> str \<Rightarrow> int \<Rightarrow> job \<Rightarrow> job" where
  "defer_row now code note mins j = j\<lparr>j_status := QUEUED, j_error_code := code, j_error := Some note,
     j_run_at := now + mins * minute, j_locked_by := None, j_locked_at := None, j_started_at := None\<rparr>"

definition recover_row :: "job \<Rightarrow> job" where
  "recover_row j = j\<lparr>j_status := QUEUED, j_locked_by := None, j_locked_at := None, j_started_at := None\<rparr>"

lemmas row_defs = lock_row_def complete_row_def retry_row_def fail_row_def block_row_def
  defer_row_def recover_row_def

subsection \<open>The operations\<close>

text \<open>\<open>2 ** int(attempts)\<close>; the callers' attempts are never negative.\<close>

definition backoff_minutes :: "int \<Rightarrow> int" where
  "backoff_minutes attempts = 2 ^ nat attempts"

text \<open>\<open>make_interval(mins => %s)\<close> takes a four-byte integer: with a larger number the statement raises.\<close>

definition fits_int4 :: "int \<Rightarrow> bool" where
  "fits_int4 n \<longleftrightarrow> - 2147483648 \<le> n \<and> n \<le> 2147483647"

definition code_str :: "error_code option \<Rightarrow> str option" where
  "code_str c = map_option error_code_value c"

definition clip_error :: "str option \<Rightarrow> str" where
  "clip_error e = clip MAX_ERROR_LEN (case e of None \<Rightarrow> [] | Some s \<Rightarrow> s)"

text \<open>\<open>claim_next\<close>: the row the select returned is updated in the same transaction and
  returned as updated (\<open>RETURNING *\<close>); no row is a rollback.\<close>

definition with_id :: "str \<Rightarrow> (job \<Rightarrow> job) \<Rightarrow> jobs \<Rightarrow> jobs" where
  "with_id i f t = upd_where (\<lambda>j. j_id j = i) f t"

definition claim_next :: "time \<Rightarrow> str \<Rightarrow> str list \<Rightarrow> jobs \<Rightarrow> job option \<times> jobs" where
  "claim_next now inst lk t =
     (case claim_select now lk t of
        None \<Rightarrow> (None, t)
      | Some row \<Rightarrow> (let t' = with_id (j_id row) (lock_row now inst) t
                     in (find (\<lambda>j. j_id j = j_id row) t', t')))"

definition complete :: "time \<Rightarrow> str \<Rightarrow> pydict option \<Rightarrow> jobs \<Rightarrow> jobs" where
  "complete now i result t =
     with_id i (complete_row now (case result of None \<Rightarrow> [] | Some r \<Rightarrow> r)) t"

text \<open>\<open>fail\<close> counts from the job dict it was given, not from the row. The status is \<open>None\<close> where the
  statement raises, which leaves the table as it was.\<close>

definition fail_attempts :: "job \<Rightarrow> int" where
  "fail_attempts j = j_attempts j + 1"

definition fail_max :: "job \<Rightarrow> int" where
  "fail_max j = (if j_max_attempts j = 0 then 3 else j_max_attempts j)"

definition fail :: "time \<Rightarrow> job \<Rightarrow> error_code option \<Rightarrow> str option \<Rightarrow> jobs \<Rightarrow> job_status option \<times> jobs" where
  "fail now j ec err t =
     (let attempts = fail_attempts j; code = code_str ec; msg = clip_error err in
      if attempts < fail_max j
      then if fits_int4 (backoff_minutes attempts)
           then (Some QUEUED, with_id (j_id j) (retry_row now attempts code msg (backoff_minutes attempts)) t)
           else (None, t)
      else (Some FAILED, with_id (j_id j) (fail_row now attempts code msg) t))"

definition block :: "time \<Rightarrow> str \<Rightarrow> error_code option \<Rightarrow> str option \<Rightarrow> jobs \<Rightarrow> jobs" where
  "block now i ec err t = with_id i (block_row now (code_str ec) (clip_error err)) t"

definition defer_job :: "time \<Rightarrow> str \<Rightarrow> int \<Rightarrow> error_code option \<Rightarrow> str option \<Rightarrow> jobs \<Rightarrow> job_status option \<times> jobs" where
  "defer_job now i mins ec note t =
     (if fits_int4 (max 1 mins)
      then (Some QUEUED, with_id i (defer_row now (code_str ec) (clip_error note) (max 1 mins)) t)
      else (None, t))"

definition new_job :: "time \<Rightarrow> str \<Rightarrow> str \<Rightarrow> pydict \<Rightarrow> int \<Rightarrow> time \<Rightarrow> int \<Rightarrow> job" where
  "new_job now i ty payload prio run_at maxa =
     \<lparr>j_id = i, j_type = ty, j_status = QUEUED, j_priority = prio, j_payload = VDict payload, j_result = None,
      j_error_code = None, j_error = None, j_attempts = 0, j_max_attempts = maxa, j_run_at = run_at,
      j_created_at = now, j_started_at = None, j_finished_at = None, j_locked_by = None, j_locked_at = None\<rparr>"

definition enqueue :: "time \<Rightarrow> str \<Rightarrow> str \<Rightarrow> pydict option \<Rightarrow> int \<Rightarrow> time option \<Rightarrow> int \<Rightarrow> jobs \<Rightarrow> job \<times> jobs" where
  "enqueue now i ty payload prio run_at maxa t =
     (let j = new_job now i ty (case payload of None \<Rightarrow> [] | Some p \<Rightarrow> p) prio
                (case run_at of None \<Rightarrow> now | Some r \<Rightarrow> r) maxa
      in (j, t @ [j]))"

definition recoverable :: "str \<Rightarrow> job \<Rightarrow> bool" where
  "recoverable inst j \<longleftrightarrow> j_status j = RUNNING \<and> j_locked_by j = Some inst"

definition recover_stale :: "str \<Rightarrow> jobs \<Rightarrow> nat \<times> jobs" where
  "recover_stale inst t = (count_where (recoverable inst) t, upd_where (recoverable inst) recover_row t)"

lemmas op_defs = claim_next_def complete_def fail_def block_def defer_job_def enqueue_def recover_stale_def

subsection \<open>Well-formed tables\<close>

text \<open>The schema's primary key, and the agreement of the lock columns with the status that
  every statement keeps.\<close>

definition terminal :: "job_status \<Rightarrow> bool" where
  "terminal s \<longleftrightarrow> s \<in> {SUCCEEDED, FAILED, CANCELLED, BLOCKED}"

definition job_wf :: "job \<Rightarrow> bool" where
  "job_wf j \<longleftrightarrow> (j_status j = RUNNING \<longleftrightarrow> j_locked_by j \<noteq> None)
     \<and> (j_locked_by j = None \<longleftrightarrow> j_locked_at j = None)
     \<and> (j_status j = RUNNING \<longrightarrow> j_started_at j \<noteq> None)
     \<and> (terminal (j_status j) \<longrightarrow> j_finished_at j \<noteq> None)"

definition jobs_wf :: "jobs \<Rightarrow> bool" where
  "jobs_wf t \<longleftrightarrow> distinct (map j_id t) \<and> (\<forall>j\<in>set t. job_wf j)"

definition row_of :: "str \<Rightarrow> jobs \<Rightarrow> job option" where
  "row_of i t = find (\<lambda>j. j_id j = i) t"

lemma row_ids [table_simps, simp]:
  "j_id (lock_row now inst j) = j_id j" "j_id (complete_row now res j) = j_id j"
  "j_id (retry_row now att code err mins j) = j_id j" "j_id (fail_row now att code err j) = j_id j"
  "j_id (block_row now code err j) = j_id j" "j_id (defer_row now code err mins j) = j_id j"
  "j_id (recover_row j) = j_id j" "j_id (new_job now i ty p pr ra m) = i"
  by (simp_all add: row_defs new_job_def)

lemma row_wf [simp]:
  "job_wf (lock_row now inst j)" "job_wf (complete_row now res j)"
  "job_wf (retry_row now att code err mins j)" "job_wf (fail_row now att code err j)"
  "job_wf (block_row now code err j)" "job_wf (defer_row now code err mins j)"
  "job_wf (recover_row j)" "job_wf (new_job now i ty p pr ra m)"
  by (simp_all add: row_defs new_job_def job_wf_def terminal_def)

lemma row_status [simp]:
  "j_status (lock_row now inst j) = RUNNING" "j_status (complete_row now res j) = SUCCEEDED"
  "j_status (retry_row now att code err mins j) = QUEUED" "j_status (fail_row now att code err j) = FAILED"
  "j_status (block_row now code err j) = BLOCKED" "j_status (defer_row now code err mins j) = QUEUED"
  "j_status (recover_row j) = QUEUED" "j_status (new_job now i ty p pr ra m) = QUEUED"
  by (simp_all add: row_defs new_job_def)

lemma row_locked [simp]:
  "j_locked_by (lock_row now inst j) = Some inst" "j_locked_by (complete_row now res j) = None"
  "j_locked_by (retry_row now att code err mins j) = None" "j_locked_by (fail_row now att code err j) = None"
  "j_locked_by (block_row now code err j) = None" "j_locked_by (defer_row now code err mins j) = None"
  "j_locked_by (recover_row j) = None" "j_locked_by (new_job now i ty p pr ra m) = None"
  by (simp_all add: row_defs new_job_def)

lemma ids_upd_where:
  "(\<And>j. j_id (f j) = j_id j) \<Longrightarrow> map j_id (upd_where p f t) = map j_id t"
  by (simp add: map_upd_where)

lemma ids_with_id: "(\<And>j. j_id (f j) = j_id j) \<Longrightarrow> map j_id (with_id i f t) = map j_id t"
  by (simp add: with_id_def ids_upd_where)

lemma row_of_with_id_same:
  "(\<And>j. j_id (f j) = j_id j) \<Longrightarrow> row_of i (with_id i f t) = map_option f (row_of i t)"
  by (simp add: row_of_def with_id_def find_upd_where_id)

lemma row_of_with_id_other:
  assumes "\<And>j. j_id (f j) = j_id j" and "i \<noteq> k"
  shows "row_of k (with_id i f t) = row_of k t"
  unfolding row_of_def with_id_def by (induction t) (use assms in auto)

lemma row_of_Some: "row_of i t = Some j \<Longrightarrow> j \<in> set t \<and> j_id j = i"
  unfolding row_of_def by (drule find_Some_in) simp

lemma row_of_in: "distinct (map j_id t) \<Longrightarrow> j \<in> set t \<Longrightarrow> row_of (j_id j) t = Some j"
  unfolding row_of_def by (rule find_distinct)

lemma jobs_wf_upd:
  assumes "jobs_wf t" and "\<And>j. j_id (f j) = j_id j" and "\<And>j. job_wf (f j)"
  shows "jobs_wf (upd_where p f t)"
  using assms by (auto simp: jobs_wf_def ids_upd_where ball_upd_where)

lemma jobs_wf_with_id:
  "jobs_wf t \<Longrightarrow> (\<And>j. j_id (f j) = j_id j) \<Longrightarrow> (\<And>j. job_wf (f j)) \<Longrightarrow> jobs_wf (with_id i f t)"
  unfolding with_id_def by (rule jobs_wf_upd)

subsection \<open>Claiming\<close>

lemma claim_select_Some:
  assumes "claim_select now lk t = Some r"
  shows "r \<in> set t" "claimable now lk r"
    "\<And>s. s \<in> set t \<Longrightarrow> claimable now lk s \<Longrightarrow> claim_key r \<le> claim_key s"
proof -
  have "r \<in> set (filter (claimable now lk) t)"
    using assms unfolding claim_select_def by (rule least_by_Some_in)
  then show "r \<in> set t" "claimable now lk r" by auto
  show "claim_key r \<le> claim_key s" if "s \<in> set t" "claimable now lk s" for s
    using assms that unfolding claim_select_def by (auto dest: least_by_Some_le)
qed

lemma claim_select_None: "claim_select now lk t = None \<longleftrightarrow> (\<forall>j\<in>set t. \<not> claimable now lk j)"
  by (simp add: claim_select_def filter_empty_conv)

lemma claim_next_cases:
  assumes "distinct (map j_id t)"
  obtains (idle) "claim_select now lk t = None" "claim_next now inst lk t = (None, t)"
  | (claimed) r where "claim_select now lk t = Some r"
      "claim_next now inst lk t = (Some (lock_row now inst r), with_id (j_id r) (lock_row now inst) t)"
proof (cases "claim_select now lk t")
  case None
  then show ?thesis by (intro idle) (simp_all add: claim_next_def)
next
  case (Some r)
  then have "row_of (j_id r) t = Some r"
    using assms by (intro row_of_in) (auto dest: claim_select_Some)
  then have "row_of (j_id r) (with_id (j_id r) (lock_row now inst) t) = Some (lock_row now inst r)"
    by (simp add: row_of_with_id_same)
  with Some show ?thesis by (intro claimed) (simp_all add: claim_next_def row_of_def)
qed

text \<open>C20. What a claim returns is the row, as locked, of a due queued job that no other
  transaction holds, first by priority and then by due time; the table changes in that row
  alone.\<close>

theorem claim_next_correct:
  assumes "distinct (map j_id t)" and "claim_next now inst lk t = (Some j, t')"
  shows "\<exists>r\<in>set t. j_status r = QUEUED \<and> j_run_at r \<le> now \<and> j_id r \<notin> set lk
           \<and> (\<forall>s\<in>set t. claimable now lk s \<longrightarrow> claim_key r \<le> claim_key s)
           \<and> j = r\<lparr>j_status := RUNNING, j_locked_by := Some inst, j_locked_at := Some now, j_started_at := Some now\<rparr>
           \<and> row_of (j_id r) t' = Some j
           \<and> (\<forall>k. k \<noteq> j_id r \<longrightarrow> row_of k t' = row_of k t)"
  using assms(1)
proof (cases rule: claim_next_cases [of t now lk inst])
  case (claimed r)
  have r: "row_of (j_id r) t = Some r"
    using assms(1) claimed(1) by (intro row_of_in) (auto dest: claim_select_Some)
  from claimed(2) assms(2) have "j = lock_row now inst r" "t' = with_id (j_id r) (lock_row now inst) t"
    by simp_all
  with r claim_select_Some [OF claimed(1)] show ?thesis
    by (intro bexI [of _ r])
       (auto simp: claimable_def lock_row_def row_of_with_id_same row_of_with_id_other)
qed (use assms(2) in simp)

theorem claim_next_correct_witness:
  "fst (claim_next 10 ''w'' [''b'']
      [new_job 0 ''a'' ''noop'' [] 100 5 3, new_job 0 ''b'' ''noop'' [] 1 5 3, new_job 0 ''c'' ''noop'' [] 7 5 3])
     = Some (lock_row 10 ''w'' (new_job 0 ''c'' ''noop'' [] 7 5 3))
   \<and> (\<exists>r\<in>set [new_job 0 ''a'' ''noop'' [] 100 5 3, new_job 0 ''b'' ''noop'' [] 1 5 3, new_job 0 ''c'' ''noop'' [] 7 5 3].
        j_status r = QUEUED \<and> j_run_at r \<le> 10 \<and> j_id r \<notin> set [''b''])"
proof -
  let ?t = "[new_job 0 ''a'' ''noop'' [] 100 5 3, new_job 0 ''b'' ''noop'' [] 1 5 3, new_job 0 ''c'' ''noop'' [] 7 5 3]"
  have d: "distinct (map j_id ?t)" by simp
  have c: "claim_next 10 ''w'' [''b''] ?t
      = (Some (lock_row 10 ''w'' (new_job 0 ''c'' ''noop'' [] 7 5 3)),
         with_id ''c'' (lock_row 10 ''w'') ?t)"
    by (simp add: claim_next_def claim_select_def claimable_def claim_key_def new_job_def with_id_def lock_row_def
        less_eq_prod_def)
  show ?thesis using claim_next_correct [OF d c] c by auto
qed

text \<open>The other branch: a claim that returns nothing changes nothing, and there was nothing
  to claim.\<close>

lemma claim_next_idle:
  assumes "distinct (map j_id t)"
  shows "fst (claim_next now inst lk t) = None
     \<longleftrightarrow> (\<forall>j\<in>set t. j_status j \<noteq> QUEUED \<or> now < j_run_at j \<or> j_id j \<in> set lk)"
    and "fst (claim_next now inst lk t) = None \<Longrightarrow> snd (claim_next now inst lk t) = t"
  using assms
proof (atomize (full), cases rule: claim_next_cases [of t now lk inst])
  case idle
  then show "(fst (claim_next now inst lk t) = None
     \<longleftrightarrow> (\<forall>j\<in>set t. j_status j \<noteq> QUEUED \<or> now < j_run_at j \<or> j_id j \<in> set lk))
     \<and> (fst (claim_next now inst lk t) = None \<longrightarrow> snd (claim_next now inst lk t) = t)"
    by (force simp: claim_select_None claimable_def)
next
  case (claimed r)
  then show "(fst (claim_next now inst lk t) = None
     \<longleftrightarrow> (\<forall>j\<in>set t. j_status j \<noteq> QUEUED \<or> now < j_run_at j \<or> j_id j \<in> set lk))
     \<and> (fst (claim_next now inst lk t) = None \<longrightarrow> snd (claim_next now inst lk t) = t)"
    using claim_select_Some [OF claimed(1)] by (force simp: claimable_def)
qed

subsection \<open>Outcomes of a claimed job\<close>

lemma row_of_complete: "row_of i (complete now i res t)
    = map_option (complete_row now (case res of None \<Rightarrow> [] | Some r \<Rightarrow> r)) (row_of i t)"
  by (simp add: complete_def row_of_with_id_same)

lemma row_of_block: "row_of i (block now i ec err t)
    = map_option (block_row now (code_str ec) (clip_error err)) (row_of i t)"
  by (simp add: block_def row_of_with_id_same)

lemma row_of_defer: "fits_int4 (max 1 m) \<Longrightarrow> row_of i (snd (defer_job now i m ec note t))
    = map_option (defer_row now (code_str ec) (clip_error note) (max 1 m)) (row_of i t)"
  by (simp add: defer_job_def row_of_with_id_same)

text \<open>A failure the queue can record: the last one, or one whose delay is an interval.\<close>

definition retry_fits :: "job \<Rightarrow> bool" where
  "retry_fits j \<longleftrightarrow> fail_max j \<le> fail_attempts j \<or> fits_int4 (backoff_minutes (fail_attempts j))"

lemma row_of_fail: "retry_fits j \<Longrightarrow> row_of (j_id j) (snd (fail now j ec err t))
    = map_option (if fail_attempts j < fail_max j
        then retry_row now (fail_attempts j) (code_str ec) (clip_error err) (backoff_minutes (fail_attempts j))
        else fail_row now (fail_attempts j) (code_str ec) (clip_error err)) (row_of (j_id j) t)"
  by (auto simp: fail_def Let_def row_of_with_id_same retry_fits_def)

lemma fail_raises: "\<not> retry_fits j \<Longrightarrow> fail now j ec err t = (None, t)"
  by (simp add: fail_def Let_def retry_fits_def)

lemma fst_fail: "retry_fits j \<Longrightarrow> fst (fail now j ec err t) = Some (if fail_attempts j < fail_max j then QUEUED else FAILED)"
  by (auto simp: fail_def Let_def retry_fits_def)

lemma backoff_fits: "n \<le> 30 \<Longrightarrow> fits_int4 (backoff_minutes n)"
proof -
  assume "n \<le> 30"
  then have "(2::int) ^ nat n \<le> 2 ^ 30" by (intro power_increasing) simp_all
  moreover have "- 2147483648 \<le> (2::int) ^ nat n" by (rule order_trans [of _ 0]) simp_all
  ultimately show ?thesis by (simp add: fits_int4_def backoff_minutes_def)
qed

lemma backoff_too_big: "31 \<le> n \<Longrightarrow> \<not> fits_int4 (backoff_minutes n)"
proof -
  assume "31 \<le> n"
  then have "(2::int) ^ 31 \<le> 2 ^ nat n" by (intro power_increasing) simp_all
  then show ?thesis by (simp add: fits_int4_def backoff_minutes_def)
qed

lemma retry_fits_small: "fail_max j \<le> 31 \<Longrightarrow> retry_fits j"
  unfolding retry_fits_def using backoff_fits [of "fail_attempts j"] by linarith

lemma length_clip_error: "length (clip_error e) \<le> MAX_ERROR_LEN"
  by (simp add: clip_error_def)

text \<open>Every operation keeps the table well formed.\<close>

lemma jobs_wf_claim: "jobs_wf t \<Longrightarrow> jobs_wf (snd (claim_next now inst lk t))"
  by (auto simp: claim_next_def Let_def jobs_wf_with_id split: option.splits)

lemma jobs_wf_complete: "jobs_wf t \<Longrightarrow> jobs_wf (complete now i res t)"
  by (simp add: complete_def jobs_wf_with_id)

lemma jobs_wf_fail: "jobs_wf t \<Longrightarrow> jobs_wf (snd (fail now j ec err t))"
  by (simp add: fail_def Let_def jobs_wf_with_id)

lemma jobs_wf_block: "jobs_wf t \<Longrightarrow> jobs_wf (block now i ec err t)"
  by (simp add: block_def jobs_wf_with_id)

lemma jobs_wf_defer: "jobs_wf t \<Longrightarrow> jobs_wf (snd (defer_job now i m ec note t))"
  by (simp add: defer_job_def jobs_wf_with_id)

lemma jobs_wf_enqueue: "jobs_wf t \<Longrightarrow> i \<notin> j_id ` set t \<Longrightarrow> jobs_wf (snd (enqueue now i ty p pr ra m t))"
  by (auto simp: enqueue_def jobs_wf_def Let_def)

lemma jobs_wf_recover: "jobs_wf t \<Longrightarrow> jobs_wf (snd (recover_stale inst t))"
  by (simp add: recover_stale_def jobs_wf_upd)

lemmas jobs_wf_ops = jobs_wf_claim jobs_wf_complete jobs_wf_fail jobs_wf_block jobs_wf_defer
  jobs_wf_enqueue jobs_wf_recover

subsection \<open>Retries end\<close>

text \<open>A job that fails over and over: \<open>n\<close> rounds, each of which claims the row the previous one left (after
  a recovery, where that one left it running) and fails.\<close>

fun fail_rounds :: "nat \<Rightarrow> time \<Rightarrow> str \<Rightarrow> str \<Rightarrow> error_code option \<Rightarrow> str option \<Rightarrow> jobs \<Rightarrow> jobs" where
  "fail_rounds 0 now w i ec err t = t"
| "fail_rounds (Suc n) now w i ec err t =
     (let t1 = with_id i (lock_row now w) (fail_rounds n now w i ec err t) in
      case row_of i t1 of None \<Rightarrow> t1 | Some j \<Rightarrow> snd (fail now j ec err t1))"

lemma lock_row_counts [simp]:
  "j_attempts (lock_row now w j) = j_attempts j" "j_max_attempts (lock_row now w j) = j_max_attempts j"
  "fail_attempts (lock_row now w j) = fail_attempts j" "fail_max (lock_row now w j) = fail_max j"
  by (simp_all add: lock_row_def fail_attempts_def fail_max_def)

text \<open>One round.\<close>

lemma fail_round:
  assumes "row_of i (fail_rounds n now w i ec err t) = Some j"
  shows "row_of i (fail_rounds (Suc n) now w i ec err t) = Some
     (if fail_max j \<le> fail_attempts j then fail_row now (fail_attempts j) (code_str ec) (clip_error err) (lock_row now w j)
      else if fits_int4 (backoff_minutes (fail_attempts j))
      then retry_row now (fail_attempts j) (code_str ec) (clip_error err) (backoff_minutes (fail_attempts j)) (lock_row now w j)
      else lock_row now w j)"
proof -
  define t1 where "t1 = with_id i (lock_row now w) (fail_rounds n now w i ec err t)"
  have i: "j_id j = i" using row_of_Some [OF assms] by simp
  have r: "row_of i t1 = Some (lock_row now w j)" by (simp add: t1_def row_of_with_id_same assms)
  have "fail_rounds (Suc n) now w i ec err t = snd (fail now (lock_row now w j) ec err t1)"
    unfolding fail_rounds.simps(2) t1_def [symmetric] Let_def r by simp
  then show ?thesis using r i by (simp add: fail_def Let_def row_of_with_id_same not_less)
qed

lemma fail_rounds_row:
  assumes "row_of i t = Some j" and "int n < fail_max j - j_attempts j" and "j_attempts j + int n \<le> 30"
  shows "\<exists>j'. row_of i (fail_rounds n now w i ec err t) = Some j'
           \<and> j_attempts j' = j_attempts j + int n \<and> j_max_attempts j' = j_max_attempts j
           \<and> (0 < n \<longrightarrow> j_status j' = QUEUED)
           \<and> (0 < n \<longrightarrow> j_run_at j' = now + backoff_minutes (j_attempts j + int n) * minute)"
  using assms(2,3)
proof (induction n)
  case 0
  then show ?case using assms(1) by simp
next
  case (Suc n)
  then obtain j' where j': "row_of i (fail_rounds n now w i ec err t) = Some j'"
      "j_attempts j' = j_attempts j + int n" "j_max_attempts j' = j_max_attempts j"
    by auto
  then have a: "fail_attempts j' = j_attempts j + int (Suc n)" "fail_max j' = fail_max j"
    by (simp_all add: fail_attempts_def fail_max_def)
  have "fits_int4 (backoff_minutes (fail_attempts j'))" unfolding a(1) using Suc.prems(2) by (intro backoff_fits) simp
  then show ?case using fail_round [OF j'(1)] Suc.prems(1) a j'(3) by (simp add: retry_row_def lock_row_def)
qed

text \<open>From the thirty-first attempt on nothing is recorded any more.\<close>

lemma fail_rounds_stuck:
  assumes "row_of i (fail_rounds m now w i ec err t) = Some j" and "j_attempts j = 30" and "31 < fail_max j"
  shows "\<exists>j'. row_of i (fail_rounds (m + Suc n) now w i ec err t) = Some j' \<and> j_status j' = RUNNING
    \<and> j_attempts j' = 30 \<and> fail_max j' = fail_max j"
proof (induction n)
  case 0
  have "\<not> fits_int4 (backoff_minutes (fail_attempts j))" by (rule backoff_too_big) (simp add: fail_attempts_def assms(2))
  then show ?case using fail_round [OF assms(1)] assms(2,3) by (simp add: fail_attempts_def)
next
  case (Suc n)
  then obtain j' where j': "row_of i (fail_rounds (m + Suc n) now w i ec err t) = Some j'" "j_attempts j' = 30" "fail_max j' = fail_max j"
    by blast
  have "\<not> fits_int4 (backoff_minutes (fail_attempts j'))" by (rule backoff_too_big) (simp add: fail_attempts_def j'(2))
  then show ?case using fail_round [OF j'(1)] j' assms(3) by (simp add: fail_attempts_def)
qed

text \<open>C25. Retries back off exponentially, and end for a job of at most 31 attempts: with no attempts yet and
  \<open>max_attempts = m\<close> it is requeued by each of its first \<open>m - 1\<close> failures, \<open>2^n\<close> minutes after the \<open>n\<close>-th, and the
  \<open>m\<close>-th failure makes it failed for good. A job that may be tried more often (the API allows a hundred attempts)
  never fails: the delay of its 31st retry is out of the range of \<open>make_interval\<close>, the statement raises, and each
  further failure leaves it running with thirty attempts counted.\<close>

theorem fail_retries_end:
  assumes "row_of i t = Some j" and "j_attempts j = 0" and "0 < j_max_attempts j"
  shows "(\<forall>n. 0 < n \<and> int n < j_max_attempts j \<and> n \<le> 30 \<longrightarrow>
           (\<exists>j'. row_of i (fail_rounds n now w i ec err t) = Some j' \<and> j_status j' = QUEUED
              \<and> j_attempts j' = int n \<and> j_run_at j' = now + 2 ^ n * minute))
       \<and> (if j_max_attempts j \<le> 31
          then \<exists>j'. row_of i (fail_rounds (nat (j_max_attempts j)) now w i ec err t) = Some j'
              \<and> j_status j' = FAILED \<and> j_attempts j' = j_max_attempts j \<and> j_finished_at j' = Some now
          else \<forall>n. \<exists>j'. row_of i (fail_rounds (31 + n) now w i ec err t) = Some j'
              \<and> j_status j' = RUNNING \<and> j_attempts j' = 30)"
proof (intro conjI)
  have m: "fail_max j = j_max_attempts j" using assms(3) by (simp add: fail_max_def)
  show "\<forall>n. 0 < n \<and> int n < j_max_attempts j \<and> n \<le> 30 \<longrightarrow>
           (\<exists>j'. row_of i (fail_rounds n now w i ec err t) = Some j' \<and> j_status j' = QUEUED
              \<and> j_attempts j' = int n \<and> j_run_at j' = now + 2 ^ n * minute)"
    using fail_rounds_row [OF assms(1)] assms(2) m by (fastforce simp: backoff_minutes_def)
  show "if j_max_attempts j \<le> 31
      then \<exists>j'. row_of i (fail_rounds (nat (j_max_attempts j)) now w i ec err t) = Some j'
          \<and> j_status j' = FAILED \<and> j_attempts j' = j_max_attempts j \<and> j_finished_at j' = Some now
      else \<forall>n. \<exists>j'. row_of i (fail_rounds (31 + n) now w i ec err t) = Some j' \<and> j_status j' = RUNNING \<and> j_attempts j' = 30"
  proof (cases "j_max_attempts j \<le> 31")
    case True
    obtain k where k: "nat (j_max_attempts j) = Suc k" using assms(3) by (cases "nat (j_max_attempts j)") auto
    then have "int k < fail_max j - j_attempts j" "j_attempts j + int k \<le> 30" using assms(2) m True by simp_all
    from fail_rounds_row [OF assms(1) this, of now w ec err] obtain j' where
      j': "row_of i (fail_rounds k now w i ec err t) = Some j'" "j_attempts j' = int k" "j_max_attempts j' = j_max_attempts j"
      using assms(2) by auto
    have "fail_attempts j' = j_max_attempts j" "fail_max j' = j_max_attempts j"
      using j' k assms(3) by (simp_all add: fail_attempts_def fail_max_def)
    then show ?thesis using fail_round [OF j'(1)] True unfolding k by (simp add: fail_row_def)
  next
    case False
    then have "int 30 < fail_max j - j_attempts j" "j_attempts j + int 30 \<le> 30" using assms(2) m by simp_all
    from fail_rounds_row [OF assms(1) this, of now w ec err] obtain j' where
      j': "row_of i (fail_rounds 30 now w i ec err t) = Some j'" "j_attempts j' = 30" "j_max_attempts j' = j_max_attempts j"
      using assms(2) by auto
    then have big: "31 < fail_max j'" using False by (simp add: fail_max_def)
    have "\<exists>j'. row_of i (fail_rounds (31 + n) now w i ec err t) = Some j' \<and> j_status j' = RUNNING \<and> j_attempts j' = 30" for n
      using fail_rounds_stuck [OF j'(1,2) big, of n] unfolding numeral_eq_Suc by (simp del: fail_rounds.simps) blast
    then show ?thesis using False by (simp del: fail_rounds.simps)
  qed
qed

theorem fail_retries_end_witness:
  "let t = [new_job 0 ''a'' ''noop'' [] 100 0 3] in
     (\<exists>j'. row_of ''a'' (fail_rounds 2 7 ''w'' ''a'' None None t) = Some j' \<and> j_status j' = QUEUED
        \<and> j_attempts j' = 2 \<and> j_run_at j' = 7 + 2 ^ 2 * minute)
   \<and> (\<exists>j'. row_of ''a'' (fail_rounds 3 7 ''w'' ''a'' None None t) = Some j' \<and> j_status j' = FAILED)"
proof -
  let ?j = "new_job 0 ''a'' ''noop'' [] 100 0 3"
  have h: "row_of ''a'' [?j] = Some ?j" "j_attempts ?j = 0" "0 < j_max_attempts ?j"
    by (simp_all add: row_of_def new_job_def)
  have m: "j_max_attempts ?j = 3" by (simp add: new_job_def)
  note r = fail_retries_end [OF h, of 7 "''w''" None None, unfolded m]
  have "0 < (2::nat) \<and> int 2 < 3 \<and> (2::nat) \<le> 30" by simp
  with r have "\<exists>j'. row_of ''a'' (fail_rounds 2 7 ''w'' ''a'' None None [?j]) = Some j' \<and> j_status j' = QUEUED
        \<and> j_attempts j' = int 2 \<and> j_run_at j' = 7 + 2 ^ 2 * minute" by blast
  moreover have "nat 3 = 3" by simp
  ultimately show ?thesis using r unfolding Let_def by auto
qed

end
