(* ===== verification/JobApi.thy ===== *)
theory JobApi
  imports Queue
begin

text \<open>
  The job operations of the Agent API, \<open>src/cloudos/api/store.py\<close>: creating, reading,
  listing and cancelling rows of the same table \<open>jobs\<close> the worker consumes. A request
  raises a \<open>CloudOSError\<close> or \<open>NotFound\<close>; an unreachable database
  (\<open>_conn\<close>) is the argument \<open>up\<close> and becomes \<open>DEPENDENCY_UNAVAILABLE\<close>.
  \<open>uuid.UUID\<close> is the argument \<open>canon\<close>: the canonical text of a UUID, or nothing.
\<close>

datatype api_error = ApiError cloud_error | NotFound str

definition db_unavailable :: "str \<Rightarrow> api_error" where
  "db_unavailable cls = ApiError (CloudOSError DEPENDENCY_UNAVAILABLE ''database unavailable''
     [(''reason'', VStr cls)])"

text \<open>\<open>with _conn() as conn\<close>: \<open>Some cls\<close> is the class of the exception the pool raised.\<close>

definition with_conn :: "str option \<Rightarrow> (api_error + 'a) \<Rightarrow> api_error + 'a" where
  "with_conn down body = (case down of Some cls \<Rightarrow> Inl (db_unavailable cls) | None \<Rightarrow> body)"

definition parse_job_id :: "(str \<Rightarrow> str option) \<Rightarrow> str \<Rightarrow> api_error + str" where
  "parse_job_id canon i = (case canon i of
      Some u \<Rightarrow> Inr u
    | None \<Rightarrow> Inl (ApiError (CloudOSError VALIDATION_ERROR ''invalid job id (must be a UUID)''
                 [(''id'', VStr (clip 64 i))])))"

definition create_job ::
  "str option \<Rightarrow> time \<Rightarrow> str \<Rightarrow> str \<Rightarrow> pydict \<Rightarrow> int \<Rightarrow> time option \<Rightarrow> int \<Rightarrow> jobs \<Rightarrow> (api_error + job) \<times> jobs" where
  "create_job down now i ty payload prio run_at maxa t =
     (case down of
        Some cls \<Rightarrow> (Inl (db_unavailable cls), t)
      | None \<Rightarrow> (let j = new_job now i ty payload prio (case run_at of None \<Rightarrow> now | Some r \<Rightarrow> r) maxa
                 in (Inr j, t @ [j])))"

definition get_job :: "(str \<Rightarrow> str option) \<Rightarrow> str option \<Rightarrow> str \<Rightarrow> jobs \<Rightarrow> api_error + job" where
  "get_job canon down i t =
     (case parse_job_id canon i of
        Inl e \<Rightarrow> Inl e
      | Inr u \<Rightarrow> with_conn down
          (case row_of u t of
             None \<Rightarrow> Inl (NotFound (''job '' @ u @ '' not found''))
           | Some j \<Rightarrow> Inr j))"

text \<open>\<open>JobStatus(s)\<close> on a string; \<open>None\<close> is \<open>ValueError\<close>.\<close>

definition ALL_STATUSES :: "job_status list" where
  "ALL_STATUSES = [QUEUED, RUNNING, SUCCEEDED, FAILED, CANCELLED, BLOCKED]"

definition job_status_of :: "str \<Rightarrow> job_status option" where
  "job_status_of s = find (\<lambda>st. job_status_value st = s) ALL_STATUSES"

definition clamp_limit :: "int \<Rightarrow> nat" where
  "clamp_limit n = nat (max 1 (min n 200))"

definition list_jobs ::
  "str option \<Rightarrow> str option \<Rightarrow> str option \<Rightarrow> int \<Rightarrow> jobs \<Rightarrow> api_error + jobs" where
  "list_jobs down status ty limit t =
     (let keep = (\<lambda>st. with_conn down (Inr (take (clamp_limit limit)
              (order_by (\<lambda>j. - j_created_at j)
                (filter (\<lambda>j. (case st of None \<Rightarrow> True | Some s \<Rightarrow> j_status j = s)
                          \<and> (case ty of None \<Rightarrow> True | Some y \<Rightarrow> j_type j = y)) t)))))
      in case status of
           None \<Rightarrow> keep None
         | Some s \<Rightarrow> (case job_status_of s of
               Some st \<Rightarrow> keep (Some st)
             | None \<Rightarrow> Inl (ApiError (CloudOSError VALIDATION_ERROR ''invalid status filter''
                 [(''status'', VStr (clip 64 s)),
                  (''allowed'', VList (map (\<lambda>x. VStr (job_status_value x)) ALL_STATUSES))]))))"

text \<open>\<open>cancel_job\<close>: one guarded update; when it touched no row the job is read again to
  tell a missing job from one that is no longer queued.\<close>

definition cancellable :: "str \<Rightarrow> job \<Rightarrow> bool" where
  "cancellable i j \<longleftrightarrow> j_id j = i \<and> j_status j = QUEUED"

definition cancel_row :: "time \<Rightarrow> job \<Rightarrow> job" where
  "cancel_row now j = j\<lparr>j_status := CANCELLED, j_finished_at := Some now\<rparr>"

definition cancel_job ::
  "(str \<Rightarrow> str option) \<Rightarrow> str option \<Rightarrow> time \<Rightarrow> str \<Rightarrow> jobs \<Rightarrow> (api_error + job) \<times> jobs" where
  "cancel_job canon down now i t =
     (case parse_job_id canon i of
        Inl e \<Rightarrow> (Inl e, t)
      | Inr u \<Rightarrow> (case down of
          Some cls \<Rightarrow> (Inl (db_unavailable cls), t)
        | None \<Rightarrow> (let t' = upd_where (cancellable u) (cancel_row now) t in
            if count_where (cancellable u) t > 0
            then (case row_of u t' of Some j \<Rightarrow> (Inr j, t') | None \<Rightarrow> (Inl (NotFound u), t'))
            else (case get_job canon down u t' of
                Inl e \<Rightarrow> (Inl e, t')
              | Inr cur \<Rightarrow> (Inl (ApiError (CloudOSError VALIDATION_ERROR ''only queued jobs can be cancelled''
                   [(''id'', VStr u), (''status'', VStr (job_status_value (j_status cur)))])), t')))))"

subsection \<open>Facts\<close>

lemma cancel_row_simps [simp]:
  "j_id (cancel_row now j) = j_id j" "j_status (cancel_row now j) = CANCELLED"
  "j_locked_by (cancel_row now j) = j_locked_by j"
  by (simp_all add: cancel_row_def)

lemma cancel_row_wf: "job_wf j \<Longrightarrow> j_status j = QUEUED \<Longrightarrow> job_wf (cancel_row now j)"
  by (auto simp: cancel_row_def job_wf_def terminal_def)

lemma jobs_wf_cancel_rows: "jobs_wf t \<Longrightarrow> jobs_wf (upd_where (cancellable i) (cancel_row now) t)"
  by (auto simp: jobs_wf_def ids_upd_where ball_upd_where cancellable_def cancel_row_wf)

lemma cancel_none: "count_where (cancellable i) t = 0 \<Longrightarrow> upd_where (cancellable i) (cancel_row now) t = t"
  by (auto simp: count_where_0 intro: upd_where_none)

lemma job_status_of_value: "job_status_of (job_status_value s) = Some s"
  by (cases s) (simp_all add: job_status_of_def ALL_STATUSES_def)

lemma row_of_None: "row_of i t = None \<longleftrightarrow> (\<forall>j\<in>set t. j_id j \<noteq> i)"
  unfolding row_of_def by (auto simp: find_None_iff)

lemma row_of_cancel:
  "row_of i (upd_where (cancellable i) (cancel_row now) t)
     = map_option (\<lambda>j. if j_status j = QUEUED then cancel_row now j else j) (row_of i t)"
  unfolding row_of_def by (induction t) (auto simp: cancellable_def)

lemma cancellable_iff_row:
  assumes "distinct (map j_id t)"
  shows "count_where (cancellable i) t > 0 \<longleftrightarrow> (\<exists>j. row_of i t = Some j \<and> j_status j = QUEUED)"
proof -
  have "count_where (cancellable i) t > 0 \<longleftrightarrow> (\<exists>j\<in>set t. cancellable i j)"
    using count_where_0 [of "cancellable i" t] by auto
  also have "\<dots> \<longleftrightarrow> (\<exists>j. row_of i t = Some j \<and> j_status j = QUEUED)"
    using row_of_in [OF assms] row_of_Some [of i t] by (auto simp: cancellable_def)
  finally show ?thesis .
qed

text \<open>Cancelling is decided by the status alone: a queued job becomes cancelled, finished
  now, and is returned; a job in any other status is refused with its status and the table
  stays as it was; an unknown id is not found.\<close>

theorem cancel_job_correct:
  assumes "distinct (map j_id t)" and "canon i = Some u" and "canon u = Some u"
  shows "cancel_job canon None now i t =
    (case row_of u t of
       None \<Rightarrow> (Inl (NotFound (''job '' @ u @ '' not found'')), t)
     | Some j \<Rightarrow> if j_status j = QUEUED
         then (Inr (j\<lparr>j_status := CANCELLED, j_finished_at := Some now\<rparr>),
               upd_where (\<lambda>r. j_id r = u) (\<lambda>r. r\<lparr>j_status := CANCELLED, j_finished_at := Some now\<rparr>) t)
         else (Inl (ApiError (CloudOSError VALIDATION_ERROR ''only queued jobs can be cancelled''
                 [(''id'', VStr u), (''status'', VStr (job_status_value (j_status j)))])), t))"
proof (cases "\<exists>j. row_of u t = Some j \<and> j_status j = QUEUED")
  case True
  then obtain j where j: "row_of u t = Some j" "j_status j = QUEUED" by blast
  have "upd_where (cancellable u) (cancel_row now) t
      = upd_where (\<lambda>r. j_id r = u) (\<lambda>r. r\<lparr>j_status := CANCELLED, j_finished_at := Some now\<rparr>) t"
    unfolding upd_where_def
  proof (rule map_cong [OF refl])
    fix r assume "r \<in> set t"
    then have "j_id r = u \<Longrightarrow> r = j"
      using distinct_key_eq [OF assms(1)] row_of_Some [OF j(1)] by blast
    then show "(if cancellable u r then cancel_row now r else r)
        = (if j_id r = u then r\<lparr>j_status := CANCELLED, j_finished_at := Some now\<rparr> else r)"
      using j(2) by (auto simp: cancellable_def cancel_row_def)
  qed
  moreover have "count_where (cancellable u) t > 0" using cancellable_iff_row [OF assms(1)] j by blast
  moreover have "row_of u (upd_where (cancellable u) (cancel_row now) t)
      = Some (j\<lparr>j_status := CANCELLED, j_finished_at := Some now\<rparr>)"
    by (simp add: row_of_cancel j cancel_row_def)
  ultimately show ?thesis
    unfolding cancel_job_def parse_job_id_def Let_def assms(2) j(1) by (simp add: j(2))
next
  case False
  then have "count_where (cancellable u) t = 0" using cancellable_iff_row [OF assms(1), of u] by auto
  with False cancel_none [of u t now] assms show ?thesis
    by (auto simp: cancel_job_def parse_job_id_def get_job_def with_conn_def Let_def split: option.splits)
qed

theorem cancel_job_correct_witness:
  "fst (cancel_job Some None 9 ''a'' [lock_row 1 ''w'' (new_job 0 ''a'' ''noop'' [] 100 0 3)])
     = Inl (ApiError (CloudOSError VALIDATION_ERROR ''only queued jobs can be cancelled''
         [(''id'', VStr ''a''), (''status'', VStr ''running'')]))"
proof -
  let ?j = "lock_row 1 ''w'' (new_job 0 ''a'' ''noop'' [] 100 0 3)"
  have "distinct (map j_id [?j])" by simp
  moreover have "row_of ''a'' [?j] = Some ?j" by (simp add: row_of_def)
  ultimately show ?thesis using cancel_job_correct [of "[?j]" Some "''a''" "''a''" 9] by simp
qed

end
