(* ===== verification/Db.thy ===== *)
theory Db
  imports JobApi
begin

text \<open>
  The database the worker, the router and the retention pruner share: the tables of
  \<open>db/migrations/001_init.sql\<close> and \<open>002_provider_status.sql\<close> the modelled code reads
  and writes, and the settings of \<open>src/cloudos/config.py\<close> it consults.
\<close>

record event =
  ev_ts :: time
  ev_level :: str
  ev_source :: str
  ev_code :: str
  ev_message :: str
  ev_meta :: pydict

record notification =
  nt_id :: int
  nt_ts :: time
  nt_severity :: str
  nt_code :: str
  nt_message :: str
  nt_meta :: pyv
  nt_delivered :: bool

record agent_run =
  ar_run_id :: str
  ar_job_id :: pyv
  ar_workflow :: str
  ar_model :: "str option"
  ar_level :: "int option"
  ar_started_at :: time
  ar_finished_at :: "time option"
  ar_status :: str
  ar_prompt_tokens :: int
  ar_completion_tokens :: int
  ar_cost_usd :: int
  ar_error_code :: "str option"
  ar_error :: "str option"
  ar_input_hash :: str
  ar_output_hash :: "str option"
  ar_auth_mode :: "str option"

record provider_row =
  pr_provider :: str
  pr_auth_mode :: str
  pr_state :: provider_state
  pr_last_success :: "time option"
  pr_last_auth_validation :: "time option"
  pr_task_count :: int
  pr_last_failure_reason :: "str option"
  pr_cooldown_until :: "time option"
  pr_updated_at :: time

record quota_row =
  qu_provider :: str
  qu_day :: int
  qu_requests :: int
  qu_units :: int

record db =
  d_jobs :: jobs
  d_events :: "event list"
  d_notifications :: "notification list"
  d_runs :: "agent_run list"
  d_providers :: "provider_row list"
  d_quota :: "quota_row list"

definition empty_db :: db where
  "empty_db = \<lparr>d_jobs = [], d_events = [], d_notifications = [], d_runs = [], d_providers = [], d_quota = []\<rparr>"

definition map_jobs :: "(jobs \<Rightarrow> jobs) \<Rightarrow> db \<Rightarrow> db" where
  "map_jobs f d = d\<lparr>d_jobs := f (d_jobs d)\<rparr>"

lemma map_jobs_sel [simp]:
  "d_jobs (map_jobs f d) = f (d_jobs d)" "d_events (map_jobs f d) = d_events d"
  "d_notifications (map_jobs f d) = d_notifications d" "d_runs (map_jobs f d) = d_runs d"
  "d_providers (map_jobs f d) = d_providers d" "d_quota (map_jobs f d) = d_quota d"
  by (simp_all add: map_jobs_def)

end
