(* ===== verification/Config.thy ===== *)
theory Config
  imports Contracts
begin

text \<open>
  \<open>src/cloudos/config.py\<close>: the helpers that read the environment and the settings the
  modelled components consult. The environment is the map \<open>env\<close>; \<open>REPO_ROOT\<close> and
  \<open>pathlib\<close>'s path join are the arguments \<open>repo\<close> and \<open>pjoin\<close>, an absolute path
  being one \<open>pabs\<close> accepts.
\<close>

type_synonym environ = "str \<rightharpoonup> str"

definition cfg_bool :: "environ \<Rightarrow> str \<Rightarrow> bool \<Rightarrow> bool" where
  "cfg_bool env name dflt = (case env name of
      None \<Rightarrow> dflt
    | Some v \<Rightarrow> py_lower (py_strip v) \<in> {''1'', ''true'', ''yes'', ''on''})"

definition cfg_int :: "environ \<Rightarrow> str \<Rightarrow> int \<Rightarrow> int" where
  "cfg_int env name dflt = (case env name of
      None \<Rightarrow> dflt
    | Some v \<Rightarrow> if py_strip v = [] then dflt else (case py_int v of None \<Rightarrow> dflt | Some n \<Rightarrow> n))"

definition cfg_str :: "environ \<Rightarrow> str \<Rightarrow> str \<Rightarrow> str" where
  "cfg_str env name dflt = (case env name of None \<Rightarrow> dflt | Some v \<Rightarrow> v)"

fun first_str :: "environ \<Rightarrow> str list \<Rightarrow> str \<Rightarrow> str" where
  "first_str env [] dflt = dflt"
| "first_str env (n # ns) dflt =
     (let v = cfg_str env n [] in if py_strip v \<noteq> [] then v else first_str env ns dflt)"

fun first_int :: "environ \<Rightarrow> str list \<Rightarrow> int \<Rightarrow> int" where
  "first_int env [] dflt = dflt"
| "first_int env (n # ns) dflt =
     (let v = cfg_str env n [] in
      if py_strip v \<noteq> [] then (case py_int (py_strip v) of Some i \<Rightarrow> i | None \<Rightarrow> first_int env ns dflt)
      else first_int env ns dflt)"

definition cfg_path :: "(str \<Rightarrow> bool) \<Rightarrow> (str \<Rightarrow> str \<Rightarrow> str) \<Rightarrow> str \<Rightarrow> environ \<Rightarrow> str \<Rightarrow> str \<Rightarrow> str" where
  "cfg_path pabs pjoin repo env name dflt = (case env name of
      None \<Rightarrow> dflt
    | Some v \<Rightarrow> if py_strip v = [] then dflt
        else (let p = py_strip v in if pabs p then p else pjoin repo p))"

record settings =
  s_environment :: str
  s_instance_name :: str
  s_database_url :: str
  s_agent_api_token :: str
  s_poll_interval_seconds :: int
  s_agent_run_retention_days :: int
  s_event_retention_days :: int
  s_completed_job_retention_days :: int
  s_failed_job_retention_days :: int
  s_retention_dry_run :: bool
  s_allow_paid_ai :: bool
  s_allow_paid_infrastructure :: bool
  s_max_daily_paid_ai_usd :: int
  s_max_monthly_paid_ai_usd :: int
  s_subscription_providers :: "str list"
  s_retry_after_quota_minutes :: int
  s_retry_after_auth_minutes :: int
  s_cli_timeout_seconds :: int
  s_claude_cli_bin :: str
  s_codex_cli_bin :: str
  s_codex_workspace :: str
  s_gemini_cli_bin :: str
  s_claude_cli_model :: str
  s_privacy_config_path :: str
  s_smtp_host :: str
  s_smtp_port :: int
  s_smtp_username :: str
  s_smtp_password :: str
  s_email_from_name :: str
  s_email_from_address :: str
  s_email_send_enabled :: bool
  s_email_outbox_path :: str
  s_notify_webhook_url :: str

text \<open>The mailbox selection at the head of \<open>get_settings\<close>: the Hostinger endpoint is used
  with the complete Hostinger credential pair, otherwise the \<open>SMTP_*\<close> fallback as a whole.
  The result is host, port, user, password.\<close>

definition use_hostinger :: "environ \<Rightarrow> bool" where
  "use_hostinger env \<longleftrightarrow> first_str env [''HOSTINGER_SMTP_USERNAME''] [] \<noteq> []
      \<and> first_str env [''HOSTINGER_SMTP_PASSWORD''] [] \<noteq> []"

definition mailbox_settings :: "environ \<Rightarrow> str \<times> int \<times> str \<times> str" where
  "mailbox_settings env =
     (if use_hostinger env
      then (first_str env [''HOSTINGER_SMTP_HOST''] ''smtp.hostinger.com'',
            first_int env [''HOSTINGER_SMTP_PORT''] 465,
            first_str env [''HOSTINGER_SMTP_USERNAME''] [], first_str env [''HOSTINGER_SMTP_PASSWORD''] [])
      else (first_str env [''SMTP_HOST''] ''smtp.hostinger.com'', first_int env [''SMTP_PORT''] 465,
            first_str env [''SMTP_USER''] [], first_str env [''SMTP_PASS''] []))"

definition KNOWN_PROVIDERS :: "str list" where
  "KNOWN_PROVIDERS = [''claude'', ''codex'', ''gemini'']"

definition providers_setting :: "environ \<Rightarrow> str list" where
  "providers_setting env =
     map py_strip (filter (\<lambda>p. py_strip p \<in> set KNOWN_PROVIDERS)
       (split_on CHR '','' (cfg_str env ''SUBSCRIPTION_PROVIDERS'' ''claude,codex,gemini'')))"

definition get_settings ::
  "(str \<Rightarrow> bool) \<Rightarrow> (str \<Rightarrow> str \<Rightarrow> str) \<Rightarrow> str \<Rightarrow> environ \<Rightarrow> settings" where
  "get_settings pabs pjoin repo env =
     (case mailbox_settings env of (host, port, user, pw) \<Rightarrow>
      \<lparr>s_environment = cfg_str env ''ENVIRONMENT'' ''local'',
       s_instance_name = cfg_str env ''INSTANCE_NAME'' ''cloudos-local'',
       s_database_url = cfg_str env ''DATABASE_URL'' [],
       s_agent_api_token = cfg_str env ''AGENT_API_TOKEN'' [],
       s_poll_interval_seconds = cfg_int env ''WORKER_POLL_INTERVAL_SECONDS'' 5,
       s_agent_run_retention_days = cfg_int env ''AGENT_RUN_RETENTION_DAYS'' 14,
       s_event_retention_days = cfg_int env ''EVENT_RETENTION_DAYS'' 7,
       s_completed_job_retention_days = cfg_int env ''COMPLETED_JOB_RETENTION_DAYS'' 7,
       s_failed_job_retention_days = cfg_int env ''FAILED_JOB_RETENTION_DAYS'' 30,
       s_retention_dry_run = cfg_bool env ''RETENTION_DRY_RUN'' False,
       s_allow_paid_ai = cfg_bool env ''ALLOW_PAID_AI'' False,
       s_allow_paid_infrastructure = cfg_bool env ''ALLOW_PAID_INFRASTRUCTURE'' False,
       s_max_daily_paid_ai_usd = 0,
       s_max_monthly_paid_ai_usd = 0,
       s_subscription_providers = providers_setting env,
       s_retry_after_quota_minutes = cfg_int env ''AI_RETRY_AFTER_QUOTA_MINUTES'' 60,
       s_retry_after_auth_minutes = cfg_int env ''AI_RETRY_AFTER_AUTH_MINUTES'' 240,
       s_cli_timeout_seconds = cfg_int env ''CLI_TIMEOUT_SECONDS'' 300,
       s_claude_cli_bin = cfg_str env ''CLAUDE_CLI_BIN'' ''claude'',
       s_codex_cli_bin = cfg_str env ''CODEX_CLI_BIN'' ''codex'',
       s_codex_workspace = cfg_path pabs pjoin repo env ''CODEX_WORKSPACE'' repo,
       s_gemini_cli_bin = cfg_str env ''GEMINI_CLI_BIN'' ''gemini'',
       s_claude_cli_model = cfg_str env ''CLAUDE_CLI_MODEL'' [],
       s_privacy_config_path = cfg_path pabs pjoin repo env ''PRIVACY_CONFIG_PATH''
         (pjoin (pjoin repo ''config'') ''privacy.yaml''),
       s_smtp_host = host, s_smtp_port = port, s_smtp_username = user, s_smtp_password = pw,
       s_email_from_name = first_str env [''EMAIL_FROM_NAME'', ''SMTP_FROM_NAME''] [],
       s_email_from_address = first_str env [''EMAIL_FROM_ADDRESS'', ''SMTP_FROM_EMAIL''] [],
       s_email_send_enabled = cfg_bool env ''EMAIL_SEND_ENABLED'' False,
       s_email_outbox_path = cfg_path pabs pjoin repo env ''EMAIL_OUTBOX_PATH'' (pjoin repo ''email_outbox''),
       s_notify_webhook_url = cfg_str env ''NOTIFY_WEBHOOK_URL'' []\<rparr>)"

subsection \<open>Facts\<close>

lemma providers_setting_known: "set (providers_setting env) \<subseteq> set KNOWN_PROVIDERS"
  by (auto simp: providers_setting_def)

text \<open>The four mailbox fields come from these four variables.\<close>

definition mailbox_from :: "environ \<Rightarrow> settings \<Rightarrow> str \<Rightarrow> str \<Rightarrow> str \<Rightarrow> str \<Rightarrow> bool" where
  "mailbox_from env s h p u w \<longleftrightarrow>
     s_smtp_host s = first_str env [h] ''smtp.hostinger.com'' \<and> s_smtp_port s = first_int env [p] 465
   \<and> s_smtp_username s = first_str env [u] [] \<and> s_smtp_password s = first_str env [w] []"

lemma mailbox_settings_cases:
  "mailbox_settings env = (host, port, user, pw) \<Longrightarrow>
     (host = first_str env [''HOSTINGER_SMTP_HOST''] ''smtp.hostinger.com''
        \<and> port = first_int env [''HOSTINGER_SMTP_PORT''] 465
        \<and> user = first_str env [''HOSTINGER_SMTP_USERNAME''] [] \<and> pw = first_str env [''HOSTINGER_SMTP_PASSWORD''] [])
   \<or> (host = first_str env [''SMTP_HOST''] ''smtp.hostinger.com'' \<and> port = first_int env [''SMTP_PORT''] 465
        \<and> user = first_str env [''SMTP_USER''] [] \<and> pw = first_str env [''SMTP_PASS''] [])"
  by (cases "use_hostinger env") (simp_all only: mailbox_settings_def if_True if_False prod.inject simp_thms)

text \<open>Whatever the environment says, no setting raises a paid budget, only the three
  subscription CLIs can be enabled, and the mailbox is taken as a whole: the credentials sent
  to the selected host come from the same family of variables as the host and the port.\<close>

theorem settings_mailbox_whole:
  "let s = get_settings pabs pjoin repo env in
     s_max_daily_paid_ai_usd s = 0 \<and> s_max_monthly_paid_ai_usd s = 0
   \<and> set (s_subscription_providers s) \<subseteq> {''claude'', ''codex'', ''gemini''}
   \<and> (mailbox_from env s ''HOSTINGER_SMTP_HOST'' ''HOSTINGER_SMTP_PORT'' ''HOSTINGER_SMTP_USERNAME'' ''HOSTINGER_SMTP_PASSWORD''
      \<or> mailbox_from env s ''SMTP_HOST'' ''SMTP_PORT'' ''SMTP_USER'' ''SMTP_PASS'')"
proof -
  obtain h p u w where m: "mailbox_settings env = (h, p, u, w)" by (cases "mailbox_settings env") auto
  let ?s = "get_settings pabs pjoin repo env"
  have "set (s_subscription_providers ?s) \<subseteq> {''claude'', ''codex'', ''gemini''}"
    using providers_setting_known [of env] by (simp only: get_settings_def m prod.case settings.simps KNOWN_PROVIDERS_def list.set)
  moreover have "s_max_daily_paid_ai_usd ?s = 0" "s_max_monthly_paid_ai_usd ?s = 0"
    by (simp_all only: get_settings_def m prod.case settings.simps)
  moreover have "s_smtp_host ?s = h" "s_smtp_port ?s = p" "s_smtp_username ?s = u" "s_smtp_password ?s = w"
    by (simp_all only: get_settings_def m prod.case settings.simps)
  ultimately show ?thesis
    using mailbox_settings_cases [OF m] unfolding mailbox_from_def Let_def by (simp only: simp_thms)
qed

end
