(* ===== verification/Retention.thy ===== *)
theory Retention
  imports Db Config
begin

text \<open>
  Retention pruning, \<open>src/cloudos/worker/retention.py\<close>. \<open>prune\<close> counts what is due,
  writes one metrics event, and then, unless it is a dry run, deletes target by target. The
  statements the code lets fail are arguments: \<open>ev_ok\<close> for the metrics event and
  \<open>del_ok\<close> per target; \<open>now0\<close> is \<open>now()\<close> of the counting transaction and
  \<open>clk\<close> that of each delete.
\<close>

datatype target = Jobs_completed | Jobs_failed | Agent_runs | Events | Notifications

definition targets :: "target list" where
  "targets = [Jobs_completed, Jobs_failed, Agent_runs, Events, Notifications]"

fun target_name :: "target \<Rightarrow> str" where
  "target_name Jobs_completed = ''jobs_completed''"
| "target_name Jobs_failed = ''jobs_failed''"
| "target_name Agent_runs = ''agent_runs''"
| "target_name Events = ''events''"
| "target_name Notifications = ''notifications''"

fun target_days :: "settings \<Rightarrow> target \<Rightarrow> int" where
  "target_days s Jobs_completed = s_completed_job_retention_days s"
| "target_days s Jobs_failed = s_failed_job_retention_days s"
| "target_days s Agent_runs = s_agent_run_retention_days s"
| "target_days s Events = s_event_retention_days s"
| "target_days s Notifications = s_event_retention_days s"

text \<open>The \<open>WHERE\<close> clauses; a comparison with \<open>NULL\<close> does not select the row.\<close>

definition older :: "time option \<Rightarrow> time \<Rightarrow> int \<Rightarrow> bool" where
  "older x now days = (case x of None \<Rightarrow> False | Some f \<Rightarrow> f < now - days * day)"

definition due_completed :: "time \<Rightarrow> int \<Rightarrow> job \<Rightarrow> bool" where
  "due_completed now days j \<longleftrightarrow> j_status j \<in> {SUCCEEDED, CANCELLED} \<and> older (j_finished_at j) now days"

definition due_failed :: "time \<Rightarrow> int \<Rightarrow> job \<Rightarrow> bool" where
  "due_failed now days j \<longleftrightarrow> j_status j = FAILED \<and> older (j_finished_at j) now days"

definition due_run :: "time \<Rightarrow> int \<Rightarrow> agent_run \<Rightarrow> bool" where
  "due_run now days r \<longleftrightarrow>
     older (case ar_finished_at r of Some f \<Rightarrow> Some f | None \<Rightarrow> Some (ar_started_at r)) now days"

definition due_event :: "time \<Rightarrow> int \<Rightarrow> event \<Rightarrow> bool" where
  "due_event now days e \<longleftrightarrow> older (Some (ev_ts e)) now days"

definition due_notification :: "time \<Rightarrow> int \<Rightarrow> notification \<Rightarrow> bool" where
  "due_notification now days n \<longleftrightarrow> nt_delivered n \<and> older (Some (nt_ts n)) now days"

fun due_count :: "time \<Rightarrow> int \<Rightarrow> target \<Rightarrow> db \<Rightarrow> nat" where
  "due_count now days Jobs_completed d = count_where (due_completed now days) (d_jobs d)"
| "due_count now days Jobs_failed d = count_where (due_failed now days) (d_jobs d)"
| "due_count now days Agent_runs d = count_where (due_run now days) (d_runs d)"
| "due_count now days Events d = count_where (due_event now days) (d_events d)"
| "due_count now days Notifications d = count_where (due_notification now days) (d_notifications d)"

fun due_delete :: "time \<Rightarrow> int \<Rightarrow> target \<Rightarrow> db \<Rightarrow> db" where
  "due_delete now days Jobs_completed d = d\<lparr>d_jobs := del_where (due_completed now days) (d_jobs d)\<rparr>"
| "due_delete now days Jobs_failed d = d\<lparr>d_jobs := del_where (due_failed now days) (d_jobs d)\<rparr>"
| "due_delete now days Agent_runs d = d\<lparr>d_runs := del_where (due_run now days) (d_runs d)\<rparr>"
| "due_delete now days Events d = d\<lparr>d_events := del_where (due_event now days) (d_events d)\<rparr>"
| "due_delete now days Notifications d =
     d\<lparr>d_notifications := del_where (due_notification now days) (d_notifications d)\<rparr>"

text \<open>One report entry: selected, deleted, failures.\<close>

record tally =
  ta_selected :: nat
  ta_deleted :: nat
  ta_failures :: nat

type_synonym report = "(target \<times> tally) list"

definition metrics_meta :: "settings \<Rightarrow> bool \<Rightarrow> report \<Rightarrow> pydict" where
  "metrics_meta s dry rep =
     [(''dry_run'', VBool dry),
      (''selected'', VDict (map (\<lambda>(t, ta). (target_name t, VInt (int (ta_selected ta)))) rep)),
      (''retention_days'', VDict
        [(''agent_runs'', VInt (s_agent_run_retention_days s)), (''events'', VInt (s_event_retention_days s)),
         (''completed_jobs'', VInt (s_completed_job_retention_days s)),
         (''failed_jobs'', VInt (s_failed_job_retention_days s))])]"

definition total_selected :: "report \<Rightarrow> nat" where
  "total_selected rep = sum_list (map (\<lambda>(t, ta). ta_selected ta) rep)"

definition metrics_event :: "time \<Rightarrow> settings \<Rightarrow> bool \<Rightarrow> report \<Rightarrow> event" where
  "metrics_event now s dry rep = \<lparr>ev_ts = now, ev_level = ''info'', ev_source = ''worker.retention'',
     ev_code = ''RETENTION_METRICS'',
     ev_message = ''retention prune ('' @ (if dry then ''dry-run'' else ''live'') @ ''): ''
       @ show_nat (total_selected rep) @ '' row(s) selected'',
     ev_meta = metrics_meta s dry rep\<rparr>"

text \<open>The count phase, the delete of one target and the delete phase.\<close>

definition count_targets :: "time \<Rightarrow> settings \<Rightarrow> db \<Rightarrow> report" where
  "count_targets now0 s d =
     map (\<lambda>t. (t, \<lparr>ta_selected = due_count now0 (target_days s t) t d, ta_deleted = 0, ta_failures = 0\<rparr>)) targets"

definition delete_target ::
  "(target \<Rightarrow> time) \<Rightarrow> settings \<Rightarrow> (target \<Rightarrow> bool) \<Rightarrow> target \<times> tally \<Rightarrow> db \<Rightarrow> (target \<times> tally) \<times> db" where
  "delete_target clk s del_ok e d =
     (case e of (t, ta) \<Rightarrow>
        if del_ok t
        then ((t, ta\<lparr>ta_deleted := due_count (clk t) (target_days s t) t d\<rparr>),
              due_delete (clk t) (target_days s t) t d)
        else ((t, ta\<lparr>ta_failures := ta_failures ta + 1\<rparr>), d))"

fun delete_targets ::
  "(target \<Rightarrow> time) \<Rightarrow> settings \<Rightarrow> (target \<Rightarrow> bool) \<Rightarrow> report \<Rightarrow> db \<Rightarrow> report \<times> db" where
  "delete_targets clk s del_ok [] d = ([], d)"
| "delete_targets clk s del_ok (e # es) d =
     (case delete_target clk s del_ok e d of
        (e', d') \<Rightarrow> (case delete_targets clk s del_ok es d' of (es', d'') \<Rightarrow> (e' # es', d'')))"

definition prune_with ::
  "time \<Rightarrow> (target \<Rightarrow> time) \<Rightarrow> settings \<Rightarrow> bool \<Rightarrow> (target \<Rightarrow> bool) \<Rightarrow> bool \<Rightarrow> db \<Rightarrow> report \<times> db" where
  "prune_with now0 clk s ev_ok del_ok dry d =
     (let rep = count_targets now0 s d;
          d1 = (if ev_ok then d\<lparr>d_events := d_events d @ [metrics_event now0 s dry rep]\<rparr> else d)
      in if dry then (rep, d1) else delete_targets clk s del_ok rep d1)"

definition prune ::
  "time \<Rightarrow> (target \<Rightarrow> time) \<Rightarrow> settings \<Rightarrow> bool \<Rightarrow> (target \<Rightarrow> bool) \<Rightarrow> bool option \<Rightarrow> db \<Rightarrow> report \<times> db" where
  "prune now0 clk s ev_ok del_ok dry_run d =
     prune_with now0 clk s ev_ok del_ok
       (case dry_run of None \<Rightarrow> s_retention_dry_run s | Some b \<Rightarrow> b) d"

subsection \<open>What a prune can remove\<close>

definition removable :: "(target \<Rightarrow> time) \<Rightarrow> settings \<Rightarrow> job \<Rightarrow> bool" where
  "removable clk s j \<longleftrightarrow>
     (\<exists>f. j_finished_at j = Some f
        \<and> (j_status j \<in> {SUCCEEDED, CANCELLED} \<and> f < clk Jobs_completed - s_completed_job_retention_days s * day
           \<or> j_status j = FAILED \<and> f < clk Jobs_failed - s_failed_job_retention_days s * day))"

lemma due_removable:
  "due_completed (clk Jobs_completed) (s_completed_job_retention_days s) j \<Longrightarrow> removable clk s j"
  "due_failed (clk Jobs_failed) (s_failed_job_retention_days s) j \<Longrightarrow> removable clk s j"
  by (auto simp: due_completed_def due_failed_def removable_def older_def split: option.splits)

lemma delete_target_jobs:
  "set (d_jobs (snd (delete_target clk s del_ok e d))) \<subseteq> set (d_jobs d)
   \<and> {j \<in> set (d_jobs d). \<not> removable clk s j} \<subseteq> set (d_jobs (snd (delete_target clk s del_ok e d)))"
proof (cases e)
  case (Pair t ta)
  then show ?thesis
    by (cases t) (auto simp: delete_target_def set_del_where intro: due_removable)
qed

lemma delete_targets_jobs:
  "set (d_jobs (snd (delete_targets clk s del_ok es d))) \<subseteq> set (d_jobs d)
   \<and> {j \<in> set (d_jobs d). \<not> removable clk s j} \<subseteq> set (d_jobs (snd (delete_targets clk s del_ok es d)))"
proof (induction es arbitrary: d)
  case (Cons e es)
  obtain e' d' where e: "delete_target clk s del_ok e d = (e', d')" by (rule prod.exhaust)
  with delete_target_jobs [of clk s del_ok e d] Cons [of d'] show ?case
    by (fastforce split: prod.splits)
qed simp

text \<open>Pruning removes nothing but jobs that reached a terminal state longer ago than
  their retention window, whichever of its statements fail; queued, running and blocked jobs
  stay, and a dry run removes no job at all.\<close>

theorem prune_only_removes_old_terminal_jobs:
  "set (d_jobs (snd (prune now0 clk s ev_ok del_ok dry d))) \<subseteq> set (d_jobs d)
   \<and> {j \<in> set (d_jobs d). \<not> removable clk s j} \<subseteq> set (d_jobs (snd (prune now0 clk s ev_ok del_ok dry d)))
   \<and> {j \<in> set (d_jobs d). j_status j \<in> {QUEUED, RUNNING, BLOCKED}}
        \<subseteq> set (d_jobs (snd (prune now0 clk s ev_ok del_ok dry d)))
   \<and> d_jobs (snd (prune now0 clk s ev_ok del_ok (Some True) d)) = d_jobs d"
proof -
  let ?d1 = "if ev_ok then d\<lparr>d_events := d_events d @ [metrics_event now0 s False (count_targets now0 s d)]\<rparr> else d"
  have sub: "set (d_jobs (snd (prune now0 clk s ev_ok del_ok dry d))) \<subseteq> set (d_jobs d)
      \<and> {j \<in> set (d_jobs d). \<not> removable clk s j} \<subseteq> set (d_jobs (snd (prune now0 clk s ev_ok del_ok dry d)))"
    using delete_targets_jobs [of clk s del_ok "count_targets now0 s d" ?d1]
    by (auto simp: prune_def prune_with_def Let_def)
  moreover have "{j. j_status j \<in> {QUEUED, RUNNING, BLOCKED}} \<subseteq> {j. \<not> removable clk s j}"
    by (auto simp: removable_def)
  moreover have "d_jobs (snd (prune now0 clk s ev_ok del_ok (Some True) d)) = d_jobs d"
    by (simp add: prune_def prune_with_def Let_def)
  ultimately show ?thesis by blast
qed

subsection \<open>The report counts what was removed\<close>

definition db_size :: "db \<Rightarrow> nat" where
  "db_size d = length (d_jobs d) + length (d_runs d) + length (d_events d) + length (d_notifications d)"

definition total_deleted :: "report \<Rightarrow> nat" where
  "total_deleted rep = sum_list (map (\<lambda>(t, ta). ta_deleted ta) rep)"

lemma delete_target_size:
  assumes "ta_deleted ta = 0" and "delete_target clk s del_ok (t, ta) d = ((t', ta'), d')"
  shows "db_size d = db_size d' + ta_deleted ta'"
proof (cases "del_ok t")
  case True
  then have "ta_deleted ta' = due_count (clk t) (target_days s t) t d"
    "d' = due_delete (clk t) (target_days s t) t d"
    using assms(2) by (auto simp: delete_target_def)
  then show ?thesis
    by (cases t) (simp_all add: db_size_def length_del_where [symmetric])
qed (use assms in \<open>auto simp: delete_target_def\<close>)

lemma delete_targets_size:
  "(\<forall>(t, ta) \<in> set es. ta_deleted ta = 0) \<Longrightarrow> delete_targets clk s del_ok es d = (es', d')
     \<Longrightarrow> db_size d = db_size d' + total_deleted es'"
proof (induction es arbitrary: d es' d')
  case (Cons e es)
  obtain t ta where e: "e = (t, ta)" by force
  obtain t1 ta1 d1 where 1: "delete_target clk s del_ok e d = ((t1, ta1), d1)"
    by (metis prod.exhaust)
  obtain es2 d2 where 2: "delete_targets clk s del_ok es d1 = (es2, d2)" by force
  have "ta_deleted ta = 0" using Cons.prems(1) e by simp
  then have "db_size d = db_size d1 + ta_deleted ta1" using delete_target_size 1 e by blast
  moreover have "db_size d1 = db_size d2 + total_deleted es2"
    using Cons.IH [OF _ 2] Cons.prems(1) by simp
  ultimately show ?case using Cons.prems(2) 1 2 by (auto simp: total_deleted_def)
qed (simp add: total_deleted_def)

text \<open>The report is exact: a live prune whose metrics event was written leaves exactly as
  many rows fewer as the report says were deleted, beside the one event it added.\<close>

theorem prune_report_exact:
  "case prune now0 clk s True del_ok (Some False) d of
     (rep, d') \<Rightarrow> db_size d + 1 = db_size d' + total_deleted rep"
proof -
  let ?rep = "count_targets now0 s d"
  let ?d1 = "d\<lparr>d_events := d_events d @ [metrics_event now0 s False ?rep]\<rparr>"
  obtain rep d' where r: "delete_targets clk s del_ok ?rep ?d1 = (rep, d')" by force
  have "\<forall>(t, ta) \<in> set ?rep. ta_deleted ta = 0" by (auto simp: count_targets_def)
  then have "db_size ?d1 = db_size d' + total_deleted rep" using delete_targets_size r by blast
  then show ?thesis using r by (simp add: prune_def prune_with_def Let_def db_size_def)
qed

end
