(* ===== verification/QueueSystem.thy ===== *)
theory QueueSystem
  imports Retention
begin

text \<open>
  Many workers on one table. A claim is two steps of one transaction, the locking select and
  the update that commits, and any other worker, the API or the pruner may act between them.
  The state adds to the table what each worker process holds: the row its open claim has
  locked (\<open>q_sel\<close>) and the job it is processing (\<open>q_run\<close>). A worker is named by its
  instance name, which the deployment keeps distinct per process; a restarted process is the
  same worker with its held state lost.
\<close>

record qsys =
  q_jobs :: jobs
  q_sel :: "str \<rightharpoonup> str"
  q_run :: "str \<rightharpoonup> str"

definition qinit :: qsys where
  "qinit = \<lparr>q_jobs = [], q_sel = Map.empty, q_run = Map.empty\<rparr>"

inductive qstep :: "qsys \<Rightarrow> qsys \<Rightarrow> bool" where
  enqueue: "i \<notin> j_id ` set (q_jobs s) \<Longrightarrow>
     qstep s (s\<lparr>q_jobs := snd (enqueue now i ty p pr ra m (q_jobs s))\<rparr>)"
| select: "q_sel s w = None \<Longrightarrow> q_run s w = None \<Longrightarrow> set lk = ran (q_sel s) \<Longrightarrow>
     claim_select now lk (q_jobs s) = Some r \<Longrightarrow> qstep s (s\<lparr>q_sel := (q_sel s)(w \<mapsto> j_id r)\<rparr>)"
| commit: "q_sel s w = Some i \<Longrightarrow>
     qstep s (s\<lparr>q_jobs := with_id i (lock_row now w) (q_jobs s), q_sel := (q_sel s)(w := None),
               q_run := (q_run s)(w \<mapsto> i)\<rparr>)"
| complete: "q_run s w = Some i \<Longrightarrow>
     qstep s (s\<lparr>q_jobs := complete now i res (q_jobs s), q_run := (q_run s)(w := None)\<rparr>)"
| fail: "q_run s w = Some (j_id j) \<Longrightarrow>
     qstep s (s\<lparr>q_jobs := snd (fail now j ec err (q_jobs s)), q_run := (q_run s)(w := None)\<rparr>)"
| block: "q_run s w = Some i \<Longrightarrow>
     qstep s (s\<lparr>q_jobs := block now i ec err (q_jobs s), q_run := (q_run s)(w := None)\<rparr>)"
| deferred: "q_run s w = Some i \<Longrightarrow>
     qstep s (s\<lparr>q_jobs := snd (defer_job now i m ec err (q_jobs s)), q_run := (q_run s)(w := None)\<rparr>)"
| crash: "qstep s (s\<lparr>q_sel := (q_sel s)(w := None), q_run := (q_run s)(w := None)\<rparr>)"
| recover: "q_sel s w = None \<Longrightarrow> q_run s w = None \<Longrightarrow>
     qstep s (s\<lparr>q_jobs := snd (recover_stale w (q_jobs s))\<rparr>)"
| cancel: "i \<notin> ran (q_sel s) \<Longrightarrow>
     qstep s (s\<lparr>q_jobs := upd_where (cancellable i) (cancel_row now) (q_jobs s)\<rparr>)"
| prune: "\<forall>j\<in>set (q_jobs s). p j \<longrightarrow> terminal (j_status j) \<Longrightarrow>
     qstep s (s\<lparr>q_jobs := del_where p (q_jobs s)\<rparr>)"

inductive qreach :: "qsys \<Rightarrow> bool" where
  init: "qreach qinit"
| step: "qreach s \<Longrightarrow> qstep s s' \<Longrightarrow> qreach s'"

text \<open>The pruner's job targets are such deletes.\<close>

lemma due_terminal: "due_completed now n j \<Longrightarrow> terminal (j_status j)" "due_failed now n j \<Longrightarrow> terminal (j_status j)"
  by (auto simp: due_completed_def due_failed_def terminal_def)

subsection \<open>The invariant\<close>

text \<open>Open selections are of distinct queued rows; a job in process is the running row that is
  locked by its worker.\<close>

definition sel_ok :: "qsys \<Rightarrow> bool" where
  "sel_ok s \<longleftrightarrow> (\<forall>w i. q_sel s w = Some i \<longrightarrow> (\<exists>r\<in>set (q_jobs s). j_id r = i \<and> j_status r = QUEUED))
     \<and> (\<forall>w w' i. q_sel s w = Some i \<longrightarrow> q_sel s w' = Some i \<longrightarrow> w = w')
     \<and> (\<forall>w. q_sel s w \<noteq> None \<longrightarrow> q_run s w = None)"

definition run_ok :: "qsys \<Rightarrow> bool" where
  "run_ok s \<longleftrightarrow> (\<forall>w i. q_run s w = Some i \<longrightarrow>
     (\<exists>r\<in>set (q_jobs s). j_id r = i \<and> j_status r = RUNNING \<and> j_locked_by r = Some w))"

definition qinv :: "qsys \<Rightarrow> bool" where
  "qinv s \<longleftrightarrow> jobs_wf (q_jobs s) \<and> sel_ok s \<and> run_ok s"

lemma qinv_distinct: "qinv s \<Longrightarrow> distinct (map j_id (q_jobs s))"
  by (simp add: qinv_def jobs_wf_def)

lemma qinv_selD:
  "qinv s \<Longrightarrow> q_sel s w = Some i \<Longrightarrow> \<exists>r\<in>set (q_jobs s). j_id r = i \<and> j_status r = QUEUED"
  unfolding qinv_def sel_ok_def by blast

lemma qinv_sel_injD: "qinv s \<Longrightarrow> q_sel s w = Some i \<Longrightarrow> q_sel s w' = Some i \<Longrightarrow> w = w'"
  unfolding qinv_def sel_ok_def by blast

lemma qinv_runD:
  "qinv s \<Longrightarrow> q_run s w = Some i \<Longrightarrow>
     \<exists>r\<in>set (q_jobs s). j_id r = i \<and> j_status r = RUNNING \<and> j_locked_by r = Some w"
  unfolding qinv_def run_ok_def by blast

lemma qinv_init: "qinv qinit"
  by (simp add: qinv_def qinit_def jobs_wf_def sel_ok_def run_ok_def)

text \<open>A change of row \<open>i\<close> alone keeps the invariant when no open selection is on \<open>i\<close> and
  whoever runs \<open>i\<close> lets go of it.\<close>

lemma qinv_change_row:
  assumes inv: "qinv s" and ids: "\<And>j. j_id (f j) = j_id j" and wf: "\<And>j. job_wf (f j)"
    and run: "q_run s w = Some i"
  shows "qinv (s\<lparr>q_jobs := with_id i f (q_jobs s), q_run := (q_run s)(w := None)\<rparr>)"
proof -
  let ?t = "with_id i f (q_jobs s)"
  have d: "distinct (map j_id (q_jobs s))" using inv by (simp add: qinv_def jobs_wf_def)
  obtain r where r: "r \<in> set (q_jobs s)" "j_id r = i" "j_status r = RUNNING" "j_locked_by r = Some w"
    using qinv_runD [OF inv run] by blast
  have only: "x = r" if "x \<in> set (q_jobs s)" "j_id x = i" for x
    using distinct_key_eq [OF d that(1) r(1)] that(2) r(2) by simp
  have keep: "x \<in> set ?t" if "x \<in> set (q_jobs s)" "j_id x \<noteq> i" for x
    using that by (force simp: with_id_def set_upd_where)
  have "jobs_wf ?t" using inv ids wf by (simp add: qinv_def jobs_wf_with_id)
  moreover have "sel_ok (s\<lparr>q_jobs := ?t, q_run := (q_run s)(w := None)\<rparr>)"
  proof -
    have "\<exists>x\<in>set ?t. j_id x = k \<and> j_status x = QUEUED" if k: "q_sel s v = Some k" for v k
    proof -
      obtain x where x: "x \<in> set (q_jobs s)" "j_id x = k" "j_status x = QUEUED"
        using qinv_selD [OF inv k] by blast
      then have "k \<noteq> i" using only r(3) by fastforce
      with x keep show ?thesis by blast
    qed
    then show ?thesis using inv by (auto simp: qinv_def sel_ok_def)
  qed
  moreover have "run_ok (s\<lparr>q_jobs := ?t, q_run := (q_run s)(w := None)\<rparr>)"
  proof -
    have "\<exists>x\<in>set ?t. j_id x = k \<and> j_status x = RUNNING \<and> j_locked_by x = Some v"
      if k: "q_run s v = Some k" "v \<noteq> w" for v k
    proof -
      obtain x where x: "x \<in> set (q_jobs s)" "j_id x = k" "j_status x = RUNNING" "j_locked_by x = Some v"
        using qinv_runD [OF inv k(1)] by blast
      then have "k \<noteq> i" using only r(4) k(2) by fastforce
      with x keep show ?thesis by blast
    qed
    then show ?thesis by (auto simp: run_ok_def)
  qed
  ultimately show ?thesis by (simp add: qinv_def)
qed

text \<open>A change of other rows keeps the invariant when rows that are queued and selected, and
  rows that are running for a worker in process, stay in the table as they are.\<close>

lemma qinv_keep_rows:
  assumes inv: "qinv s" and wf: "jobs_wf t"
    and q: "\<And>x. x \<in> set (q_jobs s) \<Longrightarrow> j_status x = QUEUED \<Longrightarrow> j_id x \<in> ran (q_sel s) \<Longrightarrow> x \<in> set t"
    and r: "\<And>x w. x \<in> set (q_jobs s) \<Longrightarrow> j_status x = RUNNING \<Longrightarrow> j_locked_by x = Some w
              \<Longrightarrow> q_run s w = Some (j_id x) \<Longrightarrow> x \<in> set t"
  shows "qinv (s\<lparr>q_jobs := t\<rparr>)"
proof -
  have "\<exists>x\<in>set t. j_id x = k \<and> j_status x = QUEUED" if k: "q_sel s v = Some k" for v k
  proof -
    obtain x where "x \<in> set (q_jobs s)" "j_id x = k" "j_status x = QUEUED"
      using qinv_selD [OF inv k] by blast
    moreover have "k \<in> ran (q_sel s)" using k by (auto simp: ran_def)
    ultimately show ?thesis using q by blast
  qed
  then have "sel_ok (s\<lparr>q_jobs := t\<rparr>)" using inv by (auto simp: qinv_def sel_ok_def)
  moreover have "\<exists>x\<in>set t. j_id x = k \<and> j_status x = RUNNING \<and> j_locked_by x = Some v"
    if k: "q_run s v = Some k" for v k
  proof -
    obtain x where "x \<in> set (q_jobs s)" "j_id x = k" "j_status x = RUNNING" "j_locked_by x = Some v"
      using qinv_runD [OF inv k] by blast
    with r k show ?thesis by blast
  qed
  then have "run_ok (s\<lparr>q_jobs := t\<rparr>)" by (auto simp: run_ok_def)
  ultimately show ?thesis using wf by (simp add: qinv_def)
qed

lemma qinv_commit:
  assumes inv: "qinv s" and sel: "q_sel s w = Some i"
  shows "qinv (s\<lparr>q_jobs := with_id i (lock_row now w) (q_jobs s), q_sel := (q_sel s)(w := None),
               q_run := (q_run s)(w \<mapsto> i)\<rparr>)"
proof -
  let ?t = "with_id i (lock_row now w) (q_jobs s)"
  have d: "distinct (map j_id (q_jobs s))" using inv by (simp add: qinv_def jobs_wf_def)
  obtain r where r: "r \<in> set (q_jobs s)" "j_id r = i" "j_status r = QUEUED"
    using qinv_selD [OF inv sel] by blast
  have only: "x = r" if "x \<in> set (q_jobs s)" "j_id x = i" for x
    using distinct_key_eq [OF d that(1) r(1)] that(2) r(2) by simp
  have keep: "x \<in> set ?t" if "x \<in> set (q_jobs s)" "j_id x \<noteq> i" for x
    using that by (force simp: with_id_def set_upd_where)
  have own: "lock_row now w r \<in> set ?t" using r by (force simp: with_id_def set_upd_where)
  have "jobs_wf ?t" using inv by (simp add: qinv_def jobs_wf_with_id)
  moreover have "\<exists>x\<in>set ?t. j_id x = k \<and> j_status x = QUEUED" if k: "q_sel s v = Some k" "v \<noteq> w" for v k
  proof -
    have "k \<noteq> i" using qinv_sel_injD [OF inv _ sel] that by blast
    moreover obtain x where "x \<in> set (q_jobs s)" "j_id x = k" "j_status x = QUEUED"
      using qinv_selD [OF inv k(1)] by blast
    ultimately show ?thesis using keep by blast
  qed
  moreover have "\<exists>x\<in>set ?t. j_id x = k \<and> j_status x = RUNNING \<and> j_locked_by x = Some v"
    if k: "q_run s v = Some k" "v \<noteq> w" for v k
  proof -
    obtain x where x: "x \<in> set (q_jobs s)" "j_id x = k" "j_status x = RUNNING" "j_locked_by x = Some v"
      using qinv_runD [OF inv k(1)] by blast
    then have "k \<noteq> i" using only r(3) by fastforce
    with x keep show ?thesis by blast
  qed
  moreover have "\<exists>x\<in>set ?t. j_id x = i \<and> j_status x = RUNNING \<and> j_locked_by x = Some w"
    using own r(2) by (intro bexI [of _ "lock_row now w r"]) auto
  ultimately show ?thesis using inv by (auto simp: qinv_def sel_ok_def run_ok_def)
qed

lemma qinv_select:
  assumes inv: "qinv s" and free: "q_sel s w = None" "q_run s w = None" and lk: "set lk = ran (q_sel s)"
    and c: "claim_select now lk (q_jobs s) = Some r"
  shows "qinv (s\<lparr>q_sel := (q_sel s)(w \<mapsto> j_id r)\<rparr>)"
proof -
  have "r \<in> set (q_jobs s)" "j_status r = QUEUED" "j_id r \<notin> ran (q_sel s)"
    using claim_select_Some [OF c] lk by (auto simp: claimable_def)
  then show ?thesis
    using inv free by (auto simp: qinv_def sel_ok_def run_ok_def ran_def)
qed

lemma qinv_crash: "qinv s \<Longrightarrow> qinv (s\<lparr>q_sel := (q_sel s)(w := None), q_run := (q_run s)(w := None)\<rparr>)"
  by (auto simp: qinv_def sel_ok_def run_ok_def)

lemma qinv_recover:
  assumes "qinv s" and "q_run s w = None"
  shows "qinv (s\<lparr>q_jobs := snd (recover_stale w (q_jobs s))\<rparr>)"
  using assms(1)
proof (rule qinv_keep_rows)
  show "jobs_wf (snd (recover_stale w (q_jobs s)))"
    using assms(1) by (simp add: qinv_def jobs_wf_recover)
qed (use assms in \<open>force simp: recover_stale_def set_upd_where recoverable_def\<close>)+

lemma qinv_cancel:
  assumes "qinv s" and "i \<notin> ran (q_sel s)"
  shows "qinv (s\<lparr>q_jobs := upd_where (cancellable i) (cancel_row now) (q_jobs s)\<rparr>)"
  using assms(1)
proof (rule qinv_keep_rows)
  show "jobs_wf (upd_where (cancellable i) (cancel_row now) (q_jobs s))"
    using assms(1) by (simp add: qinv_def jobs_wf_cancel_rows)
qed (use assms in \<open>force simp: set_upd_where cancellable_def\<close>)+

lemma qinv_prune:
  assumes "qinv s" and "\<forall>j\<in>set (q_jobs s). p j \<longrightarrow> terminal (j_status j)"
  shows "qinv (s\<lparr>q_jobs := del_where p (q_jobs s)\<rparr>)"
  using assms(1)
proof (rule qinv_keep_rows)
  show "jobs_wf (del_where p (q_jobs s))"
    using assms(1) by (auto simp: qinv_def jobs_wf_def del_where_def distinct_map_filter)
qed (use assms(2) in \<open>force simp: set_del_where terminal_def\<close>)+

lemma qinv_enqueue:
  assumes "qinv s" and "i \<notin> j_id ` set (q_jobs s)"
  shows "qinv (s\<lparr>q_jobs := snd (enqueue now i ty p pr ra m (q_jobs s))\<rparr>)"
  using assms(1)
proof (rule qinv_keep_rows)
  show "jobs_wf (snd (enqueue now i ty p pr ra m (q_jobs s)))"
    using assms by (simp add: qinv_def jobs_wf_enqueue)
qed (simp_all add: enqueue_def Let_def)

lemma qinv_let_go: "qinv s \<Longrightarrow> qinv (s\<lparr>q_run := (q_run s)(w := None)\<rparr>)"
  unfolding qinv_def sel_ok_def run_ok_def by auto

lemma qinv_step: "qstep s s' \<Longrightarrow> qinv s \<Longrightarrow> qinv s'"
proof (induction rule: qstep.induct)
  case (fail s w j now ec err)
  then show ?case
    using qinv_change_row [of s _ w "j_id j"] qinv_let_go [of s w] by (simp add: fail_def Let_def)
next
  case (deferred s w i now m ec err)
  then show ?case by (simp add: defer_job_def qinv_change_row qinv_let_go)
qed (simp_all add: qinv_enqueue qinv_select qinv_commit qinv_crash qinv_recover qinv_cancel qinv_prune
      complete_def block_def qinv_change_row)

lemma qreach_inv: "qreach s \<Longrightarrow> qinv s"
  by (induction rule: qreach.induct) (blast intro: qinv_init qinv_step)+

text \<open>C21. However claims, outcomes, crashes, recoveries, cancellations and prunes interleave,
  no two workers ever process the same job, nor does one process a job another is claiming,
  and the row of a job in process is running, locked by the worker that processes it.\<close>

theorem no_job_processed_twice:
  assumes "qreach s" and "q_run s w = Some i"
  shows "(\<forall>w'. q_run s w' = Some i \<longrightarrow> w' = w) \<and> (\<forall>w'. q_sel s w' \<noteq> Some i)
     \<and> (\<exists>r. row_of i (q_jobs s) = Some r \<and> j_status r = RUNNING \<and> j_locked_by r = Some w)"
proof -
  have inv: "qinv s" using assms(1) by (rule qreach_inv)
  then have d: "distinct (map j_id (q_jobs s))" by (simp add: qinv_def jobs_wf_def)
  obtain r where r: "r \<in> set (q_jobs s)" "j_id r = i" "j_status r = RUNNING" "j_locked_by r = Some w"
    using qinv_runD [OF inv assms(2)] by blast
  have only: "x = r" if "x \<in> set (q_jobs s)" "j_id x = i" for x
    using distinct_key_eq [OF d that(1) r(1)] that(2) r(2) by simp
  have "w' = w" if "q_run s w' = Some i" for w'
    using qinv_runD [OF inv that] only r(4) by fastforce
  moreover have "q_sel s w' \<noteq> Some i" for w'
  proof
    assume "q_sel s w' = Some i"
    from qinv_selD [OF inv this] show False using only r(3) by fastforce
  qed
  moreover have "row_of i (q_jobs s) = Some r" using row_of_in [OF d r(1)] r(2) by simp
  ultimately show ?thesis using r by blast
qed

text \<open>A run of the system: a job is enqueued, selected by one worker and committed.\<close>

definition demo0 :: qsys where "demo0 = qinit\<lparr>q_jobs := [new_job 0 ''a'' ''noop'' [] 100 0 3]\<rparr>"
definition demo1 :: qsys where "demo1 = demo0\<lparr>q_sel := [''w'' \<mapsto> ''a'']\<rparr>"
definition demo2 :: qsys where
  "demo2 = \<lparr>q_jobs = [lock_row 5 ''w'' (new_job 0 ''a'' ''noop'' [] 100 0 3)], q_sel = Map.empty, q_run = [''w'' \<mapsto> ''a'']\<rparr>"

lemma demo_reach: "qreach demo2"
proof -
  have "qstep qinit demo0"
    using qstep.enqueue [of "''a''" qinit 0 "''noop''" None 100 None 3]
    by (simp add: qinit_def demo0_def enqueue_def Let_def)
  then have r0: "qreach demo0" by (rule qreach.step [OF qreach.init])
  have "claim_select 5 [] (q_jobs demo0) = Some (new_job 0 ''a'' ''noop'' [] 100 0 3)"
    by (simp add: demo0_def claim_select_def claimable_def new_job_def)
  then have "qstep demo0 demo1"
    using qstep.select [of demo0 "''w''" "[]" 5 "new_job 0 ''a'' ''noop'' [] 100 0 3"]
    by (simp add: demo0_def demo1_def qinit_def)
  then have r1: "qreach demo1" by (rule qreach.step [OF r0])
  have "qstep demo1 demo2"
    using qstep.commit [of demo1 "''w''" "''a''" 5]
    by (simp add: demo0_def demo1_def demo2_def qinit_def with_id_def)
  then show ?thesis by (rule qreach.step [OF r1])
qed

theorem no_job_processed_twice_witness:
  "qreach demo2 \<and> {w'. q_run demo2 w' = Some ''a''} = {''w''} \<and> {w'. q_sel demo2 w' = Some ''a''} = {}"
proof -
  have run: "q_run demo2 ''w'' = Some ''a''" by (simp add: demo2_def)
  show ?thesis using no_job_processed_twice [OF demo_reach run] demo_reach run by blast
qed

subsection \<open>The life of a job\<close>

text \<open>The transitions a job's status makes: what the code's state machine promises.\<close>

inductive status_step :: "job_status \<Rightarrow> job_status \<Rightarrow> bool" where
  claimed: "status_step QUEUED RUNNING"
| cancelled: "status_step QUEUED CANCELLED"
| succeeded: "status_step RUNNING SUCCEEDED"
| failed: "status_step RUNNING FAILED"
| blocked: "status_step RUNNING BLOCKED"
| requeued: "status_step RUNNING QUEUED"

inductive_simps status_step_simps: "status_step a b"

lemma terminal_stuck: "terminal a \<Longrightarrow> \<not> status_step a b"
  by (auto simp: terminal_def status_step_simps)

lemma with_id_status:
  assumes "distinct (map j_id t)" and "r \<in> set t" and "r' \<in> set (with_id i f t)" and "j_id r' = j_id r"
    and "\<And>j. j_id (f j) = j_id j"
  shows "r' = (if j_id r = i then f r else r)"
proof -
  obtain x where x: "x \<in> set t" "r' = (if j_id x = i then f x else x)"
    using assms(3) by (auto simp: with_id_def set_upd_where)
  then have "x = r" using distinct_key_eq [OF assms(1) x(1) assms(2)] assms(4,5) by (auto split: if_splits)
  with x show ?thesis by simp
qed

text \<open>C22. In every reachable system a step moves a job's status only along the edges of the
  job state machine; in particular a succeeded, failed, cancelled or blocked job never runs
  again.\<close>

theorem job_status_machine:
  assumes "qreach s" and "qstep s s'" and "r \<in> set (q_jobs s)" and "r' \<in> set (q_jobs s')" and "j_id r' = j_id r"
  shows "j_status r' = j_status r \<or> (status_step (j_status r) (j_status r') \<and> \<not> terminal (j_status r))"
proof -
  have inv: "qinv s" using assms(1) by (rule qreach_inv)
  then have d: "distinct (map j_id (q_jobs s))" by (simp add: qinv_def jobs_wf_def)
  have run: "j_status r = RUNNING" if "q_run s w = Some (j_id r)" for w
    using qinv_runD [OF inv that] distinct_key_eq [OF d _ assms(3)] by blast
  have sel: "j_status r = QUEUED" if "q_sel s w = Some (j_id r)" for w
    using qinv_selD [OF inv that] distinct_key_eq [OF d _ assms(3)] by blast
  have row: "r' = (if j_id r = i then f r else r)" if "q_jobs s' = with_id i f (q_jobs s)" "\<And>j. j_id (f j) = j_id j" for i f
    using with_id_status [OF d assms(3)] assms(4,5) that by simp
  have same: "x = r" if "x \<in> set (q_jobs s)" "j_id x = j_id r" for x
    using distinct_key_eq [OF d that(1) assms(3)] that(2) by simp
  from assms(2) show ?thesis
  proof cases
    case (fail w j now ec err)
    show ?thesis
    proof (cases "retry_fits j")
      case True
      let ?f = "if fail_attempts j < fail_max j
        then retry_row now (fail_attempts j) (code_str ec) (clip_error err) (backoff_minutes (fail_attempts j))
        else fail_row now (fail_attempts j) (code_str ec) (clip_error err)"
      have "q_jobs s' = with_id (j_id j) ?f (q_jobs s)" using True fail(1) by (auto simp: fail_def Let_def retry_fits_def)
      then have "r' = (if j_id r = j_id j then ?f r else r)" by (rule row) simp
      then show ?thesis using run [of w] fail(2) by (auto simp: status_step_simps terminal_def)
    next
      case False
      then have "q_jobs s' = q_jobs s" using fail(1) by (simp add: fail_raises)
      then have "r' = r" using same [of r'] assms(4,5) by simp
      then show ?thesis by simp
    qed
  next
    case (enqueue i now ty p pr ra m)
    then show ?thesis using same assms(3-5) by (auto simp: enqueue_def Let_def)
  next
    case (recover w)
    then obtain x where "x \<in> set (q_jobs s)" "r' = (if recoverable w x then recover_row x else x)"
      using assms(4) by (auto simp: recover_stale_def set_upd_where)
    moreover from this same assms(5) have "x = r" by (auto split: if_splits)
    ultimately show ?thesis by (auto simp: recoverable_def status_step_simps terminal_def)
  next
    case (cancel i now)
    then obtain x where "x \<in> set (q_jobs s)" "r' = (if cancellable i x then cancel_row now x else x)"
      using assms(4) by (auto simp: set_upd_where)
    moreover from this same assms(5) have "x = r" by (auto split: if_splits)
    ultimately show ?thesis by (auto simp: cancellable_def status_step_simps terminal_def)
  next
    case (prune p)
    then show ?thesis using same assms(4,5) by (auto simp: set_del_where)
  next
    case (commit w i now)
    then show ?thesis using sel [of w] row [of i "lock_row now w"]
      by (auto simp: status_step_simps terminal_def)
  next
    case (complete w i now res)
    then show ?thesis using run [of w] row by (auto simp: complete_def status_step_simps terminal_def)
  next
    case (block w i now ec err)
    then show ?thesis using run [of w] row by (auto simp: block_def status_step_simps terminal_def)
  next
    case (deferred w i now m ec err)
    show ?thesis
    proof (cases "fits_int4 (max 1 m)")
      case True
      then have "q_jobs s' = with_id i (defer_row now (code_str ec) (clip_error err) (max 1 m)) (q_jobs s)"
        using deferred(1) by (simp add: defer_job_def)
      then have "r' = (if j_id r = i then defer_row now (code_str ec) (clip_error err) (max 1 m) r else r)" by (rule row) simp
      then show ?thesis using run [of w] deferred(2) by (auto simp: status_step_simps terminal_def)
    next
      case False
      then have "q_jobs s' = q_jobs s" using deferred(1) by (simp add: defer_job_def)
      then have "r' = r" using same [of r'] assms(4,5) by simp
      then show ?thesis by simp
    qed
  qed (use same assms(4,5) in auto)
qed

theorem job_status_machine_witness:
  "\<exists>r r'. q_jobs demo2 = [r] \<and> complete 6 ''a'' None [r] = [r'] \<and> status_step (j_status r) (j_status r')
     \<and> j_status r' = SUCCEEDED"
proof -
  let ?s = "demo2\<lparr>q_jobs := complete 6 ''a'' None (q_jobs demo2), q_run := (q_run demo2)(''w'' := None)\<rparr>"
  let ?r = "lock_row 5 ''w'' (new_job 0 ''a'' ''noop'' [] 100 0 3)"
  have st: "qstep demo2 ?s" by (rule qstep.complete) (simp add: demo2_def)
  have r: "q_jobs demo2 = [?r]" by (simp add: demo2_def)
  have r': "q_jobs ?s = [complete_row 6 [] ?r]" by (simp add: r complete_def with_id_def)
  have "?r \<in> set (q_jobs demo2)" "complete_row 6 [] ?r \<in> set (q_jobs ?s)"
    unfolding r' unfolding r by simp_all
  from job_status_machine [OF demo_reach st this] show ?thesis
    using r r' by (simp add: complete_def with_id_def)
qed

end
