(* ===== verification/Json.thy ===== *)
theory Json
  imports CloudPrelude
begin

text \<open>
  The JSON text the code writes and reads: \<open>json.dumps(v, ensure_ascii=False)\<close> and
  \<open>json.loads\<close> of the standard library, on the values of \<open>pyv\<close>. Numbers with a fraction or an
  exponent are rationals, without the rounding of a float; the literals \<open>NaN\<close> and
  \<open>Infinity\<close>, which have no rational, are refused. A \<open>\u\<close> escape beyond one byte reads as a
  question mark.
\<close>

subsection \<open>Writing\<close>

definition hex_char :: "nat \<Rightarrow> char" where
  "hex_char n = (if n < 10 then char_of (48 + n) else char_of (87 + n))"

definition esc_char :: "char \<Rightarrow> str" where
  "esc_char c =
    (if c = CHR 0x22 \<or> c = CHR 0x5C then [CHR 0x5C, c]
     else if c = CHR 0x0A then [CHR 0x5C, CHR ''n'']
     else if c = CHR 0x0D then [CHR 0x5C, CHR ''r'']
     else if c = CHR 0x09 then [CHR 0x5C, CHR ''t'']
     else if c = CHR 0x08 then [CHR 0x5C, CHR ''b'']
     else if c = CHR 0x0C then [CHR 0x5C, CHR ''f'']
     else if (of_char c :: nat) < 32
     then [CHR 0x5C, CHR ''u'', CHR ''0'', CHR ''0'', hex_char (of_char c div 16), hex_char (of_char c mod 16)]
     else [c])"

definition json_str :: "str \<Rightarrow> str" where
  "json_str s = [CHR 0x22] @ concat (map esc_char s) @ [CHR 0x22]"

subsection \<open>Reading\<close>

definition json_ws :: "char \<Rightarrow> bool" where
  "json_ws c \<longleftrightarrow> c = CHR '' '' \<or> c = CHR 0x09 \<or> c = CHR 0x0A \<or> c = CHR 0x0D"

definition skip_ws :: "str \<Rightarrow> str" where
  "skip_ws s = dropWhile json_ws s"

definition hex_val :: "char \<Rightarrow> nat option" where
  "hex_val c = (let n = of_char c in
     if 48 \<le> n \<and> n \<le> 57 then Some (n - 48)
     else if 97 \<le> n \<and> n \<le> 102 then Some (n - 87)
     else if 65 \<le> n \<and> n \<le> 70 then Some (n - 55)
     else None)"

definition hex4 :: "str \<Rightarrow> nat option" where
  "hex4 ds = fold (\<lambda>d acc. case acc of None \<Rightarrow> None | Some n \<Rightarrow>
      (case hex_val d of None \<Rightarrow> None | Some h \<Rightarrow> Some (16 * n + h))) ds (Some 0)"

definition code_char :: "nat \<Rightarrow> char" where
  "code_char n = (if n < 128 \<or> (160 \<le> n \<and> n < 256) then char_of n else CHR ''?'')"

definition esc_val :: "char \<Rightarrow> char option" where
  "esc_val c = (if c = CHR 0x22 \<or> c = CHR 0x5C \<or> c = CHR ''/'' then Some c
     else if c = CHR ''n'' then Some (CHR 0x0A) else if c = CHR ''r'' then Some (CHR 0x0D)
     else if c = CHR ''t'' then Some (CHR 0x09) else if c = CHR ''b'' then Some (CHR 0x08)
     else if c = CHR ''f'' then Some (CHR 0x0C) else None)"

text \<open>The characters after an opening quote up to the closing one, and the rest.\<close>

function pstr :: "str \<Rightarrow> (str \<times> str) option" where
  "pstr s = (case s of
       [] \<Rightarrow> None
     | c # r \<Rightarrow>
         if c = CHR 0x22 then Some ([], r)
         else if c = CHR 0x5C then
           (case r of
              [] \<Rightarrow> None
            | e # r2 \<Rightarrow>
                if e = CHR ''u'' then
                  (if length r2 < 4 then None
                   else case hex4 (take 4 r2) of
                     None \<Rightarrow> None
                   | Some n \<Rightarrow> map_option (\<lambda>(t, q). (code_char n # t, q)) (pstr (drop 4 r2)))
                else (case esc_val e of
                     None \<Rightarrow> None
                   | Some x \<Rightarrow> map_option (\<lambda>(t, q). (x # t, q)) (pstr r2)))
         else if (of_char c :: nat) < 32 then None
         else map_option (\<lambda>(t, q). (c # t, q)) (pstr r))"
  by pat_completeness auto
termination by (relation "measure length") auto

declare pstr.simps [simp del]

text \<open>Digits, and a number: an integer, or a rational when a fraction or an exponent follows.\<close>

definition digits_val :: "str \<Rightarrow> int" where
  "digits_val ds = fold (\<lambda>d acc. 10 * acc + digit_val d) ds 0"

definition frac_val :: "str \<Rightarrow> rat" where
  "frac_val ds = of_int (digits_val ds) / 10 ^ length ds"

definition pnum :: "str \<Rightarrow> (pyv \<times> str) option" where
  "pnum s = (let (neg, s1) = (case s of c # r \<Rightarrow> if c = CHR ''-'' then (True, r) else (False, s) | [] \<Rightarrow> (False, s));
       ip = takeWhile is_digit s1; ip' = (case ip of d # _ \<Rightarrow> if d = CHR ''0'' then [d] else ip | [] \<Rightarrow> []);
       s2 = drop (length ip') s1;
       (fp, s3) = (case s2 of c # r \<Rightarrow> if c = CHR ''.'' \<and> takeWhile is_digit r \<noteq> []
                     then (takeWhile is_digit r, dropWhile is_digit r) else ([], s2) | [] \<Rightarrow> ([], s2));
       (ex, s4) = (case s3 of c # r \<Rightarrow> if c = CHR ''e'' \<or> c = CHR ''E'' then
                       (case r of g # q \<Rightarrow>
                          if (g = CHR ''+'' \<or> g = CHR ''-'') \<and> takeWhile is_digit q \<noteq> []
                          then (Some (g = CHR ''-'', takeWhile is_digit q), dropWhile is_digit q)
                          else if takeWhile is_digit r \<noteq> [] then (Some (False, takeWhile is_digit r), dropWhile is_digit r)
                          else (None, s3)
                        | [] \<Rightarrow> (None, s3))
                     else (None, s3) | [] \<Rightarrow> (None, s3));
       sg = (if neg then -1 else 1) :: int
     in if ip' = [] then None
        else if fp = [] \<and> ex = None then Some (VInt (sg * digits_val ip'), s4)
        else (let m = of_int sg * (of_int (digits_val ip') + frac_val fp);
                  v = (case ex of None \<Rightarrow> m
                       | Some (en, ed) \<Rightarrow> if en then m / 10 ^ nat (digits_val ed) else m * 10 ^ nat (digits_val ed))
              in Some (VFloat v, s4)))"

text \<open>Values, the elements of an array and the members of an object; the first argument bounds
  the nesting and the number of items, each of which takes at least one character.\<close>

fun pval :: "nat \<Rightarrow> str \<Rightarrow> (pyv \<times> str) option"
  and pelems :: "nat \<Rightarrow> str \<Rightarrow> pyv list \<Rightarrow> (pyv \<times> str) option"
  and pmembers :: "nat \<Rightarrow> str \<Rightarrow> pydict \<Rightarrow> (pyv \<times> str) option" where
  "pval 0 s = None"
| "pval (Suc n) s = (case s of
       [] \<Rightarrow> None
     | c # r \<Rightarrow>
         if c = CHR 0x22 then map_option (\<lambda>(t, q). (VStr t, q)) (pstr r)
         else if c = CHR 0x7B then
           (if startswith (skip_ws r) [CHR 0x7D] then Some (VDict [], tl (skip_ws r)) else pmembers n (skip_ws r) [])
         else if c = CHR 0x5B then
           (if startswith (skip_ws r) [CHR 0x5D] then Some (VList [], tl (skip_ws r)) else pelems n (skip_ws r) [])
         else if startswith s ''null'' then Some (VNone, drop 4 s)
         else if startswith s ''true'' then Some (VBool True, drop 4 s)
         else if startswith s ''false'' then Some (VBool False, drop 5 s)
         else pnum s)"
| "pelems 0 s acc = None"
| "pelems (Suc n) s acc = (case pval n s of
       None \<Rightarrow> None
     | Some (v, q) \<Rightarrow> (case skip_ws q of
           [] \<Rightarrow> None
         | c # r \<Rightarrow> if c = CHR '','' then pelems n (skip_ws r) (acc @ [v])
                    else if c = CHR 0x5D then Some (VList (acc @ [v]), r) else None))"
| "pmembers 0 s acc = None"
| "pmembers (Suc n) s acc = (case s of
       [] \<Rightarrow> None
     | c # r \<Rightarrow>
         if c \<noteq> CHR 0x22 then None
         else (case pstr r of
             None \<Rightarrow> None
           | Some (k, q) \<Rightarrow> (case skip_ws q of
                 [] \<Rightarrow> None
               | c2 # q2 \<Rightarrow>
                   if c2 \<noteq> CHR '':'' then None
                   else (case pval n (skip_ws q2) of
                       None \<Rightarrow> None
                     | Some (v, q3) \<Rightarrow> (case skip_ws q3 of
                           [] \<Rightarrow> None
                         | c3 # q4 \<Rightarrow>
                             if c3 = CHR '','' then pmembers n (skip_ws q4) (dput acc k v)
                             else if c3 = CHR 0x7D then Some (VDict (dput acc k v), q4) else None)))))"

definition json_loads :: "str \<Rightarrow> pyv option" where
  "json_loads s = (case pval (length s + 1) (skip_ws s) of
      Some (v, r) \<Rightarrow> if skip_ws r = [] then Some v else None
    | None \<Rightarrow> None)"

subsection \<open>Reading back a string\<close>

lemma hex_val_hex_char: "n < 16 \<Longrightarrow> hex_val (hex_char n) = Some n"
  by (simp add: hex_char_def hex_val_def Let_def of_char_of)

lemma pstr_quote: "pstr (CHR 0x22 # s) = Some ([], s)"
  by (subst pstr.simps) simp

lemma pstr_plain:
  "c \<noteq> CHR 0x22 \<Longrightarrow> c \<noteq> CHR 0x5C \<Longrightarrow> \<not> (of_char c :: nat) < 32
     \<Longrightarrow> pstr (c # s) = map_option (\<lambda>(t, q). (c # t, q)) (pstr s)"
  by (subst pstr.simps) simp

lemma pstr_escape:
  "e \<noteq> CHR ''u'' \<Longrightarrow> esc_val e = Some x
     \<Longrightarrow> pstr (CHR 0x5C # e # s) = map_option (\<lambda>(t, q). (x # t, q)) (pstr s)"
  by (subst pstr.simps) simp

lemma pstr_unicode:
  "hex4 [a, b, c, d] = Some n
     \<Longrightarrow> pstr (CHR 0x5C # CHR ''u'' # a # b # c # d # s) = map_option (\<lambda>(t, q). (code_char n # t, q)) (pstr s)"
  by (subst pstr.simps) (simp add: numeral_eq_Suc)

lemma hex4_low: "n < 32 \<Longrightarrow> hex4 [CHR ''0'', CHR ''0'', hex_char (n div 16), hex_char (n mod 16)] = Some n"
proof -
  assume "n < 32"
  then have "hex_val (hex_char (n div 16)) = Some (n div 16)" "hex_val (hex_char (n mod 16)) = Some (n mod 16)"
    by (simp_all add: hex_val_hex_char)
  moreover have "hex_val (CHR ''0'') = Some 0" by (simp add: hex_val_def)
  ultimately show ?thesis by (simp add: hex4_def)
qed

lemma pstr_esc_char: "pstr (esc_char c @ s) = map_option (\<lambda>(t, q). (c # t, q)) (pstr s)"
proof -
  have "(\<exists>e. esc_char c = [CHR 0x5C, e] \<and> e \<noteq> CHR ''u'' \<and> esc_val e = Some c)
      \<or> ((of_char c :: nat) < 32 \<and>
         esc_char c = [CHR 0x5C, CHR ''u'', CHR ''0'', CHR ''0'', hex_char (of_char c div 16), hex_char (of_char c mod 16)])
      \<or> (esc_char c = [c] \<and> c \<noteq> CHR 0x22 \<and> c \<noteq> CHR 0x5C \<and> \<not> (of_char c :: nat) < 32)"
  proof (cases "c \<in> {CHR 0x22, CHR 0x5C, CHR 0x0A, CHR 0x0D, CHR 0x09, CHR 0x08, CHR 0x0C}")
    case True
    then show ?thesis by (elim insertE emptyE) (simp_all add: esc_char_def esc_val_def)
  next
    case False
    then show ?thesis by (simp add: esc_char_def)
  qed
  then consider (esc) e where "esc_char c = [CHR 0x5C, e]" "e \<noteq> CHR ''u''" "esc_val e = Some c"
    | (low) "(of_char c :: nat) < 32"
        "esc_char c = [CHR 0x5C, CHR ''u'', CHR ''0'', CHR ''0'', hex_char (of_char c div 16), hex_char (of_char c mod 16)]"
    | (plain) "esc_char c = [c]" "c \<noteq> CHR 0x22" "c \<noteq> CHR 0x5C" "\<not> (of_char c :: nat) < 32"
    by blast
  then show ?thesis
  proof cases
    case esc
    then show ?thesis by (simp add: pstr_escape)
  next
    case low
    have "code_char (of_char c) = c" using low(1) by (simp add: code_char_def)
    with low(2) pstr_unicode [OF hex4_low [OF low(1)]] show ?thesis by simp
  next
    case plain
    then show ?thesis by (simp add: pstr_plain)
  qed
qed

text \<open>What \<open>json.dumps\<close> writes for a string reads back as the string, wherever it stands.\<close>

lemma pstr_json_str: "pstr (tl (json_str s) @ r) = Some (s, r)"
  by (induction s) (simp_all add: json_str_def pstr_esc_char pstr_quote)

lemma pval_quote: "pval (Suc n) (CHR 0x22 # r) = map_option (\<lambda>(t, q). (VStr t, q)) (pstr r)"
  by simp

lemma json_str_Cons: "json_str s = CHR 0x22 # tl (json_str s)"
  by (simp add: json_str_def)

lemma skip_ws_json_str: "skip_ws (json_str s @ r) = json_str s @ r"
  by (simp add: json_str_def skip_ws_def json_ws_def)

lemma pval_json_str: "pval (Suc n) (json_str s @ r) = Some (VStr s, r)"
  by (subst json_str_Cons) (simp only: append_Cons pval_quote pstr_json_str option.map case_prod_conv)

lemma json_str_roundtrip: "json_loads (json_str s) = Some (VStr s)"
  using pval_json_str [of "length (json_str s)" s "[]"] skip_ws_json_str [of s "[]"]
  by (simp add: json_loads_def skip_ws_def)

end
