(* ===== verification/Providers.thy ===== *)
theory Providers
  imports Json Config Contracts
begin

text \<open>
  \<open>src/cloudos/router/providers\<close>: the subscription CLIs. What the code asks of the machine is
  the record \<open>host\<close>: the environment, the home directory, the search path, the files and the
  execution of a command. A command gets its arguments, its input, its timeout, its whole
  environment and its working directory, and everything the code knows of what happened is the
  result. Paths are joined with the host's separator.
\<close>

datatype node = Missing | Directory | Unreadable | File str

datatype exec_result = Exited int str str | TimedOut str str | NotStarted str

record host =
  h_env :: environ
  h_home :: str
  h_nt :: bool
  h_sep :: str
  h_which :: "str \<Rightarrow> str option"
  h_fs :: "str \<Rightarrow> node"
  h_exec :: "str list \<Rightarrow> str option \<Rightarrow> int \<Rightarrow> environ \<Rightarrow> str option \<Rightarrow> exec_result"

definition pjoin :: "host \<Rightarrow> str list \<Rightarrow> str" where
  "pjoin h parts = py_join (h_sep h) parts"

definition is_file :: "node \<Rightarrow> bool" where
  "is_file n = (case n of File _ \<Rightarrow> True | Unreadable \<Rightarrow> True | _ \<Rightarrow> False)"

subsection \<open>Shared machinery\<close>

definition SCRUBBED_ENV_VARS :: "str list" where
  "SCRUBBED_ENV_VARS =
     [''ANTHROPIC_API_KEY'', ''ANTHROPIC_AUTH_TOKEN'', ''ANTHROPIC_PROFILE'', ''ANTHROPIC_FEDERATION_RULE_ID'',
      ''ANTHROPIC_ORGANIZATION_ID'', ''CLAUDE_CODE_USE_BEDROCK'', ''CLAUDE_CODE_USE_VERTEX'',
      ''CLAUDE_CODE_USE_FOUNDRY'', ''OPENAI_API_KEY'', ''GEMINI_API_KEY'', ''GOOGLE_API_KEY'',
      ''GOOGLE_APPLICATION_CREDENTIALS'', ''GOOGLE_GENAI_USE_VERTEXAI'']"

definition scrubbed_env :: "environ \<Rightarrow> (str \<times> str) list \<Rightarrow> environ" where
  "scrubbed_env env extra = (\<lambda>k. if k \<in> set SCRUBBED_ENV_VARS then None else env k) ++ map_of (rev extra)"

record cli_result =
  cr_returncode :: int
  cr_stdout :: str
  cr_stderr :: str
  cr_timed_out :: bool

text \<open>\<open>run_cli\<close>; what cannot be started raises.\<close>

definition run_cli ::
  "host \<Rightarrow> str list \<Rightarrow> str option \<Rightarrow> int \<Rightarrow> (str \<times> str) list \<Rightarrow> str option \<Rightarrow> exn + cli_result" where
  "run_cli h argv inp timeout extra cwd =
     (case h_exec h argv inp timeout (scrubbed_env (h_env h) extra) cwd of
        Exited rc out err \<Rightarrow> Inr \<lparr>cr_returncode = rc, cr_stdout = out, cr_stderr = err, cr_timed_out = False\<rparr>
      | TimedOut out err \<Rightarrow> Inr \<lparr>cr_returncode = -1, cr_stdout = out, cr_stderr = err, cr_timed_out = True\<rparr>
      | NotStarted ty \<Rightarrow> Inl (OtherExn ty ''''))"

text \<open>A provider raises a classified failure, an unavailability or anything else.\<close>

datatype provider_exn =
    ProviderError provider_state str
  | ProviderUnavailable str
  | OtherRaise exn

record provider_response =
  ps_text :: str
  ps_prompt_tokens :: int
  ps_completion_tokens :: int
  ps_auth_mode :: str

record provider_status =
  pst_provider :: str
  pst_state :: provider_state
  pst_auth_mode :: str
  pst_detail :: str

definition status :: "str \<Rightarrow> provider_state \<Rightarrow> str \<Rightarrow> str \<Rightarrow> provider_status" where
  "status n st auth detail = \<lparr>pst_provider = n, pst_state = st, pst_auth_mode = auth, pst_detail = detail\<rparr>"

text \<open>A failure's text is looked up in a list of markers, the first of which is quoted.\<close>

definition first_marker :: "str \<Rightarrow> str list \<Rightarrow> str option" where
  "first_marker low ms = find (\<lambda>m. substr_in m low) ms"

definition quoted :: "str \<Rightarrow> str" where
  "quoted m = [CHR 0x27] @ m @ [CHR 0x27]"

definition combined :: "cli_result \<Rightarrow> str" where
  "combined r = cr_stdout r @ [CHR 0x0A] @ cr_stderr r"

definition refuse :: "provider_status \<Rightarrow> provider_exn" where
  "refuse st = (if pst_state st \<in> {PS_QUOTA_EXHAUSTED, PS_AUTH_REQUIRED, PS_BILLING_RISK}
     then ProviderError (pst_state st) (pst_detail st) else ProviderUnavailable (pst_detail st))"

text \<open>\<open>d.get(k)\<close> on a value that may be no dictionary, and \<open>k in v\<close>.\<close>

definition get_attr :: "pyv \<Rightarrow> str \<Rightarrow> pyv option" where
  "get_attr v k = (case v of VDict d \<Rightarrow> Some (dget d k) | _ \<Rightarrow> None)"

definition key_in :: "str \<Rightarrow> pyv \<Rightarrow> bool option" where
  "key_in k v = (case v of
      VDict d \<Rightarrow> Some (map_of d k \<noteq> None)
    | VList xs \<Rightarrow> Some (VStr k \<in> set xs)
    | VStr s \<Rightarrow> Some (substr_in k s)
    | _ \<Rightarrow> None)"

definition no_attr :: exn where "no_attr = OtherExn ''AttributeError'' ''get''"

subsection \<open>Claude Code\<close>

definition CLAUDE_QUOTA_MARKERS :: "str list" where
  "CLAUDE_QUOTA_MARKERS = [''session limit'', ''usage limit'', ''rate limit'', ''limit reached'', ''resets '']"

definition CLAUDE_AUTH_MARKERS :: "str list" where
  "CLAUDE_AUTH_MARKERS = [''/login'', ''not logged in'', ''login expired'', ''authentication_error'',
     ''invalid api key'', ''oauth token has expired'', ''credential'']"

definition env_or :: "environ \<Rightarrow> str \<Rightarrow> str" where
  "env_or env k = (case env k of Some v \<Rightarrow> v | None \<Rightarrow> [])"

definition config_dir :: "host \<Rightarrow> str" where
  "config_dir h = (if env_or (h_env h) ''CLAUDE_CONFIG_DIR'' \<noteq> [] then env_or (h_env h) ''CLAUDE_CONFIG_DIR''
     else pjoin h [h_home h, ''.claude''])"

definition anthropic_profile_dir :: "host \<Rightarrow> str" where
  "anthropic_profile_dir h =
     (if h_nt h
      then (if env_or (h_env h) ''APPDATA'' \<noteq> [] then pjoin h [env_or (h_env h) ''APPDATA'', ''Anthropic'']
            else pjoin h [h_home h, ''AppData'', ''Roaming'', ''Anthropic''])
      else pjoin h [h_home h, ''.config'', ''anthropic''])"

text \<open>The settings file: \<open>Some\<close> the risk it shows, \<open>None\<close> when it shows none.\<close>

definition settings_risk :: "host \<Rightarrow> provider_status option" where
  "settings_risk h =
     (let unreadable = Some (status ''claude'' PS_BILLING_RISK []
            (''settings.json unreadable '' @ [CHR 0x97] @ '' billing state unverifiable''))
      in case h_fs h (pjoin h [config_dir h, ''settings.json'']) of
           File s \<Rightarrow> (case json_loads s of
               None \<Rightarrow> unreadable
             | Some v \<Rightarrow> (case get_attr v ''apiKeyHelper'' of
                   None \<Rightarrow> unreadable
                 | Some k \<Rightarrow> if truthy k then Some (status ''claude'' PS_BILLING_RISK []
                        (''apiKeyHelper configured in settings.json '' @ [CHR 0x97] @ '' could supply a metered credential''))
                     else None))
         | Unreadable \<Rightarrow> unreadable
         | _ \<Rightarrow> None)"

definition credentials_status :: "host \<Rightarrow> exn + provider_status" where
  "credentials_status h =
     (case h_fs h (pjoin h [config_dir h, ''.credentials.json'']) of
        File s \<Rightarrow> (case json_loads s of
            None \<Rightarrow> Inr (status ''claude'' PS_AUTH_REQUIRED []
               (''credentials unreadable '' @ [CHR 0x97] @ '' run: claude /login''))
          | Some v \<Rightarrow> (case key_in ''claudeAiOauth'' v of
                None \<Rightarrow> Inl (OtherExn ''TypeError'' ''not iterable'')
              | Some False \<Rightarrow> Inr (status ''claude'' PS_BILLING_RISK []
                  (''credentials present but not claude.ai OAuth '' @ [CHR 0x97] @ '' billing mode unverifiable''))
              | Some True \<Rightarrow> Inr (status ''claude'' AVAILABLE_SUBSCRIPTION ''subscription_oauth'' ''claude.ai subscription login'')))
      | Unreadable \<Rightarrow> Inr (status ''claude'' PS_AUTH_REQUIRED []
               (''credentials unreadable '' @ [CHR 0x97] @ '' run: claude /login''))
      | _ \<Rightarrow> Inr (status ''claude'' PS_AUTH_REQUIRED [] (''no credentials '' @ [CHR 0x97] @ '' run: claude /login'')))"

definition claude_probe :: "host \<Rightarrow> settings \<Rightarrow> exn + provider_status" where
  "claude_probe h s =
     (if h_which h (s_claude_cli_bin s) \<in> {None, Some []}
      then Inr (status ''claude'' UNAVAILABLE [] ''claude binary not found'')
      else case settings_risk h of
        Some st \<Rightarrow> Inr st
      | None \<Rightarrow>
          if is_file (h_fs h (pjoin h [anthropic_profile_dir h, ''active_config'']))
             \<or> h_fs h (pjoin h [anthropic_profile_dir h, ''configs'', ''default'']) \<noteq> Missing
          then Inr (status ''claude'' PS_BILLING_RISK []
                 (''Anthropic profile active_config present '' @ [CHR 0x97] @ '' could route to WIF/org billing''))
          else if env_or (h_env h) ''CLAUDE_CODE_OAUTH_TOKEN'' \<noteq> []
          then Inr (status ''claude'' AVAILABLE_SUBSCRIPTION ''subscription_oauth_token''
                 ''CLAUDE_CODE_OAUTH_TOKEN set (claude setup-token)'')
          else credentials_status h)"

definition claude_failure :: "int \<Rightarrow> str \<Rightarrow> bool \<Rightarrow> provider_exn" where
  "claude_failure rc txt timed_out =
     (case first_marker (py_lower txt) CLAUDE_QUOTA_MARKERS of
        Some m \<Rightarrow> ProviderError PS_QUOTA_EXHAUSTED (''claude reported a plan limit (matched '' @ quoted m @ '')'')
      | None \<Rightarrow> (case first_marker (py_lower txt) CLAUDE_AUTH_MARKERS of
            Some m \<Rightarrow> ProviderError PS_AUTH_REQUIRED (''claude reported an auth problem (matched '' @ quoted m @ '')'')
          | None \<Rightarrow> if timed_out then ProviderUnavailable ''claude CLI timed out''
                    else ProviderUnavailable (''claude CLI exit='' @ show_int rc)))"

definition line_break :: "char \<Rightarrow> bool" where
  "line_break c = (let n = of_char c :: nat in (10 \<le> n \<and> n \<le> 13) \<or> (28 \<le> n \<and> n \<le> 30))"

definition last_line :: "str \<Rightarrow> str" where
  "last_line s = rev (takeWhile (\<lambda>c. \<not> line_break c) (rev s))"

definition claude_payload :: "str \<Rightarrow> pyv" where
  "claude_payload out =
     (if py_strip out = [] then VDict []
      else (case json_loads (last_line (py_strip out)) of Some v \<Rightarrow> v | None \<Rightarrow> VDict []))"

definition token_count :: "pydict \<Rightarrow> str \<Rightarrow> exn + int" where
  "token_count usage k = (case py_int_v (por (dget usage k) (VInt 0)) of
      Some n \<Rightarrow> Inr n | None \<Rightarrow> Inl (OtherExn ''ValueError'' ''int''))"

definition claude_answer :: "provider_status \<Rightarrow> cli_result \<Rightarrow> pydict \<Rightarrow> provider_exn + provider_response" where
  "claude_answer st res payload =
     (let txt = (case dget payload ''result'' of VStr t \<Rightarrow> Some t
                 | _ \<Rightarrow> (if py_strip (cr_stdout res) = [] then None else Some (py_strip (cr_stdout res)))) in
      case txt of
        None \<Rightarrow> Inl (ProviderUnavailable ''claude CLI returned empty output'')
      | Some t \<Rightarrow>
          (case por (dget payload ''usage'') (VDict []) of
             VDict usage \<Rightarrow> (case (token_count usage ''input_tokens'', token_count usage ''output_tokens'') of
                 (Inr p, Inr c) \<Rightarrow> Inr \<lparr>ps_text = t, ps_prompt_tokens = p, ps_completion_tokens = c,
                                       ps_auth_mode = pst_auth_mode st\<rparr>
               | (Inl e, _) \<Rightarrow> Inl (OtherRaise e)
               | (_, Inl e) \<Rightarrow> Inl (OtherRaise e))
           | _ \<Rightarrow> Inl (OtherRaise no_attr)))"

definition claude_generate ::
  "host \<Rightarrow> settings \<Rightarrow> str \<Rightarrow> int \<Rightarrow> str option \<Rightarrow> str option \<Rightarrow> str option \<Rightarrow> provider_exn + provider_response" where
  "claude_generate h s prompt timeout allowed_tools permission_mode cwd =
     (case claude_probe h s of
        Inl e \<Rightarrow> Inl (OtherRaise e)
      | Inr st \<Rightarrow>
          if pst_state st \<noteq> AVAILABLE_SUBSCRIPTION then Inl (refuse st)
          else (let argv = [case h_which h (s_claude_cli_bin s) of Some b \<Rightarrow> if b = [] then s_claude_cli_bin s else b
                              | None \<Rightarrow> s_claude_cli_bin s, ''-p'', ''--output-format'', ''json'']
                           @ (if s_claude_cli_model s \<noteq> [] then [''--model'', s_claude_cli_model s] else [])
                           @ (if allowed_tools \<in> {None, Some []} then [] else [''--allowedTools'', the allowed_tools])
                           @ (if permission_mode \<in> {None, Some []} then [] else [''--permission-mode'', the permission_mode])
                in case run_cli h argv (Some prompt) timeout [] cwd of
                     Inl e \<Rightarrow> Inl (OtherRaise e)
                   | Inr res \<Rightarrow>
                       if cr_returncode res \<noteq> 0 \<or> cr_timed_out res
                       then Inl (claude_failure (cr_returncode res) (combined res) (cr_timed_out res))
                       else (case claude_payload (cr_stdout res) of
                           VDict payload \<Rightarrow>
                             if truthy (dget payload ''is_error'')
                             then Inl (claude_failure (cr_returncode res) (combined res) False)
                             else claude_answer st res payload
                         | _ \<Rightarrow> Inl (OtherRaise no_attr))))"

subsection \<open>Codex\<close>

definition CODEX_QUOTA_MARKERS :: "str list" where
  "CODEX_QUOTA_MARKERS = [''usage limit'', ''rate limit'', ''quota'', ''reached your limit'', ''too many requests'']"

definition CODEX_AUTH_MARKERS :: "str list" where
  "CODEX_AUTH_MARKERS = [''not logged in'', ''login'', ''401'', ''unauthorized'', ''authentication'']"

definition codex_auth_risk :: "host \<Rightarrow> provider_status option" where
  "codex_auth_risk h =
     (let unreadable = Some (status ''codex'' PS_BILLING_RISK []
            (''auth.json unreadable '' @ [CHR 0x97] @ '' billing state unverifiable''))
      in case h_fs h (pjoin h [h_home h, ''.codex'', ''auth.json'']) of
           File s \<Rightarrow> (case json_loads s of
               None \<Rightarrow> unreadable
             | Some v \<Rightarrow> (case get_attr v ''OPENAI_API_KEY'' of
                   None \<Rightarrow> unreadable
                 | Some k \<Rightarrow> if truthy k then Some (status ''codex'' PS_BILLING_RISK []
                        (''auth.json holds API-key auth (metered) '' @ [CHR 0x97]
                          @ '' run codex logout, then codex login with ChatGPT''))
                     else None))
         | Unreadable \<Rightarrow> unreadable
         | _ \<Rightarrow> None)"

definition codex_probe :: "host \<Rightarrow> settings \<Rightarrow> exn + provider_status" where
  "codex_probe h s =
     (case h_which h (s_codex_cli_bin s) of
        None \<Rightarrow> Inr (status ''codex'' UNAVAILABLE [] ''codex binary not found'')
      | Some bin \<Rightarrow>
          if bin = [] then Inr (status ''codex'' UNAVAILABLE [] ''codex binary not found'')
          else (case codex_auth_risk h of
              Some st \<Rightarrow> Inr st
            | None \<Rightarrow> (case run_cli h [bin, ''login'', ''status''] None 30 [] None of
                  Inl e \<Rightarrow> Inl e
                | Inr res \<Rightarrow>
                    (let low = py_lower (cr_stdout res @ '' '' @ cr_stderr res) in
                     if substr_in ''api key'' low
                     then Inr (status ''codex'' PS_BILLING_RISK [] ''codex login status reports API-key auth (metered)'')
                     else if cr_returncode res = 0 \<and> (substr_in ''chatgpt'' low \<or> substr_in ''logged in'' low)
                     then Inr (status ''codex'' AVAILABLE_SUBSCRIPTION ''chatgpt_subscription''
                            ''ChatGPT account sign-in (plan-included usage)'')
                     else Inr (status ''codex'' PS_AUTH_REQUIRED []
                            (''not logged in '' @ [CHR 0x97] @ '' run: codex login (or codex login --device-auth)''))))))"

definition codex_failure :: "int \<Rightarrow> str \<Rightarrow> bool \<Rightarrow> provider_exn" where
  "codex_failure rc txt timed_out =
     (case first_marker (py_lower txt) CODEX_QUOTA_MARKERS of
        Some m \<Rightarrow> ProviderError PS_QUOTA_EXHAUSTED (''codex reported a plan limit (matched '' @ quoted m @ '')'')
      | None \<Rightarrow> (case first_marker (py_lower txt) CODEX_AUTH_MARKERS of
            Some m \<Rightarrow> ProviderError PS_AUTH_REQUIRED (''codex reported an auth problem (matched '' @ quoted m @ '')'')
          | None \<Rightarrow> if timed_out then ProviderUnavailable ''codex CLI timed out''
                    else ProviderUnavailable (''codex CLI exit='' @ show_int rc)))"

text \<open>The tail that codex and gemini share: a failed run is classified, a silent one is
  unavailable, and otherwise the whole output is the answer.\<close>

definition plain_answer ::
  "(int \<Rightarrow> str \<Rightarrow> bool \<Rightarrow> provider_exn) \<Rightarrow> str \<Rightarrow> provider_status \<Rightarrow> cli_result \<Rightarrow> provider_exn + provider_response" where
  "plain_answer classify_failure empty_msg st res =
     (if cr_returncode res \<noteq> 0 \<or> cr_timed_out res
      then Inl (classify_failure (cr_returncode res) (combined res) (cr_timed_out res))
      else if py_strip (cr_stdout res) = [] then Inl (ProviderUnavailable empty_msg)
      else Inr \<lparr>ps_text = py_strip (cr_stdout res), ps_prompt_tokens = 0, ps_completion_tokens = 0,
                ps_auth_mode = pst_auth_mode st\<rparr>)"

definition codex_generate :: "host \<Rightarrow> settings \<Rightarrow> str \<Rightarrow> int \<Rightarrow> bool \<Rightarrow> provider_exn + provider_response" where
  "codex_generate h s prompt timeout web_search =
     (case codex_probe h s of
        Inl e \<Rightarrow> Inl (OtherRaise e)
      | Inr st \<Rightarrow>
          if pst_state st \<noteq> AVAILABLE_SUBSCRIPTION then Inl (refuse st)
          else (let argv = [case h_which h (s_codex_cli_bin s) of Some b \<Rightarrow> if b = [] then s_codex_cli_bin s else b
                              | None \<Rightarrow> s_codex_cli_bin s]
                           @ (if web_search then [''--search''] else [])
                           @ [''exec'', ''--skip-git-repo-check'', prompt]
                in case run_cli h argv None timeout []
                          (if s_codex_workspace s = [] then None else Some (s_codex_workspace s)) of
                     Inl e \<Rightarrow> Inl (OtherRaise e)
                   | Inr res \<Rightarrow> plain_answer codex_failure ''codex CLI returned empty output'' st res))"

subsection \<open>Gemini\<close>

definition GEMINI_QUOTA_MARKERS :: "str list" where
  "GEMINI_QUOTA_MARKERS = [''quota'', ''rate limit'', ''429'', ''resource_exhausted'', ''resource has been exhausted'']"

definition GEMINI_AUTH_DEMAND_MARKERS :: "str list" where
  "GEMINI_AUTH_DEMAND_MARKERS = [''set an auth method'', ''gemini_api_key'', ''google_genai_use_vertexai'']"

definition GEMINI_AUTH_MARKERS :: "str list" where
  "GEMINI_AUTH_MARKERS = [''login'', ''credentials'', ''oauth'', ''unauthorized'', ''401'']"

definition gemini_probe :: "host \<Rightarrow> settings \<Rightarrow> exn + provider_status" where
  "gemini_probe h s =
     (if h_which h (s_gemini_cli_bin s) \<in> {None, Some []}
      then Inr (status ''gemini'' UNAVAILABLE [] ''gemini binary not found'')
      else if \<not> is_file (h_fs h (pjoin h [h_home h, ''.gemini'', ''oauth_creds.json'']))
      then Inr (status ''gemini'' PS_AUTH_REQUIRED []
             (''no Google OAuth creds '' @ [CHR 0x97] @ '' sign in with a Google account (AI Pro/Ultra) if supported''))
      else Inr (status ''gemini'' AVAILABLE_SUBSCRIPTION ''google_oauth''
             ''cached Google-account OAuth (subscription-limits mode)''))"

definition gemini_failure :: "int \<Rightarrow> str \<Rightarrow> bool \<Rightarrow> provider_exn" where
  "gemini_failure rc txt timed_out =
     (case first_marker (py_lower txt) GEMINI_QUOTA_MARKERS of
        Some m \<Rightarrow> ProviderError PS_QUOTA_EXHAUSTED (''gemini reported a quota limit (matched '' @ quoted m @ '')'')
      | None \<Rightarrow> (case first_marker (py_lower txt) GEMINI_AUTH_DEMAND_MARKERS of
            Some m \<Rightarrow> ProviderUnavailable
              (''gemini CLI demands a metered auth method '' @ [CHR 0x97] @ '' OAuth mode unsupported in this build'')
          | None \<Rightarrow> (case first_marker (py_lower txt) GEMINI_AUTH_MARKERS of
                Some m \<Rightarrow> ProviderError PS_AUTH_REQUIRED (''gemini reported an auth problem (matched '' @ quoted m @ '')'')
              | None \<Rightarrow> if timed_out then ProviderUnavailable ''gemini CLI timed out''
                        else ProviderUnavailable (''gemini CLI exit='' @ show_int rc))))"

definition gemini_generate :: "host \<Rightarrow> settings \<Rightarrow> str \<Rightarrow> int \<Rightarrow> provider_exn + provider_response" where
  "gemini_generate h s prompt timeout =
     (case gemini_probe h s of
        Inl e \<Rightarrow> Inl (OtherRaise e)
      | Inr st \<Rightarrow>
          if pst_state st \<noteq> AVAILABLE_SUBSCRIPTION then Inl (refuse st)
          else (let bin = (case h_which h (s_gemini_cli_bin s) of Some b \<Rightarrow> if b = [] then s_gemini_cli_bin s else b
                              | None \<Rightarrow> s_gemini_cli_bin s)
                in case run_cli h [bin, ''-p'', prompt] None timeout [(''GOOGLE_GENAI_USE_GCA'', ''true'')] None of
                     Inl e \<Rightarrow> Inl (OtherRaise e)
                   | Inr res \<Rightarrow> plain_answer gemini_failure ''gemini CLI returned empty output'' st res))"

subsection \<open>The registry\<close>

definition PROVIDERS :: "str list" where "PROVIDERS = [''claude'', ''codex'', ''gemini'']"

definition provider_generate :: "host \<Rightarrow> settings \<Rightarrow> str \<Rightarrow> str \<Rightarrow> bool \<Rightarrow> provider_exn + provider_response" where
  "provider_generate h s name prompt web_search =
     (if name = ''claude'' then claude_generate h s prompt (s_cli_timeout_seconds s) None None None
      else if name = ''codex'' then codex_generate h s prompt (s_cli_timeout_seconds s) web_search
      else gemini_generate h s prompt (s_cli_timeout_seconds s))"

definition provider_probe :: "host \<Rightarrow> settings \<Rightarrow> str \<Rightarrow> exn + provider_status" where
  "provider_probe h s name =
     (if name = ''claude'' then claude_probe h s
      else if name = ''codex'' then codex_probe h s
      else gemini_probe h s)"

subsection \<open>Metered credentials are inert\<close>

lemma scrubbed_absent:
  "k \<in> set SCRUBBED_ENV_VARS \<Longrightarrow> map_of (rev extra) k = None \<Longrightarrow> scrubbed_env env extra k = None"
  by (simp add: scrubbed_env_def map_add_def)

lemma scrubbed_agree:
  "(\<And>k. k \<notin> set SCRUBBED_ENV_VARS \<Longrightarrow> env k = env' k) \<Longrightarrow> scrubbed_env env extra = scrubbed_env env' extra"
  by (auto simp: scrubbed_env_def fun_eq_iff map_add_def split: option.splits)

text \<open>The variables that let a CLI bill, named here apart from the list the code scrubs.\<close>

definition METERED_CREDENTIALS :: "str list" where
  "METERED_CREDENTIALS =
     [''OPENAI_API_KEY'', ''GEMINI_API_KEY'', ''GOOGLE_API_KEY'', ''GOOGLE_APPLICATION_CREDENTIALS'', ''GOOGLE_GENAI_USE_VERTEXAI'',
      ''ANTHROPIC_API_KEY'', ''ANTHROPIC_AUTH_TOKEN'', ''ANTHROPIC_PROFILE'', ''ANTHROPIC_FEDERATION_RULE_ID'',
      ''ANTHROPIC_ORGANIZATION_ID'', ''CLAUDE_CODE_USE_BEDROCK'', ''CLAUDE_CODE_USE_VERTEX'', ''CLAUDE_CODE_USE_FOUNDRY'']"

lemma scrubbed_metered: "set SCRUBBED_ENV_VARS = set METERED_CREDENTIALS"
  unfolding SCRUBBED_ENV_VARS_def METERED_CREDENTIALS_def list.set by (simp only: insert_commute)

text \<open>Two machines that differ in metered variables of the environment, and in what a command
  does when one of them is set, look the same to every provider.\<close>

definition clean_env :: "environ \<Rightarrow> bool" where
  "clean_env e \<longleftrightarrow> (\<forall>k\<in>set METERED_CREDENTIALS. e k = None)"

definition same_but_metered :: "host \<Rightarrow> host \<Rightarrow> bool" where
  "same_but_metered h h' \<longleftrightarrow>
     (\<forall>k. k \<notin> set METERED_CREDENTIALS \<longrightarrow> h_env h k = h_env h' k) \<and> h_home h = h_home h' \<and> h_nt h = h_nt h'
     \<and> h_sep h = h_sep h' \<and> h_which h = h_which h' \<and> h_fs h = h_fs h'
     \<and> (\<forall>argv i t e c. clean_env e \<longrightarrow> h_exec h argv i t e c = h_exec h' argv i t e c)"

lemma run_cli_same:
  assumes "same_but_metered h h'" and "\<forall>k\<in>set SCRUBBED_ENV_VARS. map_of (rev extra) k = None"
  shows "run_cli h argv i t extra c = run_cli h' argv i t extra c"
proof -
  have "clean_env (scrubbed_env (h_env h) extra)"
    using assms(2) by (simp add: clean_env_def scrubbed_absent scrubbed_metered [symmetric])
  moreover have "scrubbed_env (h_env h) extra = scrubbed_env (h_env h') extra"
    using assms(1) by (intro scrubbed_agree) (simp add: same_but_metered_def scrubbed_metered)
  ultimately show ?thesis using assms(1) by (simp add: run_cli_def same_but_metered_def)
qed

lemma same_env_or:
  "same_but_metered h h' \<Longrightarrow> k \<notin> set SCRUBBED_ENV_VARS \<Longrightarrow> env_or (h_env h) k = env_or (h_env h') k"
  by (simp add: same_but_metered_def env_or_def scrubbed_metered)

lemma same_dirs:
  assumes "same_but_metered h h'"
  shows "config_dir h = config_dir h'" "anthropic_profile_dir h = anthropic_profile_dir h'"
proof -
  have "env_or (h_env h) ''CLAUDE_CONFIG_DIR'' = env_or (h_env h') ''CLAUDE_CONFIG_DIR''"
    "env_or (h_env h) ''APPDATA'' = env_or (h_env h') ''APPDATA''"
    by (rule same_env_or [OF assms], simp add: SCRUBBED_ENV_VARS_def)+
  then show "config_dir h = config_dir h'" "anthropic_profile_dir h = anthropic_profile_dir h'"
    using assms by (simp_all add: config_dir_def anthropic_profile_dir_def pjoin_def same_but_metered_def)
qed

lemma same_fs: "same_but_metered h h' \<Longrightarrow> h_fs h (pjoin h ps) = h_fs h' (pjoin h' ps)"
  "same_but_metered h h' \<Longrightarrow> h_which h = h_which h'" "same_but_metered h h' \<Longrightarrow> h_home h = h_home h'"
  by (simp_all add: same_but_metered_def pjoin_def)

lemma same_probe:
  assumes "same_but_metered h h'"
  shows "claude_probe h s = claude_probe h' s" "codex_probe h s = codex_probe h' s" "gemini_probe h s = gemini_probe h' s"
proof -
  note f = same_fs [OF assms] same_dirs [OF assms]
  have nil: "\<forall>k\<in>set SCRUBBED_ENV_VARS. map_of (rev []) k = None" by simp
  have tok: "env_or (h_env h) ''CLAUDE_CODE_OAUTH_TOKEN'' = env_or (h_env h') ''CLAUDE_CODE_OAUTH_TOKEN''"
    by (rule same_env_or [OF assms]) (simp add: SCRUBBED_ENV_VARS_def)
  have "settings_risk h = settings_risk h'" "credentials_status h = credentials_status h'"
    "codex_auth_risk h = codex_auth_risk h'"
    by (simp_all only: settings_risk_def credentials_status_def codex_auth_risk_def f)
  then show "claude_probe h s = claude_probe h' s" "codex_probe h s = codex_probe h' s" "gemini_probe h s = gemini_probe h' s"
    by (simp_all only: claude_probe_def codex_probe_def gemini_probe_def f tok run_cli_same [OF assms nil])
qed

text \<open>C30. A metered credential in the worker's environment has no effect on any provider: what a
  provider answers, and what its probe reports, is the same on any two machines that differ only in the
  thirteen variables of \<open>METERED_CREDENTIALS\<close> - the API keys and the switches to a billed endpoint - and in what a command does
  with one of them set.\<close>

theorem metered_credentials_inert:
  assumes "same_but_metered h h'"
  shows "provider_generate h s name prompt web = provider_generate h' s name prompt web
     \<and> provider_probe h s name = provider_probe h' s name"
proof -
  note p = same_probe [OF assms] same_fs(2) [OF assms]
  have gca: "\<forall>k\<in>set SCRUBBED_ENV_VARS. map_of (rev [(''GOOGLE_GENAI_USE_GCA'', ''true'')]) k = None"
    by (simp add: SCRUBBED_ENV_VARS_def)
  have nil: "\<forall>k\<in>set SCRUBBED_ENV_VARS. map_of (rev []) k = None" by simp
  have "claude_generate h s prompt t tools pm cd = claude_generate h' s prompt t tools pm cd"
    "codex_generate h s prompt t web = codex_generate h' s prompt t web"
    "gemini_generate h s prompt t = gemini_generate h' s prompt t" for t tools pm cd
    by (simp_all only: claude_generate_def codex_generate_def gemini_generate_def p
        run_cli_same [OF assms gca] run_cli_same [OF assms nil])
  then show ?thesis by (simp only: provider_generate_def provider_probe_def p)
qed

definition demo_host :: "str option \<Rightarrow> host" where
  "demo_host key = \<lparr>h_env = Map.empty (''ANTHROPIC_API_KEY'' := key), h_home = ''/home/o'', h_nt = False, h_sep = ''/'',
     h_which = (\<lambda>b. Some b), h_fs = (\<lambda>p. if p = ''/home/o/.gemini/oauth_creds.json'' then File [] else Missing),
     h_exec = (\<lambda>argv i t e c. if e ''ANTHROPIC_API_KEY'' = None then Exited 0 ''ok'' [] else Exited 0 ''billed'' [])\<rparr>"

theorem metered_credentials_inert_witness:
  "same_but_metered (demo_host (Some ''sk'')) (demo_host None)
   \<and> provider_generate (demo_host (Some ''sk'')) (get_settings (\<lambda>p. True) (@) ''r'' Map.empty) ''gemini'' ''hi'' False
      = provider_generate (demo_host None) (get_settings (\<lambda>p. True) (@) ''r'' Map.empty) ''gemini'' ''hi'' False"
proof -
  have "same_but_metered (demo_host (Some ''sk'')) (demo_host None)"
    by (auto simp: same_but_metered_def demo_host_def METERED_CREDENTIALS_def clean_env_def)
  from metered_credentials_inert [OF this] this show ?thesis by blast
qed

end
