(* ===== verification/Quota.thy ===== *)
theory Quota
  imports Providers Db
begin

text \<open>
  \<open>src/cloudos/router/quota.py\<close>: the daily usage counters, in the table \<open>quota_usage\<close> when a
  database is configured and in the process otherwise. A failing statement raises
  \<open>QuotaStoreError\<close> (\<open>None\<close> here).
\<close>

record rstate =
  r_db :: db
  r_local :: "((str \<times> int) \<times> (int \<times> int)) list"

definition db_mode :: "settings \<Rightarrow> bool" where
  "db_mode s \<longleftrightarrow> s_database_url s \<noteq> []"

definition quota_key :: "str \<Rightarrow> int \<Rightarrow> quota_row \<Rightarrow> bool" where
  "quota_key p dy r \<longleftrightarrow> qu_provider r = p \<and> qu_day r = dy"

definition get_usage :: "settings \<Rightarrow> bool \<Rightarrow> str \<Rightarrow> int \<Rightarrow> rstate \<Rightarrow> (int \<times> int) option" where
  "get_usage s ok p dy st =
     (if db_mode s
      then (if \<not> ok then None
            else Some (case find (quota_key p dy) (d_quota (r_db st)) of
                None \<Rightarrow> (0, 0) | Some r \<Rightarrow> (qu_requests r, qu_units r)))
      else Some (case map_of (r_local st) (p, dy) of None \<Rightarrow> (0, 0) | Some u \<Rightarrow> u))"

definition upsert_quota :: "str \<Rightarrow> int \<Rightarrow> int \<Rightarrow> int \<Rightarrow> quota_row list \<Rightarrow> quota_row list" where
  "upsert_quota p dy reqs units t =
     (if count_where (quota_key p dy) t = 0
      then t @ [\<lparr>qu_provider = p, qu_day = dy, qu_requests = reqs, qu_units = units\<rparr>]
      else upd_where (quota_key p dy)
             (\<lambda>r. r\<lparr>qu_requests := qu_requests r + reqs, qu_units := qu_units r + units\<rparr>) t)"

definition increment :: "settings \<Rightarrow> bool \<Rightarrow> str \<Rightarrow> int \<Rightarrow> int \<Rightarrow> int \<Rightarrow> rstate \<Rightarrow> rstate option" where
  "increment s ok p dy reqs units st =
     (if db_mode s
      then (if ok then Some (st\<lparr>r_db := (r_db st)\<lparr>d_quota := upsert_quota p dy reqs units (d_quota (r_db st))\<rparr>\<rparr>)
            else None)
      else (case (case map_of (r_local st) (p, dy) of None \<Rightarrow> (0, 0) | Some u \<Rightarrow> u) of
              (r, u) \<Rightarrow> Some (st\<lparr>r_local := dput (r_local st) (p, dy) (r + reqs, u + units)\<rparr>)))"

lemma find_upsert:
  "find (quota_key p' dy') (upsert_quota p dy reqs units t) =
     (if p' = p \<and> dy' = dy
      then Some (case find (quota_key p dy) t of
             None \<Rightarrow> \<lparr>qu_provider = p, qu_day = dy, qu_requests = reqs, qu_units = units\<rparr>
           | Some r \<Rightarrow> r\<lparr>qu_requests := qu_requests r + reqs, qu_units := qu_units r + units\<rparr>)
      else find (quota_key p' dy') t)"
proof (cases "count_where (quota_key p dy) t = 0")
  case True
  have app: "find q (t @ [x]) = (case find q t of Some r \<Rightarrow> Some r | None \<Rightarrow> if q x then Some x else None)" for q and x :: quota_row
    by (induction t) auto
  have "find (quota_key p dy) t = None" using True by (simp add: count_where_0 find_None_iff)
  then show ?thesis using True by (auto simp: upsert_quota_def app quota_key_def split: option.splits)
next
  case False
  have "find (quota_key p' dy') (upd_where (quota_key p dy) f t)
     = (if p' = p \<and> dy' = dy then map_option f (find (quota_key p dy) t) else find (quota_key p' dy') t)"
    if "\<And>r. qu_provider (f r) = qu_provider r" "\<And>r. qu_day (f r) = qu_day r" for f
    using that by (induction t) (auto simp: quota_key_def)
  moreover have "find (quota_key p dy) t \<noteq> None" using False by (auto simp: count_where_0 find_None_iff)
  ultimately show ?thesis using False by (auto simp: upsert_quota_def)
qed

text \<open>Counting adds exactly what it is told to the counters of its provider and day, and to
  no other, in either mode.\<close>

theorem increment_exact:
  assumes "increment s True p dy reqs units st = Some st'"
  shows "get_usage s True p' dy' st' =
     (if p' = p \<and> dy' = dy
      then map_option (\<lambda>(r, u). (r + reqs, u + units)) (get_usage s True p dy st)
      else get_usage s True p' dy' st)"
proof (cases "db_mode s")
  case True
  then have "d_quota (r_db st') = upsert_quota p dy reqs units (d_quota (r_db st))"
    using assms by (auto simp: increment_def)
  then show ?thesis using True by (auto simp: get_usage_def find_upsert split: option.splits)
next
  case False
  then show ?thesis
    using assms by (auto simp: increment_def get_usage_def split: option.splits prod.splits)
qed

theorem increment_exact_witness:
  "\<exists>st'. increment ((get_settings (\<lambda>p. True) (@) ''r'' Map.empty)\<lparr>s_database_url := ''pg''\<rparr>) True ''claude'' 7 1 0
            \<lparr>r_db = empty_db, r_local = []\<rparr> = Some st'
     \<and> get_usage ((get_settings (\<lambda>p. True) (@) ''r'' Map.empty)\<lparr>s_database_url := ''pg''\<rparr>) True ''claude'' 7 st' = Some (1, 0)"
proof -
  let ?s = "(get_settings (\<lambda>p. True) (@) ''r'' Map.empty)\<lparr>s_database_url := ''pg''\<rparr>"
  let ?st = "\<lparr>r_db = empty_db, r_local = []\<rparr>"
  obtain st' where i: "increment ?s True ''claude'' 7 1 0 ?st = Some st'"
    by (simp add: increment_def db_mode_def)
  have "get_usage ?s True ''claude'' 7 ?st = Some (0, 0)" by (simp add: get_usage_def db_mode_def empty_db_def)
  with increment_exact [OF i, of "''claude''" 7] i show ?thesis by simp
qed

end
