(* ===== verification/Regex.thy ===== *)
theory Regex
  imports CloudPrelude
begin

text \<open>
  Python's \<open>re\<close> as far as the code uses it: a parser of pattern texts and a backtracking
  matcher that lists, in the order the engine tries them, the ways a pattern matches at a
  position; the engine's match is the first. Patterns are kept as the texts of the source, with
  a tilde where the source has a backslash.
\<close>

subsection \<open>Patterns\<close>

text \<open>A class is a list of items, possibly negated, possibly ignoring case.\<close>

datatype citem =
    CChr char
  | CRange char char
  | CWord
  | CDigit
  | CSpace
  | CNot citem

datatype rx =
    Never
  | Eps
  | Cls bool bool "citem list"
  | Seq rx rx
  | Alt rx rx
  | Rep rx nat "nat option" bool
  | Grp nat rx
  | WordB
  | Bol bool
  | Eol bool
  | EndZ
  | Ahead bool rx
  | Behind bool bool "citem list"
  | Backref nat

text \<open>A position in the subject: the text before it, reversed, the text after it, and the
  groups captured so far as index, start and end.\<close>

record mst =
  ms_pre :: str
  ms_rest :: str
  ms_caps :: "(nat \<times> nat \<times> nat) list"

definition is_word :: "char \<Rightarrow> bool" where
  "is_word c = (let n = of_char c :: nat in
     if n < 48 then False else if n \<le> 57 then True
     else if n < 65 then False else if n \<le> 90 then True
     else if n < 97 then n = 95 else if n \<le> 122 then True
     else if n < 192 then n \<in> {131, 138, 140, 142, 154, 156, 158, 159, 170, 178, 179, 181, 185, 186, 188, 189, 190}
     else n \<noteq> 215 \<and> n \<noteq> 247)"

fun in_item :: "citem \<Rightarrow> char \<Rightarrow> bool" where
  "in_item (CChr a) c = (c = a)"
| "in_item (CRange a b) c = (let n = of_char c :: nat in if of_char a \<le> n then n \<le> of_char b else False)"
| "in_item CWord c = is_word c"
| "in_item CDigit c = is_digit c"
| "in_item CSpace c = py_isspace c"
| "in_item (CNot i) c = (\<not> in_item i c)"

fun in_items :: "citem list \<Rightarrow> char \<Rightarrow> bool" where
  "in_items [] c = False"
| "in_items (i # is) c = (if in_item i c then True else in_items is c)"

text \<open>Ignoring case, a class contains a character one of whose cases is in it.\<close>

definition in_class :: "bool \<Rightarrow> bool \<Rightarrow> citem list \<Rightarrow> char \<Rightarrow> bool" where
  "in_class neg ic items c =
     (neg \<noteq> (if in_items items c then True
             else if ic then (if in_items items (py_lower_char c) then True else in_items items (py_upper_char c))
             else False))"

definition word_next :: "mst \<Rightarrow> bool" where
  "word_next st = (case ms_rest st of [] \<Rightarrow> False | c # _ \<Rightarrow> is_word c)"

definition word_prev :: "mst \<Rightarrow> bool" where
  "word_prev st = (case ms_pre st of [] \<Rightarrow> False | c # _ \<Rightarrow> is_word c)"

definition step :: "(char \<Rightarrow> bool) \<Rightarrow> mst \<Rightarrow> mst list" where
  "step p st = (case ms_rest st of [] \<Rightarrow> []
     | c # r \<Rightarrow> if p c then [st\<lparr>ms_pre := c # ms_pre st, ms_rest := r\<rparr>] else [])"

text \<open>A repetition: \<open>lo\<close> obligatory rounds, then rounds that make progress while \<open>hi\<close> allows,
  greedy or not. The fuel is the length of the rest and \<open>lo\<close>: every round uses one of them.\<close>

primrec rep :: "(mst \<Rightarrow> mst list) \<Rightarrow> bool \<Rightarrow> nat \<Rightarrow> nat \<Rightarrow> nat option \<Rightarrow> mst \<Rightarrow> mst list" where
  "rep f g 0 lo hi st = (if lo = 0 then [st] else [])"
| "rep f g (Suc k) lo hi st =
     (let more = (if hi = Some 0 then []
                  else concat (map (rep f g k (lo - 1) (map_option (\<lambda>h. h - 1) hi))
                         (filter (\<lambda>st'. 0 < lo \<or> length (ms_rest st') < length (ms_rest st)) (f st))));
          stop = (if lo = 0 then [st] else [])
      in if g then more @ stop else stop @ more)"

definition take_text :: "nat \<Rightarrow> nat \<Rightarrow> str \<Rightarrow> str" where
  "take_text a b s = take (b - a) (drop a s)"

definition cap_text :: "mst \<Rightarrow> nat \<Rightarrow> str option" where
  "cap_text st n = map_option (\<lambda>(a, b). take_text a b (rev (ms_pre st) @ ms_rest st)) (map_of (ms_caps st) n)"

definition skip_text :: "str \<Rightarrow> mst \<Rightarrow> mst list" where
  "skip_text t st = (if startswith (ms_rest st) t
     then [st\<lparr>ms_pre := rev t @ ms_pre st, ms_rest := drop (length t) (ms_rest st)\<rparr>] else [])"

primrec ways :: "rx \<Rightarrow> mst \<Rightarrow> mst list" where
  "ways Never st = []"
| "ways Eps st = [st]"
| "ways (Cls neg ic items) st = step (in_class neg ic items) st"
| "ways (Seq a b) st = concat (map (ways b) (ways a st))"
| "ways (Alt a b) st = ways a st @ ways b st"
| "ways (Rep r lo hi g) st = rep (ways r) g (length (ms_rest st) + lo + 1) lo hi st"
| "ways (Grp n r) st =
     map (\<lambda>st'. st'\<lparr>ms_caps := (n, length (ms_pre st), length (ms_pre st')) # ms_caps st'\<rparr>) (ways r st)"
| "ways WordB st = (if word_prev st \<noteq> word_next st then [st] else [])"
| "ways (Bol ml) st = (if ms_pre st = [] \<or> (ml \<and> hd (ms_pre st) = CHR 0x0A) then [st] else [])"
| "ways (Eol ml) st = (if ms_rest st = [] \<or> ms_rest st = [CHR 0x0A] \<or> (ml \<and> hd (ms_rest st) = CHR 0x0A)
     then [st] else [])"
| "ways EndZ st = (if ms_rest st = [] then [st] else [])"
| "ways (Ahead pos r) st = (case ways r st of
       [] \<Rightarrow> (if pos then [] else [st])
     | e # _ \<Rightarrow> (if pos then [st\<lparr>ms_caps := ms_caps e\<rparr>] else []))"
| "ways (Behind neg ic items) st =
     (case ms_pre st of [] \<Rightarrow> [] | c # _ \<Rightarrow> if in_class neg ic items c then [st] else [])"
| "ways (Backref n) st = (case cap_text st n of None \<Rightarrow> [] | Some t \<Rightarrow> skip_text t st)"

subsection \<open>Searching\<close>

record rmatch =
  rm_start :: nat
  rm_end :: nat
  rm_text :: str
  rm_caps :: "(nat \<times> str) list"

definition start_at :: "str \<Rightarrow> str \<Rightarrow> mst" where
  "start_at pre s = \<lparr>ms_pre = pre, ms_rest = s, ms_caps = []\<rparr>"

definition mk_match :: "nat \<Rightarrow> mst \<Rightarrow> rmatch" where
  "mk_match a e = (let s = rev (ms_pre e) @ ms_rest e in
     \<lparr>rm_start = a, rm_end = length (ms_pre e), rm_text = take_text a (length (ms_pre e)) s,
      rm_caps = map (\<lambda>(n, x, y). (n, take_text x y s)) (ms_caps e)\<rparr>)"

definition rx_at :: "rx \<Rightarrow> bool \<Rightarrow> str \<Rightarrow> str \<Rightarrow> mst option" where
  "rx_at r adv pre s =
     (case filter (\<lambda>e. \<not> adv \<or> length (ms_rest e) < length s) (ways r (start_at pre s)) of
        [] \<Rightarrow> None | e # _ \<Rightarrow> Some e)"

text \<open>\<open>search\<close> from a position on; \<open>adv\<close> refuses an empty match at the position itself.\<close>

fun rx_search_from :: "rx \<Rightarrow> bool \<Rightarrow> str \<Rightarrow> str \<Rightarrow> (nat \<times> mst) option" where
  "rx_search_from r adv pre [] = map_option (\<lambda>e. (length pre, e)) (rx_at r adv pre [])"
| "rx_search_from r adv pre (c # s) =
     (case rx_at r adv pre (c # s) of
        Some e \<Rightarrow> Some (length pre, e)
      | None \<Rightarrow> rx_search_from r False (c # pre) s)"

definition rx_search :: "rx \<Rightarrow> str \<Rightarrow> rmatch option" where
  "rx_search r s = map_option (\<lambda>(a, e). mk_match a e) (rx_search_from r False [] s)"

definition rx_found :: "rx \<Rightarrow> str \<Rightarrow> bool" where
  "rx_found r s \<longleftrightarrow> rx_search r s \<noteq> None"

definition rx_match :: "rx \<Rightarrow> str \<Rightarrow> rmatch option" where
  "rx_match r s = map_option (mk_match 0) (rx_at r False [] s)"

definition rx_fullmatch :: "rx \<Rightarrow> str \<Rightarrow> bool" where
  "rx_fullmatch r s \<longleftrightarrow> (\<exists>e\<in>set (ways r (start_at [] s)). ms_rest e = [])"

text \<open>\<open>finditer\<close>: after an empty match the next one must advance; two rounds per character
  are enough.\<close>

fun rx_iter :: "nat \<Rightarrow> rx \<Rightarrow> bool \<Rightarrow> str \<Rightarrow> str \<Rightarrow> rmatch list" where
  "rx_iter 0 r adv pre s = []"
| "rx_iter (Suc n) r adv pre s =
     (case rx_search_from r adv pre s of
        None \<Rightarrow> []
      | Some (a, e) \<Rightarrow> mk_match a e # rx_iter n r (length (ms_pre e) = a) (ms_pre e) (ms_rest e))"

definition rx_finditer :: "rx \<Rightarrow> str \<Rightarrow> rmatch list" where
  "rx_finditer r s = rx_iter (2 * length s + 2) r False [] s"

definition rm_group :: "rmatch \<Rightarrow> nat \<Rightarrow> str option" where
  "rm_group m n = map_of (rm_caps m) n"

text \<open>\<open>sub\<close> with a replacement computed from the match, and \<open>split\<close> on a pattern without
  groups.\<close>

fun sub_between :: "(rmatch \<Rightarrow> str) \<Rightarrow> nat \<Rightarrow> rmatch list \<Rightarrow> str \<Rightarrow> str" where
  "sub_between f b [] s = drop b s"
| "sub_between f b (m # ms) s = take_text b (rm_start m) s @ f m @ sub_between f (rm_end m) ms s"

definition rx_sub :: "rx \<Rightarrow> (rmatch \<Rightarrow> str) \<Rightarrow> str \<Rightarrow> str" where
  "rx_sub r f s = sub_between f 0 (rx_finditer r s) s"

fun split_between :: "nat \<Rightarrow> rmatch list \<Rightarrow> str \<Rightarrow> str list" where
  "split_between b [] s = [drop b s]"
| "split_between b (m # ms) s = take_text b (rm_start m) s # split_between (rm_end m) ms s"

definition rx_split :: "rx \<Rightarrow> str \<Rightarrow> str list" where
  "rx_split r s = split_between 0 (rx_finditer r s) s"

subsection \<open>Matches are pieces of the subject\<close>

text \<open>Whatever a pattern matches, the engine walks forward over the same subject.\<close>

definition ms_text :: "mst \<Rightarrow> str" where
  "ms_text st = rev (ms_pre st) @ ms_rest st"

definition onward :: "mst \<Rightarrow> mst \<Rightarrow> bool" where
  "onward st e \<longleftrightarrow> ms_text e = ms_text st \<and> length (ms_pre st) \<le> length (ms_pre e)"

lemma onward_refl [simp]: "onward st st"
  by (simp add: onward_def)

lemma onward_trans: "onward a b \<Longrightarrow> onward b c \<Longrightarrow> onward a c"
  by (simp add: onward_def)

lemma onward_caps [simp]: "onward st (e\<lparr>ms_caps := x\<rparr>) = onward st e"
  by (simp add: onward_def ms_text_def)

lemma step_onward: "e \<in> set (step p st) \<Longrightarrow> onward st e"
  by (auto simp: step_def onward_def ms_text_def split: list.splits if_splits)

lemma skip_text_onward: "e \<in> set (skip_text t st) \<Longrightarrow> onward st e"
  by (auto simp: skip_text_def onward_def ms_text_def startswith_def split: if_splits)
     (metis append_take_drop_id)

lemma rep_onward:
  assumes "\<And>st e. e \<in> set (f st) \<Longrightarrow> onward st e"
  shows "e \<in> set (rep f g k lo hi st) \<Longrightarrow> onward st e"
proof (induction k arbitrary: lo hi st)
  case (Suc k)
  then consider "e = st"
    | st' where "st' \<in> set (f st)" "e \<in> set (rep f g k (lo - 1) (map_option (\<lambda>h. h - 1) hi) st')"
    by (auto simp: Let_def split: if_splits)
  then show ?case
  proof cases
    case 2
    from assms [OF 2(1)] Suc.IH [OF 2(2)] show ?thesis by (rule onward_trans)
  qed simp
qed (simp split: if_splits)

lemma ways_onward: "e \<in> set (ways r st) \<Longrightarrow> onward st e"
proof (induction r arbitrary: st e)
  case (Seq a b)
  then show ?case using onward_trans by fastforce
next
  case (Rep r lo hi g)
  from Rep.prems have "e \<in> set (rep (ways r) g (length (ms_rest st) + lo + 1) lo hi st)" by (simp only: ways.simps)
  then show ?case using rep_onward [of "ways r"] Rep.IH by blast
next
  case (Ahead pos r)
  then show ?case by (auto split: list.splits if_splits)
next
  case (Backref n)
  then show ?case by (auto dest: skip_text_onward split: option.splits)
qed (auto dest: step_onward split: list.splits if_splits)

lemma rx_at_way: "rx_at r adv pre s = Some e \<Longrightarrow> e \<in> set (ways r (start_at pre s))"
  by (cases "filter (\<lambda>e. \<not> adv \<or> length (ms_rest e) < length s) (ways r (start_at pre s))")
     (auto simp: rx_at_def dest!: Cons_eq_filterD [OF sym])

lemma search_onward:
  "rx_search_from r adv pre s = Some (a, e) \<Longrightarrow>
     ms_text e = rev pre @ s \<and> length pre \<le> a \<and> a \<le> length (ms_pre e)"
proof (induction r adv pre s rule: rx_search_from.induct)
  case (1 r adv pre)
  then have "e \<in> set (ways r (start_at pre []))" "a = length pre"
    by (auto dest: rx_at_way)
  then show ?case using ways_onward by (fastforce simp: onward_def ms_text_def start_at_def)
next
  case (2 r adv pre c s)
  show ?case
  proof (cases "rx_at r adv pre (c # s)")
    case None
    then show ?thesis using 2 by auto
  next
    case (Some e')
    then have "e' \<in> set (ways r (start_at pre (c # s)))"
      by (rule rx_at_way)
    moreover have "e' = e" "a = length pre" using Some 2(2) by simp_all
    ultimately show ?thesis using ways_onward by (fastforce simp: onward_def ms_text_def start_at_def)
  qed
qed

definition inside :: "str \<Rightarrow> rmatch \<Rightarrow> bool" where
  "inside s m \<longleftrightarrow> rm_start m \<le> rm_end m \<and> rm_end m \<le> length s \<and> rm_text m = take_text (rm_start m) (rm_end m) s"

lemma mk_match_inside: "ms_text e = s \<Longrightarrow> a \<le> length (ms_pre e) \<Longrightarrow> inside s (mk_match a e)"
  by (auto simp: inside_def mk_match_def Let_def ms_text_def)

lemma rx_iter_inside:
  "m \<in> set (rx_iter n r adv pre s) \<Longrightarrow> inside (rev pre @ s) m"
proof (induction n arbitrary: adv pre s)
  case (Suc n)
  obtain a e where e: "rx_search_from r adv pre s = Some (a, e)"
    using Suc.prems by (cases "rx_search_from r adv pre s") auto
  note t = search_onward [OF e]
  consider "m = mk_match a e" | "m \<in> set (rx_iter n r (length (ms_pre e) = a) (ms_pre e) (ms_rest e))"
    using Suc.prems e by auto
  then show ?case
  proof cases
    case 1
    then show ?thesis using t mk_match_inside by auto
  next
    case 2
    then show ?thesis using Suc.IH t by (fastforce simp: ms_text_def)
  qed
qed simp

lemma rx_finditer_inside: "m \<in> set (rx_finditer r s) \<Longrightarrow> inside s m"
  unfolding rx_finditer_def by (drule rx_iter_inside) simp

lemma rx_search_inside: "rx_search r s = Some m \<Longrightarrow> inside s m"
  using search_onward [of r False "[]" s] mk_match_inside by (auto simp: rx_search_def)

text \<open>A greedy run of one class up to a character outside it: when nothing else can follow inside
  the run, what follows it continues at its end.\<close>

definition fwd :: "str \<Rightarrow> mst \<Rightarrow> mst" where
  "fwd t st = st\<lparr>ms_pre := rev t @ ms_pre st, ms_rest := drop (length t) (ms_rest st)\<rparr>"

lemma fwd_sel [simp]: "ms_pre (fwd t st) = rev t @ ms_pre st" "ms_rest (fwd t st) = drop (length t) (ms_rest st)" "ms_caps (fwd t st) = ms_caps st"
  by (simp_all add: fwd_def)

lemma fwd_Nil [simp]: "fwd [] st = st"
  by (simp add: fwd_def)

lemma rep_until:
  assumes "\<not> p c" and "ms_rest st = t @ c # r" and "\<forall>x\<in>set t. p x" and "lo \<le> length t" and "length t < k"
    and "\<And>s. ms_rest s \<noteq> [] \<Longrightarrow> p (hd (ms_rest s)) \<Longrightarrow> f s = []" 
  shows "concat (map f (rep (step p) True k lo None st)) = f (fwd t st)"
  using assms
proof (induction t arbitrary: st lo k)
  case Nil
  obtain k' where "k = Suc k'" using Nil by (cases k) auto
  then show ?case using Nil by (simp add: step_def)
next
  case (Cons x t)
  obtain k' where k: "k = Suc k'" using Cons.prems by (cases k) auto
  let ?st = "st\<lparr>ms_pre := x # ms_pre st, ms_rest := t @ c # r\<rparr>"
  have s: "step p st = [?st]" using Cons.prems by (simp add: step_def)
  have f: "f st = []" using Cons.prems by simp
  have "concat (map f (rep (step p) True k' (lo - 1) None ?st)) = f (fwd t ?st)"
    using Cons.prems k by (intro Cons.IH) auto
  moreover have "fwd t ?st = fwd (x # t) st" using Cons.prems by (simp add: fwd_def)
  ultimately show ?case using k s f Cons.prems by (simp add: Let_def)
qed

subsection \<open>Pattern texts\<close>

record rflags =
  fl_i :: bool
  fl_s :: bool
  fl_m :: bool

text \<open>Ignoring case, a literal is the class of its two cases.\<close>

definition lit :: "rflags \<Rightarrow> char \<Rightarrow> rx" where
  "lit fl c = Cls False False (if fl_i fl then [CChr c, CChr (py_lower_char c), CChr (py_upper_char c)] else [CChr c])"

definition esc_class :: "char \<Rightarrow> citem option" where
  "esc_class e = (if e = CHR ''w'' then Some CWord else if e = CHR ''W'' then Some (CNot CWord)
     else if e = CHR ''d'' then Some CDigit else if e = CHR ''D'' then Some (CNot CDigit)
     else if e = CHR ''s'' then Some CSpace else if e = CHR ''S'' then Some (CNot CSpace)
     else None)"

definition esc_lit :: "char \<Rightarrow> char" where
  "esc_lit e = (if e = CHR ''n'' then CHR 0x0A else if e = CHR ''t'' then CHR 0x09
     else if e = CHR ''r'' then CHR 0x0D else e)"

definition tilde :: char where "tilde = CHR 0x7E"

definition rx_hex :: "char \<Rightarrow> nat" where
  "rx_hex c = (let n = of_char c in if n \<le> 57 then n - 48 else if n \<le> 70 then n - 55 else n - 87)"

text \<open>One item of a bracketed class: a character or a class escape.\<close>

definition p_item :: "str \<Rightarrow> (citem \<times> str) option" where
  "p_item s = (case s of
      [] \<Rightarrow> None
    | c # r \<Rightarrow> if c \<noteq> tilde then Some (CChr c, r)
        else (case r of
            [] \<Rightarrow> None
          | e # q \<Rightarrow> (case esc_class e of
                Some i \<Rightarrow> Some (i, q)
              | None \<Rightarrow> if e = CHR ''x''
                        then (case q of a # b # q' \<Rightarrow> Some (CChr (char_of (16 * rx_hex a + rx_hex b)), q') | _ \<Rightarrow> None)
                        else Some (CChr (esc_lit e), q))))"

fun p_class :: "nat \<Rightarrow> citem list \<Rightarrow> str \<Rightarrow> (citem list \<times> str) option" where
  "p_class 0 acc s = None"
| "p_class (Suc n) acc s =
     (if startswith s [CHR 0x5D] then Some (acc, tl s)
      else (case p_item s of
          None \<Rightarrow> None
        | Some (i, r) \<Rightarrow>
            if startswith r ''-'' \<and> \<not> startswith (tl r) [CHR 0x5D]
            then (case (i, p_item (tl r)) of
                (CChr a, Some (CChr b, q)) \<Rightarrow> p_class n (acc @ [CRange a b]) q
              | _ \<Rightarrow> None)
            else p_class n (acc @ [i]) r))"

text \<open>A quantifier: bounds, greediness and the rest.\<close>

definition p_nat :: "str \<Rightarrow> nat option \<times> str" where
  "p_nat s = (let ds = takeWhile is_digit s in
     (if ds = [] then None else Some (nat (fold (\<lambda>d acc. 10 * acc + digit_val d) ds 0)), dropWhile is_digit s))"

definition p_bounds :: "str \<Rightarrow> (nat \<times> nat option \<times> str) option" where
  "p_bounds s = (case s of
      [] \<Rightarrow> None
    | c # r \<Rightarrow>
        if c = CHR ''*'' then Some (0, None, r)
        else if c = CHR ''+'' then Some (1, None, r)
        else if c = CHR ''?'' then Some (0, Some 1, r)
        else if c = CHR 0x7B then
          (case p_nat r of (lo, r1) \<Rightarrow>
             if startswith r1 [CHR 0x7D] \<and> lo \<noteq> None then Some (the lo, lo, tl r1)
             else if startswith r1 '','' then
               (case p_nat (tl r1) of (hi, r2) \<Rightarrow>
                  if startswith r2 [CHR 0x7D] then Some (case lo of None \<Rightarrow> 0 | Some l \<Rightarrow> l, hi, tl r2) else None)
             else None)
        else None)"

definition p_quant :: "rx \<Rightarrow> str \<Rightarrow> rx \<times> str" where
  "p_quant r s = (case p_bounds s of
      None \<Rightarrow> (r, s)
    | Some (lo, hi, q) \<Rightarrow> if startswith q ''?'' then (Rep r lo hi False, tl q) else (Rep r lo hi True, q))"

definition any_char :: "rflags \<Rightarrow> rx" where
  "any_char fl = Cls True False (if fl_s fl then [] else [CChr (CHR 0x0A)])"

text \<open>The parser of one nesting level takes the parser of the levels inside it.\<close>

type_synonym rparser = "rflags \<Rightarrow> nat \<Rightarrow> str \<Rightarrow> (rx \<times> nat \<times> str) option"

definition p_group :: "rparser \<Rightarrow> rflags \<Rightarrow> nat \<Rightarrow> (rx \<Rightarrow> rx) \<Rightarrow> str \<Rightarrow> (rx \<times> nat \<times> str) option" where
  "p_group inner fl g wrap s = (case inner fl g s of
      None \<Rightarrow> None
    | Some (a, g1, r) \<Rightarrow> if startswith r '')'' then Some (wrap a, g1, tl r) else None)"

definition p_escape :: "rflags \<Rightarrow> nat \<Rightarrow> str \<Rightarrow> (rx \<times> nat \<times> str) option" where
  "p_escape fl g r = (case r of
      [] \<Rightarrow> None
    | e # q \<Rightarrow>
        if e = CHR ''b'' then Some (WordB, g, q)
        else if e = CHR ''Z'' then Some (EndZ, g, q)
        else if is_digit e then Some (Backref (nat (digit_val e)), g, q)
        else (case esc_class e of
            Some i \<Rightarrow> Some (Cls False False [i], g, q)
          | None \<Rightarrow> Some (lit fl (esc_lit e), g, q)))"

definition p_paren :: "rparser \<Rightarrow> rparser" where
  "p_paren inner fl g r =
     (if startswith r ''?:'' then p_group inner fl g id (drop 2 r)
      else if startswith r ''?i:'' then p_group inner (fl\<lparr>fl_i := True\<rparr>) g id (drop 3 r)
      else if startswith r ''?='' then p_group inner fl g (Ahead True) (drop 2 r)
      else if startswith r ''?!'' then p_group inner fl g (Ahead False) (drop 2 r)
      else if startswith r ''?<=['' then
        (case p_class (length r) [] (drop 4 r) of
           Some (is, q) \<Rightarrow> if startswith q '')'' then Some (Behind False (fl_i fl) is, g, tl q) else None
         | None \<Rightarrow> None)
      else if startswith r ''?P<'' then p_group inner fl (g + 1) (Grp g) (tl (dropWhile (\<lambda>x. x \<noteq> CHR ''>'') r))
      else p_group inner fl (g + 1) (Grp g) r)"

definition p_bracket :: "rflags \<Rightarrow> nat \<Rightarrow> str \<Rightarrow> (rx \<times> nat \<times> str) option" where
  "p_bracket fl g r =
     (if startswith r ''^''
      then map_option (\<lambda>(is, q). (Cls True (fl_i fl) is, g, q)) (p_class (length r) [] (tl r))
      else map_option (\<lambda>(is, q). (Cls False (fl_i fl) is, g, q)) (p_class (length r + 1) [] r))"

definition p_atom :: "rparser \<Rightarrow> rparser" where
  "p_atom inner fl g s = (case s of
      [] \<Rightarrow> None
    | c # r \<Rightarrow>
        if c = tilde then p_escape fl g r
        else if c = CHR ''.'' then Some (any_char fl, g, r)
        else if c = CHR ''^'' then Some (Bol (fl_m fl), g, r)
        else if c = CHR ''$'' then Some (Eol (fl_m fl), g, r)
        else if c = CHR ''['' then p_bracket fl g r
        else if c = CHR ''('' then p_paren inner fl g r
        else Some (lit fl c, g, r))"

primrec p_seq :: "rparser \<Rightarrow> nat \<Rightarrow> rparser" where
  "p_seq inner 0 fl g s = None"
| "p_seq inner (Suc n) fl g s =
     (if s = [] \<or> hd s = CHR ''|'' \<or> hd s = CHR '')'' then Some (Eps, g, s)
      else (case p_atom inner fl g s of
          None \<Rightarrow> None
        | Some (a, g1, r) \<Rightarrow> (case p_quant a r of (b, q) \<Rightarrow>
            map_option (\<lambda>(c, g2, q2). (Seq b c, g2, q2)) (p_seq inner n fl g1 q))))"

primrec p_alts :: "rparser \<Rightarrow> nat \<Rightarrow> rparser" where
  "p_alts inner 0 fl g s = None"
| "p_alts inner (Suc n) fl g s = (case p_seq inner (length s + 1) fl g s of
      None \<Rightarrow> None
    | Some (a, g1, r) \<Rightarrow>
        if startswith r ''|''
        then map_option (\<lambda>(b, g2, q). (Alt a b, g2, q)) (p_alts inner n fl g1 (tl r))
        else Some (a, g1, r))"

primrec p_level :: "nat \<Rightarrow> rparser" where
  "p_level 0 fl g s = None"
| "p_level (Suc n) fl g s = p_alts (p_level n) (length s + 1) fl g s"

definition plain_flags :: rflags where "plain_flags = \<lparr>fl_i = False, fl_s = False, fl_m = False\<rparr>"
definition flag_I :: rflags where "flag_I = \<lparr>fl_i = True, fl_s = False, fl_m = False\<rparr>"
definition flag_S :: rflags where "flag_S = \<lparr>fl_i = False, fl_s = True, fl_m = False\<rparr>"
definition flag_IS :: rflags where "flag_IS = \<lparr>fl_i = True, fl_s = True, fl_m = False\<rparr>"
definition flag_M :: rflags where "flag_M = \<lparr>fl_i = False, fl_s = False, fl_m = True\<rparr>"

text \<open>\<open>re.compile\<close>. A pattern nests no deeper, and a level has no more atoms or alternatives,
  than it has characters.\<close>

definition parse_rx :: "rflags \<Rightarrow> str \<Rightarrow> rx option" where
  "parse_rx fl s = (case p_level (length s + 1) fl 1 s of
      Some (r, _, q) \<Rightarrow> if q = [] then Some r else None
    | None \<Rightarrow> None)"

definition rx :: "rflags \<Rightarrow> str \<Rightarrow> rx" where
  "rx fl s = (case parse_rx fl s of Some r \<Rightarrow> r | None \<Rightarrow> Never)"

end
