(* ===== verification/Router.thy ===== *)
theory Router
  imports Quota Privacy
begin

text \<open>
  \<open>src/cloudos/router/levels.py\<close>: deterministic tasks first, then the enabled subscription
  CLIs in order, and no paid fallback. \<open>route_io\<close> is what the environment decides of one call:
  its clocks, the ids, the success of the best-effort statements. The digest \<open>sha\<close> and the
  registry of deterministic tasks are arguments. A request holds a text as its prompt and the privacy gate can be
  imported: the refusal of a prompt of another type (\<open>VALIDATION_ERROR\<close>) and of a gate that is not there
  (\<open>DEPENDENCY_UNAVAILABLE\<close>) are not represented.
\<close>

record route_io =
  ri_started :: time
  ri_now :: time
  ri_status_now :: "str \<Rightarrow> time"
  ri_finished :: time
  ri_run_id :: str
  ri_cooldown_ok :: "str \<Rightarrow> bool"
  ri_status_ok :: "str \<Rightarrow> bool"
  ri_quota_ok :: bool
  ri_run_ok :: bool

text \<open>The dict \<open>state\<close> that \<open>route\<close> hands down.\<close>

record rvars =
  rv_level :: "int option"
  rv_model :: "str option"
  rv_auth_mode :: "str option"

definition SUBSCRIPTION_TRUSTED :: "str list" where "SUBSCRIPTION_TRUSTED = [''claude'', ''codex'']"

subsection \<open>Deterministic tasks\<close>

type_synonym task_table = "(str \<times> (route_request \<Rightarrow> str)) list"

definition task_echo :: "route_request \<Rightarrow> str" where "task_echo req = rq_prompt req"
definition task_hash :: "(str \<Rightarrow> str) \<Rightarrow> route_request \<Rightarrow> str" where "task_hash sha req = sha (rq_prompt req)"
definition task_wordcount :: "route_request \<Rightarrow> str" where
  "task_wordcount req = show_nat (length (py_words (rq_prompt req)))"

definition DETERMINISTIC_TASKS :: "(str \<Rightarrow> str) \<Rightarrow> task_table" where
  "DETERMINISTIC_TASKS sha = [(''echo'', task_echo), (''hash'', task_hash sha), (''wordcount'', task_wordcount)]"

definition register_deterministic_task :: "str \<Rightarrow> (route_request \<Rightarrow> str) \<Rightarrow> task_table \<Rightarrow> task_table" where
  "register_deterministic_task name fn tasks = dput tasks name fn"

subsection \<open>Guards\<close>

definition paid_requested :: "route_request \<Rightarrow> bool" where
  "paid_requested req =
     (let m = rq_meta req; level = dget m ''level'' in
      (level \<noteq> VNone \<and> (case py_int_v level of Some n \<Rightarrow> 3 \<le> n | None \<Rightarrow> False))
      \<or> truthy (por (dget m ''allow_paid'') (dget m ''force_paid'')))"

text \<open>The text the gate sees: \<open>json.dumps({"prompt": prompt}, ensure_ascii=False)\<close>.\<close>

definition prompt_json :: "str \<Rightarrow> str" where
  "prompt_json prompt = [CHR 0x7B] @ json_str ''prompt'' @ '': '' @ json_str prompt @ [CHR 0x7D]"

definition gate_frontmatter :: "route_request \<Rightarrow> bool \<Rightarrow> pydict option" where
  "gate_frontmatter req strict =
     (if \<not> strict \<and> rq_label req = INTERNAL then Some [(''external_ok'', VBool True)] else None)"

definition privacy_gate :: "privacy_config \<Rightarrow> route_request \<Rightarrow> bool \<Rightarrow> cloud_error option" where
  "privacy_gate cfg req strict =
     (let g = gate cfg (prompt_json (rq_prompt req)) (Some (rq_label req)) (gate_frontmatter req strict) in
      if gd_allowed g then None
      else if gd_hits g \<noteq> []
      then Some (CloudOSError SECRET_DETECTED
             (''secret material detected in outbound prompt '' @ [CHR 0x97] @ '' AI call blocked'')
             [(''patterns'', VList (map (\<lambda>h. VStr (sh_name h)) (gd_hits g))), (''hit_count'', VInt (int (length (gd_hits g))))])
      else Some (CloudOSError PRIVACY_BLOCKED
             (if gd_reason g = [] then ''privacy gate blocked AI call'' else gd_reason g)
             [(''privacy_label'', VStr (privacy_label_value (rq_label req)))]))"

definition cooldown_for :: "settings \<Rightarrow> provider_state \<Rightarrow> int option" where
  "cooldown_for s st =
     (if st = PS_QUOTA_EXHAUSTED then Some (s_retry_after_quota_minutes s)
      else if st = PS_AUTH_REQUIRED then Some (s_retry_after_auth_minutes s)
      else None)"

definition cooldown_until :: "settings \<Rightarrow> bool \<Rightarrow> str \<Rightarrow> db \<Rightarrow> time option" where
  "cooldown_until s ok p d =
     (if s_database_url s = [] \<or> \<not> ok then None
      else (case find (\<lambda>r. pr_provider r = p) (d_providers d) of None \<Rightarrow> None | Some r \<Rightarrow> pr_cooldown_until r))"

subsection \<open>The provider table\<close>

definition coalesce :: "'a option \<Rightarrow> 'a option \<Rightarrow> 'a option" where
  "coalesce a b = (case a of Some x \<Rightarrow> Some x | None \<Rightarrow> b)"

definition status_row :: "time \<Rightarrow> provider_status \<Rightarrow> bool option \<Rightarrow> time option \<Rightarrow> bool \<Rightarrow> provider_row" where
  "status_row now st success cooldown validate =
     \<lparr>pr_provider = pst_provider st, pr_auth_mode = pst_auth_mode st, pr_state = pst_state st,
      pr_last_success = (if success = Some True then Some now else None),
      pr_last_auth_validation = (if validate \<or> success \<noteq> None then Some now else None),
      pr_task_count = (if success = Some True then 1 else 0),
      pr_last_failure_reason = (if success = Some True \<or> pst_detail st = [] then None else Some (pst_detail st)),
      pr_cooldown_until = cooldown, pr_updated_at = now\<rparr>"

definition merge_status :: "provider_row \<Rightarrow> provider_row \<Rightarrow> provider_row" where
  "merge_status new old = old\<lparr>
      pr_auth_mode := (if pr_auth_mode new = [] then pr_auth_mode old else pr_auth_mode new),
      pr_state := pr_state new,
      pr_last_success := coalesce (pr_last_success new) (pr_last_success old),
      pr_last_auth_validation := coalesce (pr_last_auth_validation new) (pr_last_auth_validation old),
      pr_task_count := pr_task_count old + pr_task_count new,
      pr_last_failure_reason := coalesce (pr_last_failure_reason new) (pr_last_failure_reason old),
      pr_cooldown_until := pr_cooldown_until new,
      pr_updated_at := pr_updated_at new\<rparr>"

definition upsert_status :: "provider_row \<Rightarrow> provider_row list \<Rightarrow> provider_row list" where
  "upsert_status new t =
     (if count_where (\<lambda>r. pr_provider r = pr_provider new) t = 0 then t @ [new]
      else upd_where (\<lambda>r. pr_provider r = pr_provider new) (merge_status new) t)"

definition update_provider_status ::
  "settings \<Rightarrow> route_io \<Rightarrow> provider_status \<Rightarrow> bool option \<Rightarrow> int option \<Rightarrow> bool \<Rightarrow> rstate \<Rightarrow> rstate" where
  "update_provider_status s io st success cooldown_minutes validate rs =
     (let now = ri_status_now io (pst_provider st);
          cooldown = (case cooldown_minutes of None \<Rightarrow> None | Some m \<Rightarrow> if m = 0 then None else Some (now + m * minute))
      in if s_database_url s = [] \<or> \<not> ri_status_ok io (pst_provider st) then rs
         else rs\<lparr>r_db := (r_db rs)\<lparr>d_providers :=
                upsert_status (status_row now st success cooldown validate) (d_providers (r_db rs))\<rparr>\<rparr>)"

definition count_usage :: "settings \<Rightarrow> route_io \<Rightarrow> str \<Rightarrow> rstate \<Rightarrow> rstate" where
  "count_usage s io p rs =
     (case increment s (ri_quota_ok io) p (day_of (ri_now io)) 1 0 rs of Some rs' \<Rightarrow> rs' | None \<Rightarrow> rs)"

subsection \<open>The providers in turn\<close>

record racc =
  ra_exhausted :: "str list"
  ra_need_auth :: "str list"
  ra_errors :: "str list"
  ra_blocked :: "str list"
  ra_first_block :: "cloud_error option"

definition nothing_served :: "settings \<Rightarrow> route_request \<Rightarrow> racc \<Rightarrow> cloud_error" where
  "nothing_served s req a =
     (if ra_exhausted a \<noteq> []
      then CloudOSError QUOTA_EXHAUSTED
             (''subscription allowance exhausted '' @ [CHR 0x97] @ '' task deferred until the plan window resets'')
             [(''providers'', VList (map VStr (ra_exhausted a))), (''retry_after_minutes'', VInt (s_retry_after_quota_minutes s))]
      else if ra_need_auth a \<noteq> []
      then CloudOSError AUTH_REQUIRED
             (''no subscription provider is logged in '' @ [CHR 0x97] @ '' owner login required'')
             [(''providers'', VList (map VStr (ra_need_auth a)))]
      else case (if ra_blocked a \<noteq> [] \<and> ra_errors a = [] then ra_first_block a else None) of
        Some e \<Rightarrow> e
      | None \<Rightarrow> CloudOSError DEPENDENCY_UNAVAILABLE ''no subscription AI provider could serve''
             (if ra_errors a \<noteq> [] then [(''errors'', VList (map VStr (ra_errors a)))] else [(''task'', VStr (rq_task req))]))"

definition cli_model :: "str \<Rightarrow> str" where "cli_model name = name @ ''_cli''"

fun route_loop ::
  "host \<Rightarrow> settings \<Rightarrow> privacy_config \<Rightarrow> route_io \<Rightarrow> route_request \<Rightarrow> int \<Rightarrow> str list \<Rightarrow> racc \<Rightarrow> rvars \<Rightarrow> rstate
     \<Rightarrow> (exn + route_result) \<times> rvars \<times> rstate" where
  "route_loop h s cfg io req level [] a v rs = (Inl (CloudExn (nothing_served s req a)), v, rs)"
| "route_loop h s cfg io req level (name # names) a v rs =
     (let next = route_loop h s cfg io req (level + 1) names;
          cooling = (case cooldown_until s (ri_cooldown_ok io name) name (r_db rs) of Some c \<Rightarrow> ri_now io < c | None \<Rightarrow> False);
          strict = (if name \<in> set SUBSCRIPTION_TRUSTED then None else privacy_gate cfg req True)
      in if cooling then next (a\<lparr>ra_exhausted := ra_exhausted a @ [name]\<rparr>) v rs
         else case strict of
           Some e \<Rightarrow>
             if ce_code e \<noteq> PRIVACY_BLOCKED then (Inl (CloudExn e), v, rs)
             else next (a\<lparr>ra_blocked := ra_blocked a @ [name],
                          ra_first_block := (case ra_first_block a of None \<Rightarrow> Some e | Some e0 \<Rightarrow> Some e0)\<rparr>) v rs
         | None \<Rightarrow>
             (let v1 = v\<lparr>rv_level := Some level, rv_model := Some (cli_model name)\<rparr> in
              case provider_generate h s name (rq_prompt req) (truthy (dget (rq_meta req) ''web_search'')) of
                Inl (ProviderError st detail) \<Rightarrow>
                  (let rs1 = update_provider_status s io (status name st [] detail) (Some False) (cooldown_for s st) False rs in
                   if st = PS_BILLING_RISK
                   then (Inl (CloudExn (CloudOSError BILLING_RISK
                           (''provider '' @ name @ '' is in a billing-risk state '' @ [CHR 0x97] @ '' refusing to execute'')
                           [(''provider'', VStr name), (''detail'', VStr detail)])), v1, rs1)
                   else next (if st = PS_QUOTA_EXHAUSTED then a\<lparr>ra_exhausted := ra_exhausted a @ [name]\<rparr>
                              else if st = PS_AUTH_REQUIRED then a\<lparr>ra_need_auth := ra_need_auth a @ [name]\<rparr> else a) v1 rs1)
              | Inl (ProviderUnavailable msg) \<Rightarrow>
                  next (a\<lparr>ra_errors := ra_errors a @ [name @ '': '' @ msg]\<rparr>) v1
                    (update_provider_status s io (status name UNAVAILABLE [] msg) (Some False) None False rs)
              | Inl (OtherRaise e) \<Rightarrow> (Inl e, v1, rs)
              | Inr pr \<Rightarrow>
                  (let v2 = v1\<lparr>rv_auth_mode := Some (ps_auth_mode pr)\<rparr>;
                       rs1 = update_provider_status s io (status name AVAILABLE_SUBSCRIPTION (ps_auth_mode pr) []) (Some True) None False rs;
                       rs2 = count_usage s io name rs1
                   in (Inr \<lparr>rr_ok = True, rr_text = Some (ps_text pr), rr_model = Some (cli_model name),
                            rr_level = Some level, rr_error_code = None, rr_error = None,
                            rr_prompt_tokens = ps_prompt_tokens pr, rr_completion_tokens = ps_completion_tokens pr,
                            rr_cost_usd = 0\<rparr>, v2, rs2))))"

subsection \<open>A call\<close>

definition enabled_for :: "settings \<Rightarrow> route_request \<Rightarrow> exn + str list" where
  "enabled_for s req =
     (let enabled = filter (\<lambda>p. p \<in> set PROVIDERS) (s_subscription_providers s);
          unknown = CloudOSError MODEL_NOT_ALLOWED ''model_hint must name a subscription provider (claude|codex|gemini)''
                 [(''model_hint'', rq_model_hint req)]
      in if \<not> truthy (rq_model_hint req) then Inr enabled
         else case rq_model_hint req of
           VStr hint \<Rightarrow>
             if hint \<notin> set PROVIDERS then Inl (CloudExn unknown)
             else if hint \<notin> set enabled
             then Inl (CloudExn (CloudOSError MODEL_NOT_ALLOWED ''hinted provider is not enabled in SUBSCRIPTION_PROVIDERS''
                    [(''model_hint'', VStr hint)]))
             else Inr [hint]
         | VList xs \<Rightarrow> Inl (OtherExn ''TypeError'' ''unhashable type'')
         | VDict d \<Rightarrow> Inl (OtherExn ''TypeError'' ''unhashable type'')
         | _ \<Rightarrow> Inl (CloudExn unknown))"

definition empty_acc :: racc where
  "empty_acc = \<lparr>ra_exhausted = [], ra_need_auth = [], ra_errors = [], ra_blocked = [], ra_first_block = None\<rparr>"

definition no_vars :: rvars where "no_vars = \<lparr>rv_level = None, rv_model = None, rv_auth_mode = None\<rparr>"

definition paid_error :: cloud_error where
  "paid_error = CloudOSError PAID_DISABLED ''paid AI is permanently disabled (no incremental AI spend, ever)''
     [(''requested'', VStr ''paid/level>=3'')]"

definition route_inner ::
  "task_table \<Rightarrow> host \<Rightarrow> settings \<Rightarrow> privacy_config \<Rightarrow> route_io \<Rightarrow> route_request \<Rightarrow> rstate
     \<Rightarrow> (exn + route_result) \<times> rvars \<times> rstate" where
  "route_inner tasks h s cfg io req rs =
     (if paid_requested req then (Inl (CloudExn paid_error), no_vars, rs)
      else case enabled_for s req of
        Inl e \<Rightarrow> (Inl e, no_vars, rs)
      | Inr enabled \<Rightarrow> (case map_of tasks (rq_task req) of
          Some impl \<Rightarrow>
            (let model = ''deterministic:'' @ rq_task req in
             (Inr \<lparr>rr_ok = True, rr_text = Some (impl req), rr_model = Some model, rr_level = Some 0,
                   rr_error_code = None, rr_error = None, rr_prompt_tokens = 0, rr_completion_tokens = 0, rr_cost_usd = 0\<rparr>,
              \<lparr>rv_level = Some 0, rv_model = Some model, rv_auth_mode = Some ''none''\<rparr>, rs))
        | None \<Rightarrow>
            if enabled = []
            then (Inl (CloudExn (CloudOSError DEPENDENCY_UNAVAILABLE ''no subscription AI provider enabled''
                     [(''task'', VStr (rq_task req))])), no_vars, rs)
            else case privacy_gate cfg req False of
              Some e \<Rightarrow> (Inl (CloudExn e), no_vars, rs)
            | None \<Rightarrow> route_loop h s cfg io req 1 enabled empty_acc no_vars rs))"

text \<open>One compact row of \<open>agent_runs\<close>, when there is a database.\<close>

definition record_run ::
  "(str \<Rightarrow> str) \<Rightarrow> settings \<Rightarrow> route_io \<Rightarrow> route_request \<Rightarrow> rvars \<Rightarrow> str \<Rightarrow> cloud_error option \<Rightarrow> route_result option
     \<Rightarrow> rstate \<Rightarrow> rstate" where
  "record_run sha s io req v st err result rs =
     (if s_database_url s = [] \<or> \<not> ri_run_ok io then rs
      else rs\<lparr>r_db := (r_db rs)\<lparr>d_runs := d_runs (r_db rs) @
        [\<lparr>ar_run_id = ri_run_id io, ar_job_id = dget (rq_meta req) ''job_id'', ar_workflow = rq_task req,
          ar_model = rv_model v, ar_level = rv_level v, ar_started_at = ri_started io,
          ar_finished_at = Some (ri_finished io), ar_status = st,
          ar_prompt_tokens = (case result of Some r \<Rightarrow> rr_prompt_tokens r | None \<Rightarrow> 0),
          ar_completion_tokens = (case result of Some r \<Rightarrow> rr_completion_tokens r | None \<Rightarrow> 0),
          ar_cost_usd = 0,
          ar_error_code = map_option (\<lambda>e. error_code_value (ce_code e)) err,
          ar_error = map_option ce_message err,
          ar_input_hash = sha (rq_prompt req),
          ar_output_hash = (case result of Some r \<Rightarrow> map_option sha (rr_text r) | None \<Rightarrow> None),
          ar_auth_mode = rv_auth_mode v\<rparr>]\<rparr>\<rparr>)"

definition internal_error :: "str \<Rightarrow> cloud_error" where
  "internal_error ty = CloudOSError INTERNAL_ERROR (''router internal error: '' @ ty) []"

definition route ::
  "(str \<Rightarrow> str) \<Rightarrow> task_table \<Rightarrow> host \<Rightarrow> settings \<Rightarrow> privacy_config \<Rightarrow> route_io \<Rightarrow> route_request \<Rightarrow> rstate
     \<Rightarrow> (cloud_error + route_result) \<times> rstate" where
  "route sha tasks h s cfg io req rs =
     (case route_inner tasks h s cfg io req rs of
        (Inl (CloudExn e), v, rs1) \<Rightarrow> (Inl e, record_run sha s io req v ''failed'' (Some e) None rs1)
      | (Inl (OtherExn ty msg), v, rs1) \<Rightarrow>
          (Inl (internal_error ty), record_run sha s io req v ''failed'' (Some (internal_error ty)) None rs1)
      | (Inr r, v, rs1) \<Rightarrow> (Inr r, record_run sha s io req v ''succeeded'' None (Some r) rs1))"

text \<open>\<open>probe_all\<close>: a probe that raises is reported as unavailable.\<close>

definition probe_status :: "host \<Rightarrow> settings \<Rightarrow> str \<Rightarrow> provider_status" where
  "probe_status h s name =
     (case provider_probe h s name of
        Inr st \<Rightarrow> st
      | Inl (OtherExn ty msg) \<Rightarrow> status name UNAVAILABLE [] (''probe error: '' @ ty)
      | Inl (CloudExn e) \<Rightarrow> status name UNAVAILABLE [] ''probe error: CloudOSError'')"

definition probe_all :: "host \<Rightarrow> settings \<Rightarrow> route_io \<Rightarrow> rstate \<Rightarrow> provider_status list \<times> rstate" where
  "probe_all h s io rs =
     (let sts = map (probe_status h s) (filter (\<lambda>p. p \<in> set PROVIDERS) (s_subscription_providers s)) in
      (sts, fold (\<lambda>st r. update_provider_status s io st None None True r) sts rs))"

subsection \<open>Facts\<close>

lemma update_status_runs [simp]: "d_runs (r_db (update_provider_status s io st suc c v rs)) = d_runs (r_db rs)"
  by (simp add: update_provider_status_def Let_def)

lemma increment_runs: "increment s ok p dy a b rs = Some rs' \<Longrightarrow> d_runs (r_db rs') = d_runs (r_db rs)"
  by (auto simp: increment_def split: if_splits option.splits prod.splits)

lemma count_usage_runs [simp]: "d_runs (r_db (count_usage s io p rs)) = d_runs (r_db rs)"
  using increment_runs by (auto simp: count_usage_def split: option.splits)

lemma loop_facts:
  "route_loop h s cfg io req level names a v rs = (r, v', rs') \<Longrightarrow>
     d_runs (r_db rs') = d_runs (r_db rs) \<and> (\<forall>x. r = Inr x \<longrightarrow> rr_cost_usd x = 0 \<and> rr_ok x)"
proof (induction names arbitrary: level a v rs)
  case (Cons name names)
  note IH = Cons.IH
  show ?case
    using Cons.prems
    by (auto simp: Let_def split: if_splits option.splits sum.splits provider_exn.splits dest!: IH)
qed auto

text \<open>Nothing the router returns or records costs money: a result has cost zero, one run is
  recorded for the call when there is a database that takes it, at cost zero, and a request
  that asks for paid work is refused before anything is tried.\<close>

theorem route_never_spends:
  "(case route sha tasks h s cfg io req rs of (r, rs') \<Rightarrow>
      (case r of Inr x \<Rightarrow> rr_cost_usd x = 0 | Inl e \<Rightarrow> True)
    \<and> (\<exists>runs. d_runs (r_db rs') = d_runs (r_db rs) @ runs
          \<and> length runs = (if s_database_url s = [] \<or> \<not> ri_run_ok io then 0 else 1)
          \<and> map ar_cost_usd runs = replicate (length runs) 0)
    \<and> (if paid_requested req then r = Inl paid_error else True))"
proof -
  obtain r v rs1 where i: "route_inner tasks h s cfg io req rs = (r, v, rs1)" by (rule prod_cases3)
  have f: "d_runs (r_db rs1) = d_runs (r_db rs)" "\<And>x. r = Inr x \<Longrightarrow> rr_cost_usd x = 0"
    using i loop_facts
    by (auto simp: route_inner_def Let_def split: if_splits sum.splits option.splits)
  have p: "paid_requested req \<Longrightarrow> r = Inl (CloudExn paid_error)"
    using i by (simp add: route_inner_def)
  show ?thesis
  proof (cases r)
    case (Inl e)
    then show ?thesis using i f p by (cases e) (auto simp: route_def record_run_def)
  next
    case (Inr x)
    then show ?thesis using i f p by (auto simp: route_def record_run_def)
  qed
qed

definition demo_req :: "privacy_label \<Rightarrow> str \<Rightarrow> route_request" where
  "demo_req l p = \<lparr>rq_prompt = p, rq_task = ''general'', rq_label = l, rq_max_tokens = 9, rq_model_hint = VNone, rq_meta = []\<rparr>"

definition demo_rio :: route_io where
  "demo_rio = \<lparr>ri_started = 0, ri_now = 0, ri_status_now = (\<lambda>_. 0), ri_finished = 0, ri_run_id = [], ri_cooldown_ok = (\<lambda>_. True),
     ri_status_ok = (\<lambda>_. True), ri_quota_ok = True, ri_run_ok = True\<rparr>"

definition demo_cfg :: settings where "demo_cfg = get_settings (\<lambda>p. True) (@) ''r'' Map.empty"

theorem route_never_spends_witness:
  "fst (route id [] (demo_host None) demo_cfg fail_closed_config demo_rio
      ((demo_req PUBLIC ''hi'')\<lparr>rq_meta := [(''allow_paid'', VBool True)]\<rparr>) \<lparr>r_db = empty_db, r_local = []\<rparr>) = Inl paid_error"
proof -
  let ?r = "(demo_req PUBLIC ''hi'')\<lparr>rq_meta := [(''allow_paid'', VBool True)]\<rparr>"
  have "paid_requested ?r" by (simp add: paid_requested_def Let_def dget_def por_def)
  then show ?thesis
    using route_never_spends [where sha = id and tasks = "[]" and h = "demo_host None" and s = demo_cfg
        and cfg = fail_closed_config and io = demo_rio and req = ?r and rs = "\<lparr>r_db = empty_db, r_local = []\<rparr>"]
    by (simp split: prod.splits)
qed

subsection \<open>What a private prompt meets\<close>

lemma gate_blocks:
  assumes "rq_label req \<notin> {PUBLIC, INTERNAL} \<or> scan_secrets (prompt_json (rq_prompt req)) \<noteq> []"
  shows "privacy_gate cfg req strict \<noteq> None"
proof -
  have "\<not> gd_allowed (gate cfg (prompt_json (rq_prompt req)) (Some (rq_label req)) fm)" for fm
    using assms by (cases "rq_label req") (auto simp: gate_def HARD_BLOCKED_def Let_def)
  then show ?thesis by (simp add: privacy_gate_def Let_def)
qed

text \<open>C29. A prompt that is labelled personal, sensitive or secret, or in whose outbound text the
  scanner finds a secret, reaches no command: the outcome of the call, the database included,
  is the same on every machine.\<close>

theorem private_prompt_runs_nothing:
  assumes "rq_label req \<notin> {PUBLIC, INTERNAL} \<or> scan_secrets (prompt_json (rq_prompt req)) \<noteq> []"
  shows "route sha tasks h s cfg io req rs = route sha tasks h' s cfg io req rs"
proof -
  obtain e where "privacy_gate cfg req False = Some e" using gate_blocks [OF assms] by blast
  then have "route_inner tasks h s cfg io req rs = route_inner tasks h' s cfg io req rs"
    by (simp add: route_inner_def split: sum.splits option.splits)
  then show ?thesis by (simp only: route_def)
qed

theorem private_prompt_runs_nothing_witness:
  "route id [] (demo_host (Some ''sk'')) demo_cfg fail_closed_config demo_rio (demo_req PERSONAL ''hi'') \<lparr>r_db = empty_db, r_local = []\<rparr>
   = route id [] (demo_host None) demo_cfg fail_closed_config demo_rio (demo_req PERSONAL ''hi'') \<lparr>r_db = empty_db, r_local = []\<rparr>"
  by (rule private_prompt_runs_nothing) (simp add: demo_req_def)

text \<open>An internal prompt stays with the trusted assistants: the outcome is the same on any two
  machines on which those answer alike, whatever the untrusted provider would do.\<close>

theorem internal_stays_with_trusted:
  assumes "rq_label req = INTERNAL"
    and "\<And>name web. name \<in> set SUBSCRIPTION_TRUSTED \<Longrightarrow>
      provider_generate h s name (rq_prompt req) web = provider_generate h' s name (rq_prompt req) web"
  shows "route sha tasks h s cfg io req rs = route sha tasks h' s cfg io req rs"
proof -
  have "\<not> gd_allowed (gate cfg (prompt_json (rq_prompt req)) (Some (rq_label req)) (gate_frontmatter req True))"
    using assms(1) by (simp add: gate_def gate_frontmatter_def is_external_ok_def HARD_BLOCKED_def)
  then obtain e where strict: "privacy_gate cfg req True = Some e"
    by (cases "privacy_gate cfg req True") (auto simp: privacy_gate_def Let_def split: if_splits)
  have "route_loop h s cfg io req level names a v rs = route_loop h' s cfg io req level names a v rs" for level names a v rs
  proof (induction names arbitrary: level a v rs)
    case (Cons name names)
    note IH = Cons.IH
    show ?case
    proof (cases "name \<in> set SUBSCRIPTION_TRUSTED")
      case True
      show ?thesis unfolding route_loop.simps IH assms(2) [OF True] by (rule refl)
    next
      case False
      then show ?thesis unfolding route_loop.simps IH strict by (simp add: Let_def)
    qed
  qed simp
  then have "route_inner tasks h s cfg io req rs = route_inner tasks h' s cfg io req rs"
    by (simp only: route_inner_def)
  then show ?thesis by (simp only: route_def)
qed

definition demo_host_gemini :: "str \<Rightarrow> host" where
  "demo_host_gemini answer = (demo_host None)\<lparr>h_exec := (\<lambda>argv i t e c.
     if argv = [''gemini'', ''-p'', ''hi''] then Exited 0 answer [] else Exited 0 ''logged in'' [])\<rparr>"

theorem internal_stays_with_trusted_witness:
  "route id [] (demo_host_gemini ''a'') demo_cfg fail_closed_config demo_rio (demo_req INTERNAL ''hi'') \<lparr>r_db = empty_db, r_local = []\<rparr>
   = route id [] (demo_host_gemini ''b'') demo_cfg fail_closed_config demo_rio (demo_req INTERNAL ''hi'') \<lparr>r_db = empty_db, r_local = []\<rparr>"
proof (rule internal_stays_with_trusted)
  show "rq_label (demo_req INTERNAL ''hi'') = INTERNAL" by (simp add: demo_req_def)
  fix name web
  assume "name \<in> set SUBSCRIPTION_TRUSTED"
  then have "name = ''claude'' \<or> name = ''codex''" by (simp add: SUBSCRIPTION_TRUSTED_def)
  moreover have "provider_generate (demo_host_gemini x) demo_cfg ''claude'' ''hi'' web
      = Inl (ProviderError PS_AUTH_REQUIRED (''no credentials '' @ [CHR 0x97] @ '' run: claude /login''))" for x
    by code_simp
  moreover have "provider_generate (demo_host_gemini x) demo_cfg ''codex'' ''hi'' web
      = Inr \<lparr>ps_text = ''logged in'', ps_prompt_tokens = 0, ps_completion_tokens = 0, ps_auth_mode = ''chatgpt_subscription''\<rparr>" for x
    by (cases web) (code_simp+)
  moreover have "rq_prompt (demo_req INTERNAL ''hi'') = ''hi''" by (simp add: demo_req_def)
  ultimately show "provider_generate (demo_host_gemini ''a'') demo_cfg name (rq_prompt (demo_req INTERNAL ''hi'')) web
      = provider_generate (demo_host_gemini ''b'') demo_cfg name (rq_prompt (demo_req INTERNAL ''hi'')) web"
    by auto
qed

end
