(* ===== verification/TaskExec.thy ===== *)
theory TaskExec
  imports Providers
begin

text \<open>
  \<open>src/cloudos/worker/task_exec.py\<close>: the handler of \<open>task.run\<close>. \<open>task_io\<close> is what the
  environment decides: the stamp and the random suffix of the workspace's name, the exception
  that the creation of the workspace, the start of the command or the writing of the result
  raises, the names the workspace holds afterwards and the rounded duration. The second
  component of the outcome is what the handler itself writes.
\<close>

record task_io =
  ti_stamp :: str
  ti_hex :: str
  ti_mkdir :: "exn option"
  ti_result :: "exn option"
  ti_files :: "str list"
  ti_duration :: rat

definition METERED_ENV :: "str list" where
  "METERED_ENV = [''ANTHROPIC_API_KEY'', ''ANTHROPIC_AUTH_TOKEN'', ''ANTHROPIC_BEDROCK_BASE_URL'',
     ''ANTHROPIC_VERTEX_PROJECT_ID'', ''CLAUDE_CODE_USE_BEDROCK'', ''CLAUDE_CODE_USE_VERTEX'', ''OPENAI_API_KEY'',
     ''GEMINI_API_KEY'', ''GOOGLE_API_KEY'', ''GOOGLE_APPLICATION_CREDENTIALS'']"

definition ALLOWED_TOOLS :: str where
  "ALLOWED_TOOLS = ''Read,Write,Edit,Glob,Grep,Bash,WebSearch,WebFetch,TodoWrite''"

definition CHAT_STYLE :: str where
  "CHAT_STYLE = ''Your reply is delivered straight into a Discord chat message. Answer in at most ''
     @ ''4 short sentences of plain English, no headings, no bullet-point templates, no ''
     @ ''status-report sections. Say what you did and what the result was. Do the work ''
     @ ''fully before replying.''"

definition DEFAULT_TIMEOUT_S :: int where "DEFAULT_TIMEOUT_S = 900"
definition MAX_TIMEOUT_S :: int where "MAX_TIMEOUT_S = 3600"
definition OUTPUT_CAP :: nat where "OUTPUT_CAP = 60000"

definition workspace_root :: "host \<Rightarrow> str" where
  "workspace_root h = (if env_or (h_env h) ''TASK_WORKSPACE_ROOT'' \<noteq> [] then env_or (h_env h) ''TASK_WORKSPACE_ROOT''
     else pjoin h [h_home h, ''AI-Second-Brain'', ''Brain_Vault'', ''Task_Runs''])"

definition no_cli :: cloud_error where
  "no_cli = CloudOSError DEPENDENCY_UNAVAILABLE ''claude CLI not found on this worker''
     [(''hint'', VStr ''task.run must run on the host worker, not in a container'')]"

definition find_cli :: "host \<Rightarrow> exn + str" where
  "find_cli h =
     (let explicit = env_or (h_env h) ''CLAUDE_CLI_PATH'' in
      if explicit \<noteq> [] \<and> h_fs h explicit \<noteq> Missing then Inr explicit
      else case h_which h ''claude'' of
        None \<Rightarrow> Inl (CloudExn no_cli)
      | Some p \<Rightarrow> if p = [] then Inl (CloudExn no_cli) else Inr p)"

definition child_env :: "environ \<Rightarrow> environ" where
  "child_env env k = (if k \<in> set METERED_ENV then None else env k)"

text \<open>\<open>(v or "").strip()\<close>: of anything but text it raises.\<close>

definition strip_or_blank :: "pyv \<Rightarrow> exn + str" where
  "strip_or_blank v = (case por v (VStr []) of VStr s \<Rightarrow> Inr (py_strip s)
     | _ \<Rightarrow> Inl (OtherExn ''AttributeError'' ''strip''))"

definition bad_field :: "str \<Rightarrow> str \<Rightarrow> exn" where
  "bad_field msg field = CloudExn (CloudOSError VALIDATION_ERROR msg [(''field'', VStr field)])"

definition task_timeout :: "pydict \<Rightarrow> exn + int" where
  "task_timeout payload =
     (case py_int_v (por (dget payload ''timeout_s'') (VInt DEFAULT_TIMEOUT_S)) of
        None \<Rightarrow> Inl (bad_field ''timeout_s must be an integer'' ''timeout_s'')
      | Some t \<Rightarrow> Inr (max 30 (min t MAX_TIMEOUT_S)))"

text \<open>The command's output: text, session and error flag. Output that is no JSON object is the
  text itself.\<close>

definition parse_output :: "str \<Rightarrow> exn + (str \<times> pyv \<times> bool)" where
  "parse_output out =
     (case (if out = [] then None else json_loads out) of
        Some (VDict parsed) \<Rightarrow>
          (case strip_or_blank (dget parsed ''result'') of
             Inl e \<Rightarrow> Inl e
           | Inr r \<Rightarrow> Inr (if r = [] then out else r, dget parsed ''session_id'', truthy (dget parsed ''is_error'')))
      | _ \<Rightarrow> Inr (out, VNone, False))"

definition first_text :: "str \<Rightarrow> str \<Rightarrow> str \<Rightarrow> str" where
  "first_text a b c = (if a \<noteq> [] then a else if b \<noteq> [] then b else c)"

definition task_argv :: "str \<Rightarrow> str \<Rightarrow> str list" where
  "task_argv cli task = [cli, ''-p'', task, ''--output-format'', ''json'', ''--allowedTools'', ALLOWED_TOOLS,
     ''--permission-mode'', ''acceptEdits'', ''--append-system-prompt'', CHAT_STYLE]"

definition task_answer :: "host \<Rightarrow> task_io \<Rightarrow> str \<Rightarrow> str \<Rightarrow> int \<Rightarrow> str \<Rightarrow> str \<Rightarrow> (exn + pydict) \<times> (str \<times> str) list" where
  "task_answer h io task workspace rc out0 err0 =
     (let out = py_strip out0; err = py_strip err0; nl = [CHR 0x0A] in
      case parse_output out of
        Inl e \<Rightarrow> (Inl e, [])
      | Inr (output, session_id, is_error) \<Rightarrow>
          if rc \<noteq> 0 \<or> is_error
          then (Inl (CloudExn (CloudOSError DEPENDENCY_UNAVAILABLE
                  (''task failed: '' @ clip 400 (first_text output err ''no output''))
                  [(''workspace'', VStr workspace), (''exit_code'', VInt rc)])), [])
          else (case ti_result io of
              Some e \<Rightarrow> (Inl e, [])
            | None \<Rightarrow>
                (Inr [(''output'', VStr (clip OUTPUT_CAP output)), (''truncated'', VBool (OUTPUT_CAP < length output)),
                      (''workspace'', VStr workspace),
                      (''files_created'', VList (map VStr (sort (filter (\<lambda>f. f \<noteq> ''TASK.txt'') (ti_files io))))),
                      (''duration_s'', VFloat (ti_duration io)), (''session_id'', session_id)],
                 [(pjoin h [workspace, ''RESULT.md''],
                   ''# Task'' @ nl @ nl @ task @ nl @ nl @ ''# Result'' @ nl @ nl @ output @ nl)])))"

definition handle_task_run :: "host \<Rightarrow> task_io \<Rightarrow> pydict \<Rightarrow> (exn + pydict) \<times> (str \<times> str) list" where
  "handle_task_run h io payload =
     (case strip_or_blank (dget payload ''task'') of
        Inl e \<Rightarrow> (Inl e, [])
      | Inr task \<Rightarrow>
          if task = [] then (Inl (bad_field ''task is required'' ''task''), [])
          else case task_timeout payload of
            Inl e \<Rightarrow> (Inl e, [])
          | Inr timeout \<Rightarrow>
              (let workspace = pjoin h [workspace_root h, ti_stamp io @ ''-'' @ ti_hex io];
                   task_file = (pjoin h [workspace, ''TASK.txt''], task)
               in case ti_mkdir io of
                 Some e \<Rightarrow> (Inl e, [])
               | None \<Rightarrow> (case find_cli h of
                   Inl e \<Rightarrow> (Inl e, [task_file])
                 | Inr cli \<Rightarrow>
                     (case h_exec h (task_argv cli task) None timeout (child_env (h_env h)) (Some workspace) of
                        TimedOut out err \<Rightarrow>
                          (Inl (CloudExn (CloudOSError DEPENDENCY_UNAVAILABLE
                             (''task timed out after '' @ show_int timeout @ ''s'') [(''workspace'', VStr workspace)])), [task_file])
                      | NotStarted ty \<Rightarrow> (Inl (OtherExn ty []), [task_file])
                      | Exited rc out err \<Rightarrow> (case task_answer h io task workspace rc out err of
                            (r, ws) \<Rightarrow> (r, task_file # ws))))))"

subsection \<open>What a task may do\<close>

text \<open>The bounds of a task, stated apart from the code's own definitions: none of these ten credentials in its environment, from thirty
  seconds to an hour, the directory that carries the stamp and the random suffix of this very run under the workspace root, and the
  CLI in headless mode with these nine tools, edits accepted and nothing else waived, on the stripped text of the payload.\<close>

definition TASK_CREDENTIALS :: "str list" where
  "TASK_CREDENTIALS = [''OPENAI_API_KEY'', ''GEMINI_API_KEY'', ''GOOGLE_API_KEY'', ''GOOGLE_APPLICATION_CREDENTIALS'', ''ANTHROPIC_API_KEY'',
     ''ANTHROPIC_AUTH_TOKEN'', ''ANTHROPIC_BEDROCK_BASE_URL'', ''ANTHROPIC_VERTEX_PROJECT_ID'', ''CLAUDE_CODE_USE_BEDROCK'',
     ''CLAUDE_CODE_USE_VERTEX'']"

lemma metered_task: "set METERED_ENV = set TASK_CREDENTIALS"
  unfolding METERED_ENV_def TASK_CREDENTIALS_def list.set by (simp only: insert_commute)

definition confined :: "host \<Rightarrow> task_io \<Rightarrow> pydict \<Rightarrow> str list \<Rightarrow> int \<Rightarrow> environ \<Rightarrow> str option \<Rightarrow> bool" where
  "confined h io payload argv t e c \<longleftrightarrow> (\<forall>k\<in>set TASK_CREDENTIALS. e k = None) \<and> 30 \<le> t \<and> t \<le> 3600
     \<and> c = Some (pjoin h [workspace_root h, ti_stamp io @ ''-'' @ ti_hex io])
     \<and> (\<exists>cli task. find_cli h = Inr cli \<and> dget payload ''task'' = VStr task
          \<and> argv = [cli, ''-p'', py_strip task, ''--output-format'', ''json'',
               ''--allowedTools'', ''Read,Write,Edit,Glob,Grep,Bash,WebSearch,WebFetch,TodoWrite'',
               ''--permission-mode'', ''acceptEdits'', ''--append-system-prompt'', CHAT_STYLE])"

text \<open>Two machines that differ in these credentials and in what they do with a command run outside the bounds.\<close>

definition same_when_confined :: "task_io \<Rightarrow> pydict \<Rightarrow> host \<Rightarrow> host \<Rightarrow> bool" where
  "same_when_confined io payload h h' \<longleftrightarrow>
     (\<forall>k. k \<notin> set TASK_CREDENTIALS \<longrightarrow> h_env h k = h_env h' k) \<and> h_home h = h_home h' \<and> h_sep h = h_sep h'
     \<and> h_which h = h_which h' \<and> h_fs h = h_fs h'
     \<and> (\<forall>argv t e c. confined h io payload argv t e c \<longrightarrow> h_exec h argv None t e c = h_exec h' argv None t e c)"

lemma task_timeout_range: "task_timeout p = Inr t \<Longrightarrow> 30 \<le> t \<and> t \<le> 3600"
  by (auto simp: task_timeout_def MAX_TIMEOUT_S_def split: option.splits)

lemma same_task_paths:
  assumes "same_when_confined io payload h h'"
  shows "pjoin h = pjoin h'" "workspace_root h = workspace_root h'" "find_cli h = find_cli h'"
    "child_env (h_env h) = child_env (h_env h')" "task_answer h = task_answer h'"
proof -
  have e: "env_or (h_env h) k = env_or (h_env h') k" if "k \<notin> set METERED_ENV" for k
    using assms that by (simp add: same_when_confined_def env_or_def metered_task)
  have k: "''TASK_WORKSPACE_ROOT'' \<notin> set METERED_ENV" "''CLAUDE_CLI_PATH'' \<notin> set METERED_ENV"
    by (simp_all add: METERED_ENV_def)
  show pj: "pjoin h = pjoin h'" using assms by (simp add: fun_eq_iff pjoin_def same_when_confined_def)
  have f: "h_home h = h_home h'" "h_which h = h_which h'" "h_fs h = h_fs h'"
    using assms by (simp_all add: same_when_confined_def)
  show "workspace_root h = workspace_root h'" by (simp only: workspace_root_def e [OF k(1)] pj f)
  show "find_cli h = find_cli h'" by (simp only: find_cli_def e [OF k(2)] f)
  show "child_env (h_env h) = child_env (h_env h')"
    using assms by (auto simp: fun_eq_iff child_env_def same_when_confined_def metered_task)
  show "task_answer h = task_answer h'" by (simp only: fun_eq_iff task_answer_def pj simp_thms)
qed

lemma task_text: "strip_or_blank v = Inr task \<Longrightarrow> task \<noteq> [] \<Longrightarrow> \<exists>x. v = VStr x \<and> task = py_strip x"
proof -
  have "py_strip [] = []" by code_simp
  then show "strip_or_blank v = Inr task \<Longrightarrow> task \<noteq> [] \<Longrightarrow> ?thesis"
    by (cases v) (auto simp: strip_or_blank_def por_def split: if_splits)
qed

text \<open>C31. A task runs only within bounds: nothing the handler reports or writes depends on one of the ten credentials in the worker's
  environment, nor on what a machine does with a command that is run with one of them set, for less than
  thirty seconds or more than an hour, in any directory but this run's own under the workspace root, or with any other
  arguments than the CLI's headless mode with the nine tools and \<open>acceptEdits\<close> on the payload's text.\<close>

theorem task_run_confined:
  assumes "same_when_confined io payload h h'"
  shows "handle_task_run h io payload = handle_task_run h' io payload"
proof (cases "strip_or_blank (dget payload ''task'')")
  case (Inl x)
  then show ?thesis by (simp add: handle_task_run_def)
next
  case task: (Inr task)
  note s = same_task_paths [OF assms]
  show ?thesis
  proof (cases "task = [] \<or> isl (task_timeout payload) \<or> isl (find_cli h)")
    case True
    then show ?thesis using s task
      by (cases "task_timeout payload"; cases "find_cli h'") (auto simp: handle_task_run_def Let_def split: option.split)
  next
    case False
    then obtain t cli where t: "task_timeout payload = Inr t" and cli: "find_cli h = Inr cli" and some: "task \<noteq> []"
      by (cases "task_timeout payload"; cases "find_cli h") auto
    obtain x where x: "dget payload ''task'' = VStr x" "task = py_strip x" using task_text [OF task some] by blast
    let ?c = "Some (pjoin h [workspace_root h, ti_stamp io @ ''-'' @ ti_hex io])"
    have "confined h io payload (task_argv cli task) t (child_env (h_env h)) ?c"
      using task_timeout_range [OF t] cli x unfolding confined_def task_argv_def ALLOWED_TOOLS_def metered_task [symmetric]
      by (simp add: child_env_def)
    then have e: "h_exec h (task_argv cli task) None t (child_env (h_env h)) ?c = h_exec h' (task_argv cli task) None t (child_env (h_env h)) ?c"
      using assms unfolding same_when_confined_def by blast
    show ?thesis
      using some unfolding handle_task_run_def task sum.case t Let_def s(1,2,3,4,5) [symmetric] cli e by simp
  qed
qed

definition demo_task_io :: task_io where
  "demo_task_io = \<lparr>ti_stamp = ''20260101-000000'', ti_hex = ''abc123'', ti_mkdir = None, ti_result = None,
     ti_files = [''b.txt'', ''TASK.txt'', ''a.txt''], ti_duration = 1\<rparr>"

theorem task_run_confined_witness:
  "handle_task_run (demo_host (Some ''sk'')) demo_task_io [(''task'', VStr ''tidy'')]
     = handle_task_run (demo_host None) demo_task_io [(''task'', VStr ''tidy'')]"
proof (rule task_run_confined)
  show "same_when_confined demo_task_io [(''task'', VStr ''tidy'')] (demo_host (Some ''sk'')) (demo_host None)"
    by (auto simp: same_when_confined_def demo_host_def TASK_CREDENTIALS_def confined_def)
qed

text \<open>A task that succeeds reports at most sixty thousand characters and says whether it cut
  the rest, lists every file of the workspace but the task's own in order, and has left the
  whole answer in the result file.\<close>

theorem task_result_bounded:
  assumes "handle_task_run h io payload = (Inr r, ws)"
  shows "\<exists>answer. map_of r ''output'' = Some (VStr (take 60000 answer))
     \<and> map_of r ''truncated'' = Some (VBool (60000 < length answer))
     \<and> (\<exists>fs. map_of r ''files_created'' = Some (VList (map VStr fs)) \<and> sorted fs \<and> set fs = set (ti_files io) - {''TASK.txt''})
     \<and> (\<exists>path head. map_of (tl ws) path = Some (head @ answer @ [CHR 0x0A]))"
proof -
  obtain task workspace rc out err ws' where a: "task_answer h io task workspace rc out err = (Inr r, ws')" and w: "ws = (pjoin h [workspace, ''TASK.txt''], task) # ws'"
    using assms
    by (auto simp: handle_task_run_def Let_def split: sum.splits if_splits option.splits exec_result.splits prod.splits)
  obtain answer sid where o: "parse_output (py_strip out) = Inr (answer, sid, False)"
    using a by (auto simp: task_answer_def Let_def split: sum.splits prod.splits if_splits option.splits)
  let ?fs = "sort (filter (\<lambda>f. f \<noteq> ''TASK.txt'') (ti_files io))"
  let ?head = "''# Task'' @ [CHR 0x0A] @ [CHR 0x0A] @ task @ [CHR 0x0A] @ [CHR 0x0A] @ ''# Result'' @ [CHR 0x0A] @ [CHR 0x0A]"
  have r: "r = [(''output'', VStr (take OUTPUT_CAP answer)), (''truncated'', VBool (OUTPUT_CAP < length answer)),
                (''workspace'', VStr workspace), (''files_created'', VList (map VStr ?fs)),
                (''duration_s'', VFloat (ti_duration io)), (''session_id'', sid)]"
    and ws': "ws' = [(pjoin h [workspace, ''RESULT.md''], ?head @ answer @ [CHR 0x0A])]"
    using a o by (auto simp: task_answer_def Let_def split: if_splits option.splits)
  have "map_of r ''output'' = Some (VStr (take 60000 answer))"
    "map_of r ''truncated'' = Some (VBool (60000 < length answer))" "map_of r ''files_created'' = Some (VList (map VStr ?fs))"
    by (simp_all add: r OUTPUT_CAP_def)
  moreover have "sorted ?fs" "set ?fs = set (ti_files io) - {''TASK.txt''}" by auto
  moreover have "map_of (tl ws) (pjoin h [workspace, ''RESULT.md'']) = Some (?head @ answer @ [CHR 0x0A])"
    by (simp only: w ws' list.sel map_of.simps fst_conv snd_conv fun_upd_same)
  ultimately show ?thesis by blast
qed

theorem task_result_bounded_witness:
  "\<exists>r ws. handle_task_run (demo_host None) demo_task_io [(''task'', VStr ''tidy'')] = (Inr r, ws)
     \<and> (\<exists>fs. map_of r ''files_created'' = Some (VList (map VStr fs)) \<and> sorted fs \<and> set fs = {''a.txt'', ''b.txt''})"
proof -
  let ?p = "[(''task'', VStr ''tidy'')]"
  have e: "strip_or_blank (dget ?p ''task'') = Inr ''tidy''" "task_timeout ?p = Inr 900"
    "find_cli (demo_host None) = Inr ''claude''" "parse_output (py_strip ''ok'') = Inr (''ok'', VNone, False)"
    by code_simp+
  have x: "h_exec (demo_host None) argv None 900 (child_env (h_env (demo_host None))) c = Exited 0 ''ok'' []" for argv c
    by (simp add: demo_host_def child_env_def)
  have "ti_mkdir demo_task_io = None" "ti_result demo_task_io = None" by (simp_all add: demo_task_io_def)
  then have "\<not> isl (fst (handle_task_run (demo_host None) demo_task_io ?p))"
    by (simp add: handle_task_run_def e x task_answer_def Let_def)
  then obtain r ws where h: "handle_task_run (demo_host None) demo_task_io [(''task'', VStr ''tidy'')] = (Inr r, ws)"
    by (metis isl_def prod.collapse sum.collapse(2))
  have "set (ti_files demo_task_io) - {''TASK.txt''} = {''a.txt'', ''b.txt''}" by (auto simp: demo_task_io_def)
  with task_result_bounded [OF h] h show ?thesis by metis
qed

end
