(* ===== verification/Notify.thy ===== *)
theory Notify
  imports Retention
begin

text \<open>
  \<open>src/cloudos/notify.py\<close> and the event writer of \<open>src/cloudos/worker/loop.py\<close>: the two
  durable traces a failure leaves. Delivery of the webhook and the success of an insert are
  the environment's: they are the fields of \<open>notify_io\<close>, and no failure of either reaches
  the caller.
\<close>

record notify_io =
  no_now :: time
  no_id :: int
  no_webhook :: "int option"
  no_insert_ok :: bool

text \<open>\<open>no_webhook\<close> is the response's status code, \<open>None\<close> a raised request.\<close>

definition webhook_delivered :: "settings \<Rightarrow> int option \<Rightarrow> bool" where
  "webhook_delivered s resp \<longleftrightarrow> s_notify_webhook_url s \<noteq> [] \<and> (\<exists>c. resp = Some c \<and> c < 300)"

definition notify_owner ::
  "settings \<Rightarrow> notify_io \<Rightarrow> bool \<Rightarrow> str \<Rightarrow> str \<Rightarrow> str \<Rightarrow> pydict \<Rightarrow> db \<Rightarrow> db" where
  "notify_owner s io has_conn severity code msg meta d =
     (let delivered = webhook_delivered s (no_webhook io) in
      if has_conn \<and> no_insert_ok io
      then d\<lparr>d_notifications := d_notifications d @
             [\<lparr>nt_id = no_id io, nt_ts = no_now io, nt_severity = severity, nt_code = code,
               nt_message = msg, nt_meta = VDict meta, nt_delivered = delivered\<rparr>]\<rparr>
      else d)"

definition write_event :: "time \<Rightarrow> bool \<Rightarrow> str \<Rightarrow> str \<Rightarrow> str \<Rightarrow> str \<Rightarrow> pydict \<Rightarrow> db \<Rightarrow> db" where
  "write_event now ok level source code msg meta d =
     (if ok then d\<lparr>d_events := d_events d @
             [\<lparr>ev_ts = now, ev_level = level, ev_source = source, ev_code = code,
               ev_message = msg, ev_meta = meta\<rparr>]\<rparr>
      else d)"

lemma notify_owner_jobs [simp]: "d_jobs (notify_owner s io c sev co msg meta d) = d_jobs d"
  by (simp add: notify_owner_def Let_def)

lemma notify_owner_events [simp]: "d_events (notify_owner s io c sev co msg meta d) = d_events d"
  by (simp add: notify_owner_def Let_def)

lemma notify_owner_notifications:
  "d_notifications (notify_owner s io c sev co msg meta d) = d_notifications d @
     (if c \<and> no_insert_ok io
      then [\<lparr>nt_id = no_id io, nt_ts = no_now io, nt_severity = sev, nt_code = co, nt_message = msg,
             nt_meta = VDict meta, nt_delivered = webhook_delivered s (no_webhook io)\<rparr>]
      else [])"
  by (simp add: notify_owner_def Let_def)

lemma write_event_jobs [simp]: "d_jobs (write_event now ok l so co msg meta d) = d_jobs d"
  by (simp add: write_event_def)

lemma write_event_notifications [simp]:
  "d_notifications (write_event now ok l so co msg meta d) = d_notifications d"
  by (simp add: write_event_def)

subsection \<open>Flushing\<close>

text \<open>\<open>handle_notify_flush\<close> of \<open>worker/handlers.py\<close>: the undelivered rows, oldest first, are
  posted one at a time; each accepted one is marked in a transaction of its own. The argument
  \<open>posts\<close> gives the response to each posted row.\<close>

definition NOTIFY_FLUSH_BATCH :: int where "NOTIFY_FLUSH_BATCH = 50"

definition flush_limit :: "pydict \<Rightarrow> int" where
  "flush_limit payload =
     (case py_int_v (dget_or payload ''limit'' (VInt NOTIFY_FLUSH_BATCH)) of
        Some n \<Rightarrow> n | None \<Rightarrow> NOTIFY_FLUSH_BATCH)"

definition undelivered :: "int \<Rightarrow> notification list \<Rightarrow> notification list" where
  "undelivered limit t = take (nat limit) (order_by nt_ts (filter (\<lambda>r. \<not> nt_delivered r) t))"

definition mark_delivered :: "int \<Rightarrow> notification list \<Rightarrow> notification list" where
  "mark_delivered i t = upd_where (\<lambda>r. nt_id r = i) (\<lambda>r. r\<lparr>nt_delivered := True\<rparr>) t"

fun flush_rows ::
  "(notification \<Rightarrow> int option) \<Rightarrow> notification list \<Rightarrow> nat \<Rightarrow> notification list \<Rightarrow> nat \<times> notification list" where
  "flush_rows posts [] n t = (n, t)"
| "flush_rows posts (r # rs) n t =
     (if (case posts r of Some c \<Rightarrow> c < 300 | None \<Rightarrow> False)
      then flush_rows posts rs (n + 1) (mark_delivered (nt_id r) t)
      else flush_rows posts rs n t)"

definition flush_result :: "nat \<Rightarrow> nat \<Rightarrow> nat \<Rightarrow> pydict" where
  "flush_result a n p = [(''attempted'', VInt (int a)), (''delivered'', VInt (int n)), (''pending'', VInt (int p))]"

definition handle_notify_flush ::
  "settings \<Rightarrow> (notification \<Rightarrow> int option) \<Rightarrow> pydict \<Rightarrow> db \<Rightarrow> (exn + pydict) \<times> db" where
  "handle_notify_flush s posts payload d =
     (let limit = flush_limit payload; rows = undelivered limit (d_notifications d) in
      if limit < 0 then (Inl (OtherExn ''InvalidRowCountInLimitClause'' ''LIMIT must not be negative''), d)
      else if s_notify_webhook_url s = [] then (Inr (flush_result 0 0 (length rows)), d)
      else (case flush_rows posts rows 0 (d_notifications d) of
              (n, t) \<Rightarrow> (Inr (flush_result (length rows) n (length rows - n)), d\<lparr>d_notifications := t\<rparr>)))"

lemma handle_notify_flush_jobs [simp]: "d_jobs (snd (handle_notify_flush s posts p d)) = d_jobs d"
  by (simp add: handle_notify_flush_def Let_def split: prod.splits)

lemma flush_rows_spec:
  assumes "distinct (map nt_id rs)"
  shows "flush_rows posts rs n t =
     (n + count_where (\<lambda>r. \<exists>c. posts r = Some c \<and> c < 300) rs,
      upd_where (\<lambda>r. \<exists>q\<in>set rs. nt_id q = nt_id r \<and> (\<exists>c. posts q = Some c \<and> c < 300))
        (\<lambda>r. r\<lparr>nt_delivered := True\<rparr>) t)"
  using assms
proof (induction rs arbitrary: n t)
  case Nil
  then show ?case by (simp add: count_where_def upd_where_def)
next
  case (Cons r rs)
  then show ?case
    by (cases "posts r") (auto simp: count_where_def mark_delivered_def upd_where_def)
qed

lemma count_flipped:
  assumes "distinct (map nt_id t)" and "distinct rs" and "set rs \<subseteq> set t" and "\<forall>r\<in>set rs. \<not> nt_delivered r"
  shows "count_where (\<lambda>r. \<not> nt_delivered r)
           (upd_where (\<lambda>r. \<exists>q\<in>set rs. nt_id q = nt_id r \<and> P q) (\<lambda>r. r\<lparr>nt_delivered := True\<rparr>) t)
         + count_where P rs = count_where (\<lambda>r. \<not> nt_delivered r) t"
proof -
  have hit: "(\<exists>q\<in>set rs. nt_id q = nt_id r \<and> P q) \<longleftrightarrow> r \<in> set rs \<and> P r" if "r \<in> set t" for r
    using distinct_key_eq [OF assms(1) _ that] assms(3) by blast
  let ?A = "filter (\<lambda>r. \<not> nt_delivered r) t"
  have dt: "distinct t" using assms(1) by (simp add: distinct_map)
  have "count_where (\<lambda>r. \<not> nt_delivered r)
           (upd_where (\<lambda>r. \<exists>q\<in>set rs. nt_id q = nt_id r \<and> P q) (\<lambda>r. r\<lparr>nt_delivered := True\<rparr>) t)
      = length (filter (\<lambda>r. \<not> (r \<in> set rs \<and> P r)) ?A)"
    unfolding count_where_def upd_where_def filter_map o_def filter_filter length_map
    by (rule arg_cong [where f = length], rule filter_cong [OF refl]) (auto simp: hit)
  moreover have "count_where P rs = length (filter (\<lambda>r. r \<in> set rs \<and> P r) ?A)"
  proof -
    have "set (filter P rs) = set (filter (\<lambda>r. r \<in> set rs \<and> P r) ?A)" using assms(3,4) by auto
    moreover have "distinct (filter P rs)" "distinct (filter (\<lambda>r. r \<in> set rs \<and> P r) ?A)"
      using assms(2) dt by simp_all
    ultimately show ?thesis unfolding count_where_def by (simp only: distinct_card [symmetric])
  qed
  ultimately show ?thesis
    using sum_length_filter_compl [of "\<lambda>r. r \<in> set rs \<and> P r" ?A] by (simp add: count_where_def)
qed

text \<open>A flush of the undelivered notifications reports exact numbers: it attempts at most
  the limit, the rows it marks delivered are the ones the webhook accepted and as many as it
  reports, and it neither adds nor loses a row.\<close>

theorem notify_flush_exact:
  assumes "distinct (map nt_id (d_notifications d))" and "s_notify_webhook_url s \<noteq> []" and "0 \<le> flush_limit p"
  shows "\<exists>n. fst (handle_notify_flush s posts p d)
             = Inr (flush_result (length (undelivered (flush_limit p) (d_notifications d))) n
                     (length (undelivered (flush_limit p) (d_notifications d)) - n))
           \<and> n \<le> length (undelivered (flush_limit p) (d_notifications d))
           \<and> int (length (undelivered (flush_limit p) (d_notifications d))) \<le> flush_limit p
           \<and> map nt_id (d_notifications (snd (handle_notify_flush s posts p d))) = map nt_id (d_notifications d)
           \<and> count_where (\<lambda>r. \<not> nt_delivered r) (d_notifications (snd (handle_notify_flush s posts p d))) + n
              = count_where (\<lambda>r. \<not> nt_delivered r) (d_notifications d)
           \<and> (\<forall>r\<in>set (d_notifications (snd (handle_notify_flush s posts p d))).
                r \<in> set (d_notifications d) \<or> (\<exists>q\<in>set (d_notifications d). r = q\<lparr>nt_delivered := True\<rparr>
                    \<and> (\<exists>c. posts q = Some c \<and> c < 300)))"
proof -
  let ?t = "d_notifications d" and ?rs = "undelivered (flush_limit p) (d_notifications d)"
  let ?ok = "\<lambda>r. \<exists>c. posts r = Some c \<and> c < 300"
  have sub: "set ?rs \<subseteq> set ?t" "\<forall>r\<in>set ?rs. \<not> nt_delivered r"
    by (auto simp: undelivered_def order_by_def dest: in_set_takeD)
  have inj: "distinct ?rs" "distinct (map nt_id ?rs)"
  proof -
    have "distinct ?t" using assms(1) by (simp add: distinct_map)
    then show "distinct ?rs" by (simp add: undelivered_def order_by_def)
    then show "distinct (map nt_id ?rs)"
      using assms(1) sub(1) by (auto simp: distinct_map intro: inj_on_subset)
  qed
  define n where "n = count_where ?ok ?rs"
  define u where "u = upd_where (\<lambda>r. \<exists>q\<in>set ?rs. nt_id q = nt_id r \<and> ?ok q) (\<lambda>r. r\<lparr>nt_delivered := True\<rparr>) ?t"
  have run: "handle_notify_flush s posts p d
      = (Inr (flush_result (length ?rs) n (length ?rs - n)), d\<lparr>d_notifications := u\<rparr>)"
    using assms(2,3) flush_rows_spec [OF inj(2), of posts 0 ?t]
    by (simp add: handle_notify_flush_def Let_def n_def u_def)
  have "n \<le> length ?rs" by (simp add: n_def count_where_def)
  moreover have "int (length ?rs) \<le> flush_limit p" using assms(3) by (simp add: undelivered_def)
  moreover have "map nt_id u = map nt_id ?t" unfolding u_def by (rule map_upd_where) simp
  moreover have "count_where (\<lambda>r. \<not> nt_delivered r) u + n = count_where (\<lambda>r. \<not> nt_delivered r) ?t"
    unfolding u_def n_def by (rule count_flipped [OF assms(1) inj(1) sub])
  moreover have "\<forall>r\<in>set u. r \<in> set ?t \<or> (\<exists>q\<in>set ?t. r = q\<lparr>nt_delivered := True\<rparr> \<and> ?ok q)"
  proof
    fix r
    assume "r \<in> set u"
    then obtain x where x: "x \<in> set ?t"
        "r = (if \<exists>q\<in>set ?rs. nt_id q = nt_id x \<and> ?ok q then x\<lparr>nt_delivered := True\<rparr> else x)"
      unfolding u_def set_upd_where by blast
    show "r \<in> set ?t \<or> (\<exists>q\<in>set ?t. r = q\<lparr>nt_delivered := True\<rparr> \<and> ?ok q)"
    proof (cases "\<exists>q\<in>set ?rs. nt_id q = nt_id x \<and> ?ok q")
      case True
      then obtain q where q: "q \<in> set ?rs" "nt_id q = nt_id x" "?ok q" by blast
      then have "q = x" using distinct_key_eq [OF assms(1) _ x(1)] sub(1) by blast
      then show ?thesis using x q(3) True by auto
    next
      case False
      then show ?thesis using x by (simp only: if_False) simp
    qed
  qed
  ultimately show ?thesis unfolding run by (intro exI [of _ n]) simp
qed

definition demo_notes :: "notification list" where
  "demo_notes = [\<lparr>nt_id = 1, nt_ts = 5, nt_severity = ''warning'', nt_code = ''A'', nt_message = ''m'',
                  nt_meta = VDict [], nt_delivered = False\<rparr>]"

theorem notify_flush_exact_witness:
  "\<exists>n. fst (handle_notify_flush ((get_settings (\<lambda>p. True) (@) ''r'' Map.empty)\<lparr>s_notify_webhook_url := ''u''\<rparr>)
            (\<lambda>_. Some 200) [] (empty_db\<lparr>d_notifications := demo_notes\<rparr>)) = Inr (flush_result 1 n (1 - n))"
proof -
  let ?s = "(get_settings (\<lambda>p. True) (@) ''r'' Map.empty)\<lparr>s_notify_webhook_url := ''u''\<rparr>"
  let ?d = "empty_db\<lparr>d_notifications := demo_notes\<rparr>"
  have a: "distinct (map nt_id (d_notifications ?d))" by (simp add: demo_notes_def)
  have b: "s_notify_webhook_url ?s \<noteq> []" by simp
  have l: "flush_limit [] = 50" by (simp add: flush_limit_def NOTIFY_FLUSH_BATCH_def dget_or_def)
  then have c: "0 \<le> flush_limit []" by simp
  have "length (undelivered (flush_limit []) (d_notifications ?d)) = 1"
    by (simp add: l undelivered_def demo_notes_def order_by_def)
  with notify_flush_exact [OF a b c, of "\<lambda>_. Some 200"] show ?thesis by auto
qed

end
