(* ===== verification/Worker.thy ===== *)
theory Worker
  imports Notify
begin

text \<open>
  \<open>src/cloudos/worker/loop.py\<close>: the handling of one claimed job, the daily retention job and
  the poll loop. The handler table is the parameter \<open>dispatch\<close>, which may change the database
  and returns a result or an exception. \<open>worker_io\<close> holds what the environment decides of the
  statements of one job: their clocks, the success of the event's and the notification's
  inserts, and whether the queue's own statement goes through; when it does not, its exception
  leaves \<open>process_one\<close> (the status \<open>None\<close>) and the job stays running. A retry or a deferral whose
  delay is out of the range of an interval raises in the same way.
\<close>

record worker_io =
  wi_now :: time
  wi_queue_ok :: bool
  wi_ev_now :: time
  wi_ev_ok :: bool
  wi_notify :: notify_io

definition PRUNE_JOB_TYPE :: str where "PRUNE_JOB_TYPE = ''retention.prune''"
definition PRUNE_HOUR_UTC :: int where "PRUNE_HOUR_UTC = 3"
definition PRUNE_JOB_PRIORITY :: int where "PRUNE_JOB_PRIORITY = 200"

subsection \<open>One job\<close>

definition job_meta :: "job \<Rightarrow> pydict" where
  "job_meta j = [(''job_id'', VStr (j_id j)), (''job_type'', VStr (j_type j))]"

definition job_label :: "job \<Rightarrow> str" where
  "job_label j = ''job '' @ j_id j @ '' ('' @ j_type j @ '')''"

text \<open>The fail-closed branch: block, event, notification.\<close>

definition fail_closed :: "settings \<Rightarrow> worker_io \<Rightarrow> job \<Rightarrow> cloud_error \<Rightarrow> db \<Rightarrow> job_status option \<times> db" where
  "fail_closed s io j e d =
     (if \<not> wi_queue_ok io then (None, d)
      else (let d1 = map_jobs (block (wi_now io) (j_id j) (Some (ce_code e)) (Some (ce_message e))) d;
                d2 = write_event (wi_ev_now io) (wi_ev_ok io) ''error'' ''worker'' (error_code_value (ce_code e))
                       (job_label j @ '' blocked: '' @ ce_message e)
                       (job_meta j @ [(''details'', VDict (ce_details e))]) d1;
                d3 = notify_owner s (wi_notify io) True ''critical'' (error_code_value (ce_code e))
                       (''Fail-closed: '' @ job_label j @ '' blocked '' @ [CHR 0x97] @ '' '' @ ce_message e)
                       (job_meta j) d2
            in (Some BLOCKED, d3)))"

text \<open>The deferring branch. The delay is the error's own \<open>retry_after_minutes\<close> where that is
  truthy, else the setting of the code; \<open>int\<close> may raise on the former.\<close>

definition defer_minutes :: "settings \<Rightarrow> cloud_error \<Rightarrow> int option" where
  "defer_minutes s e =
     py_int_v (por (dget (ce_details e) ''retry_after_minutes'')
       (VInt (if ce_code e = AUTH_REQUIRED then s_retry_after_auth_minutes s else s_retry_after_quota_minutes s)))"

definition put_off :: "settings \<Rightarrow> worker_io \<Rightarrow> job \<Rightarrow> cloud_error \<Rightarrow> db \<Rightarrow> job_status option \<times> db" where
  "put_off s io j e d =
     (case defer_minutes s e of
        None \<Rightarrow> (None, d)
      | Some m \<Rightarrow>
          if \<not> wi_queue_ok io \<or> fst (defer_job (wi_now io) (j_id j) m (Some (ce_code e)) (Some (ce_message e)) (d_jobs d)) = None
          then (None, d)
          else (let d1 = map_jobs (\<lambda>t. snd (defer_job (wi_now io) (j_id j) m (Some (ce_code e)) (Some (ce_message e)) t)) d;
                    d2 = write_event (wi_ev_now io) (wi_ev_ok io) ''warning'' ''worker'' (error_code_value (ce_code e))
                           (job_label j @ '' deferred '' @ show_int m @ ''m: '' @ ce_message e)
                           (job_meta j @ [(''details'', VDict (ce_details e))]) d1;
                    d3 = (if ce_code e = AUTH_REQUIRED
                          then notify_owner s (wi_notify io) True ''warning'' (error_code_value (ce_code e))
                                 (''AI provider login required '' @ [CHR 0x97] @ '' job '' @ j_id j @ '' deferred '' @ show_int m @ ''m'')
                                 (job_meta j @ [(''details'', VDict (ce_details e))]) d2
                          else d2)
                in (Some QUEUED, d3)))"

definition retry_or_fail :: "worker_io \<Rightarrow> job \<Rightarrow> error_code \<Rightarrow> str \<Rightarrow> db \<Rightarrow> job_status option \<times> db" where
  "retry_or_fail io j c msg d =
     (if \<not> wi_queue_ok io then (None, d)
      else (case fail (wi_now io) j (Some c) (Some msg) (d_jobs d) of
              (st, t) \<Rightarrow> (st, d\<lparr>d_jobs := t\<rparr>)))"

definition process_one ::
  "settings \<Rightarrow> worker_io \<Rightarrow> (job \<Rightarrow> db \<Rightarrow> (exn + pydict) \<times> db) \<Rightarrow> job \<Rightarrow> db \<Rightarrow> job_status option \<times> db" where
  "process_one s io dispatch j d =
     (case dispatch j d of
        (Inl (CloudExn e), d1) \<Rightarrow>
          if ce_code e \<in> set FAIL_CLOSED_CODES then fail_closed s io j e d1
          else if ce_code e \<in> set DEFER_CODES then put_off s io j e d1
          else retry_or_fail io j (ce_code e) (ce_message e) d1
      | (Inl (OtherExn ty msg), d1) \<Rightarrow> retry_or_fail io j INTERNAL_ERROR (ty @ '': '' @ msg) d1
      | (Inr result, d1) \<Rightarrow>
          if wi_queue_ok io
          then (Some SUCCEEDED, map_jobs (complete (wi_now io) (j_id j) (Some result)) d1)
          else (None, d1))"

subsection \<open>The daily retention job\<close>

definition next_prune_run_at :: "time \<Rightarrow> time" where
  "next_prune_run_at now =
     (let candidate = day_start now + PRUNE_HOUR_UTC * hour
      in if candidate \<le> now then candidate + day else candidate)"

definition prune_pending :: "time \<Rightarrow> job \<Rightarrow> bool" where
  "prune_pending sql_now j \<longleftrightarrow> j_type j = PRUNE_JOB_TYPE
     \<and> (j_status j = QUEUED \<or> j_status j = RUNNING
        \<or> (j_status j = SUCCEEDED \<and> (\<exists>f. j_finished_at j = Some f \<and> day_start sql_now \<le> f)))"

text \<open>\<open>prune_day\<close> is the worker's \<open>_prune_day\<close>, a date; \<open>isod\<close> is its \<open>isoformat\<close>. The result is
  the returned boolean, the new \<open>_prune_day\<close> and the database.\<close>

definition ensure_daily_prune ::
  "(int \<Rightarrow> str) \<Rightarrow> time \<Rightarrow> time \<Rightarrow> str \<Rightarrow> int option \<Rightarrow> db \<Rightarrow> bool \<times> int option \<times> db" where
  "ensure_daily_prune isod now sql_now new_id prune_day d =
     (let today = day_of now in
      if prune_day = Some today then (False, prune_day, d)
      else if count_where (prune_pending sql_now) (d_jobs d) \<noteq> 0 then (False, Some today, d)
      else (True, Some today,
            map_jobs (\<lambda>t. snd (enqueue sql_now new_id PRUNE_JOB_TYPE (Some [(''scheduled_for'', VStr (isod today))])
              PRUNE_JOB_PRIORITY (Some (next_prune_run_at now)) 3 t)) d))"

subsection \<open>The loop\<close>

text \<open>What one iteration meets: whether the stop event is set before it, whether the connection
  is obtained and the prune check and the claim go through (else the iteration ends with its
  exception logged), the clocks, the id of a new row, and the locked rows the claim skips.\<close>

record iter_io =
  it_stop :: bool
  it_conn_ok :: bool
  it_prune_ok :: bool
  it_claim_ok :: bool
  it_now :: time
  it_sql_now :: time
  it_claim_now :: time
  it_new_id :: str
  it_locked :: "str list"
  it_job :: worker_io

definition iteration ::
  "settings \<Rightarrow> (int \<Rightarrow> str) \<Rightarrow> str \<Rightarrow> (job \<Rightarrow> db \<Rightarrow> (exn + pydict) \<times> db) \<Rightarrow> iter_io \<Rightarrow> int option \<times> db
     \<Rightarrow> bool \<times> int option \<times> db" where
  "iteration s isod inst dispatch io st =
     (case st of (pd, d) \<Rightarrow>
      if \<not> it_conn_ok io \<or> (\<not> it_prune_ok io \<and> pd \<noteq> Some (day_of (it_now io))) then (False, pd, d)
      else (case ensure_daily_prune isod (it_now io) (it_sql_now io) (it_new_id io) pd d of
        (_, pd1, d1) \<Rightarrow>
          if \<not> it_claim_ok io then (False, pd1, d1)
          else (case claim_next (it_claim_now io) inst (it_locked io) (d_jobs d1) of
              (None, t) \<Rightarrow> (False, pd1, d1\<lparr>d_jobs := t\<rparr>)
            | (Some j, t) \<Rightarrow> (True, pd1, snd (process_one s (it_job io) dispatch j (d1\<lparr>d_jobs := t\<rparr>))))))"

text \<open>\<open>run_forever\<close> after the startup migration: the requeue of this instance's stale jobs,
  with its event, then iterations until the stop event or \<open>max_iterations\<close>. The list holds the
  iterations the process lives to begin. The last component counts the waits, one after each
  iteration that claimed nothing.\<close>

definition startup_recovery :: "str \<Rightarrow> time \<Rightarrow> bool \<Rightarrow> bool \<Rightarrow> db \<Rightarrow> db" where
  "startup_recovery inst now ok ev_ok d =
     (if \<not> ok then d
      else (case recover_stale inst (d_jobs d) of (n, t) \<Rightarrow>
        if n = 0 then d\<lparr>d_jobs := t\<rparr>
        else write_event now ev_ok ''warning'' ''worker'' ''STALE_JOBS_REQUEUED''
               (''requeued '' @ show_nat n @ '' job(s) after restart'')
               [(''instance'', VStr inst), (''count'', VInt (int n))] (d\<lparr>d_jobs := t\<rparr>)))"

fun run_loop ::
  "settings \<Rightarrow> (int \<Rightarrow> str) \<Rightarrow> str \<Rightarrow> (job \<Rightarrow> db \<Rightarrow> (exn + pydict) \<times> db) \<Rightarrow> nat option \<Rightarrow> iter_io list
     \<Rightarrow> int option \<times> db \<Rightarrow> nat \<Rightarrow> (int option \<times> db) \<times> nat" where
  "run_loop s isod inst dispatch lmt [] st waits = (st, waits)"
| "run_loop s isod inst dispatch lmt (io # ios) st waits =
     (if it_stop io \<or> lmt = Some 0 then (st, waits)
      else (case iteration s isod inst dispatch io st of
        (claimed, st') \<Rightarrow> run_loop s isod inst dispatch (map_option (\<lambda>n. n - 1) lmt) ios st'
          (if claimed then waits else waits + 1)))"

definition run_forever ::
  "settings \<Rightarrow> (int \<Rightarrow> str) \<Rightarrow> str \<Rightarrow> (job \<Rightarrow> db \<Rightarrow> (exn + pydict) \<times> db) \<Rightarrow> nat option
     \<Rightarrow> time \<times> bool \<times> bool \<Rightarrow> iter_io list \<Rightarrow> db \<Rightarrow> (int option \<times> db) \<times> nat" where
  "run_forever s isod inst dispatch lmt start ios d =
     (case start of (now, ok, ev_ok) \<Rightarrow>
        run_loop s isod inst dispatch lmt ios (None, startup_recovery inst now ok ev_ok d) 0)"

subsection \<open>Outcomes\<close>

text \<open>What the loop promises of a claimed job, apart from how it gets there: the job's outcome
  is a function of what its handler returned or raised, and the queue settles the row by it.\<close>

datatype outcome =
    Done pydict
  | Retry error_code str
  | Stop error_code str
  | Later int error_code str

fun outcome_of :: "settings \<Rightarrow> exn + pydict \<Rightarrow> outcome option" where
  "outcome_of s (Inr result) = Some (Done result)"
| "outcome_of s (Inl (OtherExn ty msg)) = Some (Retry INTERNAL_ERROR (ty @ '': '' @ msg))"
| "outcome_of s (Inl (CloudExn e)) =
     (if ce_code e \<in> set FAIL_CLOSED_CODES then Some (Stop (ce_code e) (ce_message e))
      else if ce_code e \<in> set DEFER_CODES
      then map_option (\<lambda>m. Later m (ce_code e) (ce_message e)) (defer_minutes s e)
      else Some (Retry (ce_code e) (ce_message e)))"

fun outcome_row :: "time \<Rightarrow> outcome \<Rightarrow> job \<Rightarrow> job \<Rightarrow> job" where
  "outcome_row now (Done r) j = complete_row now r"
| "outcome_row now (Stop c m) j = block_row now (Some (error_code_value c)) (clip MAX_ERROR_LEN m)"
| "outcome_row now (Later n c m) j = defer_row now (Some (error_code_value c)) (clip MAX_ERROR_LEN m) (max 1 n)"
| "outcome_row now (Retry c m) j =
     (if fail_attempts j < fail_max j
      then retry_row now (fail_attempts j) (Some (error_code_value c)) (clip MAX_ERROR_LEN m) (backoff_minutes (fail_attempts j))
      else fail_row now (fail_attempts j) (Some (error_code_value c)) (clip MAX_ERROR_LEN m))"

fun settle :: "time \<Rightarrow> outcome \<Rightarrow> job \<Rightarrow> jobs \<Rightarrow> jobs" where
  "settle now (Done r) j t = complete now (j_id j) (Some r) t"
| "settle now (Stop c m) j t = block now (j_id j) (Some c) (Some m) t"
| "settle now (Later n c m) j t = snd (defer_job now (j_id j) n (Some c) (Some m) t)"
| "settle now (Retry c m) j t = snd (fail now j (Some c) (Some m) t)"

text \<open>An outcome the queue's statement can record.\<close>

fun outcome_fits :: "outcome \<Rightarrow> job \<Rightarrow> bool" where
  "outcome_fits (Done r) j \<longleftrightarrow> True"
| "outcome_fits (Stop c m) j \<longleftrightarrow> True"
| "outcome_fits (Later n c m) j \<longleftrightarrow> fits_int4 (max 1 n)"
| "outcome_fits (Retry c m) j \<longleftrightarrow> retry_fits j"

text \<open>The jobs a worker holds.\<close>

definition held :: "str \<Rightarrow> jobs \<Rightarrow> str set" where
  "held w t = {i. \<exists>r. row_of i t = Some r \<and> j_status r = RUNNING \<and> j_locked_by r = Some w}"

text \<open>The contract between a worker and its queue: settling a job by an outcome that can be recorded
  rewrites the job's own row into one that is neither running nor locked, and no other.\<close>

locale job_settling =
  fixes act :: "time \<Rightarrow> 'o \<Rightarrow> job \<Rightarrow> jobs \<Rightarrow> jobs" and row :: "time \<Rightarrow> 'o \<Rightarrow> job \<Rightarrow> job \<Rightarrow> job"
    and fits :: "'o \<Rightarrow> job \<Rightarrow> bool"
  assumes own: "fits out j \<Longrightarrow> row_of (j_id j) (act now out j t) = map_option (row now out j) (row_of (j_id j) t)"
    and other: "k \<noteq> j_id j \<Longrightarrow> row_of k (act now out j t) = row_of k t"
    and keeps_wf: "jobs_wf t \<Longrightarrow> jobs_wf (act now out j t)"
    and lets_go: "j_status (row now out j r) \<noteq> RUNNING \<and> j_locked_by (row now out j r) = None"
begin

lemma held_act: "fits out j \<Longrightarrow> held w (act now out j t) = held w t - {j_id j}"
proof (rule set_eqI)
  fix k assume fits: "fits out j"
  show "k \<in> held w (act now out j t) \<longleftrightarrow> k \<in> held w t - {j_id j}"
  proof (cases "k = j_id j")
    case True
    then show ?thesis using lets_go by (auto simp: held_def own [OF fits])
  next
    case False
    then show ?thesis by (simp add: held_def other)
  qed
qed

lemma settle_all:
  "\<forall>(now, out, j)\<in>set batch. fits out j \<Longrightarrow> held w (fold (\<lambda>(now, out, j). act now out j) batch t) = held w t - (\<lambda>(now, out, j). j_id j) ` set batch"
  by (induction batch arbitrary: t) (auto simp: held_act)

lemma batch_wf: "jobs_wf t \<Longrightarrow> jobs_wf (fold (\<lambda>(now, out, j). act now out j) batch t)"
  by (induction batch arbitrary: t) (auto simp: keeps_wf)

end

lemma settle_is_row: "settle now out j t = (if outcome_fits out j then with_id (j_id j) (outcome_row now out j) t else t)"
  by (cases out) (auto simp: complete_def block_def defer_job_def fail_def Let_def code_str_def clip_error_def retry_fits_def)

lemma outcome_row_id [simp]: "j_id (outcome_row now out j r) = j_id r"
  by (cases out) auto

lemma outcome_row_wf [simp]: "job_wf (outcome_row now out j r)"
  by (cases out) auto

lemma outcome_row_free: "j_status (outcome_row now out j r) \<noteq> RUNNING \<and> j_locked_by (outcome_row now out j r) = None"
  by (cases out) auto

interpretation jq: job_settling settle outcome_row outcome_fits
  by unfold_locales
     (simp_all add: settle_is_row row_of_with_id_same row_of_with_id_other jobs_wf_with_id outcome_row_free)

lemmas process_defs = process_one_def fail_closed_def put_off_def retry_or_fail_def Let_def

text \<open>The loop refines that: what \<open>process_one\<close> does to the job table is to settle the job by
  its outcome.\<close>

lemma process_one_jobs:
  assumes "dispatch j d = (res, d1)" and "wi_queue_ok io" and "outcome_of s res = Some out"
  shows "d_jobs (snd (process_one s io dispatch j d)) = settle (wi_now io) out j (d_jobs d1)"
proof (cases res)
  case (Inl x)
  then show ?thesis
    using assms by (cases x) (auto simp: process_defs defer_job_def split: if_splits prod.splits)
qed (use assms in \<open>auto simp: process_defs\<close>)

text \<open>It has a status exactly when the outcome was recorded; else the job stays as the handler left it.\<close>

lemma process_one_stuck:
  assumes "dispatch j d = (res, d1)"
    and "\<not> wi_queue_ok io \<or> (case outcome_of s res of None \<Rightarrow> True | Some out \<Rightarrow> \<not> outcome_fits out j)"
  shows "process_one s io dispatch j d = (None, d1)"
proof (cases res)
  case (Inl x)
  then show ?thesis
    using assms by (cases x) (auto simp: process_defs defer_job_def fail_raises [unfolded Let_def] split: if_splits option.splits)
qed (use assms in \<open>auto simp: process_defs\<close>)

subsection \<open>What a failure leaves\<close>

text \<open>C23. A handler error whose code fails closed stops the job for good and says so: the job
  is blocked with the code and the message, without another attempt and never claimable again,
  and there is one new error event and one new critical notification that carry the code.\<close>

theorem fail_closed_stops_and_tells:
  assumes "dispatch j d = (Inl (CloudExn e), d1)" and "ce_code e \<in> set FAIL_CLOSED_CODES"
    and "wi_queue_ok io" and "wi_ev_ok io" and "no_insert_ok (wi_notify io)"
    and "row_of (j_id j) (d_jobs d1) = Some r" and "process_one s io dispatch j d = (st, d')"
  shows "st = Some BLOCKED
     \<and> (\<exists>r'. row_of (j_id j) (d_jobs d') = Some r' \<and> j_status r' = BLOCKED \<and> j_attempts r' = j_attempts r
           \<and> j_error_code r' = Some (error_code_value (ce_code e)) \<and> j_error r' = Some (take 2000 (ce_message e))
           \<and> (\<forall>now lk. \<not> claimable now lk r'))
     \<and> (\<forall>k. k \<noteq> j_id j \<longrightarrow> row_of k (d_jobs d') = row_of k (d_jobs d1))
     \<and> (\<exists>ev. d_events d' = d_events d1 @ [ev] \<and> ev_level ev = ''error'' \<and> ev_code ev = error_code_value (ce_code e))
     \<and> (\<exists>nt. d_notifications d' = d_notifications d1 @ [nt] \<and> nt_severity nt = ''critical''
           \<and> nt_code nt = error_code_value (ce_code e))"
proof -
  have p: "process_one s io dispatch j d = fail_closed s io j e d1"
    using assms(1,2) by (simp add: process_one_def)
  have jobs: "d_jobs d' = with_id (j_id j) (block_row (wi_now io) (Some (error_code_value (ce_code e))) (take 2000 (ce_message e))) (d_jobs d1)"
    using assms(3,7) unfolding p
    by (auto simp: fail_closed_def Let_def block_def code_str_def clip_error_def MAX_ERROR_LEN_def)
  have "row_of (j_id j) (d_jobs d') = Some (block_row (wi_now io) (Some (error_code_value (ce_code e))) (take 2000 (ce_message e)) r)"
    using assms(6) by (simp add: jobs row_of_with_id_same)
  moreover have "\<forall>k. k \<noteq> j_id j \<longrightarrow> row_of k (d_jobs d') = row_of k (d_jobs d1)"
    by (simp add: jobs row_of_with_id_other)
  moreover have "st = Some BLOCKED"
      "\<exists>ev. d_events d' = d_events d1 @ [ev] \<and> ev_level ev = ''error'' \<and> ev_code ev = error_code_value (ce_code e)"
      "\<exists>nt. d_notifications d' = d_notifications d1 @ [nt] \<and> nt_severity nt = ''critical''
           \<and> nt_code nt = error_code_value (ce_code e)"
    using assms(3-5,7) unfolding p by (auto simp: fail_closed_def Let_def write_event_def notify_owner_def)
  ultimately show ?thesis by (auto simp: block_row_def claimable_def)
qed

definition demo_settings :: settings where
  "demo_settings = get_settings (\<lambda>p. True) (\<lambda>a b. a @ ''/'' @ b) ''/repo'' Map.empty"

definition demo_io :: worker_io where
  "demo_io = \<lparr>wi_now = 9, wi_queue_ok = True, wi_ev_now = 9, wi_ev_ok = True,
     wi_notify = \<lparr>no_now = 9, no_id = 1, no_webhook = None, no_insert_ok = True\<rparr>\<rparr>"

definition demo_job :: job where
  "demo_job = lock_row 5 ''w'' (new_job 0 ''a'' ''ai.generate'' [] 100 0 3)"

definition demo_db :: db where "demo_db = empty_db\<lparr>d_jobs := [demo_job]\<rparr>"

lemma demo_row: "row_of (j_id demo_job) (d_jobs demo_db) = Some demo_job"
  by (simp add: demo_db_def row_of_def)

theorem fail_closed_stops_and_tells_witness:
  "fst (process_one demo_settings demo_io
     (\<lambda>j d. (Inl (CloudExn (CloudOSError BILLING_RISK ''money could move'' [])), d)) demo_job demo_db) = Some BLOCKED"
proof -
  let ?e = "CloudOSError BILLING_RISK ''money could move'' []"
  let ?f = "\<lambda>j d. (Inl (CloudExn ?e), d) :: (exn + pydict) \<times> db"
  have c: "ce_code ?e \<in> set FAIL_CLOSED_CODES" by (simp add: FAIL_CLOSED_CODES_def)
  have io: "wi_queue_ok demo_io" "wi_ev_ok demo_io" "no_insert_ok (wi_notify demo_io)"
    by (simp_all add: demo_io_def)
  have "?f demo_job demo_db = (Inl (CloudExn ?e), demo_db)" by simp
  from fail_closed_stops_and_tells [where dispatch = ?f and s = demo_settings,
      OF this c io demo_row surjective_pairing]
  show ?thesis by blast
qed

text \<open>Running out of quota or of a login burns no attempt: the job goes back to the queue
  with its attempts as they were, not due before a whole minute has passed, and due exactly the
  delay the error or the settings ask for; only a missing login notifies the owner.\<close>

theorem deferral_burns_no_attempt:
  assumes "dispatch j d = (Inl (CloudExn e), d1)" and "ce_code e \<in> set DEFER_CODES"
    and "wi_queue_ok io" and "no_insert_ok (wi_notify io)" and "defer_minutes s e = Some m" and fits: "fits_int4 (max 1 m)"
    and "row_of (j_id j) (d_jobs d1) = Some r" and "process_one s io dispatch j d = (st, d')"
  shows "st = Some QUEUED
     \<and> (\<exists>r'. row_of (j_id j) (d_jobs d') = Some r' \<and> j_status r' = QUEUED \<and> j_attempts r' = j_attempts r
           \<and> j_locked_by r' = None \<and> j_error_code r' = Some (error_code_value (ce_code e))
           \<and> j_run_at r' = wi_now io + max 1 m * minute \<and> wi_now io + minute \<le> j_run_at r')
     \<and> (ce_code e = AUTH_REQUIRED \<longleftrightarrow> d_notifications d' \<noteq> d_notifications d1)"
proof -
  have nc: "ce_code e \<notin> set FAIL_CLOSED_CODES" using assms(2) codes_disjoint by blast
  have p: "process_one s io dispatch j d = put_off s io j e d1"
    using assms(1,2) nc by (simp add: process_one_def)
  have jobs: "d_jobs d' = with_id (j_id j) (defer_row (wi_now io) (Some (error_code_value (ce_code e)))
      (take 2000 (ce_message e)) (max 1 m)) (d_jobs d1)"
    using assms(3,5,8) fits unfolding p
    by (auto simp: put_off_def Let_def defer_job_def code_str_def clip_error_def MAX_ERROR_LEN_def)
  have "row_of (j_id j) (d_jobs d') = Some (defer_row (wi_now io) (Some (error_code_value (ce_code e)))
      (take 2000 (ce_message e)) (max 1 m) r)"
    using assms(7) by (simp add: jobs row_of_with_id_same)
  moreover have "st = Some QUEUED" using assms(3,5,8) fits unfolding p by (simp add: put_off_def defer_job_def Let_def)
  moreover have "d' = snd (put_off s io j e d1)" using assms(8) by (simp add: p)
  then have "ce_code e = AUTH_REQUIRED \<longleftrightarrow> d_notifications d' \<noteq> d_notifications d1"
    using assms(3-5) fits by (simp add: put_off_def defer_job_def Let_def notify_owner_notifications)
  moreover have "minute \<le> max 1 m * minute" by (simp add: minute_def second_def)
  ultimately show ?thesis by (auto simp: defer_row_def)
qed

theorem deferral_burns_no_attempt_witness:
  "\<exists>r'. row_of ''a'' (d_jobs (snd (process_one demo_settings demo_io
       (\<lambda>j d. (Inl (CloudExn (CloudOSError QUOTA_EXHAUSTED ''quota'' [(''retry_after_minutes'', VInt 7)])), d)) demo_job demo_db)))
      = Some r' \<and> j_attempts r' = 0 \<and> j_run_at r' = 9 + 7 * minute"
proof -
  let ?e = "CloudOSError QUOTA_EXHAUSTED ''quota'' [(''retry_after_minutes'', VInt 7)]"
  let ?f = "\<lambda>j d. (Inl (CloudExn ?e), d) :: (exn + pydict) \<times> db"
  have c: "ce_code ?e \<in> set DEFER_CODES" by (simp add: DEFER_CODES_def)
  have io: "wi_queue_ok demo_io" "no_insert_ok (wi_notify demo_io)" by (simp_all add: demo_io_def)
  have m: "defer_minutes demo_settings ?e = Some 7" by (simp add: defer_minutes_def por_def dget_def)
  have f: "?f demo_job demo_db = (Inl (CloudExn ?e), demo_db)" by simp
  have fits: "fits_int4 (max 1 7)" by (simp add: fits_int4_def)
  have v: "j_id demo_job = ''a''" "j_attempts demo_job = 0" "wi_now demo_io = 9"
    by (simp_all add: demo_job_def demo_io_def lock_row_def new_job_def)
  from deferral_burns_no_attempt [where dispatch = ?f and s = demo_settings,
      OF f c io m fits demo_row surjective_pairing]
  show ?thesis unfolding v by auto
qed

subsection \<open>The loop lets go of what it claims\<close>

lemma row_of_claim:
  assumes "claim_select now lk t = Some r"
  shows "claim_next now w lk t = (row_of (j_id r) (with_id (j_id r) (lock_row now w) t), with_id (j_id r) (lock_row now w) t)"
  using assms by (simp add: claim_next_def row_of_def Let_def)

lemma row_of_exists: "r \<in> set t \<Longrightarrow> row_of (j_id r) t \<noteq> None"
  by (auto simp: row_of_def find_None_iff)

lemma claim_next_None:
  assumes "claim_next now w lk t = (None, t')"
  shows "t' = t"
proof (cases "claim_select now lk t")
  case (Some r)
  then have "row_of (j_id r) t \<noteq> None" using claim_select_Some(1) row_of_exists by blast
  then have "row_of (j_id r) (with_id (j_id r) (lock_row now w) t) \<noteq> None" by (simp add: row_of_with_id_same)
  then show ?thesis using assms Some by (auto simp: row_of_claim)
qed (use assms in \<open>simp add: claim_next_def\<close>)

lemma held_claim:
  assumes "claim_next now w lk t = (Some j, t')"
  shows "held v t' \<subseteq> held v t \<union> {j_id j}"
proof -
  obtain r where r: "claim_select now lk t = Some r"
    using assms by (cases "claim_select now lk t") (simp_all add: claim_next_def)
  then have c: "row_of (j_id r) (with_id (j_id r) (lock_row now w) t) = Some j"
      "t' = with_id (j_id r) (lock_row now w) t"
    using assms by (auto simp: row_of_claim)
  then have "j_id j = j_id r" using row_of_Some by blast
  then show ?thesis unfolding c(2) held_def by (auto simp: row_of_with_id_other)
qed

lemma held_append_queued: "j_status j = QUEUED \<Longrightarrow> held v (t @ [j]) = held v t"
proof -
  assume q: "j_status j = QUEUED"
  have "row_of k (t @ [j]) = (case row_of k t of Some r \<Rightarrow> Some r | None \<Rightarrow> if j_id j = k then Some j else None)" for k
    unfolding row_of_def by (induction t) auto
  then show ?thesis using q by (auto simp: held_def split: option.splits if_splits)
qed

lemma held_recover: "held w (snd (recover_stale w t)) = {}"
proof -
  have "row_of k (upd_where (recoverable w) recover_row t)
      = map_option (\<lambda>r. if recoverable w r then recover_row r else r) (row_of k t)" for k
    unfolding row_of_def by (induction t) auto
  then show ?thesis
    by (auto simp: held_def recover_stale_def recoverable_def split: if_splits)
qed

lemma held_daily_prune:
  "held v (d_jobs (snd (snd (ensure_daily_prune isod now qn i pd d)))) = held v (d_jobs d)"
  by (auto simp: ensure_daily_prune_def Let_def enqueue_def held_append_queued)

text \<open>Jobs whose retries all fit the interval.\<close>

definition few :: "job \<Rightarrow> bool" where "few j \<longleftrightarrow> fail_max j \<le> 31"

definition all_few :: "db \<Rightarrow> bool" where "all_few d \<longleftrightarrow> list_all few (d_jobs d)"

text \<open>A handler that takes no lock in the worker's name, adds no job with more attempts than that, and whose
  deferral delays are numbers of the interval's range.\<close>

definition tame :: "settings \<Rightarrow> str \<Rightarrow> (job \<Rightarrow> db \<Rightarrow> (exn + pydict) \<times> db) \<Rightarrow> bool" where
  "tame s w dispatch \<longleftrightarrow> (\<forall>j d. held w (d_jobs (snd (dispatch j d))) \<subseteq> held w (d_jobs d)
     \<and> (all_few d \<longrightarrow> all_few (snd (dispatch j d)))
     \<and> (case outcome_of s (fst (dispatch j d)) of None \<Rightarrow> False | Some (Later n c m) \<Rightarrow> fits_int4 (max 1 n) | _ \<Rightarrow> True))"

lemma few_rows [simp]:
  "few (lock_row now w j) = few j" "few (outcome_row now out r j) = few j" "few (recover_row j) = few j"
  by (cases out; simp add: few_def fail_max_def lock_row_def recover_row_def complete_row_def block_row_def defer_row_def
      retry_row_def fail_row_def)+

lemma few_upd: "list_all few t \<Longrightarrow> (\<And>j. few (f j) = few j) \<Longrightarrow> list_all few (upd_where p f t)"
  by (auto simp: list_all_iff set_upd_where)

lemma few_settle: "list_all few t \<Longrightarrow> list_all few (settle now out j t)"
  by (simp add: settle_is_row with_id_def few_upd)

lemma few_claim:
  assumes "claim_next now w lk t = (x, t')" and "list_all few t"
  shows "list_all few t'" and "x = Some j \<Longrightarrow> few j"
proof -
  have t: "t' = t \<or> (\<exists>i. t' = with_id i (lock_row now w) t)" using assms(1) by (auto simp: claim_next_def Let_def split: option.splits)
  then show all: "list_all few t'" using assms(2) by (auto simp: with_id_def few_upd)
  assume "x = Some j"
  then have "\<exists>i. row_of i t' = Some j" using assms(1) by (auto simp: claim_next_def Let_def row_of_def split: option.splits)
  then have "j \<in> set t'" using row_of_Some by blast
  then show "few j" using all by (simp add: list_all_iff)
qed

lemma few_daily_prune: "all_few d \<Longrightarrow> all_few (snd (snd (ensure_daily_prune isod now qn i pd d)))"
  by (auto simp: ensure_daily_prune_def Let_def enqueue_def all_few_def few_def fail_max_def new_job_def)

lemma process_one_lets_go:
  assumes "tame s w dispatch" and "wi_queue_ok io" and "few j" and "all_few d"
  shows "held w (d_jobs (snd (process_one s io dispatch j d))) \<subseteq> held w (d_jobs d) - {j_id j}"
    and "all_few (snd (process_one s io dispatch j d))"
proof -
  obtain res d1 where r: "dispatch j d = (res, d1)" by (rule prod.exhaust)
  note t = assms(1) [unfolded tame_def, rule_format, of j d, unfolded r fst_conv snd_conv]
  then obtain out where out: "outcome_of s res = Some out" by (auto split: option.splits)
  have fits: "outcome_fits out j" using t out assms(3) by (cases out) (auto simp: few_def retry_fits_small)
  have jobs: "d_jobs (snd (process_one s io dispatch j d)) = settle (wi_now io) out j (d_jobs d1)"
    by (rule process_one_jobs [where s = s and dispatch = dispatch, OF r assms(2) out])
  show "held w (d_jobs (snd (process_one s io dispatch j d))) \<subseteq> held w (d_jobs d) - {j_id j}"
    unfolding jobs jq.held_act [OF fits] using t by auto
  show "all_few (snd (process_one s io dispatch j d))"
    using t assms(4) unfolding all_few_def jobs by (blast intro: few_settle)
qed

lemma iteration_lets_go:
  assumes "tame s w dispatch" and "wi_queue_ok (it_job io)" and "all_few d" and "iteration s isod w dispatch io (pd, d) = (b, pd', d')"
  shows "held w (d_jobs d') \<subseteq> held w (d_jobs d) \<and> all_few d'"
proof -
  obtain b1 pd1 d1 where e: "ensure_daily_prune isod (it_now io) (it_sql_now io) (it_new_id io) pd d = (b1, pd1, d1)"
    by (rule prod_cases3)
  have h1: "held w (d_jobs d1) = held w (d_jobs d)"
    using held_daily_prune [of w isod "it_now io" "it_sql_now io" "it_new_id io" pd d] by (simp add: e)
  have f1: "all_few d1" using few_daily_prune [OF assms(3), of isod "it_now io" "it_sql_now io" "it_new_id io" pd] by (simp add: e)
  obtain x t where c: "claim_next (it_claim_now io) w (it_locked io) (d_jobs d1) = (x, t)" by (rule prod.exhaust)
  note fc = few_claim [OF c f1 [unfolded all_few_def]]
  show ?thesis
  proof (cases x)
    case None
    then have "t = d_jobs d1" using c claim_next_None by blast
    then have "d' = d \<or> d' = d1" using None c e assms(4) by (auto simp: iteration_def split: if_splits)
    then show ?thesis using h1 f1 assms(3) by auto
  next
    case (Some j)
    let ?p = "snd (process_one s (it_job io) dispatch j (d1\<lparr>d_jobs := t\<rparr>))"
    have "held w t \<subseteq> held w (d_jobs d1) \<union> {j_id j}" using held_claim c Some by blast
    then have "held w (d_jobs ?p) \<subseteq> held w (d_jobs d1)" "all_few ?p"
      using process_one_lets_go [OF assms(1,2) fc(2) [OF Some], of "d1\<lparr>d_jobs := t\<rparr>"] fc(1) by (auto simp: all_few_def)
    moreover have "d' = d \<or> d' = d1 \<or> d' = ?p" using Some c e assms(4) by (auto simp: iteration_def split: if_splits)
    ultimately show ?thesis using h1 f1 assms(3) by auto
  qed
qed

lemma held_run_loop:
  assumes "tame s w dispatch" and "\<forall>io\<in>set ios. wi_queue_ok (it_job io)" and "all_few d"
  shows "held w (d_jobs (snd (fst (run_loop s isod w dispatch lmt ios (pd, d) n)))) \<subseteq> held w (d_jobs d)"
  using assms(2,3)
proof (induction ios arbitrary: lmt pd d n)
  case (Cons io ios)
  obtain c pd1 d1 where i: "iteration s isod w dispatch io (pd, d) = (c, pd1, d1)" by (rule prod_cases3)
  have h: "held w (d_jobs d1) \<subseteq> held w (d_jobs d) \<and> all_few d1"
    using iteration_lets_go [OF assms(1) _ Cons.prems(2) i] Cons.prems(1) by simp
  moreover have "held w (d_jobs (snd (fst (run_loop s isod w dispatch l ios (pd1, d1) k)))) \<subseteq> held w (d_jobs d1)" for l k
    using Cons.prems h by (intro Cons.IH) simp_all
  ultimately show ?case by (auto simp: i)
qed simp

text \<open>C24. A worker that starts with its recovery and whose queue statements go through holds
  nothing when its loop ends, however many iterations it ran and whatever their handlers
  returned or raised: no row is left running under its name. (The statements include the retries': the jobs allow at
  most 31 attempts, beyond which the delay of a retry is no interval, and the handler defers by an interval.)\<close>

theorem loop_leaves_nothing_running:
  assumes "tame s w dispatch" and "\<forall>io\<in>set ios. wi_queue_ok (it_job io)" and "list_all (\<lambda>j. fail_max j \<le> 31) (d_jobs d)"
    and "run_forever s isod w dispatch lmt (now, True, ev_ok) ios d = ((pd, d'), n)"
    and "row_of i (d_jobs d') = Some r" and "j_status r = RUNNING"
  shows "j_locked_by r \<noteq> Some w"
proof
  assume l: "j_locked_by r = Some w"
  have jobs: "d_jobs (startup_recovery w now True ev_ok d) = snd (recover_stale w (d_jobs d))"
    by (simp add: startup_recovery_def split: prod.splits)
  then have "held w (d_jobs (startup_recovery w now True ev_ok d)) = {}"
    by (simp only: held_recover)
  moreover have "all_few (startup_recovery w now True ev_ok d)"
    unfolding all_few_def jobs recover_stale_def snd_conv using assms(3) by (intro few_upd) (simp_all add: few_def [abs_def] fail_max_def recover_row_def)
  ultimately have "held w (d_jobs d') = {}"
    using held_run_loop [OF assms(1,2), of "startup_recovery w now True ev_ok d" isod lmt None 0] assms(4)
    by (simp add: run_forever_def)
  then show False using l assms(5,6) by (auto simp: held_def)
qed

definition demo_iter :: iter_io where
  "demo_iter = \<lparr>it_stop = False, it_conn_ok = True, it_prune_ok = True, it_claim_ok = True, it_now = 5,
     it_sql_now = 5, it_claim_now = 5, it_new_id = ''p'', it_locked = [], it_job = demo_io\<rparr>"

theorem loop_leaves_nothing_running_witness:
  "\<not> (\<exists>i r. row_of i (d_jobs (snd (fst (run_forever demo_settings show_int ''w'' (\<lambda>j d. (Inr [], d)) (Some 2)
      (1, True, True) [demo_iter, demo_iter] demo_db)))) = Some r \<and> j_status r = RUNNING \<and> j_locked_by r = Some ''w'')"
proof -
  let ?f = "\<lambda>j d. (Inr [], d) :: (exn + pydict) \<times> db"
  have t: "tame demo_settings ''w'' ?f" by (simp add: tame_def)
  have q: "\<forall>io\<in>set [demo_iter, demo_iter]. wi_queue_ok (it_job io)" by (simp add: demo_iter_def demo_io_def)
  have few: "list_all (\<lambda>j. fail_max j \<le> 31) (d_jobs demo_db)"
    by (simp add: demo_db_def demo_job_def fail_max_def lock_row_def new_job_def)
  obtain pd d' n where r: "run_forever demo_settings show_int ''w'' ?f (Some 2) (1, True, True) [demo_iter, demo_iter] demo_db
      = ((pd, d'), n)" by (metis prod.exhaust)
  show ?thesis using loop_leaves_nothing_running [OF t q few r] by (simp only: r fst_conv snd_conv) blast
qed

subsection \<open>One retention job a day\<close>

lemma next_prune_after:
  "now < next_prune_run_at now" "next_prune_run_at now \<le> now + day"
  "next_prune_run_at now mod day = PRUNE_HOUR_UTC * hour"
proof -
  define x where "x = now mod day"
  have m: "0 \<le> x" "x < day" "0 < hour" "3 * hour < day" by (simp_all add: x_def time_units)
  have s: "day_start now = now - x" unfolding x_def by (simp add: day_start_def day_of_def minus_mod_eq_div_mult)
  show "now < next_prune_run_at now" using m by (auto simp: next_prune_run_at_def Let_def s PRUNE_HOUR_UTC_def)
  show "next_prune_run_at now \<le> now + day"
    using m by (auto simp: next_prune_run_at_def Let_def s PRUNE_HOUR_UTC_def)
  have "(day_start now + c) mod day = c" "(day_start now + c + day) mod day = c" if "0 \<le> c" "c < day" for c
    using that by (simp_all add: day_start_def)
  from this [of "PRUNE_HOUR_UTC * hour"] m show "next_prune_run_at now mod day = PRUNE_HOUR_UTC * hour"
    by (simp add: next_prune_run_at_def Let_def PRUNE_HOUR_UTC_def)
qed

text \<open>The daily check schedules the retention job exactly when none is pending and it has
  not run yet that day: then it adds one queued job, due at three o'clock, after now and within
  a day, behind the default priority; in every case it is settled for the day, and a second
  check of that day leaves the database alone.\<close>

theorem daily_prune_once:
  "case ensure_daily_prune isod now sql_now i pd d of (made, pd', d') \<Rightarrow>
     (made \<longleftrightarrow> pd \<noteq> Some (day_of now) \<and> (\<forall>j\<in>set (d_jobs d). \<not> prune_pending sql_now j))
   \<and> pd' = Some (day_of now)
   \<and> (made \<longrightarrow> (\<exists>j. d_jobs d' = d_jobs d @ [j] \<and> j_type j = PRUNE_JOB_TYPE \<and> j_status j = QUEUED \<and> 100 < j_priority j
         \<and> now < j_run_at j \<and> j_run_at j \<le> now + day \<and> j_run_at j mod day = 3 * hour
         \<and> count_where (prune_pending sql_now) (d_jobs d') = 1))
   \<and> (\<not> made \<longrightarrow> d' = d)
   \<and> (\<forall>now2 sql2 i2. day_of now2 = day_of now \<longrightarrow>
        ensure_daily_prune isod now2 sql2 i2 pd' d' = (False, pd', d'))"
proof (cases "pd \<noteq> Some (day_of now) \<and> count_where (prune_pending sql_now) (d_jobs d) = 0")
  case True
  let ?j = "new_job sql_now i PRUNE_JOB_TYPE [(''scheduled_for'', VStr (isod (day_of now)))] PRUNE_JOB_PRIORITY (next_prune_run_at now) 3"
  have e: "ensure_daily_prune isod now sql_now i pd d = (True, Some (day_of now), map_jobs (\<lambda>t. t @ [?j]) d)"
    using True by (simp add: ensure_daily_prune_def enqueue_def Let_def)
  have j: "j_type ?j = PRUNE_JOB_TYPE" "j_status ?j = QUEUED" "j_priority ?j = 200" "j_run_at ?j = next_prune_run_at now"
    by (simp_all add: new_job_def PRUNE_JOB_PRIORITY_def)
  then have "count_where (prune_pending sql_now) (d_jobs d @ [?j]) = 1"
    using True by (simp add: count_where_def prune_pending_def)
  moreover have "\<forall>j\<in>set (d_jobs d). \<not> prune_pending sql_now j" using True by (simp add: count_where_0)
  ultimately show ?thesis
    using True next_prune_after [of now] j unfolding e
    by (auto simp: PRUNE_HOUR_UTC_def ensure_daily_prune_def)
next
  case False
  then show ?thesis by (auto simp: ensure_daily_prune_def Let_def count_where_0)
qed

theorem daily_prune_once_witness:
  "fst (ensure_daily_prune show_int (10 * hour) (10 * hour) ''p'' None demo_db)
   \<and> (\<exists>j. d_jobs (snd (snd (ensure_daily_prune show_int (10 * hour) (10 * hour) ''p'' None demo_db))) = [demo_job, j]
        \<and> j_run_at j mod day = 3 * hour)"
proof -
  have "\<forall>j\<in>set (d_jobs demo_db). \<not> prune_pending (10 * hour) j"
    by (simp add: demo_db_def demo_job_def prune_pending_def PRUNE_JOB_TYPE_def lock_row_def new_job_def)
  moreover have "d_jobs demo_db = [demo_job]" by (simp add: demo_db_def)
  ultimately show ?thesis
    using daily_prune_once [where isod = show_int and now = "10 * hour" and sql_now = "10 * hour" and i = "''p''"
        and pd = None and d = demo_db] by (auto split: prod.splits)
qed

end
