(* ===== verification/Handlers.thy ===== *)
theory Handlers
  imports Router TaskExec Retention Worker
begin

text \<open>
  \<open>src/cloudos/worker/handlers.py\<close>: the handler table and \<open>dispatch\<close>, which is what the
  worker loop calls. \<open>handler_env\<close> holds what the handlers use beside the payload and the
  database. The handlers of the second brain, the job agent and the lead engine are arguments;
  \<open>he_shows\<close> is Python's \<open>str\<close> of a value that is no text.
\<close>

type_synonym db_handler = "pydict \<Rightarrow> db \<Rightarrow> (exn + pydict) \<times> db"

record handler_env =
  he_settings :: settings
  he_shows :: "pyv \<Rightarrow> str"
  he_sha :: "str \<Rightarrow> str"
  he_tasks :: task_table
  he_host :: host
  he_privacy :: privacy_config
  he_route :: route_io
  he_local :: "((str \<times> int) \<times> (int \<times> int)) list"
  he_task :: task_io
  he_posts :: "notification \<Rightarrow> int option"
  he_prune_now :: time
  he_prune_clk :: "target \<Rightarrow> time"
  he_prune_ev_ok :: bool
  he_prune_del_ok :: "target \<Rightarrow> bool"
  he_sb_reindex :: db_handler
  he_job_agent :: db_handler
  he_lead_engine :: db_handler

definition handle_noop :: "handler_env \<Rightarrow> db_handler" where
  "handle_noop env payload d = (Inr payload, d)"

text \<open>\<open>dict(v)\<close> of a mapping or of a list of pairs; keys that are no text are left out, since
  nothing reads them, and other elements raise.\<close>

fun dict_of_pairs :: "pyv list \<Rightarrow> pydict \<Rightarrow> exn + pydict" where
  "dict_of_pairs [] acc = Inr acc"
| "dict_of_pairs (VList [VStr k, v] # xs) acc = dict_of_pairs xs (dput acc k v)"
| "dict_of_pairs (VList [VList ys, v] # xs) acc = Inl (OtherExn ''TypeError'' (''unhashable type: '' @ quoted ''list''))"
| "dict_of_pairs (VList [VDict ys, v] # xs) acc = Inl (OtherExn ''TypeError'' (''unhashable type: '' @ quoted ''dict''))"
| "dict_of_pairs (VList [k, v] # xs) acc = dict_of_pairs xs acc"
| "dict_of_pairs (VStr [a, b] # xs) acc = dict_of_pairs xs (dput acc [a] (VStr [b]))"
| "dict_of_pairs (VDict [(a, u), (b, w)] # xs) acc = dict_of_pairs xs (dput acc a (VStr b))"
| "dict_of_pairs (VList ys # xs) acc = Inl (OtherExn ''ValueError'' ''dictionary update sequence element has the wrong length'')"
| "dict_of_pairs (VStr ys # xs) acc = Inl (OtherExn ''ValueError'' ''dictionary update sequence element has the wrong length'')"
| "dict_of_pairs (VDict ys # xs) acc = Inl (OtherExn ''ValueError'' ''dictionary update sequence element has the wrong length'')"
| "dict_of_pairs (x # xs) acc = Inl (OtherExn ''TypeError'' ''cannot convert dictionary update sequence element to a sequence'')"

definition py_dict :: "pyv \<Rightarrow> exn + pydict" where
  "py_dict v = (case v of
      VDict d \<Rightarrow> Inr d
    | VList xs \<Rightarrow> dict_of_pairs xs []
    | VStr s \<Rightarrow> dict_of_pairs (map (\<lambda>c. VStr [c]) s) []
    | _ \<Rightarrow> Inl (OtherExn ''TypeError'' ''object is not iterable''))"

definition ai_label :: "handler_env \<Rightarrow> pydict \<Rightarrow> exn + privacy_label" where
  "ai_label env payload =
     (let raw = str_of (he_shows env) (dget_or payload ''privacy_label'' (VStr (privacy_label_value INTERNAL))) in
      case privacy_label_of (py_lower raw) of
        Some l \<Rightarrow> Inr l
      | None \<Rightarrow> Inl (CloudExn (CloudOSError VALIDATION_ERROR ''invalid privacy_label'' [(''privacy_label'', VStr raw)])))"

definition ai_request :: "handler_env \<Rightarrow> pydict \<Rightarrow> exn + route_request" where
  "ai_request env payload =
     (case dget payload ''prompt'' of
        VStr prompt \<Rightarrow>
          if py_strip prompt = [] then Inl (bad_field (''ai.generate requires a non-empty '' @ quoted ''prompt'' @ '' string'') ''prompt'')
          else (case ai_label env payload of
              Inl e \<Rightarrow> Inl e
            | Inr label \<Rightarrow> (case py_int_v (dget_or payload ''max_tokens'' (VInt 1024)) of
                None \<Rightarrow> Inl (bad_field ''max_tokens must be an integer'' ''max_tokens'')
              | Some mt \<Rightarrow> (case py_dict (por (dget payload ''meta'') (VDict [])) of
                  Inl e \<Rightarrow> Inl e
                | Inr meta \<Rightarrow> Inr \<lparr>rq_prompt = prompt, rq_task = str_of (he_shows env) (dget_or payload ''task'' (VStr ''general'')),
                     rq_label = label, rq_max_tokens = mt, rq_model_hint = dget payload ''model_hint'', rq_meta = meta\<rparr>)))
      | _ \<Rightarrow> Inl (bad_field (''ai.generate requires a non-empty '' @ quoted ''prompt'' @ '' string'') ''prompt''))"

definition ai_result :: "route_result \<Rightarrow> exn + pydict" where
  "ai_result r =
     (if rr_ok r then Inr (to_dict_result r)
      else Inl (CloudExn (CloudOSError
             (case rr_error_code r of Some c \<Rightarrow> c | None \<Rightarrow> INTERNAL_ERROR)
             (case rr_error r of Some m \<Rightarrow> (if m = [] then ''router returned not-ok'' else m) | None \<Rightarrow> ''router returned not-ok'')
             [(''level'', vopt VInt (rr_level r)), (''model'', vopt VStr (rr_model r))])))"

definition handle_ai_generate :: "handler_env \<Rightarrow> db_handler" where
  "handle_ai_generate env payload d =
     (case ai_request env payload of
        Inl e \<Rightarrow> (Inl e, d)
      | Inr req \<Rightarrow>
          (case route (he_sha env) (he_tasks env) (he_host env) (he_settings env) (he_privacy env) (he_route env) req
                  \<lparr>r_db = d, r_local = he_local env\<rparr> of
             (Inl e, rs) \<Rightarrow> (Inl (CloudExn e), r_db rs)
           | (Inr r, rs) \<Rightarrow> (ai_result r, r_db rs)))"

definition report_dict :: "report \<Rightarrow> pydict" where
  "report_dict tallies = map (\<lambda>(t, ta). (target_name t,
     VDict [(''selected'', VInt (int (ta_selected ta))), (''deleted'', VInt (int (ta_deleted ta))),
            (''failures'', VInt (int (ta_failures ta)))])) tallies"

definition handle_retention_prune :: "handler_env \<Rightarrow> db_handler" where
  "handle_retention_prune env payload d =
     (case prune (he_prune_now env) (he_prune_clk env) (he_settings env) (he_prune_ev_ok env) (he_prune_del_ok env)
             (case dget payload ''dry_run'' of VBool b \<Rightarrow> Some b | _ \<Rightarrow> None) d of
        (tallies, d') \<Rightarrow> (Inr (report_dict tallies), d'))"

definition run_task :: "handler_env \<Rightarrow> db_handler" where
  "run_task env payload d = (fst (handle_task_run (he_host env) (he_task env) payload), d)"

definition flush_notes :: "handler_env \<Rightarrow> db_handler" where
  "flush_notes env payload d = handle_notify_flush (he_settings env) (he_posts env) payload d"

definition HANDLERS :: "(str \<times> (handler_env \<Rightarrow> db_handler)) list" where
  "HANDLERS = [(''noop'', handle_noop), (''task.run'', run_task), (''ai.generate'', handle_ai_generate),
     (''sb.reindex'', he_sb_reindex), (''retention.prune'', handle_retention_prune), (''notify.flush'', flush_notes),
     (''job.agent.run'', he_job_agent), (''lead.engine.cycle'', he_lead_engine)]"

definition py_repr :: "str \<Rightarrow> str" where
  "py_repr s =
     (let q = (if CHR 0x27 \<in> set s \<and> CHR 0x22 \<notin> set s then CHR 0x22 else CHR 0x27);
          esc = (\<lambda>c. if c = q \<or> c = CHR 0x5C then [CHR 0x5C, c]
                     else if c = CHR 0x0A then [CHR 0x5C, CHR ''n''] else if c = CHR 0x0D then [CHR 0x5C, CHR ''r'']
                     else if c = CHR 0x09 then [CHR 0x5C, CHR ''t'']
                     else if (of_char c :: nat) < 32 \<or> (of_char c :: nat) \<in> {127, 160, 173}
                     then [CHR 0x5C, CHR ''x'', hex_char (of_char c div 16), hex_char (of_char c mod 16)] else [c])
      in [q] @ concat (map esc s) @ [q])"

definition job_payload :: "job \<Rightarrow> exn + pydict" where
  "job_payload j =
     (let bad = (\<lambda>m. Inl (CloudExn (CloudOSError VALIDATION_ERROR m [(''job_type'', VStr (j_type j))])));
          loaded = (case j_payload j of
              VStr s \<Rightarrow> (if py_strip s = [] then Some (VDict []) else json_loads s)
            | v \<Rightarrow> Some v)
      in case loaded of
           None \<Rightarrow> bad ''payload is not valid JSON''
         | Some VNone \<Rightarrow> Inr []
         | Some (VDict p) \<Rightarrow> Inr p
         | Some v \<Rightarrow> bad ''payload must be a JSON object'')"

definition unknown_type :: "str \<Rightarrow> exn" where
  "unknown_type ty = CloudExn (CloudOSError VALIDATION_ERROR (''unknown job type: '' @ py_repr ty)
     [(''job_type'', VStr ty), (''known_types'', VList (map VStr (sort (map fst HANDLERS))))])"

definition dispatch :: "handler_env \<Rightarrow> job \<Rightarrow> db \<Rightarrow> (exn + pydict) \<times> db" where
  "dispatch env j d =
     (case map_of HANDLERS (j_type j) of
        None \<Rightarrow> (Inl (unknown_type (j_type j)), d)
      | Some handler \<Rightarrow> (case job_payload j of Inl e \<Rightarrow> (Inl e, d) | Inr payload \<Rightarrow> handler env payload d))"

subsection \<open>A private prompt as a job\<close>

lemma record_run_jobs [simp]: "d_jobs (r_db (record_run sha s io req v st e r rs)) = d_jobs (r_db rs)"
  by (simp add: record_run_def)

lemma private_gate_code:
  "rq_label req \<notin> {PUBLIC, INTERNAL} \<Longrightarrow>
     \<exists>e. privacy_gate cfg req strict = Some e \<and> ce_code e = PRIVACY_BLOCKED"
  by (cases "rq_label req") (simp_all add: privacy_gate_def gate_def HARD_BLOCKED_def Let_def)

lemma sel_host:
  "he_shows (env\<lparr>he_host := h\<rparr>) = he_shows env"
  by simp

lemma private_dispatch:
  assumes "j_type j = ''ai.generate''" and "job_payload j = Inr p" and "ai_request env p = Inr req"
    and "rq_label req \<notin> {PUBLIC, INTERNAL}" and "\<not> paid_requested req"
    and "map_of (he_tasks env) (rq_task req) = None" and "enabled_for (he_settings env) req = Inr names" and "names \<noteq> []"
  shows "\<exists>e d1. dispatch env j d = (Inl (CloudExn e), d1) \<and> ce_code e = PRIVACY_BLOCKED \<and> d_jobs d1 = d_jobs d
     \<and> (\<forall>h. dispatch (env\<lparr>he_host := h\<rparr>) j d = dispatch env j d)"
proof -
  obtain e where e: "privacy_gate (he_privacy env) req False = Some e" "ce_code e = PRIVACY_BLOCKED"
    using private_gate_code [OF assms(4)] by blast
  have inner: "route_inner (he_tasks env) h (he_settings env) (he_privacy env) io req rs = (Inl (CloudExn e), no_vars, rs)" for h io rs
    using assms(5-8) e by (simp add: route_inner_def)
  have hd: "map_of HANDLERS ''ai.generate'' = Some handle_ai_generate" by (simp add: HANDLERS_def)
  have "ai_request (env\<lparr>he_host := h\<rparr>) p = ai_request env p" for h
    by (simp only: ai_request_def ai_label_def handler_env.select_convs handler_env.update_convs sel_host)
  then show ?thesis
    using e(2) by (simp add: dispatch_def assms(1-3) hd handle_ai_generate_def route_def inner)
qed

text \<open>A job that asks for AI on a personal, sensitive or secret prompt is blocked: it ends
  with the code of a privacy violation and its attempts as they were, every other job is left
  alone, and what becomes of the database is the same on every machine, so no command has seen
  the prompt.\<close>

theorem private_ai_job_blocks:
  assumes "j_type j = ''ai.generate''" and "job_payload j = Inr p" and "ai_request env p = Inr req"
    and "rq_label req \<notin> {PUBLIC, INTERNAL}" and "\<not> paid_requested req"
    and "map_of (he_tasks env) (rq_task req) = None" and "enabled_for (he_settings env) req = Inr names" and "names \<noteq> []"
    and "wi_queue_ok io" and "row_of (j_id j) (d_jobs d) = Some r"
  shows "case process_one s io (dispatch env) j d of (st, d') \<Rightarrow>
       st = Some BLOCKED
     \<and> (\<exists>r'. row_of (j_id j) (d_jobs d') = Some r' \<and> j_status r' = BLOCKED \<and> j_attempts r' = j_attempts r
          \<and> j_error_code r' = Some ''PRIVACY_BLOCKED'')
     \<and> (\<forall>k. k \<noteq> j_id j \<longrightarrow> row_of k (d_jobs d') = row_of k (d_jobs d))
     \<and> (\<forall>h. process_one s io (dispatch (env\<lparr>he_host := h\<rparr>)) j d = (st, d'))"
proof -
  obtain e d1 where x: "dispatch env j d = (Inl (CloudExn e), d1)" "ce_code e = PRIVACY_BLOCKED" "d_jobs d1 = d_jobs d"
      "\<And>h. dispatch (env\<lparr>he_host := h\<rparr>) j d = dispatch env j d"
    using private_dispatch [OF assms(1-8), of d] by blast
  have c: "ce_code e \<in> set FAIL_CLOSED_CODES" by (simp add: x(2) FAIL_CLOSED_CODES_def)
  have same: "process_one s io (dispatch (env\<lparr>he_host := h\<rparr>)) j d = process_one s io (dispatch env) j d" for h
    by (simp only: process_one_def x(4))
  have p: "process_one s io (dispatch env) j d = fail_closed s io j e d1"
    using c by (simp add: process_one_def x(1))
  have "outcome_of s (Inl (CloudExn e)) = Some (Stop (ce_code e) (ce_message e))" using c by simp
  from process_one_jobs [where dispatch = "dispatch env", OF x(1) assms(9) this]
  have "d_jobs (snd (process_one s io (dispatch env) j d))
      = with_id (j_id j) (outcome_row (wi_now io) (Stop (ce_code e) (ce_message e)) j) (d_jobs d)"
    by (simp only: settle_is_row x(3) outcome_fits.simps if_True)
  then show ?thesis
    using assms(9,10) by (simp add: same row_of_with_id_same row_of_with_id_other x(2) block_row_def p fail_closed_def Let_def
        split: prod.splits)
qed

definition demo_env :: handler_env where
  "demo_env = \<lparr>he_settings = demo_cfg, he_shows = (\<lambda>v. []), he_sha = id, he_tasks = DETERMINISTIC_TASKS id, he_host = demo_host None,
     he_privacy = fail_closed_config, he_route = demo_rio, he_local = [], he_task = demo_task_io, he_posts = (\<lambda>n. None),
     he_prune_now = 0, he_prune_clk = (\<lambda>t. 0), he_prune_ev_ok = True, he_prune_del_ok = (\<lambda>t. True),
     he_sb_reindex = (\<lambda>p d. (Inr [], d)), he_job_agent = (\<lambda>p d. (Inr [], d)), he_lead_engine = (\<lambda>p d. (Inr [], d))\<rparr>"

definition demo_ai_job :: job where
  "demo_ai_job = demo_job\<lparr>j_type := ''ai.generate'',
     j_payload := VDict [(''prompt'', VStr ''my diary''), (''privacy_label'', VStr ''Personal'')]\<rparr>"

theorem private_ai_job_blocks_witness:
  "fst (process_one demo_settings demo_io (dispatch demo_env) demo_ai_job demo_db) = Some BLOCKED"
proof -
  let ?p = "[(''prompt'', VStr ''my diary''), (''privacy_label'', VStr ''Personal'')]"
  let ?req = "\<lparr>rq_prompt = ''my diary'', rq_task = ''general'', rq_label = PERSONAL, rq_max_tokens = 1024,
     rq_model_hint = VNone, rq_meta = []\<rparr>"
  have j: "j_type demo_ai_job = ''ai.generate''" "job_payload demo_ai_job = Inr ?p" "j_id demo_ai_job = j_id demo_job"
    by (simp_all add: demo_ai_job_def job_payload_def)
  have r: "ai_request demo_env ?p = Inr ?req" by code_simp
  have q: "rq_label ?req \<notin> {PUBLIC, INTERNAL}" "\<not> paid_requested ?req"
    "map_of (he_tasks demo_env) (rq_task ?req) = None" "wi_queue_ok demo_io"
    by (simp_all add: paid_requested_def dget_def por_def demo_env_def DETERMINISTIC_TASKS_def demo_io_def)
  have n: "enabled_for (he_settings demo_env) ?req = Inr [''claude'', ''codex'', ''gemini'']" "[''claude'', ''codex'', ''gemini''] \<noteq> []"
    by code_simp+
  have row: "row_of (j_id demo_ai_job) (d_jobs demo_db) = Some demo_job" unfolding j(3) by (rule demo_row)
  from private_ai_job_blocks [OF j(1,2) r q(1-3) n q(4) row, where s = demo_settings] show ?thesis
    by (auto split: prod.splits)
qed

text \<open>A job that no handler can take, by its type or its payload, leaves everything but its
  own row alone: it is put back with one attempt more while attempts remain and ends failed with
  the last, and it never counts as blocked or done (for a job of at most 31 attempts, whose delays are intervals).\<close>

theorem undispatchable_job_retries:
  assumes "map_of HANDLERS (j_type j) = None \<or> isl (job_payload j)" and "wi_queue_ok io" and few: "fail_max j \<le> 31"
  shows "case process_one s io (dispatch env) j d of (st, d') \<Rightarrow>
       st = Some (if fail_attempts j < fail_max j then QUEUED else FAILED)
     \<and> d' = d\<lparr>d_jobs := d_jobs d'\<rparr>
     \<and> (\<forall>k. k \<noteq> j_id j \<longrightarrow> row_of k (d_jobs d') = row_of k (d_jobs d))
     \<and> (\<forall>r. row_of (j_id j) (d_jobs d) = Some r \<longrightarrow> (\<exists>r'. row_of (j_id j) (d_jobs d') = Some r' \<and> Some (j_status r') = st
          \<and> j_attempts r' = fail_attempts j \<and> j_error_code r' = Some ''VALIDATION_ERROR''))"
proof -
  have "\<exists>e. dispatch env j d = (Inl (CloudExn e), d) \<and> ce_code e = VALIDATION_ERROR"
    using assms(1)
    by (auto simp: dispatch_def unknown_type_def job_payload_def Let_def isl_def split: option.splits pyv.splits if_splits)
  then obtain e where x: "dispatch env j d = (Inl (CloudExn e), d)" "ce_code e = VALIDATION_ERROR" by blast
  then have c: "ce_code e \<notin> set FAIL_CLOSED_CODES" "ce_code e \<notin> set DEFER_CODES"
    by (simp_all add: FAIL_CLOSED_CODES_def DEFER_CODES_def)
  have p: "process_one s io (dispatch env) j d = retry_or_fail io j (ce_code e) (ce_message e) d"
    using c by (simp add: process_one_def x(1))
  have "outcome_of s (Inl (CloudExn e)) = Some (Retry (ce_code e) (ce_message e))" using c by simp
  from process_one_jobs [where dispatch = "dispatch env", OF x(1) assms(2) this]
  have jobs: "d_jobs (snd (process_one s io (dispatch env) j d))
      = with_id (j_id j) (outcome_row (wi_now io) (Retry (ce_code e) (ce_message e)) j) (d_jobs d)"
    using retry_fits_small [OF few] by (simp only: settle_is_row outcome_fits.simps if_True)
  have st: "fst (process_one s io (dispatch env) j d) = Some (if fail_attempts j < fail_max j then QUEUED else FAILED)"
    "\<exists>t. snd (process_one s io (dispatch env) j d) = d\<lparr>d_jobs := t\<rparr>"
    using assms(2) fst_fail [OF retry_fits_small [OF few]] by (auto simp: p retry_or_fail_def split: prod.splits) (metis fst_conv)+
  then obtain t where t: "snd (process_one s io (dispatch env) j d) = d\<lparr>d_jobs := t\<rparr>" by blast
  obtain st' d' where pr: "process_one s io (dispatch env) j d = (st', d')" by (rule prod.exhaust)
  show ?thesis
    using jobs st(1) t unfolding pr by (auto simp: row_of_with_id_same row_of_with_id_other x(2) retry_row_def fail_row_def)
qed

theorem undispatchable_job_retries_witness:
  "fst (process_one demo_settings demo_io (dispatch demo_env) (demo_job\<lparr>j_type := ''mystery''\<rparr>) demo_db) = Some QUEUED"
proof -
  let ?j = "demo_job\<lparr>j_type := ''mystery''\<rparr>"
  have h: "map_of HANDLERS (j_type ?j) = None \<or> isl (job_payload ?j)" by (simp add: HANDLERS_def)
  have q: "wi_queue_ok demo_io" by (simp add: demo_io_def)
  have "fail_attempts ?j < fail_max ?j" "fail_max ?j \<le> 31" by code_simp+
  with undispatchable_job_retries [OF h q, where s = demo_settings and env = demo_env and d = demo_db] show ?thesis by (auto split: prod.splits)
qed

end
