(* ===== verification/ConvStatus.thy ===== *)
theory ConvStatus
  imports CloudPrelude
begin

text \<open>
  \<open>src/cloudos/conversations/status.py\<close>: the one status a company has, the transitions it
  may take and where a classified reply points. The labels are those of
  \<open>conversations/classify.py\<close>.
\<close>

datatype cstatus =
    Discovered | Ready | Emailed | Replied | Interested | Qualified | Meeting_requested | Proposal_needed
  | Proposal_sent | Negotiating | Won | Lost | Not_now | Do_not_contact | Needs_review

definition STATUSES :: "cstatus list" where
  "STATUSES = [Discovered, Ready, Emailed, Replied, Interested, Qualified, Meeting_requested, Proposal_needed,
     Proposal_sent, Negotiating, Won, Lost, Not_now, Do_not_contact, Needs_review]"

fun cstatus_value :: "cstatus \<Rightarrow> str" where
  "cstatus_value Discovered = ''discovered''"
| "cstatus_value Ready = ''ready''"
| "cstatus_value Emailed = ''emailed''"
| "cstatus_value Replied = ''replied''"
| "cstatus_value Interested = ''interested''"
| "cstatus_value Qualified = ''qualified''"
| "cstatus_value Meeting_requested = ''meeting_requested''"
| "cstatus_value Proposal_needed = ''proposal_needed''"
| "cstatus_value Proposal_sent = ''proposal_sent''"
| "cstatus_value Negotiating = ''negotiating''"
| "cstatus_value Won = ''won''"
| "cstatus_value Lost = ''lost''"
| "cstatus_value Not_now = ''not_now''"
| "cstatus_value Do_not_contact = ''do_not_contact''"
| "cstatus_value Needs_review = ''needs_review''"

definition cstatus_of :: "str \<Rightarrow> cstatus option" where
  "cstatus_of s = find (\<lambda>x. cstatus_value x = s) STATUSES"

definition PRE_REPLY :: "cstatus list" where "PRE_REPLY = [Discovered, Ready, Emailed]"

fun RANK :: "cstatus \<Rightarrow> nat option" where
  "RANK Discovered = Some 0"
| "RANK Ready = Some 1"
| "RANK Emailed = Some 2"
| "RANK Replied = Some 3"
| "RANK Interested = Some 4"
| "RANK Qualified = Some 5"
| "RANK Meeting_requested = Some 6"
| "RANK Proposal_needed = Some 7"
| "RANK Proposal_sent = Some 8"
| "RANK Negotiating = Some 9"
| "RANK Won = Some 10"
| "RANK s = None"

fun ALLOWED :: "cstatus \<Rightarrow> cstatus list" where
  "ALLOWED Discovered = [Ready, Emailed, Do_not_contact, Needs_review, Lost]"
| "ALLOWED Ready = [Emailed, Do_not_contact, Needs_review, Lost]"
| "ALLOWED Emailed = [Replied, Interested, Qualified, Meeting_requested, Proposal_needed, Not_now, Lost,
     Do_not_contact, Needs_review]"
| "ALLOWED Replied = [Interested, Qualified, Meeting_requested, Proposal_needed, Not_now, Lost,
     Do_not_contact, Needs_review, Negotiating]"
| "ALLOWED Interested = [Qualified, Meeting_requested, Proposal_needed, Negotiating, Not_now, Lost,
     Do_not_contact, Needs_review]"
| "ALLOWED Qualified = [Meeting_requested, Proposal_needed, Negotiating, Not_now, Lost, Do_not_contact, Needs_review]"
| "ALLOWED Meeting_requested = [Qualified, Proposal_needed, Negotiating, Not_now, Lost, Do_not_contact, Needs_review]"
| "ALLOWED Proposal_needed = [Proposal_sent, Negotiating, Not_now, Lost, Do_not_contact, Needs_review]"
| "ALLOWED Proposal_sent = [Negotiating, Won, Lost, Not_now, Do_not_contact, Needs_review]"
| "ALLOWED Negotiating = [Proposal_needed, Proposal_sent, Won, Lost, Not_now, Do_not_contact, Needs_review]"
| "ALLOWED Not_now = [Replied, Interested, Qualified, Meeting_requested, Proposal_needed, Negotiating, Lost,
     Do_not_contact, Needs_review]"
| "ALLOWED Lost = [Replied, Interested, Meeting_requested, Proposal_needed, Do_not_contact, Needs_review]"
| "ALLOWED Won = [Do_not_contact, Needs_review]"
| "ALLOWED Do_not_contact = []"
| "ALLOWED Needs_review = filter (\<lambda>s. s \<noteq> Needs_review) STATUSES"

datatype clabel =
    L_INTERESTED | L_PRICE_QUESTION | L_MORE_INFORMATION | L_MEETING_REQUEST | L_READY_TO_BUY | L_OBJECTION
  | L_NOT_NOW | L_REFERRAL | L_WRONG_PERSON | L_NOT_INTERESTED | L_UNSUBSCRIBE | L_AUTO_REPLY
  | L_DELIVERY_FAILURE | L_OTHER | L_NEEDS_REVIEW

fun TARGET :: "clabel \<Rightarrow> cstatus option" where
  "TARGET L_INTERESTED = Some Interested"
| "TARGET L_PRICE_QUESTION = Some Interested"
| "TARGET L_MORE_INFORMATION = Some Interested"
| "TARGET L_MEETING_REQUEST = Some Meeting_requested"
| "TARGET L_READY_TO_BUY = Some Proposal_needed"
| "TARGET L_OBJECTION = Some Negotiating"
| "TARGET L_NOT_NOW = Some Not_now"
| "TARGET L_REFERRAL = Some Replied"
| "TARGET L_WRONG_PERSON = Some Replied"
| "TARGET L_NOT_INTERESTED = Some Lost"
| "TARGET L_UNSUBSCRIBE = Some Do_not_contact"
| "TARGET L_AUTO_REPLY = None"
| "TARGET L_DELIVERY_FAILURE = None"
| "TARGET L_OTHER = Some Replied"
| "TARGET L_NEEDS_REVIEW = Some Needs_review"

subsection \<open>Operations\<close>

datatype transition_error = UnknownStatus str | NotAllowed cstatus cstatus

text \<open>\<open>check\<close>: the new status is text from the caller.\<close>

definition check :: "cstatus \<Rightarrow> str \<Rightarrow> bool \<Rightarrow> transition_error + cstatus" where
  "check frm to owner_override =
     (case cstatus_of to of
        None \<Rightarrow> Inl (UnknownStatus to)
      | Some t \<Rightarrow>
          if frm = t then Inr t else if owner_override then Inr t
          else if t \<notin> set (ALLOWED frm) then Inl (NotAllowed frm t) else Inr t)"

definition adjusted_target :: "clabel \<Rightarrow> cstatus \<Rightarrow> cstatus \<Rightarrow> cstatus" where
  "adjusted_target label current tgt =
     (let t1 = (if label = L_OBJECTION \<and> current \<in> set (Replied # PRE_REPLY)
                then (if current \<in> set PRE_REPLY then Replied else current) else tgt)
      in if label = L_READY_TO_BUY \<and> current \<in> {Proposal_sent, Negotiating} then Negotiating else t1)"

definition backwards :: "cstatus \<Rightarrow> cstatus \<Rightarrow> bool" where
  "backwards t current = (case (RANK t, RANK current) of (Some a, Some b) \<Rightarrow> a < b | _ \<Rightarrow> False)"

definition target_for :: "clabel \<Rightarrow> cstatus \<Rightarrow> cstatus" where
  "target_for label current =
     (if current = Do_not_contact then current
      else case TARGET label of
        None \<Rightarrow> current
      | Some tgt0 \<Rightarrow>
          (let tgt = adjusted_target label current tgt0 in
           if backwards tgt current then current
           else if current = Won \<and> tgt \<notin> {Do_not_contact, Needs_review} then current
           else if current = Needs_review \<and> tgt \<noteq> Do_not_contact then tgt
           else if tgt \<in> set (ALLOWED current) \<or> tgt = current then tgt else current))"

definition cold_sequence_allowed :: "cstatus \<Rightarrow> bool" where
  "cold_sequence_allowed s \<longleftrightarrow> s \<in> set PRE_REPLY"

subsection \<open>Facts\<close>

lemma cstatus_roundtrip [simp]: "cstatus_of (cstatus_value s) = Some s"
  by (cases s) (simp_all add: cstatus_of_def STATUSES_def)

lemma cstatus_of_Some: "cstatus_of t = Some s \<Longrightarrow> t = cstatus_value s"
  by (auto simp: cstatus_of_def find_Some_iff)

lemma check_value [simp]:
  "check frm (cstatus_value t) ov = (if frm = t \<or> ov \<or> t \<in> set (ALLOWED frm) then Inr t else Inl (NotAllowed frm t))"
  by (simp add: check_def)

lemma check_Inr: "check frm to ov = Inr t \<longleftrightarrow> to = cstatus_value t \<and> (frm = t \<or> ov \<or> t \<in> set (ALLOWED frm))"
  by (auto simp: check_def split: option.splits if_splits dest: cstatus_of_Some)

lemmas target_defs = target_for_def adjusted_target_def backwards_def PRE_REPLY_def STATUSES_def Let_def

lemma target_allowed: "target_for label current = current \<or> target_for label current \<in> set (ALLOWED current)"
  by (cases label; cases current) (simp_all add: target_defs)

lemma target_forward:
  "RANK current = Some b \<Longrightarrow> RANK (target_for label current) = Some a \<Longrightarrow> b \<le> a"
  by (cases label; cases current) (simp_all add: target_defs)

text \<open>Whatever a reply is taken for, the move it asks for is one the state machine accepts
  without the owner's override, it never takes a company back along the funnel, and nothing but
  an opt-out or a review takes it out of a won deal.\<close>

theorem reply_move_legal:
  "check current (cstatus_value (target_for label current)) False = Inr (target_for label current)
   \<and> (case (RANK current, RANK (target_for label current)) of (Some b, Some a) \<Rightarrow> b \<le> a | _ \<Rightarrow> True)
   \<and> (current = Won \<longrightarrow> target_for label current \<in> {Won, Do_not_contact, Needs_review})"
  using target_allowed [of label current] target_forward [of current _ label]
  by (cases label) (auto simp: target_defs split: option.splits)

theorem reply_move_legal_witness:
  "target_for L_NOT_INTERESTED Won \<in> {Won, Do_not_contact, Needs_review}"
  using reply_move_legal [of Won L_NOT_INTERESTED] by blast

text \<open>Replies follow one another.\<close>

inductive reply_steps :: "cstatus \<Rightarrow> clabel list \<Rightarrow> cstatus \<Rightarrow> bool" where
  done_all: "reply_steps s [] s"
| one_more: "reply_steps (target_for l s) ls t \<Longrightarrow> reply_steps s (l # ls) t"

code_pred (modes: i \<Rightarrow> i \<Rightarrow> o \<Rightarrow> bool, i \<Rightarrow> i \<Rightarrow> i \<Rightarrow> bool) reply_steps .

inductive_cases reply_steps_NilE [elim!]: "reply_steps s [] t"
inductive_cases reply_steps_ConsE [elim!]: "reply_steps s (l # ls) t"

lemma reply_steps_fold: "reply_steps s ls t \<longleftrightarrow> t = fold target_for ls s"
  by (induction ls arbitrary: s) (auto intro: reply_steps.intros)

lemma target_dnc [simp]: "target_for l Do_not_contact = Do_not_contact"
  by (simp add: target_for_def)

lemma target_unsubscribe [simp]: "target_for L_UNSUBSCRIBE s = Do_not_contact"
  by (cases s) (simp_all add: target_defs)

lemma target_pre_reply: "target_for l s \<in> set PRE_REPLY \<Longrightarrow> target_for l s = s"
  by (cases l; cases s) (simp_all add: target_defs)

lemma steps_dnc: "reply_steps s ls t \<Longrightarrow> s = Do_not_contact \<Longrightarrow> t = Do_not_contact"
  by (induction rule: reply_steps.induct) simp_all

lemma steps_pre_reply: "reply_steps s ls t \<Longrightarrow> t \<in> set PRE_REPLY \<Longrightarrow> t = s"
  by (induction rule: reply_steps.induct) (metis target_pre_reply)+

lemma steps_unsubscribe: "reply_steps s ls t \<Longrightarrow> L_UNSUBSCRIBE \<in> set ls \<Longrightarrow> t = Do_not_contact"
  by (induction rule: reply_steps.induct) (auto dest: steps_dnc)

text \<open>However many replies come in, in whatever order: one opt-out among them leaves the
  company at do-not-contact for good, and a company is at a status that allows the cold
  sequence only if it never left it.\<close>

theorem replies_keep_promises:
  assumes "reply_steps s ls t"
  shows "(L_UNSUBSCRIBE \<in> set ls \<or> s = Do_not_contact \<longrightarrow> t = Do_not_contact)
     \<and> (cold_sequence_allowed t \<longrightarrow> t = s)"
  using assms steps_unsubscribe steps_dnc steps_pre_reply by (auto simp: cold_sequence_allowed_def)

theorem replies_keep_promises_witness:
  "reply_steps Emailed [L_INTERESTED, L_UNSUBSCRIBE, L_READY_TO_BUY] Do_not_contact"
proof -
  let ?ls = "[L_INTERESTED, L_UNSUBSCRIBE, L_READY_TO_BUY]"
  have "reply_steps Emailed ?ls (fold target_for ?ls Emailed)" by (simp only: reply_steps_fold)
  from replies_keep_promises [OF this] this show ?thesis by (metis list.set_intros(1,2))
qed

end
