(* ===== verification/ConvText.thy ===== *)
theory ConvText
  imports Regex
begin

text \<open>
  \<open>src/cloudos/conversations/text.py\<close>: making values storable, addresses, message ids, and
  cutting the quoted thread out of a reply. What \<open>email.utils.parseaddr\<close> makes of a header is
  the argument \<open>pa\<close> of \<open>addr\<close>; \<open>addrs\<close> takes that of \<open>getaddresses\<close>. No character of the
  model is a surrogate.
\<close>

definition FREEMAIL :: "str list" where
  "FREEMAIL = [''gmail.com'', ''googlemail.com'', ''yahoo.com'', ''ymail.com'', ''hotmail.com'', ''outlook.com'',
     ''live.com'', ''msn.com'', ''aol.com'', ''icloud.com'', ''me.com'', ''mac.com'', ''comcast.net'', ''att.net'',
     ''sbcglobal.net'', ''bellsouth.net'', ''verizon.net'', ''cox.net'', ''charter.net'', ''protonmail.com'', ''proton.me'',
     ''gmx.com'', ''mail.com'', ''zoho.com'', ''yandex.com'', ''earthlink.net'', ''frontier.com'', ''windstream.net'']"

definition EMAIL_RE :: rx where
  "EMAIL_RE = rx plain_flags (''[A-Za-z0-9._%+'' @ [CHR 0x27] @ ''-]+@[A-Za-z0-9.-]+~.[A-Za-z]{2,}'')"

subsection \<open>Storable values\<close>

definition bad_char :: "char \<Rightarrow> bool" where
  "bad_char c = (let n = of_char c :: nat in n \<le> 8 \<or> n = 11 \<or> n = 12 \<or> (14 \<le> n \<and> n \<le> 31) \<or> n = 127)"

definition clean_str :: "str \<Rightarrow> str" where
  "clean_str s = filter (\<lambda>c. \<not> bad_char c) s"

fun clean :: "pyv \<Rightarrow> pyv" where
  "clean (VStr s) = VStr (clean_str s)"
| "clean (VList xs) = VList (map clean xs)"
| "clean (VDict d) = VDict (fold (\<lambda>(k, v) acc. dput acc (clean_str k) v) (map (\<lambda>(k, v). (k, clean v)) d) [])"
| "clean v = v"

subsection \<open>Addresses and message ids\<close>

definition addr :: "(str \<Rightarrow> str) \<Rightarrow> str \<Rightarrow> str" where
  "addr pa value = py_lower (py_strip (pa value))"

definition addrs :: "(str \<Rightarrow> str list) \<Rightarrow> str \<Rightarrow> str list" where
  "addrs ga value = map (\<lambda>a. py_lower (py_strip a)) (filter (\<lambda>a. a \<noteq> []) (ga value))"

definition after_last :: "char \<Rightarrow> str \<Rightarrow> str" where
  "after_last c s = rev (takeWhile (\<lambda>x. x \<noteq> c) (rev s))"

definition domain_of :: "str \<Rightarrow> str" where
  "domain_of email = (if CHR ''@'' \<in> set email then py_lower (after_last (CHR ''@'') email) else [])"

definition business_domain :: "str \<Rightarrow> str" where
  "business_domain email = (let d = domain_of email in if d = [] \<or> d \<in> set FREEMAIL then [] else d)"

definition BRACKETED :: rx where "BRACKETED = rx plain_flags ''<([^>]+)>''"

definition msgid :: "str option \<Rightarrow> str" where
  "msgid value =
     (let v = py_strip (case value of Some s \<Rightarrow> s | None \<Rightarrow> []) in
      py_lower (py_strip (case rx_search BRACKETED v of
         Some m \<Rightarrow> (case rm_group m 1 of Some g \<Rightarrow> g | None \<Rightarrow> []) | None \<Rightarrow> v)))"

definition group1 :: "rmatch \<Rightarrow> str" where
  "group1 m = (case rm_group m 1 of Some g \<Rightarrow> g | None \<Rightarrow> [])"

definition msgids :: "str option \<Rightarrow> str list" where
  "msgids value =
     (let s = (case value of Some s \<Rightarrow> s | None \<Rightarrow> []);
          found = map (\<lambda>m. py_lower (py_strip (group1 m))) (rx_finditer BRACKETED s)
      in if found \<noteq> [] then found else if s \<noteq> [] \<and> py_strip s \<noteq> [] then [msgid value] else [])"

subsection \<open>Quoted history\<close>

definition QUOTE_STARTS :: "rx list" where
  "QUOTE_STARTS = [
     rx flag_IS ''^~s*On .{0,300}?wrote:~s*$'',
     rx flag_I ''^~s*-{2,}~s*Original Message~s*-{2,}'',
     rx flag_I ''^~s*-{2,}~s*Forwarded message~s*-{2,}'',
     rx plain_flags ''^~s*_{8,}~s*$'',
     rx flag_I ''^~s*From:~s.+'',
     rx flag_I ''^~s*Sent from my (iPhone|iPad|Android|Galaxy|mobile)'',
     rx flag_I ''^~s*Get Outlook for'']"

definition WROTE_END :: rx where "WROTE_END = rx flag_I ''wrote:~s*$''"
definition ON_LINE :: rx where "ON_LINE = rx flag_I ''^~s*On~s.{6,300}''"

definition quote_begins :: "str \<Rightarrow> str option \<Rightarrow> bool" where
  "quote_begins line next =
     (if startswith (lstrip_by py_isspace line) ''>'' then True
      else if rx_match ON_LINE line \<noteq> None
              \<and> (rx_found WROTE_END line
                 \<or> rx_found WROTE_END (line @ '' '' @ (case next of Some n \<Rightarrow> n | None \<Rightarrow> []))) then True
      else \<exists>p\<in>set QUOTE_STARTS. rx_match p line \<noteq> None)"

fun own_lines :: "str list \<Rightarrow> str list" where
  "own_lines [] = []"
| "own_lines (line # rest) =
     (if quote_begins line (case rest of n # _ \<Rightarrow> Some n | [] \<Rightarrow> None) then [] else line # own_lines rest)"

definition unix_lines :: "str \<Rightarrow> str" where
  "unix_lines body = py_replace [CHR 0x0D] [CHR 0x0A] (py_replace [CHR 0x0D, CHR 0x0A] [CHR 0x0A] body)"

definition strip_quoted :: "str \<Rightarrow> str" where
  "strip_quoted body =
     (let out = own_lines (split_on (CHR 0x0A) (unix_lines body)) in
      py_strip (rx_sub (rx plain_flags ''~n{3,}'') (\<lambda>m. [CHR 0x0A, CHR 0x0A]) (py_join [CHR 0x0A] out)))"

definition one_line :: "str \<Rightarrow> nat \<Rightarrow> str" where
  "one_line s limit =
     (let t = py_strip (rx_sub (rx plain_flags ''~s+'') (\<lambda>m. '' '') s) in
      if length t \<le> limit then t else rstrip_by py_isspace (take (limit - 1) t) @ [CHR 0x85])"

subsection \<open>Cleaning\<close>

text \<open>What the database takes: no control character in any text, and distinct keys.\<close>

fun storable :: "pyv \<Rightarrow> bool" where
  "storable (VStr s) = (\<forall>c\<in>set s. \<not> bad_char c)"
| "storable (VList xs) = list_all storable xs"
| "storable (VDict d) = (list_all (\<lambda>(k, v). (\<forall>c\<in>set k. \<not> bad_char c) \<and> storable v) d \<and> distinct (map fst d))"
| "storable v = True"

lemma fst_dput: "map fst (dput d k v) = (if k \<in> fst ` set d then map fst d else map fst d @ [k])"
  by (induction d k v rule: dput.induct) auto

lemma dput_new: "k \<notin> fst ` set d \<Longrightarrow> dput d k v = d @ [(k, v)]"
  by (induction d k v rule: dput.induct) auto

lemma set_dput: "set (dput d k v) \<subseteq> insert (k, v) (set d)"
  by (induction d k v rule: dput.induct) auto

definition put_clean :: "str \<times> pyv \<Rightarrow> pydict \<Rightarrow> pydict" where
  "put_clean kv acc = dput acc (clean_str (fst kv)) (snd kv)"

lemma clean_dict: "clean (VDict d) = VDict (fold put_clean (map (\<lambda>(k, v). (k, clean v)) d) [])"
proof -
  have "(\<lambda>(k, v) acc. dput acc (clean_str k) v) = put_clean" by (auto simp: fun_eq_iff put_clean_def)
  then show ?thesis by simp
qed

lemma clean_str_ok: "\<forall>c\<in>set (clean_str s). \<not> bad_char c"
  by (simp add: clean_str_def)

lemma clean_str_id: "\<forall>c\<in>set s. \<not> bad_char c \<Longrightarrow> clean_str s = s"
  by (simp add: clean_str_def)

lemma put_clean_storable:
  assumes "storable (VDict acc)" and "list_all (storable \<circ> snd) kvs"
  shows "storable (VDict (fold put_clean kvs acc))"
  using assms
proof (induction kvs arbitrary: acc)
  case (Cons kv kvs)
  have "storable (VDict (put_clean kv acc))"
    using Cons.prems clean_str_ok [of "fst kv"] set_dput [of acc "clean_str (fst kv)" "snd kv"]
    by (fastforce simp: put_clean_def fst_dput list_all_iff)
  then show ?case using Cons by simp
qed simp

lemma storable_clean: "storable (clean v)"
proof (induction v rule: clean.induct)
  case (3 d)
  have "list_all (storable \<circ> snd) (map (\<lambda>(k, v). (k, clean v)) d)"
    using 3 by (auto simp: list_all_iff)
  then show ?case unfolding clean_dict by (intro put_clean_storable) simp
qed (simp_all add: clean_str_ok list_all_iff)

lemma put_clean_id:
  assumes "distinct (map fst (acc @ kvs))" and "\<forall>kv\<in>set kvs. \<forall>c\<in>set (fst kv). \<not> bad_char c"
  shows "fold put_clean kvs acc = acc @ kvs"
  using assms
proof (induction kvs arbitrary: acc)
  case (Cons kv kvs)
  have "put_clean kv acc = acc @ [kv]"
    using Cons.prems by (auto simp: put_clean_def clean_str_id dput_new)
  then show ?case using Cons by simp
qed simp

lemma clean_storable: "storable v \<Longrightarrow> clean v = v"
proof (induction v rule: clean.induct)
  case (2 xs)
  then show ?case by (simp add: list_all_iff map_idI)
next
  case (3 d)
  then have m: "map (\<lambda>(k, v). (k, clean v)) d = d"
    by (intro map_idI) (auto simp: list_all_iff)
  have "fold put_clean d [] = [] @ d"
    using 3(2) by (intro put_clean_id) (auto simp: list_all_iff)
  then show ?case unfolding clean_dict m by simp
qed (simp_all add: clean_str_id)

text \<open>Cleaning makes any value one the database takes, and changes nothing in a value it
  already takes: no control character is left in a text or a key, however deep, and two keys
  that become the same are merged.\<close>

theorem clean_makes_storable:
  "storable (clean v) \<and> (clean v = v \<longleftrightarrow> storable v)"
  using storable_clean [of v] clean_storable by metis

subsection \<open>Message ids\<close>

lemma BRACKETED_rx: "BRACKETED = Seq (Cls False False [CChr (CHR ''<'')]) (Seq (Grp 1 (Seq (Rep (Cls True False [CChr (CHR ''>'')]) 1 None True) Eps)) (Seq (Cls False False [CChr (CHR ''>'')]) Eps))"
  by code_simp

lemma msgid_brackets_search:
  assumes "CHR ''>'' \<notin> set v" and "v \<noteq> []"
  shows "\<exists>m. rx_search BRACKETED (''<'' @ v @ ''>'') = Some m \<and> rm_group m 1 = Some v"
proof -
  let ?gt = "Seq (Cls False False [CChr (CHR ''>'')]) Eps"
  let ?st = "\<lparr>ms_pre = ''<'', ms_rest = v @ ''>'', ms_caps = []\<rparr>"
  let ?p = "in_class True False [CChr (CHR ''>'')]"
  let ?f = "\<lambda>s. ways ?gt (s\<lparr>ms_caps := (1, 1, length (ms_pre s)) # ms_caps s\<rparr>)"
  have p: "?p x \<longleftrightarrow> x \<noteq> CHR ''>''" for x by (simp add: in_class_def)
  have r: "concat (map ?f (rep (step ?p) True (length (ms_rest ?st) + 1 + 1) 1 None ?st)) = ?f (fwd v ?st)"
  proof (rule rep_until [where c = "CHR ''>''" and r = "[]"])
    show "?f s = []" if "ms_rest s \<noteq> []" "?p (hd (ms_rest s))" for s
      using that unfolding p by (cases "ms_rest s") (auto simp: step_def in_class_def)
  qed (use assms in \<open>auto simp: p Suc_le_eq\<close>)
  have eps: "ways Eps = (\<lambda>st. [st])" by (simp add: fun_eq_iff)
  have stp: "ways (Cls True False [CChr (CHR ''>'')]) = step ?p" by (simp add: fun_eq_iff)
  have "ways (Seq (Grp 1 (Seq (Rep (Cls True False [CChr (CHR ''>'')]) 1 None True) Eps)) ?gt) ?st
      = concat (map ?f (rep (step ?p) True (length (ms_rest ?st) + 1 + 1) 1 None ?st))"
    by (simp only: ways.simps(4,6,7) stp eps concat_map_singleton map_map comp_def)
       (simp only: map_ident mst.select_convs One_nat_def list.size add_0)
  also have "\<dots> = ?f (fwd v ?st)" by (rule r)
  also have "\<dots> = [\<lparr>ms_pre = CHR ''>'' # rev v @ ''<'', ms_rest = [], ms_caps = [(1, 1, length v + 1)]\<rparr>]"
    by (simp add: step_def in_class_def fwd_def)
  finally have w: "ways BRACKETED (start_at [] (''<'' @ v @ ''>'')) = [\<lparr>ms_pre = CHR ''>'' # rev v @ ''<'', ms_rest = [], ms_caps = [(1, 1, length v + 1)]\<rparr>]"
    unfolding BRACKETED_rx by (simp add: start_at_def step_def in_class_def)
  have "rx_at BRACKETED False [] (''<'' @ v @ ''>'') = Some \<lparr>ms_pre = CHR ''>'' # rev v @ ''<'', ms_rest = [], ms_caps = [(1, 1, length v + 1)]\<rparr>"
    unfolding rx_at_def w by simp
  then show ?thesis
    by (simp add: rx_search_def mk_match_def Let_def rm_group_def take_text_def)
qed

lemma ways_bracketed_none:
  assumes "\<not> startswith s ''<''"
  shows "ways BRACKETED (start_at pre s) = []"
proof -
  have "step (in_class False False [CChr (CHR ''<'')]) (start_at pre s) = []"
    using assms by (cases s) (simp_all add: step_def start_at_def in_class_def startswith_def)
  then show ?thesis unfolding BRACKETED_rx by (simp only: ways.simps(3,4) list.map concat.simps)
qed

lemma no_bracket_search:
  "CHR ''<'' \<notin> set s \<Longrightarrow> rx_search_from BRACKETED adv pre s = None"
proof (induction s arbitrary: adv pre)
  case Nil
  have "\<not> startswith [] ''<''" by (simp add: startswith_def)
  then show ?case by (simp add: rx_at_def ways_bracketed_none)
next
  case (Cons c s)
  then have "\<not> startswith (c # s) ''<''" by (auto simp: startswith_def)
  then show ?case using Cons by (simp add: rx_at_def ways_bracketed_none)
qed

lemma strip_brackets: "py_strip (''<'' @ v @ ''>'') = ''<'' @ v @ ''>''"
proof -
  have "\<not> py_isspace (CHR ''<'')" "\<not> py_isspace (CHR ''>'')" by code_simp+
  then show ?thesis by (simp add: py_strip_def strip_by_def lstrip_by_def rstrip_by_def)
qed

text \<open>The canonical form of a message id does not depend on how it was written: of an id in
  canonical form, the bracketed and the bare spelling both give it back.\<close>

theorem msgid_roundtrip:
  assumes "v \<noteq> []" and "set v \<inter> set ''<>'' = {}" and "py_strip v = v" and "py_lower v = v"
  shows "msgid (Some (''<'' @ v @ ''>'')) = v \<and> msgid (Some v) = v"
proof
  have gt: "CHR ''>'' \<notin> set v" and lt: "CHR ''<'' \<notin> set v" using assms(2) by auto
  obtain m where "rx_search BRACKETED (''<'' @ v @ ''>'') = Some m" "rm_group m 1 = Some v"
    using msgid_brackets_search [OF gt assms(1)] by blast
  then show "msgid (Some (''<'' @ v @ ''>'')) = v"
    using assms(3,4) by (simp only: msgid_def Let_def option.case strip_brackets)
  have "rx_search BRACKETED v = None" using no_bracket_search [OF lt] by (simp add: rx_search_def)
  then show "msgid (Some v) = v" using assms(3,4) by (simp add: msgid_def)
qed

theorem msgid_roundtrip_witness: "msgid (Some ''<ab@c.d>'') = ''ab@c.d''"
proof -
  have v: "''ab@c.d'' \<noteq> []" "set ''ab@c.d'' \<inter> set ''<>'' = {}" "py_strip ''ab@c.d'' = ''ab@c.d''" "py_lower ''ab@c.d'' = ''ab@c.d''"
    by code_simp+
  show ?thesis using msgid_roundtrip [OF v] by simp
qed

end
