(* ===== verification/ClassifyRules.thy ===== *)
theory ClassifyRules
  imports ConvStatus ConvText
begin

text \<open>
  The patterns of \<open>src/cloudos/conversations/classify.py\<close>. In their texts a tilde stands for the
  source's backslash and a backtick for its apostrophe. The thumbs-up and the check mark among the
  words of an affirmation are not characters of the model.
\<close>

definition apos :: "str \<Rightarrow> str" where
  "apos s = map (\<lambda>c. if c = CHR 0x60 then CHR 0x27 else c) s"

text \<open>A pattern that ignores case, and one that does not.\<close>

definition rxq :: "str \<Rightarrow> rx" where "rxq s = rx flag_I (apos s)"
definition rxc :: "str \<Rightarrow> rx" where "rxc s = rx plain_flags (apos s)"

definition MAILWORD :: str where
  "MAILWORD = ''(e-?mails?|messages?|mail|mailings?|communications?|contact|correspondence|outreach)''"

definition NEG :: str where "NEG = ''(?:~bnot|n`t|~bno longer|~bnever|~bhardly)''"
definition GAP :: str where
  "GAP = ''(?:~s+(?!but~b|though~b|however~b|yet~b|although~b|more~b)[~w`]+){0,3}?''"

subsection \<open>The rules of each label\<close>

definition UNSUBSCRIBE_RULES :: "rx list" where
  "UNSUBSCRIBE_RULES = map rxq [
     ''~bunsub(scribe)?~b'', ''~bremove (me|us|this email|this address)~b'',
     ''~bremove (my|our) ([~w-]+ ){0,2}?(email|e-mail|address|info|information|details|contact|name|data|record)s?~b'',
     ''~bdelete (me|us)~b'',
     ''~bdelete (my|our) ([~w-]+ ){0,2}?(email|e-mail|address|info|information|details|contact|name|data|record)s?~b'',
     ''~btake (me|us) off~b'',
     ''~b(stop|quit|cease) (emailing|e-mailing|contacting|sending|messaging|writing|spamming|bothering)~b'',
     ''~bstop (getting|receiving) (these|this|your|any|emails?|messages?)~b'',
     ''~b(do not|don`?t|never) (contact|email|e-mail|message|write to) (me|us)~b'',
     (''~b(do not|don`?t|never|please do not|please don`?t) send (me |us )?(any |more |further |additional |other )*'' @ MAILWORD),
     (''~bno (more|further|additional) '' @ MAILWORD @ ''~b''),
     ''~b(do not|don`?t|no longer) (wish|want) to (receive|get|hear)~b'',
     ''~bcease (all )?(communication|contact|correspondence|e-?mails?)~b'', ''~bopt(ed)?[- ]?out~b'',
     ''~bno more emails?~b'', ''~bnever (contact|email) (me|us)~b'', ''~blose (my|our) (email|address)~b'',
     ''~b(this is|stop|reported (this |you )?as|you`?re) spam(ming)?~b'', ''~bspammers?~b'',
     ''~bcease and desist~b'', ''~bleave (me|us) alone~b'',
     ''^~W*(please~s+|pls~s+|kindly~s+)?stop(~s+(it|this|now|please))?~W*$'']"

definition NOT_INTERESTED_RULES :: "rx list" where
  "NOT_INTERESTED_RULES = map rxq [
     (NEG @ GAP @ ''~s+(interested|keen|interest)~b''), ''~bno,? thanks?~b'', ''~bno thank you~b'',
     ''~bnot (a fit|for us|for me)~b'', ''~b(we`?re|we are|i`?m|i am) (all set|good|covered)~b'',
     ''~bwe`?ll pass~b'', ''~bgoing to pass~b'', ''~bno need for (this|it|that|your)~b'',
     ''~b(don`?t|do not) need (this|it|that|your|any)~b'', ''~bnot looking~b'', ''~bno interest~b'']"

definition WRONG_PERSON_RULES :: "rx list" where
  "WRONG_PERSON_RULES = map rxq [
     ''~bwrong (person|email|contact|guy|address)~b'', ''~bnot the right (person|contact)~b'',
     ''~bno longer (works?|with)~b'', ''~bdoesn`?t work here~b'', ''~b(i`?m|i am) not the (owner|right)~b'',
     ''~bnot my (department|call|decision)~b'', ''~bleft the company~b'']"

definition REFERRAL_RULES :: "rx list" where
  "REFERRAL_RULES = map rxc [
     ''(?i:~b(?:talk|speak) (?:to|with)) [A-Z][a-z]+'', ''(?i:~breach out to) [A-Z][a-z]+'',
     ''(?i:~bcontact) [A-Z][a-z]+ (?i:at)~b'',
     ''~b[A-Z][a-z]+ (?i:handles|runs|manages|is in charge of|takes care of) (?i:that|this|our|marketing|the)~b'',
     ''(?i:~b(?:email|e-mail)) [A-Z][a-z]+ (?i:at)~b'',
     ''(?i:~b(?:cc`?ing|copying|looping in|forwarding (?:this|it) to))~b'',
     ''(?i:~bthe (?:owner|person you want|best person|right person) is)~b'']"

definition READY_TO_BUY_RULES :: "rx list" where
  "READY_TO_BUY_RULES = map rxq [
     ''~blet`?s (do it|do this|go|move forward|get started|proceed)~b'', ''~bsign (me|us) up~b'',
     ''~bsend (me |us )?(the |an )?(invoice|contract|agreement|payment link|paperwork)~b'',
     ''~bhow (do|can) (i|we) (pay|sign up|get started|start)~b'',
     ''~bready to (start|go|buy|move forward|get started)~b'',
     ''~b(count (me|us) in|(we`?re|i`?m) in)(?!~s+[a-z])~b'', ''~bwhere do (i|we) (pay|sign)~b'',
     ''~btake my money~b'', ''~bgo ahead and (start|set)'',
     ''~b(proposal|quote|price|pricing|terms) (looks|sounds) good~b'', ''~bwe accept~b'',
     ''~bapproved?~b.*~bproposal~b'']"

definition MEETING_REQUEST_RULES :: "rx list" where
  "MEETING_REQUEST_RULES = map rxq [
     ''~b(call|phone|ring) me~b'', ''~bgive (me|us) a (call|ring)~b'',
     ''~bcan (you|we) (call|talk|chat|meet|hop on)~b'', ''~b(hop|jump|get) on a (call|zoom|meeting)~b'',
     ''~b(set up|schedule|book) (a |some )?(call|time|meeting|zoom|demo)~b'', ''~b(zoom|teams|google meet)~b'',
     ''~bmeet (up|with you|in person)~b'', ''~bwhat time (works|is good)~b'',
     ''~b(free|available) (on |this |next )?(mon|tues|wednes|thurs|fri|satur|sun)day~b'', ''~bshow me a demo~b'',
     ''~bcall (me )?(on|at|tomorrow|today|this|next)~b'', ''~bmy (cell|number|phone) is~b'']"

definition PRICE_QUESTION_RULES :: "rx list" where
  "PRICE_QUESTION_RULES = map rxq [
     ''~bhow much~b'', ''~bwhat (does|would|will) (it|this|that|something like this) (cost|run|be)~b'',
     ''~bwhat (do|would) you charge~b'', ''~b(your )?(pricing|prices?|rates?|fees?|costs?)~?'',
     ''~bwhat`?s the (cost|price|investment|damage)~b'', ''~b(cost|price|pricing) (on|for) (this|that|it)~b'',
     ''~bany (pricing|price|cost)~b'', ''~bsend (me |us )?(the )?(pricing|prices|rates)~b'', ''~bballpark~b'',
     ''~bmonthly fee~b.*~?'', ''~bis there a (fee|cost|charge)~b'']"

definition MORE_INFORMATION_RULES :: "rx list" where
  "MORE_INFORMATION_RULES = map rxq [
     ''~btell me more~b'', ''~bmore (info|information|details)~b'',
     ''~b(email|send|shoot) (me|us|over) (the |some |more |a few )?(details|info|information|specifics)~b'',
     ''~bsend (me |us )?(some |more )?(info|information|details|examples?)~b'', ''~bhow does (it|this|that) work~b'',
     ''~bwhat exactly~b'', ''~bcan you explain~b'', ''~bwhat is (this|it)~b'',
     ''~bdoes (it|this) (work|integrate) with~b'', ''~bdo you (have|offer|work|do|integrate)~b.*~?'',
     ''~b(case stud(y|ies)|examples?|references|testimonials)~b.*~?'', ''~bwho (are you|is this)~b'',
     ''~bwhat (company|business) (is this|are you)~b'', ''~bhow (long|fast|quickly) (does|would|will)~b'']"

definition OBJECTION_RULES :: "rx list" where
  "OBJECTION_RULES = map rxq [
     ''~btoo (expensive|pricey|much)~b'', ''~bout of (our|my) budget~b'', ''~bno budget~b'', ''~bcan`?t afford~b'',
     ''~b(already|currently) (have|use|using|work with|got)~b'',
     ''~bwe (have|use) (someone|a guy|a company|an? (answering|call))~b'',
     ''~b(tried|done) (that|this|something like this) before~b'', ''~bdoesn`?t work for us~b'',
     ''~bneed to (talk|check|run it by|discuss) (with|by)? ?(my|our) (partner|wife|husband|boss|team|business partner)~b'',
     ''~b(my|our) (partner|wife|husband|boss) (decides|handles|would need)~b'',
     ''~bnot sure (it|this|that) (would|will) work~b'', ''~bsounds like a scam~b'', ''~bhow do i know~b'',
     ''~bdon`?t trust~b'', ''~bwe don`?t miss (many |any )?calls~b'']"

definition NOT_NOW_RULES :: "rx list" where
  "NOT_NOW_RULES = map rxq [
     ''~bnot (right )?now~b'', ''~bmaybe (later|next)~b'', ''~b(circle|check|reach|touch) back~b'',
     ''~bnot at this time~b'', ''~b(next|in a few|in a couple( of)?) (month|months|quarter|year|weeks)~b'',
     ''~bafter (the )?(season|holidays|summer|winter|new year)~b'', ''~b(busy|slow) season~b'', ''~brevisit~b'',
     ''~bin (january|february|march|april|may|june|july|august|september|october|november|december)~b'',
     ''~b(too busy|swamped) (right now|at the moment)~b'', ''~bdown the road~b'', ''~bfollow up (in|next|after)~b'']"

definition INTERESTED_RULES :: "rx list" where
  "INTERESTED_RULES = map rxq [
     ''~b(sounds|looks) (interesting|good|great|useful|cool|helpful|promising)~b'',
     ''~b(i`?m|we`?re|i am|we are) interested~b'', ''~binterested~b'',
     ''~bopen to (it|this|that|hearing|learning|a)~b'',
     ''~b(i|we)`?d (like|love) to~b(?!~s+(stop|not|no longer|be removed|be taken off|unsubscribe|opt)|~s{3,})'',
     ''~b(could|can) use (this|that|something like this|help)~b'', ''~bwe need (this|that|help)~b'',
     ''~byes,? please~b'', ''~bkeen~b'', ''~bworth (a|a quick) (look|chat)~b.*~byes~b'']"

text \<open>\<open>RULES\<close>: the patterns of a label with their confidence.\<close>

fun RULES :: "clabel \<Rightarrow> rx list \<times> rat" where
  "RULES L_UNSUBSCRIBE = (UNSUBSCRIBE_RULES, 97 / 100)"
| "RULES L_NOT_INTERESTED = (NOT_INTERESTED_RULES, 92 / 100)"
| "RULES L_WRONG_PERSON = (WRONG_PERSON_RULES, 88 / 100)"
| "RULES L_REFERRAL = (REFERRAL_RULES, 85 / 100)"
| "RULES L_READY_TO_BUY = (READY_TO_BUY_RULES, 90 / 100)"
| "RULES L_MEETING_REQUEST = (MEETING_REQUEST_RULES, 88 / 100)"
| "RULES L_PRICE_QUESTION = (PRICE_QUESTION_RULES, 92 / 100)"
| "RULES L_MORE_INFORMATION = (MORE_INFORMATION_RULES, 85 / 100)"
| "RULES L_OBJECTION = (OBJECTION_RULES, 85 / 100)"
| "RULES L_NOT_NOW = (NOT_NOW_RULES, 86 / 100)"
| "RULES L_INTERESTED = (INTERESTED_RULES, 85 / 100)"
| "RULES l = ([], 0)"

definition PRIORITY :: "clabel list" where
  "PRIORITY = [L_UNSUBSCRIBE, L_NOT_INTERESTED, L_WRONG_PERSON, L_REFERRAL, L_READY_TO_BUY, L_MEETING_REQUEST,
     L_PRICE_QUESTION, L_OBJECTION, L_MORE_INFORMATION, L_NOT_NOW, L_INTERESTED]"

definition POSITIVE :: "clabel list" where
  "POSITIVE = [L_INTERESTED, L_PRICE_QUESTION, L_MORE_INFORMATION, L_MEETING_REQUEST, L_READY_TO_BUY]"

definition HUMAN_INTENT :: "clabel list" where
  "HUMAN_INTENT = [L_INTERESTED, L_PRICE_QUESTION, L_READY_TO_BUY, L_MORE_INFORMATION, L_UNSUBSCRIBE, L_NOT_INTERESTED]"

subsection \<open>Other signals\<close>

definition LEGAL_OR_ANGRY :: "rx list" where
  "LEGAL_OR_ANGRY = map rxq [
     ''~b(attorney|lawyer|legal action|sue|lawsuit|report (you|this)|ftc|can-?spam|gdpr|ccpa|harass~w*)~b'',
     ''~b(f+u+c+k|shit|scam(mer)?s?|idiot|stupid|pissed)~b'', ''~bhow did you get (my|this|our) (email|address|info)~b'']"

definition AFFIRM_WORD :: str where
  "AFFIRM_WORD = ''(y(es|eah|ep|up|a)(,? please)?|sure|ok(ay)?|k|sounds good|that works|that`?s fine|works for me|perfect|great|''
     @ ''absolutely|definitely|for sure|please do|go for it|do it|alright|fine|cool)''"

definition AFFIRMATION :: rx where
  "AFFIRMATION = rxq (''^~W*'' @ AFFIRM_WORD @ ''([~s,.!-]+'' @ AFFIRM_WORD @ '')*~W*$'')"

definition ASK_ACTIONS :: "(rx \<times> clabel \<times> str) list" where
  "ASK_ACTIONS = [
     (rxq ''~b(send|share|email)~b[^.?!~n]{0,25}~b(pricing|price|prices|rates|cost)~b'', L_PRICE_QUESTION,
      ''asked whether we should send pricing''),
     (rxq ''~b(send|share|email)~b[^.?!~n]{0,30}~b(demo|video|walkthrough|example|info|details|audit|breakdown|mockup|preview)~b'',
      L_MORE_INFORMATION, ''offered to send more information''),
     (rxq ''~b(does|would|will) (~w+day|tomorrow|today)[^?]{0,40}(work|suit)~b|~bcall (on|at) [^?]{2,40}~?'',
      L_MEETING_REQUEST, ''proposed a specific meeting time'')]"

definition AUTO_HEADERS :: "str list" where
  "AUTO_HEADERS = [''auto-submitted'', ''x-autoreply'', ''x-autorespond'', ''x-auto-response-suppress'']"

definition AUTO_SUBJECT :: rx where
  "AUTO_SUBJECT = rxq ''^(auto(matic)?[- ]?(reply|response)|out of (the )?office|ooo~b|away from|on vacation)''"

definition AUTO_BODY :: "rx list" where
  "AUTO_BODY = map rxq [
     ''~b(i am|i`?m|i will be) (currently )?(out of (the )?office|away|on vacation|on leave|traveling)~b'',
     ''~bthis is an auto(mated|matic)? (reply|response|message)~b'', ''~blimited access to (my )?e-?mail~b'',
     ''~bwill (respond|reply|get back to you) (when|upon) (i|my) return~b'',
     ''~bthank you for (your email|contacting|reaching out)[^.]*~. (we|i) (will|`ll) (respond|get back|be in touch)~b'',
     ''~bwe have received your (message|email|inquiry)~b'']"

definition BOUNCE_SENDER :: rx where
  "BOUNCE_SENDER = rxq ''^(mailer-daemon|postmaster|mail-daemon|mailerdaemon|bounce|bounces)@''"

definition DSN_HARD_STRONG :: rx where
  "DSN_HARD_STRONG = rxq ''~baction:~s*failed~b|~bstatus:~s*5~.~d|~b5~.~d{1,3}~.~d{1,3}~b|~b55[0-4]~b''"

definition DSN_SOFT :: rx where
  "DSN_SOFT = rxq (''~baction:~s*delayed~b|~bstatus:~s*4~.~d|~b4~.~d{1,3}~.~d{1,3}~b|~(delay~)|~bdelivery (incomplete|delayed)~b|''
     @ ''~btemporar(y|ily)~b|~bwill (retry|keep trying|continue (to )?try)|~bstill trying~b|~bdelayed~b'')"

definition DSN_HARD_WEAK :: "rx list" where
  "DSN_HARD_WEAK = map rxq [
     ''~baddress (not found|couldn`?t be found|could not be found)~b'',
     ''~b(user|recipient|mailbox|address|account) (is )?(unknown|not found|does ?n[o`]?t exist|unavailable|disabled)~b'',
     ''~bno such (user|recipient|mailbox|address)~b'', ''~bwasn`?t delivered~b'', ''~bcould not be delivered~b'',
     ''~bundeliverable~b'', ''~bdelivery (has )?failed~b'', ''~bpermanent (error|failure)~b'',
     ''~brecipient address rejected~b'']"

definition PRICE_RE :: rx where
  "PRICE_RE = rxq ''~$~s?~d[~d,]*(?:~.~d{2})?(?:~s?(?:/|per)~s?(?:mo|month|yr|year|week))?''"

definition TIME_RE :: rx where
  "TIME_RE = rxq (''~b((?:mon|tues|wednes|thurs|fri|satur|sun)day|tomorrow|today|tonight|this (?:week|afternoon|morning|evening)|''
     @ ''next (?:week|~w+day)|~d{1,2}(?::~d{2})?~s?(?:am|pm)|noon|morning|afternoon)~b'')"

definition MONTH_RE :: rx where
  "MONTH_RE = rxq (''~b(january|february|march|april|may|june|july|august|september|october|november|december|''
     @ ''next (?:month|quarter|year|spring|summer|fall|winter)|after the ~w+)~b'')"

definition DONT_CALL :: rx where
  "DONT_CALL = rxq ''~b(don`?t|do not|no need to|please don`?t) (call|phone|ring)( me| us)?~b''"

definition IF_INTERESTED :: rx where
  "IF_INTERESTED = rxq ''~bif (you`?re |you are |u r |ur )?interested~b''"

definition REFERRAL_NAME :: rx where
  "REFERRAL_NAME = rxc (''(?i:~b(?:talk|speak) (?:to|with)) ([A-Z][a-z]+(?: [A-Z][a-z]+)?)|(?i:~breach out to) ([A-Z][a-z]+(?: [A-Z][a-z]+)?)|''
     @ ''(?i:~bcontact) ([A-Z][a-z]+(?: [A-Z][a-z]+)?)|~b([A-Z][a-z]+) (?i:handles|runs|manages|is in charge of|takes care of)|''
     @ ''(?i:~bthe (?:owner|right person|best person) is) ([A-Z][a-z]+(?: [A-Z][a-z]+)?)'')"

end
