(* ===== verification/ConvStore.thy ===== *)
theory ConvStore
  imports ConvStatus ConvText
begin

text \<open>
  \<open>src/cloudos/conversations/store.py\<close>: the conversation memory. The state is the tables of
  \<open>db/migrations/006\<close> and \<open>007\<close> the code uses, with the columns it reads or writes; the
  check constraints and unique indexes are part of the statements. A statement's \<open>now()\<close>, a
  new row's id and the parser of addresses are arguments. An exception leaves no state: the
  caller's transaction is rolled back.
\<close>

record company =
  co_id :: str
  co_name :: str
  co_domain :: "str option"
  co_norm_domain :: "str option"
  co_website :: "str option"
  co_industry :: "str option"
  co_city :: "str option"
  co_region :: "str option"
  co_qualification :: str
  co_qual_reason :: "str option"
  co_personalization :: pyv
  co_first_contacted :: "time option"
  co_last_contacted :: "time option"
  co_outreach :: str
  co_handoff_ref :: "str option"
  co_historical :: "str list"
  co_active :: bool
  co_ready_at :: "time option"
  co_discovered :: time
  co_source :: "str option"

record contact =
  ct_company :: str
  ct_email :: str
  ct_status :: str
  ct_role :: "str option"
  ct_discovered :: time

record message =
  mg_id :: str
  mg_company :: "str option"
  mg_inbound :: bool
  mg_kind :: str
  mg_sender :: str
  mg_recipient :: str
  mg_subject :: str
  mg_body :: str
  mg_at :: time
  mg_recorded :: time
  mg_provider_id :: "str option"
  mg_thread :: "str option"
  mg_cta :: "str option"
  mg_price :: "str option"
  mg_offer :: "str option"

datatype proposal_status = P_none | P_needed | P_drafted | P_sent | P_accepted | P_declined

record conv_state =
  cs_company :: str
  cs_name :: str
  cs_contact_email :: "str option"
  cs_status :: cstatus
  cs_previous :: "cstatus option"
  cs_last_label :: "clabel option"
  cs_last_reply_at :: "time option"
  cs_meaningful_id :: "str option"
  cs_meaningful_at :: "time option"
  cs_meaningful_summary :: "str option"
  cs_offer :: "str option"
  cs_price :: "str option"
  cs_question :: "str option"
  cs_next_action :: "str option"
  cs_next_due :: "time option"
  cs_follow_up :: "int option"
  cs_proposal :: proposal_status
  cs_cold :: bool
  cs_stop_reason :: "str option"
  cs_dnc :: bool
  cs_bounced :: bool
  cs_high_value :: bool
  cs_airtable :: "str option"
  cs_version :: int

record transition =
  tr_company :: str
  tr_from :: "cstatus option"
  tr_to :: cstatus
  tr_reason :: str
  tr_message :: "str option"
  tr_actor :: str
  tr_at :: time

record sales_fact =
  sf_company :: str
  sf_type :: str
  sf_text :: str
  sf_value :: pyv
  sf_said_by :: str
  sf_source :: "str option"

record suppression =
  su_email :: "str option"
  su_domain :: "str option"
  su_company :: "str option"
  su_reason :: str
  su_source :: "str option"

record attention =
  at_company :: "str option"
  at_message :: "str option"
  at_code :: str
  at_reason :: str
  at_urgency :: str
  at_status :: "str option"
  at_last_reply :: "str option"
  at_summary :: str
  at_action :: str
  at_link :: "str option"
  at_open :: bool
  at_resolution :: "str option"

datatype draft_state = D_awaiting | D_approved | D_sent | D_discarded | D_superseded

record draft =
  dr_id :: str
  dr_company :: str
  dr_kind :: str
  dr_based_on :: "str option"
  dr_to :: "str option"
  dr_subject :: str
  dr_body :: str
  dr_content :: pyv
  dr_state :: draft_state
  dr_sent_message :: "str option"

record history_row =
  hi_company :: "str option"
  hi_email :: "str option"
  hi_campaign :: str
  hi_sent_at :: time
  hi_status :: str
  hi_provider :: str
  hi_key :: str

record deal =
  de_company :: str
  de_offer :: "str option"
  de_setup :: "rat option"
  de_monthly :: "rat option"
  de_won_at :: "time option"
  de_lost_at :: "time option"
  de_note :: "str option"

text \<open>A notification with its dedupe key (the columns migration 007 adds).\<close>

record owner_note =
  nn_id :: int
  nn_ts :: time
  nn_key :: str
  nn_severity :: str
  nn_code :: str
  nn_message :: str
  nn_company :: "str option"
  nn_delivered :: bool
  nn_delivered_at :: "time option"
  nn_receipt :: "str option"
  nn_attempts :: nat

text \<open>What the classifier made of a message.\<close>

record analysis =
  an_message :: str
  an_company :: str
  an_label :: clabel
  an_confidence :: rat
  an_evidence :: "str list"
  an_summary :: str
  an_interpretation :: str
  an_action :: str
  an_reason :: "str option"

record conv =
  cv_companies :: "company list"
  cv_contacts :: "contact list"
  cv_messages :: "message list"
  cv_states :: "conv_state list"
  cv_transitions :: "transition list"
  cv_facts :: "sales_fact list"
  cv_suppressions :: "suppression list"
  cv_attention :: "attention list"
  cv_drafts :: "draft list"
  cv_history :: "history_row list"
  cv_deals :: "deal list"
  cv_notes :: "owner_note list"
  cv_analyses :: "analysis list"

datatype conv_exn =
    KeyErr str
  | TransitionErr transition_error
  | CheckErr str
  | ValueErr str

subsection \<open>Companies\<close>

definition OUTREACH_TO_STATUS :: "(str \<times> cstatus) list" where
  "OUTREACH_TO_STATUS = [(''new'', Discovered), (''not_ready'', Discovered), (''rejected'', Discovered),
     (''outreach_ready'', Ready), (''handed_off'', Ready), (''contacted'', Emailed), (''replied'', Replied),
     (''bounced'', Emailed), (''unsubscribed'', Do_not_contact), (''do_not_contact'', Do_not_contact)]"

definition company_row :: "conv \<Rightarrow> str \<Rightarrow> company option" where
  "company_row c i = find (\<lambda>r. co_id r = i) (cv_companies c)"

definition state_row :: "conv \<Rightarrow> str \<Rightarrow> conv_state option" where
  "state_row c i = find (\<lambda>r. cs_company r = i) (cv_states c)"

definition company_by_airtable_record :: "conv \<Rightarrow> str \<Rightarrow> str option" where
  "company_by_airtable_record c rec_id =
     (let ref = ''airtable:'' @ rec_id in
      map_option co_id (find (\<lambda>r. co_handoff_ref r = Some ref \<or> ref \<in> set (co_historical r)) (cv_companies c)))"

definition airtable_ref :: "str \<Rightarrow> str option" where
  "airtable_ref ref = (if startswith ref ''airtable:rec'' then Some (tl (dropWhile (\<lambda>x. x \<noteq> CHR '':'') ref)) else None)"

definition airtable_record_of :: "conv \<Rightarrow> str \<Rightarrow> str option" where
  "airtable_record_of c i =
     (case company_row c i of
        None \<Rightarrow> None
      | Some r \<Rightarrow>
          (case List.find (\<lambda>ref. airtable_ref ref \<noteq> None)
                  ((case co_handoff_ref r of Some h \<Rightarrow> h | None \<Rightarrow> []) # co_historical r) of
             Some ref \<Rightarrow> airtable_ref ref
           | None \<Rightarrow> (case state_row c i of Some st \<Rightarrow> cs_airtable st | None \<Rightarrow> None)))"

subsection \<open>The state row\<close>

text \<open>The check constraints of \<open>company_conversation_state\<close>.\<close>

definition state_ok :: "conv_state \<Rightarrow> bool" where
  "state_ok r \<longleftrightarrow> (cs_cold r \<longrightarrow> cs_status r \<in> set PRE_REPLY)
     \<and> (cs_dnc r \<longrightarrow> cs_status r = Do_not_contact \<and> \<not> cs_cold r) \<and> (cs_bounced r \<longrightarrow> \<not> cs_cold r)"

text \<open>A keyword argument of \<open>set_status\<close> and \<open>update_state\<close>.\<close>

datatype field =
    F_cold bool
  | F_stop_reason str
  | F_bounced bool
  | F_proposal proposal_status
  | F_contact_email str
  | F_offer str
  | F_price str
  | F_last_label clabel
  | F_last_reply_at time
  | F_meaningful "str option" time str
  | F_question "str option"
  | F_next_action str
  | F_next_due "time option"
  | F_follow_up "int option"

fun put_field :: "field \<Rightarrow> conv_state \<Rightarrow> conv_state" where
  "put_field (F_cold b) r = r\<lparr>cs_cold := b\<rparr>"
| "put_field (F_stop_reason s) r = r\<lparr>cs_stop_reason := Some s\<rparr>"
| "put_field (F_bounced b) r = r\<lparr>cs_bounced := b\<rparr>"
| "put_field (F_proposal p) r = r\<lparr>cs_proposal := p\<rparr>"
| "put_field (F_contact_email e) r = r\<lparr>cs_contact_email := Some e\<rparr>"
| "put_field (F_offer s) r = r\<lparr>cs_offer := Some s\<rparr>"
| "put_field (F_price s) r = r\<lparr>cs_price := Some s\<rparr>"
| "put_field (F_last_label l) r = r\<lparr>cs_last_label := Some l\<rparr>"
| "put_field (F_last_reply_at t) r = r\<lparr>cs_last_reply_at := Some t\<rparr>"
| "put_field (F_meaningful i t s) r = r\<lparr>cs_meaningful_id := i, cs_meaningful_at := Some t, cs_meaningful_summary := Some s\<rparr>"
| "put_field (F_question q) r = r\<lparr>cs_question := q\<rparr>"
| "put_field (F_next_action s) r = r\<lparr>cs_next_action := Some s\<rparr>"
| "put_field (F_next_due t) r = r\<lparr>cs_next_due := t\<rparr>"
| "put_field (F_follow_up d) r = r\<lparr>cs_follow_up := d\<rparr>"

definition put_fields :: "field list \<Rightarrow> conv_state \<Rightarrow> conv_state" where
  "put_fields fs r = fold put_field fs r"

text \<open>\<open>UPDATE company_conversation_state SET \<dots>, version = version + 1\<close> of one company.\<close>

definition update_row :: "str \<Rightarrow> (conv_state \<Rightarrow> conv_state) \<Rightarrow> conv \<Rightarrow> conv_exn + conv" where
  "update_row i f c =
     (let t = upd_where (\<lambda>r. cs_company r = i) (\<lambda>r. f (r\<lparr>cs_version := cs_version r + 1\<rparr>)) (cv_states c) in
      if \<forall>r\<in>set t. cs_company r = i \<longrightarrow> state_ok r then Inr (c\<lparr>cv_states := t\<rparr>)
      else Inl (CheckErr ''company_conversation_state''))"

definition initial_state :: "conv \<Rightarrow> company \<Rightarrow> conv_state" where
  "initial_state c r =
     (let st = (case map_of OUTREACH_TO_STATUS (co_outreach r) of Some s \<Rightarrow> s | None \<Rightarrow> Discovered) in
      \<lparr>cs_company = co_id r, cs_name = co_name r,
       cs_contact_email = map_option ct_email (least_by ct_discovered (filter (\<lambda>k. ct_company k = co_id r) (cv_contacts c))),
       cs_status = st, cs_previous = None, cs_last_label = None, cs_last_reply_at = None, cs_meaningful_id = None,
       cs_meaningful_at = None, cs_meaningful_summary = None, cs_offer = None, cs_price = None, cs_question = None,
       cs_next_action = None, cs_next_due = None, cs_follow_up = None, cs_proposal = P_none,
       cs_cold = (st = Emailed \<and> co_outreach r \<noteq> ''bounced''), cs_stop_reason = None, cs_dnc = (st = Do_not_contact),
       cs_bounced = (co_outreach r = ''bounced''), cs_high_value = (co_qualification r = ''HIGH''),
       cs_airtable = None, cs_version = 0\<rparr>)"

definition ensure_state :: "time \<Rightarrow> str \<Rightarrow> conv \<Rightarrow> conv_exn + conv_state \<times> conv" where
  "ensure_state now i c =
     (case state_row c i of
        Some st \<Rightarrow> Inr (st, c)
      | None \<Rightarrow> (case company_row c i of
          None \<Rightarrow> Inl (KeyErr (''unknown company '' @ i))
        | Some r \<Rightarrow>
            (let st0 = initial_state c r; st = st0\<lparr>cs_airtable := airtable_record_of c i\<rparr>;
                 tr = \<lparr>tr_company = i, tr_from = None, tr_to = cs_status st,
                       tr_reason = ''initialised from lead engine outreach_status='' @ co_outreach r,
                       tr_message = None, tr_actor = ''system'', tr_at = now\<rparr>
             in Inr (st, c\<lparr>cv_states := cv_states c @ [st], cv_transitions := cv_transitions c @ [tr]\<rparr>))))"

definition outreach_for :: "cstatus \<Rightarrow> str option" where
  "outreach_for t = (if t = Emailed then Some ''contacted'' else if t = Do_not_contact then Some ''do_not_contact''
     else if t \<notin> set PRE_REPLY then Some ''replied'' else None)"

definition mark_company :: "str \<Rightarrow> str \<Rightarrow> conv \<Rightarrow> conv" where
  "mark_company i oc c = c\<lparr>cv_companies := upd_where
     (\<lambda>r. co_id r = i \<and> co_outreach r \<notin> {''do_not_contact'', ''unsubscribed''}) (\<lambda>r. r\<lparr>co_outreach := oc\<rparr>) (cv_companies c)\<rparr>"

definition asked_cold :: "field list \<Rightarrow> bool \<Rightarrow> bool" where
  "asked_cold fs dflt = (case find (\<lambda>f. case f of F_cold _ \<Rightarrow> True | _ \<Rightarrow> False) fs of Some (F_cold b) \<Rightarrow> b | _ \<Rightarrow> dflt)"

definition without_cold :: "field list \<Rightarrow> field list" where
  "without_cold fs = filter (\<lambda>f. case f of F_cold _ \<Rightarrow> False | _ \<Rightarrow> True) fs"

definition gives_reason :: "field list \<Rightarrow> bool" where
  "gives_reason fs = list_ex (\<lambda>f. case f of F_stop_reason _ \<Rightarrow> True | _ \<Rightarrow> False) fs"

definition new_cold :: "cstatus \<Rightarrow> field list \<Rightarrow> conv_state \<Rightarrow> bool" where
  "new_cold t fs st \<longleftrightarrow> asked_cold fs (cs_cold st) \<and> cold_sequence_allowed t \<and> F_bounced True \<notin> set fs \<and> \<not> cs_bounced st"

definition status_row_for :: "cstatus \<Rightarrow> str \<Rightarrow> bool \<Rightarrow> field list \<Rightarrow> conv_state \<Rightarrow> conv_state \<Rightarrow> conv_state" where
  "status_row_for t reason ov fs st r =
     (let cold = new_cold t fs st;
          r1 = put_fields (without_cold fs) (r\<lparr>cs_status := t, cs_cold := cold,
                 cs_dnc := (t = Do_not_contact \<or> (cs_dnc st \<and> \<not> ov))\<rparr>);
          r2 = (if cs_status st \<noteq> t then r1\<lparr>cs_previous := Some (cs_status st)\<rparr> else r1)
      in if \<not> cold \<and> cs_cold st \<and> \<not> gives_reason fs then r2\<lparr>cs_stop_reason := Some reason\<rparr> else r2)"

definition log_transition :: "str \<Rightarrow> cstatus \<Rightarrow> cstatus \<Rightarrow> str \<Rightarrow> str option \<Rightarrow> str \<Rightarrow> time \<Rightarrow> conv \<Rightarrow> conv" where
  "log_transition i frm t reason mid actor w c =
     (if frm = t then c
      else c\<lparr>cv_transitions := cv_transitions c @
        [\<lparr>tr_company = i, tr_from = Some frm, tr_to = t, tr_reason = reason, tr_message = mid, tr_actor = actor, tr_at = w\<rparr>]\<rparr>)"

definition set_status ::
  "time \<Rightarrow> str \<Rightarrow> str \<Rightarrow> str \<Rightarrow> str option \<Rightarrow> str \<Rightarrow> bool \<Rightarrow> time option \<Rightarrow> field list \<Rightarrow> conv \<Rightarrow> conv_exn + conv" where
  "set_status now i to reason mid actor ov when fs c =
     (case ensure_state now i c of
        Inl e \<Rightarrow> Inl e
      | Inr (st, c1) \<Rightarrow> (case check (cs_status st) to ov of
          Inl e \<Rightarrow> Inl (TransitionErr e)
        | Inr t \<Rightarrow> (case update_row i (status_row_for t reason ov fs st) c1 of
            Inl e \<Rightarrow> Inl e
          | Inr c2 \<Rightarrow>
              (let c3 = log_transition i (cs_status st) t reason mid actor (case when of Some w \<Rightarrow> w | None \<Rightarrow> now) c2 in
               Inr (case outreach_for t of Some oc \<Rightarrow> mark_company i oc c3 | None \<Rightarrow> c3)))))"

definition update_state :: "time \<Rightarrow> str \<Rightarrow> field list \<Rightarrow> conv \<Rightarrow> conv_exn + conv" where
  "update_state now i fs c =
     (if fs = [] then Inr c
      else case ensure_state now i c of Inl e \<Rightarrow> Inl e | Inr (st, c1) \<Rightarrow> update_row i (put_fields fs) c1)"

subsection \<open>Messages, facts, suppressions, attention and drafts\<close>

definition ebind :: "conv_exn + 'a \<Rightarrow> ('a \<Rightarrow> conv_exn + 'b) \<Rightarrow> conv_exn + 'b" where
  "ebind r f = (case r of Inl e \<Rightarrow> Inl e | Inr x \<Rightarrow> f x)"

lemma ebind_Inr [simp]: "ebind (Inr x) f = f x"
  by (simp add: ebind_def)

lemma ebind_Inl [simp]: "ebind (Inl e) f = Inl e"
  by (simp add: ebind_def)

lemma ebind_eq_Inr: "ebind r f = Inr y \<longleftrightarrow> (\<exists>x. r = Inr x \<and> f x = Inr y)"
  by (cases r) auto

definition MESSAGE_KINDS :: "str list" where
  "MESSAGE_KINDS = [''cold'', ''followup'', ''reply'', ''pricing'', ''audit'', ''proposal'', ''manual'', ''auto_reply'',
     ''bounce'', ''inbound'', ''other'']"

definition clean_message :: "message \<Rightarrow> message" where
  "clean_message m = m\<lparr>mg_kind := clean_str (mg_kind m), mg_sender := clean_str (mg_sender m),
     mg_recipient := clean_str (mg_recipient m), mg_subject := clean_str (mg_subject m), mg_body := clean_str (mg_body m),
     mg_provider_id := (case mg_provider_id m of None \<Rightarrow> None
        | Some p \<Rightarrow> if clean_str p = [] then None else Some (clean_str p)),
     mg_thread := map_option clean_str (mg_thread m), mg_cta := map_option clean_str (mg_cta m),
     mg_price := map_option clean_str (mg_price m), mg_offer := map_option clean_str (mg_offer m)\<rparr>"

definition message_by_provider_id :: "conv \<Rightarrow> str \<Rightarrow> message option" where
  "message_by_provider_id c p = find (\<lambda>m. mg_provider_id m = Some p) (cv_messages c)"

definition insert_message :: "time \<Rightarrow> str \<Rightarrow> message \<Rightarrow> conv \<Rightarrow> conv_exn + str option \<times> conv" where
  "insert_message now i m0 c =
     (let m = (clean_message m0)\<lparr>mg_id := i, mg_recorded := now\<rparr> in
      if mg_kind m \<notin> set MESSAGE_KINDS then Inl (CheckErr ''outreach_messages'')
      else if mg_provider_id m \<noteq> None \<and> list_ex (\<lambda>x. mg_provider_id x = mg_provider_id m) (cv_messages c)
      then Inr (None, c)
      else Inr (Some i, c\<lparr>cv_messages := cv_messages c @ [m]\<rparr>))"

definition thread :: "conv \<Rightarrow> str \<Rightarrow> message list" where
  "thread c i = order_by (\<lambda>m. (mg_at m, mg_recorded m)) (filter (\<lambda>m. mg_company m = Some i) (cv_messages c))"

definition add_fact :: "str \<Rightarrow> str \<Rightarrow> str \<Rightarrow> pyv \<Rightarrow> str \<Rightarrow> str option \<Rightarrow> conv \<Rightarrow> conv" where
  "add_fact i ty txt value said src c =
     (let f = \<lparr>sf_company = i, sf_type = ty, sf_text = clip 500 (clean_str txt), sf_value = clean value,
               sf_said_by = said, sf_source = src\<rparr>
      in if list_ex (\<lambda>g. sf_company g = i \<and> sf_type g = ty \<and> py_lower (sf_text g) = py_lower (sf_text f) \<and> sf_source g = src)
              (cv_facts c)
         then c else c\<lparr>cv_facts := cv_facts c @ [f]\<rparr>)"

definition facts_of :: "conv \<Rightarrow> str \<Rightarrow> sales_fact list" where
  "facts_of c i = filter (\<lambda>f. sf_company f = i) (cv_facts c)"

definition suppress_email :: "str \<Rightarrow> str \<Rightarrow> str option \<Rightarrow> str option \<Rightarrow> conv \<Rightarrow> conv" where
  "suppress_email reason email company src c =
     (if list_ex (\<lambda>s. map_option py_lower (su_email s) = Some (py_lower email)) (cv_suppressions c) then c
      else c\<lparr>cv_suppressions := cv_suppressions c @
        [\<lparr>su_email = Some (py_lower email), su_domain = None, su_company = company, su_reason = reason, su_source = src\<rparr>]\<rparr>)"

definition suppress_company :: "str \<Rightarrow> str \<Rightarrow> str option \<Rightarrow> conv \<Rightarrow> conv" where
  "suppress_company reason company src c =
     (if list_ex (\<lambda>s. su_company s = Some company \<and> su_email s = None \<and> su_domain s = None) (cv_suppressions c) then c
      else c\<lparr>cv_suppressions := cv_suppressions c @
        [\<lparr>su_email = None, su_domain = None, su_company = Some company, su_reason = reason, su_source = src\<rparr>]\<rparr>)"

definition suppress :: "str \<Rightarrow> str option \<Rightarrow> str option \<Rightarrow> str option \<Rightarrow> conv \<Rightarrow> conv" where
  "suppress reason email company src c =
     (let c1 = (case email of Some e \<Rightarrow> if e = [] then c else suppress_email reason e company src c | None \<Rightarrow> c)
      in case company of Some i \<Rightarrow> if i = [] then c1 else suppress_company reason i src c1 | None \<Rightarrow> c1)"

definition queue_attention :: "attention \<Rightarrow> conv \<Rightarrow> bool \<times> conv" where
  "queue_attention a0 c =
     (let a = a0\<lparr>at_reason := clean_str (at_reason a0), at_last_reply := map_option clean_str (at_last_reply a0),
                 at_summary := clean_str (at_summary a0), at_action := clean_str (at_action a0), at_open := True,
                 at_resolution := None\<rparr>
      in if list_ex (\<lambda>x. at_company x = at_company a \<and> at_message x = at_message a \<and> at_code x = at_code a) (cv_attention c)
         then (False, c) else (True, c\<lparr>cv_attention := cv_attention c @ [a]\<rparr>))"

definition resolve_attention :: "str \<Rightarrow> str \<Rightarrow> str list option \<Rightarrow> conv \<Rightarrow> nat \<times> conv" where
  "resolve_attention i resolution codes c =
     (let p = (\<lambda>a. at_company a = Some i \<and> at_open a
                 \<and> (case codes of None \<Rightarrow> True | Some cs \<Rightarrow> cs = [] \<or> at_code a \<in> set cs))
      in (count_where p (cv_attention c),
          c\<lparr>cv_attention := upd_where p (\<lambda>a. a\<lparr>at_open := False, at_resolution := Some resolution\<rparr>) (cv_attention c)\<rparr>))"

definition set_drafts :: "(draft \<Rightarrow> bool) \<Rightarrow> draft_state \<Rightarrow> conv \<Rightarrow> conv" where
  "set_drafts p s c = c\<lparr>cv_drafts := upd_where p (\<lambda>d. d\<lparr>dr_state := s\<rparr>) (cv_drafts c)\<rparr>"

definition pending :: "draft \<Rightarrow> bool" where
  "pending d \<longleftrightarrow> dr_state d = D_awaiting \<or> dr_state d = D_approved"

definition add_draft :: "draft \<Rightarrow> conv \<Rightarrow> str option \<times> conv" where
  "add_draft d0 c =
     (let d = d0\<lparr>dr_body := clean_str (dr_body d0), dr_subject := clean_str (dr_subject d0),
                 dr_to := map_option clean_str (dr_to d0), dr_content := clean (dr_content d0), dr_state := D_awaiting,
                 dr_sent_message := None\<rparr>;
          c1 = set_drafts (\<lambda>x. dr_company x = dr_company d \<and> dr_kind x = dr_kind d \<and> dr_state x = D_awaiting
                 \<and> dr_based_on x \<noteq> dr_based_on d) D_superseded c
      in if list_ex (\<lambda>x. pending x \<and> dr_company x = dr_company d \<and> dr_kind x = dr_kind d \<and> dr_based_on x = dr_based_on d)
              (cv_drafts c1)
         then (None, c1) else (Some (dr_id d), c1\<lparr>cv_drafts := cv_drafts c1 @ [d]\<rparr>))"

subsection \<open>A confirmed send\<close>

record confirmed =
  cf_company :: str
  cf_recipient :: str
  cf_sender :: str
  cf_subject :: str
  cf_body :: str
  cf_sent_at :: time
  cf_provider :: str
  cf_provider_id :: str
  cf_thread :: "str option"
  cf_kind :: str
  cf_offer :: "str option"
  cf_variant :: "str option"
  cf_cta :: "str option"
  cf_price :: "str option"
  cf_draft :: "str option"

definition SEND_KINDS :: "str list" where
  "SEND_KINDS = [''cold'', ''followup'', ''reply'', ''pricing'', ''audit'', ''proposal'', ''manual'', ''other'']"

definition sent_message :: "(str \<Rightarrow> str) \<Rightarrow> confirmed \<Rightarrow> message" where
  "sent_message pa f =
     \<lparr>mg_id = [], mg_company = Some (cf_company f), mg_inbound = False, mg_kind = cf_kind f,
      mg_sender = (if addr pa (cf_sender f) = [] then cf_sender f else addr pa (cf_sender f)),
      mg_recipient = addr pa (cf_recipient f), mg_subject = cf_subject f, mg_body = cf_body f, mg_at = cf_sent_at f,
      mg_recorded = 0, mg_provider_id = Some (cf_provider_id f), mg_thread = cf_thread f, mg_cta = cf_cta f,
      mg_price = cf_price f, mg_offer = cf_offer f\<rparr>"

definition given :: "str option \<Rightarrow> str option" where
  "given x = (case x of Some s \<Rightarrow> if s = [] then None else Some s | None \<Rightarrow> None)"

definition log_history :: "(str \<Rightarrow> str) \<Rightarrow> confirmed \<Rightarrow> conv \<Rightarrow> conv" where
  "log_history pa f c =
     (let h = \<lparr>hi_company = Some (cf_company f), hi_email = Some (addr pa (cf_recipient f)),
               hi_campaign = (case given (cf_variant f) of Some v \<Rightarrow> v | None \<Rightarrow> cf_kind f), hi_sent_at = cf_sent_at f,
               hi_status = ''sent'', hi_provider = cf_provider f, hi_key = ''msg:'' @ cf_provider_id f\<rparr>
      in if list_ex (\<lambda>x. hi_key x = hi_key h) (cv_history c) then c else c\<lparr>cv_history := cv_history c @ [h]\<rparr>)"

definition touch_company :: "str \<Rightarrow> time \<Rightarrow> conv \<Rightarrow> conv" where
  "touch_company i w c = c\<lparr>cv_companies := upd_where (\<lambda>r. co_id r = i)
     (\<lambda>r. r\<lparr>co_first_contacted := Some (case co_first_contacted r of Some t \<Rightarrow> t | None \<Rightarrow> w),
            co_last_contacted := Some (case co_last_contacted r of Some t \<Rightarrow> max t w | None \<Rightarrow> w)\<rparr>) (cv_companies c)\<rparr>"

definition first_touch :: "time \<Rightarrow> confirmed \<Rightarrow> str \<Rightarrow> conv_state \<Rightarrow> conv \<Rightarrow> conv_exn + conv" where
  "first_touch now f mid st c =
     (if cs_status st \<in> {Discovered, Ready}
      then set_status now (cf_company f) ''emailed'' (''confirmed '' @ cf_kind f @ '' send'') (Some mid) ''system'' False
             (Some (cf_sent_at f)) [F_cold (cf_kind f = ''cold'' \<or> cf_kind f = ''followup'')] c
      else Inr c)"

definition note_price :: "confirmed \<Rightarrow> str \<Rightarrow> conv \<Rightarrow> conv" where
  "note_price f mid c = (case given (cf_price f) of None \<Rightarrow> c
     | Some p \<Rightarrow> add_fact (cf_company f) ''price_discussed'' (''We quoted '' @ p) (VDict [(''amount_text'', VStr p)]) ''us'' (Some mid) c)"

definition send_fields :: "(str \<Rightarrow> str) \<Rightarrow> confirmed \<Rightarrow> str \<Rightarrow> conv_state \<Rightarrow> field list" where
  "send_fields pa f mid st =
     F_contact_email (case given (cs_contact_email st) of Some e \<Rightarrow> e | None \<Rightarrow> addr pa (cf_recipient f))
     # (case given (cf_offer f) of Some x \<Rightarrow> [F_offer x] | None \<Rightarrow> [])
     @ (case given (cf_price f) of Some x \<Rightarrow> [F_price x] | None \<Rightarrow> [])
     @ (if cf_kind f \<in> set [''reply'', ''pricing'', ''audit'', ''proposal'', ''manual'']
        then [F_meaningful (Some mid) (cf_sent_at f) (clip 300 (''We sent a '' @ cf_kind f @ '': '' @ cf_subject f))] else [])
     @ (if cf_kind f = ''proposal'' then [F_proposal P_sent] else [])"

definition proposal_step :: "time \<Rightarrow> confirmed \<Rightarrow> str \<Rightarrow> conv \<Rightarrow> conv_exn + conv" where
  "proposal_step now f mid c =
     (if cf_kind f \<noteq> ''proposal'' then Inr c
      else ebind (ensure_state now (cf_company f) c) (\<lambda>(st, c1).
        if cs_status st \<in> {Proposal_needed, Negotiating, Interested, Qualified, Meeting_requested}
        then set_status now (cf_company f) ''proposal_sent'' ''proposal sent'' (Some mid) ''system'' False
               (Some (cf_sent_at f)) [] c1
        else Inr c1))"

definition close_drafts :: "confirmed \<Rightarrow> str \<Rightarrow> conv \<Rightarrow> conv" where
  "close_drafts f mid c =
     (let c1 = (case given (cf_draft f) of None \<Rightarrow> c
                | Some d \<Rightarrow> c\<lparr>cv_drafts := upd_where (\<lambda>x. dr_id x = d) (\<lambda>x. x\<lparr>dr_state := D_sent, dr_sent_message := Some mid\<rparr>)
                     (cv_drafts c)\<rparr>)
      in if cf_kind f \<in> set [''reply'', ''pricing'', ''audit'', ''proposal'']
         then set_drafts (\<lambda>x. dr_company x = cf_company f \<and> dr_kind x = cf_kind f \<and> pending x \<and> Some (dr_id x) \<noteq> cf_draft f)
                D_superseded c1
         else c1)"

definition record_confirmed_send :: "(str \<Rightarrow> str) \<Rightarrow> time \<Rightarrow> str \<Rightarrow> confirmed \<Rightarrow> conv \<Rightarrow> conv_exn + str option \<times> conv" where
  "record_confirmed_send pa now newid f c =
     (if cf_provider_id f = [] then Inl (ValueErr (''a confirmed send needs the provider'' @ [CHR 0x27] @ ''s message id''))
      else if cf_kind f \<notin> set SEND_KINDS then Inl (ValueErr (''unknown send kind '' @ cf_kind f))
      else ebind (insert_message now newid (sent_message pa f) c) (\<lambda>(mid, c1).
        case mid of
          None \<Rightarrow> Inr (None, c1)
        | Some m \<Rightarrow>
            ebind (ensure_state now (cf_company f) (touch_company (cf_company f) (cf_sent_at f) (log_history pa f c1))) (\<lambda>(st, c2).
            ebind (first_touch now f m st c2) (\<lambda>c3.
            ebind (proposal_step now f m (note_price f m c3)) (\<lambda>c4.
            ebind (update_state now (cf_company f) (send_fields pa f m st) c4) (\<lambda>c5.
            Inr (Some m, close_drafts f m c5)))))))"

end
