(* ===== verification/ConvClassify.thy ===== *)
theory ConvClassify
  imports ClassifyRules ConvStore
begin

text \<open>
  \<open>src/cloudos/conversations/classify.py\<close>: what a reply means, read against the whole
  conversation. Confidences are exact fractions. In the texts a backtick stands for the source's
  apostrophe and a tilde for its quotation mark. Sets that are printed in order are ordered by byte.
\<close>

definition pt :: "str \<Rightarrow> str" where
  "pt s = map (\<lambda>c. if c = CHR 0x60 then CHR 0x27 else if c = CHR 0x7E then CHR 0x22 else c) s"

record fact =
  fa_type :: str
  fa_text :: str
  fa_value :: pydict

record clf =
  cl_label :: clabel
  cl_confidence :: rat
  cl_evidence :: "str list"
  cl_summary :: str
  cl_interpretation :: str
  cl_action :: str
  cl_reason :: "str option"
  cl_secondary :: "clabel list"
  cl_facts :: "fact list"
  cl_legal :: bool
  cl_referral :: "(str list \<times> str option) option"
  cl_meeting :: "str option"
  cl_text :: str

record inbound =
  ib_sender :: str
  ib_subject :: str
  ib_body :: str
  ib_headers :: "(str \<times> str) list"

type_synonym hits = "(clabel \<times> (str \<times> rat) list) list"

subsection \<open>Scanning\<close>

definition label_hits :: "clabel \<Rightarrow> str \<Rightarrow> (str \<times> rat) list" where
  "label_hits l s = (case RULES l of (ps, conf) \<Rightarrow>
     map (\<lambda>m. (rm_text m, conf)) (List.map_filter (\<lambda>p. rx_search p s) ps))"

definition blanks :: "nat \<Rightarrow> str" where "blanks n = replicate n (CHR '' '')"

text \<open>\<open>re.escape\<close>: a pattern that matches a text itself, ignoring case.\<close>

definition literal_rx :: "str \<Rightarrow> rx" where
  "literal_rx ph = foldr (\<lambda>c r. Seq (lit flag_I c) r) ph Eps"

fun mask :: "str \<Rightarrow> str list \<Rightarrow> str" where
  "mask s [] = s"
| "mask s (ph # phs) = mask (rx_sub (literal_rx ph) (\<lambda>m. blanks (length ph)) s) phs"

definition blank_out :: "rx \<Rightarrow> str \<Rightarrow> str" where
  "blank_out r s = rx_sub r (\<lambda>m. blanks (length (rm_text m))) s"

fun scan_negative :: "clabel list \<Rightarrow> str \<times> hits \<Rightarrow> str \<times> hits" where
  "scan_negative [] st = st"
| "scan_negative (l # ls) (masked, hs) =
     (let h = label_hits l masked in
      scan_negative ls (if h = [] then (masked, hs) else (mask masked (map fst h), hs @ [(l, h)])))"

fun scan_labels :: "clabel list \<Rightarrow> str \<Rightarrow> hits \<Rightarrow> hits" where
  "scan_labels [] masked hs = hs"
| "scan_labels (l # ls) masked hs =
     (let h = (if l \<in> fst ` set hs then [] else label_hits l masked) in
      scan_labels ls masked (if h = [] then hs else hs @ [(l, h)]))"

definition scan :: "str \<Rightarrow> hits" where
  "scan s = (case scan_negative [L_UNSUBSCRIBE, L_NOT_INTERESTED] (blank_out IF_INTERESTED (blank_out DONT_CALL s), [])
     of (masked, hs) \<Rightarrow> scan_labels PRIORITY masked hs)"

definition found_label :: "clabel \<Rightarrow> hits \<Rightarrow> bool" where "found_label l hs \<longleftrightarrow> l \<in> fst ` set hs"

definition phrases :: "hits \<Rightarrow> clabel \<Rightarrow> str list" where
  "phrases hs l = (case map_of hs l of Some h \<Rightarrow> map fst h | None \<Rightarrow> [])"

definition SENTENCE_END :: rx where "SENTENCE_END = rxc ''(?<=[.!?])~s+|~n+''"

definition sentence :: "str \<Rightarrow> str \<Rightarrow> str" where
  "sentence s phrase = (case find (\<lambda>x. substr_in (py_lower phrase) (py_lower x)) (rx_split SENTENCE_END s) of
     Some x \<Rightarrow> one_line x 220 | None \<Rightarrow> one_line phrase 220)"

subsection \<open>Machines\<close>

definition low_headers :: "(str \<times> str) list \<Rightarrow> (str \<times> str) list" where
  "low_headers hs = fold (\<lambda>(k, v) d. dput d (py_lower k) (py_lower v)) hs []"

definition header :: "(str \<times> str) list \<Rightarrow> str \<Rightarrow> str \<Rightarrow> str" where
  "header hs k dflt = (case map_of (low_headers hs) k of Some v \<Rightarrow> v | None \<Rightarrow> dflt)"

definition auto_by_headers :: "(str \<times> str) list \<Rightarrow> bool" where
  "auto_by_headers hs \<longleftrightarrow>
     (if py_strip (header hs ''auto-submitted'' ''no'') \<notin> {[], ''no''} then True
      else list_ex (\<lambda>k. map_of (low_headers hs) k \<noteq> None) (tl AUTO_HEADERS)
           \<or> py_strip (header hs ''precedence'' []) \<in> {''auto_reply'', ''auto-reply''})"

definition auto_by_words :: "str \<Rightarrow> str \<Rightarrow> bool" where
  "auto_by_words subject s \<longleftrightarrow> rx_found AUTO_SUBJECT subject \<or> list_ex (\<lambda>p. rx_found p s) AUTO_BODY"

definition is_dsn :: "str \<Rightarrow> (str \<times> str) list \<Rightarrow> bool" where
  "is_dsn sender hs \<longleftrightarrow> rx_found BOUNCE_SENDER sender
     \<or> (substr_in ''multipart/report'' (header hs ''content-type'' []) \<and> substr_in ''delivery-status'' (header hs ''content-type'' []))"

datatype dsn = Hard | Soft | Unclear

definition dsn_kind :: "str \<Rightarrow> str \<Rightarrow> dsn" where
  "dsn_kind subject body =
     (let blob = subject @ [CHR 0x0A] @ body in
      if rx_found DSN_HARD_STRONG blob then Hard
      else if rx_found DSN_SOFT blob then Soft
      else if list_ex (\<lambda>p. rx_found p blob) DSN_HARD_WEAK \<or> rx_found (rxq ''~(failure~)'') subject then Hard
      else Unclear)"

subsection \<open>The thread\<close>

definition RE_PREFIX :: rx where "RE_PREFIX = rxq ''~b(?:re|fwd?|aw|sv)~s*:''"

definition outbound :: "message list \<Rightarrow> message list" where
  "outbound th = filter (\<lambda>m. \<not> mg_inbound m) th"

fun without_subjects :: "message list \<Rightarrow> str \<Rightarrow> str" where
  "without_subjects [] s = s"
| "without_subjects (m # ms) s =
     (let ours = py_strip (mg_subject m) in
      without_subjects ms (if \<not> mg_inbound m \<and> ours \<noteq> [] then py_replace ours '' '' s else s))"

definition own_subject_part :: "str \<Rightarrow> message list \<Rightarrow> str" where
  "own_subject_part subject th =
     py_strip (without_subjects th (case rx_search RE_PREFIX subject of Some m \<Rightarrow> take (rm_start m) subject | None \<Rightarrow> subject))"

definition last_opt :: "'a list \<Rightarrow> 'a option" where
  "last_opt xs = (if xs = [] then None else Some (last xs))"

definition last_outbound :: "message list \<Rightarrow> message option" where
  "last_outbound th = last_opt (outbound th)"

text \<open>The year, month and day of a day counted from the epoch, and the text of a date.\<close>

definition civil :: "int \<Rightarrow> int \<times> int \<times> int" where
  "civil n =
     (let z = n + 719468; era = z div 146097; doe = z mod 146097;
          yoe = (doe - doe div 1460 + doe div 36524 - doe div 146096) div 365;
          doy = doe - (365 * yoe + yoe div 4 - yoe div 100); mp = (5 * doy + 2) div 153;
          m = (if mp < 10 then mp + 3 else mp - 9)
      in (yoe + era * 400 + (if m \<le> 2 then 1 else 0), m, doy - (153 * mp + 2) div 5 + 1))"

definition pad0 :: "nat \<Rightarrow> int \<Rightarrow> str" where
  "pad0 w i = (let s = show_int i in replicate (w - length s) (CHR ''0'') @ s)"

definition iso_date :: "time \<Rightarrow> str" where
  "iso_date t = (case civil (day_of t) of (y, m, d) \<Rightarrow> pad0 4 y @ ''-'' @ pad0 2 m @ ''-'' @ pad0 2 d)"

definition pitch_part :: "message list \<Rightarrow> str list" where
  "pitch_part outs = (case outs of
      [] \<Rightarrow> []
    | m # _ \<Rightarrow>
        [''We first emailed on '' @ iso_date (mg_at m) @ pt '' (~'' @ one_line (mg_subject m) 80 @ pt ''~''
           @ (case given (mg_offer m) of Some x \<Rightarrow> '', offer: '' @ x | None \<Rightarrow> []) @ '').'']
        @ (if 1 < length outs
           then [show_nat (length outs) @ '' emails sent in total; the latest was a '' @ mg_kind (last outs) @ ''.''] else []))"

definition prior_part :: "message list \<Rightarrow> str list" where
  "prior_part ins = (if 1 < length ins
     then [pt ''Their previous reply: ~'' @ one_line (strip_quoted (mg_body (ins ! (length ins - 2)))) 140 @ pt ''~.''] else [])"

definition last_n :: "nat \<Rightarrow> 'a list \<Rightarrow> 'a list" where
  "last_n n xs = drop (length xs - n) xs"

definition price_part :: "sales_fact list \<Rightarrow> str list" where
  "price_part fs = (let prices = map sf_text (filter (\<lambda>f. sf_type f \<in> {''price_discussed'', ''price_objection''}) fs) in
     if prices = [] then [] else [''Prices already discussed: '' @ py_join ''; '' (last_n 3 prices) @ ''.''])"

definition conv_summary :: "message list \<Rightarrow> cstatus option \<Rightarrow> sales_fact list \<Rightarrow> str" where
  "conv_summary th st fs =
     (let s = py_join '' '' (pitch_part (outbound th) @ prior_part (filter mg_inbound th) @ price_part fs
                @ (case st of Some x \<Rightarrow> [''Status before this reply: '' @ cstatus_value x @ ''.''] | None \<Rightarrow> []))
      in if s = [] then ''No earlier messages on record for this company.'' else s)"

subsection \<open>Facts in a reply\<close>

definition REFERRAL_NONNAMES :: "str list" where
  "REFERRAL_NONNAMES = [''me'', ''us'', ''him'', ''her'', ''them'', ''the'', ''our'']"

definition referral_name :: "str \<Rightarrow> str option" where
  "referral_name s = (case rx_search REFERRAL_NAME s of
      None \<Rightarrow> None
    | Some m \<Rightarrow> (case List.map_filter (\<lambda>g. given (rm_group m g)) [1, 2, 3, 4, 5] of
        [] \<Rightarrow> None
      | name # _ \<Rightarrow> if py_lower name \<in> set REFERRAL_NONNAMES then None else Some name))"

definition found_texts :: "rx \<Rightarrow> str \<Rightarrow> str list" where
  "found_texts r s = map rm_text (rx_finditer r s)"

definition QUESTION_RE :: rx where "QUESTION_RE = rxc ''[^.?!~n]*~?''"

definition times_in :: "str \<Rightarrow> str option" where
  "times_in s = given (Some (py_join '', '' (sort (remdups (found_texts TIME_RE s)))))"

definition price_facts :: "str \<Rightarrow> hits \<Rightarrow> fact list" where
  "price_facts s hs =
     (let obj = (found_label L_OBJECTION hs \<and> rx_found (rxc ''too (expensive|much|pricey)|budget|afford'') (py_lower s)) in
      map (\<lambda>p. \<lparr>fa_type = (if obj then ''price_objection'' else ''price_discussed''),
                fa_text = ''Prospect mentioned '' @ py_strip p @ (if obj then '' as too expensive'' else []),
                fa_value = [(''amount_text'', VStr (py_strip p))]\<rparr>) (found_texts PRICE_RE s))"

definition objection_facts :: "str \<Rightarrow> hits \<Rightarrow> fact list \<Rightarrow> fact list" where
  "objection_facts s hs fs =
     (if list_ex (\<lambda>f. fa_type f = ''price_objection'') fs then []
      else map (\<lambda>p. \<lparr>fa_type = (if rx_found (rxq ''expensive|pricey|budget|afford|too much'') p then ''price_objection'' else ''objection''),
                     fa_text = sentence s p, fa_value = []\<rparr>) (phrases hs L_OBJECTION))"

definition decider_facts :: "str \<Rightarrow> fact list" where
  "decider_facts s =
     (let low = py_lower s in
      if rx_found (rxc ''~b(partner|wife|husband|boss|business partner)~b'') low
         \<and> rx_found (rxc ''~b(talk|check|run it by|discuss|approv|decid)'') low
      then [\<lparr>fa_type = ''decision_maker'',
             fa_text = sentence s (case rx_search (rxc ''partner|wife|husband|boss'') low of Some m \<Rightarrow> rm_text m | None \<Rightarrow> []),
             fa_value = []\<rparr>] else [])"

definition timing_facts :: "str \<Rightarrow> hits \<Rightarrow> fact list" where
  "timing_facts s hs =
     (if found_label L_NOT_NOW hs
      then (case rx_search MONTH_RE s of
          Some m \<Rightarrow> [\<lparr>fa_type = ''timing'', fa_text = ''Wants to revisit '' @ rm_text m, fa_value = [(''when'', VStr (rm_text m))]\<rparr>]
        | None \<Rightarrow> [\<lparr>fa_type = ''timing'', fa_text = ''Wants to revisit later'', fa_value = [(''when'', VNone)]\<rparr>])
      else [])"

definition preference_facts :: "str \<Rightarrow> fact list" where
  "preference_facts s =
     (if rx_found (rxc ''~b(by|via|over) (email|e-mail|text)~b|~bdon`?t call~b|~bemail (is|works) best~b|~bprefer (email|text)~b'')
           (py_lower s)
      then [\<lparr>fa_type = ''preference'',
             fa_text = one_line (case rx_search (rxq ''[^.?!~n]*(email|e-mail|text|call)[^.?!~n]*'') s of Some m \<Rightarrow> rm_text m | None \<Rightarrow> s) 200,
             fa_value = []\<rparr>] else [])"

definition scope_facts :: "str \<Rightarrow> fact list" where
  "scope_facts s =
     (case rx_search (rxq ''~b(?:only|just) (?:want|need|interested in) ([^.?!~n]{3,80})'') s of
        Some m \<Rightarrow> [\<lparr>fa_type = ''service_interest'', fa_text = ''Only wants '' @ py_strip (group1 m), fa_value = []\<rparr>] | None \<Rightarrow> [])
     @ (case rx_search (rxq ''~b(?:not|no|don`?t want)(?: a| any)? (website (?:rebuild|redesign)|new website|ads|advertising)~b'') s of
        Some m \<Rightarrow> [\<lparr>fa_type = ''scope_exclusion'', fa_text = ''Does not want '' @ group1 m, fa_value = []\<rparr>] | None \<Rightarrow> [])"

definition question_facts :: "str \<Rightarrow> fact list" where
  "question_facts s = map (\<lambda>q. \<lparr>fa_type = ''question'', fa_text = one_line (py_strip q) 200, fa_value = []\<rparr>)
     (take 3 (found_texts QUESTION_RE s))"

definition opt_str :: "str option \<Rightarrow> pyv" where
  "opt_str x = (case x of Some s \<Rightarrow> VStr s | None \<Rightarrow> VNone)"

definition referral_facts :: "str \<Rightarrow> str list \<Rightarrow> fact list" where
  "referral_facts s es = map (\<lambda>e. \<lparr>fa_type = ''referral'', fa_text = ''Referred to '' @ e,
     fa_value = [(''email'', VStr e), (''name'', opt_str (referral_name s))]\<rparr>) es"

definition meeting_facts :: "str \<Rightarrow> hits \<Rightarrow> fact list" where
  "meeting_facts s hs = (case phrases hs L_MEETING_REQUEST of
      [] \<Rightarrow> []
    | p # _ \<Rightarrow> [\<lparr>fa_type = ''meeting_request'', fa_text = one_line (sentence s p) 200, fa_value = [(''when'', opt_str (times_in s))]\<rparr>])"

definition extract_facts :: "str \<Rightarrow> hits \<Rightarrow> str list \<Rightarrow> fact list" where
  "extract_facts s hs other_emails =
     (let fs = price_facts s hs in
      fs @ (if found_label L_OBJECTION hs then objection_facts s hs fs else []) @ decider_facts s @ timing_facts s hs @ preference_facts s
      @ scope_facts s @ question_facts s @ referral_facts s other_emails @ meeting_facts s hs)"

subsection \<open>The verdict\<close>

text \<open>\<open>result\<close>: a verdict without the optional fields.\<close>

definition mk_clf :: "clabel \<Rightarrow> rat \<Rightarrow> str list \<Rightarrow> str \<Rightarrow> str \<Rightarrow> str \<Rightarrow> str option \<Rightarrow> str \<Rightarrow> clf" where
  "mk_clf label conf evidence summary interp action reason s =
     \<lparr>cl_label = label, cl_confidence = conf, cl_evidence = evidence, cl_summary = summary, cl_interpretation = interp,
      cl_action = action, cl_reason = reason, cl_secondary = [], cl_facts = [], cl_legal = False, cl_referral = None,
      cl_meeting = None, cl_text = s\<rparr>"

definition dsn_verdict :: "str \<Rightarrow> str \<Rightarrow> str \<Rightarrow> str \<Rightarrow> clf" where
  "dsn_verdict summary subject body s =
     (case dsn_kind subject body of
        Hard \<Rightarrow> mk_clf L_DELIVERY_FAILURE (97 / 100) [one_line subject 160] summary
          ''The email did not reach them (permanent bounce).''
          ''Stop emailing this address; find another contact if valuable.'' None s
      | Soft \<Rightarrow> mk_clf L_AUTO_REPLY (9 / 10) [one_line subject 160] summary
          ''Delivery is only delayed (temporary); the mail server is still trying. Nobody has answered.''
          ''No action. Nothing is suppressed for a delay.'' None s
      | Unclear \<Rightarrow> mk_clf L_NEEDS_REVIEW (3 / 10) [one_line subject 160] summary
          (pt ''A mail-server delivery notice that doesn`t clearly say the address is dead.'')
          ''Open it and check whether the email bounced. Nothing was suppressed.'' (Some ''delivery_notice_unclear'') s)"

definition back_note :: "str \<Rightarrow> str" where
  "back_note s = (case (case rx_search MONTH_RE s of Some m \<Rightarrow> Some m | None \<Rightarrow> rx_search TIME_RE s) of
     Some m \<Rightarrow> '' They mention being back: '' @ rm_text m @ ''.'' | None \<Rightarrow> [])"

definition auto_verdict :: "rat \<Rightarrow> str \<Rightarrow> str \<Rightarrow> str \<Rightarrow> clf" where
  "auto_verdict conf summary subject s =
     mk_clf L_AUTO_REPLY conf [if one_line subject 120 \<noteq> [] then one_line subject 120 else one_line s 120] summary
       ''Automatic out-of-office / receipt message; no human has answered yet.''
       (''No action. Keep the conversation as it was.'' @ back_note s) None s"

definition human_intent :: "hits \<Rightarrow> bool" where
  "human_intent hs \<longleftrightarrow> list_ex (\<lambda>l. found_label l hs) HUMAN_INTENT"

text \<open>Out-of-office wording: the text to go on with, and whether it is still taken for a machine's.\<close>

definition with_own_subject :: "str \<Rightarrow> message list \<Rightarrow> str \<Rightarrow> str" where
  "with_own_subject subject th s =
     (let own = own_subject_part subject th in
      if own \<noteq> [] \<and> rx_found AUTO_SUBJECT subject \<and> human_intent (scan own) then py_strip (own @ [CHR 0x0A] @ s) else s)"

text \<open>A short yes, against our last message.\<close>

definition quoted_price :: "message \<Rightarrow> str" where
  "quoted_price m = (case given (mg_price m) of Some p \<Rightarrow> p | None \<Rightarrow> ''the price in our last email'')"

definition cta_of :: "message \<Rightarrow> str" where
  "cta_of m = (case mg_cta m of Some x \<Rightarrow> x | None \<Rightarrow> [])"

definition ask_candidates :: "message \<Rightarrow> str list \<Rightarrow> (clabel \<times> str) list" where
  "ask_candidates m questions =
     (let asked = (if cta_of m \<noteq> [] then cta_of m else py_join '' '' questions) in
      map snd (filter (\<lambda>x. rx_found (fst x) asked) ASK_ACTIONS))"

fun ask_action :: "clabel \<Rightarrow> str" where
  "ask_action L_MORE_INFORMATION = ''Send what we offered (draft ready for approval).''"
| "ask_action L_MEETING_REQUEST = ''Confirm the time we proposed.''"
| "ask_action l = ''Send the pricing we offered (draft ready for approval).''"

definition said_to :: "str \<Rightarrow> str" where "said_to s = pt ''They said ~'' @ py_strip s @ pt ''~ ''"

definition yes_to_price :: "str \<Rightarrow> str \<Rightarrow> message \<Rightarrow> fact list \<Rightarrow> clf" where
  "yes_to_price summary s m extracted =
     (mk_clf L_READY_TO_BUY (75 / 100) [s, ''Our last email ('' @ mg_kind m @ '') quoted '' @ quoted_price m] summary
        (said_to s @ ''to our '' @ mg_kind m @ '' that quoted '' @ quoted_price m @ ''. Most likely agreeing to it.'')
        ''Confirm scope and send the payment/onboarding step - you approve first.'' None s)
     \<lparr>cl_facts := extracted @ [\<lparr>fa_type = ''commitment'', fa_text = pt ''Said ~'' @ py_strip s @ pt ''~ to '' @ quoted_price m,
        fa_value = [(''price'', VStr (quoted_price m))]\<rparr>]\<rparr>"

definition says_start :: "str \<Rightarrow> message \<Rightarrow> bool" where
  "says_start s m \<longleftrightarrow> cta_of m \<noteq> [] \<and> substr_in ''reply start'' (py_lower (cta_of m))
     \<and> strip_by (\<lambda>c. c = CHR ''.'' \<or> c = CHR ''!'') (py_lower (py_strip s)) = ''start''"

definition yes_to_ask :: "str \<Rightarrow> str \<Rightarrow> message \<Rightarrow> clabel \<times> str \<Rightarrow> clf" where
  "yes_to_ask summary s m ask =
     mk_clf (if fst ask = L_PRICE_QUESTION then L_INTERESTED else fst ask) (75 / 100)
       [s, ''Our question: '' @ one_line (cta_of m) 160] summary
       (said_to s @ ''to our one question ('' @ snd ask @ '').'') (ask_action (fst ask)) None s"

definition ambiguous_yes :: "str \<Rightarrow> str \<Rightarrow> nat \<Rightarrow> clf" where
  "ambiguous_yes summary s n =
     mk_clf L_NEEDS_REVIEW (3 / 10) [s, ''Our last email asked '' @ show_nat n @ '' question(s)''] summary
       (said_to s @ pt ''but our last email didn`t ask one clear yes/no question, so we can`t tell what they are agreeing to.'')
       ''Read the thread and reply personally. Nothing is sent automatically.'' (Some ''affirmation_ambiguous'') s"

definition affirmation :: "str \<Rightarrow> str \<Rightarrow> message option \<Rightarrow> fact list \<Rightarrow> clf" where
  "affirmation summary s last_out extracted =
     (case last_out of
        None \<Rightarrow> (mk_clf L_NEEDS_REVIEW (2 / 10) [s] summary (pt ''A one-word `yes` with no email of ours on record to answer.'')
                  ''Read the thread and decide.'' (Some ''affirmation_without_context'') s)\<lparr>cl_facts := extracted\<rparr>
      | Some m \<Rightarrow>
          if given (mg_price m) \<noteq> None \<or> mg_kind m = ''pricing'' \<or> mg_kind m = ''proposal'' then yes_to_price summary s m extracted
          else if says_start s m
          then (mk_clf L_READY_TO_BUY (8 / 10) [s, ''Our CTA: '' @ cta_of m] summary ''They replied START as our email asked.''
                  ''Send the onboarding/payment step - you approve first.'' None s)\<lparr>cl_facts := extracted\<rparr>
          else (let questions = found_texts QUESTION_RE (strip_quoted (mg_body m)); asks = ask_candidates m questions in
                (if cta_of m \<noteq> [] \<and> length asks = 1 \<and> length questions \<le> 1 then yes_to_ask summary s m (hd asks)
                 else ambiguous_yes summary s (length questions))\<lparr>cl_facts := extracted\<rparr>))"

text \<open>\<open>_meaning\<close>; a label that is not in the table is a \<open>KeyError\<close>.\<close>

definition prev_price :: "sales_fact list \<Rightarrow> str option" where
  "prev_price fs = map_option sf_text (last_opt (filter (\<lambda>f. sf_type f = ''price_discussed'') fs))"

definition pointed_to :: "str list \<times> str option \<Rightarrow> str" where
  "pointed_to r = (if fst r \<noteq> [] then py_join '', '' (fst r) else case snd r of Some n \<Rightarrow> n | None \<Rightarrow> ''None'')"

definition also_interested :: "clabel list \<Rightarrow> str \<Rightarrow> str" where
  "also_interested labels s = (if L_INTERESTED \<in> set labels then s else [])"

fun meaning :: "clabel \<Rightarrow> clabel list \<Rightarrow> str option \<Rightarrow> str list \<times> str option \<Rightarrow> str option \<Rightarrow> (str \<times> str) option" where
  "meaning L_INTERESTED labels price r meeting =
     Some (''They are positive about the offer and have not asked for anything specific yet.'',
           ''Send a short personal reply plus the mini audit (drafts ready for your approval).'')"
| "meaning L_PRICE_QUESTION labels price r meeting =
     Some (''They are asking what it costs'' @ also_interested labels '' and sound interested''
           @ '' - they have not rejected the offer.'' @ (case price of Some p \<Rightarrow> '' Earlier: '' @ p @ ''.'' | None \<Rightarrow> []),
           ''Send the pricing reply (draft ready for your approval).'')"
| "meaning L_MORE_INFORMATION labels price r meeting =
     Some (''They want to understand the offer better before deciding.'',
           ''Answer their question using the offer details (draft ready for your approval).'')"
| "meaning L_MEETING_REQUEST labels price r meeting =
     Some (''They want to talk live'' @ (case meeting of Some x \<Rightarrow> '' - they mentioned: '' @ x | None \<Rightarrow> []) @ ''.'',
           ''Coordinate the call time with them yourself.'')"
| "meaning L_READY_TO_BUY labels price r meeting =
     Some (''They are signalling they want to go ahead.'',
           ''Move to proposal/payment/onboarding - proposal draft is ready for your approval.'')"
| "meaning L_OBJECTION labels price r meeting =
     Some (''They raised a concern'' @ also_interested labels '' but still sound interested'' @ ''.'',
           ''Answer the specific concern (draft ready for your approval).'')"
| "meaning L_NOT_NOW labels price r meeting =
     Some (''Timing is wrong for them right now; not a no.'', ''Stop the cold sequence and follow up at the date they gave.'')"
| "meaning L_REFERRAL labels price r meeting =
     Some (''They pointed us to '' @ pointed_to r @ ''.'',
           ''Contact the referred person, mentioning who referred you (draft ready for approval).'')"
| "meaning L_WRONG_PERSON labels price r meeting =
     Some (pt ''This contact is not the right person, and they didn`t say who is.'',
           ''Stop emailing this address; find the owner another way.'')"
| "meaning L_NOT_INTERESTED labels price r meeting = Some (''They declined.'', ''Stop all follow-ups. No reply needed.'')"
| "meaning l labels price r meeting = None"

definition top_conf :: "(str \<times> rat) list \<Rightarrow> rat" where
  "top_conf h = fold max (map snd h) 0"

definition noted :: "clabel list \<Rightarrow> fact list \<Rightarrow> bool \<Rightarrow> clf \<Rightarrow> clf" where
  "noted secondary facts legal c = c\<lparr>cl_secondary := secondary, cl_facts := facts, cl_legal := legal\<rparr>"

definition labels_of :: "hits \<Rightarrow> clabel list" where
  "labels_of hs = filter (\<lambda>l. found_label l hs) PRIORITY"

definition evidence_of :: "str \<Rightarrow> hits \<Rightarrow> str list" where
  "evidence_of s hs = take 6 (concat (map (\<lambda>l. map (sentence s) (phrases hs l)) (labels_of hs)))"

definition positives :: "hits \<Rightarrow> clabel list" where
  "positives hs = filter (\<lambda>l. l \<in> set POSITIVE) (labels_of hs)"

definition primary_label :: "hits \<Rightarrow> str list \<Rightarrow> clabel" where
  "primary_label hs other_emails =
     (let p = hd (labels_of hs) in
      if p = L_WRONG_PERSON \<and> (found_label L_REFERRAL hs \<or> other_emails \<noteq> []) then L_REFERRAL else p)"

text \<open>The opt-out and the conflicts: a reply that is settled before its main label is looked at.\<close>

definition early_verdict :: "str \<Rightarrow> str \<Rightarrow> hits \<Rightarrow> str list \<Rightarrow> fact list \<Rightarrow> clf option" where
  "early_verdict summary s hs legal extracted =
     (let labels = labels_of hs; ev = evidence_of s hs in
      if found_label L_UNSUBSCRIBE hs then
        (if positives hs \<noteq> [] \<and> legal = []
         then Some (noted labels extracted (legal \<noteq> []) (mk_clf L_NEEDS_REVIEW (5 / 10) ev summary
                ''They used opt-out wording but also sounded positive - contradictory.''
                ''Read it. All sending to them is paused until you decide.'' (Some ''conflict_unsubscribe_and_positive'') s))
         else Some (noted (tl labels) extracted (legal \<noteq> [])
                (mk_clf L_UNSUBSCRIBE (case map_of hs L_UNSUBSCRIBE of Some h \<Rightarrow> top_conf h | None \<Rightarrow> 0) ev summary
                  (''They asked not to be emailed again.''
                     @ (if legal \<noteq> [] then '' The message is angry or mentions legal action.'' else []))
                  ''Do not contact again. Already suppressed; nothing else to send.'' None s)))
      else if found_label L_NOT_INTERESTED hs \<and> positives hs \<noteq> []
      then Some (noted labels extracted (legal \<noteq> []) (mk_clf L_NEEDS_REVIEW (45 / 100) ev summary
             ''The reply mixes a no with a positive signal.'' ''Read it and decide; follow-ups are paused.''
             (Some ''conflict_negative_and_positive'') s))
      else if legal \<noteq> [] \<and> \<not> found_label L_NOT_INTERESTED hs
      then Some (noted labels extracted True (mk_clf L_NEEDS_REVIEW (4 / 10) (ev @ take 2 legal) summary
             ''The message is angry or mentions legal/privacy concerns.'' ''Handle personally. All sending to them is paused.''
             (Some ''legal_or_angry'') s))
      else None)"

text \<open>The main label. \<open>hits[primary]\<close> is a \<open>KeyError\<close> when nothing was found for it.\<close>

definition primary_verdict ::
  "str \<Rightarrow> str \<Rightarrow> hits \<Rightarrow> str list \<Rightarrow> fact list \<Rightarrow> str list \<Rightarrow> sales_fact list \<Rightarrow> clf option" where
  "primary_verdict summary s hs legal extracted other_emails facts =
     (let labels = labels_of hs; primary = primary_label hs other_emails; name = referral_name s in
      if primary = L_REFERRAL \<and> other_emails = [] \<and> name = None
      then Some (noted labels extracted False (mk_clf L_NEEDS_REVIEW (5 / 10) (evidence_of s hs) summary
             ''They seem to point to someone else, but no name or email was clear.''
             ''Read it and note who to contact.'' (Some ''referral_unclear'') s))
      else case map_of hs primary of
        None \<Rightarrow> None
      | Some h \<Rightarrow> (case meaning primary labels (prev_price facts) (other_emails, name) (times_in s) of
          None \<Rightarrow> None
        | Some (interp, action) \<Rightarrow>
            Some ((noted (filter (\<lambda>l. l \<noteq> primary) labels) extracted (legal \<noteq> [])
                    (mk_clf primary (top_conf h) (evidence_of s hs) summary interp action None s))
                  \<lparr>cl_referral := (if primary = L_REFERRAL then Some (other_emails, name) else None),
                   cl_meeting := (if primary = L_MEETING_REQUEST then times_in s else None)\<rparr>)))"

definition legal_hits :: "str \<Rightarrow> str list" where
  "legal_hits s = map rm_text (List.map_filter (\<lambda>p. rx_search p s) LEGAL_OR_ANGRY)"

definition others_named :: "str \<Rightarrow> str \<Rightarrow> str list \<Rightarrow> str list" where
  "others_named s sender our =
     sort (remdups (filter (\<lambda>e. e \<noteq> sender \<and> e \<notin> set our) (map py_lower (found_texts EMAIL_RE s))))"

definition person_verdict ::
  "str \<Rightarrow> str \<Rightarrow> str \<Rightarrow> str list \<Rightarrow> message option \<Rightarrow> sales_fact list \<Rightarrow> clf option" where
  "person_verdict summary s sender our last_out facts =
     (if py_strip s = []
      then Some (mk_clf L_NEEDS_REVIEW 0 [] summary ''The reply has no new text we could read (maybe only an attachment or image).''
             ''Open the email and read it yourself.'' (Some ''empty_or_unreadable'') s)
      else (let legal = legal_hits s; hs = scan s; others = others_named s sender our; extracted = extract_facts s hs others in
        if rx_match AFFIRMATION (py_strip s) \<noteq> None then Some (affirmation summary s last_out extracted)
        else if hs = []
        then Some (noted [] extracted (legal \<noteq> []) (mk_clf L_NEEDS_REVIEW (3 / 10) [one_line s 200] summary
               ''No clear intent found in the reply.'' ''Read it and decide; nothing is sent automatically.''
               (Some ''no_recognised_intent'') s))
        else case early_verdict summary s hs legal extracted of
            Some c \<Rightarrow> Some c
          | None \<Rightarrow> primary_verdict summary s hs legal extracted others facts))"

definition ascii_quotes :: "str \<Rightarrow> str" where
  "ascii_quotes s = map (\<lambda>c. if c = CHR 0x92 then CHR 0x27 else c) s"

text \<open>\<open>classify\<close>: \<open>None\<close> is a \<open>KeyError\<close>.\<close>

definition classify_reply ::
  "(str \<Rightarrow> str) \<Rightarrow> inbound \<Rightarrow> message list \<Rightarrow> cstatus option \<Rightarrow> sales_fact list \<Rightarrow> str list \<Rightarrow> clf option" where
  "classify_reply pa ib th st facts our0 =
     (let our = map py_lower our0; subject = ascii_quotes (ib_subject ib); sender = addr pa (ib_sender ib);
          body = ascii_quotes (ib_body ib); s = strip_quoted body; summary = conv_summary th st facts in
      if is_dsn sender (ib_headers ib) then Some (dsn_verdict summary subject body s)
      else if auto_by_headers (ib_headers ib) then Some (auto_verdict (93 / 100) summary subject s)
      else if \<not> auto_by_words subject s then person_verdict summary s sender our (last_outbound th) facts
      else (let s1 = with_own_subject subject th s in
            if \<not> human_intent (scan s1) then Some (auto_verdict (9 / 10) summary subject s1)
            else person_verdict summary s1 sender our (last_outbound th) facts))"

subsection \<open>The label rests on the text\<close>

lemma scan_negative_labels: "fst ` set (snd (scan_negative ls st)) \<subseteq> set ls \<union> fst ` set (snd st)"
proof (induction ls st rule: scan_negative.induct)
  case (2 l ls masked hs)
  then show ?case by (auto simp: Let_def split: if_splits)
qed simp

lemma scan_labels_set: "fst ` set (scan_labels ls masked hs) \<subseteq> set ls \<union> fst ` set hs"
proof (induction ls masked hs rule: scan_labels.induct)
  case (2 l ls masked hs)
  then show ?case by (auto simp: Let_def split: if_splits)
qed simp

lemma scan_labels_known: "fst ` set (scan s) \<subseteq> set PRIORITY"
proof -
  obtain masked hs where sn: "scan_negative [L_UNSUBSCRIBE, L_NOT_INTERESTED] (blank_out IF_INTERESTED (blank_out DONT_CALL s), []) = (masked, hs)"
    by fastforce
  have "fst ` set hs \<subseteq> {L_UNSUBSCRIBE, L_NOT_INTERESTED}"
    using scan_negative_labels [of "[L_UNSUBSCRIBE, L_NOT_INTERESTED]" "(blank_out IF_INTERESTED (blank_out DONT_CALL s), [])"]
    unfolding sn by simp
  moreover have "{L_UNSUBSCRIBE, L_NOT_INTERESTED} \<subseteq> set PRIORITY" by (simp add: PRIORITY_def)
  ultimately show ?thesis using scan_labels_set [of PRIORITY masked hs] unfolding scan_def sn prod.case by blast
qed

lemma labels_of_Nil: "fst ` set hs \<subseteq> set PRIORITY \<Longrightarrow> labels_of hs = [] \<longleftrightarrow> hs = []"
proof (cases hs)
  case (Cons x xs)
  assume "fst ` set hs \<subseteq> set PRIORITY"
  then have "fst x \<in> set PRIORITY \<and> found_label (fst x) hs" using Cons by (auto simp: found_label_def)
  then have "fst x \<in> set (labels_of hs)" by (simp add: labels_of_def)
  then show ?thesis using Cons by auto
qed (simp add: labels_of_def found_label_def)

lemma found_iff: "found_label l hs \<longleftrightarrow> map_of hs l \<noteq> None"
  by (auto simp: found_label_def map_of_eq_None_iff)

lemma in_labels_of: "l \<in> set (labels_of hs) \<longleftrightarrow> l \<in> set PRIORITY \<and> found_label l hs"
  by (auto simp: labels_of_def)

lemma mk_clf_sel [simp]: "cl_label (mk_clf l conf ev sm i a r s) = l" "cl_text (mk_clf l conf ev sm i a r s) = s"
  "cl_reason (mk_clf l conf ev sm i a r s) = r"
  by (simp_all add: mk_clf_def)

lemma noted_sel [simp]: "cl_label (noted sec fs leg c) = cl_label c" "cl_text (noted sec fs leg c) = cl_text c"
  by (simp_all add: noted_def)

lemma meaning_None: "l \<in> set PRIORITY \<Longrightarrow> meaning l labels p r m = None \<longleftrightarrow> l = L_UNSUBSCRIBE"
  by (auto simp: PRIORITY_def)

lemma primary_None:
  assumes "hs \<noteq> []" and "fst ` set hs \<subseteq> set PRIORITY" and "\<not> found_label L_UNSUBSCRIBE hs"
  shows "primary_verdict summary s hs legal extracted others facts = None \<longleftrightarrow>
     hd (labels_of hs) = L_WRONG_PERSON \<and> \<not> found_label L_REFERRAL hs \<and> others \<noteq> []"
proof -
  let ?p = "hd (labels_of hs)"
  have "?p \<in> set (labels_of hs)" using assms(1) labels_of_Nil [OF assms(2)] by (intro hd_in_set) simp
  then have p: "?p \<in> set PRIORITY" "found_label ?p hs" by (simp_all add: in_labels_of)
  then have u: "?p \<noteq> L_UNSUBSCRIBE" using assms(3) by auto
  obtain h where h: "map_of hs ?p = Some h" using p(2) unfolding found_iff by auto
  obtain ia where m: "meaning ?p (labels_of hs) (prev_price facts) (others, referral_name s) (times_in s) = Some ia"
    using meaning_None [OF p(1)] u by fastforce
  obtain ib where r: "meaning L_REFERRAL (labels_of hs) (prev_price facts) (others, referral_name s) (times_in s) = Some ib" by simp
  show ?thesis
  proof (cases "?p = L_WRONG_PERSON \<and> (found_label L_REFERRAL hs \<or> others \<noteq> [])")
    case True
    then have pl: "primary_label hs others = L_REFERRAL" by (simp add: primary_label_def)
    show ?thesis unfolding primary_verdict_def Let_def pl r
      using True by (auto simp: found_iff split: option.splits prod.splits)
  next
    case False
    then have pl: "primary_label hs others = ?p" by (auto simp: primary_label_def Let_def)
    show ?thesis unfolding primary_verdict_def Let_def pl m h
      using False by (auto split: prod.splits)
  qed
qed

lemma wrong_person_first:
  assumes "hs \<noteq> []" and "fst ` set hs \<subseteq> set PRIORITY" and "hd (labels_of hs) = L_WRONG_PERSON"
  shows "\<not> found_label L_UNSUBSCRIBE hs \<and> \<not> found_label L_NOT_INTERESTED hs"
  using assms by (auto simp: labels_of_def PRIORITY_def split: if_splits)

lemma early_None: "early_verdict summary s hs legal extracted = None \<longleftrightarrow>
    \<not> found_label L_UNSUBSCRIBE hs \<and> \<not> (found_label L_NOT_INTERESTED hs \<and> positives hs \<noteq> [])
    \<and> (legal = [] \<or> found_label L_NOT_INTERESTED hs)"
  by (auto simp: early_verdict_def Let_def)

text \<open>C40. Exactly when the classifier fails on a person's text: it is a \<open>KeyError\<close> if and only if
  the reply says the person is wrong, names an address of someone else, matches no referral
  rule and no opt-out, no or legal wording. So a reply such as \<open>Wrong person. Try jane@other.com\<close>
  is never processed, although it is meant to become a referral.\<close>

theorem classifier_fails_exactly:
  "person_verdict summary s sender our last_out facts = None \<longleftrightarrow>
     py_strip s \<noteq> [] \<and> rx_match AFFIRMATION (py_strip s) = None \<and> scan s \<noteq> []
     \<and> hd (labels_of (scan s)) = L_WRONG_PERSON \<and> \<not> found_label L_REFERRAL (scan s)
     \<and> others_named s sender our \<noteq> [] \<and> legal_hits s = []"
proof -
  let ?hs = "scan s"
  let ?x = "extract_facts s ?hs (others_named s sender our)"
  note known = scan_labels_known [of s]
  show ?thesis
  proof (cases "py_strip s = [] \<or> rx_match AFFIRMATION (py_strip s) \<noteq> None \<or> ?hs = []")
    case True
    then show ?thesis by (auto simp: person_verdict_def Let_def)
  next
    case False
    then have v: "person_verdict summary s sender our last_out facts = (case early_verdict summary s ?hs (legal_hits s) ?x of
        Some c \<Rightarrow> Some c | None \<Rightarrow> primary_verdict summary s ?hs (legal_hits s) ?x (others_named s sender our) facts)"
      by (simp add: person_verdict_def Let_def)
    show ?thesis
    proof (cases "early_verdict summary s ?hs (legal_hits s) ?x")
      case (Some c)
      then have "\<not> (hd (labels_of ?hs) = L_WRONG_PERSON \<and> legal_hits s = [])"
        using early_None [of summary s ?hs "legal_hits s" ?x] wrong_person_first [OF _ known] False by auto
      then show ?thesis using v Some by simp
    next
      case None
      then have e: "\<not> found_label L_UNSUBSCRIBE ?hs" "legal_hits s = [] \<or> found_label L_NOT_INTERESTED ?hs"
        using early_None by auto
      have "hd (labels_of ?hs) = L_WRONG_PERSON \<Longrightarrow> legal_hits s = []"
        using e(2) wrong_person_first [OF _ known] False by blast
      then show ?thesis using v None False primary_None [OF _ known e(1)] by auto
    qed
  qed
qed

lemma early_label: "early_verdict summary s hs legal extracted = Some c \<Longrightarrow>
    cl_text c = s \<and> (cl_label c = L_NEEDS_REVIEW \<or> cl_label c = L_UNSUBSCRIBE \<and> found_label L_UNSUBSCRIBE hs)"
  by (auto simp: early_verdict_def Let_def split: if_splits)

lemma primary_label_found: "primary_verdict summary s hs legal extracted others facts = Some c \<Longrightarrow>
    cl_text c = s \<and> (cl_label c = L_NEEDS_REVIEW \<or> found_label (cl_label c) hs)"
  by (auto simp: primary_verdict_def Let_def found_iff split: if_splits option.splits prod.splits)

definition YES_LABELS :: "clabel list" where
  "YES_LABELS = [L_READY_TO_BUY, L_INTERESTED, L_MORE_INFORMATION, L_MEETING_REQUEST]"

lemma ask_labels: "ask \<in> set (ask_candidates m qs) \<Longrightarrow> fst ask \<in> {L_PRICE_QUESTION, L_MORE_INFORMATION, L_MEETING_REQUEST}"
proof -
  have "\<forall>x\<in>set ASK_ACTIONS. fst (snd x) \<in> {L_PRICE_QUESTION, L_MORE_INFORMATION, L_MEETING_REQUEST}"
    by (simp add: ASK_ACTIONS_def)
  moreover assume "ask \<in> set (ask_candidates m qs)"
  ultimately show ?thesis unfolding ask_candidates_def Let_def set_map set_filter by blast
qed

lemma ask_label: "length (ask_candidates m qs) = Suc 0 \<Longrightarrow>
    fst (hd (ask_candidates m qs)) \<in> {L_PRICE_QUESTION, L_MORE_INFORMATION, L_MEETING_REQUEST}"
  by (rule ask_labels [OF hd_in_set]) auto

lemma affirmation_label:
  "cl_text (affirmation summary s last_out x) = s
   \<and> (cl_label (affirmation summary s last_out x) = L_NEEDS_REVIEW
      \<or> cl_label (affirmation summary s last_out x) \<in> set YES_LABELS \<and> last_out \<noteq> None)"
proof (cases last_out)
  case None
  then show ?thesis by (simp add: affirmation_def)
next
  case (Some m)
  let ?q = "found_texts QUESTION_RE (strip_quoted (mg_body m))"
  show ?thesis
    using Some ask_label [of m ?q] by (auto simp: affirmation_def yes_to_price_def yes_to_ask_def ambiguous_yes_def YES_LABELS_def Let_def)
qed

lemma person_label:
  assumes "person_verdict summary s sender our last_out facts = Some c"
  shows "cl_text c = s \<and> (cl_label c = L_NEEDS_REVIEW \<or> found_label (cl_label c) (scan s)
     \<or> rx_match AFFIRMATION (py_strip s) \<noteq> None \<and> cl_label c \<in> set YES_LABELS \<and> last_out \<noteq> None)"
  using assms early_label primary_label_found
    affirmation_label [of summary s last_out "extract_facts s (scan s) (others_named s sender our)"]
  unfolding person_verdict_def Let_def
  by (fastforce split: if_splits option.splits)

lemma dsn_label: "cl_label (dsn_verdict summary subject body s) \<in> {L_DELIVERY_FAILURE, L_AUTO_REPLY, L_NEEDS_REVIEW}"
  by (simp add: dsn_verdict_def split: dsn.splits)

text \<open>A label is never a guess: whatever comes in, the verdict is for review; or a machine's (a
  bounce only for a delivery report of a mail server, an automatic reply only on a machine's
  headers or wording); or the text the verdict is about matches a rule of that very label; or
  it is a bare yes to a message of ours, read as one of four answers.\<close>

theorem label_never_guessed:
  "case classify_reply pa ib th st facts our of
     None \<Rightarrow> True
   | Some c \<Rightarrow>
       cl_label c = L_NEEDS_REVIEW
       \<or> cl_label c \<in> {L_DELIVERY_FAILURE, L_AUTO_REPLY} \<and> is_dsn (addr pa (ib_sender ib)) (ib_headers ib)
       \<or> cl_label c = L_AUTO_REPLY
          \<and> (auto_by_headers (ib_headers ib)
             \<or> auto_by_words (ascii_quotes (ib_subject ib)) (strip_quoted (ascii_quotes (ib_body ib))))
       \<or> found_label (cl_label c) (scan (cl_text c))
       \<or> cl_label c \<in> set YES_LABELS \<and> rx_match AFFIRMATION (py_strip (cl_text c)) \<noteq> None \<and> last_outbound th \<noteq> None"
proof (cases "classify_reply pa ib th st facts our")
  case None
  then show ?thesis by simp
next
  case (Some c)
  let ?s = "strip_quoted (ascii_quotes (ib_body ib))"
  let ?subject = "ascii_quotes (ib_subject ib)"
  consider "is_dsn (addr pa (ib_sender ib)) (ib_headers ib)"
    | "\<not> is_dsn (addr pa (ib_sender ib)) (ib_headers ib)" "auto_by_headers (ib_headers ib)"
    | "\<not> is_dsn (addr pa (ib_sender ib)) (ib_headers ib)" "\<not> auto_by_headers (ib_headers ib)" by blast
  then show ?thesis
  proof cases
    case 1
    then show ?thesis using Some dsn_label by (fastforce simp: classify_reply_def Let_def)
  next
    case 2
    then show ?thesis using Some by (auto simp: classify_reply_def Let_def auto_verdict_def)
  next
    case 3
    then consider s1 sender our' where "person_verdict (conv_summary th st facts) s1 sender our' (last_outbound th) facts = Some c"
      | "cl_label c = L_AUTO_REPLY" "auto_by_words ?subject ?s"
      using Some by (auto simp: classify_reply_def Let_def auto_verdict_def split: if_splits)
    then show ?thesis
    proof cases
      case 1
      from person_label [OF this] show ?thesis unfolding Some by auto
    next
      case 2
      then show ?thesis unfolding Some by simp
    qed
  qed
qed

end
