(* ===== verification/ConvActions.thy ===== *)
theory ConvActions
  imports ConvClassify
begin

text \<open>
  \<open>src/cloudos/conversations/actions.py\<close>: the next action of each label and the drafts. What the code
  reads of \<open>config/brightreach_offers.yaml\<close>, the default offer and the hosted one, is the argument
  \<open>cat\<close>; every offer there but the one for Google reviews has a guarantee. A company's personalization is the JSON object of its column. In the texts a backtick
  stands for the source's apostrophe and a tilde for its quotation mark.
\<close>

record offer =
  of_key :: str
  of_name :: str
  of_price_text :: str
  of_deliverables :: "str list"
  of_timeline :: "str option"
  of_guarantee :: "str option"
  of_monthly :: "rat option"
  of_responsibilities :: "str list"

record catalogue =
  cg_default :: offer
  cg_hosted :: offer

type_synonym draft_text = "str \<times> str \<times> pydict"

fun NEXT_ACTION :: "clabel \<Rightarrow> str \<times> str" where
  "NEXT_ACTION L_INTERESTED = (''reply_with_audit'', ''Send a short personal reply plus the mini audit'')"
| "NEXT_ACTION L_PRICE_QUESTION = (''send_pricing'', ''Send the pricing reply'')"
| "NEXT_ACTION L_MORE_INFORMATION = (''answer_question'', ''Answer their question from the offer details'')"
| "NEXT_ACTION L_MEETING_REQUEST = (''coordinate_meeting'', ''Coordinate the call time they asked for'')"
| "NEXT_ACTION L_READY_TO_BUY = (''send_proposal'', ''Send proposal / payment / onboarding step'')"
| "NEXT_ACTION L_OBJECTION = (''handle_objection'', ''Answer their specific concern'')"
| "NEXT_ACTION L_REFERRAL = (''contact_referral'', ''Contact the referred person, mentioning who referred us'')"
| "NEXT_ACTION L_NOT_NOW = (''follow_up_later'', ''Follow up at the time they gave'')"
| "NEXT_ACTION L_WRONG_PERSON = (''find_right_contact'', ''Find the right person another way'')"
| "NEXT_ACTION L_NOT_INTERESTED = (''stop'', ''Stop all follow-ups'')"
| "NEXT_ACTION L_UNSUBSCRIBE = (''do_not_contact'', ''Never contact again'')"
| "NEXT_ACTION L_AUTO_REPLY = (''none'', ''Nothing - wait for a human reply'')"
| "NEXT_ACTION L_DELIVERY_FAILURE = (''find_new_address'', ''Address bounced - find another contact if worth it'')"
| "NEXT_ACTION L_OTHER = (''owner_review'', ''Read and decide'')"
| "NEXT_ACTION L_NEEDS_REVIEW = (''owner_review'', ''Read and decide - no automated response'')"

fun ACTION_NEEDED :: "clabel \<Rightarrow> str" where
  "ACTION_NEEDED L_INTERESTED = ''Approve the prepared reply + audit''"
| "ACTION_NEEDED L_PRICE_QUESTION = ''Approve the prepared pricing reply''"
| "ACTION_NEEDED L_MORE_INFORMATION = ''Review / approve the prepared answer''"
| "ACTION_NEEDED L_MEETING_REQUEST = ''Reply manually to set the time''"
| "ACTION_NEEDED L_READY_TO_BUY = ''Approve the proposal, then collect payment''"
| "ACTION_NEEDED L_OBJECTION = ''Review / approve the prepared answer''"
| "ACTION_NEEDED L_REFERRAL = ''Approve the intro email to the referred person''"
| "ACTION_NEEDED L_NEEDS_REVIEW = ''Read it and reply manually''"
| "ACTION_NEEDED L_OTHER = ''Read it''"
| "ACTION_NEEDED l = ''None''"

definition facts_by :: "sales_fact list \<Rightarrow> str list \<Rightarrow> str list" where
  "facts_by fs types = map sf_text (filter (\<lambda>f. sf_type f \<in> set types) fs)"

subsection \<open>What the lead engine saw\<close>

fun dict_of :: "pyv \<Rightarrow> pydict" where
  "dict_of (VDict d) = d"
| "dict_of v = []"

fun text_of :: "pyv \<Rightarrow> str" where
  "text_of (VStr s) = s"
| "text_of v = []"

definition personal :: "company \<Rightarrow> pydict" where "personal r = dict_of (co_personalization r)"

definition text_or :: "str \<Rightarrow> str \<Rightarrow> str" where "text_or s dflt = (if s = [] then dflt else s)"

definition text_at :: "pydict \<Rightarrow> str \<Rightarrow> str" where "text_at d k = text_of (dget d k)"

definition review_facts :: "pydict \<Rightarrow> (str \<times> str) list" where
  "review_facts p = (let rv = dict_of (dget p ''review_campaign''); src = text_or (text_at rv ''source'') ''Google Maps'' in
     (if text_at rv ''exact_evidence'' \<noteq> [] then [(text_at rv ''exact_evidence'', src)] else [])
     @ (if text_at rv ''competitor_context'' \<noteq> [] then [(text_at rv ''competitor_context'', src)] else []))"

definition show_pages :: "pyv \<Rightarrow> str" where
  "show_pages v = (case v of VInt i \<Rightarrow> show_int i | VStr s \<Rightarrow> s | _ \<Rightarrow> ''?'')"

definition contact_form_facts :: "pydict \<Rightarrow> str \<Rightarrow> (str \<times> str) list" where
  "contact_form_facts p src =
     (if dget p ''has_contact_form'' = VBool False
      then [(''No contact / quote-request form was found on the pages we read.'', show_pages (dget_or p ''pages_read'' (VStr ''?'')) @ '' pages of '' @ src)]
      else if dget p ''has_contact_form'' = VBool True then [(''The site has a contact form.'', src)] else [])"

definition booking_facts :: "company \<Rightarrow> str \<Rightarrow> (str \<times> str) list" where
  "booking_facts r src =
     (let b = text_at (personal r) ''online_booking'' in
      if b \<noteq> [] then [(pt ''Booking on the site is: ~'' @ b @ pt ''~ (a request, not instant self-booking).'', src)]
      else if substr_in ''no online booking'' (case co_qual_reason r of Some q \<Rightarrow> q | None \<Rightarrow> [])
      then [(''No online booking or quote request was found.'', src)] else [])"

definition website_facts :: "company \<Rightarrow> (str \<times> str) list" where
  "website_facts r =
     (let p = personal r;
          src = text_or (text_at p ''evidence_url'') (text_or (case co_website r of Some w \<Rightarrow> w | None \<Rightarrow> []) ''their website'')
      in review_facts p @ contact_form_facts p src @ booking_facts r src
         @ (if dget p ''has_chat_or_call_tracking'' = VBool False
            then [(''No chat, text-back or call-tracking widget was found.'', src)] else [])
         @ (if substr_in ''call'' (py_lower (text_at p ''site_description''))
            then [(''The site sends visitors to call the office.'', ''site description on '' @ src)] else []))"

subsection \<open>Drafts\<close>

definition lines_of :: "str list \<Rightarrow> str" where "lines_of ls = py_join [CHR 0x0A] ls"

definition re_subject :: "company \<Rightarrow> str" where "re_subject r = ''Re: '' @ co_name r"

definition pricing_reply :: "catalogue \<Rightarrow> company \<Rightarrow> sales_fact list \<Rightarrow> str \<Rightarrow> draft_text" where
  "pricing_reply cat r fs question =
     (let o1 = cg_default cat in
      if of_key o1 = ''google_reviews_maps'' then
        (re_subject r,
         lines_of [''Hi there,'', [],
           pt ''It`s '' @ of_price_text o1 @ ''. That includes the review-request workflow, review monitoring and responses, plus ongoing Google Maps visibility work.'',
           [], ''Want me to send the short personalized breakdown first?'', [], ''Matt''],
         [(''offer'', VStr (of_key o1)), (''price_text'', VStr (of_price_text o1)), (''question'', VStr question)])
      else
        (let h = cg_hosted cat; objections = facts_by fs [''price_objection''];
             ls = [''Thanks for asking. The '' @ of_name o1 @ '' is '' @ of_price_text o1 @ ''. That covers:'']
                  @ map (\<lambda>d. ''- '' @ d) (of_deliverables o1)
                  @ [[], pt ''If you`d rather not look after it yourself, '' @ of_name h @ '' is '' @ of_price_text h @ ''.'', [],
                     (case of_guarantee o1 of Some g \<Rightarrow> g | None \<Rightarrow> []), [], ''Want me to send over the next step?'', [], ''Matt'']
         in (''Re: pricing for '' @ co_name r,
             lines_of ([''Hi there,'', []]
               @ (if objections \<noteq> [] then [''(You mentioned budget earlier - happy to talk through what matters most to you first.)''] else [])
               @ ls),
             [(''offer'', VStr (of_key o1)), (''price_text'', VStr (of_price_text o1)), (''question'', VStr question),
              (''prior_price_objections'', VList (map VStr objections))])))"

definition first_three :: "offer \<Rightarrow> str" where
  "first_three o1 = py_join ''; '' (map py_lower (take 3 (of_deliverables o1)))"

definition reply_lines :: "catalogue \<Rightarrow> company \<Rightarrow> sales_fact list \<Rightarrow> clabel \<Rightarrow> str \<Rightarrow> str list" where
  "reply_lines cat r fs label words =
     (let o1 = cg_default cat; q = facts_by fs [''question'']; obs = website_facts r in
      if label = L_OBJECTION then
        [''Totally fair question. [OWNER: answer the specific concern below before sending.]'', pt ''Their concern: ~'' @ words @ pt ''~'']
      else if label = L_MORE_INFORMATION then
        (''Good question. In short: '' @ of_name o1 @ '' does three things - '' @ first_three o1 @ ''.'')
        # (if q \<noteq> [] then [pt ''[OWNER: confirm this answers ~'' @ last q @ pt ''~.]''] else [])
      else
        (pt ''Glad it sounded useful. Here`s what I noticed on '' @ text_or (case co_website r of Some w \<Rightarrow> w | None \<Rightarrow> []) ''your site'' @ '':'')
        # (if obs = [] then [''- [OWNER: add one specific observation]''] else map (\<lambda>f. ''- '' @ fst f) (take 3 obs))
        @ [[], pt ''That`s the gap the '' @ of_name o1 @ '' closes: '' @ first_three o1 @ ''.''])"

fun label_value :: "clabel \<Rightarrow> str" where
  "label_value L_INTERESTED = ''INTERESTED''"
| "label_value L_PRICE_QUESTION = ''PRICE_QUESTION''"
| "label_value L_MORE_INFORMATION = ''MORE_INFORMATION''"
| "label_value L_MEETING_REQUEST = ''MEETING_REQUEST''"
| "label_value L_READY_TO_BUY = ''READY_TO_BUY''"
| "label_value L_OBJECTION = ''OBJECTION''"
| "label_value L_NOT_NOW = ''NOT_NOW''"
| "label_value L_REFERRAL = ''REFERRAL''"
| "label_value L_WRONG_PERSON = ''WRONG_PERSON''"
| "label_value L_NOT_INTERESTED = ''NOT_INTERESTED''"
| "label_value L_UNSUBSCRIBE = ''UNSUBSCRIBE''"
| "label_value L_AUTO_REPLY = ''AUTO_REPLY''"
| "label_value L_DELIVERY_FAILURE = ''DELIVERY_FAILURE''"
| "label_value L_OTHER = ''OTHER''"
| "label_value L_NEEDS_REVIEW = ''NEEDS_REVIEW''"

definition obs_value :: "(str \<times> str) list \<Rightarrow> pyv" where
  "obs_value obs = VList (map (\<lambda>(f, e). VList [VStr f, VStr e]) obs)"

definition personal_reply :: "catalogue \<Rightarrow> company \<Rightarrow> sales_fact list \<Rightarrow> clabel \<Rightarrow> str \<Rightarrow> draft_text" where
  "personal_reply cat r fs label words =
     (re_subject r,
      lines_of ([''Hi there,'', []] @ reply_lines cat r fs label words
        @ [[], ''Want me to send a short breakdown for your business?'', [], ''Matt'']),
      [(''label'', VStr (label_value label)), (''observations'', obs_value (website_facts r))])"

definition video_request_reply :: "company \<Rightarrow> draft_text" where
  "video_request_reply r =
     (re_subject r,
      lines_of [''Hi there,'', [],
        ''Absolutely '' @ [CHR 0x97] @ '' I'' @ [CHR 0x92] @ ''ll put the short personalized breakdown together and send it here as soon as it''
          @ [CHR 0x92] @ ''s ready.'', [], ''Matt''],
      [(''video_requested'', VBool True), (''video_produced'', VBool False)])"

definition google :: "catalogue \<Rightarrow> bool" where "google cat \<longleftrightarrow> of_key (cg_default cat) = ''google_reviews_maps''"

definition SAID_TYPES :: "str list" where
  "SAID_TYPES = [''question'', ''objection'', ''price_objection'', ''service_interest'', ''scope_exclusion'', ''preference'', ''timing'',
     ''decision_maker'']"

definition bullets :: "str list \<Rightarrow> str list" where "bullets xs = map (\<lambda>x. ''- '' @ x) xs"

definition or_else :: "'a list \<Rightarrow> 'a list \<Rightarrow> 'a list" where "or_else xs ys = (if xs = [] then ys else xs)"

definition audit_why :: "catalogue \<Rightarrow> str list" where
  "audit_why cat = [[], ''## 3. Why it matters (INFERENCE)'',
     (if google cat
      then ''- Review quantity, recency and owner responses can affect customer trust and how competitive the business looks in local results. No ranking or revenue outcome is promised.''
      else pt ''- When a caller or visitor can`t get an instant answer or booking, some of them contact the next company. We have NOT measured how often this happens for this business.'')]"

definition audit_outcome :: "catalogue \<Rightarrow> str list" where
  "audit_outcome cat = [[], ''## 7. Expected outcome (INFERENCE, not a promise)'']
     @ (if google cat
        then [''- A steady, policy-compliant review workflow and a stronger local profile. No ranking, review-volume, or revenue result is guaranteed.'']
        else [''- Missed calls get an instant text-back and a booking link, so fewer enquiries go unanswered. No revenue or lead numbers are claimed.'',
              ''- Guarantee: '' @ (case of_guarantee (cg_default cat) of Some g \<Rightarrow> g | None \<Rightarrow> ''None'')])"

definition audit :: "catalogue \<Rightarrow> company \<Rightarrow> sales_fact list \<Rightarrow> draft_text" where
  "audit cat r fs =
     (let o1 = cg_default cat; obs = website_facts r; said = facts_by fs SAID_TYPES; excluded = facts_by fs [''scope_exclusion''] in
      (''Quick audit for '' @ co_name r,
       lines_of ([''# Mini audit - '' @ co_name r, [], ''## 1. What we observed (FACT)'']
         @ or_else (bullets (map fst obs)) [''- No website observations on record. [OWNER: add one before sending]'']
         @ [[], ''## 2. Evidence''] @ or_else (map (\<lambda>(f, e). ''- '' @ f @ '' - source: '' @ e) obs) [''- none on record'']
         @ (if said \<noteq> [] then [[], ''What they told us (FACT, from the email thread):''] @ bullets said else [])
         @ audit_why cat @ [[], ''## 4. Recommended BrightReach solution'', ''- '' @ of_name o1]
         @ [[], ''## 5. Deliverables''] @ bullets (of_deliverables o1) @ [[], ''## 6. Price'', ''- '' @ of_price_text o1]
         @ (if google cat then [] else [''- Optional: '' @ of_name (cg_hosted cat) @ '' '' @ of_price_text (cg_hosted cat)])
         @ audit_outcome cat @ [[], ''## 8. Next action'', pt ''- Reply to confirm and I`ll send the setup steps.'']
         @ (if excluded \<noteq> [] then [[], ''Scope notes (they said): '' @ py_join ''; '' excluded] else [])),
       [(''observations'', obs_value obs), (''said'', VList (map VStr said))]))"

definition proposal :: "catalogue \<Rightarrow> company \<Rightarrow> sales_fact list \<Rightarrow> draft_text" where
  "proposal cat r fs =
     (let o1 = cg_default cat; obs = website_facts r; wants = facts_by fs [''service_interest'']; excluded = facts_by fs [''scope_exclusion''];
          problem = (case obs of [] \<Rightarrow> ''[OWNER: state the problem they confirmed]'' | x # _ \<Rightarrow> fst x)
      in (''Proposal for '' @ co_name r,
          lines_of ([''# Proposal - '' @ co_name r, [], ''**Identified problem:** '' @ problem, ''**Solution:** '' @ of_name o1, [], ''**Deliverables:**'']
            @ bullets (of_deliverables o1)
            @ (if wants \<noteq> [] then [[], ''**What you asked for:** '' @ py_join ''; '' wants] else [])
            @ (if excluded \<noteq> [] then [''**Not included (per your request):** '' @ py_join ''; '' excluded] else [])
            @ [[], ''**'' @ (if (case of_monthly o1 of Some m \<Rightarrow> m \<noteq> 0 | None \<Rightarrow> False) then ''Monthly price'' else ''Setup price'') @ '':** ''
                 @ of_price_text o1,
               ''**Implementation timeline:** '' @ (case given (of_timeline o1) of Some t \<Rightarrow> t | None \<Rightarrow> ''[OWNER: confirm timeline before sending]''),
               [], ''**Your part (confirm on kickoff):**'']
            @ bullets (of_responsibilities o1)
            @ (case given (of_guarantee o1) of Some g \<Rightarrow> [[], ''**Guarantee:** '' @ g] | None \<Rightarrow> [])
            @ [[], pt ''**Next step:** reply ~approved~ and I`ll send the invoice and kickoff steps.'']),
          [(''offer'', VStr (of_key o1)), (''price'', VStr (of_price_text o1)), (''problem'', VStr problem)]))"

definition referral_intro :: "company \<Rightarrow> str list \<times> str option \<Rightarrow> str \<Rightarrow> draft_text" where
  "referral_intro r ref referrer =
     (co_name r @ '' - '' @ referrer @ '' suggested I reach out'',
      lines_of [''Hi '' @ (case given (snd ref) of Some n \<Rightarrow> n | None \<Rightarrow> ''there'') @ '','', [],
        referrer @ '' at '' @ co_name r @ '' suggested I reach out to you.'',
        ''[OWNER: one line on why, from the original thread]'', [], ''Would it be worth a quick look?'', [], ''Matt''],
      [(''referral'', VDict [(''emails'', VList (map VStr (fst ref))), (''name'', opt_str (snd ref))])])"

end
