(* ===== verification/ConvNotify.thy ===== *)
theory ConvNotify
  imports ConvStore
begin

text \<open>
  \<open>src/cloudos/conversations/notify.py\<close>: the owner's notifications, each under a dedupe key.
  What the relay answers is the argument \<open>post\<close>, from the severity and the text to success and
  receipt; the second component of a result lists what was posted. The post and the statement that marks the row
  are two steps: the flag \<open>mark\<close> says whether the \<open>UPDATE\<close> and its commit go through after the post, or
  fail (or the process dies), which leaves the row as it was and raises.
\<close>

type_synonym poster = "str \<Rightarrow> str \<Rightarrow> bool \<times> str"

definition NOTIFY_LABELS :: "clabel list" where
  "NOTIFY_LABELS = [L_INTERESTED, L_PRICE_QUESTION, L_MORE_INFORMATION, L_MEETING_REQUEST, L_READY_TO_BUY, L_OBJECTION,
     L_REFERRAL, L_NEEDS_REVIEW]"

definition record_link :: "str \<Rightarrow> str \<Rightarrow> str option \<Rightarrow> str option" where
  "record_link base table rec_id = (case given rec_id of None \<Rightarrow> None
     | Some r \<Rightarrow> Some (''https://airtable.com/'' @ base @ ''/'' @ table @ ''/'' @ r))"

definition find_note :: "str \<Rightarrow> conv \<Rightarrow> owner_note option" where
  "find_note k c = find (\<lambda>n. nn_key n = k) (cv_notes c)"

definition insert_note :: "owner_note \<Rightarrow> conv \<Rightarrow> bool \<times> conv" where
  "insert_note n c = (if find_note (nn_key n) c \<noteq> None then (False, c) else (True, c\<lparr>cv_notes := cv_notes c @ [n]\<rparr>))"

definition delivered_row :: "time \<Rightarrow> bool \<times> str \<Rightarrow> owner_note \<Rightarrow> owner_note" where
  "delivered_row now r n = n\<lparr>nn_delivered := fst r, nn_delivered_at := (if fst r then Some now else None),
     nn_receipt := Some (clip 200 (snd r)), nn_attempts := nn_attempts n + 1\<rparr>"

text \<open>\<open>_deliver\<close>: \<open>None\<close> when the row could not be marked.\<close>

definition mark_row :: "time \<Rightarrow> bool \<times> str \<Rightarrow> int \<Rightarrow> conv \<Rightarrow> conv" where
  "mark_row now r i c = c\<lparr>cv_notes := upd_where (\<lambda>n. nn_id n = i) (delivered_row now r) (cv_notes c)\<rparr>"

definition deliver :: "bool \<Rightarrow> time \<Rightarrow> poster \<Rightarrow> int \<Rightarrow> str \<Rightarrow> str \<Rightarrow> conv \<Rightarrow> bool option \<times> conv" where
  "deliver mark now post i severity txt c =
     (let r = post severity (clip 4000 txt) in
      if mark then (Some (fst r), mark_row now r i c) else (None, c))"

definition new_note :: "int \<Rightarrow> time \<Rightarrow> str \<Rightarrow> str \<Rightarrow> str \<Rightarrow> str \<Rightarrow> str option \<Rightarrow> owner_note" where
  "new_note i now key code severity txt company =
     \<lparr>nn_id = i, nn_ts = now, nn_key = key, nn_severity = severity, nn_code = code, nn_message = txt, nn_company = company,
      nn_delivered = False, nn_delivered_at = None, nn_receipt = None, nn_attempts = 0\<rparr>"

text \<open>\<open>notify_once\<close>: whether the row was created, and whether it was delivered; \<open>(True, None)\<close> is a created row
  whose mark failed. The row is committed before the post. The other operations of the conversations meet a
  database whose statements go through: they use \<open>notify_once\<close>, the call whose mark does.\<close>

definition notify_call ::
  "bool \<Rightarrow> poster \<Rightarrow> time \<Rightarrow> int \<Rightarrow> str \<Rightarrow> str \<Rightarrow> str \<Rightarrow> str \<Rightarrow> str option \<Rightarrow> bool \<Rightarrow> conv \<Rightarrow> (bool \<times> bool option) \<times> str list \<times> conv" where
  "notify_call mark post now i key code severity txt company do_deliver c =
     (case insert_note (new_note i now key code severity txt company) c of
        (False, c1) \<Rightarrow> ((False, None), [], c1)
      | (True, c1) \<Rightarrow>
          if \<not> do_deliver then ((True, Some False), [], c1)
          else (case deliver mark now post i severity txt c1 of (ok, c2) \<Rightarrow> ((True, ok), [key], c2)))"

definition notify_once ::
  "poster \<Rightarrow> time \<Rightarrow> int \<Rightarrow> str \<Rightarrow> str \<Rightarrow> str \<Rightarrow> str \<Rightarrow> str option \<Rightarrow> bool \<Rightarrow> conv \<Rightarrow> (bool \<times> bool option) \<times> str list \<times> conv" where
  "notify_once post now i key code severity txt company do_deliver c =
     notify_call True post now i key code severity txt company do_deliver c"

definition FLUSH_LIMIT :: nat where "FLUSH_LIMIT = 50"

definition flushable :: "nat \<Rightarrow> owner_note \<Rightarrow> bool" where
  "flushable max_attempts n \<longleftrightarrow> \<not> nn_delivered n \<and> startswith (nn_key n) ''br:'' \<and> nn_attempts n < max_attempts"

text \<open>The rows of a flush, up to the first that cannot be marked: how many were delivered, and which were posted.\<close>

fun flush_notes_rows :: "(int \<Rightarrow> bool) \<Rightarrow> time \<Rightarrow> poster \<Rightarrow> owner_note list \<Rightarrow> nat \<Rightarrow> conv \<Rightarrow> nat option \<times> owner_note list \<times> conv" where
  "flush_notes_rows marks now post [] n c = (Some n, [], c)"
| "flush_notes_rows marks now post (r # rs) n c =
     (case deliver (marks (nn_id r)) now post (nn_id r) (nn_severity r) (nn_message r) c of
        (None, c1) \<Rightarrow> (None, [r], c1)
      | (Some ok, c1) \<Rightarrow> (case flush_notes_rows marks now post rs (n + (if ok then 1 else 0)) c1 of
          (x, posted, c2) \<Rightarrow> (x, r # posted, c2)))"

text \<open>\<open>flush\<close>: the number retried and the number delivered, unless a mark failed, and the rows posted.\<close>

definition flush_due :: "nat \<Rightarrow> conv \<Rightarrow> owner_note list" where
  "flush_due max_attempts c = take FLUSH_LIMIT (order_by nn_ts (filter (flushable max_attempts) (cv_notes c)))"

definition flush_undelivered ::
  "(int \<Rightarrow> bool) \<Rightarrow> time \<Rightarrow> poster \<Rightarrow> nat \<Rightarrow> conv \<Rightarrow> (nat \<times> nat) option \<times> owner_note list \<times> conv" where
  "flush_undelivered marks now post max_attempts c =
     (let rows = flush_due max_attempts c in
      case flush_notes_rows marks now post rows 0 c of (n, posted, c1) \<Rightarrow> (map_option (\<lambda>n. (length rows, n)) n, posted, c1))"

subsection \<open>Each event is told once, and once more for a mark that was lost\<close>

definition notes_wf :: "conv \<Rightarrow> bool" where
  "notes_wf c \<longleftrightarrow> distinct (map nn_key (cv_notes c)) \<and> distinct (map nn_id (cv_notes c))"

lemma delivered_row_simps [simp]:
  "nn_delivered (delivered_row now r n) = fst r" "nn_key (delivered_row now r n) = nn_key n"
  "nn_id (delivered_row now r n) = nn_id n"
  by (simp_all add: delivered_row_def)

lemma mark_row_notes [simp]: "cv_notes (mark_row now r i c) = upd_where (\<lambda>n. nn_id n = i) (delivered_row now r) (cv_notes c)"
  by (simp add: mark_row_def)

lemma mark_row_wf [simp]: "notes_wf (mark_row now r i c) = notes_wf c"
proof -
  have "map nn_key (cv_notes (mark_row now r i c)) = map nn_key (cv_notes c)" "map nn_id (cv_notes (mark_row now r i c)) = map nn_id (cv_notes c)"
    by (auto simp: upd_where_def)
  then show ?thesis by (simp add: notes_wf_def)
qed

text \<open>A run of the notifier, one call after the other: new events and flushes in any order, each with the relay's answers at that
  moment and the marks that go through. \<open>told\<close> lists by key what was posted successfully, and of that what was not marked.\<close>

datatype notifier_call =
    Tell bool poster time int str str str str "str option" bool
  | Flush "int \<Rightarrow> bool" poster time nat

definition posts_ok :: "poster \<Rightarrow> owner_note \<Rightarrow> bool" where
  "posts_ok post n \<longleftrightarrow> fst (post (nn_severity n) (clip 4000 (nn_message n)))"

fun told :: "notifier_call \<Rightarrow> conv \<Rightarrow> str list \<times> str list \<times> conv" where
  "told (Tell mark post now i key code severity txt company dl) c =
     (case notify_call mark post now i key code severity txt company dl c of
        (r, keys, c1) \<Rightarrow> (let ks = (if fst (post severity (clip 4000 txt)) then keys else []) in (ks, if mark then [] else ks, c1)))"
| "told (Flush marks post now m) c =
     (case flush_undelivered marks now post m c of (x, posted, c1) \<Rightarrow>
        (map nn_key (filter (posts_ok post) posted), map nn_key (filter (\<lambda>r. posts_ok post r \<and> \<not> marks (nn_id r)) posted), c1))"

fun fresh_call :: "notifier_call \<Rightarrow> conv \<Rightarrow> bool" where
  "fresh_call (Tell mark post now i key code severity txt company dl) c = (i \<notin> nn_id ` set (cv_notes c))"
| "fresh_call (Flush marks post now m) c = True"

fun told_all :: "notifier_call list \<Rightarrow> conv \<Rightarrow> str list \<times> str list \<times> conv" where
  "told_all [] c = ([], [], c)"
| "told_all (x # xs) c = (case told x c of (ks, ls, c1) \<Rightarrow> (case told_all xs c1 of (ks', ls', c2) \<Rightarrow> (ks @ ks', ls @ ls', c2)))"

fun fresh_calls :: "notifier_call list \<Rightarrow> conv \<Rightarrow> bool" where
  "fresh_calls [] c = True"
| "fresh_calls (x # xs) c = (fresh_call x c \<and> fresh_calls xs (snd (snd (told x c))))"

text \<open>Whether an event is marked as delivered.\<close>

definition settled :: "conv \<Rightarrow> str \<Rightarrow> nat" where
  "settled c k = (if list_ex (\<lambda>n. nn_key n = k \<and> nn_delivered n) (cv_notes c) then 1 else 0)"

lemma settled_iff: "settled c k = (if \<exists>n\<in>set (cv_notes c). nn_key n = k \<and> nn_delivered n then 1 else 0)"
  by (simp add: settled_def list_ex_iff)

lemma same_note: "notes_wf c \<Longrightarrow> n \<in> set (cv_notes c) \<Longrightarrow> m \<in> set (cv_notes c) \<Longrightarrow> nn_key n = nn_key m \<Longrightarrow> n = m"
  unfolding notes_wf_def distinct_map inj_on_def by blast

lemma same_note_id: "notes_wf c \<Longrightarrow> n \<in> set (cv_notes c) \<Longrightarrow> m \<in> set (cv_notes c) \<Longrightarrow> nn_id n = nn_id m \<Longrightarrow> n = m"
  unfolding notes_wf_def distinct_map inj_on_def by blast

text \<open>Marking an undelivered row settles its event, and no other.\<close>

lemma mark_settles:
  assumes wf: "notes_wf c" and n: "n \<in> set (cv_notes c)" and open_: "\<not> nn_delivered n"
  shows "settled (mark_row now r (nn_id n) c) k = settled c k + (if fst r \<and> k = nn_key n then 1 else 0)"
proof -
  let ?f = "\<lambda>m. if nn_id m = nn_id n then delivered_row now r m else m"
  have one: "nn_id m = nn_id n \<longleftrightarrow> m = n" if "m \<in> set (cv_notes c)" for m
    using same_note_id [OF wf that n] by blast
  have "(\<exists>m\<in>set (cv_notes (mark_row now r (nn_id n) c)). nn_key m = k \<and> nn_delivered m)
      \<longleftrightarrow> (\<exists>m\<in>set (cv_notes c). nn_key (?f m) = k \<and> nn_delivered (?f m))"
    unfolding mark_row_notes set_upd_where by (simp only: bex_simps)
  also have "\<dots> \<longleftrightarrow> (\<exists>m\<in>set (cv_notes c). nn_key m = k \<and> (if m = n then fst r else nn_delivered m))"
    by (rule bex_cong [OF refl]) (simp add: one)
  also have "\<dots> \<longleftrightarrow> (\<exists>m\<in>set (cv_notes c). nn_key m = k \<and> nn_delivered m) \<or> (fst r \<and> k = nn_key n)"
    using n open_ by (cases "fst r"; simp; metis)
  finally have e: "(\<exists>m\<in>set (cv_notes (mark_row now r (nn_id n) c)). nn_key m = k \<and> nn_delivered m)
      \<longleftrightarrow> (\<exists>m\<in>set (cv_notes c). nn_key m = k \<and> nn_delivered m) \<or> (fst r \<and> k = nn_key n)" .
  have "\<not> (\<exists>m\<in>set (cv_notes c). nn_key m = nn_key n \<and> nn_delivered m)"
    using same_note [OF wf _ n] open_ by blast
  then show ?thesis unfolding settled_iff e by auto
qed

definition owed :: "conv \<Rightarrow> owner_note list \<Rightarrow> bool" where
  "owed c rs \<longleftrightarrow> distinct (map nn_id rs)
     \<and> (\<forall>r\<in>set rs. \<exists>n\<in>set (cv_notes c). nn_id n = nn_id r \<and> nn_key n = nn_key r \<and> \<not> nn_delivered n)"

lemma owed_step:
  assumes o: "owed c (r # rs)"
  shows "owed (mark_row now a (nn_id r) c) rs"
proof -
  have "\<exists>n'\<in>set (cv_notes (mark_row now a (nn_id r) c)).
          nn_id n' = nn_id x \<and> nn_key n' = nn_key x \<and> \<not> nn_delivered n'" if x: "x \<in> set rs" for x
  proof -
    obtain n where n: "n \<in> set (cv_notes c)" "nn_id n = nn_id x" "nn_key n = nn_key x" "\<not> nn_delivered n"
      using o x unfolding owed_def by auto
    have "nn_id x \<noteq> nn_id r" using o imageI [OF x, of nn_id] unfolding owed_def by auto
    then have "nn_id n \<noteq> nn_id r" using n(2) by simp
    then have "n \<in> set (cv_notes (mark_row now a (nn_id r) c))"
      unfolding mark_row_notes set_upd_where using n(1) by force
    then show ?thesis using n by blast
  qed
  then show ?thesis using o unfolding owed_def by auto
qed

text \<open>The account of a call: an event told is either settled by it or its mark was lost.\<close>

definition balanced :: "conv \<Rightarrow> str list \<times> str list \<times> conv \<Rightarrow> bool" where
  "balanced c x \<longleftrightarrow> (case x of (ks, ls, c') \<Rightarrow> notes_wf c'
     \<and> (\<forall>k. count_list ks k + settled c k = count_list ls k + settled c' k))"

lemma balanced_trans: "balanced c (ks, ls, c1) \<Longrightarrow> balanced c1 (ks', ls', c2) \<Longrightarrow> balanced c (ks @ ks', ls @ ls', c2)"
  by (simp add: balanced_def) (metis add.assoc add.commute)

lemma balanced_deliver:
  assumes "notes_wf c" and "n \<in> set (cv_notes c)" and "\<not> nn_delivered n"
    and "deliver mark now post (nn_id n) sv t c = (x, c')"
    and "ks = (if fst (post sv (clip 4000 t)) then [nn_key n] else [])"
  shows "balanced c (ks, if mark then [] else ks, c')"
proof -
  define r where "r = post sv (clip 4000 t)"
  have "c' = (if mark then mark_row now r (nn_id n) c else c)" using assms(4) by (auto simp: deliver_def Let_def r_def)
  then show ?thesis
    unfolding assms(5) balanced_def r_def [symmetric] using assms(1) mark_settles [OF assms(1-3), of now r] by (cases mark; simp)
qed

lemma flush_rows_balanced:
  assumes "notes_wf c" and "owed c rs" and "flush_notes_rows marks now post rs n c = (x, ps, c')"
  shows "balanced c (map nn_key (filter (posts_ok post) ps), map nn_key (filter (\<lambda>r. posts_ok post r \<and> \<not> marks (nn_id r)) ps), c')"
  using assms
proof (induction rs arbitrary: n c x ps)
  case Nil
  then show ?case by (simp add: balanced_def)
next
  case (Cons r rs)
  obtain m where m: "m \<in> set (cv_notes c)" "nn_id m = nn_id r" "nn_key m = nn_key r" "\<not> nn_delivered m"
    using Cons.prems(2) unfolding owed_def by auto
  obtain ok c1 where d: "deliver (marks (nn_id r)) now post (nn_id r) (nn_severity r) (nn_message r) c = (ok, c1)" by fastforce
  have b: "balanced c (if posts_ok post r then [nn_key r] else [], if marks (nn_id r) then [] else if posts_ok post r then [nn_key r] else [], c1)"
    using balanced_deliver [OF Cons.prems(1) m(1,4), unfolded m(2,3), OF d refl] by (simp only: posts_ok_def)
  show ?case
  proof (cases ok)
    case None
    then have "ps = [r]" "c' = c1" "\<not> marks (nn_id r)" using Cons.prems(3) d by (auto simp: deliver_def Let_def split: if_splits)
    then show ?thesis using b by (simp split: if_splits)
  next
    case (Some o')
    then obtain ps' where rest: "flush_notes_rows marks now post rs (n + (if o' then 1 else 0)) c1 = (x, ps', c')" and ps: "ps = r # ps'"
      using Cons.prems(3) d by (auto split: prod.splits)
    have mk: "marks (nn_id r)" and c1: "c1 = mark_row now (post (nn_severity r) (clip 4000 (nn_message r))) (nn_id r) c"
      using d Some by (auto simp: deliver_def Let_def split: if_splits)
    have "notes_wf c1" "owed c1 rs" using Cons.prems(1) owed_step [OF Cons.prems(2)] by (simp_all add: c1)
    from balanced_trans [OF b Cons.IH [OF this rest]] show ?thesis unfolding ps using mk by (auto split: if_splits)
  qed
qed

lemma due_rows: "r \<in> set (flush_due m c) \<Longrightarrow> r \<in> set (cv_notes c) \<and> \<not> nn_delivered r"
  unfolding flush_due_def order_by_def by (drule in_set_takeD) (simp add: flushable_def)

lemma distinct_due:
  assumes "distinct (map f (cv_notes c))"
  shows "distinct (map f (flush_due m c))"
proof -
  have i: "inj_on f (set (cv_notes c))" and d: "distinct (cv_notes c)"
    using assms by (simp_all add: distinct_map)
  have "set (flush_due m c) \<subseteq> set (cv_notes c)" using due_rows by blast
  then show ?thesis using inj_on_subset [OF i] d
    by (simp add: distinct_map flush_due_def order_by_def)
qed

lemma due_owed: "notes_wf c \<Longrightarrow> owed c (flush_due m c)"
  unfolding owed_def using due_rows distinct_due [of nn_id] notes_wf_def by blast

lemma find_note_None: "find_note k c = None \<longleftrightarrow> k \<notin> nn_key ` set (cv_notes c)"
  unfolding find_note_def find_None_iff by auto

lemma told_tell:
  assumes "notes_wf c" and "fresh_call (Tell mark post now i key code sv txt co dl) c"
  shows "balanced c (told (Tell mark post now i key code sv txt co dl) c)"
proof (cases "find_note key c = None")
  case False
  then show ?thesis using assms(1) by (simp add: notify_call_def insert_note_def new_note_def balanced_def)
next
  case True
  define n where "n = new_note i now key code sv txt co"
  let ?c = "c\<lparr>cv_notes := cv_notes c @ [n]\<rparr>"
  have n: "nn_id n = i" "nn_key n = key" "\<not> nn_delivered n" "n \<in> set (cv_notes ?c)" by (simp_all add: n_def new_note_def)
  have ins: "insert_note n c = (True, ?c)" using True n by (simp add: insert_note_def)
  have k: "key \<notin> nn_key ` set (cv_notes c)" using True by (simp only: find_note_None not_False_eq_True)
  have w: "notes_wf ?c" using assms(1,2) k n by (simp add: notes_wf_def)
  have s: "settled ?c = settled c" using n(3) by (simp add: settled_def fun_eq_iff)
  show ?thesis
  proof (cases dl)
    case False
    then show ?thesis using w s ins by (simp add: notify_call_def n_def balanced_def)
  next
    case True
    obtain x c' where d: "deliver mark now post i sv txt ?c = (x, c')" by fastforce
    have "balanced ?c (if fst (post sv (clip 4000 txt)) then [key] else [], if mark then [] else if fst (post sv (clip 4000 txt)) then [key] else [], c')"
      using balanced_deliver [OF w n(4,3), unfolded n(1,2), OF d refl] .
    then have "balanced c (if fst (post sv (clip 4000 txt)) then [key] else [], if mark then [] else if fst (post sv (clip 4000 txt)) then [key] else [], c')"
      unfolding balanced_def s .
    then show ?thesis using True d ins by (cases mark) (simp_all add: notify_call_def n_def Let_def split: if_splits)
  qed
qed

lemma told_step: "notes_wf c \<Longrightarrow> fresh_call x c \<Longrightarrow> balanced c (told x c)"
proof (cases x)
  case (Flush marks post now m)
  assume wf: "notes_wf c"
  obtain y ps c' where f: "flush_notes_rows marks now post (flush_due m c) 0 c = (y, ps, c')" by (metis prod_cases3)
  show ?thesis using flush_rows_balanced [OF wf due_owed [OF wf] f] by (simp add: Flush flush_undelivered_def Let_def f)
qed (use told_tell in blast)

text \<open>C33. Nobody is told twice, as long as the marks go through: over any run of new events and flushes, with the relay and
  the marks failing however they like, the successful posts of an event are exactly as many as its lost marks, and one
  more if the run settled it. So an event whose marks all go through is told at most once, one that was settled before the run is
  never told again, and each mark lost after a post lets it be told once more. (One call at a time: two flushes at once are
  not covered.)\<close>

theorem events_told_once:
  assumes "notes_wf c" and "fresh_calls xs c" and "told_all xs c = (ks, ls, c')"
  shows "count_list ks k + settled c k = count_list ls k + settled c' k \<and> settled c' k \<le> 1"
proof -
  have "balanced c (told_all xs c)" using assms(1,2)
  proof (induction xs arbitrary: c)
    case Nil
    then show ?case by (simp add: balanced_def)
  next
    case (Cons x xs)
    obtain ks1 ls1 c1 where t: "told x c = (ks1, ls1, c1)" by (metis prod_cases3)
    obtain ks2 ls2 c2 where ts: "told_all xs c1 = (ks2, ls2, c2)" by (metis prod_cases3)
    have b: "balanced c (ks1, ls1, c1)" using told_step [OF Cons.prems(1), of x] Cons.prems(2) t by simp
    then have "balanced c1 (ks2, ls2, c2)" using Cons.IH [of c1] Cons.prems(2) t ts by (simp add: balanced_def)
    from balanced_trans [OF b this] show ?case by (simp add: t ts)
  qed
  then show ?thesis unfolding assms(3) balanced_def by (simp add: settled_def)
qed

definition no_conv :: conv where
  "no_conv = \<lparr>cv_companies = [], cv_contacts = [], cv_messages = [], cv_states = [], cv_transitions = [], cv_facts = [],
     cv_suppressions = [], cv_attention = [], cv_drafts = [], cv_history = [], cv_deals = [], cv_notes = [], cv_analyses = []\<rparr>"

definition relay_down :: poster where "relay_down s t = (False, ''ConnectError'')"

definition relay_up :: poster where "relay_up s t = (True, ''HTTP 204'')"

definition demo_calls :: "notifier_call list" where
  "demo_calls = [Tell True relay_down 1 1 ''br:won:c1'' ''deal.won'' ''high'' ''deal won'' None True,
     Tell True relay_up 2 2 ''br:won:c1'' ''deal.won'' ''high'' ''deal won'' None True,
     Flush (\<lambda>i. True) relay_up 3 5, Flush (\<lambda>i. True) relay_up 4 5]"

theorem events_told_once_witness:
  "fst (told_all demo_calls no_conv) = [''br:won:c1'']
   \<and> settled no_conv ''br:won:c1'' = 0 \<and> settled (snd (snd (told_all demo_calls no_conv))) ''br:won:c1'' = 1"
proof -
  have h: "notes_wf no_conv" "fresh_calls demo_calls no_conv" "fst (told_all demo_calls no_conv) = [''br:won:c1'']"
    "fst (snd (told_all demo_calls no_conv)) = []" "settled no_conv ''br:won:c1'' = 0"
    by code_simp+
  obtain ks ls c' where t: "told_all demo_calls no_conv = (ks, ls, c')" by (metis prod_cases3)
  have "ks = [''br:won:c1'']" "ls = []" using h(3,4) by (simp_all add: t)
  then show ?thesis using events_told_once [OF h(1,2) t, of "''br:won:c1''"] h(5) by (simp add: t)
qed

text \<open>A mark that is lost after a post makes the next flush post again, whatever was committed before.\<close>

definition lost_mark_calls :: "notifier_call list" where
  "lost_mark_calls = [Tell False relay_up 1 1 ''br:won:c1'' ''deal.won'' ''high'' ''deal won'' None True, Flush (\<lambda>i. True) relay_up 3 5]"

theorem lost_mark_tells_again: "fst (told_all lost_mark_calls no_conv) = [''br:won:c1'', ''br:won:c1'']"
  by code_simp

end
