(* ===== verification/SendGuard.thy ===== *)
theory SendGuard
  imports ConvStore Contracts
begin

text \<open>
  The send guard: the database function \<open>outreach_send_check\<close> of
  \<open>db/migrations/008_send_guard_normalized.sql\<close>, which every sender asks right before it
  sends, and its wrappers in \<open>conversations/store.py\<close> and \<open>conversations/guard.py\<close>.
\<close>

subsection \<open>Addresses\<close>

text \<open>SQL's \<open>trim\<close> takes blanks, \<open>split_part\<close> a field counted from one.\<close>

definition sql_trim :: "str \<Rightarrow> str" where
  "sql_trim s = strip_by (\<lambda>c. c = CHR '' '') s"

definition split_part :: "char \<Rightarrow> nat \<Rightarrow> str \<Rightarrow> str" where
  "split_part c n s = (let ps = split_on c s in if n \<le> length ps \<and> 0 < n then ps ! (n - 1) else [])"

definition norm_email :: "str \<Rightarrow> str" where
  "norm_email p =
     (let e = py_lower (sql_trim p);
          l = split_part (CHR ''+'') 1 (split_part (CHR ''@'') 1 e);
          d = split_part (CHR ''@'') 2 e
      in if CHR ''@'' \<notin> set e then e
         else (if d = ''gmail.com'' \<or> d = ''googlemail.com'' then filter (\<lambda>c. c \<noteq> CHR ''.'') l else l)
              @ ''@'' @ (if d = ''googlemail.com'' then ''gmail.com'' else d))"

definition ADDRESS_RE :: rx where "ADDRESS_RE = rx plain_flags ''^[^@~s]+@[^@~s]+~.[^@~s]+~Z''"

definition valid_email :: "str \<Rightarrow> bool" where
  "valid_email p \<longleftrightarrow> rx_found ADDRESS_RE (py_lower (sql_trim p))"

definition GUARD_KINDS :: "str list" where
  "GUARD_KINDS = [''cold'', ''followup'', ''reply'', ''pricing'', ''audit'', ''proposal'', ''referral_intro'', ''objection'']"

subsection \<open>The check\<close>

record guard_answer =
  ga_allowed :: bool
  ga_reasons :: "str list"
  ga_company :: "str option"
  ga_status :: "str option"

definition refusal :: "str \<Rightarrow> guard_answer" where
  "refusal reason = \<lparr>ga_allowed = False, ga_reasons = [reason], ga_company = None, ga_status = None\<rparr>"

text \<open>The company an address belongs to. A query without an order takes the first row.\<close>

definition latest_with :: "str \<Rightarrow> message list \<Rightarrow> message option" where
  "latest_with n ms = least_by (\<lambda>m. - mg_at m)
     (filter (\<lambda>m. mg_company m \<noteq> None \<and> (norm_email (mg_recipient m) = n \<or> norm_email (mg_sender m) = n)) ms)"

definition company_for :: "conv \<Rightarrow> str \<Rightarrow> str option \<Rightarrow> str option" where
  "company_for c email given_company =
     (let n = norm_email email; d = split_part (CHR ''@'') 2 n in
      case given_company of Some i \<Rightarrow> Some i
      | None \<Rightarrow> (case find (\<lambda>k. norm_email (ct_email k) = n) (cv_contacts c) of Some k \<Rightarrow> Some (ct_company k)
        | None \<Rightarrow> (case latest_with n (cv_messages c) of Some m \<Rightarrow> mg_company m
          | None \<Rightarrow> if d = [] then None
                    else map_option co_id (find (\<lambda>r. co_norm_domain r = Some d) (cv_companies c)))))"

definition address_reasons :: "conv \<Rightarrow> str \<Rightarrow> str list" where
  "address_reasons c n =
     (let d = split_part (CHR ''@'') 2 n in
      (if list_ex (\<lambda>s. map_option norm_email (su_email s) = Some n) (cv_suppressions c) then [''email_suppressed''] else [])
      @ (if d \<noteq> [] \<and> list_ex (\<lambda>s. su_domain s = Some d) (cv_suppressions c) then [''domain_suppressed''] else []))"

definition state_reasons :: "str \<Rightarrow> bool \<Rightarrow> conv_state \<Rightarrow> str list" where
  "state_reasons kind generic st =
     (if cs_dnc st \<or> cs_status st = Do_not_contact then [''do_not_contact''] else [])
     @ (if cs_status st = Needs_review then [''needs_review_pending''] else [])
     @ (if cs_bounced st \<and> generic then [''bounced''] else [])
     @ (if generic \<and> cs_status st \<notin> set PRE_REPLY
        then [''status_'' @ cstatus_value (cs_status st) @ ''_stops_generic_sequence''] else [])
     @ (if generic \<and> cs_status st = Emailed \<and> \<not> cs_cold st \<and> kind = ''followup'' then [''sequence_stopped''] else [])"

definition opted_out_company :: "conv \<Rightarrow> str \<Rightarrow> bool" where
  "opted_out_company c i \<longleftrightarrow> (case company_row c i of Some r \<Rightarrow> co_outreach r = ''unsubscribed'' \<or> co_outreach r = ''do_not_contact''
     | None \<Rightarrow> False)"

definition human_reply :: "str \<Rightarrow> message \<Rightarrow> bool" where
  "human_reply i m \<longleftrightarrow> mg_company m = Some i \<and> mg_inbound m \<and> mg_kind m \<noteq> ''auto_reply'' \<and> mg_kind m \<noteq> ''bounce''"

definition owner_item :: "str \<Rightarrow> attention \<Rightarrow> bool" where
  "owner_item i a \<longleftrightarrow> at_company a = Some i \<and> at_open a
     \<and> (at_code a = ''legal_or_angry'' \<or> at_code a = ''conflict_unsubscribe_and_positive'')"

definition company_reasons :: "conv \<Rightarrow> str \<Rightarrow> bool \<Rightarrow> str \<Rightarrow> str list" where
  "company_reasons c kind generic i =
     (if list_ex (\<lambda>s. su_company s = Some i) (cv_suppressions c) then [''company_suppressed''] else [])
     @ (case state_row c i of Some st \<Rightarrow> state_reasons kind generic st
        | None \<Rightarrow> if opted_out_company c i then [''do_not_contact''] else [])
     @ (if generic \<and> list_ex (human_reply i) (cv_messages c) then [''reply_received''] else [])
     @ (if list_ex (owner_item i) (cv_attention c) then [''owner_must_handle''] else [])"

definition email_or :: "str option \<Rightarrow> str" where
  "email_or e = (case e of Some s \<Rightarrow> s | None \<Rightarrow> [])"

definition contacted_before :: "conv \<Rightarrow> str \<Rightarrow> str option \<Rightarrow> bool" where
  "contacted_before c n company \<longleftrightarrow>
     list_ex (\<lambda>m. \<not> mg_inbound m \<and> ((company \<noteq> None \<and> mg_company m = company) \<or> norm_email (mg_recipient m) = n)) (cv_messages c)
     \<or> list_ex (\<lambda>h. hi_status h = ''sent''
            \<and> ((company \<noteq> None \<and> hi_company h = company) \<or> norm_email (email_or (hi_email h)) = n)) (cv_history c)
     \<or> list_ex (\<lambda>r. company = Some (co_id r) \<and> co_first_contacted r \<noteq> None) (cv_companies c)"

definition first_touch_known :: "conv \<Rightarrow> str \<Rightarrow> bool" where
  "first_touch_known c n \<longleftrightarrow>
     list_ex (\<lambda>h. norm_email (email_or (hi_email h)) = n \<and> hi_status h = ''sent'') (cv_history c)"

definition guard_reasons :: "conv \<Rightarrow> str \<Rightarrow> str \<Rightarrow> str option \<Rightarrow> str list" where
  "guard_reasons c email kind company =
     (let n = norm_email email; generic = (kind = ''cold'' \<or> kind = ''followup'') in
      address_reasons c n
      @ (case company of Some i \<Rightarrow> company_reasons c kind generic i | None \<Rightarrow> [])
      @ (if kind = ''cold'' \<and> contacted_before c n company then [''already_contacted''] else [])
      @ (if kind = ''followup'' \<and> company = None \<and> \<not> first_touch_known c n then [''no_first_touch_on_record''] else []))"

definition status_shown :: "conv \<Rightarrow> str option \<Rightarrow> str option" where
  "status_shown c company = (case company of None \<Rightarrow> None
     | Some i \<Rightarrow> (case state_row c i of Some st \<Rightarrow> Some (cstatus_value (cs_status st))
         | None \<Rightarrow> if opted_out_company c i then Some ''do_not_contact'' else None))"

definition send_check :: "conv \<Rightarrow> str \<Rightarrow> str \<Rightarrow> str option \<Rightarrow> guard_answer" where
  "send_check c email kind company =
     (if kind \<notin> set GUARD_KINDS then refusal ''unknown_kind''
      else if \<not> valid_email email then refusal ''invalid_email''
      else (let i = company_for c email company; rs = guard_reasons c email kind i in
            \<lparr>ga_allowed = (rs = []), ga_reasons = rs, ga_company = i, ga_status = status_shown c i\<rparr>))"

subsection \<open>The wrappers\<close>

text \<open>What comes back from the database: an exception, or a value, of which only a mapping with
  a literal \<open>true\<close> lets a message go.\<close>

definition check_fail_closed :: "str + pyv \<Rightarrow> pydict" where
  "check_fail_closed r =
     (case r of
        Inl ty \<Rightarrow> [(''allowed'', VBool False), (''reasons'', VList [VStr ''guard_error'']), (''error'', VStr ty)]
      | Inr (VDict d) \<Rightarrow>
          if dget d ''allowed'' = VBool True then d
          else (let d1 = dput d ''allowed'' (VBool False) in
                if map_of d1 ''reasons'' = None then d1 @ [(''reasons'', VList [VStr ''guard_error''])] else d1)
      | Inr v \<Rightarrow> [(''allowed'', VBool False), (''reasons'', VList [VStr ''guard_error'']),
                  (''error'', VStr ''unexpected guard answer'')])"

text \<open>\<open>outreach_allowed\<close>: the outer \<open>Inl\<close> is a database that cannot be reached.\<close>

definition outreach_allowed :: "str + (str + pyv) \<Rightarrow> pydict" where
  "outreach_allowed r =
     (case r of
        Inl ty \<Rightarrow> [(''allowed'', VBool False), (''reasons'', VList [VStr ''guard_unreachable'']), (''error'', VStr ty)]
      | Inr a \<Rightarrow> check_fail_closed a)"

definition guard_value :: "guard_answer \<Rightarrow> pyv" where
  "guard_value g = VDict [(''allowed'', VBool (ga_allowed g)), (''reasons'', VList (map VStr (ga_reasons g))),
     (''company_id'', vopt VStr (ga_company g)), (''status'', vopt VStr (ga_status g))]"

text \<open>C32. The guard fails closed: whatever the database does, the answer has a boolean verdict,
  and the verdict lets a message go only if the database was reached and answered with a
  mapping whose verdict was literally true; every other answer is a refusal with a reason.\<close>

theorem guard_fails_closed:
  "(\<exists>b. map_of (outreach_allowed r) ''allowed'' = Some (VBool b))
   \<and> (map_of (outreach_allowed r) ''allowed'' = Some (VBool True) \<longleftrightarrow>
        (\<exists>d. r = Inr (Inr (VDict d)) \<and> map_of d ''allowed'' = Some (VBool True)))
   \<and> (map_of (outreach_allowed r) ''allowed'' = Some (VBool True) \<or> (\<exists>rs. map_of (outreach_allowed r) ''reasons'' = Some rs))"
proof (cases r)
  case (Inr a)
  show ?thesis
  proof (cases a)
    case (Inr v)
    show ?thesis
    proof (cases v)
      case (VDict d)
      have g: "dget d ''allowed'' = VBool True \<longleftrightarrow> map_of d ''allowed'' = Some (VBool True)"
        by (auto simp: dget_def split: option.splits)
      show ?thesis
        using \<open>r = Inr a\<close> Inr VDict
        by (auto simp: outreach_allowed_def check_fail_closed_def g Let_def map_add_def split: option.splits)
    qed (use \<open>r = Inr a\<close> Inr in \<open>auto simp: outreach_allowed_def check_fail_closed_def\<close>)
  qed (use \<open>r = Inr a\<close> in \<open>auto simp: outreach_allowed_def check_fail_closed_def\<close>)
qed (auto simp: outreach_allowed_def)

end
