(* ===== verification/ConvOps.thy ===== *)
theory ConvOps
  imports ConvNotify SendGuard
begin

text \<open>
  The operations of \<open>src/cloudos/conversations/guard.py\<close> around the send guard: the check that alerts the
  owner, the confirmed send, and what the owner decides. The relay is the poster, the writer of
  Airtable's \<open>Emailed At\<close> an argument that raises (\<open>Inl\<close> the exception's name) or answers.
  Amounts are exact numbers.
\<close>

definition nl :: str where "nl = [CHR 0x0A]"

definition alert_text :: "str option \<Rightarrow> str \<Rightarrow> str" where
  "alert_text name email = py_join nl
     [''**BRIGHTREACH - DUPLICATE EMAIL BLOCKED**'', [],
      ''**Company:** '' @ (case given name of Some n \<Rightarrow> n | None \<Rightarrow> ''unknown''), ''**Contact:** '' @ email,
      ''**What happened:** the sender tried to send a first-touch email to a company we already emailed.'',
      ''**Result:** blocked - nothing was sent.'',
      ''**Action needed from you:** None. (This means the sender'' @ [CHR 0x27] @ ''s list has a stale row; it is being skipped.)'']"

definition check_and_alert ::
  "poster \<Rightarrow> time \<Rightarrow> int \<Rightarrow> str \<Rightarrow> str \<Rightarrow> str option \<Rightarrow> conv \<Rightarrow> guard_answer \<times> (bool \<times> bool option) option \<times> str list \<times> conv" where
  "check_and_alert post now i email kind company c =
     (let r = send_check c email kind company in
      if ga_allowed r \<or> ''already_contacted'' \<notin> set (ga_reasons r) then (r, None, [], c)
      else (let key = (case given (ga_company r) of Some k \<Rightarrow> k | None \<Rightarrow> py_lower email);
                name = (case given (ga_company r) of Some k \<Rightarrow> map_option co_name (company_row c k) | None \<Rightarrow> None)
            in case notify_once post now i (''br:dup:'' @ key) ''send.duplicate_blocked'' ''high'' (alert_text name email)
                 (ga_company r) True c of
                 (a, keys, c1) \<Rightarrow> (r, Some a, keys, c1)))"

subsection \<open>A confirmed send\<close>

type_synonym airtable_writer = "str \<Rightarrow> time \<Rightarrow> str + bool"

definition canonical_id :: "str \<Rightarrow> str" where
  "canonical_id s = py_lower (strip_by (\<lambda>c. c = CHR ''<'' \<or> c = CHR ''>'') (py_strip s))"

record confirmation =
  cn_recorded :: bool
  cn_message :: "str option"
  cn_written :: bool
  cn_record :: "str option"

definition emailed_at_text :: "str \<Rightarrow> str \<Rightarrow> str" where
  "emailed_at_text recipient ty = ''**BRIGHTREACH - Emailed At not written**'' @ nl @ nl @ ''A confirmed send to '' @ recipient
     @ '' could not be stamped in Airtable ('' @ ty @ ''). The database already blocks a second email to them. Action needed: none.''"

definition stamp_airtable ::
  "airtable_writer option \<Rightarrow> poster \<Rightarrow> time \<Rightarrow> int \<Rightarrow> confirmed \<Rightarrow> str option \<Rightarrow> conv \<Rightarrow> bool \<times> conv" where
  "stamp_airtable air post now i f rec_id c =
     (case (air, given rec_id) of
        (Some w, Some r) \<Rightarrow>
          if cf_kind f \<in> {''cold'', ''followup''} then
            (case w r (cf_sent_at f) of
               Inr ok \<Rightarrow> (ok, c)
             | Inl ty \<Rightarrow> (False, snd (snd (notify_once post now i (''br:emailedat:'' @ r) ''send.emailed_at_failed'' ''high''
                   (emailed_at_text (cf_recipient f) ty) (Some (cf_company f)) True c))))
          else (False, c)
      | _ \<Rightarrow> (False, c))"

definition confirm_send ::
  "(str \<Rightarrow> str) \<Rightarrow> airtable_writer option \<Rightarrow> poster \<Rightarrow> time \<Rightarrow> int \<Rightarrow> str \<Rightarrow> confirmed \<Rightarrow> conv \<Rightarrow> conv_exn + confirmation \<times> conv" where
  "confirm_send pa air post now i newid f c =
     (if cf_provider_id f = []
      then Inr (\<lparr>cn_recorded = False, cn_message = None, cn_written = False, cn_record = None\<rparr>, c)
      else ebind (record_confirmed_send pa now newid (f\<lparr>cf_provider_id := canonical_id (cf_provider_id f)\<rparr>) c) (\<lambda>(mid, c1).
        let rec_id = airtable_record_of c1 (cf_company f) in
        case stamp_airtable air post now i f rec_id c1 of
          (written, c2) \<Rightarrow> Inr (\<lparr>cn_recorded = (mid \<noteq> None), cn_message = mid, cn_written = written, cn_record = rec_id\<rparr>, c2)))"

subsection \<open>The owner\<close>

definition owner_set_status :: "time \<Rightarrow> str \<Rightarrow> str \<Rightarrow> str \<Rightarrow> conv \<Rightarrow> conv_exn + conv" where
  "owner_set_status now i to why c =
     ebind (set_status now i to (''owner: '' @ why) None ''owner'' True None [] c) (\<lambda>c1.
       Inr (add_fact i ''other'' (''Owner note: '' @ why) (VDict []) ''owner'' None (snd (resolve_attention i why None c1))))"

text \<open>\<open>INSERT \<dots> ON CONFLICT (company_id) DO UPDATE\<close>.\<close>

definition upsert_deal :: "str \<Rightarrow> (deal \<Rightarrow> deal) \<Rightarrow> conv \<Rightarrow> conv" where
  "upsert_deal i f c =
     (if list_ex (\<lambda>d. de_company d = i) (cv_deals c)
      then c\<lparr>cv_deals := upd_where (\<lambda>d. de_company d = i) f (cv_deals c)\<rparr>
      else c\<lparr>cv_deals := cv_deals c @ [f \<lparr>de_company = i, de_offer = None, de_setup = None, de_monthly = None, de_won_at = None,
                de_lost_at = None, de_note = None\<rparr>]\<rparr>)"

text \<open>\<open>f"{x:,.0f}"\<close>: rounded to an integer, ties to even, with thousands separators.\<close>

definition round_even :: "rat \<Rightarrow> int" where
  "round_even r = (let n = \<lfloor>r\<rfloor>; d = r - of_int n in
     if d < 1 / 2 then n else if 1 / 2 < d then n + 1 else if even n then n else n + 1)"

fun group3 :: "str \<Rightarrow> str" where
  "group3 (a # b # c # d # s) = a # b # c # CHR '','' # group3 (d # s)"
| "group3 s = s"

definition show_amount :: "rat \<Rightarrow> str" where
  "show_amount r = (if r < 0 then ''-'' else []) @ rev (group3 (rev (show_int \<bar>round_even r\<bar>)))"

definition amount_part :: "rat option \<Rightarrow> str \<Rightarrow> str list" where
  "amount_part r unit = (case r of None \<Rightarrow> [] | Some x \<Rightarrow> if x = 0 then [] else [''$'' @ show_amount x @ unit])"

definition deal_money :: "rat option \<Rightarrow> rat option \<Rightarrow> str" where
  "deal_money setup monthly =
     (let s = py_join '' + '' (amount_part setup '' setup'' @ amount_part monthly ''/month'') in
      if s = [] then ''amount not recorded'' else s)"

definition won_text :: "str \<Rightarrow> str \<Rightarrow> str" where
  "won_text name money = ''**BRIGHTREACH - DEAL WON**'' @ nl @ nl @ ''**Company:** '' @ name @ nl @ ''**Deal:** '' @ money @ nl
     @ ''**Next step:** onboarding. Cold emails to them are permanently off.''"

text \<open>A state row refers to a company (its foreign key), so the name is always found.\<close>

definition company_name :: "conv \<Rightarrow> str \<Rightarrow> str" where
  "company_name c i = (case company_row c i of Some r \<Rightarrow> co_name r | None \<Rightarrow> [])"

definition mark_won ::
  "poster \<Rightarrow> time \<Rightarrow> int \<Rightarrow> str \<Rightarrow> rat option \<Rightarrow> rat option \<Rightarrow> str option \<Rightarrow> conv \<Rightarrow> conv_exn + conv" where
  "mark_won post now n i setup monthly offer c =
     ebind (set_status now i ''won'' ''owner confirmed the deal'' None ''owner'' True None [F_proposal P_accepted] c) (\<lambda>c1.
       let c2 = upsert_deal i (\<lambda>d. d\<lparr>de_offer := offer, de_setup := setup, de_monthly := monthly, de_won_at := Some now,
                  de_lost_at := None\<rparr>) c1;
           c3 = snd (resolve_attention i ''deal won'' None c2)
       in Inr (snd (snd (notify_once post now n (''br:won:'' @ i) ''deal.won'' ''high''
                 (won_text (company_name c3 i) (deal_money setup monthly)) (Some i) True c3))))"

definition mark_lost :: "time \<Rightarrow> str \<Rightarrow> str \<Rightarrow> conv \<Rightarrow> conv_exn + conv" where
  "mark_lost now i why c =
     ebind (set_status now i ''lost'' (''owner: '' @ why) None ''owner'' True None [] c) (\<lambda>c1.
       Inr (snd (resolve_attention i why None
         (upsert_deal i (\<lambda>d. d\<lparr>de_lost_at := Some now, de_note := Some why\<rparr>) c1))))"

end
