(* ===== verification/ConvMatch.thy ===== *)
theory ConvMatch
  imports ConvStore
begin

text \<open>
  \<open>src/cloudos/conversations/match.py\<close>: the company an inbound message belongs to, strongest
  evidence first. The queries read the tables of the conversation memory; a \<open>SELECT DISTINCT\<close>
  keeps the order of the rows.
\<close>

datatype confidence = High | Medium | Low | No_match

record match_result =
  ma_company :: "str option"
  ma_method :: str
  ma_confidence :: confidence
  ma_reason :: str
  ma_candidates :: "str list"
  ma_parent :: "str option"

definition safe :: "match_result \<Rightarrow> bool" where
  "safe m \<longleftrightarrow> ma_confidence m = High \<and> ma_company m \<noteq> None"

fun distinct_ids :: "str list \<Rightarrow> str option list \<Rightarrow> str list" where
  "distinct_ids seen [] = seen"
| "distinct_ids seen (r # rows) =
     (case given r of
        None \<Rightarrow> distinct_ids seen rows
      | Some i \<Rightarrow> distinct_ids (if i \<in> set seen then seen else seen @ [i]) rows)"

text \<open>\<open>references\<close> is a header or a list of ids.\<close>

datatype references = Ref_ids "str list" | Ref_header "str option"

fun reference_ids :: "references \<Rightarrow> str list" where
  "reference_ids (Ref_ids is) = is"
| "reference_ids (Ref_header h) = msgids h"

definition wanted_ids :: "str option \<Rightarrow> references \<Rightarrow> str list" where
  "wanted_ids in_reply_to refs = filter (\<lambda>i. i \<noteq> []) (msgid in_reply_to # reference_ids refs)"

definition threaded :: "str option \<Rightarrow> message \<Rightarrow> bool" where
  "threaded t m \<longleftrightarrow> given t \<noteq> None \<and> mg_thread m = t \<and> \<not> mg_inbound m"

definition referred :: "str list \<Rightarrow> message \<Rightarrow> bool" where
  "referred ids m \<longleftrightarrow> (case mg_provider_id m of None \<Rightarrow> False | Some p \<Rightarrow> p \<in> set ids) \<and> mg_company m \<noteq> None"

definition emailed_to :: "str \<Rightarrow> message \<Rightarrow> bool" where
  "emailed_to s m \<longleftrightarrow> s \<noteq> [] \<and> \<not> mg_inbound m \<and> py_lower (mg_recipient m) = s"

definition by_thread :: "conv \<Rightarrow> str option \<Rightarrow> str list" where
  "by_thread c t = distinct_ids [] (map mg_company (filter (threaded t) (cv_messages c)))"

definition by_ref :: "conv \<Rightarrow> str list \<Rightarrow> str list" where
  "by_ref c ids = distinct_ids [] (map mg_company (filter (referred ids) (cv_messages c)))"

fun last_index :: "str list \<Rightarrow> nat \<Rightarrow> str \<Rightarrow> nat option" where
  "last_index [] n x = None"
| "last_index (y # ys) n x = (case last_index ys (n + 1) x of Some k \<Rightarrow> Some k | None \<Rightarrow> if y = x then Some n else None)"

definition ref_order :: "str list \<Rightarrow> message \<Rightarrow> nat" where
  "ref_order ids m = (case last_index ids 0 (case mg_provider_id m of Some p \<Rightarrow> p | None \<Rightarrow> []) of Some n \<Rightarrow> n | None \<Rightarrow> 99)"

definition ref_parent :: "conv \<Rightarrow> str list \<Rightarrow> str option" where
  "ref_parent c ids = map_option mg_id (least_by (ref_order ids) (filter (referred ids) (cv_messages c)))"

definition by_recipient :: "conv \<Rightarrow> str \<Rightarrow> str list" where
  "by_recipient c s = distinct_ids [] (map mg_company (filter (emailed_to s) (cv_messages c)))"

definition by_contact :: "conv \<Rightarrow> str \<Rightarrow> str list" where
  "by_contact c s = (if s = [] then [] else
     distinct_ids [] (map (\<lambda>k. Some (ct_company k)) (filter (\<lambda>k. py_lower (ct_email k) = s) (cv_contacts c))))"

definition by_domain :: "conv \<Rightarrow> str \<Rightarrow> str list" where
  "by_domain c s = (let d = business_domain s in if d = [] then [] else
     distinct_ids [] (map (\<lambda>r. Some (co_id r)) (filter (\<lambda>r. co_norm_domain r = Some d) (cv_companies c))))"

definition mk_ma :: "str option \<Rightarrow> str \<Rightarrow> confidence \<Rightarrow> str \<Rightarrow> str list \<Rightarrow> str option \<Rightarrow> match_result" where
  "mk_ma i method conf why cands parent =
     \<lparr>ma_company = i, ma_method = method, ma_confidence = conf, ma_reason = why, ma_candidates = cands, ma_parent = parent\<rparr>"

text \<open>A message of ours this one answers: \<open>claims\<close> are the companies the sender is on record for.\<close>

definition by_answered :: "str \<Rightarrow> str list \<Rightarrow> str list \<Rightarrow> str option \<Rightarrow> match_result option" where
  "by_answered method claims found parent =
     (case found of
        [] \<Rightarrow> None
      | [i] \<Rightarrow>
          (let other = filter (\<lambda>j. j \<noteq> i) claims in
           if other \<noteq> [] \<and> i \<notin> set claims
           then Some (mk_ma None method Low ''thread belongs to one company but the sender is on record for another'' (i # other) parent)
           else Some (mk_ma (Some i) method High ''reply in a thread we started'' [i] parent))
      | _ \<Rightarrow> Some (mk_ma None method Low (method @ '' points at '' @ show_nat (length found) @ '' different companies'') found parent))"

definition by_address :: "str \<Rightarrow> str list \<Rightarrow> match_result option" where
  "by_address method found =
     (case found of
        [] \<Rightarrow> None
      | [i] \<Rightarrow> Some (mk_ma (Some i) method High ''sender is exactly an address on record'' found None)
      | _ \<Rightarrow> Some (mk_ma None method Low (''sender address is on record for '' @ show_nat (length found) @ '' companies'') found None))"

definition by_site :: "str list \<Rightarrow> match_result" where
  "by_site found =
     (case found of
        [] \<Rightarrow> mk_ma None ''none'' No_match ''no identifier matches any company we contacted'' [] None
      | [i] \<Rightarrow> mk_ma (Some i) ''domain'' Medium
                 (''only the sender'' @ [CHR 0x27] @ ''s website domain matches; could be a different person there'') found None
      | _ \<Rightarrow> mk_ma None ''domain'' Low ''domain matches several companies'' found None)"

fun first_of :: "'a option list \<Rightarrow> 'a \<Rightarrow> 'a" where
  "first_of [] y = y"
| "first_of (Some x # xs) y = x"
| "first_of (None # xs) y = first_of xs y"

definition match_inbound ::
  "(str \<Rightarrow> str) \<Rightarrow> conv \<Rightarrow> str \<Rightarrow> str option \<Rightarrow> str option \<Rightarrow> references \<Rightarrow> str list \<Rightarrow> match_result" where
  "match_inbound pa c sender thread_id in_reply_to refs our =
     (let s = addr pa sender; ids = wanted_ids in_reply_to refs; claims = by_recipient c s @ by_contact c s in
      if s \<in> set our then mk_ma None ''own_address'' No_match ''message is from our own mailbox'' [] None
      else first_of
        [by_answered ''thread_id'' claims (by_thread c thread_id) (ref_parent c ids),
         by_answered ''in_reply_to'' claims (by_ref c ids) (ref_parent c ids),
         by_address ''exact_recipient'' (by_recipient c s), by_address ''contact_email'' (by_contact c s)]
        (by_site (by_domain c s)))"

subsection \<open>A safe match is unambiguous\<close>

lemma set_distinct_ids: "set (distinct_ids seen rows) = set seen \<union> {i. i \<noteq> [] \<and> Some i \<in> set rows}"
  by (induction rows arbitrary: seen) (auto simp: given_def split: option.splits if_splits)

lemma by_answered_safe:
  "by_answered method claims found parent = Some m \<Longrightarrow> safe m \<Longrightarrow>
     \<exists>i. ma_company m = Some i \<and> found = [i] \<and> (claims \<noteq> [] \<longrightarrow> i \<in> set claims)"
  by (auto simp: by_answered_def safe_def mk_ma_def Let_def filter_empty_conv split: list.splits if_splits)
     (metis list.set_intros(1) list.exhaust)+

lemma by_answered_None: "by_answered method claims found parent = None \<longleftrightarrow> found = []"
  by (auto simp: by_answered_def Let_def split: list.splits)

lemma by_address_safe:
  "by_address method found = Some m \<Longrightarrow> safe m \<Longrightarrow> \<exists>i. ma_company m = Some i \<and> found = [i]"
  by (auto simp: by_address_def safe_def mk_ma_def split: list.splits)

lemma by_address_None: "by_address method found = None \<longleftrightarrow> found = []"
  by (auto simp: by_address_def split: list.splits)

lemma by_site_unsafe: "\<not> safe (by_site found)"
  by (auto simp: by_site_def safe_def mk_ma_def split: list.splits)

text \<open>One step of the search: it answers when it found something, and a safe answer names the one
  company it found, which no other record of the sender's address speaks against.\<close>

definition sound_step :: "str list \<Rightarrow> match_result option \<times> str list \<Rightarrow> bool" where
  "sound_step claims x \<longleftrightarrow> (fst x = None \<longleftrightarrow> snd x = [])
     \<and> (\<forall>m. fst x = Some m \<longrightarrow> safe m \<longrightarrow> (\<exists>i. ma_company m = Some i \<and> snd x = [i] \<and> (claims = [] \<or> i \<in> set claims)))"

lemma sound_answered: "sound_step claims (by_answered method claims found parent, found)"
  unfolding sound_step_def using by_answered_None by_answered_safe by fastforce

lemma sound_address: "set found \<subseteq> set claims \<Longrightarrow> sound_step claims (by_address method found, found)"
  unfolding sound_step_def using by_address_None by_address_safe by fastforce

lemma first_of_sound:
  assumes "\<forall>x\<in>set xs. sound_step claims x" and "\<not> safe y" and "safe (first_of (map fst xs) y)"
  shows "\<exists>i. ma_company (first_of (map fst xs) y) = Some i \<and> find (\<lambda>found. found \<noteq> []) (map snd xs) = Some [i]
     \<and> (claims = [] \<or> i \<in> set claims)"
  using assms
proof (induction xs)
  case (Cons x xs)
  obtain r found where x: "x = (r, found)" by fastforce
  show ?case
  proof (cases r)
    case None
    then have "found = []" using Cons.prems(1) x by (simp add: sound_step_def)
    then show ?thesis using Cons x None by simp
  next
    case (Some m)
    then show ?thesis using Cons.prems x by (auto simp: sound_step_def)
  qed
qed simp

text \<open>C34. A match that is acted on is unambiguous: the message is not our own, the strongest evidence
  there is (our thread, then a message of ours it answers, then an address we emailed, then a
  contact) names that company and no other, and when the sender's address is on record for any
  company, it is on record for that one. A website domain alone is never enough.\<close>

theorem safe_match_one_company:
  assumes "safe (match_inbound pa c sender th irt refs our)"
  shows "\<exists>i. ma_company (match_inbound pa c sender th irt refs our) = Some i \<and> addr pa sender \<notin> set our
     \<and> find (\<lambda>found. found \<noteq> [])
         [by_thread c th, by_ref c (wanted_ids irt refs), by_recipient c (addr pa sender), by_contact c (addr pa sender)] = Some [i]
     \<and> (let claims = by_recipient c (addr pa sender) @ by_contact c (addr pa sender) in claims = [] \<or> i \<in> set claims)"
proof -
  let ?s = "addr pa sender"
  let ?ids = "wanted_ids irt refs"
  let ?claims = "by_recipient c ?s @ by_contact c ?s"
  let ?xs = "[(by_answered ''thread_id'' ?claims (by_thread c th) (ref_parent c ?ids), by_thread c th),
      (by_answered ''in_reply_to'' ?claims (by_ref c ?ids) (ref_parent c ?ids), by_ref c ?ids),
      (by_address ''exact_recipient'' (by_recipient c ?s), by_recipient c ?s),
      (by_address ''contact_email'' (by_contact c ?s), by_contact c ?s)]"
  have own: "?s \<notin> set our" using assms by (auto simp: match_inbound_def Let_def safe_def mk_ma_def)
  then have e: "match_inbound pa c sender th irt refs our = first_of (map fst ?xs) (by_site (by_domain c ?s))"
    by (simp add: match_inbound_def Let_def)
  have "\<forall>x\<in>set ?xs. sound_step ?claims x"
    using sound_answered sound_address [of "by_recipient c ?s" ?claims] sound_address [of "by_contact c ?s" ?claims] by auto
  from first_of_sound [OF this by_site_unsafe assms [unfolded e]] show ?thesis
    using own unfolding e by (auto simp: Let_def)
qed

definition demo_sent :: message where
  "demo_sent = \<lparr>mg_id = ''m1'', mg_company = Some ''c1'', mg_inbound = False, mg_kind = ''cold'', mg_sender = ''me@x.io'',
     mg_recipient = ''Bob@Shop.com'', mg_subject = ''Hi'', mg_body = ''Hi'', mg_at = 1, mg_recorded = 1,
     mg_provider_id = Some ''a@x.io'', mg_thread = Some ''t1'', mg_cta = None, mg_price = None, mg_offer = None\<rparr>"

definition conv_of :: "message list \<Rightarrow> conv" where
  "conv_of ms = \<lparr>cv_companies = [], cv_contacts = [], cv_messages = ms, cv_states = [], cv_transitions = [], cv_facts = [],
     cv_suppressions = [], cv_attention = [], cv_drafts = [], cv_history = [], cv_deals = [], cv_notes = [], cv_analyses = []\<rparr>"

theorem safe_match_one_company_witness:
  "\<exists>i. ma_company (match_inbound id (conv_of [demo_sent]) ''bob@shop.com'' (Some ''t1'') None (Ref_header None) [''me@x.io'']) = Some i"
proof -
  have "safe (match_inbound id (conv_of [demo_sent]) ''bob@shop.com'' (Some ''t1'') None (Ref_header None) [''me@x.io''])"
    by code_simp
  from safe_match_one_company [OF this] show ?thesis by blast
qed

end
