(* ===== verification/ConvSystem.thy ===== *)
theory ConvSystem
  imports ConvOps ConvMatch
begin

text \<open>
  The conversation memory as a system: every operation of the store, in any order, by replies, sends,
  the notifier and the owner. What the send guard refuses for good is proved here.
\<close>

definition mark_bounced :: "str \<Rightarrow> conv \<Rightarrow> conv" where
  "mark_bounced i c = c\<lparr>cv_companies := upd_where
     (\<lambda>r. co_id r = i \<and> co_outreach r \<in> {''contacted'', ''handed_off'', ''outreach_ready''})
     (\<lambda>r. r\<lparr>co_outreach := ''bounced''\<rparr>) (cv_companies c)\<rparr>"

text \<open>One committed operation. \<open>own\<close> says whether the owner may act.\<close>

inductive conv_step :: "bool \<Rightarrow> conv \<Rightarrow> conv \<Rightarrow> bool" where
  step_message: "insert_message now i m c = Inr (x, c') \<Longrightarrow> conv_step own c c'"
| step_ensure: "ensure_state now i c = Inr (st, c') \<Longrightarrow> conv_step own c c'"
| step_status: "set_status now i to reason mid actor ov w fs c = Inr c' \<Longrightarrow> (ov \<Longrightarrow> own) \<Longrightarrow> conv_step own c c'"
| step_update: "update_state now i fs c = Inr c' \<Longrightarrow> conv_step own c c'"
| step_send: "record_confirmed_send pa now newid f c = Inr (x, c') \<Longrightarrow> conv_step own c c'"
| step_fact: "conv_step own c (add_fact i ty t v said src c)"
| step_suppress: "conv_step own c (suppress reason e i src c)"
| step_attention: "conv_step own c (snd (queue_attention a c))"
| step_resolve: "own \<Longrightarrow> conv_step own c (snd (resolve_attention i why codes c))"
| step_draft: "conv_step own c (snd (add_draft d c))"
| step_drafts: "conv_step own c (set_drafts p s c)"
| step_contact: "conv_step own c (c\<lparr>cv_contacts := cv_contacts c @ [k]\<rparr>)"
| step_bounced: "conv_step own c (mark_bounced i c)"
| step_deal: "own \<Longrightarrow> conv_step own c (upsert_deal i g c)"
| step_notes: "conv_step own c (c\<lparr>cv_notes := ns\<rparr>)"
| step_analysis: "conv_step own c (c\<lparr>cv_analyses := cv_analyses c @ [a]\<rparr>)"

abbreviation conv_steps :: "bool \<Rightarrow> conv \<Rightarrow> conv \<Rightarrow> bool" where
  "conv_steps own \<equiv> (conv_step own)\<^sup>*\<^sup>*"

subsection \<open>What only grows\<close>

definition grows :: "conv \<Rightarrow> conv \<Rightarrow> bool" where
  "grows c c' \<longleftrightarrow> set (cv_messages c) \<subseteq> set (cv_messages c') \<and> set (cv_suppressions c) \<subseteq> set (cv_suppressions c')
     \<and> set (cv_history c) \<subseteq> set (cv_history c')"

lemma grows_refl [simp]: "grows c c"
  by (simp add: grows_def)

lemma grows_trans: "grows a b \<Longrightarrow> grows b c \<Longrightarrow> grows a c"
  unfolding grows_def by blast

named_theorems store_grows \<open>no operation of the store removes a message, a suppression or a history row\<close>

lemma grows_message [store_grows]: "insert_message now i m c = Inr (x, c') \<Longrightarrow> grows c c'"
  by (auto simp: insert_message_def Let_def grows_def split: if_splits)

lemma grows_ensure [store_grows]: "ensure_state now i c = Inr (st, c') \<Longrightarrow> grows c c'"
  by (auto simp: ensure_state_def Let_def grows_def split: option.splits)

lemma grows_update_row [store_grows]: "update_row i f c = Inr c' \<Longrightarrow> grows c c'"
  by (auto simp: update_row_def Let_def grows_def split: if_splits)

lemma grows_fields [simp]:
  "grows c (c'\<lparr>cv_transitions := x1\<rparr>) = grows c c'" "grows c (c'\<lparr>cv_companies := x2\<rparr>) = grows c c'"
  "grows c (c'\<lparr>cv_facts := x3\<rparr>) = grows c c'" "grows c (c'\<lparr>cv_drafts := x4\<rparr>) = grows c c'"
  "grows c (c'\<lparr>cv_notes := x5\<rparr>) = grows c c'" "grows c (c'\<lparr>cv_deals := x6\<rparr>) = grows c c'"
  "grows c (c'\<lparr>cv_analyses := x9\<rparr>) = grows c c'" "grows c (c'\<lparr>cv_attention := x7\<rparr>) = grows c c'" "grows c (c'\<lparr>cv_contacts := x8\<rparr>) = grows c c'"
  by (simp_all add: grows_def)

lemma grows_log [simp]: "grows c (log_transition i frm t reason mid actor w c') = grows c c'"
  by (simp add: log_transition_def)

lemma grows_mark [simp]: "grows c (mark_company i oc c') = grows c c'"
  by (simp add: mark_company_def)

lemma grows_status [store_grows]:
  assumes "set_status now i to reason mid actor ov w fs c = Inr c'"
  shows "grows c c'"
  using assms unfolding set_status_def
  by (auto simp: Let_def split: sum.splits option.splits prod.splits dest!: grows_ensure grows_update_row intro: grows_trans)

lemma grows_update [store_grows]: "update_state now i fs c = Inr c' \<Longrightarrow> grows c c'"
  by (auto simp: update_state_def split: if_splits sum.splits prod.splits dest!: grows_ensure grows_update_row intro: grows_trans)

lemma grows_fact [simp]: "grows c (add_fact i ty t v said src c') = grows c c'"
  by (simp add: add_fact_def Let_def)

lemma grows_price [simp]: "grows c (note_price f mid c') = grows c c'"
  by (simp add: note_price_def split: option.splits)

lemma grows_drafts [simp]: "grows c (set_drafts p s c') = grows c c'"
  by (simp add: set_drafts_def)

lemma grows_close [simp]: "grows c (close_drafts f mid c') = grows c c'"
  by (simp add: close_drafts_def Let_def split: option.splits)

lemma grows_touch [simp]: "grows c (touch_company i w c') = grows c c'"
  by (simp add: touch_company_def)

lemma grows_history: "grows c (log_history pa f c)"
  by (auto simp: log_history_def Let_def grows_def)

lemma grows_first_touch: "first_touch now f mid st c = Inr c' \<Longrightarrow> grows c c'"
  by (auto simp: first_touch_def dest: grows_status split: if_splits)

lemma grows_proposal: "proposal_step now f mid c = Inr c' \<Longrightarrow> grows c c'"
  by (auto simp: proposal_step_def ebind_eq_Inr dest!: grows_ensure grows_status intro: grows_trans split: if_splits)

lemma send_parts:
  assumes "record_confirmed_send pa now newid f c = Inr (Some m, c')"
  obtains c1 st c2 c3 c4 c5 where "insert_message now newid (sent_message pa f) c = Inr (Some m, c1)"
    and "ensure_state now (cf_company f) (touch_company (cf_company f) (cf_sent_at f) (log_history pa f c1)) = Inr (st, c2)"
    and "first_touch now f m st c2 = Inr c3" and "proposal_step now f m (note_price f m c3) = Inr c4"
    and "update_state now (cf_company f) (send_fields pa f m st) c4 = Inr c5" and "c' = close_drafts f m c5"
    and "cf_provider_id f \<noteq> []" and "cf_kind f \<in> set SEND_KINDS"
  using assms unfolding record_confirmed_send_def
  by (auto simp: ebind_eq_Inr split: if_splits option.splits)

lemma grows_send [store_grows]:
  assumes "record_confirmed_send pa now newid f c = Inr (x, c')"
  shows "grows c c'"
proof (cases x)
  case None
  then have "insert_message now newid (sent_message pa f) c = Inr (None, c')"
    using assms unfolding record_confirmed_send_def by (auto simp: ebind_eq_Inr split: if_splits option.splits)
  then show ?thesis by (rule grows_message)
next
  case (Some m)
  from send_parts [OF assms [unfolded Some]] obtain c1 st c2 c3 c4 c5 where
    p: "insert_message now newid (sent_message pa f) c = Inr (Some m, c1)"
      "ensure_state now (cf_company f) (touch_company (cf_company f) (cf_sent_at f) (log_history pa f c1)) = Inr (st, c2)"
      "first_touch now f m st c2 = Inr c3" "proposal_step now f m (note_price f m c3) = Inr c4"
      "update_state now (cf_company f) (send_fields pa f m st) c4 = Inr c5" "c' = close_drafts f m c5"
    by metis
  have "grows c1 (touch_company (cf_company f) (cf_sent_at f) (log_history pa f c1))" by (simp add: grows_history)
  moreover have "grows c3 (note_price f m c3)" by simp
  moreover have "grows c5 c'" using p(6) by simp
  ultimately show ?thesis
    using grows_message [OF p(1)] grows_ensure [OF p(2)] grows_first_touch [OF p(3)] grows_proposal [OF p(4)] grows_update [OF p(5)]
    by (meson grows_trans)
qed

lemma grows_suppress [store_grows]: "grows c (suppress reason e i src c)"
  by (auto simp: suppress_def suppress_email_def suppress_company_def Let_def grows_def split: option.splits)

lemma step_grows: "conv_step own c c' \<Longrightarrow> grows c c'"
  by (induction rule: conv_step.induct)
     (auto simp: queue_attention_def resolve_attention_def add_draft_def Let_def mark_bounced_def upsert_deal_def intro: store_grows)

subsection \<open>What is refused for good\<close>

text \<open>The contract of a refusal that lasts: a condition no operation undoes, and that makes the guard
  refuse.\<close>

locale sticky_block =
  fixes stp :: "conv \<Rightarrow> conv \<Rightarrow> bool"
    and cond :: "conv \<Rightarrow> bool"
    and refused :: "conv \<Rightarrow> bool"
  assumes keep: "stp c c' \<Longrightarrow> cond c \<Longrightarrow> cond c'"
    and refuse: "cond c \<Longrightarrow> refused c"
begin

lemma cond_forever: "stp\<^sup>*\<^sup>* c c' \<Longrightarrow> cond c \<Longrightarrow> cond c'"
  by (induction rule: rtranclp_induct) (auto intro: keep)

lemma refused_forever: "stp\<^sup>*\<^sup>* c c' \<Longrightarrow> cond c \<Longrightarrow> refused c'"
  using cond_forever refuse by blast

end

definition refuses :: "(str \<Rightarrow> bool) \<Rightarrow> (conv \<Rightarrow> str \<Rightarrow> str option \<Rightarrow> bool) \<Rightarrow> conv \<Rightarrow> bool" where
  "refuses kinds who c \<longleftrightarrow>
     (\<forall>e kind co. kinds kind \<longrightarrow> who c e co \<longrightarrow> \<not> ga_allowed (send_check c e kind co))"

definition same_mailbox :: "str \<Rightarrow> conv \<Rightarrow> str \<Rightarrow> str option \<Rightarrow> bool" where
  "same_mailbox n c e co \<longleftrightarrow> norm_email e = n"

definition belongs_to :: "str \<Rightarrow> conv \<Rightarrow> str \<Rightarrow> str option \<Rightarrow> bool" where
  "belongs_to i c e co \<longleftrightarrow> company_for c e co = Some i"

definition email_blocked :: "str \<Rightarrow> conv \<Rightarrow> bool" where
  "email_blocked n c \<longleftrightarrow> (\<exists>s\<in>set (cv_suppressions c). map_option norm_email (su_email s) = Some n)"

definition replied_to :: "str \<Rightarrow> conv \<Rightarrow> bool" where
  "replied_to i c \<longleftrightarrow> (\<exists>m\<in>set (cv_messages c). human_reply i m)"

definition written_to :: "str \<Rightarrow> conv \<Rightarrow> bool" where
  "written_to i c \<longleftrightarrow> (\<exists>m\<in>set (cv_messages c). \<not> mg_inbound m \<and> mg_company m = Some i)"

definition mailed :: "str \<Rightarrow> conv \<Rightarrow> bool" where
  "mailed n c \<longleftrightarrow> (\<exists>m\<in>set (cv_messages c). \<not> mg_inbound m \<and> norm_email (mg_recipient m) = n)"

definition opted_out :: "str \<Rightarrow> conv \<Rightarrow> bool" where
  "opted_out i c \<longleftrightarrow> (case state_row c i of Some st \<Rightarrow> cs_dnc st \<and> cs_status st = Do_not_contact | None \<Rightarrow> opted_out_company c i)"

definition generic_kind :: "str \<Rightarrow> bool" where "generic_kind k \<longleftrightarrow> k = ''cold'' \<or> k = ''followup''"
definition cold_kind :: "str \<Rightarrow> bool" where "cold_kind k \<longleftrightarrow> k = ''cold''"
definition any_kind :: "str \<Rightarrow> bool" where "any_kind k \<longleftrightarrow> True"

lemma check_allows: "ga_allowed (send_check c e kind co) \<longleftrightarrow>
    kind \<in> set GUARD_KINDS \<and> valid_email e \<and> guard_reasons c e kind (company_for c e co) = []"
  by (simp add: send_check_def refusal_def Let_def)

lemma email_blocked_refused: "email_blocked n c \<Longrightarrow> refuses any_kind (same_mailbox n) c"
  unfolding refuses_def same_mailbox_def check_allows email_blocked_def
  by (auto simp: guard_reasons_def address_reasons_def Let_def list_ex_iff)

lemma mailed_refused: "mailed n c \<Longrightarrow> refuses cold_kind (same_mailbox n) c"
  unfolding refuses_def same_mailbox_def check_allows mailed_def cold_kind_def
  by (auto simp: guard_reasons_def contacted_before_def Let_def list_ex_iff)

lemma written_refused: "written_to i c \<Longrightarrow> refuses cold_kind (belongs_to i) c"
  unfolding refuses_def belongs_to_def check_allows written_to_def cold_kind_def
  by (auto simp: guard_reasons_def contacted_before_def Let_def list_ex_iff)

lemma replied_refused: "replied_to i c \<Longrightarrow> refuses generic_kind (belongs_to i) c"
  unfolding refuses_def belongs_to_def check_allows replied_to_def generic_kind_def
  by (auto simp: guard_reasons_def company_reasons_def Let_def list_ex_iff)

lemma opted_out_refused: "opted_out i c \<Longrightarrow> refuses any_kind (belongs_to i) c"
  unfolding refuses_def belongs_to_def check_allows opted_out_def
  by (auto simp: guard_reasons_def company_reasons_def state_reasons_def Let_def split: option.splits)

lemma grown_conditions:
  "grows c c' \<Longrightarrow> email_blocked n c \<Longrightarrow> email_blocked n c'" "grows c c' \<Longrightarrow> mailed n c \<Longrightarrow> mailed n c'"
  "grows c c' \<Longrightarrow> written_to i c \<Longrightarrow> written_to i c'" "grows c c' \<Longrightarrow> replied_to i c \<Longrightarrow> replied_to i c'"
  unfolding email_blocked_def mailed_def written_to_def replied_to_def grows_def by blast+

interpretation blocked_mail: sticky_block "conv_step True" "email_blocked n" "refuses any_kind (same_mailbox n)" for n
  by unfold_locales (blast intro: email_blocked_refused dest: step_grows grown_conditions)+

interpretation mailed_once: sticky_block "conv_step True" "mailed n" "refuses cold_kind (same_mailbox n)" for n
  by unfold_locales (blast intro: mailed_refused dest: step_grows grown_conditions)+

interpretation written_once: sticky_block "conv_step True" "written_to i" "refuses cold_kind (belongs_to i)" for i
  by unfold_locales (blast intro: written_refused dest: step_grows grown_conditions)+

interpretation replied_once: sticky_block "conv_step True" "replied_to i" "refuses generic_kind (belongs_to i)" for i
  by unfold_locales (blast intro: replied_refused dest: step_grows grown_conditions)+

subsection \<open>Do not contact, unless the owner says so\<close>

lemma find_upd_other:
  assumes "\<And>r. idf (f r) = idf r"
  shows "find (\<lambda>r. idf r = i) (upd_where p f t) = map_option (\<lambda>r. if p r then f r else r) (find (\<lambda>r. idf r = i) t)"
  by (induction t) (auto simp: assms)

lemma put_field_status [simp]: "cs_status (put_field x r) = cs_status r" "cs_dnc (put_field x r) = cs_dnc r"
  "cs_company (put_field x r) = cs_company r"
  by (cases x; simp)+

lemma put_fields_status [simp]: "cs_status (put_fields fs r) = cs_status r" "cs_dnc (put_fields fs r) = cs_dnc r"
  "cs_company (put_fields fs r) = cs_company r"
  unfolding put_fields_def by (induction fs arbitrary: r) simp_all

lemma status_row_fields [simp]:
  "cs_status (status_row_for t reason ov fs st r) = t" "cs_company (status_row_for t reason ov fs st r) = cs_company r"
  "cs_dnc (status_row_for t reason ov fs st r) = (t = Do_not_contact \<or> cs_dnc st \<and> \<not> ov)"
  by (simp_all add: status_row_for_def Let_def)

lemma state_row_update:
  assumes "update_row i f c = Inr c'" and "\<And>r. cs_company (f r) = cs_company r"
  shows "state_row c' j = map_option (\<lambda>r. if j = i then f (r\<lparr>cs_version := cs_version r + 1\<rparr>) else r) (state_row c j)"
  using assms
  by (auto simp: update_row_def Let_def state_row_def find_upd_other fun_eq_iff split: if_splits
      dest!: find_Some_in intro!: option.map_cong)

lemma companies_update_row: "update_row i f c = Inr c' \<Longrightarrow> cv_companies c' = cv_companies c"
  by (auto simp: update_row_def Let_def split: if_splits)

lemma ensure_row: "ensure_state now i c = Inr (st, c') \<Longrightarrow> state_row c' i = Some st"
  by (auto simp: ensure_state_def Let_def state_row_def initial_state_def company_row_def find_append
      split: option.splits dest!: find_Some_in) 

lemma ensure_other: "ensure_state now j c = Inr (st, c') \<Longrightarrow> i \<noteq> j \<Longrightarrow> state_row c' i = state_row c i"
  by (auto simp: ensure_state_def Let_def state_row_def initial_state_def company_row_def find_append
      split: option.splits dest!: find_Some_in)

lemma ensure_same: "ensure_state now i c = Inr (st, c') \<Longrightarrow> state_row c i = Some x \<Longrightarrow> st = x \<and> c' = c"
  by (simp add: ensure_state_def)

lemma ensure_companies: "ensure_state now j c = Inr (st, c') \<Longrightarrow> cv_companies c' = cv_companies c"
  by (auto simp: ensure_state_def Let_def split: option.splits)

lemma opted_cong:
  "cv_states c' = cv_states c \<Longrightarrow> cv_companies c' = cv_companies c \<Longrightarrow> opted_out i c' = opted_out i c"
  by (simp add: opted_out_def state_row_def opted_out_company_def company_row_def split: option.splits)

lemma opted_initial:
  "opted_out_company c i \<Longrightarrow> company_row c i = Some r \<Longrightarrow> cs_dnc (initial_state c r) \<and> cs_status (initial_state c r) = Do_not_contact"
  by (auto simp: opted_out_company_def initial_state_def OUTREACH_TO_STATUS_def Let_def)

lemma opted_ensure:
  assumes "ensure_state now j c = Inr (st, c')" and "opted_out i c"
  shows "opted_out i c' \<and> (j = i \<longrightarrow> cs_dnc st \<and> cs_status st = Do_not_contact)"
proof (cases "state_row c j")
  case (Some x)
  then have "st = x \<and> c' = c" using ensure_same [OF assms(1)] by blast
  then show ?thesis using assms(2) Some by (auto simp: opted_out_def)
next
  case None
  then obtain r where r: "company_row c j = Some r" and st: "st = (initial_state c r)\<lparr>cs_airtable := airtable_record_of c j\<rparr>"
    using assms(1) by (auto simp: ensure_state_def Let_def split: option.splits)
  have row: "state_row c' i = (if i = j then Some st else state_row c i)"
    using ensure_row [OF assms(1)] ensure_other [OF assms(1)] by auto
  have co: "opted_out_company c' i = opted_out_company c i"
    using ensure_companies [OF assms(1)] by (simp add: opted_out_company_def company_row_def)
  show ?thesis
    using assms(2) None r opted_initial [of c j r] unfolding opted_out_def row co st by (auto split: if_splits)
qed

lemma opted_company_mark: "opted_out_company c i \<Longrightarrow> opted_out_company (mark_company j oc c) i"
  by (auto simp: opted_out_company_def company_row_def mark_company_def find_upd_other split: option.splits)

lemma opted_mark: "opted_out i c \<Longrightarrow> opted_out i (mark_company j oc c)"
  unfolding opted_out_def using opted_company_mark by (simp add: mark_company_def state_row_def split: option.splits)

lemma opted_bounced: "opted_out i c \<Longrightarrow> opted_out i (mark_bounced j c)"
  by (auto simp: opted_out_def opted_out_company_def company_row_def mark_bounced_def state_row_def find_upd_other split: option.splits)

lemma opted_touch [simp]: "opted_out i (touch_company j w c) = opted_out i c"
  by (auto simp: opted_out_def opted_out_company_def company_row_def touch_company_def state_row_def find_upd_other split: option.splits)

lemma opted_update_row:
  assumes "update_row j f c = Inr c'" and "\<And>r. cs_company (f r) = cs_company r"
    and "\<And>r. cs_company r = i \<Longrightarrow> cs_dnc r \<Longrightarrow> cs_status r = Do_not_contact \<Longrightarrow> j = i \<Longrightarrow> cs_dnc (f r) \<and> cs_status (f r) = Do_not_contact"
    and "opted_out i c"
  shows "opted_out i c'"
proof (cases "state_row c i")
  case None
  have "opted_out_company c' i = opted_out_company c i"
    using companies_update_row [OF assms(1)] by (simp add: opted_out_company_def company_row_def)
  then show ?thesis using assms(4) None by (simp add: opted_out_def state_row_update [OF assms(1,2)])
next
  case (Some r)
  let ?r = "r\<lparr>cs_version := cs_version r + 1\<rparr>"
  have "cs_company r = i" using Some unfolding state_row_def by (auto dest: find_Some_in)
  moreover have "cs_dnc r \<and> cs_status r = Do_not_contact" using assms(4) Some by (simp add: opted_out_def)
  ultimately show ?thesis using Some assms(3) [of ?r] by (simp add: opted_out_def state_row_update [OF assms(1,2)])
qed

lemma opted_log [simp]: "opted_out i (log_transition j frm t reason mid actor w c) = opted_out i c"
  by (rule opted_cong) (simp_all add: log_transition_def)

lemma opted_status:
  assumes "set_status now j to reason mid actor False w fs c = Inr c'" and o: "opted_out i c"
  shows "opted_out i c'"
proof -
  obtain st c1 t c2 where e: "ensure_state now j c = Inr (st, c1)" and k: "check (cs_status st) to False = Inr t"
    and u: "update_row j (status_row_for t reason False fs st) c1 = Inr c2"
    and c': "c' = (let c3 = log_transition j (cs_status st) t reason mid actor (case w of Some w \<Rightarrow> w | None \<Rightarrow> now) c2 in
               case outreach_for t of Some oc \<Rightarrow> mark_company j oc c3 | None \<Rightarrow> c3)"
    using assms(1) unfolding set_status_def by (auto simp: Let_def split: sum.splits prod.splits)
  have o1: "opted_out i c1" and st: "j = i \<longrightarrow> cs_dnc st \<and> cs_status st = Do_not_contact"
    using opted_ensure [OF e o] by auto
  have t: "j = i \<longrightarrow> t = Do_not_contact" using st k by (auto simp: check_Inr)
  have "opted_out i c2" using opted_update_row [OF u _ _ o1] t by simp
  then show ?thesis unfolding c' Let_def by (auto intro: opted_mark split: option.splits)
qed

lemma opted_update:
  assumes "update_state now j fs c = Inr c'" and "opted_out i c"
  shows "opted_out i c'"
  using assms opted_ensure opted_update_row [where f = "put_fields fs"]
  unfolding update_state_def by (fastforce split: if_splits sum.splits prod.splits)

lemma opted_message: "insert_message now j m c = Inr (x, c') \<Longrightarrow> opted_out i c' = opted_out i c"
  by (rule opted_cong) (auto simp: insert_message_def Let_def split: if_splits)

lemma opted_fields [simp]:
  "opted_out i (c\<lparr>cv_contacts := ks\<rparr>) = opted_out i c" "opted_out i (c\<lparr>cv_notes := ns\<rparr>) = opted_out i c"
  "opted_out i (c\<lparr>cv_analyses := zs\<rparr>) = opted_out i c" "opted_out i (c\<lparr>cv_facts := fs\<rparr>) = opted_out i c"
  "opted_out i (c\<lparr>cv_drafts := ds\<rparr>) = opted_out i c" "opted_out i (c\<lparr>cv_suppressions := ss\<rparr>) = opted_out i c"
  "opted_out i (c\<lparr>cv_history := hs\<rparr>) = opted_out i c" "opted_out i (c\<lparr>cv_attention := as\<rparr>) = opted_out i c"
  by (rule opted_cong; simp)+

lemma opted_fact [simp]: "opted_out i (add_fact j ty t v said src c) = opted_out i c"
  by (simp add: add_fact_def Let_def)

lemma opted_drafts [simp]: "opted_out i (set_drafts p s c) = opted_out i c"
  by (simp add: set_drafts_def)

lemma opted_suppress [simp]: "opted_out i (suppress reason e co src c) = opted_out i c"
  by (simp add: suppress_def suppress_email_def suppress_company_def Let_def split: option.splits)

lemma opted_history [simp]: "opted_out i (log_history pa f c) = opted_out i c"
  by (simp add: log_history_def Let_def)

lemma opted_price [simp]: "opted_out i (note_price f mid c) = opted_out i c"
  by (simp add: note_price_def split: option.splits)

lemma opted_close [simp]: "opted_out i (close_drafts f mid c) = opted_out i c"
  unfolding close_drafts_def Let_def by (cases "given (cf_draft f)") (simp_all only: option.case opted_drafts opted_fields simp_thms split: if_split)

lemma opted_attention [simp]: "opted_out i (snd (queue_attention a c)) = opted_out i c"
  by (simp add: queue_attention_def Let_def)

lemma opted_draft [simp]: "opted_out i (snd (add_draft d c)) = opted_out i c"
  by (simp add: add_draft_def Let_def)

lemma opted_first_touch: "first_touch now f mid st c = Inr c' \<Longrightarrow> opted_out i c \<Longrightarrow> opted_out i c'"
  by (auto simp: first_touch_def dest: opted_status split: if_splits)

lemma opted_proposal: "proposal_step now f mid c = Inr c' \<Longrightarrow> opted_out i c \<Longrightarrow> opted_out i c'"
  by (auto simp: proposal_step_def ebind_eq_Inr dest!: opted_ensure opted_status split: if_splits)

lemma opted_send:
  assumes "record_confirmed_send pa now newid f c = Inr (x, c')" and o: "opted_out i c"
  shows "opted_out i c'"
proof (cases x)
  case None
  then have "insert_message now newid (sent_message pa f) c = Inr (None, c')"
    using assms(1) unfolding record_confirmed_send_def by (auto simp: ebind_eq_Inr split: if_splits option.splits)
  then show ?thesis using o by (simp add: opted_message)
next
  case (Some m)
  from send_parts [OF assms(1) [unfolded Some]] obtain c1 st c2 c3 c4 c5 where
    p: "insert_message now newid (sent_message pa f) c = Inr (Some m, c1)"
      "ensure_state now (cf_company f) (touch_company (cf_company f) (cf_sent_at f) (log_history pa f c1)) = Inr (st, c2)"
      "first_touch now f m st c2 = Inr c3" "proposal_step now f m (note_price f m c3) = Inr c4"
      "update_state now (cf_company f) (send_fields pa f m st) c4 = Inr c5" "c' = close_drafts f m c5"
    by metis
  have "opted_out i c1" using opted_message [OF p(1)] o by simp
  then have "opted_out i c2" using opted_ensure [OF p(2)] by simp
  then have "opted_out i c3" using opted_first_touch [OF p(3)] by simp
  then have "opted_out i c4" using opted_proposal [OF p(4)] by simp
  then have "opted_out i c5" using opted_update [OF p(5)] by simp
  then show ?thesis using p(6) by simp
qed

lemma step_opted: "conv_step own c c' \<Longrightarrow> \<not> own \<Longrightarrow> opted_out i c \<Longrightarrow> opted_out i c'"
proof (induction rule: conv_step.induct)
  case (step_status now j to reason mid actor ov w fs c c' own)
  then have "ov = False" by blast
  then show ?case using step_status opted_status by blast
next
  case (step_ensure now j c st c' own)
  then show ?case using opted_ensure by blast
next
  case (step_send pa now newid f c x c' own)
  then show ?case using opted_send by blast
qed (simp_all add: opted_message opted_update opted_bounced)

interpretation opted_once: sticky_block "conv_step False" "opted_out i" "refuses any_kind (belongs_to i)" for i
  by unfold_locales (blast intro: opted_out_refused dest: step_opted)+

subsection \<open>Opting out, replying, being written to\<close>

lemma py_lower_blank: "py_lower_char c = CHR '' '' \<longleftrightarrow> c = CHR '' ''"
proof -
  have b: "x = CHR '' '' \<longleftrightarrow> of_char x = (32 :: nat)" for x :: char
  proof -
    have "(32 :: nat) = of_char (CHR '' '')" by simp
    then show ?thesis by (simp only: of_char_eq_iff)
  qed
  have "of_char (py_lower_char c) = (32 :: nat) \<longleftrightarrow> of_char c = (32 :: nat)"
    by (auto simp: py_lower_char_def Let_def mod_less)
  then show ?thesis unfolding b .
qed

lemma sql_trim_lower: "sql_trim (py_lower s) = py_lower (sql_trim s)"
  by (simp add: sql_trim_def strip_by_def rstrip_by_def lstrip_by_def py_lower_def dropWhile_map rev_map [symmetric] comp_def py_lower_blank)
     (simp add: rev_map dropWhile_map comp_def py_lower_blank)

lemma norm_email_lower [simp]: "norm_email (py_lower s) = norm_email s"
  by (simp add: norm_email_def sql_trim_lower)

lemma suppress_blocks: "e \<noteq> [] \<Longrightarrow> email_blocked (norm_email e) (suppress reason (Some e) co src c)"
proof -
  assume e: "e \<noteq> []"
  have "email_blocked (norm_email e) (suppress_email reason e co src c)"
  proof (cases "list_ex (\<lambda>s. map_option py_lower (su_email s) = Some (py_lower e)) (cv_suppressions c)")
    case True
    then obtain s x where s: "s \<in> set (cv_suppressions c)" "su_email s = Some x" "py_lower x = py_lower e"
      by (auto simp: list_ex_iff)
    then have "norm_email x = norm_email e" by (metis norm_email_lower)
    then show ?thesis using True s by (auto simp: suppress_email_def email_blocked_def)
  next
    case False
    then show ?thesis by (auto simp: suppress_email_def email_blocked_def)
  qed
  moreover have "set (cv_suppressions a) \<subseteq> set (cv_suppressions (suppress_company reason i src a))" for a i
    by (auto simp: suppress_company_def)
  ultimately show ?thesis using e unfolding suppress_def email_blocked_def
    by (auto simp: Let_def split: option.splits)
qed

text \<open>A small memory to apply the theorems to: one company and no messages.\<close>

definition demo_shop :: conv where
  "demo_shop = no_conv\<lparr>cv_companies := [\<lparr>co_id = ''c1'', co_name = ''Shop'', co_domain = Some ''shop.com'', co_norm_domain = Some ''shop.com'', co_website = None, co_industry = Some ''roofing'', co_city = Some ''Austin'', co_region = Some ''TX'',
     co_qualification = ''HIGH'', co_qual_reason = None, co_personalization = VDict [], co_first_contacted = None,
     co_last_contacted = None, co_outreach = ''new'', co_handoff_ref = None, co_historical = [],
     co_active = True, co_ready_at = None, co_discovered = 0, co_source = None\<rparr>]\<rparr>"

definition demo_send :: "str \<Rightarrow> confirmed" where
  "demo_send kind = \<lparr>cf_company = ''c1'', cf_recipient = ''bob@shop.com'', cf_sender = ''me@x.io'', cf_subject = ''Hi'',
     cf_body = ''Hello'', cf_sent_at = 7, cf_provider = ''smtp'', cf_provider_id = ''p1@x.io'', cf_thread = None, cf_kind = kind,
     cf_offer = None, cf_variant = None, cf_cta = None, cf_price = None, cf_draft = None\<rparr>"

definition demo_reply :: message where
  "demo_reply = demo_sent\<lparr>mg_inbound := True, mg_kind := ''inbound'', mg_sender := ''bob@shop.com'', mg_provider_id := Some ''r1''\<rparr>"

text \<open>C37. An opt-out is final: once an address is suppressed, no run of the store, the senders, the
  notifier or the owner makes the guard let any kind of message go to that mailbox, however the
  address is written (case, a plus tag, Gmail's dots, googlemail).\<close>

theorem opt_out_is_final:
  assumes "e \<noteq> []" and "conv_steps True (suppress reason (Some e) co src c) c'" and "norm_email e' = norm_email e"
  shows "\<not> ga_allowed (send_check c' e' kind company)"
  using blocked_mail.refused_forever [OF assms(2) suppress_blocks [OF assms(1)]] assms(3)
  unfolding refuses_def same_mailbox_def any_kind_def by blast

theorem opt_out_is_final_witness:
  "\<not> ga_allowed (send_check
      (snd (resolve_attention ''c1'' ''ok'' None (suppress ''unsubscribe'' (Some ''John.Smith+shop@GoogleMail.com'') None None no_conv)))
      ''johnsmith@gmail.com'' ''reply'' None)"
proof -
  let ?e = "''John.Smith+shop@GoogleMail.com''"
  let ?c = "suppress ''unsubscribe'' (Some ?e) None None no_conv"
  have "?e \<noteq> []" "norm_email ''johnsmith@gmail.com'' = norm_email ?e" by code_simp+
  moreover have "conv_steps True ?c (snd (resolve_attention ''c1'' ''ok'' None ?c))"
    by (rule r_into_rtranclp, rule step_resolve) (rule TrueI)
  ultimately show ?thesis by (intro opt_out_is_final [where e = ?e])
qed

lemma stored_message: "insert_message now newid m c = Inr (Some i, c') \<Longrightarrow>
    (clean_message m)\<lparr>mg_id := newid, mg_recorded := now\<rparr> \<in> set (cv_messages c')"
  by (auto simp: insert_message_def Let_def split: if_splits)

lemma send_is_stored:
  assumes "record_confirmed_send pa now newid f c = Inr (Some m, c')"
  shows "written_to (cf_company f) c' \<and> mailed (norm_email (clean_str (addr pa (cf_recipient f)))) c'"
proof -
  from send_parts [OF assms] obtain c1 st c2 c3 c4 c5 where
    p: "insert_message now newid (sent_message pa f) c = Inr (Some m, c1)"
      "ensure_state now (cf_company f) (touch_company (cf_company f) (cf_sent_at f) (log_history pa f c1)) = Inr (st, c2)"
      "first_touch now f m st c2 = Inr c3" "proposal_step now f m (note_price f m c3) = Inr c4"
      "update_state now (cf_company f) (send_fields pa f m st) c4 = Inr c5" "c' = close_drafts f m c5"
    by metis
  have "grows c1 (touch_company (cf_company f) (cf_sent_at f) (log_history pa f c1))" by (simp add: grows_history)
  moreover have "grows c3 (note_price f m c3)" and "grows c5 c'" using p(6) by simp_all
  ultimately have g: "grows c1 c'"
    using grows_ensure [OF p(2)] grows_first_touch [OF p(3)] grows_proposal [OF p(4)] grows_update [OF p(5)] by (meson grows_trans)
  let ?m = "(clean_message (sent_message pa f))\<lparr>mg_id := newid, mg_recorded := now\<rparr>"
  have "?m \<in> set (cv_messages c')" using stored_message [OF p(1)] g unfolding grows_def by blast
  moreover have "\<not> mg_inbound ?m" "mg_company ?m = Some (cf_company f)" "mg_recipient ?m = clean_str (addr pa (cf_recipient f))"
    by (simp_all add: clean_message_def sent_message_def)
  ultimately show ?thesis unfolding written_to_def mailed_def by metis
qed

text \<open>C19. No second first touch: after a send was confirmed, no run of the store, the senders, the
  notifier or the owner makes the guard let another cold message go to the same mailbox or to
  the same company.\<close>

theorem no_second_first_touch:
  assumes "record_confirmed_send pa now newid f c = Inr (Some m, c1)" and "conv_steps True c1 c'"
    and "norm_email e = norm_email (clean_str (addr pa (cf_recipient f))) \<or> company_for c' e company = Some (cf_company f)"
  shows "\<not> ga_allowed (send_check c' e ''cold'' company)"
  using mailed_once.refused_forever [OF assms(2), of "norm_email (clean_str (addr pa (cf_recipient f)))"]
    written_once.refused_forever [OF assms(2), of "cf_company f"] send_is_stored [OF assms(1)] assms(3)
  unfolding refuses_def same_mailbox_def belongs_to_def cold_kind_def by blast

theorem no_second_first_touch_witness:
  "\<exists>c1. record_confirmed_send id 9 ''m1'' (demo_send ''cold'') demo_shop = Inr (Some ''m1'', c1)
     \<and> \<not> ga_allowed (send_check c1 ''bob+x@shop.com'' ''cold'' None)"
proof -
  let ?r = "record_confirmed_send id 9 ''m1'' (demo_send ''cold'') demo_shop"
  have "(case ?r of Inr (Some m, c1) \<Rightarrow> m = ''m1'' | _ \<Rightarrow> False)" by code_simp
  then obtain c1 where r: "?r = Inr (Some ''m1'', c1)" by (auto split: sum.splits prod.splits option.splits)
  have "norm_email ''bob+x@shop.com'' = norm_email (clean_str (addr id (cf_recipient (demo_send ''cold''))))" by code_simp
  from no_second_first_touch [OF r rtranclp.rtrancl_refl disjI1 [OF this]] r show ?thesis by blast
qed

text \<open>C38. A person's reply stops the sequence for good: once one is stored for a company, no run, the
  owner's included, makes the guard let a cold message or a follow-up go to an address of that
  company.\<close>

theorem reply_stops_sequence:
  assumes "insert_message now newid m c = Inr (Some mid, c1)" and "mg_inbound m" and "mg_company m = Some i"
    and "clean_str (mg_kind m) \<notin> {''auto_reply'', ''bounce''}" and "conv_steps True c1 c'"
    and "company_for c' e company = Some i" and "kind \<in> {''cold'', ''followup''}"
  shows "\<not> ga_allowed (send_check c' e kind company)"
proof -
  have "human_reply i ((clean_message m)\<lparr>mg_id := newid, mg_recorded := now\<rparr>)"
    using assms(2,3,4) by (simp add: human_reply_def clean_message_def)
  then have "replied_to i c1" using stored_message [OF assms(1)] unfolding replied_to_def by blast
  from replied_once.refused_forever [OF assms(5) this] assms(6,7) show ?thesis
    unfolding refuses_def belongs_to_def generic_kind_def by blast
qed

theorem reply_stops_sequence_witness:
  "\<exists>c1. insert_message 9 ''m2'' demo_reply demo_shop = Inr (Some ''m2'', c1)
     \<and> \<not> ga_allowed (send_check c1 ''sales@shop.com'' ''followup'' None)"
proof -
  let ?r = "insert_message 9 ''m2'' demo_reply demo_shop"
  have "(case ?r of Inr (Some m, c1) \<Rightarrow> m = ''m2'' \<and> company_for c1 ''sales@shop.com'' None = Some ''c1'' | _ \<Rightarrow> False)" by code_simp
  then obtain c1 where r: "?r = Inr (Some ''m2'', c1)" and co: "company_for c1 ''sales@shop.com'' None = Some ''c1''"
    by (auto split: sum.splits prod.splits option.splits)
  have f: "mg_inbound demo_reply" "mg_company demo_reply = Some ''c1''" "clean_str (mg_kind demo_reply) \<notin> {''auto_reply'', ''bounce''}"
    "''followup'' \<in> {''cold'', ''followup''}" by code_simp+
  from reply_stops_sequence [OF r f(1,2,3) rtranclp.rtrancl_refl co f(4)] r show ?thesis by blast
qed

lemma status_opts_out:
  assumes "set_status now i (cstatus_value Do_not_contact) reason mid actor ov w fs c = Inr c'"
  shows "opted_out i c'"
proof -
  obtain st c1 t c2 where e: "ensure_state now i c = Inr (st, c1)" and k: "check (cs_status st) (cstatus_value Do_not_contact) ov = Inr t"
    and u: "update_row i (status_row_for t reason ov fs st) c1 = Inr c2"
    and c': "c' = (let c3 = log_transition i (cs_status st) t reason mid actor (case w of Some w \<Rightarrow> w | None \<Rightarrow> now) c2 in
               case outreach_for t of Some oc \<Rightarrow> mark_company i oc c3 | None \<Rightarrow> c3)"
    using assms unfolding set_status_def by (auto simp: Let_def split: sum.splits prod.splits)
  have "t = Do_not_contact" using k by (metis check_Inr cstatus_roundtrip option.inject)
  then have "opted_out i c2"
    by (simp add: opted_out_def state_row_update [OF u status_row_fields(2)] ensure_row [OF e])
  then show ?thesis unfolding c' Let_def by (auto intro: opted_mark split: option.splits)
qed

text \<open>Do not contact stays until the owner says otherwise: after a company is set to it, no run
  without an owner's decision makes the guard let anything go to an address of that company,
  and the company is still at that status.\<close>

theorem do_not_contact_stays:
  assumes "set_status now i (cstatus_value Do_not_contact) reason mid actor ov w fs c = Inr c1" and "conv_steps False c1 c'"
  shows "opted_out i c' \<and> (company_for c' e company = Some i \<longrightarrow> \<not> ga_allowed (send_check c' e kind company))"
  using opted_once.cond_forever [OF assms(2) status_opts_out [OF assms(1)]]
    opted_once.refused_forever [OF assms(2) status_opts_out [OF assms(1)]]
  unfolding refuses_def belongs_to_def any_kind_def by blast

theorem do_not_contact_stays_witness:
  "\<exists>c1. set_status 9 ''c1'' ''do_not_contact'' ''asked'' None ''system'' False None [] demo_shop = Inr c1
     \<and> \<not> ga_allowed (send_check c1 ''sales@shop.com'' ''reply'' None)"
proof -
  let ?r = "set_status 9 ''c1'' (cstatus_value Do_not_contact) ''asked'' None ''system'' False None [] demo_shop"
  have "(case ?r of Inr c1 \<Rightarrow> company_for c1 ''sales@shop.com'' None = Some ''c1'' | _ \<Rightarrow> False)" by code_simp
  then obtain c1 where r: "?r = Inr c1" and co: "company_for c1 ''sales@shop.com'' None = Some ''c1''"
    by (auto split: sum.splits)
  from do_not_contact_stays [OF r rtranclp.rtrancl_refl, of "''sales@shop.com''" None "''reply''"] co r show ?thesis by auto
qed

subsection \<open>The table's constraints\<close>

definition conv_ok :: "conv \<Rightarrow> bool" where
  "conv_ok c \<longleftrightarrow> distinct (map cs_company (cv_states c)) \<and> (\<forall>r\<in>set (cv_states c). state_ok r)"

lemma initial_ok: "state_ok ((initial_state c r)\<lparr>cs_airtable := x\<rparr>)"
  by (simp add: initial_state_def Let_def state_ok_def PRE_REPLY_def)

lemma conv_ok_ensure:
  assumes "conv_ok c" and "ensure_state now i c = Inr (st, c')"
  shows "conv_ok c' \<and> st \<in> set (cv_states c') \<and> cs_company st = i"
proof (cases "state_row c i")
  case (Some x)
  then have "st = x \<and> c' = c" using ensure_same [OF assms(2)] by blast
  then show ?thesis using Some assms(1) unfolding state_row_def by (auto dest: find_Some_in)
next
  case None
  then obtain r where r: "company_row c i = Some r" and st: "st = (initial_state c r)\<lparr>cs_airtable := airtable_record_of c i\<rparr>"
    and c': "cv_states c' = cv_states c @ [st]"
    using assms(2) by (auto simp: ensure_state_def Let_def split: option.splits)
  have i: "cs_company st = i" using r st unfolding company_row_def by (auto simp: initial_state_def Let_def dest: find_Some_in)
  moreover have "i \<notin> cs_company ` set (cv_states c)" using None by (auto simp: state_row_def find_None_iff)
  ultimately show ?thesis using assms(1) initial_ok st c' by (auto simp: conv_ok_def)
qed

lemma put_field_cold: "x \<notin> range F_cold \<Longrightarrow> cs_cold (put_field x r) = cs_cold r"
  by (cases x) auto

lemma put_fields_cold: "set fs \<inter> range F_cold = {} \<Longrightarrow> cs_cold (put_fields fs r) = cs_cold r"
  unfolding put_fields_def by (induction fs arbitrary: r) (simp_all add: put_field_cold)

lemma put_field_bounced: "cs_bounced (put_field x r) \<Longrightarrow> cs_bounced r \<or> x = F_bounced True"
  by (cases x) auto

lemma put_fields_bounced: "cs_bounced (put_fields fs r) \<Longrightarrow> cs_bounced r \<or> F_bounced True \<in> set fs"
  unfolding put_fields_def by (induction fs arbitrary: r) (auto dest: put_field_bounced)

lemma without_cold_none: "set (without_cold fs) \<inter> range F_cold = {}"
  by (auto simp: without_cold_def)

lemma set_without_cold: "F_bounced True \<in> set (without_cold fs) \<longleftrightarrow> F_bounced True \<in> set fs"
  by (simp add: without_cold_def)

lemma status_row_cold: "cs_cold (status_row_for t reason ov fs st r) = new_cold t fs st"
  by (simp add: status_row_for_def Let_def put_fields_cold without_cold_none)

lemma status_row_bounced: "cs_bounced (status_row_for t reason ov fs st r) \<Longrightarrow> cs_bounced r \<or> F_bounced True \<in> set fs"
  by (auto simp: status_row_for_def Let_def set_without_cold split: if_splits dest!: put_fields_bounced)

lemma status_row_ok:
  assumes "state_ok st" and "check (cs_status st) to ov = Inr t" and "cs_bounced r = cs_bounced st"
  shows "state_ok (status_row_for t reason ov fs st r)"
proof -
  have "new_cold t fs st \<longrightarrow> t \<in> set PRE_REPLY \<and> F_bounced True \<notin> set fs \<and> \<not> cs_bounced st"
    by (simp add: new_cold_def cold_sequence_allowed_def)
  moreover have "cs_dnc st \<and> \<not> ov \<longrightarrow> t = Do_not_contact"
    using assms(1,2) by (auto simp: state_ok_def check_Inr)
  moreover have "Do_not_contact \<notin> set PRE_REPLY" by (simp add: PRE_REPLY_def)
  ultimately show ?thesis
    using status_row_bounced [of t reason ov fs st r] assms(3) unfolding state_ok_def status_row_cold status_row_fields by blast
qed

lemma update_row_ok:
  assumes "conv_ok c" and "st \<in> set (cv_states c)" and "cs_company st = i" and "\<And>r. cs_company (f r) = cs_company r"
    and "state_ok (f (st\<lparr>cs_version := cs_version st + 1\<rparr>))"
  shows "\<exists>c'. update_row i f c = Inr c' \<and> conv_ok c'"
proof -
  let ?g = "\<lambda>r. f (r\<lparr>cs_version := cs_version r + 1\<rparr>)"
  let ?t = "upd_where (\<lambda>r. cs_company r = i) ?g (cv_states c)"
  have one: "r = st" if "r \<in> set (cv_states c)" "cs_company r = i" for r
    using distinct_key_eq [of cs_company "cv_states c" r st] assms(1,2,3) that by (simp add: conv_ok_def)
  have "\<forall>r\<in>set ?t. state_ok r"
    unfolding ball_upd_where using one assms(1,5) by (auto simp: conv_ok_def)
  moreover have "map cs_company ?t = map cs_company (cv_states c)" by (rule map_upd_where) (simp add: assms(4))
  ultimately show ?thesis using assms(1) by (auto simp: update_row_def Let_def conv_ok_def)
qed

lemma conv_ok_same [simp]:
  "conv_ok (log_transition i frm t reason mid actor w c) = conv_ok c" "conv_ok (mark_company i oc c) = conv_ok c"
  by (simp_all add: conv_ok_def log_transition_def mark_company_def)

text \<open>C39. The status only changes within the table's constraints: on a memory that satisfies them,
  \<open>set_status\<close> never runs into one, whatever fields it is given and whether or not the owner
  overrides; it fails only for an unknown company or a transition that is not allowed, and
  what it leaves satisfies them again: a cold sequence only before any reply, never beside a
  do-not-contact flag or a bounce.\<close>

theorem set_status_keeps_schema:
  assumes "conv_ok c"
  shows "case set_status now i to reason mid actor ov w fs c of
      Inr c' \<Rightarrow> conv_ok c'
    | Inl e \<Rightarrow> (case e of CheckErr _ \<Rightarrow> False | ValueErr _ \<Rightarrow> False | _ \<Rightarrow> True)"
proof (cases "ensure_state now i c")
  case (Inl e)
  then show ?thesis by (auto simp: set_status_def ensure_state_def Let_def split: option.splits)
next
  case (Inr p)
  obtain st c1 where e: "ensure_state now i c = Inr (st, c1)" using Inr by (cases p) auto
  note ok = conv_ok_ensure [OF assms e]
  show ?thesis
  proof (cases "check (cs_status st) to ov")
    case (Inl x)
    then show ?thesis using e by (simp add: set_status_def)
  next
    case (Inr t)
    have "state_ok st" using ok by (simp add: conv_ok_def)
    then have "\<exists>c2. update_row i (status_row_for t reason ov fs st) c1 = Inr c2 \<and> conv_ok c2"
      using ok Inr by (intro update_row_ok [where st = st] status_row_ok) auto
    then obtain c2 where "update_row i (status_row_for t reason ov fs st) c1 = Inr c2" "conv_ok c2" by blast
    then show ?thesis using e Inr by (simp add: set_status_def Let_def split: option.splits)
  qed
qed

theorem set_status_keeps_schema_witness:
  "\<exists>c1. set_status 9 ''c1'' ''emailed'' ''sent'' None ''system'' False None [F_cold True, F_bounced True] demo_shop = Inr c1 \<and> conv_ok c1"
proof -
  let ?r = "set_status 9 ''c1'' ''emailed'' ''sent'' None ''system'' False None [F_cold True, F_bounced True] demo_shop"
  have ok: "conv_ok demo_shop" by code_simp
  have "(case ?r of Inr c1 \<Rightarrow> True | _ \<Rightarrow> False)" by code_simp
  then obtain c1 where r: "?r = Inr c1" by (auto split: sum.splits)
  from set_status_keeps_schema [OF ok, of 9 "''c1''" "''emailed''" "''sent''" None "''system''" False None "[F_cold True, F_bounced True]"]
  show ?thesis unfolding r by simp
qed

subsection \<open>A proposal that is sent early\<close>

text \<open>C37. A proposal sent to a company that is interested, qualified or waiting for a meeting is not
  recorded: the code asks for the step to \<open>proposal_sent\<close>, the table of transitions does not
  have it, and the error rolls the confirmed send back.\<close>

theorem early_proposal_unrecorded:
  assumes "state_row c (cf_company f) = Some st" and "cs_status st \<in> {Interested, Qualified, Meeting_requested}"
    and "cf_kind f = ''proposal''" and "cf_provider_id f \<noteq> []"
    and "\<forall>m\<in>set (cv_messages c). mg_provider_id m \<noteq> Some (clean_str (cf_provider_id f))"
  shows "record_confirmed_send pa now newid f c = Inl (TransitionErr (NotAllowed (cs_status st) Proposal_sent))"
proof -
  let ?i = "cf_company f"
  let ?m = "(clean_message (sent_message pa f))\<lparr>mg_id := newid, mg_recorded := now\<rparr>"
  have kind: "clean_str ''proposal'' = ''proposal''" "''proposal'' \<in> set MESSAGE_KINDS" "''proposal'' \<in> set SEND_KINDS"
    by code_simp+
  have k: "mg_kind ?m = ''proposal''" using assms(3) kind(1) by (simp add: clean_message_def sent_message_def)
  have p: "mg_provider_id ?m = (if clean_str (cf_provider_id f) = [] then None else Some (clean_str (cf_provider_id f)))"
    by (simp add: clean_message_def sent_message_def)
  have "\<not> (mg_provider_id ?m \<noteq> None \<and> list_ex (\<lambda>x. mg_provider_id x = mg_provider_id ?m) (cv_messages c))"
    using assms(5) unfolding p by (auto simp: list_ex_iff)
  then have ins: "insert_message now newid (sent_message pa f) c = Inr (Some newid, c\<lparr>cv_messages := cv_messages c @ [?m]\<rparr>)"
    using k kind(2) unfolding insert_message_def Let_def by (simp only: if_False not_not simp_thms)
  let ?c1 = "touch_company ?i (cf_sent_at f) (log_history pa f (c\<lparr>cv_messages := cv_messages c @ [?m]\<rparr>))"
  have row: "state_row ?c1 ?i = Some st"
    using assms(1) by (simp add: state_row_def touch_company_def log_history_def Let_def)
  then have e1: "ensure_state now ?i ?c1 = Inr (st, ?c1)" by (simp add: ensure_state_def)
  have t: "first_touch now f newid st ?c1 = Inr ?c1" using assms(2) by (auto simp: first_touch_def)
  let ?c2 = "note_price f newid ?c1"
  have "state_row ?c2 ?i = Some st"
    using row by (auto simp: note_price_def add_fact_def Let_def state_row_def split: option.splits)
  then have e2: "ensure_state now ?i ?c2 = Inr (st, ?c2)" by (simp add: ensure_state_def)
  have "check (cs_status st) (cstatus_value Proposal_sent) False = Inl (NotAllowed (cs_status st) Proposal_sent)"
    unfolding check_value using assms(2) by auto
  then have bad: "check (cs_status st) ''proposal_sent'' False = Inl (NotAllowed (cs_status st) Proposal_sent)" by simp
  have st: "cs_status st \<in> {Proposal_needed, Negotiating, Interested, Qualified, Meeting_requested}" using assms(2) by blast
  have "set_status now ?i ''proposal_sent'' ''proposal sent'' (Some newid) ''system'' False (Some (cf_sent_at f)) [] ?c2
      = Inl (TransitionErr (NotAllowed (cs_status st) Proposal_sent))"
    unfolding set_status_def e2 by (simp only: sum.case prod.case bad)
  then have "proposal_step now f newid ?c2 = Inl (TransitionErr (NotAllowed (cs_status st) Proposal_sent))"
    unfolding proposal_step_def e2 ebind_Inr prod.case using assms(3) st by (simp only: simp_thms if_True if_False)
  then show ?thesis
    unfolding record_confirmed_send_def ins ebind_Inr prod.case option.case e1 t
    using assms(3,4) kind(3) by (simp only: simp_thms if_False not_not ebind_Inl)
qed

definition demo_interested :: conv where
  "demo_interested = demo_shop\<lparr>cv_states := [(initial_state demo_shop (hd (cv_companies demo_shop)))\<lparr>cs_status := Interested\<rparr>]\<rparr>"

theorem early_proposal_unrecorded_witness:
  "record_confirmed_send id 9 ''m1'' (demo_send ''proposal'') demo_interested = Inl (TransitionErr (NotAllowed Interested Proposal_sent))"
proof -
  let ?st = "(initial_state demo_shop (hd (cv_companies demo_shop)))\<lparr>cs_status := Interested\<rparr>"
  have s: "cs_status ?st = Interested" by simp
  have f: "state_row demo_interested (cf_company (demo_send ''proposal'')) = Some ?st"
    by (simp add: demo_interested_def demo_send_def state_row_def initial_state_def demo_shop_def Let_def)
  have g: "cf_kind (demo_send ''proposal'') = ''proposal''" "cf_provider_id (demo_send ''proposal'') \<noteq> []"
    "\<forall>m\<in>set (cv_messages demo_interested). mg_provider_id m \<noteq> Some (clean_str (cf_provider_id (demo_send ''proposal'')))"
    by code_simp+
  have "cs_status ?st \<in> {Interested, Qualified, Meeting_requested}" by simp
  from early_proposal_unrecorded [OF f this g] show ?thesis unfolding s .
qed

end
