(* ===== verification/ConvPipeline.thy ===== *)
theory ConvPipeline
  imports ConvActions ConvSystem
begin

text \<open>
  \<open>src/cloudos/conversations/pipeline.py\<close>: one reply, end to end. An environment holds what comes from
  outside: the parser of addresses, the clock, the ids the database gives to the new rows, the relay,
  the offers and the Airtable base. A run returns an exception, or what was done and the memory it
  leaves; a \<open>KeyError\<close> of the classifier is one. The values of a message are texts.
\<close>

record penv =
  pe_pa :: "str \<Rightarrow> str"
  pe_now :: time
  pe_mid :: str
  pe_draft :: "str \<Rightarrow> str"
  pe_note :: int
  pe_post :: poster
  pe_cat :: catalogue
  pe_base :: str
  pe_table :: str
  pe_today :: int
  pe_our :: "str list"
  pe_notify :: bool

record mail =
  ml_pid :: "str option"
  ml_thread :: "str option"
  ml_in_reply_to :: "str option"
  ml_refs :: references
  ml_sender :: str
  ml_recipient :: str
  ml_subject :: str
  ml_body :: str
  ml_at :: time
  ml_headers :: "(str \<times> str) list"

fun clean_refs :: "references \<Rightarrow> references" where
  "clean_refs (Ref_ids is) = Ref_ids (map clean_str is)"
| "clean_refs (Ref_header h) = Ref_header (map_option clean_str h)"

definition clean_mail :: "mail \<Rightarrow> mail" where
  "clean_mail m = m\<lparr>ml_pid := map_option clean_str (ml_pid m), ml_thread := map_option clean_str (ml_thread m),
     ml_in_reply_to := map_option clean_str (ml_in_reply_to m), ml_refs := clean_refs (ml_refs m),
     ml_sender := clean_str (ml_sender m), ml_recipient := clean_str (ml_recipient m), ml_subject := clean_str (ml_subject m),
     ml_body := clean_str (ml_body m), ml_headers := map (\<lambda>(k, v). (clean_str k, clean_str v)) (ml_headers m)\<rparr>"

definition mail_inbound :: "mail \<Rightarrow> inbound" where
  "mail_inbound m = \<lparr>ib_sender = ml_sender m, ib_subject = ml_subject m, ib_body = ml_body m, ib_headers = ml_headers m\<rparr>"

subsection \<open>Bounces and dates\<close>

definition BOUNCE_RCPT :: "rx list" where
  "BOUNCE_RCPT = map rxq [
     ''Final-Recipient:~s*rfc822;~s*([^~s;<>]+@[^~s;<>]+)'', ''wasn`?t delivered to~s+<?([^~s<>]+@[^~s<>]+)'',
     ''delivery to the following recipient[s]? failed[^~n]*~n~s*<?([^~s<>]+@[^~s<>]+)>?'',
     ''Original-Recipient:~s*rfc822;~s*([^~s;<>]+@[^~s;<>]+)'', ''<([^~s<>]+@[^~s<>]+)>:~s*host'']"

definition failed_address :: "rx \<Rightarrow> str \<Rightarrow> str" where
  "failed_address p body = (case rx_search p body of
     None \<Rightarrow> [] | Some m \<Rightarrow> strip_by (\<lambda>c. c \<in> set ''.,;:>'') (py_lower (group1 m)))"

definition bounce_recipient :: "str \<Rightarrow> str list \<Rightarrow> str option" where
  "bounce_recipient body our =
     find (\<lambda>r. r \<noteq> [] \<and> CHR ''@'' \<in> set r \<and> r \<notin> set our) (map (\<lambda>p. failed_address p body) BOUNCE_RCPT)"

definition MONTHS :: "str list" where
  "MONTHS = [''january'', ''february'', ''march'', ''april'', ''may'', ''june'', ''july'', ''august'', ''september'', ''october'',
     ''november'', ''december'']"

text \<open>The day, counted from the epoch, of a year, month and day.\<close>

definition days_of :: "int \<Rightarrow> int \<Rightarrow> int \<Rightarrow> int" where
  "days_of y0 m d =
     (let y = (if m \<le> 2 then y0 - 1 else y0); era = y div 400; yoe = y mod 400;
          doy = (153 * (if 2 < m then m - 3 else m + 9) + 2) div 5 + d - 1
      in era * 146097 + (yoe * 365 + yoe div 4 - yoe div 100 + doy) - 719468)"

fun named_month :: "str list \<Rightarrow> int \<Rightarrow> str \<Rightarrow> int option" where
  "named_month [] i low = None"
| "named_month (name # names) i low =
     (if rx_found (rxc (''~b'' @ name @ ''~b'')) low then Some i else named_month names (i + 1) low)"

definition follow_up_date :: "str \<Rightarrow> int \<Rightarrow> int option" where
  "follow_up_date s today =
     (let low = py_lower s; y = fst (civil today); mth = fst (snd (civil today)) in
      case named_month MONTHS 1 low of
        Some i \<Rightarrow> Some (days_of (y + (if i \<le> mth then 1 else 0)) i 1)
      | None \<Rightarrow>
          if rx_found (rxc ''next year'') low then Some (days_of (y + 1) 1 15)
          else if rx_found (rxc ''next quarter|few months|couple (of )?months'') low then Some (today + 90)
          else if rx_found (rxc ''next month'') low then Some (today + 30)
          else None)"

subsection \<open>Moving the company\<close>

definition HUMAN_URGENCY :: "(clabel \<times> str) list" where
  "HUMAN_URGENCY = [(L_READY_TO_BUY, ''urgent''), (L_MEETING_REQUEST, ''high''), (L_PRICE_QUESTION, ''high''),
     (L_NEEDS_REVIEW, ''high''), (L_INTERESTED, ''normal''), (L_MORE_INFORMATION, ''normal''), (L_OBJECTION, ''normal''),
     (L_REFERRAL, ''normal''), (L_OTHER, ''normal'')]"

definition POSITIVE_LABELS :: "clabel list" where
  "POSITIVE_LABELS = [L_INTERESTED, L_PRICE_QUESTION, L_MORE_INFORMATION, L_MEETING_REQUEST, L_READY_TO_BUY]"

definition human :: "clabel \<Rightarrow> bool" where
  "human l \<longleftrightarrow> l \<noteq> L_AUTO_REPLY \<and> l \<noteq> L_DELIVERY_FAILURE"

definition inbound_kind :: "clabel \<Rightarrow> str" where
  "inbound_kind l = (if l = L_AUTO_REPLY then ''auto_reply'' else if l = L_DELIVERY_FAILURE then ''bounce'' else ''inbound'')"

definition last_question :: "clf \<Rightarrow> str option" where
  "last_question k = last_opt (map fa_text (filter (\<lambda>f. fa_type f = ''question'') (cl_facts k)))"

definition due_at :: "penv \<Rightarrow> mail \<Rightarrow> clf \<Rightarrow> time option" where
  "due_at env m k =
     (if cl_label k = L_NOT_NOW then map_option (\<lambda>d. d * day + 14 * hour) (follow_up_date (cl_text k) (pe_today env))
      else if map_of HUMAN_URGENCY (cl_label k) \<noteq> None then Some (ml_at m + 4 * hour) else None)"

definition reply_fields :: "penv \<Rightarrow> mail \<Rightarrow> clf \<Rightarrow> conv_state \<Rightarrow> field list" where
  "reply_fields env m k st =
     (let l = cl_label k in
      F_last_label l
      # (if human l then [F_last_reply_at (ml_at m), F_meaningful (Some (pe_mid env)) (ml_at m) (one_line (cl_text k) 300),
                          F_question (last_question k)] else [])
      @ [F_next_action (snd (NEXT_ACTION l)), F_next_due (due_at env m k)]
      @ (if l = L_NOT_NOW then [F_follow_up (follow_up_date (cl_text k) (pe_today env))] else [])
      @ (if l = L_READY_TO_BUY then [F_proposal (if cs_proposal st = P_sent then P_accepted else P_needed)] else [])
      @ (if l = L_DELIVERY_FAILURE then [F_bounced True] else [])
      @ (if l = L_DELIVERY_FAILURE \<and> target_for l (cs_status st) = cs_status st \<and> cs_cold st
         then [F_cold False, F_stop_reason ''delivery failure''] else []))"

definition next_status :: "clabel \<Rightarrow> cstatus \<Rightarrow> cstatus" where
  "next_status l prev =
     (let n = target_for l prev in if human l \<and> prev \<in> set PRE_REPLY \<and> n \<in> set PRE_REPLY then Replied else n)"

definition stored_inbound :: "penv \<Rightarrow> mail \<Rightarrow> str option \<Rightarrow> clabel \<Rightarrow> message" where
  "stored_inbound env m company l =
     \<lparr>mg_id = [], mg_company = company, mg_inbound = True, mg_kind = inbound_kind l, mg_sender = addr (pe_pa env) (ml_sender m),
      mg_recipient = addr (pe_pa env) (ml_recipient m), mg_subject = ml_subject m, mg_body = ml_body m, mg_at = ml_at m,
      mg_recorded = 0, mg_provider_id = ml_pid m, mg_thread = ml_thread m, mg_cta = None, mg_price = None, mg_offer = None\<rparr>"

definition analysis_of :: "penv \<Rightarrow> str \<Rightarrow> clf \<Rightarrow> analysis" where
  "analysis_of env i k =
     \<lparr>an_message = pe_mid env, an_company = i, an_label = cl_label k, an_confidence = cl_confidence k, an_evidence = cl_evidence k,
      an_summary = cl_summary k, an_interpretation = cl_interpretation k, an_action = cl_action k, an_reason = cl_reason k\<rparr>"

fun add_facts :: "str \<Rightarrow> str \<Rightarrow> fact list \<Rightarrow> conv \<Rightarrow> conv" where
  "add_facts i mid [] c = c"
| "add_facts i mid (f # fs) c =
     add_facts i mid fs (add_fact i (fa_type f) (fa_text f) (VDict (fa_value f)) ''prospect'' (Some mid) c)"

text \<open>\<open>INSERT INTO contacts \<dots> ON CONFLICT DO NOTHING\<close>: addresses are unique, whatever their case.\<close>

definition add_contact :: "time \<Rightarrow> str \<Rightarrow> str \<Rightarrow> conv \<Rightarrow> conv" where
  "add_contact now i e c =
     (if list_ex (\<lambda>k. py_lower (ct_email k) = py_lower e) (cv_contacts c) then c
      else c\<lparr>cv_contacts := cv_contacts c @ [\<lparr>ct_company = i, ct_email = e, ct_status = ''unknown'', ct_role = Some ''referred'', ct_discovered = now\<rparr>]\<rparr>)"

fun add_contacts :: "time \<Rightarrow> str \<Rightarrow> str list \<Rightarrow> conv \<Rightarrow> conv" where
  "add_contacts now i [] c = c"
| "add_contacts now i (e # es) c = add_contacts now i es (add_contact now i e c)"

definition pending_of :: "str \<Rightarrow> draft \<Rightarrow> bool" where
  "pending_of i d \<longleftrightarrow> dr_company d = i \<and> pending d"

definition act_on_opt_out :: "penv \<Rightarrow> mail \<Rightarrow> str \<Rightarrow> clf \<Rightarrow> conv \<Rightarrow> conv" where
  "act_on_opt_out env m i k c =
     (if cl_label k = L_UNSUBSCRIBE
      then set_drafts (pending_of i) D_discarded
             (suppress (if cl_legal k then ''legal'' else ''unsubscribe'') (Some (addr (pe_pa env) (ml_sender m))) (Some i)
                (Some (pe_mid env)) c)
      else c)"

definition act_on_bounce :: "penv \<Rightarrow> clf \<Rightarrow> str option \<Rightarrow> conv \<Rightarrow> conv" where
  "act_on_bounce env k failed c =
     (case failed of Some r \<Rightarrow> if cl_label k = L_DELIVERY_FAILURE then suppress ''hard_bounce'' (Some r) None (Some (pe_mid env)) c else c
      | None \<Rightarrow> c)"

subsection \<open>Drafts\<close>

definition VIDEO_RE :: rx where "VIDEO_RE = rxq ''~b(video|walkthrough)~b''"
definition BREAKDOWN_RE :: rx where "BREAKDOWN_RE = rxq ''~b(breakdown|audit)~b''"

definition latest_sent :: "conv \<Rightarrow> str \<Rightarrow> message option" where
  "latest_sent c i = least_by (\<lambda>m. - mg_at m) (filter (\<lambda>m. mg_company m = Some i \<and> \<not> mg_inbound m) (cv_messages c))"

definition we_offered :: "rx \<Rightarrow> clf \<Rightarrow> conv \<Rightarrow> str \<Rightarrow> bool" where
  "we_offered r k c i \<longleftrightarrow> cl_label k \<in> {L_MORE_INFORMATION, L_INTERESTED}
     \<and> (case latest_sent c i of Some m \<Rightarrow> rx_found r (mg_body m) | None \<Rightarrow> False)"

definition referred_emails :: "clf \<Rightarrow> str list" where
  "referred_emails k = (case cl_referral k of Some r \<Rightarrow> fst r | None \<Rightarrow> [])"

definition made_drafts :: "penv \<Rightarrow> mail \<Rightarrow> clf \<Rightarrow> company \<Rightarrow> conv \<Rightarrow> (str \<times> draft_text) list" where
  "made_drafts env m k r c =
     (let i = co_id r; cat = pe_cat env; fs = facts_of c i; l = cl_label k in
      if we_offered VIDEO_RE k c i then [(''reply'', video_request_reply r)]
      else if we_offered BREAKDOWN_RE k c i
      then [(''reply'', personal_reply cat r fs L_INTERESTED (cl_text k)), (''audit'', audit cat r fs)]
      else if l = L_PRICE_QUESTION then [(''pricing'', pricing_reply cat r fs (cl_text k))]
      else if l = L_INTERESTED then [(''reply'', personal_reply cat r fs l (cl_text k)), (''audit'', audit cat r fs)]
      else if l = L_MORE_INFORMATION then [(''reply'', personal_reply cat r fs l (cl_text k))]
      else if l = L_OBJECTION then [(''objection'', personal_reply cat r fs l (cl_text k))]
      else if l = L_READY_TO_BUY then [(''proposal'', proposal cat r fs)]
      else if l = L_REFERRAL \<and> referred_emails k \<noteq> []
      then [(''referral_intro'', referral_intro r (the (cl_referral k)) (addr (pe_pa env) (ml_sender m)))]
      else [])"

definition draft_row :: "penv \<Rightarrow> mail \<Rightarrow> clf \<Rightarrow> str \<Rightarrow> str \<times> draft_text \<Rightarrow> draft" where
  "draft_row env m k i d = (case d of (kind, subject, body, content) \<Rightarrow>
     \<lparr>dr_id = pe_draft env kind, dr_company = i, dr_kind = kind, dr_based_on = Some (pe_mid env),
      dr_to = Some (if kind = ''referral_intro'' then hd (referred_emails k) else addr (pe_pa env) (ml_sender m)),
      dr_subject = subject, dr_body = body,
      dr_content = VDict (dput (dput content ''in_reply_to'' (opt_str (ml_pid m))) ''thread_id'' (opt_str (ml_thread m))),
      dr_state = D_awaiting, dr_sent_message = None\<rparr>)"

fun store_drafts :: "draft list \<Rightarrow> conv \<Rightarrow> str list \<times> conv" where
  "store_drafts [] c = ([], c)"
| "store_drafts (d # ds) c =
     (case add_draft d c of (x, c1) \<Rightarrow> (case store_drafts ds c1 of (xs, c2) \<Rightarrow>
        ((case x of Some i \<Rightarrow> i # xs | None \<Rightarrow> xs), c2)))"

definition prepare_drafts :: "penv \<Rightarrow> mail \<Rightarrow> clf \<Rightarrow> company \<Rightarrow> conv \<Rightarrow> conv_exn + str list \<times> conv" where
  "prepare_drafts env m k r c =
     ebind (ensure_state (pe_now env) (co_id r) c) (\<lambda>(st, c1).
       if cs_dnc st then Inr ([], c1)
       else (case store_drafts (map (draft_row env m k (co_id r)) (made_drafts env m k r c1)) c1 of (ids, c2) \<Rightarrow>
         if cl_label k = L_READY_TO_BUY \<and> ids \<noteq> []
         then ebind (update_state (pe_now env) (co_id r)
                [F_proposal (if cs_proposal st = P_accepted then P_accepted else P_drafted)] c2) (\<lambda>c3. Inr (ids, c3))
         else Inr (ids, c2)))"

subsection \<open>What the owner is asked\<close>

definition REVIEW_WHY :: "(str \<times> str) list" where
  "REVIEW_WHY = [
     (''affirmation_ambiguous'', pt ''They said yes, but it`s not clear to what''),
     (''affirmation_without_context'', ''They said yes, but we have no email of ours on record to tie it to''),
     (''no_recognised_intent'', pt ''The reply doesn`t clearly say what they want''),
     (''conflict_negative_and_positive'', ''The reply says no and sounds interested at the same time''),
     (''conflict_unsubscribe_and_positive'', ''They asked to be removed but also sounded interested''),
     (''legal_or_angry'', ''The reply is angry or mentions legal/privacy''),
     (''referral_unclear'', pt ''They seem to point to someone else, but it`s unclear who''),
     (''empty_or_unreadable'', ''The reply has no readable text''),
     (''delivery_notice_unclear'', pt ''A mail-server notice that doesn`t clearly say whether the email bounced'')]"

definition review_why :: "str option \<Rightarrow> str" where
  "review_why r = (case r of None \<Rightarrow> ''The meaning is unclear''
     | Some x \<Rightarrow> (case map_of REVIEW_WHY x of Some w \<Rightarrow> w | None \<Rightarrow> ''The meaning is unclear''))"

fun attention_reason :: "clabel \<Rightarrow> str option \<Rightarrow> str" where
  "attention_reason L_NEEDS_REVIEW r = review_why r @ '' - nothing will be sent automatically.''"
| "attention_reason L_MEETING_REQUEST r = ''They asked for a call/meeting - only you can set the time.''"
| "attention_reason L_READY_TO_BUY r = ''They want to buy - approve the proposal and collect payment.''"
| "attention_reason L_PRICE_QUESTION r = ''Pricing reply is prepared and needs your approval before it goes out.''"
| "attention_reason L_INTERESTED r = ''Personal reply + audit prepared; needs your approval.''"
| "attention_reason L_MORE_INFORMATION r = ''Answer prepared; check it answers their exact question.''"
| "attention_reason L_OBJECTION r = ''They raised a concern - negotiation needs you.''"
| "attention_reason L_REFERRAL r = ''They referred you to someone else - approve the intro.''"
| "attention_reason l r = ''High-value prospect replied.''"

definition wants_attention :: "clf \<Rightarrow> bool \<Rightarrow> cstatus \<Rightarrow> bool" where
  "wants_attention k high_value prev =
     (let l = cl_label k; legal = cl_legal k in
      if \<not> (map_of HUMAN_URGENCY l \<noteq> None \<or> legal \<or> (high_value \<and> l \<noteq> L_AUTO_REPLY)) then False
      else if l \<in> {L_NOT_NOW, L_NOT_INTERESTED, L_WRONG_PERSON} \<and> \<not> high_value \<and> \<not> legal then False
      else if l = L_UNSUBSCRIBE \<and> \<not> legal then False
      else if prev = Do_not_contact \<and> l \<notin> set POSITIVE_LABELS \<and> \<not> legal then False
      else True)"

definition campaign_lines :: "company \<Rightarrow> str list" where
  "campaign_lines r =
     (let p = personal r; cmp = dict_of (dget p ''review_campaign'') in
      [''Company: '' @ co_name r, ''Contact: '',
       ''Google profile: '' @ text_or (text_at cmp ''source'') (text_at p ''google_profile_url''),
       ''Original evidence: '' @ text_at cmp ''exact_evidence'', ''Competitor evidence: '' @ text_at cmp ''competitor_context''])"

definition video_task :: "company \<Rightarrow> message \<Rightarrow> clf \<Rightarrow> str" where
  "video_task r m k = lines_of ([''Create a 3-5 minute personalized video:''] @ campaign_lines r
     @ [''Original email: '' @ one_line (mg_body m) 500, ''Their reply: '' @ one_line (cl_text k) 400,
        ''Talking points: show the exact review/Maps issue (0:00-0:30); explain the competitive/customer impact without promising rankings (0:30-1:30); show the review-request, monitoring/response, and local visibility changes (1:30-3:00); end with $299/month and one simple next step.''])"

definition breakdown_task :: "company \<Rightarrow> clf \<Rightarrow> str" where
  "breakdown_task r k = lines_of ([''Approve the prepared reply and mini audit:''] @ campaign_lines r
     @ [''Their reply: '' @ one_line (cl_text k) 400])"

text \<open>The code, the reason and the recommended action of an item.\<close>

definition attention_what :: "clf \<Rightarrow> company \<Rightarrow> conv \<Rightarrow> str \<times> str \<times> str" where
  "attention_what k r c =
     (let reason0 = (if cl_legal k then ''Angry or legal/privacy wording - handle personally. Sending is blocked.''
                     else attention_reason (cl_label k) (cl_reason k));
          code0 = (if cl_legal k then ''legal_or_angry''
                   else case given (cl_reason k) of Some x \<Rightarrow> x | None \<Rightarrow> py_lower (label_value (cl_label k)))
      in case (if cl_label k \<in> {L_MORE_INFORMATION, L_INTERESTED} then latest_sent c (co_id r) else None) of
           None \<Rightarrow> (code0, reason0, cl_action k)
         | Some m \<Rightarrow>
             if rx_found VIDEO_RE (mg_body m)
             then (''video_request'', ''They asked for the personalized video - create it now; do not claim it exists until it is produced.'',
                   video_task r m k)
             else if rx_found BREAKDOWN_RE (mg_body m)
             then (''breakdown_request'', ''They accepted the 3-point breakdown offer; a reply and mini audit are prepared for approval.'',
                   breakdown_task r k)
             else (code0, reason0, cl_action k))"

definition attention_urgency :: "clf \<Rightarrow> bool \<Rightarrow> str" where
  "attention_urgency k high_value =
     (if cl_legal k \<or> cl_label k = L_READY_TO_BUY then ''urgent''
      else case map_of HUMAN_URGENCY (cl_label k) of Some u \<Rightarrow> u | None \<Rightarrow> if high_value then ''high'' else ''normal'')"

definition ask_owner :: "penv \<Rightarrow> clf \<Rightarrow> conv_state \<Rightarrow> company \<Rightarrow> cstatus \<Rightarrow> str option \<Rightarrow> conv \<Rightarrow> bool \<times> conv" where
  "ask_owner env k st r prev link c =
     (if \<not> wants_attention k (cs_high_value st) prev then (False, c)
      else (case attention_what k r c of (code, reason, action) \<Rightarrow>
        queue_attention \<lparr>at_company = Some (co_id r), at_message = Some (pe_mid env), at_code = code, at_reason = reason,
          at_urgency = attention_urgency k (cs_high_value st), at_status = Some (cstatus_value (cs_status st)),
          at_last_reply = Some (one_line (cl_text k) 400), at_summary = cl_summary k, at_action = action, at_link = link,
          at_open = True, at_resolution = None\<rparr> c))"

subsection \<open>Telling the owner\<close>

definition should_notify :: "clf \<Rightarrow> conv_state \<Rightarrow> bool" where
  "should_notify k st \<longleftrightarrow> cl_legal k \<or> cl_label k \<in> set NOTIFY_LABELS \<or> (cs_high_value st \<and> cl_label k \<noteq> L_AUTO_REPLY)"

text \<open>\<open>notify.reply_card\<close>. The arrow of its template is not a character of the model; it is written
  with two.\<close>

definition ARROW :: str where "ARROW = ''->''"

record reply_info =
  rc_title :: str
  rc_company :: str
  rc_contact :: str
  rc_prev :: str
  rc_new :: str
  rc_label :: str
  rc_said :: str
  rc_context :: str
  rc_interpretation :: str
  rc_next :: str
  rc_offer :: "str option"
  rc_price :: "str option"
  rc_needed :: str
  rc_link :: "str option"

definition reply_card :: "reply_info \<Rightarrow> str" where
  "reply_card k = lines_of (
     [''**'' @ rc_title k @ ''**'', [], ''**Company:** '' @ rc_company k, ''**Contact:** '' @ rc_contact k,
      ''**Status:** '' @ py_upper (rc_prev k) @ '' '' @ ARROW @ '' '' @ py_upper (rc_new k) @ ''  ('' @ rc_label k @ '')'',
      ''**They said:** '' @ [CHR 0x93] @ one_line (rc_said k) 420 @ [CHR 0x94],
      ''**Context:** '' @ one_line (rc_context k) 420,
      ''**Interpretation:** '' @ rc_interpretation k, ''**Recommended next step:** '' @ rc_next k]
     @ (case given (rc_offer k) of Some x \<Rightarrow> [''**Current offer:** '' @ x] | None \<Rightarrow> [])
     @ (case given (rc_price k) of Some x \<Rightarrow> [''**Price on the table:** '' @ x] | None \<Rightarrow> [])
     @ [''**Action needed from you:** '' @ rc_needed k]
     @ (case given (rc_link k) of Some x \<Rightarrow> [''**Record:** '' @ x] | None \<Rightarrow> []))"

definition card_title :: "clabel \<Rightarrow> conv_state \<Rightarrow> str" where
  "card_title l st =
     (if cs_proposal st = P_accepted then ''BRIGHTREACH - PROPOSAL ACCEPTED''
      else if l = L_NEEDS_REVIEW then ''BRIGHTREACH - NEEDS YOU''
      else if l = L_READY_TO_BUY then ''BRIGHTREACH - READY TO BUY''
      else if l = L_DELIVERY_FAILURE then ''BRIGHTREACH - EMAIL BOUNCED''
      else ''BRIGHTREACH REPLY'')"

definition card_price :: "penv \<Rightarrow> clabel \<Rightarrow> conv_state \<Rightarrow> str option" where
  "card_price env l st = (case given (cs_price st) of Some p \<Rightarrow> Some p
     | None \<Rightarrow> if l = L_PRICE_QUESTION
               then Some (of_price_text (cg_default (pe_cat env)) @ '' (from the offer sheet; not yet sent)'') else None)"

definition card_needed :: "clf \<Rightarrow> conv_state \<Rightarrow> str list \<Rightarrow> str" where
  "card_needed k st drafts =
     (let n0 = ACTION_NEEDED (cl_label k);
          n1 = (if cl_legal k then ''Reply manually (sending to them is blocked)'' else n0);
          n2 = (if cs_high_value st \<and> n1 = ''None'' then ''None (high-value prospect - FYI)'' else n1)
      in if drafts \<noteq> [] then n2 @ '' - '' @ show_nat (length drafts) @ '' draft(s) ready'' else n2)"

definition reply_text :: "penv \<Rightarrow> mail \<Rightarrow> clf \<Rightarrow> conv_state \<Rightarrow> company \<Rightarrow> cstatus \<Rightarrow> str option \<Rightarrow> str list \<Rightarrow> str" where
  "reply_text env m k st r prev link drafts = reply_card
     \<lparr>rc_title = card_title (cl_label k) st, rc_company = co_name r, rc_contact = addr (pe_pa env) (ml_sender m),
      rc_prev = cstatus_value prev, rc_new = cstatus_value (cs_status st), rc_label = label_value (cl_label k),
      rc_said = text_or (cl_text k) (ml_subject m), rc_context = cl_summary k,
      rc_interpretation = cl_interpretation k
        @ (if cl_evidence k \<noteq> [] then '' Evidence: '' @ py_join ''; '' (take 2 (cl_evidence k)) else []),
      rc_next = cl_action k,
      rc_offer = Some (case given (cs_offer st) of Some x \<Rightarrow> x | None \<Rightarrow> of_name (cg_default (pe_cat env))),
      rc_price = card_price env (cl_label k) st, rc_needed = card_needed k st drafts, rc_link = link\<rparr>"

subsection \<open>A reply of one company\<close>

record processed =
  pr_company :: str
  pr_message :: str
  pr_label :: clabel
  pr_from :: cstatus
  pr_to :: cstatus
  pr_drafts :: "str list"
  pr_attention :: bool
  pr_notified :: "(bool \<times> bool option) option"
  pr_match :: str

datatype reply_outcome =
    Duplicate
  | Own_message
  | Unmatched_auto str
  | Unmatched str "str option" "(bool \<times> bool option) option"
  | Processed processed

text \<open>What the reply does to the status, the facts, the contacts and the suppressions.\<close>

definition bounce_company :: "clf \<Rightarrow> str \<Rightarrow> conv \<Rightarrow> conv" where
  "bounce_company k i c = (if cl_label k = L_DELIVERY_FAILURE then mark_bounced i c else c)"

definition apply_reply :: "penv \<Rightarrow> mail \<Rightarrow> clf \<Rightarrow> str option \<Rightarrow> conv_state \<Rightarrow> conv \<Rightarrow> conv_exn + conv" where
  "apply_reply env m k failed st c =
     (let i = cs_company st; prev = cs_status st in
      ebind (set_status (pe_now env) i (cstatus_value (next_status (cl_label k) prev)) (''reply classified '' @ label_value (cl_label k))
               (Some (pe_mid env)) ''system'' False (Some (ml_at m)) (reply_fields env m k st)
               (c\<lparr>cv_analyses := cv_analyses c @ [analysis_of env i k]\<rparr>)) (\<lambda>c1.
      Inr (act_on_bounce env k failed (act_on_opt_out env m i k
             (add_contacts (pe_now env) i (referred_emails k) (add_facts i (pe_mid env) (cl_facts k) (bounce_company k i c1)))))))"

definition tell_owner ::
  "penv \<Rightarrow> mail \<Rightarrow> clf \<Rightarrow> conv_state \<Rightarrow> company \<Rightarrow> cstatus \<Rightarrow> str option \<Rightarrow> str list \<Rightarrow> conv \<Rightarrow> (bool \<times> bool option) option \<times> conv" where
  "tell_owner env m k st r prev link drafts c =
     (if pe_notify env \<and> should_notify k st
      then (case notify_once (pe_post env) (pe_now env) (pe_note env) (''br:reply:'' @ pe_mid env)
                   (''reply.'' @ py_lower (label_value (cl_label k)))
                   (if cl_label k = L_READY_TO_BUY \<or> cl_legal k then ''urgent'' else ''high'')
                   (reply_text env m k st r prev link drafts) (Some (co_id r)) True c of (x, keys, c1) \<Rightarrow> (Some x, c1))
      else (None, c))"

definition settle_reply ::
  "penv \<Rightarrow> mail \<Rightarrow> clf \<Rightarrow> str option \<Rightarrow> conv_state \<Rightarrow> company \<Rightarrow> str \<Rightarrow> conv \<Rightarrow> conv_exn + reply_outcome \<times> conv" where
  "settle_reply env m k failed st r method c =
     ebind (apply_reply env m k failed st c) (\<lambda>c1.
     ebind (prepare_drafts env m k r c1) (\<lambda>(ids, c2).
     ebind (ensure_state (pe_now env) (co_id r) c2) (\<lambda>(cur, c3).
       let link = record_link (pe_base env) (pe_table env) (airtable_record_of c3 (co_id r)) in
       case ask_owner env k cur r (cs_status st) link c3 of (asked, c4) \<Rightarrow>
       case tell_owner env m k cur r (cs_status st) link ids c4 of (told1, c5) \<Rightarrow>
         Inr (Processed \<lparr>pr_company = co_id r, pr_message = pe_mid env, pr_label = cl_label k, pr_from = cs_status st,
                pr_to = cs_status cur, pr_drafts = ids, pr_attention = asked, pr_notified = told1, pr_match = method\<rparr>, c5))))"

definition classify_key :: "clf option \<Rightarrow> conv_exn + clf" where
  "classify_key x = (case x of Some k \<Rightarrow> Inr k | None \<Rightarrow> Inl (KeyErr ''REFERRAL''))"

text \<open>The company's row is always there: a matched company has one, and a state refers to it.\<close>

definition matched_reply ::
  "penv \<Rightarrow> mail \<Rightarrow> str option \<Rightarrow> str \<Rightarrow> str \<Rightarrow> conv \<Rightarrow> conv_exn + reply_outcome \<times> conv" where
  "matched_reply env m failed i method c =
     ebind (ensure_state (pe_now env) i c) (\<lambda>(st, c1).
     case company_row c1 i of
       None \<Rightarrow> Inl (KeyErr (''unknown company '' @ i))
     | Some r \<Rightarrow>
         ebind (classify_key (classify_reply (pe_pa env) (mail_inbound m) (thread c1 i) (Some (cs_status st)) (facts_of c1 i) (pe_our env))) (\<lambda>k.
         ebind (insert_message (pe_now env) (pe_mid env) (stored_inbound env m (Some i) (cl_label k)) c1) (\<lambda>(mid, c2).
           case mid of None \<Rightarrow> Inr (Duplicate, c2) | Some _ \<Rightarrow> settle_reply env m k failed st r method c2)))"

subsection \<open>A reply of nobody we know for certain\<close>

definition suppress_unmatched :: "penv \<Rightarrow> mail \<Rightarrow> match_result \<Rightarrow> clf \<Rightarrow> str option \<Rightarrow> conv \<Rightarrow> str option \<times> conv" where
  "suppress_unmatched env m ma pre failed c =
     (if cl_label pre = L_DELIVERY_FAILURE \<and> failed \<noteq> None
      then (Some ''bounce'', suppress ''hard_bounce'' failed None (Some (pe_mid env)) c)
      else if cl_label pre \<noteq> L_UNSUBSCRIBE then (None, c)
      else (let s = addr (pe_pa env) (ml_sender m); why = (if cl_legal pre then ''legal'' else ''unsubscribe'') in
        if s = [] \<or> s \<in> set (pe_our env) then (None, c)
        else (let c1 = suppress why (Some s) None (Some (pe_mid env)) c in
          if ma_method ma = ''domain'' \<and> ma_confidence ma = Medium \<and> length (ma_candidates ma) = 1
          then (Some ''company'', set_drafts (pending_of (hd (ma_candidates ma))) D_discarded
                  (suppress why None (Some (hd (ma_candidates ma))) (Some (pe_mid env)) c1))
          else (Some ''address'', c1))))"

definition blocked_note :: "str option \<Rightarrow> str" where
  "blocked_note x = (case x of None \<Rightarrow> []
     | Some s \<Rightarrow> if s = ''address'' then '' Their address is blocked from all email.''
                 else if s = ''company'' then '' Their address and the company whose website matches it are blocked from all email.''
                 else if s = ''bounce'' then '' The address that bounced is blocked.'' else [])"

definition candidate_names :: "conv \<Rightarrow> match_result \<Rightarrow> str list" where
  "candidate_names c ma = map co_name (filter (\<lambda>r. co_id r \<in> set (ma_candidates ma)) (cv_companies c))"

definition unmatched_item :: "penv \<Rightarrow> mail \<Rightarrow> match_result \<Rightarrow> str \<Rightarrow> str list \<Rightarrow> attention" where
  "unmatched_item env m ma blocked names =
     \<lparr>at_company = None, at_message = Some (pe_mid env), at_code = ''match_uncertain'',
      at_reason = pt ''Can`t tell which company this is from: '' @ ma_reason ma @ ''.'' @ blocked, at_urgency = ''high'', at_status = None,
      at_last_reply = Some (one_line (strip_quoted (ml_body m)) 400),
      at_summary = ''Possible companies: '' @ text_or (py_join '', '' names) ''none'',
      at_action = ''Tell me which company it belongs to; nothing was updated or sent.'', at_link = None, at_open = True,
      at_resolution = None\<rparr>"

definition unmatched_text :: "penv \<Rightarrow> mail \<Rightarrow> match_result \<Rightarrow> clf \<Rightarrow> str \<Rightarrow> str list \<Rightarrow> str" where
  "unmatched_text env m ma pre blocked names = reply_card
     \<lparr>rc_title = ''BRIGHTREACH - UNMATCHED REPLY'', rc_company = ''UNKNOWN - '' @ text_or (py_join '', '' names) ''no match'',
      rc_contact = addr (pe_pa env) (ml_sender m), rc_prev = ''?'', rc_new = ''needs_review'', rc_label = label_value (cl_label pre),
      rc_said = text_or (strip_quoted (ml_body m)) (ml_subject m), rc_context = ''Subject: '' @ ml_subject m,
      rc_interpretation = ''Not matched safely ('' @ ma_reason ma @ '').'',
      rc_next = ''Decide which company this belongs to. No status was changed and nothing was sent.'' @ blocked,
      rc_offer = None, rc_price = None, rc_needed = ''Review'', rc_link = None\<rparr>"

definition unmatched_reply ::
  "penv \<Rightarrow> mail \<Rightarrow> match_result \<Rightarrow> clf \<Rightarrow> str option \<Rightarrow> conv \<Rightarrow> conv_exn + reply_outcome \<times> conv" where
  "unmatched_reply env m ma pre failed c =
     ebind (insert_message (pe_now env) (pe_mid env) (stored_inbound env m None (cl_label pre)) c) (\<lambda>(mid, c1).
       case mid of
         None \<Rightarrow> Inr (Duplicate, c1)
       | Some _ \<Rightarrow>
           if cl_label pre = L_AUTO_REPLY then Inr (Unmatched_auto (pe_mid env), c1)
           else (case suppress_unmatched env m ma pre failed c1 of (how, c2) \<Rightarrow>
             let names = candidate_names c2 ma; blocked = blocked_note how;
                 c3 = snd (queue_attention (unmatched_item env m ma blocked names) c2)
             in if \<not> pe_notify env then Inr (Unmatched (pe_mid env) how None, c3)
                else (case notify_once (pe_post env) (pe_now env) (pe_note env) (''br:unmatched:'' @ pe_mid env) ''reply.unmatched'' ''high''
                        (unmatched_text env m ma pre blocked names) None True c3 of
                        (x, keys, c4) \<Rightarrow> Inr (Unmatched (pe_mid env) how (Some x), c4))))"

subsection \<open>One message\<close>

definition stored_already :: "conv \<Rightarrow> str option \<Rightarrow> bool" where
  "stored_already c pid \<longleftrightarrow> (case given pid of None \<Rightarrow> False | Some p \<Rightarrow> message_by_provider_id c p \<noteq> None)"

definition bounced_address :: "penv \<Rightarrow> mail \<Rightarrow> clf \<Rightarrow> str option" where
  "bounced_address env m pre = (if cl_label pre = L_DELIVERY_FAILURE then bounce_recipient (ml_body m) (pe_our env) else None)"

definition process_inbound :: "penv \<Rightarrow> mail \<Rightarrow> conv \<Rightarrow> conv_exn + reply_outcome \<times> conv" where
  "process_inbound env0 m0 c =
     (let env = env0\<lparr>pe_our := map py_lower (pe_our env0)\<rparr>; m = clean_mail m0 in
      if stored_already c (ml_pid m) then Inr (Duplicate, c)
      else ebind (classify_key (classify_reply (pe_pa env) (mail_inbound m) [] None [] (pe_our env))) (\<lambda>pre.
        let failed = bounced_address env m pre;
            ma = match_inbound (pe_pa env) c (case failed of Some r \<Rightarrow> r | None \<Rightarrow> ml_sender m) (ml_thread m) (ml_in_reply_to m)
                   (ml_refs m) (pe_our env)
        in if ma_confidence ma = No_match \<and> ma_method ma = ''own_address'' then Inr (Own_message, c)
           else if \<not> safe ma then unmatched_reply env m ma pre failed c
           else matched_reply env m failed (case ma_company ma of Some i \<Rightarrow> i | None \<Rightarrow> []) (ma_method ma) c))"

subsection \<open>The pipeline only uses the store\<close>

lemmas one_step = r_into_rtranclp [of "conv_step own" for own]

lemma steps_facts: "conv_steps own c (add_facts i mid fs c)"
  by (induction i mid fs c rule: add_facts.induct) (auto intro: converse_rtranclp_into_rtranclp step_fact)

lemma steps_contact: "conv_steps own c (add_contact now i e c)"
  unfolding add_contact_def by (auto intro: step_contact)

lemma steps_contacts: "conv_steps own c (add_contacts now i es c)"
  by (induction now i es c rule: add_contacts.induct) (auto intro: rtranclp_trans steps_contact)

lemma steps_opt_out: "conv_steps own c (act_on_opt_out env m i k c)"
  unfolding act_on_opt_out_def by (auto intro: rtranclp_trans [OF one_step one_step] step_suppress step_drafts)

lemma steps_bounce: "conv_steps own c (act_on_bounce env k failed c)"
  unfolding act_on_bounce_def by (auto intro: step_suppress split: option.split)

lemma steps_bounced: "conv_steps own c (bounce_company k i c)"
  unfolding bounce_company_def by (auto intro: step_bounced)

lemma steps_apply:
  assumes "apply_reply env m k failed st c = Inr c'"
  shows "conv_steps False c c'"
proof -
  let ?c0 = "c\<lparr>cv_analyses := cv_analyses c @ [analysis_of env (cs_company st) k]\<rparr>"
  obtain c1 where s: "set_status (pe_now env) (cs_company st) (cstatus_value (next_status (cl_label k) (cs_status st)))
        (''reply classified '' @ label_value (cl_label k)) (Some (pe_mid env)) ''system'' False (Some (ml_at m)) (reply_fields env m k st) ?c0 = Inr c1"
    and c': "c' = act_on_bounce env k failed (act_on_opt_out env m (cs_company st) k
             (add_contacts (pe_now env) (cs_company st) (referred_emails k) (add_facts (cs_company st) (pe_mid env) (cl_facts k) (bounce_company k (cs_company st) c1))))"
    using assms unfolding apply_reply_def Let_def by (auto simp: ebind_eq_Inr)
  have "conv_steps False c ?c0" by (rule r_into_rtranclp) (rule step_analysis)
  also have "conv_steps False ?c0 c1" by (rule r_into_rtranclp) (rule step_status [OF s], simp)
  also have "conv_steps False c1 c'" unfolding c'
    by (meson rtranclp_trans steps_bounced steps_facts steps_contacts steps_opt_out steps_bounce)
  finally show ?thesis .
qed

lemma steps_store_drafts: "store_drafts ds c = (ids, c') \<Longrightarrow> conv_steps own c c'"
proof (induction ds arbitrary: c ids c')
  case (Cons d ds)
  obtain x c1 where a: "add_draft d c = (x, c1)" by fastforce
  obtain xs c2 where b: "store_drafts ds c1 = (xs, c2)" by fastforce
  have "conv_step own c c1" using step_draft [of own c d] a by simp
  then show ?case using Cons.prems Cons.IH [OF b] a b by (auto intro: converse_rtranclp_into_rtranclp)
qed simp

lemma steps_ensure: "ensure_state now i c = Inr (st, c') \<Longrightarrow> conv_steps own c c'"
  by (rule r_into_rtranclp) (rule step_ensure)

lemma steps_prepare:
  assumes "prepare_drafts env m k r c = Inr (ids, c')"
  shows "conv_steps False c c'"
proof -
  obtain st c1 where e: "ensure_state (pe_now env) (co_id r) c = Inr (st, c1)"
    using assms unfolding prepare_drafts_def by (auto simp: ebind_eq_Inr)
  obtain xs c2 where d: "store_drafts (map (draft_row env m k (co_id r)) (made_drafts env m k r c1)) c1 = (xs, c2)" by fastforce
  note ed = steps_ensure [OF e, of False] steps_store_drafts [OF d, of False]
  have "c' = c1 \<or> c' = c2 \<or> (\<exists>fs. update_state (pe_now env) (co_id r) fs c2 = Inr c')"
    using assms unfolding prepare_drafts_def e ebind_Inr prod.case d by (auto simp: ebind_eq_Inr split: if_splits)
  then show ?thesis using ed step_update by (meson rtranclp.rtrancl_into_rtrancl rtranclp_trans)
qed

lemma steps_ask: "ask_owner env k st r prev link c = (b, c') \<Longrightarrow> conv_steps own c c'"
  unfolding ask_owner_def by (auto split: if_splits prod.splits dest!: arg_cong [where f = snd] intro!: r_into_rtranclp step_attention)

lemma notify_only_notes: "\<exists>ns. snd (snd (notify_once post now i key code sv t co dl c)) = c\<lparr>cv_notes := ns\<rparr>"
proof (cases "find_note key c = None")
  case True
  then show ?thesis
    by (cases dl) (auto simp: notify_once_def notify_call_def insert_note_def new_note_def deliver_def mark_row_def Let_def)
next
  case False
  have "c = c\<lparr>cv_notes := cv_notes c\<rparr>" by simp
  then show ?thesis using False by (auto simp: notify_once_def notify_call_def insert_note_def new_note_def intro: exI [of _ "cv_notes c"])
qed

lemma steps_notify: "notify_once post now i key code sv t co dl c = (x, keys, c') \<Longrightarrow> conv_steps own c c'"
  using notify_only_notes [of post now i key code sv t co dl c] by (auto intro: step_notes)

lemma steps_tell: "tell_owner env m k st r prev link drafts c = (x, c') \<Longrightarrow> conv_steps own c c'"
  unfolding tell_owner_def by (auto split: if_splits prod.splits dest: steps_notify)

lemma settle_reply_runs:
  assumes "settle_reply env m k failed st r method c = Inr (x, c')"
  obtains c1 ids c2 cur c3 asked c4 told1 where
    "apply_reply env m k failed st c = Inr c1" "prepare_drafts env m k r c1 = Inr (ids, c2)"
    "ensure_state (pe_now env) (co_id r) c2 = Inr (cur, c3)"
    "ask_owner env k cur r (cs_status st) (record_link (pe_base env) (pe_table env) (airtable_record_of c3 (co_id r))) c3 = (asked, c4)"
    "tell_owner env m k cur r (cs_status st) (record_link (pe_base env) (pe_table env) (airtable_record_of c3 (co_id r))) ids c4 = (told1, c')"
proof -
  obtain c1 where a: "apply_reply env m k failed st c = Inr c1"
    using assms unfolding settle_reply_def by (auto simp: ebind_eq_Inr)
  obtain ids c2 where b: "prepare_drafts env m k r c1 = Inr (ids, c2)"
    using assms unfolding settle_reply_def a ebind_Inr by (auto simp: ebind_eq_Inr)
  obtain cur c3 where d: "ensure_state (pe_now env) (co_id r) c2 = Inr (cur, c3)"
    using assms unfolding settle_reply_def a b ebind_Inr prod.case by (auto simp: ebind_eq_Inr)
  let ?link = "record_link (pe_base env) (pe_table env) (airtable_record_of c3 (co_id r))"
  obtain asked c4 where e: "ask_owner env k cur r (cs_status st) ?link c3 = (asked, c4)" by fastforce
  obtain told1 c5 where f: "tell_owner env m k cur r (cs_status st) ?link ids c4 = (told1, c5)" by fastforce
  have "c5 = c'" using assms unfolding settle_reply_def a b d ebind_Inr prod.case Let_def e f by simp
  then show ?thesis using that a b d e f by blast
qed

lemma steps_settle:
  assumes "settle_reply env m k failed st r method c = Inr (x, c')"
  shows "conv_steps False c c'"
proof (rule settle_reply_runs [OF assms])
  fix c1 ids c2 cur c3 asked c4 told1
  assume "apply_reply env m k failed st c = Inr c1" "prepare_drafts env m k r c1 = Inr (ids, c2)"
    "ensure_state (pe_now env) (co_id r) c2 = Inr (cur, c3)"
    "ask_owner env k cur r (cs_status st) (record_link (pe_base env) (pe_table env) (airtable_record_of c3 (co_id r))) c3 = (asked, c4)"
    "tell_owner env m k cur r (cs_status st) (record_link (pe_base env) (pe_table env) (airtable_record_of c3 (co_id r))) ids c4 = (told1, c')"
  then show ?thesis
    by (meson steps_apply steps_prepare steps_ensure steps_ask steps_tell rtranclp_trans)
qed

lemma steps_message: "insert_message now i m c = Inr (x, c') \<Longrightarrow> conv_steps own c c'"
  by (rule r_into_rtranclp) (rule step_message)

lemma steps_matched:
  assumes "matched_reply env m failed i method c = Inr (x, c')"
  shows "conv_steps False c c'"
proof -
  obtain st c1 r k mid c2 where e: "ensure_state (pe_now env) i c = Inr (st, c1)"
    and ins: "insert_message (pe_now env) (pe_mid env) (stored_inbound env m (Some i) (cl_label k)) c1 = Inr (mid, c2)"
    and rest: "c' = c2 \<or> settle_reply env m k failed st r method c2 = Inr (x, c')"
    using assms unfolding matched_reply_def by (auto simp: ebind_eq_Inr split: option.splits) blast+
  have "conv_steps False c c2" using steps_ensure [OF e] steps_message [OF ins] by (rule rtranclp_trans)
  then show ?thesis using rest steps_settle by (blast intro: rtranclp_trans)
qed

lemma steps_suppress_unmatched: "suppress_unmatched env m ma pre failed c = (how, c') \<Longrightarrow> conv_steps own c c'"
  unfolding suppress_unmatched_def Let_def
  by (auto split: if_splits intro!: step_suppress intro: rtranclp_trans [OF one_step] rtranclp_trans [OF one_step one_step] step_drafts)

lemma steps_unmatched:
  assumes "unmatched_reply env m ma pre failed c = Inr (x, c')"
  shows "conv_steps False c c'"
proof -
  obtain mid c1 where ins: "insert_message (pe_now env) (pe_mid env) (stored_inbound env m None (cl_label pre)) c = Inr (mid, c1)"
    using assms unfolding unmatched_reply_def by (auto simp: ebind_eq_Inr)
  obtain how c2 where s: "suppress_unmatched env m ma pre failed c1 = (how, c2)" by fastforce
  let ?c3 = "snd (queue_attention (unmatched_item env m ma (blocked_note how) (candidate_names c2 ma)) c2)"
  obtain y keys c4 where n: "notify_once (pe_post env) (pe_now env) (pe_note env) (''br:unmatched:'' @ pe_mid env) ''reply.unmatched'' ''high''
      (unmatched_text env m ma pre (blocked_note how) (candidate_names c2 ma)) None True ?c3 = (y, keys, c4)"
    by (metis prod_cases3)
  have "c' = c1 \<or> c' = ?c3 \<or> c' = c4"
    using assms unfolding unmatched_reply_def ins ebind_Inr prod.case s n Let_def by (auto split: option.splits if_splits)
  moreover have "conv_steps False c c1" by (rule steps_message [OF ins])
  moreover have "conv_steps False c1 ?c3"
    using steps_suppress_unmatched [OF s, of False] step_attention [of False c2] by (rule rtranclp.rtrancl_into_rtrancl)
  moreover have "conv_steps False ?c3 c4" by (rule steps_notify [OF n])
  ultimately show ?thesis by (meson rtranclp_trans)
qed

text \<open>C36. The pipeline keeps to the store: whatever message comes in, and whatever it is taken for, what the
  run leaves is reached by operations of the store alone, none of them an owner's decision. So
  every promise the memory makes for its runs holds for the pipeline: it never takes back an
  opt-out, a stored message or a do-not-contact.\<close>

theorem pipeline_keeps_to_store:
  "case process_inbound env m c of Inl e \<Rightarrow> True | Inr (x, c') \<Rightarrow> conv_steps False c c'"
proof (cases "process_inbound env m c")
  case (Inr p)
  obtain x c' where p: "p = (x, c')" by fastforce
  have "conv_steps False c c'"
    using Inr unfolding p process_inbound_def Let_def
    by (auto simp: ebind_eq_Inr split: if_splits dest: steps_unmatched steps_matched)
  then show ?thesis unfolding Inr p by simp
qed simp

end
