(* ===== verification/ConvReply.thy ===== *)
theory ConvReply
  imports ConvPipeline
begin

text \<open>
  What one run of the reply pipeline promises: an opt-out is acted on to the end, a person's reply
  stops the generic sequence, a message is processed once, and the one move of the status the
  pipeline asks for that the table of transitions does not have.
\<close>

subsection \<open>What an opt-out, a reply and a second delivery do\<close>

lemma steps_grow: "conv_steps own c c' \<Longrightarrow> grows c c'"
  by (induction rule: rtranclp_induct) (auto intro: grows_trans step_grows)

lemma steps_opted: "conv_steps False c c' \<Longrightarrow> opted_out i c \<Longrightarrow> opted_out i c'"
  by (rule opted_once.cond_forever)

lemma ensure_company: "ensure_state now i c = Inr (st, c') \<Longrightarrow> cs_company st = i"
  by (auto simp: ensure_state_def Let_def state_row_def company_row_def initial_state_def split: option.splits dest: find_Some_in)

lemma next_unsubscribe [simp]: "next_status L_UNSUBSCRIBE s = Do_not_contact"
  by (simp add: next_status_def PRE_REPLY_def Let_def)

definition no_pending :: "str \<Rightarrow> conv \<Rightarrow> bool" where
  "no_pending i c \<longleftrightarrow> (\<forall>d\<in>set (cv_drafts c). \<not> pending_of i d)"

lemma no_pending_discard: "no_pending i (set_drafts (pending_of i) D_discarded c)"
  unfolding no_pending_def set_drafts_def by (simp add: ball_upd_where pending_of_def pending_def)

lemma no_pending_bounce [simp]: "no_pending i (act_on_bounce env k failed c) = no_pending i c"
  by (simp add: act_on_bounce_def suppress_def suppress_email_def suppress_company_def no_pending_def Let_def split: option.split)

lemma no_pending_cong: "cv_drafts c' = cv_drafts c \<Longrightarrow> no_pending i c' = no_pending i c"
  by (simp add: no_pending_def)

lemma bounce_grows: "grows c (act_on_bounce env k failed c)"
  using steps_grow [OF steps_bounce [of True]] .

lemma apply_opt_out:
  assumes "apply_reply env m k failed st c = Inr c1" and "cl_label k = L_UNSUBSCRIBE"
  shows "opted_out (cs_company st) c1 \<and> no_pending (cs_company st) c1
    \<and> (addr (pe_pa env) (ml_sender m) \<noteq> [] \<longrightarrow> email_blocked (norm_email (addr (pe_pa env) (ml_sender m))) c1)"
proof -
  let ?i = "cs_company st" and ?a = "addr (pe_pa env) (ml_sender m)"
  let ?c0 = "c\<lparr>cv_analyses := cv_analyses c @ [analysis_of env ?i k]\<rparr>"
  obtain c2 where s: "set_status (pe_now env) ?i (cstatus_value Do_not_contact)
        (''reply classified '' @ label_value (cl_label k)) (Some (pe_mid env)) ''system'' False (Some (ml_at m)) (reply_fields env m k st) ?c0 = Inr c2"
    and c1: "c1 = act_on_bounce env k failed (act_on_opt_out env m ?i k
             (add_contacts (pe_now env) ?i (referred_emails k) (add_facts ?i (pe_mid env) (cl_facts k) (bounce_company k ?i c2))))"
    using assms unfolding apply_reply_def Let_def by (auto simp: ebind_eq_Inr simp del: cstatus_value.simps)
  let ?b = "add_contacts (pe_now env) ?i (referred_emails k) (add_facts ?i (pe_mid env) (cl_facts k) (bounce_company k ?i c2))"
  have o: "opted_out ?i c2" by (rule status_opts_out [OF s])
  have "conv_steps False c2 c1" unfolding c1
    by (meson rtranclp_trans steps_bounced steps_facts steps_contacts steps_opt_out steps_bounce)
  then have "opted_out ?i c1" using o by (rule steps_opted)
  moreover have "no_pending ?i c1" unfolding c1 using assms(2) no_pending_discard by (simp add: act_on_opt_out_def)
  moreover have "email_blocked (norm_email ?a) c1" if "?a \<noteq> []"
  proof -
    let ?s = "suppress (if cl_legal k then ''legal'' else ''unsubscribe'') (Some ?a) (Some ?i) (Some (pe_mid env)) ?b"
    have "email_blocked (norm_email ?a) ?s" by (rule suppress_blocks [OF that])
    then have "email_blocked (norm_email ?a) (act_on_opt_out env m ?i k ?b)"
      using assms(2) by (simp add: act_on_opt_out_def email_blocked_def set_drafts_def)
    then show ?thesis unfolding c1 by (rule grown_conditions(1) [OF bounce_grows])
  qed
  ultimately show ?thesis by blast
qed

lemma apply_opt_out_returns:
  assumes "conv_ok c" and "state_row c (cs_company st) = Some st" and "cl_label k = L_UNSUBSCRIBE"
  shows "\<exists>c1. apply_reply env m k failed st c = Inr c1"
proof -
  let ?i = "cs_company st"
  let ?c0 = "c\<lparr>cv_analyses := cv_analyses c @ [analysis_of env ?i k]\<rparr>"
  have e: "ensure_state now ?i ?c0 = Inr (st, ?c0)" for now using assms(2) by (simp add: ensure_state_def state_row_def)
  have st: "st \<in> set (cv_states c)" using assms(2) unfolding state_row_def by (auto dest: find_Some_in)
  have ck: "check (cs_status st) (cstatus_value Do_not_contact) False = Inr Do_not_contact"
    using target_allowed [of L_UNSUBSCRIBE "cs_status st"] unfolding check_value target_unsubscribe by auto
  have "conv_ok ?c0" using assms(1) by (simp add: conv_ok_def)
  moreover have "state_ok st" using assms(1) st by (simp add: conv_ok_def)
  ultimately have u: "\<exists>c2. update_row ?i (status_row_for Do_not_contact rs False fs st) ?c0 = Inr c2 \<and> conv_ok c2" for rs fs
    using st ck by (intro update_row_ok [where st = st] status_row_ok) auto
  have "\<exists>c2. set_status now ?i (cstatus_value Do_not_contact) rs mid actor False w fs ?c0 = Inr c2" for now rs mid actor w fs
    using u [of rs fs] unfolding set_status_def e sum.case prod.case ck by (elim exE conjE) (simp only: sum.case Let_def, blast)
  then obtain c2 where "set_status (pe_now env) ?i (cstatus_value Do_not_contact) (''reply classified '' @ label_value (cl_label k))
      (Some (pe_mid env)) ''system'' False (Some (ml_at m)) (reply_fields env m k st) ?c0 = Inr c2" by blast
  then show ?thesis unfolding apply_reply_def Let_def assms(3) next_unsubscribe by (simp only: ebind_Inr) blast
qed


lemma state_row_side:
  "state_row (log_transition j frm t reason mid actor w c) i = state_row c i" "state_row (mark_company j oc c) i = state_row c i"
  by (simp_all add: state_row_def log_transition_def mark_company_def)

lemma status_row_set:
  assumes "set_status now i (cstatus_value t) reason mid actor ov w fs c = Inr c'"
  shows "\<exists>x. state_row c' i = Some x \<and> cs_status x = t"
proof -
  obtain st c1 t' c2 where e: "ensure_state now i c = Inr (st, c1)" and k: "check (cs_status st) (cstatus_value t) ov = Inr t'"
    and u: "update_row i (status_row_for t' reason ov fs st) c1 = Inr c2"
    and c': "c' = (let c3 = log_transition i (cs_status st) t' reason mid actor (case w of Some w \<Rightarrow> w | None \<Rightarrow> now) c2 in
               case outreach_for t' of Some oc \<Rightarrow> mark_company i oc c3 | None \<Rightarrow> c3)"
    using assms unfolding set_status_def by (auto simp: Let_def split: sum.splits prod.splits)
  have "t' = t" using k by (metis check_Inr cstatus_roundtrip option.inject)
  moreover have "state_row c' i = state_row c2 i" unfolding c' Let_def by (simp add: state_row_side split: option.split)
  ultimately show ?thesis by (simp add: state_row_update [OF u status_row_fields(2)] ensure_row [OF e])
qed

lemma states_kept [simp]:
  "cv_states (act_on_bounce env k failed c) = cv_states c" "cv_states (act_on_opt_out env m i k c) = cv_states c"
  "cv_states (add_fact i ty t v said src c) = cv_states c" "cv_states (bounce_company k i c) = cv_states c"
  by (simp_all add: act_on_bounce_def act_on_opt_out_def suppress_def suppress_email_def suppress_company_def set_drafts_def
      add_fact_def bounce_company_def mark_bounced_def Let_def split: option.split)

lemma facts_states [simp]: "cv_states (add_facts i mid fs c) = cv_states c"
  by (induction i mid fs c rule: add_facts.induct) simp_all

lemma contacts_states [simp]: "cv_states (add_contacts now i es c) = cv_states c"
  by (induction now i es c rule: add_contacts.induct) (simp_all add: add_contact_def)

lemma apply_has_row:
  assumes "apply_reply env m k failed st c = Inr c1"
  shows "\<exists>x. state_row c1 (cs_company st) = Some x \<and> cs_status x = next_status (cl_label k) (cs_status st)"
  using assms unfolding apply_reply_def Let_def by (auto simp: ebind_eq_Inr state_row_def dest!: status_row_set)

lemma ask_keeps: "ask_owner env k st r prev link c = (b, c') \<Longrightarrow> cv_drafts c' = cv_drafts c \<and> cv_states c' = cv_states c"
  unfolding ask_owner_def by (auto simp: queue_attention_def Let_def split: if_splits prod.splits)

lemma notify_keeps:
  "notify_once po now i key code sv t co dl c = (x, keys, c') \<Longrightarrow>
     cv_drafts c' = cv_drafts c \<and> cv_states c' = cv_states c \<and> cv_messages c' = cv_messages c"
  using notify_only_notes [of po now i key code sv t co dl c] by auto

lemma tell_keeps:
  "tell_owner env m k st r prev link drafts c = (x, c') \<Longrightarrow>
     cv_drafts c' = cv_drafts c \<and> cv_states c' = cv_states c \<and> cv_messages c' = cv_messages c"
  unfolding tell_owner_def by (auto simp only: prod.inject split: if_split_asm prod.splits dest: notify_keeps)

lemma prepare_opted:
  "opted_out i c \<Longrightarrow> state_row c i = Some x \<Longrightarrow> co_id r = i \<Longrightarrow> prepare_drafts env m k r c = Inr ([], c)"
  by (simp add: prepare_drafts_def ensure_state_def opted_out_def)

text \<open>C18. An opt-out is acted on, whatever else is going on: on a memory that satisfies the table's
  constraints, a reply of a company that is classified as an opt-out is always processed to the
  end, moves the company to do-not-contact and leaves it without a draft in preparation; from
  then on, until the owner decides otherwise, the guard lets nothing go to the company or to
  the mailbox the reply came from.\<close>

theorem opt_out_acted_on:
  assumes "conv_ok c" and "state_row c (cs_company st) = Some st" and "co_id r = cs_company st" and "cl_label k = L_UNSUBSCRIBE"
  shows "\<exists>p c1. settle_reply env m k failed st r method c = Inr (Processed p, c1)
     \<and> pr_to p = Do_not_contact \<and> pr_drafts p = [] \<and> no_pending (cs_company st) c1
     \<and> (\<forall>c' e kind co. conv_steps False c1 c' \<longrightarrow>
          company_for c' e co = Some (cs_company st)
            \<or> (addr (pe_pa env) (ml_sender m) \<noteq> [] \<and> norm_email e = norm_email (addr (pe_pa env) (ml_sender m)))
          \<longrightarrow> \<not> ga_allowed (send_check c' e kind co))"
proof -
  let ?i = "cs_company st" and ?a = "addr (pe_pa env) (ml_sender m)"
  obtain c1 where a: "apply_reply env m k failed st c = Inr c1"
    using apply_opt_out_returns [OF assms(1,2,4)] by blast
  note opt = apply_opt_out [OF a assms(4)]
  obtain x where x: "state_row c1 ?i = Some x" using apply_has_row [OF a] by blast
  have xs: "cs_status x = Do_not_contact" using opt x by (simp add: opted_out_def)
  have b: "prepare_drafts env m k r c1 = Inr ([], c1)" using prepare_opted opt x assms(3) by blast
  have e: "ensure_state (pe_now env) (co_id r) c1 = Inr (x, c1)" using x assms(3) by (simp add: ensure_state_def)
  let ?link = "record_link (pe_base env) (pe_table env) (airtable_record_of c1 (co_id r))"
  obtain asked c2 where f: "ask_owner env k x r (cs_status st) ?link c1 = (asked, c2)" by fastforce
  obtain told1 c3 where g: "tell_owner env m k x r (cs_status st) ?link [] c2 = (told1, c3)" by fastforce
  have out: "settle_reply env m k failed st r method c = Inr (Processed \<lparr>pr_company = co_id r, pr_message = pe_mid env,
      pr_label = cl_label k, pr_from = cs_status st, pr_to = cs_status x, pr_drafts = [], pr_attention = asked,
      pr_notified = told1, pr_match = method\<rparr>, c3)"
    unfolding settle_reply_def a b e ebind_Inr prod.case Let_def f g ..
  have s: "conv_steps False c1 c3" using steps_ask [OF f] steps_tell [OF g] by (rule rtranclp_trans)
  have d: "no_pending ?i c3" using opt ask_keeps [OF f] tell_keeps [OF g] by (simp add: no_pending_def)
  have o: "opted_out ?i c3" using s opt steps_opted by blast
  have bl: "email_blocked (norm_email ?a) c3" if "?a \<noteq> []" using opt that steps_grow [OF s] grown_conditions(1) by blast
  have "\<not> ga_allowed (send_check c' e kind co)"
    if "conv_steps False c3 c'" "company_for c' e co = Some ?i \<or> (?a \<noteq> [] \<and> norm_email e = norm_email ?a)" for c' e kind co
    using opted_once.refused_forever [OF that(1) o] that(2) email_blocked_refused [of "norm_email ?a" c'] bl steps_grow [OF that(1)]
      grown_conditions(1) [of c3 c' "norm_email ?a"]
    unfolding refuses_def belongs_to_def same_mailbox_def any_kind_def by blast
  then show ?thesis using out d xs by (intro exI [of _ "Processed _"] exI conjI) auto
qed

text \<open>A small environment, a message and its classification to apply the theorems to.\<close>

definition demo_offer :: offer where
  "demo_offer = \<lparr>of_key = ''google_reviews_maps'', of_name = ''Review plan'', of_price_text = ''$299/month'', of_deliverables = [], of_timeline = None, of_guarantee = None,
     of_monthly = Some 299, of_responsibilities = []\<rparr>"

definition demo_penv :: penv where
  "demo_penv = \<lparr>pe_pa = id, pe_now = 9, pe_mid = ''m9'', pe_draft = id, pe_note = 1, pe_post = (\<lambda>n t. (True, [])),
     pe_cat = \<lparr>cg_default = demo_offer, cg_hosted = demo_offer\<rparr>, pe_base = [], pe_table = [], pe_today = 20000, pe_our = [],
     pe_notify = False\<rparr>"

definition demo_mail :: mail where
  "demo_mail = \<lparr>ml_pid = Some ''r9'', ml_thread = None, ml_in_reply_to = None, ml_refs = Ref_ids [], ml_sender = ''bob@shop.com'',
     ml_recipient = ''me@x.io'', ml_subject = ''Re: Hi'', ml_body = ''Stop'', ml_at = 8, ml_headers = []\<rparr>"

definition demo_clf :: "clabel \<Rightarrow> clf" where
  "demo_clf l = \<lparr>cl_label = l, cl_confidence = 1, cl_evidence = [], cl_summary = [], cl_interpretation = [], cl_action = [],
     cl_reason = None, cl_secondary = [], cl_facts = [], cl_legal = False, cl_referral = None, cl_meeting = None, cl_text = ''Stop''\<rparr>"

definition demo_state :: conv_state where
  "demo_state = initial_state demo_shop (hd (cv_companies demo_shop))"

definition demo_ready :: conv where
  "demo_ready = demo_shop\<lparr>cv_states := [demo_state]\<rparr>"

lemma demo_ready_facts:
  "conv_ok demo_ready" "state_row demo_ready (cs_company demo_state) = Some demo_state"
  "co_id (hd (cv_companies demo_shop)) = cs_company demo_state" "cs_company demo_state = ''c1''" "cs_status demo_state = Discovered"
  by (simp_all add: conv_ok_def demo_ready_def state_row_def demo_state_def initial_state_def Let_def state_ok_def PRE_REPLY_def
      demo_shop_def OUTREACH_TO_STATUS_def)

theorem opt_out_acted_on_witness:
  "\<exists>p c1. settle_reply demo_penv demo_mail (demo_clf L_UNSUBSCRIBE) None demo_state (hd (cv_companies demo_shop)) ''thread'' demo_ready
        = Inr (Processed p, c1)
     \<and> pr_to p = Do_not_contact \<and> \<not> ga_allowed (send_check c1 ''owner@other.com'' ''reply'' (Some ''c1''))
     \<and> \<not> ga_allowed (send_check c1 ''Bob+shop@shop.com'' ''reply'' None)"
proof -
  let ?a = "addr (pe_pa demo_penv) (ml_sender demo_mail)"
  have l: "cl_label (demo_clf L_UNSUBSCRIBE) = L_UNSUBSCRIBE" by (simp add: demo_clf_def)
  have a: "?a \<noteq> [] \<and> norm_email ''Bob+shop@shop.com'' = norm_email ?a" by code_simp
  have co: "company_for c ''owner@other.com'' (Some ''c1'') = Some (cs_company demo_state)" for c
    unfolding demo_ready_facts(4) company_for_def Let_def option.case ..
  from opt_out_acted_on [OF demo_ready_facts(1,2,3) l, of demo_penv demo_mail None "''thread''"]
  show ?thesis using a co by (blast intro: rtranclp.rtrancl_refl)
qed

lemma early_reply_status:
  assumes "s \<in> {Discovered, Ready}" and "l \<notin> {L_NOT_INTERESTED, L_UNSUBSCRIBE, L_NEEDS_REVIEW, L_AUTO_REPLY, L_DELIVERY_FAILURE}"
  shows "next_status l s = Replied"
  using assms by (cases l; cases s) (simp_all add: next_status_def human_def target_defs)

text \<open>C38. A reply of a company that was not written to yet is not processed: the code asks for the step
  to \<open>replied\<close>, the table of transitions has it only from \<open>emailed\<close>, and the error takes the
  stored message and its analysis with it.\<close>

theorem early_reply_unprocessed:
  assumes "state_row c (cs_company st) = Some st" and "cs_status st \<in> {Discovered, Ready}"
    and "cl_label k \<notin> {L_NOT_INTERESTED, L_UNSUBSCRIBE, L_NEEDS_REVIEW, L_AUTO_REPLY, L_DELIVERY_FAILURE}"
  shows "settle_reply env m k failed st r method c = Inl (TransitionErr (NotAllowed (cs_status st) Replied))"
proof -
  have e: "ensure_state now (cs_company st) (c\<lparr>cv_analyses := x\<rparr>) = Inr (st, c\<lparr>cv_analyses := x\<rparr>)" for now x
    using assms(1) by (simp add: ensure_state_def state_row_def)
  have ck: "check (cs_status st) (cstatus_value Replied) False = Inl (NotAllowed (cs_status st) Replied)"
    unfolding check_value using assms(2) by auto
  show ?thesis
    unfolding settle_reply_def apply_reply_def Let_def early_reply_status [OF assms(2,3)] set_status_def e sum.case prod.case ck ebind_Inl ..
qed

theorem early_reply_unprocessed_witness:
  "settle_reply demo_penv demo_mail (demo_clf L_INTERESTED) None demo_state (hd (cv_companies demo_shop)) ''sender'' demo_ready
     = Inl (TransitionErr (NotAllowed Discovered Replied))"
proof -
  have s: "cs_status demo_state \<in> {Discovered, Ready}"
    "cl_label (demo_clf L_INTERESTED) \<notin> {L_NOT_INTERESTED, L_UNSUBSCRIBE, L_NEEDS_REVIEW, L_AUTO_REPLY, L_DELIVERY_FAILURE}"
    by (simp_all add: demo_ready_facts(5) demo_clf_def)
  from early_reply_unprocessed [OF demo_ready_facts(2) s] show ?thesis unfolding demo_ready_facts(5) .
qed

subsection \<open>A second delivery\<close>

lemma insert_stores:
  assumes "insert_message now i m c = Inr (x, c')" and "mg_provider_id m = Some p" and "clean_str p = p" and "p \<noteq> []"
  shows "\<exists>y\<in>set (cv_messages c'). mg_provider_id y = Some p"
  using assms by (auto simp: insert_message_def Let_def clean_message_def list_ex_iff split: if_splits)

lemma stored_grows: "grows c c' \<Longrightarrow> \<exists>y\<in>set (cv_messages c). mg_provider_id y = Some p \<Longrightarrow> \<exists>y\<in>set (cv_messages c'). mg_provider_id y = Some p"
  unfolding grows_def by blast

lemma stored_already_iff:
  "stored_already c pid \<longleftrightarrow> (\<exists>p. given pid = Some p \<and> (\<exists>y\<in>set (cv_messages c). mg_provider_id y = Some p))"
  by (auto simp: stored_already_def message_by_provider_id_def find_None_iff split: option.splits)

lemma unmatched_stores:
  assumes "unmatched_reply env m ma pre failed c = Inr (x, c')"
  shows "\<exists>mid c1. insert_message (pe_now env) (pe_mid env) (stored_inbound env m None (cl_label pre)) c = Inr (mid, c1) \<and> grows c1 c'"
proof -
  obtain mid c1 where ins: "insert_message (pe_now env) (pe_mid env) (stored_inbound env m None (cl_label pre)) c = Inr (mid, c1)"
    using assms unfolding unmatched_reply_def by (auto simp: ebind_eq_Inr)
  obtain how c2 where s: "suppress_unmatched env m ma pre failed c1 = (how, c2)" by fastforce
  let ?c3 = "snd (queue_attention (unmatched_item env m ma (blocked_note how) (candidate_names c2 ma)) c2)"
  obtain y keys c4 where n: "notify_once (pe_post env) (pe_now env) (pe_note env) (''br:unmatched:'' @ pe_mid env) ''reply.unmatched'' ''high''
      (unmatched_text env m ma pre (blocked_note how) (candidate_names c2 ma)) None True ?c3 = (y, keys, c4)"
    by (metis prod_cases3)
  have "c' = c1 \<or> c' = ?c3 \<or> c' = c4"
    using assms unfolding unmatched_reply_def ins ebind_Inr prod.case s n Let_def by (auto split: option.splits if_splits)
  moreover have "conv_steps False c1 ?c3"
    using steps_suppress_unmatched [OF s, of False] step_attention [of False c2] by (rule rtranclp.rtrancl_into_rtrancl)
  moreover have "conv_steps False ?c3 c4" by (rule steps_notify [OF n])
  ultimately have "conv_steps False c1 c'" by (meson rtranclp_trans rtranclp.rtrancl_refl)
  then show ?thesis using ins steps_grow by blast
qed

lemma matched_runs:
  assumes "matched_reply env m failed i method c = Inr (x, c')"
  obtains st c1 r k mid c2 where "ensure_state (pe_now env) i c = Inr (st, c1)" and "company_row c1 i = Some r"
    and "insert_message (pe_now env) (pe_mid env) (stored_inbound env m (Some i) (cl_label k)) c1 = Inr (mid, c2)"
    and "mid = None \<and> x = Duplicate \<and> c' = c2 \<or> mid \<noteq> None \<and> settle_reply env m k failed st r method c2 = Inr (x, c')"
proof -
  obtain st c1 where e: "ensure_state (pe_now env) i c = Inr (st, c1)"
    using assms unfolding matched_reply_def by (auto simp: ebind_eq_Inr)
  obtain r where r: "company_row c1 i = Some r"
    using assms unfolding matched_reply_def e ebind_Inr prod.case by (auto split: option.splits)
  obtain k where k: "classify_key (classify_reply (pe_pa env) (mail_inbound m) (thread c1 i) (Some (cs_status st)) (facts_of c1 i) (pe_our env)) = Inr k"
    using assms unfolding matched_reply_def e r ebind_Inr prod.case option.case by (auto simp: ebind_eq_Inr)
  obtain mid c2 where ins: "insert_message (pe_now env) (pe_mid env) (stored_inbound env m (Some i) (cl_label k)) c1 = Inr (mid, c2)"
    using assms unfolding matched_reply_def e r k ebind_Inr prod.case option.case by (auto simp: ebind_eq_Inr)
  have "mid = None \<and> x = Duplicate \<and> c' = c2 \<or> mid \<noteq> None \<and> settle_reply env m k failed st r method c2 = Inr (x, c')"
    using assms unfolding matched_reply_def e r k ins ebind_Inr prod.case option.case by (cases mid) auto
  then show ?thesis using that e r ins by blast
qed

lemma matched_stores:
  assumes "matched_reply env m failed i method c = Inr (x, c')"
  shows "\<exists>l mid c1 c2. insert_message (pe_now env) (pe_mid env) (stored_inbound env m (Some i) l) c1 = Inr (mid, c2) \<and> grows c2 c'"
proof (rule matched_runs [OF assms])
  fix st c1 r k mid c2
  assume "insert_message (pe_now env) (pe_mid env) (stored_inbound env m (Some i) (cl_label k)) c1 = Inr (mid, c2)"
    and "mid = None \<and> x = Duplicate \<and> c' = c2 \<or> mid \<noteq> None \<and> settle_reply env m k failed st r method c2 = Inr (x, c')"
  moreover from this have "grows c2 c'" using steps_settle [THEN steps_grow] by auto
  ultimately show ?thesis by blast
qed

lemma not_own:
  "unmatched_reply env m ma pre failed c \<noteq> Inr (Own_message, c')"
  "settle_reply env m k failed st r method c \<noteq> Inr (Own_message, c')"
  "matched_reply env m failed i method c \<noteq> Inr (Own_message, c')"
proof -
  show "unmatched_reply env m ma pre failed c \<noteq> Inr (Own_message, c')"
    unfolding unmatched_reply_def Let_def by (auto simp: ebind_eq_Inr split: option.splits if_splits prod.splits)
  show s: "settle_reply env m k failed st r method c \<noteq> Inr (Own_message, c')" for k st r c
    unfolding settle_reply_def Let_def by (auto simp: ebind_eq_Inr split: prod.splits)
  show "matched_reply env m failed i method c \<noteq> Inr (Own_message, c')"
    using s by (auto elim!: matched_runs)
qed

lemma clean_twice [simp]: "clean_str (clean_str s) = clean_str s"
  by (rule clean_str_id [OF clean_str_ok])

lemma clean_mail_pid: "given (ml_pid (clean_mail m)) = Some p \<Longrightarrow> ml_pid (clean_mail m) = Some p \<and> clean_str p = p \<and> p \<noteq> []"
  by (auto simp: given_def clean_mail_def split: option.splits if_splits)

text \<open>C35. A message is processed once: after a run that did something with a message that has a
  provider's id, delivering it again, under whatever clock, ids and relay, is a duplicate that changes
  nothing. (The own messages of the owner, which are ignored, leave nothing to find.)\<close>

theorem message_processed_once:
  "case process_inbound env m c of Inl e \<Rightarrow> True
   | Inr (Own_message, c') \<Rightarrow> c' = c
   | Inr (x, c') \<Rightarrow> (case given (ml_pid (clean_mail m)) of None \<Rightarrow> True
       | Some p \<Rightarrow> process_inbound env' m c' = Inr (Duplicate, c'))"
proof (cases "process_inbound env m c")
  case (Inr q)
  obtain x c' where q: "q = (x, c')" by fastforce
  have "stored_already c' (ml_pid (clean_mail m))" if p: "given (ml_pid (clean_mail m)) = Some p" and own: "x \<noteq> Own_message" for p
  proof (cases "stored_already c (ml_pid (clean_mail m))")
    case True
    then show ?thesis using Inr q by (simp add: process_inbound_def Let_def)
  next
    case False
    note pid = clean_mail_pid [OF p]
    have pr: "mg_provider_id (stored_inbound e (clean_mail m) co l) = Some p" for e co l using pid by (simp add: stored_inbound_def)
    have "\<exists>e co l nw i c1 mid c2. insert_message nw i (stored_inbound e (clean_mail m) co l) c1 = Inr (mid, c2) \<and> grows c2 c'"
      using Inr q False own unfolding process_inbound_def Let_def
      by (auto simp: ebind_eq_Inr split: if_splits dest!: unmatched_stores matched_stores) blast+
    then show ?thesis unfolding stored_already_iff using p insert_stores [OF _ pr] stored_grows pid by blast
  qed
  moreover have "c' = c" if "x = Own_message"
    using Inr not_own unfolding q that process_inbound_def Let_def by (auto simp: ebind_eq_Inr split: if_splits)
  ultimately show ?thesis unfolding Inr q sum.case prod.case
    by (auto simp: process_inbound_def Let_def split: reply_outcome.split option.split)
qed simp

subsection \<open>What a processed reply leaves\<close>

definition for_good :: "bool \<Rightarrow> (conv \<Rightarrow> bool) \<Rightarrow> conv \<Rightarrow> bool" where
  "for_good own P c \<longleftrightarrow> (\<forall>c'. conv_steps own c c' \<longrightarrow> P c')"

lemma drafts_states: "store_drafts ds c = (ids, c') \<Longrightarrow> cv_states c' = cv_states c"
proof (induction ds arbitrary: c ids c')
  case (Cons d ds)
  obtain x c1 where a: "add_draft d c = (x, c1)" by fastforce
  obtain xs c2 where b: "store_drafts ds c1 = (xs, c2)" by fastforce
  have "cv_states c1 = cv_states c" using a by (auto simp: add_draft_def set_drafts_def Let_def split: if_splits)
  then show ?case using Cons.prems Cons.IH [OF b] a b by simp
qed simp

lemma update_state_row:
  assumes "update_state now i fs c = Inr c'" and "state_row c i = Some x"
  shows "\<exists>y. state_row c' i = Some y \<and> cs_status y = cs_status x"
proof (cases "fs = []")
  case False
  then have u: "update_row i (put_fields fs) c = Inr c'" using assms by (simp add: update_state_def ensure_state_def)
  have co: "cs_company (put_fields fs r) = cs_company r" for r
    unfolding put_fields_def
  proof (induction fs arbitrary: r)
    case (Cons f fs)
    have "cs_company (put_field f r) = cs_company r" by (cases f) simp_all
    then show ?case using Cons by simp
  qed simp
  show ?thesis using assms(2) by (simp add: state_row_update [OF u co])
qed (use assms in \<open>simp add: update_state_def\<close>)

lemma prepare_row:
  assumes "prepare_drafts env m k r c = Inr (ids, c')" and "state_row c (co_id r) = Some x"
  shows "\<exists>y. state_row c' (co_id r) = Some y \<and> cs_status y = cs_status x"
proof -
  obtain xs c2 where d: "store_drafts (map (draft_row env m k (co_id r)) (made_drafts env m k r c)) c = (xs, c2)" by fastforce
  have e: "ensure_state (pe_now env) (co_id r) c = Inr (x, c)" using assms(2) by (simp add: ensure_state_def)
  have s: "state_row c2 (co_id r) = Some x" using drafts_states [OF d] assms(2) by (simp add: state_row_def)
  have "c' = c \<or> c' = c2 \<or> (\<exists>fs. update_state (pe_now env) (co_id r) fs c2 = Inr c')"
    using assms(1) unfolding prepare_drafts_def e ebind_Inr prod.case d by (auto simp: ebind_eq_Inr split: if_splits)
  then show ?thesis using update_state_row [OF _ s] s assms(2) by auto
qed

lemma settled_reply:
  assumes "settle_reply env m k failed st r method c = Inr (x, c')" and "co_id r = cs_company st"
  shows "\<exists>p. x = Processed p \<and> pr_company p = cs_company st \<and> pr_label p = cl_label k \<and> pr_from p = cs_status st
     \<and> pr_to p = next_status (cl_label k) (cs_status st)
     \<and> (\<exists>y. state_row c' (cs_company st) = Some y \<and> cs_status y = pr_to p)
     \<and> (cl_label k = L_UNSUBSCRIBE \<longrightarrow> opted_out (cs_company st) c')"
proof (rule settle_reply_runs [OF assms(1)])
  fix c1 ids c2 cur c3 asked c4 told1
  let ?link = "record_link (pe_base env) (pe_table env) (airtable_record_of c3 (co_id r))"
  assume a: "apply_reply env m k failed st c = Inr c1" and b: "prepare_drafts env m k r c1 = Inr (ids, c2)"
    and e: "ensure_state (pe_now env) (co_id r) c2 = Inr (cur, c3)"
    and f: "ask_owner env k cur r (cs_status st) ?link c3 = (asked, c4)"
    and g: "tell_owner env m k cur r (cs_status st) ?link ids c4 = (told1, c')"
  obtain y where y: "state_row c1 (co_id r) = Some y" "cs_status y = next_status (cl_label k) (cs_status st)"
    using apply_has_row [OF a] assms(2) by auto
  obtain z where z: "state_row c2 (co_id r) = Some z" "cs_status z = cs_status y" using prepare_row [OF b y(1)] by blast
  have cur: "cur = z" "c3 = c2" using ensure_same [OF e z(1)] by simp_all
  have row: "state_row c' (co_id r) = Some z"
    using z(1) ask_keeps [OF f] tell_keeps [OF g] cur(2) by (simp add: state_row_def)
  have x: "x = Processed \<lparr>pr_company = co_id r, pr_message = pe_mid env, pr_label = cl_label k, pr_from = cs_status st,
      pr_to = cs_status cur, pr_drafts = ids, pr_attention = asked, pr_notified = told1, pr_match = method\<rparr>"
    using assms(1) unfolding settle_reply_def a b e ebind_Inr prod.case Let_def f g by simp
  have "conv_steps False c1 c'" by (meson steps_prepare [OF b] steps_ensure [OF e] steps_ask [OF f] steps_tell [OF g] rtranclp_trans)
  then have "cl_label k = L_UNSUBSCRIBE \<longrightarrow> opted_out (cs_company st) c'" using apply_opt_out [OF a] steps_opted by blast
  then show ?thesis using x row z(2) y(2) cur(1) assms(2) by simp
qed

lemma status_set_allowed:
  assumes "set_status now i (cstatus_value t) reason mid actor False w fs c = Inr c'" and "state_row c i = Some x"
  shows "cs_status x = t \<or> t \<in> set (ALLOWED (cs_status x))"
  using assms by (auto simp: set_status_def ensure_state_def simp del: cstatus_value.simps split: if_splits)

lemma human_kind: "human l \<Longrightarrow> clean_str (inbound_kind l) \<notin> {''auto_reply'', ''bounce''}"
proof -
  assume "human l"
  then have "inbound_kind l = ''inbound''" by (simp add: human_def inbound_kind_def)
  moreover have "clean_str ''inbound'' \<notin> {''auto_reply'', ''bounce''}" by code_simp
  ultimately show ?thesis by simp
qed

lemma matched_replied:
  assumes "insert_message nw j (stored_inbound env m (Some i) l) c = Inr (Some y, c1)" and "human l"
  shows "replied_to i c1"
proof -
  have "human_reply i ((clean_message (stored_inbound env m (Some i) l))\<lparr>mg_id := j, mg_recorded := nw\<rparr>)"
    using human_kind [OF assms(2)] by (simp add: human_reply_def clean_message_def stored_inbound_def)
  then show ?thesis using stored_message [OF assms(1)] unfolding replied_to_def by blast
qed

lemma not_processed: "unmatched_reply env m ma pre failed c \<noteq> Inr (Processed p, c')"
  unfolding unmatched_reply_def Let_def by (auto simp: ebind_eq_Inr split: option.splits if_splits prod.splits)

lemma apply_allowed:
  assumes "apply_reply env m k failed st c = Inr c1" and "state_row c (cs_company st) = Some st"
  shows "cs_status st = next_status (cl_label k) (cs_status st) \<or> next_status (cl_label k) (cs_status st) \<in> set (ALLOWED (cs_status st))"
proof -
  let ?c0 = "c\<lparr>cv_analyses := cv_analyses c @ [analysis_of env (cs_company st) k]\<rparr>"
  obtain c2 where "set_status (pe_now env) (cs_company st) (cstatus_value (next_status (cl_label k) (cs_status st)))
        (''reply classified '' @ label_value (cl_label k)) (Some (pe_mid env)) ''system'' False (Some (ml_at m)) (reply_fields env m k st) ?c0 = Inr c2"
    using assms(1) unfolding apply_reply_def Let_def by (auto simp: ebind_eq_Inr)
  moreover have "state_row ?c0 (cs_company st) = Some st" using assms(2) by (simp add: state_row_def)
  ultimately show ?thesis by (rule status_set_allowed)
qed

lemma insert_states: "insert_message nw j m c = Inr (x, c') \<Longrightarrow> cv_states c' = cv_states c"
  by (auto simp: insert_message_def Let_def split: if_splits)

lemma matched_processed:
  assumes "matched_reply env m failed i method c = Inr (x, c')" and "x \<noteq> Duplicate"
  shows "\<exists>p. x = Processed p \<and> pr_company p = i \<and> pr_to p = next_status (pr_label p) (pr_from p)
     \<and> (pr_to p = pr_from p \<or> pr_to p \<in> set (ALLOWED (pr_from p)))
     \<and> (\<exists>y. state_row c' i = Some y \<and> cs_status y = pr_to p)
     \<and> (human (pr_label p) \<longrightarrow> replied_to i c') \<and> (pr_label p = L_UNSUBSCRIBE \<longrightarrow> opted_out i c')"
proof (rule matched_runs [OF assms(1)])
  fix st c1 r k mid c2
  assume e: "ensure_state (pe_now env) i c = Inr (st, c1)" and r: "company_row c1 i = Some r"
    and ins: "insert_message (pe_now env) (pe_mid env) (stored_inbound env m (Some i) (cl_label k)) c1 = Inr (mid, c2)"
    and "mid = None \<and> x = Duplicate \<and> c' = c2 \<or> mid \<noteq> None \<and> settle_reply env m k failed st r method c2 = Inr (x, c')"
  then obtain y where y: "mid = Some y" and s: "settle_reply env m k failed st r method c2 = Inr (x, c')" using assms(2) by auto
  have i: "cs_company st = i" by (rule ensure_company [OF e])
  have "co_id r = i" using r unfolding company_row_def by (auto dest: find_Some_in)
  then have co: "co_id r = cs_company st" using i by simp
  have row: "state_row c2 (cs_company st) = Some st"
    using ensure_row [OF e] insert_states [OF ins] by (simp add: state_row_def i)
  obtain c3 where a: "apply_reply env m k failed st c2 = Inr c3"
    using s unfolding settle_reply_def by (auto simp: ebind_eq_Inr)
  have h: "human (cl_label k) \<longrightarrow> replied_to i c'"
    using matched_replied [OF ins [unfolded y]] grown_conditions(4) [OF steps_grow [OF steps_settle [OF s]]] by blast
  from settled_reply [OF s co] obtain p where p: "x = Processed p" "pr_company p = i" "pr_label p = cl_label k" "pr_from p = cs_status st"
    "pr_to p = next_status (cl_label k) (cs_status st)" "\<exists>y. state_row c' i = Some y \<and> cs_status y = pr_to p"
    "cl_label k = L_UNSUBSCRIBE \<longrightarrow> opted_out i c'" unfolding i by blast
  have al: "pr_to p = pr_from p \<or> pr_to p \<in> set (ALLOWED (pr_from p))" using apply_allowed [OF a row] unfolding p(4,5) by metis
  show ?thesis
    by (rule exI [of _ p]) (intro conjI p(1,2,6) al; use p(3-5,7) h in simp)
qed

text \<open>What a processed reply leaves, whatever the message and the memory: the company is at the
  status the label asks for, reached by a transition the table has; if a person wrote it, the guard
  lets no cold message or follow-up go to the company ever again; if it was an opt-out, the guard
  lets nothing go to it until the owner decides otherwise.\<close>

theorem processed_reply_effects:
  "case process_inbound env m c of
     Inr (Processed p, c') \<Rightarrow>
       pr_to p = next_status (pr_label p) (pr_from p)
       \<and> (pr_to p = pr_from p \<or> pr_to p \<in> set (ALLOWED (pr_from p)))
       \<and> (\<exists>st. state_row c' (pr_company p) = Some st \<and> cs_status st = pr_to p)
       \<and> (if human (pr_label p) then for_good True (refuses generic_kind (belongs_to (pr_company p))) c' else True)
       \<and> (if pr_label p = L_UNSUBSCRIBE then for_good False (refuses any_kind (belongs_to (pr_company p))) c' else True)
   | _ \<Rightarrow> True"
proof -
  have "pr_to p = next_status (pr_label p) (pr_from p)
       \<and> (pr_to p = pr_from p \<or> pr_to p \<in> set (ALLOWED (pr_from p)))
       \<and> (\<exists>st. state_row c' (pr_company p) = Some st \<and> cs_status st = pr_to p)
       \<and> (human (pr_label p) \<longrightarrow> for_good True (refuses generic_kind (belongs_to (pr_company p))) c')
       \<and> (pr_label p = L_UNSUBSCRIBE \<longrightarrow> for_good False (refuses any_kind (belongs_to (pr_company p))) c')"
    if run: "process_inbound env m c = Inr (Processed p, c')" for p c'
  proof -
    have "\<exists>e mm f i me. matched_reply e mm f i me c = Inr (Processed p, c')"
      using run unfolding process_inbound_def Let_def by (auto simp: ebind_eq_Inr not_processed split: if_splits) blast+
    then obtain e mm f i me where "matched_reply e mm f i me c = Inr (Processed p, c')" by blast
    from matched_processed [OF this] show ?thesis
      unfolding for_good_def using replied_once.refused_forever opted_once.refused_forever by auto
  qed
  then show ?thesis by (auto split: sum.split reply_outcome.split)
qed

end
