(* ===== verification/LeadNormalize.thy ===== *)
theory LeadNormalize
  imports ConvText
begin

text \<open>
  \<open>src/cloudos/leadgen/normalize.py\<close>: the keys by which the lead engine tells whether two records are the same company.
  Splitting an address is \<open>urllib.parse\<close>; which bracketed hosts it takes differs between releases of Python 3.11
  and is the argument \<open>br\<close>. No character of the model changes into one of \<open>/?#@:\<close> under compatibility decomposition.
\<close>

definition SHARED_HOSTS :: "str list" where
  "SHARED_HOSTS =
    [''facebook.com'', ''m.facebook.com'', ''instagram.com'', ''linktr.ee'', ''sites.google.com'', ''business.site'',
     ''wixsite.com'', ''godaddysites.com'', ''square.site'', ''weebly.com'', ''wordpress.com'', ''blogspot.com'', ''yelp.com'',
     ''nextdoor.com'', ''google.com'', ''g.page'', ''youtube.com'', ''tiktok.com'', ''x.com'', ''twitter.com'',
     ''linkedin.com'', ''mystrikingly.com'', ''carrd.co'', ''webflow.io'', ''myshopify.com'', ''square.com'', ''vagaro.com'',
     ''mindbodyonline.com'']"

definition DIRECTORY_DOMAINS :: "str list" where
  "DIRECTORY_DOMAINS =
    [''yelp.com'', ''angi.com'', ''angieslist.com'', ''homeadvisor.com'', ''thumbtack.com'', ''bbb.org'', ''yellowpages.com'',
     ''manta.com'', ''houzz.com'', ''porch.com'', ''nextdoor.com'', ''mapquest.com'', ''superpages.com'',
     ''chamberofcommerce.com'', ''buildzoom.com'', ''networx.com'', ''bark.com'', ''expertise.com'', ''zocdoc.com'',
     ''healthgrades.com'', ''opencare.com'', ''classpass.com'', ''groupon.com'', ''tripadvisor.com'', ''foursquare.com'',
     ''cylex.us.com'', ''birdeye.com'', ''google.com'', ''apple.com'', ''bing.com'', ''linkedin.com'', ''indeed.com'',
     ''glassdoor.com'', ''carfax.com'', ''repairpal.com'', ''cars.com'', ''local.com'', ''hotfrog.com'', ''brownbook.net'']"

definition FREEMAIL_DOMAINS :: "str list" where
  "FREEMAIL_DOMAINS =
    [''gmail.com'', ''yahoo.com'', ''hotmail.com'', ''outlook.com'', ''aol.com'', ''icloud.com'', ''me.com'', ''live.com'',
     ''msn.com'', ''att.net'', ''sbcglobal.net'', ''bellsouth.net'', ''cox.net'', ''comcast.net'', ''verizon.net'',
     ''charter.net'', ''earthlink.net'', ''protonmail.com'', ''proton.me'', ''ymail.com'', ''mail.com'', ''gmx.com'',
     ''zoho.com'', ''rocketmail.com'', ''windstream.net'', ''centurylink.net'', ''frontier.com'', ''suddenlink.net'',
     ''embarqmail.com'', ''q.com'']"

definition LEGACY_ISP_MAIL :: "str list" where
  "LEGACY_ISP_MAIL =
    [''att.net'', ''sbcglobal.net'', ''bellsouth.net'', ''cox.net'', ''comcast.net'', ''verizon.net'', ''charter.net'',
     ''earthlink.net'', ''windstream.net'', ''centurylink.net'', ''frontier.com'', ''suddenlink.net'', ''embarqmail.com'',
     ''q.com'']"

definition TWO_LEVEL_SUFFIXES :: "str list" where
  "TWO_LEVEL_SUFFIXES =
    [''co.uk'', ''com.au'', ''co.nz'', ''com.mx'', ''com.br'', ''co.za'', ''org.uk'', ''ac.uk'']"

definition US_STATES :: "(str \<times> str) list" where
  "US_STATES =
    [(''alabama'', ''AL''), (''alaska'', ''AK''), (''arizona'', ''AZ''), (''arkansas'', ''AR''), (''california'', ''CA''),
     (''colorado'', ''CO''), (''connecticut'', ''CT''), (''delaware'', ''DE''), (''florida'', ''FL''), (''georgia'', ''GA''),
     (''hawaii'', ''HI''), (''idaho'', ''ID''), (''illinois'', ''IL''), (''indiana'', ''IN''), (''iowa'', ''IA''),
     (''kansas'', ''KS''), (''kentucky'', ''KY''), (''louisiana'', ''LA''), (''maine'', ''ME''), (''maryland'', ''MD''),
     (''massachusetts'', ''MA''), (''michigan'', ''MI''), (''minnesota'', ''MN''), (''mississippi'', ''MS''),
     (''missouri'', ''MO''), (''montana'', ''MT''), (''nebraska'', ''NE''), (''nevada'', ''NV''), (''new hampshire'', ''NH''),
     (''new jersey'', ''NJ''), (''new mexico'', ''NM''), (''new york'', ''NY''), (''north carolina'', ''NC''),
     (''north dakota'', ''ND''), (''ohio'', ''OH''), (''oklahoma'', ''OK''), (''oregon'', ''OR''), (''pennsylvania'', ''PA''),
     (''rhode island'', ''RI''), (''south carolina'', ''SC''), (''south dakota'', ''SD''), (''tennessee'', ''TN''),
     (''texas'', ''TX''), (''utah'', ''UT''), (''vermont'', ''VT''), (''virginia'', ''VA''), (''washington'', ''WA''),
     (''west virginia'', ''WV''), (''wisconsin'', ''WI''), (''wyoming'', ''WY''), (''district of columbia'', ''DC'')]"

definition SITE_BUILDERS :: "str list" where
  "SITE_BUILDERS = [''wixsite.com'', ''godaddysites.com'', ''square.site'', ''weebly.com'', ''wordpress.com'', ''blogspot.com'',
     ''business.site'', ''webflow.io'', ''myshopify.com'', ''mystrikingly.com'']"

definition NAME_NOISE :: rx where
  "NAME_NOISE = rx plain_flags (''~b(llc|l~.l~.c|inc|incorporated|co|company|corp|corporation|ltd|limited|pllc|plc|lp|llp|''
     @ ''pc|dds|dmd|the|and)~b'')"

subsection \<open>Parts of an address\<close>

text \<open>\<open>urlparse\<close>, of which the code reads the host and the path. \<open>None\<close> is \<open>ValueError\<close>.\<close>

definition before_char :: "char \<Rightarrow> str \<Rightarrow> str" where "before_char c s = takeWhile (\<lambda>x. x \<noteq> c) s"

definition after_char :: "char \<Rightarrow> str \<Rightarrow> str" where "after_char c s = drop 1 (dropWhile (\<lambda>x. x \<noteq> c) s)"

definition ascii_letter :: "char \<Rightarrow> bool" where
  "ascii_letter c = (let n = of_char c :: nat in (65 \<le> n \<and> n \<le> 90) \<or> (97 \<le> n \<and> n \<le> 122))"

definition scheme_char :: "char \<Rightarrow> bool" where
  "scheme_char c \<longleftrightarrow> ascii_letter c \<or> is_digit c \<or> c \<in> {CHR ''+'', CHR ''-'', CHR ''.''}"

definition split_scheme :: "str \<Rightarrow> str \<times> str" where
  "split_scheme s =
     (let i = before_char (CHR '':'') s in
      if CHR '':'' \<in> set s \<and> i \<noteq> [] \<and> ascii_letter (hd i) \<and> list_all scheme_char i then (py_lower i, after_char (CHR '':'') s)
      else ([], s))"

definition netloc_end :: "char \<Rightarrow> bool" where "netloc_end c \<longleftrightarrow> c \<in> {CHR ''/'', CHR ''?'', CHR ''#''}"

definition USES_PARAMS :: "str list" where
  "USES_PARAMS = [[], ''ftp'', ''hdl'', ''prospero'', ''http'', ''https'', ''shttp'', ''rtsp'', ''rtsps'', ''sip'', ''sips'', ''mms'', ''sftp'', ''tel'']"

text \<open>The path without the parameters of its last segment.\<close>

definition drop_params :: "str \<Rightarrow> str" where
  "drop_params p =
     (if CHR '';'' \<notin> set p then p
      else let l = after_last (CHR ''/'') p in take (length p - length l) p @ before_char (CHR '';'') l)"

definition url_parts :: "(str \<Rightarrow> bool) \<Rightarrow> str \<Rightarrow> (str \<times> str) option" where
  "url_parts br s0 =
     (let s = filter (\<lambda>c. c \<notin> {CHR 0x09, CHR 0x0A, CHR 0x0D}) (lstrip_by (\<lambda>c. (of_char c :: nat) \<le> 32) s0);
          (scheme, rest) = split_scheme s;
          (netloc, tail) = (if startswith rest ''//'' then (takeWhile (\<lambda>c. \<not> netloc_end c) (drop 2 rest), dropWhile (\<lambda>c. \<not> netloc_end c) (drop 2 rest))
                            else ([], rest));
          opened = (CHR ''['' \<in> set netloc); closed = (CHR '']'' \<in> set netloc);
          path = before_char (CHR ''?'') (before_char (CHR ''#'') tail)
      in if opened \<noteq> closed \<or> (opened \<and> \<not> br netloc) then None
         else Some (netloc, if scheme \<in> set USES_PARAMS then drop_params path else path))"

definition url_hostname :: "str \<Rightarrow> str" where
  "url_hostname netloc =
     (let info = after_last (CHR ''@'') netloc;
          h = (if CHR ''['' \<in> set info then before_char (CHR '']'') (after_char (CHR ''['') info) else before_char (CHR '':'') info)
      in py_lower (before_char (CHR ''%'') h) @ dropWhile (\<lambda>x. x \<noteq> CHR ''%'') h)"

text \<open>\<open>http://\<close> in front of what names no scheme.\<close>

definition with_scheme :: "str \<Rightarrow> str" where
  "with_scheme raw = (if substr_in ''://'' raw then raw else ''http://'' @ raw)"

definition host_of :: "(str \<Rightarrow> bool) \<Rightarrow> str \<Rightarrow> str" where
  "host_of br v =
     (let raw = py_strip v in
      if raw = [] then []
      else case url_parts br (with_scheme raw) of
          None \<Rightarrow> []
        | Some (netloc, p) \<Rightarrow>
            (let h = strip_by (\<lambda>c. c = CHR ''.'') (py_lower (url_hostname netloc))
             in if startswith h ''www.'' then drop 4 h else h))"

subsection \<open>The keys\<close>

definition registrable_domain :: "str \<Rightarrow> str" where
  "registrable_domain host =
     (let parts = filter (\<lambda>p. p \<noteq> []) (split_on (CHR ''.'') (py_lower host)); n = length parts;
          two = py_join ''.'' (drop (n - 2) parts)
      in if n < 2 then []
         else if two \<in> set TWO_LEVEL_SUFFIXES \<and> 3 \<le> n then py_join ''.'' (drop (n - 3) parts) else two)"

definition path_segments :: "(str \<Rightarrow> bool) \<Rightarrow> str \<Rightarrow> str list" where
  "path_segments br s = (case url_parts br s of Some (netloc, p) \<Rightarrow> filter (\<lambda>x. x \<noteq> []) (split_on (CHR ''/'') p) | None \<Rightarrow> [])"

text \<open>On a shared host the business is the subdomain or the first part of the path.\<close>

definition shared_key :: "(str \<Rightarrow> bool) \<Rightarrow> str \<Rightarrow> str \<Rightarrow> str \<Rightarrow> str" where
  "shared_key br raw host reg =
     (let sub = (if reg \<in> set SITE_BUILDERS \<and> host \<noteq> reg then before_char (CHR ''.'') host else []);
          ps = path_segments br (with_scheme raw)
      in if sub \<noteq> [] then sub else case ps of p # _ \<Rightarrow> py_lower p | [] \<Rightarrow> [])"

definition normalize_domain :: "(str \<Rightarrow> bool) \<Rightarrow> str \<Rightarrow> str" where
  "normalize_domain br v =
     (let raw = py_strip v; host = host_of br raw; reg = registrable_domain host in
      if host = [] \<or> CHR ''.'' \<notin> set host then []
      else if reg \<in> set FREEMAIL_DOMAINS \<or> host \<in> set FREEMAIL_DOMAINS then []
      else if reg \<in> set SHARED_HOSTS \<or> host \<in> set SHARED_HOSTS
      then (let k = shared_key br raw host reg in if k = [] then [] else reg @ ''/'' @ k)
      else reg)"

definition is_shared_host :: "(str \<Rightarrow> bool) \<Rightarrow> str \<Rightarrow> bool" where
  "is_shared_host br website \<longleftrightarrow> registrable_domain (host_of br website) \<in> set SHARED_HOSTS"

definition is_directory :: "(str \<Rightarrow> bool) \<Rightarrow> str \<Rightarrow> bool" where
  "is_directory br website \<longleftrightarrow> registrable_domain (host_of br website) \<in> set DIRECTORY_DOMAINS"

definition normalize_name :: "str \<Rightarrow> str" where
  "normalize_name name =
     (let t1 = py_replace ''&'' '' and '' (py_lower name);
          t2 = filter (\<lambda>c. c \<notin> {CHR 0x92, CHR 0x27, CHR 0x60}) t1;
          t3 = rx_sub (rx plain_flags ''[^a-z0-9 ]+'') (\<lambda>m. '' '') t2;
          t4 = rx_sub NAME_NOISE (\<lambda>m. '' '') t3
      in py_strip (rx_sub (rx plain_flags ''~s+'') (\<lambda>m. '' '') t4))"

definition normalize_phone :: "str \<Rightarrow> str" where
  "normalize_phone phone =
     (let ds = filter is_digit phone; ds1 = (if length ds = 11 \<and> startswith ds ''1'' then drop 1 ds else ds)
      in if length ds1 = 10 then ds1 else [])"

definition LEAD_EMAIL :: rx where "LEAD_EMAIL = rx plain_flags ''^[a-z0-9._%+~-]+@[a-z0-9.~-]+~.[a-z]{2,24}$''"

definition email_edge :: "char \<Rightarrow> bool" where
  "email_edge c \<longleftrightarrow> c \<in> {CHR ''.'', CHR '','', CHR '';'', CHR '':'', CHR ''('', CHR '')'', CHR ''<'', CHR ''>'', CHR ''['', CHR '']'', CHR 0x22, CHR 0x27}"

definition normalize_email :: "str \<Rightarrow> str" where
  "normalize_email email =
     (let v = py_lower (py_strip email);
          v1 = (if startswith v ''mailto:'' then drop 7 v else v);
          v2 = strip_by email_edge (py_strip (before_char (CHR ''?'') v1))
      in if rx_match LEAD_EMAIL v2 \<noteq> None then v2 else [])"

definition email_domain :: "str \<Rightarrow> str" where
  "email_domain email = after_char (CHR ''@'') (normalize_email email)"

definition normalize_state :: "str \<Rightarrow> str" where
  "normalize_state s =
     (let v = py_strip s in
      if length v = 2 then py_upper v
      else case map_of US_STATES (py_lower v) of Some x \<Rightarrow> x | None \<Rightarrow> py_upper (take 2 v))"

definition STATE_ZIP :: rx where "STATE_ZIP = rx plain_flags ''^([A-Z]{2})(?:~s+~d{5}(?:-~d{4})?)?$''"

text \<open>From the last part of the address back to the second.\<close>

fun city_before :: "str list \<Rightarrow> str \<times> str" where
  "city_before (p # q # ps) = (case rx_match STATE_ZIP p of Some m \<Rightarrow> (q, group1 m) | None \<Rightarrow> city_before (q # ps))"
| "city_before ps = ([], [])"

definition city_state_from_address :: "str \<Rightarrow> str \<times> str" where
  "city_state_from_address address =
     city_before (rev (filter (\<lambda>p. p \<noteq> []) (map py_strip (split_on (CHR '','') address))))"

subsection \<open>What the keys promise\<close>

lemma set_after_char: "set (after_char c s) \<subseteq> set s"
  unfolding after_char_def using set_drop_subset set_dropWhileD by fast

lemma set_before_char: "set (before_char c s) \<subseteq> set s"
  unfolding before_char_def using set_takeWhileD by fast

lemma set_after_last: "set (after_last c s) \<subseteq> set s"
  unfolding after_last_def using set_takeWhileD by fastforce

lemma lower_slash [simp]: "py_lower_char c = CHR ''/'' \<longleftrightarrow> c = CHR ''/''"
proof
  assume a: "py_lower_char c = CHR ''/''"
  have "(of_char (py_lower_char c) :: nat) = 47" unfolding a by simp
  then have "(of_char c :: nat) = of_char (CHR ''/'')"
    by (auto simp: py_lower_char_def Let_def split: if_splits)
  then show "c = CHR ''/''" by (simp only: of_char_eq_iff)
qed (simp add: py_lower_char_def)

lemma slash_lower [simp]: "CHR ''/'' \<in> set (py_lower s) \<longleftrightarrow> CHR ''/'' \<in> set s"
  unfolding py_lower_def set_map by (metis image_iff lower_slash)

lemma in_url_hostname: "x \<in> set (url_hostname n) \<Longrightarrow> x \<in> set n \<or> x \<in> set (py_lower n)"
  unfolding url_hostname_def Let_def py_lower_def
  by (auto split: if_splits dest!: set_dropWhileD subsetD [OF set_before_char] subsetD [OF set_after_char] subsetD [OF set_after_last])

lemma in_strip_by: "x \<in> set (strip_by p s) \<Longrightarrow> x \<in> set s"
  unfolding strip_by_def rstrip_by_def lstrip_by_def by (auto dest!: set_dropWhileD)

lemma netloc_no_slash: "url_parts br s = Some (n, p) \<Longrightarrow> CHR ''/'' \<notin> set n"
  unfolding url_parts_def Let_def
  by (auto split: prod.splits if_splits dest!: set_takeWhileD simp: netloc_end_def)

lemma host_no_slash: "CHR ''/'' \<notin> set (host_of br v)"
proof (cases "url_parts br (with_scheme (py_strip v))")
  case (Some x)
  obtain n p where x: "x = (n, p)" by (cases x)
  have "CHR ''/'' \<notin> set n" using netloc_no_slash Some x by blast
  then have "CHR ''/'' \<notin> set (py_lower (url_hostname n))"
    using in_url_hostname [of "CHR ''/''" n] by auto
  then have "CHR ''/'' \<notin> set (strip_by (\<lambda>c. c = CHR ''.'') (py_lower (url_hostname n)))" (is "_ \<notin> set ?h")
    using in_strip_by by metis
  then have "CHR ''/'' \<notin> set (if startswith ?h ''www.'' then drop 4 ?h else ?h)" by (auto dest: in_set_dropD)
  then show ?thesis using Some x by (simp add: host_of_def Let_def)
qed (simp add: host_of_def Let_def)

lemma in_split_on: "x \<in> set (split_on c s) \<Longrightarrow> y \<in> set x \<Longrightarrow> y \<in> set s"
proof (induction s arbitrary: x)
  case (Cons a s)
  show ?case
  proof (cases "split_on c s")
    case Nil
    then show ?thesis using Cons.prems by (auto split: if_splits)
  next
    case (Cons p ps)
    then show ?thesis using Cons.prems Cons.IH [of p] Cons.IH [of x] by (auto split: if_splits)
  qed
qed simp

lemma in_py_join: "y \<in> set (py_join sep xs) \<Longrightarrow> y \<in> set sep \<or> (\<exists>x\<in>set xs. y \<in> set x)"
  by (induction sep xs rule: py_join.induct) auto

lemma in_registrable: "y \<in> set (registrable_domain h) \<Longrightarrow> y = CHR ''.'' \<or> y \<in> set (py_lower h)"
  unfolding registrable_domain_def Let_def
  by (auto split: if_splits dest!: in_py_join in_set_dropD dest: in_split_on)

lemma lower_lower_char: "py_lower_char c = c \<Longrightarrow> py_lower [c] = [c]"
  by (simp add: py_lower_def)

lemma registrable_lower: "py_lower (registrable_domain h) = registrable_domain h"
proof -
  have "py_lower_char y = y" if "y \<in> set (registrable_domain h)" for y
  proof -
    from in_registrable [OF that] have "y = CHR ''.'' \<or> (\<exists>x. y = py_lower_char x)" by (auto simp: py_lower_def)
    then consider "y = CHR ''.''" | x where "y = py_lower_char x" by blast
    then show ?thesis
    proof cases
      case 1
      then show ?thesis by (simp add: py_lower_char_def)
    qed simp
  qed
  then show ?thesis unfolding py_lower_def by (rule map_idI)
qed

lemma before_slash: "CHR ''/'' \<notin> set r \<Longrightarrow> before_char (CHR ''/'') (r @ ''/'' @ k) = r" "CHR ''/'' \<notin> set r \<Longrightarrow> before_char (CHR ''/'') r = r"
  by (simp_all add: before_char_def takeWhile_append takeWhile_eq_all_conv) (auto simp: takeWhile_eq_all_conv)

lemma registrable_no_slash: "CHR ''/'' \<notin> set (registrable_domain (host_of br v))"
  using in_registrable [of "CHR ''/''" "host_of br v"] host_no_slash [of br v] by auto

text \<open>The key of a company is never a mail provider, and never a host that many businesses share without what tells them
  apart: whatever the website, the domain in front of the slash is no mail provider's, is in lower case, and if it is a shared
  host there is a slash.\<close>

theorem identity_never_shared:
  "(let d = normalize_domain br v; h = before_char (CHR ''/'') d
    in h \<notin> set FREEMAIL_DOMAINS \<and> py_lower h = h \<and> (if h \<in> set SHARED_HOSTS then CHR ''/'' \<in> set d else True))"
proof -
  let ?host = "host_of br (py_strip v)"
  let ?reg = "registrable_domain ?host"
  note no = registrable_no_slash [of br "py_strip v"]
  have free: "[] \<notin> set FREEMAIL_DOMAINS" by (simp add: FREEMAIL_DOMAINS_def)
  have shared: "[] \<notin> set SHARED_HOSTS" by (simp add: SHARED_HOSTS_def)
  consider (none) "normalize_domain br v = []"
    | (plain) "normalize_domain br v = ?reg" "?reg \<notin> set FREEMAIL_DOMAINS" "?reg \<notin> set SHARED_HOSTS"
    | (key) k where "normalize_domain br v = ?reg @ ''/'' @ k" "?reg \<notin> set FREEMAIL_DOMAINS"
  proof -
    let ?key = "shared_key br (py_strip v) ?host ?reg"
    have eq: "normalize_domain br v = (if ?host = [] \<or> CHR ''.'' \<notin> set ?host then []
        else if ?reg \<in> set FREEMAIL_DOMAINS \<or> ?host \<in> set FREEMAIL_DOMAINS then []
        else if ?reg \<in> set SHARED_HOSTS \<or> ?host \<in> set SHARED_HOSTS then (if ?key = [] then [] else ?reg @ ''/'' @ ?key) else ?reg)"
      unfolding normalize_domain_def Let_def ..
    show thesis
    proof (cases "?reg \<in> set FREEMAIL_DOMAINS")
      case True
      then have "normalize_domain br v = []" unfolding eq by simp
      then show thesis by (rule that(1))
    next
      case False
      show thesis
      proof (cases "normalize_domain br v = [] \<or> normalize_domain br v = ?reg @ ''/'' @ ?key")
        case True
        then show thesis using that(1) that(3) False by blast
      next
        case other: False
        then have "normalize_domain br v = ?reg" "?reg \<notin> set SHARED_HOSTS" unfolding eq by (auto split: if_splits)
        then show thesis using that(2) False by blast
      qed
    qed
  qed
  then show ?thesis
  proof cases
    case none
    then show ?thesis using free shared by (simp add: before_char_def py_lower_def)
  next
    case plain
    then show ?thesis using before_slash(2) [OF no] registrable_lower [of ?host] by (simp add: Let_def)
  next
    case (key k)
    then show ?thesis using before_slash(1) [OF no, of k] registrable_lower [of ?host] by (simp add: Let_def)
  qed
qed

text \<open>A telephone number has one key however it is written: only its digits count, a leading 1 of eleven digits does not, and
  the key is empty or ten digits.\<close>

theorem phone_key:
  "(let k = normalize_phone s in (k = [] \<or> length k = 10) \<and> list_all is_digit k \<and> normalize_phone k = k
     \<and> normalize_phone (filter is_digit s) = k \<and> (if length (filter is_digit s) = 10 then normalize_phone (''+1 '' @ s) = k else True))"
proof -
  let ?d = "filter is_digit s"
  have all: "filter is_digit (drop 1 ?d) = drop 1 ?d" by (rule filter_True) (auto dest: in_set_dropD)
  have plus: "filter is_digit (''+1 '' @ s) = CHR ''1'' # ?d" by (simp add: is_digit_def)
  have ten: "normalize_phone k = k" if "length k = 10" "filter is_digit k = k" for k
    using that by (simp add: normalize_phone_def Let_def)
  have eleven: "normalize_phone (''+1 '' @ s) = ?d" if "length ?d = 10"
    using that unfolding normalize_phone_def Let_def plus by (simp add: startswith_def)
  consider (none) "normalize_phone s = []" | (same) "normalize_phone s = ?d" "length ?d = 10"
    | (cut) "normalize_phone s = drop 1 ?d" "length ?d = 11"
    unfolding normalize_phone_def Let_def by (cases "length ?d = 11 \<and> startswith ?d ''1''"; cases "length ?d = 10") simp_all
  then show ?thesis
  proof cases
    case none
    moreover have "normalize_phone ?d = []" using none by (simp add: normalize_phone_def)
    moreover have "length ?d \<noteq> 10" using none by (auto simp: normalize_phone_def Let_def)
    ultimately show ?thesis by (simp add: normalize_phone_def)
  next
    case same
    moreover have "normalize_phone ?d = ?d" using same(2) by (intro ten) simp_all
    ultimately show ?thesis using eleven by (simp add: list_all_iff)
  next
    case cut
    moreover have "normalize_phone (drop 1 ?d) = drop 1 ?d" using cut(2) by (intro ten all) simp
    moreover have "normalize_phone ?d = drop 1 ?d" using cut(1) by (simp add: normalize_phone_def)
    moreover have "list_all is_digit (drop 1 ?d)" by (auto simp: list_all_iff dest: in_set_dropD)
    ultimately show ?thesis by simp
  qed
qed

end
