(* ===== verification/LeadQualify.thy ===== *)
theory LeadQualify
  imports LeadNormalize
begin

text \<open>
  \<open>src/cloudos/leadgen/qualify.py\<close>: the level of a lead, with its reason, and the records of \<open>enrich.py\<close> it reads. The text of
  a fact in an f-string is the argument \<open>shown\<close> where it is neither a text nor a number.
\<close>

record finding =
  fd_email :: str
  fd_status :: str
  fd_url :: str
  fd_role :: str

record enrichment =
  en_ok :: bool
  en_website :: str
  en_final :: str
  en_dead :: bool
  en_parked :: bool
  en_blocked :: bool
  en_error :: str
  en_emails :: "finding list"
  en_facts :: pydict
  en_pages :: nat

definition best_email :: "enrichment \<Rightarrow> finding option" where
  "best_email n = (case en_emails n of f # _ \<Rightarrow> Some f | [] \<Rightarrow> None)"

definition ENTERPRISE_WORDS :: rx where
  "ENTERPRISE_WORDS = rx flag_I (''~b(franchis(e|ing) opportunit|investor relations|nasdaq|nyse|fortune 500|~d{3,} locations|''
     @ ''locations nationwide|find a location near you)~b'')"

definition LOCATION_PAGE :: rx where
  "LOCATION_PAGE = rx flag_I (''/(locations?|gyms?|clubs?|stores?|offices?|dentist|find-a|studios?|branch(es)?|branch-locator|stores?)''
     @ ''/[^/]+'')"

definition B2B :: rx where
  "B2B = rx flag_I (''~b(supply|supplies|supplier|wholesale|distribut~w*|industrial|manufactur~w*|spill|marine|oilfield|offshore|''
     @ ''workers.? comp~w*|staffing|logistics|freight|trucking)~b'')"

definition DEALER :: rx where
  "DEALER = rx flag_I (''~b(chevrolet|chevy|toyota|honda|nissan|hyundai|kia|dodge|chrysler|jeep|subaru|mazda|volkswagen|bmw|''
     @ ''mercedes|lexus|acura|cadillac|buick|gmc|infiniti|audi)~b'')"

definition NOT_A_BUSINESS :: rx where
  "NOT_A_BUSINESS = rx flag_I (''~b(city of|county|parish|school district|university|college|church|ministr(y|ies)|government|''
     @ ''department of|police|fire dept|hospital|medical center|ymca|foundation)~b'')"

definition CITY_PAGE :: rx where
  "CITY_PAGE = rx plain_flags ''(baton-rouge|new-orleans|houston|dallas|austin|lafayette|shreveport|[a-z]+-(la|tx|ms|al|fl|ga))~b''"

definition SITE_ORIGIN :: rx where "SITE_ORIGIN = rx plain_flags ''^https?://[^/]+''"

record lead_verdict =
  ve_level :: str
  ve_reason :: str
  ve_ready :: bool

definition rejected :: "str \<Rightarrow> lead_verdict" where "rejected why = \<lparr>ve_level = ''REJECT'', ve_reason = why, ve_ready = False\<rparr>"

definition low :: "str \<Rightarrow> lead_verdict" where "low why = \<lparr>ve_level = ''LOW'', ve_reason = why, ve_ready = False\<rparr>"

definition chain_match :: "str \<Rightarrow> str \<Rightarrow> str list \<Rightarrow> str" where
  "chain_match name website brands =
     (let norm = '' '' @ normalize_name name @ '' ''; host = filter (\<lambda>c. c \<noteq> CHR ''-'') (py_lower website);
          is = (\<lambda>c. let k = normalize_name c in k \<noteq> []
                 \<and> (substr_in ('' '' @ k @ '' '') norm \<or> substr_in (filter (\<lambda>x. x \<noteq> CHR '' '') k) host))
      in case find is brands of Some c \<Rightarrow> c | None \<Rightarrow> [])"

text \<open>What a lead is asked.\<close>

record asked =
  as_name :: str
  as_website :: str
  as_industry :: str
  as_reviews :: "int option"
  as_brand :: str

definition site_path :: "str \<Rightarrow> str" where
  "site_path website = py_lower (strip_by (\<lambda>c. c = CHR ''/'') (rx_sub SITE_ORIGIN (\<lambda>m. []) website))"

definition chain_of :: "str list \<Rightarrow> asked \<Rightarrow> str" where
  "chain_of brands a = (if as_brand a \<noteq> [] then as_brand a else chain_match (as_name a) (as_website a) brands)"

text \<open>The checks before the site was read.\<close>

definition listing_problem :: "(str \<Rightarrow> bool) \<Rightarrow> str list \<Rightarrow> asked \<Rightarrow> str option" where
  "listing_problem br brands a =
     (let name = as_name a; website = as_website a; chain = chain_of brands a; p = site_path website in
      if website = [] then Some ''no public website to verify the business or personalize from''
      else if is_directory br website then Some ''directory/aggregator listing, not the business itself''
      else if rx_found NOT_A_BUSINESS name then Some ''public body, school, church or hospital - not a lead-buying small business''
      else if chain \<noteq> [] then Some (''national chain/franchise ('' @ chain @ '') - owner-level lead offer does not fit'')
      else if rx_found DEALER name then Some ''franchised car dealership - enterprise marketing department''
      else if rx_found LOCATION_PAGE website then Some ''website is one location page of a multi-location company''
      else if rx_found B2B (name @ '' '' @ as_industry a) then Some ''industrial/B2B supplier - not a local customer-facing business''
      else if p \<noteq> [] \<and> rx_found CITY_PAGE p then Some ''website is a city page of a multi-location company''
      else case as_reviews a of
          Some n \<Rightarrow> if 3000 < n then Some (show_int n @ '' reviews - too large for the small-business offer'') else None
        | None \<Rightarrow> None)"

definition fact_text :: "(pyv \<Rightarrow> str) \<Rightarrow> pyv \<Rightarrow> str" where
  "fact_text shown v = (case v of VStr s \<Rightarrow> s | VInt n \<Rightarrow> show_int n | VBool b \<Rightarrow> if b then ''True'' else ''False'' | _ \<Rightarrow> shown v)"

definition UNCOUNTED_FACTS :: "str list" where "UNCOUNTED_FACTS = [''pages_read'', ''has_chat_or_call_tracking'', ''has_contact_form'']"

definition public_facts :: "pydict \<Rightarrow> nat" where
  "public_facts d = count_where (\<lambda>(k, v). truthy v \<and> k \<notin> set UNCOUNTED_FACTS) d"

definition angles :: "(pyv \<Rightarrow> str) \<Rightarrow> pydict \<Rightarrow> str list" where
  "angles shown d =
     (if truthy (dget d ''online_booking'') then [] else [''no online booking/quote request found''])
     @ (if truthy (dget d ''has_chat_or_call_tracking'') then [] else [''no chat or call-tracking widget found''])
     @ (if truthy (dget d ''free_estimate_offer'')
        then [''already advertises '' @ [CHR 0x27] @ fact_text shown (dget d ''free_estimate_offer'') @ [CHR 0x27] @ '' (lead-driven)''] else [])"

definition angle_text :: "(pyv \<Rightarrow> str) \<Rightarrow> pydict \<Rightarrow> str" where
  "angle_text shown d = (case angles shown d of [] \<Rightarrow> ''lead-driven local service business'' | xs \<Rightarrow> py_join ''; '' xs)"

text \<open>The checks on what the site says, in order.\<close>

definition site_verdict :: "(pyv \<Rightarrow> str) \<Rightarrow> str \<Rightarrow> enrichment \<Rightarrow> lead_verdict" where
  "site_verdict shown industry n =
     (let d = en_facts n; home = py_join '' '' (map (fact_text shown \<circ> snd) d) in
      if en_blocked n \<and> en_emails n = []
      then low (''real '' @ industry @ '' business; its site blocks automated reading and no public listing email'')
      else if en_dead n then rejected (''dead website ('' @ en_error n @ '')'')
      else if en_parked n then rejected ''parked, empty or for-sale domain''
      else if rx_found ENTERPRISE_WORDS home then rejected ''site signals a large multi-location enterprise''
      else case best_email n of
        None \<Rightarrow> low (''real '' @ industry @ '' business but no published email (''
                  @ (if truthy (dget d ''has_contact_form'') then ''has a contact form'' else ''no contact form either'') @ '')'')
      | Some f \<Rightarrow>
          (let dom = email_domain (fd_email f); why = angle_text shown d in
           if fd_status f \<noteq> ''validated''
           then low (''published email '' @ before_char (CHR ''@'') (after_char (CHR ''@'') (fd_email f)) @ '' has no mail server (MX) - would bounce'')
           else if dom \<in> set LEGACY_ISP_MAIL
           then low (''published legacy ISP mailbox ('' @ dom @ '') - MX exists but mailbox-level bounce risk is too high'')
           else if dom \<notin> set FREEMAIL_DOMAINS \<and> 2 \<le> public_facts d
           then \<lparr>ve_level = ''HIGH'', ve_reason = industry @ '' business, validated own-domain email, '' @ show_nat (public_facts d)
                   @ '' public facts; '' @ why, ve_ready = True\<rparr>
           else if dom \<in> set FREEMAIL_DOMAINS
           then \<lparr>ve_level = ''MEDIUM'', ve_reason = industry @ '' business, published freemail inbox (MX ok); '' @ why, ve_ready = True\<rparr>
           else \<lparr>ve_level = ''MEDIUM'', ve_reason = industry @ '' business, validated own-domain email, thin public facts; '' @ why, ve_ready = True\<rparr>))"

definition qualify_lead :: "(str \<Rightarrow> bool) \<Rightarrow> (pyv \<Rightarrow> str) \<Rightarrow> str list \<Rightarrow> asked \<Rightarrow> enrichment option \<Rightarrow> lead_verdict" where
  "qualify_lead br shown brands a n =
     (case listing_problem br brands a of
        Some why \<Rightarrow> rejected why
      | None \<Rightarrow> (case n of None \<Rightarrow> low ''not yet enriched'' | Some x \<Rightarrow> site_verdict shown (as_industry a) x))"

subsection \<open>What a level means\<close>

lemma listing_clean:
  "listing_problem br brands a = None \<longleftrightarrow>
     as_website a \<noteq> [] \<and> \<not> is_directory br (as_website a) \<and> \<not> rx_found NOT_A_BUSINESS (as_name a)
     \<and> as_brand a = [] \<and> chain_match (as_name a) (as_website a) brands = [] \<and> \<not> rx_found DEALER (as_name a)
     \<and> \<not> rx_found LOCATION_PAGE (as_website a) \<and> \<not> rx_found B2B (as_name a @ '' '' @ as_industry a)
     \<and> \<not> (site_path (as_website a) \<noteq> [] \<and> rx_found CITY_PAGE (site_path (as_website a)))
     \<and> (case as_reviews a of None \<Rightarrow> True | Some k \<Rightarrow> k \<le> 3000)"
  unfolding listing_problem_def chain_of_def Let_def by (auto split: option.split)

definition enterprise_site :: "(pyv \<Rightarrow> str) \<Rightarrow> enrichment \<Rightarrow> bool" where
  "enterprise_site shown x \<longleftrightarrow> rx_found ENTERPRISE_WORDS (py_join '' '' (map (fact_text shown \<circ> snd) (en_facts x)))"

lemma site_ready:
  "ve_ready (site_verdict shown industry x) \<longleftrightarrow> \<not> en_dead x \<and> \<not> en_parked x \<and> \<not> enterprise_site shown x
     \<and> (case best_email x of None \<Rightarrow> False | Some f \<Rightarrow> fd_status f = ''validated'' \<and> email_domain (fd_email f) \<notin> set LEGACY_ISP_MAIL)"
  by (cases "en_emails x") (simp_all add: site_verdict_def low_def rejected_def Let_def best_email_def enterprise_site_def)

lemma site_level:
  "ve_ready (site_verdict shown industry x) \<Longrightarrow> best_email x = Some f \<Longrightarrow> ve_level (site_verdict shown industry x)
     = (if email_domain (fd_email f) \<notin> set FREEMAIL_DOMAINS \<and> 2 \<le> public_facts (en_facts x) then ''HIGH'' else ''MEDIUM'')"
  by (simp add: site_verdict_def low_def rejected_def Let_def split: if_splits)

lemma site_not_ready: "\<not> ve_ready (site_verdict shown industry x) \<Longrightarrow> ve_level (site_verdict shown industry x) \<in> set [''LOW'', ''REJECT'']"
  by (cases "best_email x") (simp_all add: site_verdict_def low_def rejected_def Let_def split: if_splits)

lemma ready_iff:
  "ve_ready (qualify_lead br shown brands a n) \<longleftrightarrow> listing_problem br brands a = None
     \<and> (case n of None \<Rightarrow> False | Some x \<Rightarrow> ve_ready (site_verdict shown (as_industry a) x))"
  by (simp add: qualify_lead_def rejected_def low_def split: option.split)

lemma ready_level:
  "if ve_ready (qualify_lead br shown brands a n)
   then (case n of None \<Rightarrow> False | Some x \<Rightarrow> (case best_email x of None \<Rightarrow> False | Some f \<Rightarrow>
           ve_level (qualify_lead br shown brands a n)
             = (if email_domain (fd_email f) \<notin> set FREEMAIL_DOMAINS \<and> 2 \<le> public_facts (en_facts x) then ''HIGH'' else ''MEDIUM'')))
   else ve_level (qualify_lead br shown brands a n) \<in> set [''LOW'', ''REJECT'']"
proof (cases "ve_ready (qualify_lead br shown brands a n)")
  case True
  then obtain x where x: "n = Some x" "ve_ready (site_verdict shown (as_industry a) x)" and l: "listing_problem br brands a = None"
    unfolding ready_iff by (auto split: option.splits)
  obtain f where f: "best_email x = Some f" using x(2) unfolding site_ready by (auto split: option.splits)
  have v: "qualify_lead br shown brands a n = site_verdict shown (as_industry a) x" using l x(1) by (simp add: qualify_lead_def)
  show ?thesis unfolding if_P [OF True] unfolding v unfolding x(1) option.case f by (rule site_level [OF x(2) f])
next
  case False
  then have "ve_level (qualify_lead br shown brands a n) \<in> set [''LOW'', ''REJECT'']"
    using site_not_ready [of shown "as_industry a"] unfolding qualify_lead_def by (auto simp: rejected_def low_def split: option.splits)
  then show ?thesis unfolding if_not_P [OF False] .
qed

text \<open>C13. A lead is ready exactly when it passed every check. Of the listing: it has a website, which is no directory, no location page
  and no city page of a chain; the name is of no public body and no car dealer, and no chain's, and no industrial supplier's with the trade; and it has at most
  3000 reviews. Of the site: it was looked at, is neither dead nor parked, what it says is no enterprise's, and the first email is
  validated and from no legacy provider. A ready lead is HIGH when that email has its own domain and there are at least two public facts, else
  MEDIUM; one that is not ready is LOW or rejected.\<close>

theorem ready_means_checked:
  "(let v = qualify_lead br shown brands a n in
    (ve_ready v \<longleftrightarrow>
       as_website a \<noteq> [] \<and> \<not> is_directory br (as_website a) \<and> \<not> rx_found NOT_A_BUSINESS (as_name a)
       \<and> as_brand a = [] \<and> chain_match (as_name a) (as_website a) brands = [] \<and> \<not> rx_found DEALER (as_name a)
       \<and> \<not> rx_found LOCATION_PAGE (as_website a) \<and> \<not> rx_found B2B (as_name a @ '' '' @ as_industry a)
       \<and> \<not> (site_path (as_website a) \<noteq> [] \<and> rx_found CITY_PAGE (site_path (as_website a)))
       \<and> (case as_reviews a of None \<Rightarrow> True | Some k \<Rightarrow> k \<le> 3000)
       \<and> (case n of None \<Rightarrow> False | Some x \<Rightarrow> \<not> en_dead x \<and> \<not> en_parked x
             \<and> \<not> rx_found ENTERPRISE_WORDS (py_join '' '' (map (fact_text shown \<circ> snd) (en_facts x)))
             \<and> (case best_email x of None \<Rightarrow> False | Some f \<Rightarrow>
                   fd_status f = ''validated'' \<and> email_domain (fd_email f) \<notin> set LEGACY_ISP_MAIL)))
    \<and> (if ve_ready v
       then (case n of None \<Rightarrow> False | Some x \<Rightarrow> (case best_email x of None \<Rightarrow> False | Some f \<Rightarrow>
               ve_level v = (if email_domain (fd_email f) \<notin> set FREEMAIL_DOMAINS \<and> 2 \<le> public_facts (en_facts x) then ''HIGH'' else ''MEDIUM'')))
       else ve_level v \<in> set [''LOW'', ''REJECT'']))"
  unfolding Let_def
proof (rule conjI)
  show "ve_ready (qualify_lead br shown brands a n) \<longleftrightarrow>
       as_website a \<noteq> [] \<and> \<not> is_directory br (as_website a) \<and> \<not> rx_found NOT_A_BUSINESS (as_name a)
       \<and> as_brand a = [] \<and> chain_match (as_name a) (as_website a) brands = [] \<and> \<not> rx_found DEALER (as_name a)
       \<and> \<not> rx_found LOCATION_PAGE (as_website a) \<and> \<not> rx_found B2B (as_name a @ '' '' @ as_industry a)
       \<and> \<not> (site_path (as_website a) \<noteq> [] \<and> rx_found CITY_PAGE (site_path (as_website a)))
       \<and> (case as_reviews a of None \<Rightarrow> True | Some k \<Rightarrow> k \<le> 3000)
       \<and> (case n of None \<Rightarrow> False | Some x \<Rightarrow> \<not> en_dead x \<and> \<not> en_parked x
             \<and> \<not> rx_found ENTERPRISE_WORDS (py_join '' '' (map (fact_text shown \<circ> snd) (en_facts x)))
             \<and> (case best_email x of None \<Rightarrow> False | Some f \<Rightarrow>
                   fd_status f = ''validated'' \<and> email_domain (fd_email f) \<notin> set LEGACY_ISP_MAIL))"
    unfolding ready_iff listing_clean site_ready enterprise_site_def by (simp only: conj_assoc)
qed (rule ready_level)

end
