(* ===== verification/LeadEnrich.thy ===== *)
theory LeadEnrich
  imports LeadQualify Json "HOL-Library.Multiset"
begin

text \<open>
  \<open>src/cloudos/leadgen/enrich.py\<close>: the emails and facts a company's own pages publish. What lies outside is the record \<open>web\<close>: what a
  fetch of an address gives, the entities of HTML, whether a mail domain has a mail server, \<open>urljoin\<close> (\<open>None\<close> where it raises) and
  the decoding of UTF-8.
\<close>

datatype fetched = Fetch_raised str | No_page "int option" bool | Page str str

text \<open>\<open>No_page s r\<close>: the last status, and whether \<open>robots.txt\<close> forbade it. \<open>Page\<close>: the address it came from and its text.\<close>

record web =
  wb_get :: "str \<Rightarrow> fetched"
  wb_unescape :: "str \<Rightarrow> str"
  wb_mx :: "str \<Rightarrow> bool"
  wb_join :: "str \<Rightarrow> str \<Rightarrow> str option"
  wb_utf8 :: "nat list \<Rightarrow> str"
  wb_bracket :: "str \<Rightarrow> bool"
  wb_max_pages :: int

definition dq :: str where "dq = [CHR 0x22]"
definition sq :: str where "sq = [CHR 0x27]"

definition EMAIL_IN_TEXT :: rx where "EMAIL_IN_TEXT = rx flag_I ''[a-z0-9._%+~-]{1,64}@[a-z0-9.~-]{1,190}~.[a-z]{2,24}''"

definition JUNK_LOCAL :: rx where
  "JUNK_LOCAL = rx plain_flags (''^(example|test|noreply|no-reply|donotreply|do-not-reply|user|name|email|your|yourname|john|jane|abuse|''
     @ ''postmaster|webmaster|privacy|accessibility|wordpress|careers|career|jobs|job|hr|hiring|recruiting|resumes|employment|''
     @ ''billing|accounting|payments|ap|invoices)$'')"

definition JUNK_DOMAIN :: rx where
  "JUNK_DOMAIN = rx plain_flags (''(sentry|wixpress|example~.|domain~.com|email~.com|yoursite|yourdomain|godaddy|squarespace|wix~.com|''
     @ ''mysite|sentry~.io|~.png|~.jpg|~.jpeg|~.gif|~.webp|~.svg)'')"

definition CONTACT_LINK :: rx where
  "CONTACT_LINK = rx flag_I ''contact|about|our-team|staff|our-story|get-in-touch|reach-us|location''"

definition SKIP_LINK :: rx where
  "SKIP_LINK = rx flag_I ''career|job|join|employ|hiring|apply|resume|recruit|privacy|terms|login|cart''"

definition PREFERRED_LOCAL :: "str list" where
  "PREFERRED_LOCAL = [''info'', ''office'', ''contact'', ''hello'', ''sales'', ''service'', ''support'', ''admin'', ''team'', ''book'',
     ''appointments'', ''frontdesk'', ''help'']"

definition PARKED :: rx where
  "PARKED = rx flag_I (''domain (is )?for sale|buy this domain|this domain may be for sale|parked free|domain parking|hugedomains|''
     @ ''sedo~.com|dan~.com|website is under construction|account suspended|this site can.t be reached'')"

definition SINCE :: rx where
  "SINCE = rx flag_I ''~b(?:since|established|est~.?|founded(?: in)?|serving [a-z ,]+ since)~s*(19[5-9]~d|20[0-2]~d)~b''"

definition FAMILY :: rx where
  "FAMILY = rx flag_I ''family[- ]owned|locally owned|owner[- ]operated|veteran[- ]owned|woman[- ]owned|family business''"

definition EMERGENCY :: rx where "EMERGENCY = rx flag_I ''24/7|24 hours|emergency service|same[- ]day''"
definition FINANCING :: rx where "FINANCING = rx flag_I ''financing available|0% financing|financing options''"
definition FREE_EST :: rx where "FREE_EST = rx flag_I ''free (estimate|quote|inspection|consultation|trial|class)''"

definition BOOKING :: rx where
  "BOOKING = rx flag_I (''book (now|online|an appointment)|schedule (online|now|service|an appointment)|''
     @ ''request (a )?(quote|estimate|appointment)'')"

definition CHAT :: rx where
  "CHAT = rx flag_I ''livechat|tawk~.to|intercom|drift~.com|podium|birdeye|hatchapp|smith~.ai|callrail''"

subsection \<open>Emails\<close>

fun hex_bytes :: "str \<Rightarrow> nat list option" where
  "hex_bytes [] = Some []"
| "hex_bytes [c] = None"
| "hex_bytes (c # d # s) = (case (hex_val c, hex_val d, hex_bytes s) of
     (Some a, Some b, Some ns) \<Rightarrow> Some ((16 * a + b) # ns) | _ \<Rightarrow> None)"

text \<open>An address that a page hides: bytes, each under exclusive or with the first.\<close>

definition decode_cfemail :: "web \<Rightarrow> str \<Rightarrow> str" where
  "decode_cfemail w s = (case hex_bytes s of Some (k # ns) \<Rightarrow> wb_utf8 w (map (\<lambda>n. xor n k) ns) | _ \<Rightarrow> [])"

definition page_texts :: "rx \<Rightarrow> str \<Rightarrow> str list" where "page_texts p s = map rm_text (rx_finditer p s)"

definition found_groups :: "rx \<Rightarrow> str \<Rightarrow> str list" where "found_groups p s = map group1 (rx_finditer p s)"

definition erased :: "rx \<Rightarrow> str \<Rightarrow> str" where "erased p s = rx_sub p (\<lambda>m. '' '') s"

definition SCRIPTS :: rx where "SCRIPTS = rx flag_IS ''<script.*?</script>|<style.*?</style>''"
definition TAGS :: rx where "TAGS = rx plain_flags ''<[^>]+>''"

text \<open>A page's text with written-out signs put back, without scripts and tags.\<close>

definition shown_text :: "str \<Rightarrow> str" where
  "shown_text t =
     (let v1 = erased SCRIPTS t;
          v2 = rx_sub (rx flag_I ''~s*(~[at~]|~(at~))~s*'') (\<lambda>m. ''@'') v1;
          v3 = rx_sub (rx flag_I ''~s*(~[dot~]|~(dot~))~s*'') (\<lambda>m. ''.'') v2
      in erased TAGS v3)"

definition MAILTO :: rx where "MAILTO = rx flag_I (''mailto:([^'' @ dq @ sq @ ''?>~s]+)'')"
definition CFEMAIL :: rx where "CFEMAIL = rx flag_I (''data-cfemail=['' @ dq @ sq @ '']([0-9a-f]+)['' @ dq @ sq @ '']'')"
definition LD_JSON :: rx where "LD_JSON = rx flag_IS ''<script[^>]+ld~+json[^>]*>(.*?)</script>''"
definition JSON_EMAIL :: rx where "JSON_EMAIL = rx plain_flags (dq @ ''email'' @ dq @ ''~s*:~s*'' @ dq @ ''([^'' @ dq @ '']+)'' @ dq)"

definition raw_emails :: "web \<Rightarrow> str \<Rightarrow> str list" where
  "raw_emails w page =
     (let t = wb_unescape w page in
      found_groups MAILTO t @ map (decode_cfemail w) (found_groups CFEMAIL t)
      @ concat (map (found_groups JSON_EMAIL) (found_groups LD_JSON t)) @ page_texts EMAIL_IN_TEXT (shown_text t))"

definition junk_email :: "str \<Rightarrow> bool" where
  "junk_email email \<longleftrightarrow> (let local = before_char (CHR ''@'') email in
     rx_match JUNK_LOCAL local \<noteq> None \<or> rx_found JUNK_DOMAIN (after_char (CHR ''@'') email) \<or> rx_found (rx plain_flags ''~d{5,}'') local)"

definition extract_emails :: "web \<Rightarrow> str \<Rightarrow> str list" where
  "extract_emails w page = fold (\<lambda>r out. let email = normalize_email r in
     if email = [] \<or> email \<in> set out \<or> junk_email email then out else out @ [email]) (raw_emails w page) []"

definition own_domain :: "str \<Rightarrow> str \<Rightarrow> bool" where
  "own_domain own reg \<longleftrightarrow> own \<noteq> [] \<and> (reg = own \<or> filter (\<lambda>c. c \<noteq> CHR ''-'') reg = filter (\<lambda>c. c \<noteq> CHR ''-'') own
     \<or> before_char (CHR ''.'') reg = before_char (CHR ''.'') own)"

fun place_of :: "'a list \<Rightarrow> 'a \<Rightarrow> nat" where
  "place_of [] x = 0"
| "place_of (y # ys) x = (if y = x then 0 else Suc (place_of ys x))"

definition PERSON :: rx where "PERSON = rx plain_flags ''^[a-z]+(~.[a-z]+)?$''"

definition email_rank :: "str \<Rightarrow> str \<Rightarrow> (nat \<times> str \<times> str) option" where
  "email_rank own email =
     (let d = email_domain email; local = before_char (CHR ''@'') email; is_own = own_domain own (registrable_domain d);
          (score, role) = (if local \<in> set PREFERRED_LOCAL then (place_of PREFERRED_LOCAL local, ''generic'')
                           else if rx_match PERSON local \<noteq> None \<and> is_own then (30, ''person'') else (40, ''generic''))
      in if \<not> is_own \<and> d \<notin> set FREEMAIL_DOMAINS then None
         else Some (if is_own then score else score + 50, email, role))"

definition rank_emails :: "str list \<Rightarrow> str \<Rightarrow> (str \<times> str) list" where
  "rank_emails emails site = map snd (order_by id (List.map_filter (email_rank (registrable_domain site)) emails))"

subsection \<open>Facts\<close>

definition ALL_SCRIPTS :: rx where "ALL_SCRIPTS = rx flag_IS ''<script.*?</script>|<style.*?</style>|<noscript.*?</noscript>''"

definition squeeze :: "str \<Rightarrow> str" where "squeeze s = py_strip (rx_sub (rx plain_flags ''~s+'') (\<lambda>m. '' '') s)"

definition visible_text :: "web \<Rightarrow> str \<Rightarrow> str" where
  "visible_text w page = squeeze (wb_unescape w (erased TAGS (erased ALL_SCRIPTS page)))"

definition TITLE :: rx where "TITLE = rx flag_IS ''<title[^>]*>(.*?)</title>''"

definition DESCRIPTION :: rx where
  "DESCRIPTION = rx flag_I (''<meta[^>]+name=['' @ dq @ sq @ '']description['' @ dq @ sq @ ''][^>]+content=['' @ dq @ sq @ '']([^'' @ dq @ sq @ '']+)'')"

definition FORM :: rx where "FORM = rx flag_IS ''<form[^>]*>.*?(email|phone|message)''"

definition signal_fact :: "str \<Rightarrow> rx \<Rightarrow> str \<Rightarrow> pydict" where
  "signal_fact k p t = (case rx_search p t of Some m \<Rightarrow> [(k, VStr (py_lower (rm_text m)))] | None \<Rightarrow> [])"

definition page_facts :: "web \<Rightarrow> str \<Rightarrow> str \<Rightarrow> pydict" where
  "page_facts w page t =
     (case rx_search TITLE page of Some m \<Rightarrow> [(''site_title'', VStr (take 140 (squeeze (wb_unescape w (group1 m)))))] | None \<Rightarrow> [])
     @ (case rx_search DESCRIPTION page of Some m \<Rightarrow> [(''site_description'', VStr (take 220 (py_strip (wb_unescape w (group1 m)))))] | None \<Rightarrow> [])
     @ (case rx_search SINCE t of Some m \<Rightarrow> [(''since_year'', VInt (digits_val (group1 m)))] | None \<Rightarrow> [])
     @ signal_fact ''ownership'' FAMILY t @ signal_fact ''emergency_service'' EMERGENCY t @ signal_fact ''financing'' FINANCING t
     @ signal_fact ''free_estimate_offer'' FREE_EST t @ signal_fact ''online_booking'' BOOKING t
     @ [(''has_chat_or_call_tracking'', VBool (rx_found CHAT page)), (''has_contact_form'', VBool (rx_found FORM page))]"

subsection \<open>One website\<close>

definition mail_status :: "web \<Rightarrow> str \<Rightarrow> str" where
  "mail_status w email = (let d = email_domain email in if d \<noteq> [] \<and> wb_mx w d then ''validated'' else ''invalid'')"

definition new_enrichment :: "str \<Rightarrow> enrichment" where
  "new_enrichment website = \<lparr>en_ok = False, en_website = website, en_final = [], en_dead = False, en_parked = False, en_blocked = False,
     en_error = [], en_emails = [], en_facts = [], en_pages = 0\<rparr>"

text \<open>The addresses of the listing, checked, in order.\<close>

definition listed_emails :: "(str \<times> str) list \<Rightarrow> (str \<times> str) list" where
  "listed_emails extra = filter (\<lambda>(email, src). email \<noteq> []) (map (\<lambda>(email, src). (normalize_email email, src)) extra)"

definition refuses_reading :: "int option \<Rightarrow> bool \<Rightarrow> bool" where
  "refuses_reading st robots \<longleftrightarrow> robots \<or> st \<in> {Some 401, Some 403, Some 429, Some 503}"

definition status_text :: "web \<Rightarrow> int option \<Rightarrow> bool \<Rightarrow> str" where
  "status_text w st robots = (if robots then ''robots'' else case st of Some n \<Rightarrow> show_int n | None \<Rightarrow> ''None'')"

definition blocked_site :: "web \<Rightarrow> str \<Rightarrow> str \<Rightarrow> (str \<times> str) list \<Rightarrow> enrichment" where
  "blocked_site w website st extra =
     (let fs = map (\<lambda>(email, src). \<lparr>fd_email = email, fd_status = mail_status w email, fd_url = src, fd_role = ''generic''\<rparr>) (listed_emails extra)
      in (new_enrichment website)\<lparr>en_blocked := True, en_error := ''site refuses automated reading ('' @ st @ '')'', en_emails := fs, en_ok := (fs \<noteq> [])\<rparr>)"

text \<open>The host of an address, as \<open>urlparse(u).hostname or ""\<close>; \<open>None\<close> where it raises.\<close>

definition url_host :: "web \<Rightarrow> str \<Rightarrow> str option" where
  "url_host w u = map_option (\<lambda>(n, p). url_hostname n) (url_parts (wb_bracket w) u)"

text \<open>The links worth reading; \<open>None\<close> where splitting an address raises.\<close>

fun contact_links :: "web \<Rightarrow> str \<Rightarrow> str \<Rightarrow> str list \<Rightarrow> str list \<Rightarrow> str list option" where
  "contact_links w base reg [] links = Some links"
| "contact_links w base reg (h # hs) links =
     (case wb_join w base h of None \<Rightarrow> None
      | Some u \<Rightarrow> (case url_host w u of None \<Rightarrow> None
        | Some host \<Rightarrow>
            contact_links w base reg hs (if registrable_domain host = reg \<and> rx_found CONTACT_LINK u \<and> \<not> rx_found SKIP_LINK u \<and> u \<notin> set links
                                         then links @ [u] else links)))"

definition HREF :: rx where "HREF = rx flag_I (''href=['' @ dq @ sq @ '']([^'' @ dq @ sq @ ''#]+)'')"

definition link_order :: "str \<Rightarrow> nat \<times> nat" where
  "link_order u = (if substr_in ''contact'' (py_lower u) then 0 else 1, length u)"

definition more_pages :: "web \<Rightarrow> str \<Rightarrow> str \<Rightarrow> (str \<times> str) list option" where
  "more_pages w final page =
     (if is_shared_host (wb_bracket w) final then Some []
      else case url_host w final of None \<Rightarrow> None
      | Some base \<Rightarrow> map_option (\<lambda>links. List.map_filter (\<lambda>u. case wb_get w u of Page a t \<Rightarrow> Some (a, t) | _ \<Rightarrow> None)
            (take (nat (wb_max_pages w - 1)) (order_by link_order links)))
          (contact_links w final (registrable_domain base) (found_groups HREF page) []))"

text \<open>Every address with the page that showed it first.\<close>

definition note_email :: "str \<times> str \<Rightarrow> (str \<times> str) list \<Rightarrow> (str \<times> str) list" where
  "note_email es seen = (if map_of seen (fst es) = None then seen @ [es] else seen)"

definition seen_emails :: "web \<Rightarrow> (str \<times> str) list \<Rightarrow> (str \<times> str) list \<Rightarrow> (str \<times> str) list" where
  "seen_emails w pages extra =
     fold note_email (concat (map (\<lambda>(u, t). map (\<lambda>m. (m, u)) (extract_emails w t)) pages) @ listed_emails extra) []"

definition finding_of :: "web \<Rightarrow> (str \<times> str) list \<Rightarrow> str \<times> str \<Rightarrow> finding" where
  "finding_of w seen er = \<lparr>fd_email = fst er, fd_status = mail_status w (fst er),
     fd_url = (case map_of seen (fst er) of Some u \<Rightarrow> u | None \<Rightarrow> []), fd_role = snd er\<rparr>"

definition validated :: "finding \<Rightarrow> bool" where "validated f \<longleftrightarrow> fd_status f = ''validated''"

definition findings :: "web \<Rightarrow> (str \<times> str) list \<Rightarrow> str \<Rightarrow> finding list" where
  "findings w seen site = order_by (\<lambda>f. if validated f then 0 else (1 :: nat)) (map (finding_of w seen) (rank_emails (map fst seen) site))"

definition read_site :: "web \<Rightarrow> str \<Rightarrow> (str \<times> str) list \<Rightarrow> str \<Rightarrow> str \<Rightarrow> enrichment option" where
  "read_site w website extra final page =
     (let n = (new_enrichment website)\<lparr>en_final := final\<rparr>; t = visible_text w page in
      if rx_found PARKED (take 4000 t) \<or> length t < 80 then Some (n\<lparr>en_parked := True, en_error := ''parked or empty site''\<rparr>)
      else case more_pages w final page of None \<Rightarrow> None
      | Some others \<Rightarrow> (case url_host w final of None \<Rightarrow> None
        | Some site \<Rightarrow>
            (let pages = (final, page) # others
             in Some (n\<lparr>en_pages := length pages, en_emails := findings w (seen_emails w pages extra) site,
                  en_facts := page_facts w page (py_join '' '' (map (visible_text w \<circ> snd) pages)) @ [(''pages_read'', VInt (int (length pages)))],
                  en_ok := True\<rparr>))))"

text \<open>\<open>None\<close>: an exception of splitting an address goes through.\<close>

definition enrich_website :: "web \<Rightarrow> str \<Rightarrow> (str \<times> str) list \<Rightarrow> enrichment option" where
  "enrich_website w website extra =
     (case wb_get w (with_scheme website) of
        Fetch_raised ty \<Rightarrow> Some ((new_enrichment website)\<lparr>en_dead := True, en_error := ''unreachable: '' @ ty\<rparr>)
      | No_page st robots \<Rightarrow>
          if refuses_reading st robots then Some (blocked_site w website (status_text w st robots) extra)
          else Some ((new_enrichment website)\<lparr>en_dead := True, en_error := ''homepage not readable (status '' @ status_text w st robots @ '')''\<rparr>)
      | Page final page \<Rightarrow> read_site w website extra final page)"

subsection \<open>What is found\<close>

lemma set_map_filter: "set (List.map_filter f xs) = {y. \<exists>x\<in>set xs. f x = Some y}"
  by (induction xs) (auto simp: List.map_filter_simps split: option.split)

lemma email_rank_own:
  "email_rank own e = Some (n, e', r) \<Longrightarrow> e' = e \<and> (own_domain own (registrable_domain (email_domain e)) \<or> email_domain e \<in> set FREEMAIL_DOMAINS)"
  unfolding email_rank_def Let_def by (auto split: if_splits prod.splits)

lemma set_rank_emails:
  "(e, r) \<in> set (rank_emails emails site) \<Longrightarrow> e \<in> set emails
     \<and> (own_domain (registrable_domain site) (registrable_domain (email_domain e)) \<or> email_domain e \<in> set FREEMAIL_DOMAINS)"
  unfolding rank_emails_def by (auto simp: order_by_def set_map_filter dest!: email_rank_own)

lemma distinct_map_filter_key:
  assumes "distinct xs" and "\<And>x y. f x = Some y \<Longrightarrow> g y = x"
  shows "distinct (map g (List.map_filter f xs))"
  using assms(1)
proof (induction xs)
  case (Cons a xs)
  then show ?case using assms(2) by (auto simp: List.map_filter_simps set_map_filter split: option.split)
qed (simp add: List.map_filter_simps)

lemma distinct_rank_emails: "distinct emails \<Longrightarrow> distinct (map fst (rank_emails emails site))"
proof -
  assume d: "distinct emails"
  let ?xs = "List.map_filter (email_rank (registrable_domain site)) emails"
  have "distinct (map (fst \<circ> snd) ?xs)" by (rule distinct_map_filter_key [OF d]) (auto dest: email_rank_own)
  moreover have "mset (map (fst \<circ> snd) (order_by id ?xs)) = mset (map (fst \<circ> snd) ?xs)" by (simp add: order_by_def)
  ultimately have "distinct (map (fst \<circ> snd) (order_by id ?xs))" by (metis mset_eq_imp_distinct_iff)
  then show ?thesis by (simp add: rank_emails_def comp_def)
qed

lemma distinct_seen: "distinct (map fst acc) \<Longrightarrow> distinct (map fst (fold note_email xs acc))"
  by (induction xs arbitrary: acc) (auto simp: note_email_def map_of_eq_None_iff)

lemma distinct_seen_emails: "distinct (map fst (seen_emails w pages extra))"
  by (simp add: seen_emails_def distinct_seen)

lemma mset_map_sort: "mset (map f (sort_key k xs)) = mset (map f xs)"
  by simp

lemma sorted_first: "sorted (a # l) \<Longrightarrow> z \<in> set (a # l) \<Longrightarrow> a \<le> z"
  by auto

lemma sorted_head: "(\<exists>x\<in>set xs. p x) \<Longrightarrow> p (hd (sort_key (\<lambda>x. if p x then 0 else (1 :: nat)) xs))"
proof -
  let ?k = "\<lambda>x. if p x then 0 else (1 :: nat)"
  assume "\<exists>x\<in>set xs. p x"
  then obtain x where x: "x \<in> set (sort_key ?k xs)" "p x" by auto
  then obtain y ys where ys: "sort_key ?k xs = y # ys" by (cases "sort_key ?k xs") auto
  have "sorted (?k y # map ?k ys)" using sorted_sort_key [of ?k xs] unfolding ys list.map .
  moreover have "?k x \<in> set (?k y # map ?k ys)" using imageI [of x "set (y # ys)" ?k] x(1) unfolding ys by (simp only: list.set set_map image_insert)
  ultimately have "?k y \<le> ?k x" by (rule sorted_first)
  then show ?thesis using x(2) ys by (simp split: if_splits)
qed

lemma distinct_by_mset: "mset xs = mset ys \<Longrightarrow> distinct ys \<Longrightarrow> distinct xs"
  using mset_eq_imp_distinct_iff by blast

lemma in_findings:
  "f \<in> set (findings w seen site) \<Longrightarrow> fd_status f = mail_status w (fd_email f) \<and> fd_email f \<in> set (map fst seen)
     \<and> (own_domain (registrable_domain site) (registrable_domain (email_domain (fd_email f))) \<or> email_domain (fd_email f) \<in> set FREEMAIL_DOMAINS)"
proof -
  assume "f \<in> set (findings w seen site)"
  then obtain e r where er: "(e, r) \<in> set (rank_emails (map fst seen) site)" and f: "f = finding_of w seen (e, r)"
    unfolding findings_def order_by_def set_sort by auto
  have "fd_email f = e" "fd_status f = mail_status w e" unfolding f finding_of_def by simp_all
  then show ?thesis using set_rank_emails [OF er] by (simp only: simp_thms)
qed

lemma distinct_findings: "distinct (map fst seen) \<Longrightarrow> distinct (map fd_email (findings w seen site))"
proof (rule distinct_by_mset)
  show "mset (map fd_email (findings w seen site)) = mset (map fd_email (map (finding_of w seen) (rank_emails (map fst seen) site)))"
    unfolding findings_def order_by_def by (rule mset_map_sort)
  have "map fd_email (map (finding_of w seen) (rank_emails (map fst seen) site)) = map fst (rank_emails (map fst seen) site)"
    by (simp add: finding_of_def)
  moreover assume "distinct (map fst seen)"
  ultimately show "distinct (map fd_email (map (finding_of w seen) (rank_emails (map fst seen) site)))"
    using distinct_rank_emails [of "map fst seen" site] by (simp only:)
qed

lemma first_validated: "findings w seen site = f # fs \<Longrightarrow> g \<in> set (f # fs) \<Longrightarrow> validated g \<Longrightarrow> validated f"
  using sorted_head [of "map (finding_of w seen) (rank_emails (map fst seen) site)" validated]
  unfolding findings_def order_by_def by (metis list.sel(1) set_sort)

text \<open>What it means that a page shows an address, apart from the way the code collects them: as a \<open>mailto\<close> link, hidden by Cloudflare,
  in a block of structured data, or in the text.\<close>

definition shows_email :: "web \<Rightarrow> str \<Rightarrow> str \<Rightarrow> bool" where
  "shows_email w page email \<longleftrightarrow> (let t = wb_unescape w page in
     email \<in> normalize_email ` (set (found_groups MAILTO t) \<union> decode_cfemail w ` set (found_groups CFEMAIL t)
       \<union> (\<Union>j\<in>set (found_groups LD_JSON t). set (found_groups JSON_EMAIL j)) \<union> set (page_texts EMAIL_IN_TEXT (shown_text t))))"

lemma collected: "set (fold (\<lambda>r out. let email = normalize_email r in
     if email = [] \<or> email \<in> set out \<or> junk_email email then out else out @ [email]) rs acc) \<subseteq> set acc \<union> normalize_email ` set rs"
proof (induction rs arbitrary: acc)
  case (Cons r rs)
  then show ?case by (fastforce simp: Let_def split: if_splits)
qed simp

lemma extracted_shown: "email \<in> set (extract_emails w page) \<Longrightarrow> shows_email w page email"
proof -
  assume "email \<in> set (extract_emails w page)"
  then have "email \<in> set [] \<union> normalize_email ` set (raw_emails w page)" unfolding extract_emails_def by (rule subsetD [OF collected])
  then have "email \<in> normalize_email ` set (raw_emails w page)" by simp
  then show ?thesis unfolding shows_email_def raw_emails_def Let_def set_append set_map set_concat by (simp only: Un_assoc UN_simps image_image set_map)
qed

lemma noted: "set (fold note_email xs acc) \<subseteq> set acc \<union> set xs"
proof (induction xs arbitrary: acc)
  case (Cons x xs)
  have "set (note_email x acc) \<subseteq> set acc \<union> {x}" by (auto simp: note_email_def)
  then show ?case using Cons [of "note_email x acc"] by auto
qed simp

text \<open>Where the pages come from: the homepage, and pages of the same registrable domain.\<close>

lemma contact_links_own:
  "contact_links w base reg hs links = Some us \<Longrightarrow> u \<in> set us \<Longrightarrow> u \<in> set links \<or> (\<exists>h. url_host w u = Some h \<and> registrable_domain h = reg)"
proof (induction hs arbitrary: links)
  case (Cons h hs)
  obtain x host where x: "wb_join w base h = Some x" "url_host w x = Some host" using Cons.prems(1) by (auto split: option.splits)
  let ?links = "if registrable_domain host = reg \<and> rx_found CONTACT_LINK x \<and> \<not> rx_found SKIP_LINK x \<and> x \<notin> set links then links @ [x] else links"
  have "contact_links w base reg hs ?links = Some us" using Cons.prems(1) x by simp
  then have "u \<in> set ?links \<or> (\<exists>h. url_host w u = Some h \<and> registrable_domain h = reg)" using Cons.IH Cons.prems(2) by blast
  then show ?case using x(2) by (auto split: if_splits)
qed simp

lemma more_pages_own:
  assumes "more_pages w final page = Some others" and "(a, t) \<in> set others"
  shows "\<exists>u h base. wb_get w u = Page a t \<and> url_host w u = Some h \<and> url_host w final = Some base \<and> registrable_domain h = registrable_domain base"
proof -
  obtain base links where b: "url_host w final = Some base" and l: "contact_links w final (registrable_domain base) (found_groups HREF page) [] = Some links"
    and o: "others = List.map_filter (\<lambda>u. case wb_get w u of Page a t \<Rightarrow> Some (a, t) | _ \<Rightarrow> None) (take (nat (wb_max_pages w - 1)) (order_by link_order links))"
    using assms unfolding more_pages_def by (auto split: if_splits option.splits)
  obtain u where u: "u \<in> set (take (nat (wb_max_pages w - 1)) (order_by link_order links))"
      "(case wb_get w u of Page a t \<Rightarrow> Some (a, t) | _ \<Rightarrow> None) = Some (a, t)"
    using assms(2) unfolding o set_map_filter by blast
  then have p: "wb_get w u = Page a t" by (cases "wb_get w u") simp_all
  have "u \<in> set links" using in_set_takeD [OF u(1)] by (simp add: order_by_def)
  then obtain h where "url_host w u = Some h" "registrable_domain h = registrable_domain base" using contact_links_own [OF l, of u] by auto
  then show ?thesis using p b by blast
qed

text \<open>Where an address of a site that could be read was published: on the page its finding names, or in the listing.\<close>

definition published :: "web \<Rightarrow> str \<Rightarrow> (str \<times> str) list \<Rightarrow> str \<Rightarrow> str \<times> str \<Rightarrow> bool" where
  "published w website extra reg e \<longleftrightarrow> e \<in> set (listed_emails extra)
     \<or> (\<exists>u t. wb_get w u = Page (snd e) t \<and> shows_email w t (fst e)
           \<and> (u = with_scheme website \<or> (\<exists>h. url_host w u = Some h \<and> registrable_domain h = reg)))"

lemma seen_published:
  assumes "wb_get w (with_scheme website) = Page final page" and "more_pages w final page = Some others" and "url_host w final = Some base"
    and "e \<in> set (seen_emails w ((final, page) # others) extra)"
  shows "published w website extra (registrable_domain base) e"
proof -
  have "e \<in> set [] \<union> set (concat (map (\<lambda>(u, t). map (\<lambda>m. (m, u)) (extract_emails w t)) ((final, page) # others)) @ listed_emails extra)"
    using assms(4) unfolding seen_emails_def by (rule subsetD [OF noted])
  then have "e \<in> set (listed_emails extra) \<or> (\<exists>p\<in>set ((final, page) # others). e \<in> (\<lambda>m. (m, fst p)) ` set (extract_emails w (snd p)))"
    unfolding set_append set_concat set_map case_prod_beta UN_iff image_image Un_iff bex_simps set_map by (simp, blast)
  then have "e \<in> set (listed_emails extra) \<or> (\<exists>a t. (a, t) \<in> set ((final, page) # others) \<and> snd e = a \<and> fst e \<in> set (extract_emails w t))"
    by (metis (no_types, lifting) image_iff prod.collapse fst_conv snd_conv)
  then show ?thesis
  proof (elim disjE exE conjE)
    fix a t assume p: "(a, t) \<in> set ((final, page) # others)" "snd e = a" "fst e \<in> set (extract_emails w t)"
    have s: "shows_email w t (fst e)" by (rule extracted_shown [OF p(3)])
    consider "a = final" "t = page" | "(a, t) \<in> set others" using p(1) by auto
    then show ?thesis
    proof cases
      case 1
      then show ?thesis using assms(1) s p(2) unfolding published_def by auto
    next
      case 2
      then show ?thesis using more_pages_own [OF assms(2) 2] assms(3) s p(2) unfolding published_def by fastforce
    qed
  qed (simp add: published_def)
qed

lemma in_findings_seen: "f \<in> set (findings w seen site) \<Longrightarrow> (fd_email f, fd_url f) \<in> set seen"
proof -
  assume "f \<in> set (findings w seen site)"
  then obtain e r where er: "(e, r) \<in> set (rank_emails (map fst seen) site)" and f: "f = finding_of w seen (e, r)"
    unfolding findings_def order_by_def set_sort by auto
  then have "e \<in> fst ` set seen" using set_rank_emails [OF er] by simp
  then obtain u where "map_of seen e = Some u" by (cases "map_of seen e") (auto simp: map_of_eq_None_iff)
  then show ?thesis unfolding f finding_of_def by (simp add: map_of_SomeD)
qed

text \<open>How the emails of an answer came about.\<close>

lemma enriched_cases:
  assumes "enrich_website w website extra = Some n"
  obtains (empty) "en_emails n = []" "\<not> en_blocked n"
    | (blocked) st where "n = blocked_site w website st extra"
    | (good) seen site where "en_emails n = findings w seen site" "distinct (map fst seen)" "\<not> en_blocked n" "url_host w (en_final n) = Some site"
        "\<And>e. e \<in> set seen \<Longrightarrow> published w website extra (registrable_domain site) e"
  using assms unfolding enrich_website_def read_site_def Let_def
  by (auto simp: new_enrichment_def distinct_seen_emails seen_published split: fetched.splits option.splits if_splits)

lemma enriched_status:
  assumes "enrich_website w website extra = Some n" and "f \<in> set (en_emails n)"
  shows "fd_status f = mail_status w (fd_email f)"
  using assms(1)
proof (cases rule: enriched_cases)
  case blocked
  then show ?thesis using assms(2) by (auto simp: blocked_site_def Let_def)
qed (use assms(2) in_findings in auto)

text \<open>C14. No address is guessed and no address of somebody else is taken. On a site that could be read every email was published: it stands - as a
  \<open>mailto\<close> link, hidden by Cloudflare, in structured data or in the text - on the page its finding names, which is the homepage or a page of the
  same registrable domain, or it was in the listing; it has the site's own domain or that of a mail provider, no email occurs twice, and the first is validated if any is. Of a
  site that refuses reading only emails of the listing count. The status of an email is what the mail server of its domain says.\<close>

theorem emails_published:
  "(case enrich_website w website extra of None \<Rightarrow> True | Some n \<Rightarrow>
      list_all (\<lambda>f. fd_status f = mail_status w (fd_email f)) (en_emails n)
      \<and> (let reg = registrable_domain (url_hostname (fst (the (url_parts (wb_bracket w) (en_final n))))) in
         if en_blocked n then set (map fd_email (en_emails n)) \<subseteq> set (map fst (listed_emails extra))
         else distinct (map fd_email (en_emails n))
           \<and> list_all (\<lambda>f. email_domain (fd_email f) \<in> set FREEMAIL_DOMAINS \<or> own_domain reg (registrable_domain (email_domain (fd_email f)))) (en_emails n)
           \<and> list_all (\<lambda>f. (fd_email f, fd_url f) \<in> set (listed_emails extra)
               \<or> (\<exists>u t. wb_get w u = Page (fd_url f) t \<and> shows_email w t (fd_email f)
                     \<and> (u = with_scheme website \<or> (\<exists>h. url_host w u = Some h \<and> registrable_domain h = reg)))) (en_emails n)
           \<and> (case best_email n of None \<Rightarrow> en_emails n = [] | Some f \<Rightarrow> validated f \<or> list_all (\<lambda>g. \<not> validated g) (en_emails n))))"
proof (cases "enrich_website w website extra")
  case (Some n)
  show ?thesis using Some
  proof (cases rule: enriched_cases)
    case empty
    then show ?thesis using Some by (simp add: best_email_def)
  next
    case blocked
    have fs: "en_blocked n" "en_emails n = map (\<lambda>(email, src). \<lparr>fd_email = email, fd_status = mail_status w email, fd_url = src, fd_role = ''generic''\<rparr>) (listed_emails extra)"
      unfolding blocked by (simp_all add: blocked_site_def Let_def)
    show ?thesis unfolding Some option.case fs(2) Let_def using fs(1) by (auto simp: list_all_iff intro: rev_image_eqI)
  next
    case (good seen site)
    have site: "url_hostname (fst (the (url_parts (wb_bracket w) (en_final n)))) = site" using good(4) by (auto simp: url_host_def)
    have best: "(case best_email n of None \<Rightarrow> en_emails n = [] | Some f \<Rightarrow> validated f \<or> list_all (\<lambda>g. \<not> validated g) (en_emails n))"
    proof (cases "en_emails n")
      case (Cons f fs)
      then show ?thesis using first_validated [of w seen site f fs] good(1) by (auto simp: best_email_def list_all_iff)
    qed (simp add: best_email_def)
    have "list_all (\<lambda>f. fd_status f = mail_status w (fd_email f)) (en_emails n)"
      "list_all (\<lambda>f. email_domain (fd_email f) \<in> set FREEMAIL_DOMAINS \<or> own_domain (registrable_domain site) (registrable_domain (email_domain (fd_email f)))) (en_emails n)"
      using in_findings [of _ w seen site] unfolding list_all_iff good(1) by blast+
    moreover have "list_all (\<lambda>f. published w website extra (registrable_domain site) (fd_email f, fd_url f)) (en_emails n)"
      using good(5) in_findings_seen unfolding list_all_iff good(1) by blast
    ultimately show ?thesis
      using best distinct_findings [OF good(2), of w site] good(1,3) unfolding Some option.case Let_def site published_def by simp
  qed
qed simp

end
