(* ===== verification/LeadStore.thy ===== *)
theory LeadStore
  imports LeadEnrich ConvStore
begin

text \<open>
  \<open>src/cloudos/leadgen/store.py\<close> on the tables of migration 006: companies with the keys of the lead engine, contacts, the log of
  discoveries, the history of sends, the queries run and the health of the sources. A statement that breaks a constraint raises, by the name of
  the exception. \<open>br\<close> is the argument of \<open>LeadNormalize\<close>.
\<close>

record lead = company +
  ld_norm_name :: str
  ld_phone :: "str option"
  ld_norm_phone :: "str option"
  ld_handed_off :: "time option"
  ld_is_historical :: bool
  ld_enriched :: "time option"

record lead_contact = contact +
  lc_source :: str
  lc_url :: "str option"

record discovery =
  dy_source :: str
  dy_query :: str
  dy_company :: "str option"
  dy_outcome :: str
  dy_detail :: "str option"

record query_row =
  qy_source :: str
  qy_query :: str
  qy_industry :: "str option"
  qy_location :: "str option"
  qy_runs :: int
  qy_last_run :: "time option"
  qy_last_results :: int
  qy_last_new :: int
  qy_total_results :: int
  qy_total_new :: int
  qy_error :: "str option"

record health =
  he_source :: str
  he_row :: int
  he_failures :: int
  he_successes :: int
  he_success_at :: "time option"
  he_failure_at :: "time option"
  he_error :: "str option"
  he_until :: "time option"

record leads =
  ls_companies :: "lead list"
  ls_contacts :: "lead_contact list"
  ls_log :: "discovery list"
  ls_history :: "history_row list"
  ls_queries :: "query_row list"
  ls_health :: "health list"

definition CONTACTED_STATUSES :: "str list" where
  "CONTACTED_STATUSES = [''contacted'', ''replied'', ''bounced'', ''unsubscribed'', ''do_not_contact'']"

definition OUTREACH_STATUSES :: "str list" where
  "OUTREACH_STATUSES = [''new'', ''outreach_ready'', ''handed_off'', ''contacted'', ''replied'', ''bounced'', ''unsubscribed'',
     ''do_not_contact'', ''not_ready'', ''rejected'']"

definition QUALIFICATIONS :: "str list" where "QUALIFICATIONS = [''HIGH'', ''MEDIUM'', ''LOW'', ''REJECT'', ''PENDING'']"

definition EMAIL_STATUSES :: "str list" where
  "EMAIL_STATUSES = [''published'', ''validated'', ''probable'', ''invalid'', ''unknown'']"

subsection \<open>Candidates\<close>

record lead_cand =
  cd_name :: str
  cd_website :: str
  cd_industry :: str
  cd_city :: str
  cd_region :: str
  cd_phone :: str
  cd_source :: str
  cd_query :: str
  cd_emails :: "str list"
  cd_reviews :: "int option"
  cd_rating :: pyv
  cd_brand :: str
  cd_extra :: pydict
  cd_historical :: "str list"

definition cand_domain :: "(str \<Rightarrow> bool) \<Rightarrow> lead_cand \<Rightarrow> str" where "cand_domain br c = normalize_domain br (cd_website c)"

definition cand_name :: "lead_cand \<Rightarrow> str" where "cand_name c = normalize_name (cd_name c)"

record lead_match =
  lm_company :: str
  lm_key :: str
  lm_status :: str

text \<open>An empty text as \<open>None\<close>, and \<open>coalesce(t, '')\<close>.\<close>

definition or_none :: "str \<Rightarrow> str option" where "or_none s = (if s = [] then None else Some s)"

definition or_empty :: "str option \<Rightarrow> str" where "or_empty s = (case s of Some t \<Rightarrow> t | None \<Rightarrow> [])"

definition email_owner :: "leads \<Rightarrow> str \<Rightarrow> lead option" where
  "email_owner d email = (case find (\<lambda>k. py_lower (ct_email k) = email \<and> list_ex (\<lambda>r. co_id r = ct_company k) (ls_companies d)) (ls_contacts d) of
     Some k \<Rightarrow> find (\<lambda>r. co_id r = ct_company k) (ls_companies d) | None \<Rightarrow> None)"

definition same_place :: "lead_cand \<Rightarrow> lead \<Rightarrow> bool" where
  "same_place c r \<longleftrightarrow> ld_norm_name r = cand_name c \<and> py_lower (or_empty (co_city r)) = py_lower (cd_city c)
     \<and> py_lower (or_empty (co_region r)) = py_lower (normalize_state (cd_region c))"

text \<open>The checks, each with its key, strongest first.\<close>

definition match_checks :: "(str \<Rightarrow> bool) \<Rightarrow> leads \<Rightarrow> lead_cand \<Rightarrow> str list \<Rightarrow> (str \<times> lead option) list" where
  "match_checks br d c emails =
     (let dom = cand_domain br c; phone = normalize_phone (cd_phone c); rows = ls_companies d in
      (if dom = [] then [] else [(''domain'', find (\<lambda>r. co_norm_domain r = Some dom) rows)])
      @ (if cand_name c = [] \<or> cd_city c = [] then [] else [(''name+location'', find (same_place c) rows)])
      @ (if cd_historical c = [] then [] else [(''historical_id'', find (\<lambda>r. list_ex (\<lambda>h. h \<in> set (co_historical r)) (cd_historical c)) rows)])
      @ (if phone = [] then [] else [(''phone'', find (\<lambda>r. ld_norm_phone r = Some phone) rows)])
      @ map (\<lambda>x. (''email'', email_owner d x)) (filter (\<lambda>x. x \<noteq> []) (map normalize_email emails)))"

fun first_match :: "(str \<times> lead option) list \<Rightarrow> lead_match option" where
  "first_match [] = None"
| "first_match ((k, r) # cs) = (case r of Some x \<Rightarrow> Some \<lparr>lm_company = co_id x, lm_key = k, lm_status = co_outreach x\<rparr> | None \<Rightarrow> first_match cs)"

definition find_existing :: "(str \<Rightarrow> bool) \<Rightarrow> leads \<Rightarrow> lead_cand \<Rightarrow> str list \<Rightarrow> lead_match option" where
  "find_existing br d c emails = first_match (match_checks br d c emails)"

subsection \<open>Writing\<close>

definition map_companies :: "(lead list \<Rightarrow> lead list) \<Rightarrow> leads \<Rightarrow> leads" where "map_companies f d = d\<lparr>ls_companies := f (ls_companies d)\<rparr>"

text \<open>The trigger that stamps a company that becomes ready.\<close>

definition stamp_ready :: "time \<Rightarrow> lead \<Rightarrow> lead" where
  "stamp_ready now r = (if co_outreach r = ''outreach_ready'' \<and> co_ready_at r = None then r\<lparr>co_ready_at := Some now\<rparr> else r)"

text \<open>What a caller says of a new company.\<close>

record company_facts =
  nf_qualification :: str
  nf_reason :: str
  nf_outreach :: str
  nf_personalization :: pydict
  nf_historical :: bool
  nf_enriched :: bool
  nf_first :: "time option"
  nf_last :: "time option"

definition new_company :: "(str \<Rightarrow> bool) \<Rightarrow> time \<Rightarrow> str \<Rightarrow> lead_cand \<Rightarrow> company_facts \<Rightarrow> lead" where
  "new_company br now i c f =
     (let dom = cand_domain br c in
      \<lparr>co_id = i, co_name = take 200 (py_strip (cd_name c)), co_domain = or_none (before_char (CHR ''/'') dom), co_norm_domain = or_none dom,
       co_website = or_none (cd_website c),
       co_industry = or_none (cd_industry c), co_city = or_none (cd_city c), co_region = or_none (normalize_state (cd_region c)),
       co_qualification = nf_qualification f, co_qual_reason = Some (nf_reason f), co_personalization = VDict (nf_personalization f),
       co_first_contacted = nf_first f, co_last_contacted = nf_last f, co_outreach = nf_outreach f, co_handoff_ref = None,
       co_historical = cd_historical c, co_active = True, co_ready_at = None, co_discovered = now, co_source = Some (cd_source c),
       ld_norm_name = (if cand_name c = [] then take 200 (py_lower (cd_name c)) else cand_name c),
       ld_phone = or_none (cd_phone c), ld_norm_phone = or_none (normalize_phone (cd_phone c)), ld_handed_off = None,
       ld_is_historical = nf_historical f, ld_enriched = (if nf_enriched f then Some now else None)\<rparr>)"

definition insert_company :: "(str \<Rightarrow> bool) \<Rightarrow> time \<Rightarrow> str \<Rightarrow> lead_cand \<Rightarrow> company_facts \<Rightarrow> leads \<Rightarrow> str + leads" where
  "insert_company br now i c f d =
     (let r = stamp_ready now (new_company br now i c f) in
      if co_qualification r \<notin> set QUALIFICATIONS \<or> co_outreach r \<notin> set OUTREACH_STATUSES then Inl ''CheckViolation''
      else if list_ex (\<lambda>x. co_id x = i \<or> (co_norm_domain r \<noteq> None \<and> co_norm_domain x = co_norm_domain r)) (ls_companies d) then Inl ''UniqueViolation''
      else Inr (map_companies (\<lambda>t. t @ [r]) d))"

definition add_lead_contact :: "time \<Rightarrow> str \<Rightarrow> str \<Rightarrow> str \<Rightarrow> str \<Rightarrow> str \<Rightarrow> str \<Rightarrow> leads \<Rightarrow> str + bool \<times> leads" where
  "add_lead_contact now i email0 status role source url d =
     (let email = normalize_email email0 in
      if email = [] then Inr (False, d)
      else if status \<notin> set EMAIL_STATUSES then Inl ''CheckViolation''
      else if list_ex (\<lambda>k. py_lower (ct_email k) = py_lower email) (ls_contacts d) then Inr (False, d)
      else if \<not> list_ex (\<lambda>r. co_id r = i) (ls_companies d) then Inl ''ForeignKeyViolation''
      else Inr (True, d\<lparr>ls_contacts := ls_contacts d @ [\<lparr>ct_company = i, ct_email = email, ct_status = status, ct_role = Some role,
             ct_discovered = now, lc_source = source, lc_url = or_none url\<rparr>]\<rparr>))"

definition log_discovery :: "str \<Rightarrow> str \<Rightarrow> str option \<Rightarrow> str \<Rightarrow> str \<Rightarrow> leads \<Rightarrow> leads" where
  "log_discovery source query i outcome detail d = d\<lparr>ls_log := ls_log d @ [\<lparr>dy_source = source, dy_query = query, dy_company = i,
     dy_outcome = outcome, dy_detail = or_none (take 500 detail)\<rparr>]\<rparr>"

definition record_outreach :: "str option \<Rightarrow> str \<Rightarrow> str \<Rightarrow> time \<Rightarrow> str \<Rightarrow> str \<Rightarrow> str \<Rightarrow> leads \<Rightarrow> str + bool \<times> leads" where
  "record_outreach i email campaign at' status provider k d =
     (if list_ex (\<lambda>h. hi_key h = k) (ls_history d) then Inr (False, d)
      else if (case i of Some x \<Rightarrow> \<not> list_ex (\<lambda>r. co_id r = x) (ls_companies d) | None \<Rightarrow> False) then Inl ''ForeignKeyViolation''
      else Inr (True, d\<lparr>ls_history := ls_history d @ [\<lparr>hi_company = i,
             hi_email = Some (if normalize_email email = [] then email else normalize_email email), hi_campaign = campaign, hi_sent_at = at',
             hi_status = status, hi_provider = provider, hi_key = k\<rparr>]\<rparr>))"

subsection \<open>Which queries to run\<close>

record lead_query =
  lq_query :: str
  lq_industry :: "str option"
  lq_location :: "str option"
  lq_extra :: pydict

definition FEEDBACK_RANK :: "(str \<times> nat) list" where
  "FEEDBACK_RANK = [(''increase_priority'', 0), (''hold'', 1), (''hold_many_replies_low_intent'', 1), (''insufficient_data'', 1),
     (''decrease_priority'', 2)]"

text \<open>\<open>fb\<close>: the priority the replies give each industry, \<open>None\<close> when it cannot be had.\<close>

definition feedback_rank :: "(str \<times> str) list \<Rightarrow> lead_query \<Rightarrow> nat" where
  "feedback_rank fb q = (case map_of FEEDBACK_RANK (case map_of fb (or_empty (lq_industry q)) of Some x \<Rightarrow> x | None \<Rightarrow> ''insufficient_data'') of
     Some n \<Rightarrow> n | None \<Rightarrow> 1)"

definition order_by_feedback :: "(str \<times> str) list option \<Rightarrow> lead_query list \<Rightarrow> lead_query list" where
  "order_by_feedback fb qs = (case fb of None \<Rightarrow> qs | Some f \<Rightarrow> order_by (feedback_rank f) qs)"

definition ran_row :: "str \<Rightarrow> leads \<Rightarrow> lead_query \<Rightarrow> query_row option" where
  "ran_row source d q = find (\<lambda>r. qy_source r = source \<and> qy_query r = lq_query q \<and> or_empty (qy_error r) = []) (ls_queries d)"

definition stale_query :: "time \<Rightarrow> str \<Rightarrow> leads \<Rightarrow> lead_query \<Rightarrow> bool" where
  "stale_query cutoff source d q \<longleftrightarrow> (case ran_row source d q of
     Some r \<Rightarrow> (case qy_last_run r of Some t \<Rightarrow> t < cutoff | None \<Rightarrow> False) \<and> 0 < qy_total_new r | None \<Rightarrow> False)"

definition last_run_of :: "str \<Rightarrow> leads \<Rightarrow> lead_query \<Rightarrow> time" where
  "last_run_of source d q = (case ran_row source d q of Some r \<Rightarrow> (case qy_last_run r of Some t \<Rightarrow> t | None \<Rightarrow> 0) | None \<Rightarrow> 0)"

definition next_queries :: "(str \<times> str) list option \<Rightarrow> time \<Rightarrow> time \<Rightarrow> str \<Rightarrow> lead_query list \<Rightarrow> nat \<Rightarrow> leads \<Rightarrow> lead_query list" where
  "next_queries fb now after source qs0 limit d =
     (let qs = order_by_feedback fb qs0; fresh = filter (\<lambda>q. ran_row source d q = None) qs;
          old = order_by (last_run_of source d) (filter (stale_query (now - after) source d) qs)
      in if limit \<le> length fresh then take limit fresh else take limit (fresh @ old))"

definition mark_query :: "time \<Rightarrow> str \<Rightarrow> lead_query \<Rightarrow> int \<Rightarrow> int \<Rightarrow> str \<Rightarrow> leads \<Rightarrow> leads" where
  "mark_query now source q results new err0 d =
     (let same = (\<lambda>r. qy_source r = source \<and> qy_query r = lq_query q); err = or_none (take 500 err0) in
      d\<lparr>ls_queries := (if list_ex same (ls_queries d)
          then upd_where same (\<lambda>r. r\<lparr>qy_runs := qy_runs r + 1, qy_last_run := Some now, qy_last_results := results, qy_last_new := new,
                 qy_total_results := qy_total_results r + results, qy_total_new := qy_total_new r + new, qy_error := err\<rparr>) (ls_queries d)
          else ls_queries d @ [\<lparr>qy_source = source, qy_query = lq_query q, qy_industry = lq_industry q, qy_location = lq_location q,
                 qy_runs = 1, qy_last_run = Some now, qy_last_results = results, qy_last_new = new, qy_total_results = results,
                 qy_total_new = new, qy_error = err\<rparr>])\<rparr>)"

subsection \<open>The health of a source\<close>

definition health_of :: "str \<Rightarrow> leads \<Rightarrow> health option" where "health_of source d = find (\<lambda>h. he_source h = source) (ls_health d)"

text \<open>\<open>Some\<close>: benched until then, with the last error.\<close>

definition source_benched :: "time \<Rightarrow> str \<Rightarrow> leads \<Rightarrow> (time \<times> str option) option" where
  "source_benched now source d = (case health_of source d of
     Some h \<Rightarrow> (case he_until h of Some t \<Rightarrow> if now < t then Some (t, he_error h) else None | None \<Rightarrow> None) | None \<Rightarrow> None)"

definition source_success :: "time \<Rightarrow> str \<Rightarrow> leads \<Rightarrow> leads" where
  "source_success now source d =
     d\<lparr>ls_health := (if health_of source d \<noteq> None
        then upd_where (\<lambda>h. he_source h = source) (\<lambda>h. h\<lparr>he_row := 0, he_until := None, he_successes := he_successes h + 1, he_success_at := Some now\<rparr>)
               (ls_health d)
        else ls_health d @ [\<lparr>he_source = source, he_row = 0, he_failures = 0, he_successes = 1, he_success_at = Some now, he_failure_at = None,
               he_error = None, he_until = None\<rparr>])\<rparr>"

record failure_policy =
  fp_after :: int
  fp_base :: int
  fp_max :: int

text \<open>How long a source rests after its \<open>n\<close>th failure in a row.\<close>

definition bench_minutes :: "failure_policy \<Rightarrow> int \<Rightarrow> int" where
  "bench_minutes p n = min (fp_base p * 2 ^ nat (n - fp_after p)) (fp_max p)"

definition count_failure :: "time \<Rightarrow> str \<Rightarrow> str \<Rightarrow> leads \<Rightarrow> leads" where
  "count_failure now source err0 d =
     d\<lparr>ls_health := (if health_of source d \<noteq> None
        then upd_where (\<lambda>h. he_source h = source) (\<lambda>h. h\<lparr>he_row := he_row h + 1, he_failures := he_failures h + 1, he_failure_at := Some now,
               he_error := Some (take 500 err0)\<rparr>) (ls_health d)
        else ls_health d @ [\<lparr>he_source = source, he_row = 1, he_failures = 1, he_successes = 0, he_success_at = None, he_failure_at = Some now,
               he_error = Some (take 500 err0), he_until = None\<rparr>])\<rparr>"

definition source_failure :: "time \<Rightarrow> time \<Rightarrow> str \<Rightarrow> str \<Rightarrow> failure_policy \<Rightarrow> leads \<Rightarrow> (int \<times> time option) \<times> leads" where
  "source_failure now clock source error p d =
     (let d1 = count_failure now source error d; n = (case health_of source d1 of Some h \<Rightarrow> he_row h | None \<Rightarrow> 1) in
      if fp_after p \<le> n
      then (let t = clock + bench_minutes p n * minute in
            ((n, Some t), d1\<lparr>ls_health := upd_where (\<lambda>h. he_source h = source) (\<lambda>h. h\<lparr>he_until := Some t\<rparr>) (ls_health d1)\<rparr>))
      else ((n, None), d1))"

subsection \<open>Numbers\<close>

record inventory =
  iv_total :: nat
  iv_historical :: nat
  iv_discovered :: nat
  iv_uncontacted :: nat
  iv_qualified :: nat
  iv_qualified_new :: nat
  iv_ready :: nat
  iv_handed_off :: nat
  iv_contacted :: nat
  iv_rejected :: nat
  iv_low :: nat
  iv_available :: nat
  iv_duplicates :: nat
  iv_invalid :: nat
  iv_contacts :: nat
  iv_domains :: nat

definition lead_qualified :: "lead \<Rightarrow> bool" where "lead_qualified r \<longleftrightarrow> co_qualification r = ''HIGH'' \<or> co_qualification r = ''MEDIUM''"

definition inventory_of :: "leads \<Rightarrow> inventory" where
  "inventory_of d =
     (let t = filter co_active (ls_companies d); ready = count_where (\<lambda>r. co_outreach r = ''outreach_ready'') t;
          handed = count_where (\<lambda>r. co_outreach r = ''handed_off'') t
      in \<lparr>iv_total = length t, iv_historical = count_where ld_is_historical t, iv_discovered = count_where (\<lambda>r. \<not> ld_is_historical r) t,
          iv_uncontacted = count_where (\<lambda>r. co_first_contacted r = None \<and> co_outreach r \<notin> set CONTACTED_STATUSES) t,
          iv_qualified = count_where lead_qualified t, iv_qualified_new = count_where (\<lambda>r. lead_qualified r \<and> \<not> ld_is_historical r) t,
          iv_ready = ready, iv_handed_off = handed,
          iv_contacted = count_where (\<lambda>r. co_first_contacted r \<noteq> None \<or> co_outreach r \<in> set CONTACTED_STATUSES) t,
          iv_rejected = count_where (\<lambda>r. co_qualification r = ''REJECT'') t, iv_low = count_where (\<lambda>r. co_qualification r = ''LOW'') t,
          iv_available = ready + handed, iv_duplicates = count_where (\<lambda>x. dy_outcome x = ''duplicate'') (ls_log d),
          iv_invalid = count_where (\<lambda>k. ct_status k = ''invalid'') (ls_contacts d), iv_contacts = length (ls_contacts d),
          iv_domains = count_where (\<lambda>r. co_norm_domain r \<noteq> None) (ls_companies d)\<rparr>)"

text \<open>\<open>midnight\<close>: the last local one.\<close>

definition found_today :: "time \<Rightarrow> leads \<Rightarrow> nat" where
  "found_today midnight d = count_where (\<lambda>r. lead_qualified r \<and> (case co_ready_at r of Some t \<Rightarrow> midnight \<le> t | None \<Rightarrow> False)) (ls_companies d)"

subsection \<open>What the tables keep\<close>

definition company_ok :: "lead \<Rightarrow> bool" where
  "company_ok r \<longleftrightarrow> co_qualification r \<in> set QUALIFICATIONS \<and> co_outreach r \<in> set OUTREACH_STATUSES
     \<and> (co_outreach r = ''outreach_ready'' \<longrightarrow> co_ready_at r \<noteq> None)"

definition companies_ok :: "lead list \<Rightarrow> bool" where
  "companies_ok t \<longleftrightarrow> distinct (map co_id t) \<and> distinct (List.map_filter co_norm_domain t) \<and> list_all company_ok t"

definition contacts_ok :: "str set \<Rightarrow> lead_contact list \<Rightarrow> bool" where
  "contacts_ok ids t \<longleftrightarrow> distinct (map (py_lower \<circ> ct_email) t) \<and> list_all (\<lambda>k. ct_status k \<in> set EMAIL_STATUSES \<and> ct_company k \<in> ids) t"

definition leads_ok :: "leads \<Rightarrow> bool" where
  "leads_ok d \<longleftrightarrow> companies_ok (ls_companies d) \<and> contacts_ok (co_id ` set (ls_companies d)) (ls_contacts d)
     \<and> distinct (map hi_key (ls_history d)) \<and> distinct (map (\<lambda>q. (qy_source q, qy_query q)) (ls_queries d))
     \<and> distinct (map he_source (ls_health d))"

lemma contacts_ok_mono: "contacts_ok ids t \<Longrightarrow> ids \<subseteq> ids' \<Longrightarrow> contacts_ok ids' t"
  by (auto simp: contacts_ok_def list_all_iff)

lemma map_filter_append: "List.map_filter f (xs @ ys) = List.map_filter f xs @ List.map_filter f ys"
  by (induction xs) (simp_all add: List.map_filter_simps split: option.split)

lemma stamped_ok: "co_qualification r \<in> set QUALIFICATIONS \<Longrightarrow> co_outreach r \<in> set OUTREACH_STATUSES \<Longrightarrow> company_ok (stamp_ready now r)"
  by (simp add: company_ok_def stamp_ready_def) (simp add: OUTREACH_STATUSES_def)

lemma stamp_keeps [simp]:
  "co_id (stamp_ready now r) = co_id r" "co_norm_domain (stamp_ready now r) = co_norm_domain r" "co_outreach (stamp_ready now r) = co_outreach r"
  "co_qualification (stamp_ready now r) = co_qualification r" "ld_norm_name (stamp_ready now r) = ld_norm_name r"
  "co_city (stamp_ready now r) = co_city r" "co_region (stamp_ready now r) = co_region r" "ld_norm_phone (stamp_ready now r) = ld_norm_phone r"
  "co_historical (stamp_ready now r) = co_historical r" "co_first_contacted (stamp_ready now r) = co_first_contacted r"
  "co_active (stamp_ready now r) = co_active r" "co_industry (stamp_ready now r) = co_industry r"
  by (simp_all add: stamp_ready_def)

lemma map_companies_fields [simp]:
  "ls_companies (map_companies f d) = f (ls_companies d)" "ls_contacts (map_companies f d) = ls_contacts d" "ls_log (map_companies f d) = ls_log d"
  "ls_history (map_companies f d) = ls_history d" "ls_queries (map_companies f d) = ls_queries d" "ls_health (map_companies f d) = ls_health d"
  by (simp_all add: map_companies_def)

lemma insert_company_ok: "insert_company br now i c f d = Inr d' \<Longrightarrow> leads_ok d \<Longrightarrow> leads_ok d'"
proof -
  assume ins: "insert_company br now i c f d = Inr d'" and ok: "leads_ok d"
  define r where "r = stamp_ready now (new_company br now i c f)"
  have i: "co_id r = i" by (simp add: r_def new_company_def Let_def)
  have q: "co_qualification r \<in> set QUALIFICATIONS" "co_outreach r \<in> set OUTREACH_STATUSES"
    and u: "\<And>x. x \<in> set (ls_companies d) \<Longrightarrow> co_id x \<noteq> i \<and> (co_norm_domain r = None \<or> co_norm_domain x \<noteq> co_norm_domain r)"
    and d': "d' = map_companies (\<lambda>t. t @ [r]) d"
    using ins unfolding insert_company_def r_def [symmetric] Let_def by (auto simp: list_ex_iff split: if_splits)
  have "company_ok r" using stamped_ok [of "new_company br now i c f" now] q unfolding r_def by simp
  moreover have "distinct (List.map_filter co_norm_domain (ls_companies d @ [r]))"
    using ok u by (auto simp: leads_ok_def companies_ok_def map_filter_append set_map_filter List.map_filter_simps split: option.split)
  moreover have "co_id r \<notin> co_id ` set (ls_companies d)" using u unfolding i by blast
  then have "distinct (map co_id (ls_companies d @ [r]))" using ok by (simp add: leads_ok_def companies_ok_def)
  ultimately have "companies_ok (ls_companies d @ [r])" using ok by (simp add: leads_ok_def companies_ok_def)
  moreover have "contacts_ok (co_id ` set (ls_companies d @ [r])) (ls_contacts d)"
    using ok unfolding leads_ok_def by (elim conjE) (erule contacts_ok_mono, auto)
  ultimately show ?thesis using ok unfolding d' leads_ok_def by simp
qed

lemma contacts_ok_add:
  "contacts_ok ids t \<Longrightarrow> \<not> list_ex (\<lambda>x. py_lower (ct_email x) = py_lower (ct_email k)) t \<Longrightarrow> ct_status k \<in> set EMAIL_STATUSES
     \<Longrightarrow> ct_company k \<in> ids \<Longrightarrow> contacts_ok ids (t @ [k])"
  unfolding contacts_ok_def by (auto simp: list_ex_iff list_all_iff)

lemma add_lead_contact_cases:
  assumes "add_lead_contact now i email st role source url d = Inr (x, d')"
  obtains "d' = d" | k where "d' = d\<lparr>ls_contacts := ls_contacts d @ [k]\<rparr>" "ct_company k = i" "ct_email k = normalize_email email" "ct_status k = st"
    "ct_role k = Some role" "\<not> list_ex (\<lambda>x. py_lower (ct_email x) = py_lower (ct_email k)) (ls_contacts d)" "st \<in> set EMAIL_STATUSES" "i \<in> co_id ` set (ls_companies d)"
proof (cases "d' = d")
  case False
  then have *: "normalize_email email \<noteq> []" "st \<in> set EMAIL_STATUSES" "i \<in> co_id ` set (ls_companies d)"
    "\<not> list_ex (\<lambda>k. py_lower (ct_email k) = py_lower (normalize_email email)) (ls_contacts d)"
    using assms unfolding add_lead_contact_def Let_def by (auto simp: list_ex_iff split: if_splits)
  define k where "k = \<lparr>ct_company = i, ct_email = normalize_email email, ct_status = st, ct_role = Some role,
             ct_discovered = now, lc_source = source, lc_url = or_none url\<rparr>"
  have "d' = d\<lparr>ls_contacts := ls_contacts d @ [k]\<rparr>"
    using assms False unfolding add_lead_contact_def Let_def k_def by (auto split: if_splits)
  moreover have "ct_company k = i" "ct_email k = normalize_email email" "ct_status k = st" "ct_role k = Some role" by (simp_all add: k_def)
  ultimately show thesis using * by (intro that(2)) auto
qed (rule that(1))

lemma add_lead_contact_ok: "add_lead_contact now i email st role source url d = Inr (x, d') \<Longrightarrow> leads_ok d \<Longrightarrow> leads_ok d'"
  by (erule add_lead_contact_cases) (auto simp: leads_ok_def contacts_ok_add)

lemma log_discovery_ok [simp]: "leads_ok (log_discovery source query i outcome detail d) = leads_ok d"
  by (simp add: log_discovery_def leads_ok_def)

lemma record_outreach_ok: "record_outreach i email campaign t status provider k d = Inr (x, d') \<Longrightarrow> leads_ok d \<Longrightarrow> leads_ok d'"
  by (auto simp: record_outreach_def leads_ok_def list_ex_iff split: if_splits)

lemma distinct_upd_where: "(\<And>r. g (f r) = g r) \<Longrightarrow> map g (upd_where p f t) = map g t"
  by (induction t) (simp_all add: upd_where_def)

lemma mark_query_ok: "leads_ok d \<Longrightarrow> leads_ok (mark_query now source q results new error d)"
  unfolding leads_ok_def mark_query_def Let_def
  by (auto simp: distinct_upd_where list_ex_iff)

lemma health_keys: "leads_ok d \<Longrightarrow> leads_ok (source_success now source d)" "leads_ok d \<Longrightarrow> leads_ok (count_failure now source error d)"
  unfolding leads_ok_def source_success_def count_failure_def health_of_def
  by (auto simp: distinct_upd_where find_None_iff)

lemma source_failure_ok: "leads_ok d \<Longrightarrow> leads_ok (snd (source_failure now clock source error p d))"
  using health_keys(2) [of d now source error] unfolding source_failure_def Let_def
  by (auto simp: leads_ok_def distinct_upd_where)

subsection \<open>Looking up and inserting\<close>

lemma first_match_None: "first_match cs = None \<longleftrightarrow> list_all (\<lambda>(k, r). r = None) cs"
  by (induction cs rule: first_match.induct) (auto split: option.splits)

text \<open>C15. Insert and look up: a new company is found again. When a candidate that is no company yet is stored under a new id, the
  unique index on domains is never hit, and from then on the lookup recognizes every candidate with its domain, its name in its
  city, or its telephone number.\<close>

theorem inserted_is_found:
  assumes "find_existing br d c emails = None" and "i \<notin> co_id ` set (ls_companies d)"
    and "nf_qualification f \<in> set QUALIFICATIONS" and "nf_outreach f \<in> set OUTREACH_STATUSES"
  shows "\<exists>d'. insert_company br now i c f d = Inr d' \<and> length (ls_companies d') = Suc (length (ls_companies d))
     \<and> (cand_domain br c' = cand_domain br c \<and> cand_domain br c \<noteq> []
        \<or> cand_name c' = cand_name c \<and> cand_name c \<noteq> [] \<and> cd_city c' = cd_city c \<and> cd_city c \<noteq> [] \<and> normalize_state (cd_region c') = normalize_state (cd_region c)
        \<or> normalize_phone (cd_phone c') = normalize_phone (cd_phone c) \<and> normalize_phone (cd_phone c) \<noteq> []
        \<longrightarrow> find_existing br d' c' emails' \<noteq> None)"
proof -
  define r where "r = stamp_ready now (new_company br now i c f)"
  have r: "co_qualification r = nf_qualification f" "co_outreach r = nf_outreach f" "co_norm_domain r = or_none (cand_domain br c)"
    "ld_norm_name r = (if cand_name c = [] then take 200 (py_lower (cd_name c)) else cand_name c)" "co_city r = or_none (cd_city c)"
    "co_region r = or_none (normalize_state (cd_region c))" "ld_norm_phone r = or_none (normalize_phone (cd_phone c))"
    by (simp_all add: r_def new_company_def Let_def)
  have "co_norm_domain x \<noteq> Some (cand_domain br c)" if "x \<in> set (ls_companies d)" "cand_domain br c \<noteq> []" for x
  proof -
    have "(''domain'', find (\<lambda>r. co_norm_domain r = Some (cand_domain br c)) (ls_companies d)) \<in> set (match_checks br d c emails)"
      using that(2) by (simp add: match_checks_def Let_def)
    then have "find (\<lambda>r. co_norm_domain r = Some (cand_domain br c)) (ls_companies d) = None"
      using assms(1) unfolding find_existing_def first_match_None list_all_iff by blast
    then show ?thesis using that(1) by (simp add: find_None_iff)
  qed
  then have "\<not> list_ex (\<lambda>x. co_id x = i \<or> (co_norm_domain r \<noteq> None \<and> co_norm_domain x = co_norm_domain r)) (ls_companies d)"
    using assms(2) r(3) by (auto simp: list_ex_iff or_none_def split: if_splits)
  then have ins: "insert_company br now i c f d = Inr (map_companies (\<lambda>t. t @ [r]) d)" (is "_ = Inr ?d")
    using assms(3,4) r(1,2) unfolding insert_company_def r_def [symmetric] Let_def by simp
  have in': "r \<in> set (ls_companies ?d)" by simp
  have none: "\<not> list_all (\<lambda>(k, x). x = None) (match_checks br ?d c' emails')"
    if "(k, x) \<in> set (match_checks br ?d c' emails')" "x \<noteq> None" for k x
    using that by (auto simp: list_all_iff)
  have "find_existing br ?d c' emails' \<noteq> None" if dom: "cand_domain br c' = cand_domain br c" "cand_domain br c \<noteq> []"
    unfolding find_existing_def first_match_None
    by (rule none [of "''domain''" "find (\<lambda>r. co_norm_domain r = Some (cand_domain br c')) (ls_companies ?d)"])
      (use dom in' r(3) in \<open>auto simp: match_checks_def Let_def find_None_iff or_none_def\<close>)
  moreover have "find_existing br ?d c' emails' \<noteq> None"
    if nm: "cand_name c' = cand_name c" "cand_name c \<noteq> []" "cd_city c' = cd_city c" "cd_city c \<noteq> []" "normalize_state (cd_region c') = normalize_state (cd_region c)"
  proof -
    have "same_place c' r" using nm r(4-6) by (simp add: same_place_def or_none_def or_empty_def)
    then have "find (same_place c') (ls_companies ?d) \<noteq> None" using in' unfolding find_None_iff by blast
    then show ?thesis unfolding find_existing_def first_match_None
      by (intro none [of "''name+location''" "find (same_place c') (ls_companies ?d)"]) (use nm in \<open>simp_all add: match_checks_def Let_def\<close>)
  qed
  moreover have "find_existing br ?d c' emails' \<noteq> None"
    if ph: "normalize_phone (cd_phone c') = normalize_phone (cd_phone c)" "normalize_phone (cd_phone c) \<noteq> []"
    unfolding find_existing_def first_match_None
    by (rule none [of "''phone''" "find (\<lambda>r. ld_norm_phone r = Some (normalize_phone (cd_phone c'))) (ls_companies ?d)"])
      (use ph in' r(7) in \<open>auto simp: match_checks_def Let_def find_None_iff or_none_def\<close>)
  ultimately show ?thesis using ins by auto
qed

lemma inserted_is_found_witness:
  "(let c = \<lparr>cd_name = ''Acme Roofing'', cd_website = ''acme.com'', cd_industry = [], cd_city = ''Tampa'', cd_region = ''FL'', cd_phone = ''8135550100'',
       cd_source = ''osm'', cd_query = [], cd_emails = [], cd_reviews = None, cd_rating = VNone, cd_brand = [], cd_extra = [], cd_historical = []\<rparr>;
     f = \<lparr>nf_qualification = ''LOW'', nf_reason = [], nf_outreach = ''not_ready'', nf_personalization = [], nf_historical = False, nf_enriched = False,
       nf_first = None, nf_last = None\<rparr>;
     d = \<lparr>ls_companies = [], ls_contacts = [], ls_log = [], ls_history = [], ls_queries = [], ls_health = []\<rparr>
   in \<exists>d'. insert_company (\<lambda>s. False) 5 ''c1'' c f d = Inr d' \<and> find_existing (\<lambda>s. False) d' (c\<lparr>cd_name := ''Other''\<rparr>) [] \<noteq> None)"
proof -
  define c where "c = \<lparr>cd_name = ''Acme Roofing'', cd_website = ''acme.com'', cd_industry = [], cd_city = ''Tampa'', cd_region = ''FL'', cd_phone = ''8135550100'',
       cd_source = ''osm'', cd_query = [], cd_emails = [], cd_reviews = None, cd_rating = VNone, cd_brand = [], cd_extra = [], cd_historical = []\<rparr>"
  define f where "f = \<lparr>nf_qualification = ''LOW'', nf_reason = [], nf_outreach = ''not_ready'', nf_personalization = [], nf_historical = False, nf_enriched = False,
       nf_first = None, nf_last = None\<rparr>"
  define d where "d = \<lparr>ls_companies = [], ls_contacts = [], ls_log = [], ls_history = [], ls_queries = [], ls_health = []\<rparr>"
  have none: "find_existing (\<lambda>s. False) d c [] = None" unfolding find_existing_def first_match_None match_checks_def Let_def by (simp add: d_def)
  have ph: "normalize_phone (cd_phone c) \<noteq> []" unfolding c_def by code_simp
  obtain d' where "insert_company (\<lambda>s. False) 5 ''c1'' c f d = Inr d'" "find_existing (\<lambda>s. False) d' (c\<lparr>cd_name := ''Other''\<rparr>) [] \<noteq> None"
    using inserted_is_found [of "\<lambda>s. False" d c "[]" "''c1''" f 5 "c\<lparr>cd_name := ''Other''\<rparr>" "[]", OF none] ph
    by (auto simp: d_def f_def QUALIFICATIONS_def OUTREACH_STATUSES_def)
  then show ?thesis unfolding Let_def c_def [symmetric] f_def [symmetric] d_def [symmetric] by blast
qed

subsection \<open>Rotation and rest\<close>

text \<open>The next queries are at most as many as asked for, come from the catalogue, and none of them ran well within the time
  before a repeat: each never ran without an error, or last ran before that time and once found something new.\<close>

theorem queries_rotate:
  "(let qs = next_queries fb now after source qs0 limit d in
    length qs \<le> limit \<and> set qs \<subseteq> set qs0
    \<and> list_all (\<lambda>q. case ran_row source d q of None \<Rightarrow> True
        | Some r \<Rightarrow> (case qy_last_run r of None \<Rightarrow> False | Some t \<Rightarrow> t < now - after) \<and> 0 < qy_total_new r) qs)"
proof -
  let ?qs = "next_queries fb now after source qs0 limit d"
  have all: "q \<in> set qs0 \<and> (ran_row source d q = None \<or> stale_query (now - after) source d q)" if "q \<in> set ?qs" for q
    using that unfolding next_queries_def Let_def order_by_feedback_def order_by_def
    by (auto split: if_splits option.splits dest!: in_set_takeD)
  moreover have "length ?qs \<le> limit" by (auto simp: next_queries_def Let_def)
  moreover have "(case ran_row source d q of None \<Rightarrow> True
        | Some r \<Rightarrow> (case qy_last_run r of None \<Rightarrow> False | Some t \<Rightarrow> t < now - after) \<and> 0 < qy_total_new r)" if "q \<in> set ?qs" for q
    using all [OF that] by (auto simp: stale_query_def split: option.splits)
  ultimately show ?thesis unfolding Let_def list_all_iff by blast
qed

lemma find_upd_source: "(\<And>h. he_source (f h) = he_source h) \<Longrightarrow>
    find (\<lambda>h. he_source h = source) (upd_where (\<lambda>h. he_source h = source) f t) = map_option f (find (\<lambda>h. he_source h = source) t)"
  by (rule find_upd_where_id)

lemma health_after_failure:
  "health_of source (count_failure now source err d) = Some (case health_of source d of
     Some h \<Rightarrow> h\<lparr>he_row := he_row h + 1, he_failures := he_failures h + 1, he_failure_at := Some now, he_error := Some (take 500 err)\<rparr>
   | None \<Rightarrow> \<lparr>he_source = source, he_row = 1, he_failures = 1, he_successes = 0, he_success_at = None, he_failure_at = Some now,
               he_error = Some (take 500 err), he_until = None\<rparr>)"
  by (cases "health_of source d") (auto simp: count_failure_def health_of_def find_upd_source find_append)

text \<open>A source rests after repeated failures and never longer than the limit: a failure counts one more in a row, below the threshold the bench
  is as it was, from the threshold on the source is benched until a time at most the limit away, and a success ends every bench.\<close>

theorem failing_source_rests:
  "(case source_failure now clock source err p d of ((n, until), d') \<Rightarrow>
      n = (case health_of source d of Some h \<Rightarrow> he_row h + 1 | None \<Rightarrow> 1) \<and> (until = None \<longleftrightarrow> n < fp_after p)
      \<and> (case until of None \<Rightarrow> (source_benched x source d' = None \<longleftrightarrow> source_benched x source d = None)
         | Some t \<Rightarrow> t \<le> clock + fp_max p * minute \<and> (source_benched x source d' = None \<longleftrightarrow> t \<le> x)))
   \<and> source_benched x source (source_success now source d) = None"
proof -
  have "source_benched x source (source_success now source d) = None"
    by (cases "health_of source d") (auto simp: source_benched_def source_success_def health_of_def find_upd_source find_append)
  moreover have "bench_minutes p n * minute \<le> fp_max p * minute" for n
    by (rule mult_right_mono) (simp_all add: bench_minutes_def time_units)
  moreover define d1 where "d1 = count_failure now source err d"
  obtain h where h: "health_of source d1 = Some h" "he_row h = (case health_of source d of Some h \<Rightarrow> he_row h + 1 | None \<Rightarrow> 1)"
    "he_until h = (case health_of source d of Some h \<Rightarrow> he_until h | None \<Rightarrow> None)"
    unfolding d1_def health_after_failure by (cases "health_of source d") auto
  have "health_of source (d1\<lparr>ls_health := upd_where (\<lambda>h. he_source h = source) (\<lambda>h. h\<lparr>he_until := Some t\<rparr>) (ls_health d1)\<rparr>) = Some (h\<lparr>he_until := Some t\<rparr>)" for t
    using h(1) by (simp add: health_of_def find_upd_source)
  moreover have "source_benched x source d1 = None \<longleftrightarrow> source_benched x source d = None"
    using h by (cases "health_of source d") (auto simp: source_benched_def split: option.splits)
  ultimately show ?thesis
    using h(1,2) unfolding source_failure_def d1_def [symmetric] Let_def
    by (auto simp: source_benched_def split: if_splits)
qed

end
