(* ===== verification/LeadEngine.thy ===== *)
theory LeadEngine
  imports LeadStore
begin

text \<open>
  \<open>src/cloudos/leadgen/engine.py\<close>: screening candidates, storing them, recovering old companies, and the loop over sources and queries. The
  database of a state is what was committed; a connection that dies and a statement that raises undo what came after it. The counts
  live in memory and stay. Websites are read by \<open>enrich_website\<close>.
\<close>

record lead_stats =
  ts_queries :: nat
  ts_raw :: nat
  ts_duplicates :: nat
  ts_new :: nat
  ts_qualified :: nat
  ts_ready :: nat
  ts_rejected :: nat
  ts_low :: nat
  ts_recovered :: nat
  ts_errors :: "(str \<times> str) list"
  ts_sources :: "((str \<times> str) \<times> nat) list"
  ts_samples :: "str list"

definition bump_source :: "str \<Rightarrow> str \<Rightarrow> lead_stats \<Rightarrow> lead_stats" where
  "bump_source source k st = st\<lparr>ts_sources := dput (ts_sources st) (source, k) (case map_of (ts_sources st) (source, k) of Some n \<Rightarrow> Suc n | None \<Rightarrow> 1)\<rparr>"

definition note_error :: "str \<Rightarrow> str \<Rightarrow> lead_stats \<Rightarrow> lead_stats" where
  "note_error source text0 st = st\<lparr>ts_errors := dput (ts_errors st) source text0\<rparr>"

text \<open>The settings and what prints a value.\<close>

record lead_env =
  ev_bracket :: "str \<Rightarrow> bool"
  ev_shown :: "pyv \<Rightarrow> str"
  ev_brands :: "str list"

definition put_true :: "str \<times> pyv \<Rightarrow> pydict \<Rightarrow> pydict" where
  "put_true kv d = (if truthy (snd kv) then dput d (fst kv) (snd kv) else d)"

definition personalization_of :: "lead_cand \<Rightarrow> enrichment option \<Rightarrow> pydict" where
  "personalization_of c n =
     fold put_true
       [(''google_reviews'', case cd_reviews c of Some x \<Rightarrow> VInt x | None \<Rightarrow> VNone), (''google_rating'', cd_rating c),
        (''maps_category'', dget (cd_extra c) ''maps_category''), (''osm_id'', dget (cd_extra c) ''osm_id''),
        (''evidence_url'', VStr (case n of None \<Rightarrow> [] | Some x \<Rightarrow> (case best_email x of Some f \<Rightarrow> fd_url f | None \<Rightarrow> en_final x)))]
       (case n of Some x \<Rightarrow> en_facts x | None \<Rightarrow> [])"

subsection \<open>Screening\<close>

definition batch_key :: "lead_env \<Rightarrow> lead_cand \<Rightarrow> str" where
  "batch_key e c = (let k = cand_domain (ev_bracket e) c in if k = [] then cand_name c @ ''|'' @ py_lower (cd_city c) else k)"

definition match_text :: "lead_match option \<Rightarrow> str" where
  "match_text m = (case m of Some x \<Rightarrow> ''matched on '' @ lm_key x | None \<Rightarrow> ''repeat within batch'')"

text \<open>\<open>die\<close>: the connection dies before that candidate; then the last component is false.\<close>

fun screen :: "lead_env \<Rightarrow> nat option \<Rightarrow> lead_cand list \<Rightarrow> lead_cand list \<times> str list \<Rightarrow> lead_stats \<Rightarrow> leads \<Rightarrow> lead_cand list \<times> lead_stats \<times> leads \<times> bool" where
  "screen e die [] (fresh, seen) st d = (fresh, st, d, die = None)"
| "screen e die (c # cs) (fresh, seen) st d =
     (if die = Some 0 then (fresh, st, d, False)
      else let st1 = bump_source (cd_source c) ''raw'' (st\<lparr>ts_raw := ts_raw st + 1\<rparr>); k = batch_key e c;
               m = find_existing (ev_bracket e) d c (cd_emails c); die1 = map_option (\<lambda>n. n - 1) die
           in if m \<noteq> None \<or> k \<in> set seen
              then screen e die1 cs (fresh, seen) (bump_source (cd_source c) ''duplicate'' (st1\<lparr>ts_duplicates := ts_duplicates st1 + 1\<rparr>))
                     (log_discovery (cd_source c) (cd_query c) (map_option lm_company m) ''duplicate'' (match_text m) d)
              else screen e die1 cs (fresh @ [c], k # seen) st1 d)"

definition enrich_all :: "web \<Rightarrow> (lead_cand \<Rightarrow> bool) \<Rightarrow> lead_cand list \<Rightarrow> enrichment option list option" where
  "enrich_all w late cs =
     (let rs = map (\<lambda>c. if cd_website c = [] \<or> late c then Some None
                        else map_option Some (enrich_website w (cd_website c) (map (\<lambda>x. (x, ''public listing'')) (cd_emails c)))) cs
      in if None \<in> set rs then None else Some (map the rs))"

subsection \<open>Storing\<close>

definition asked_of :: "lead_cand \<Rightarrow> asked" where
  "asked_of c = \<lparr>as_name = cd_name c, as_website = cd_website c, as_industry = (if cd_industry c = [] then ''local'' else cd_industry c),
     as_reviews = cd_reviews c, as_brand = cd_brand c\<rparr>"

definition outreach_of :: "lead_verdict \<Rightarrow> str" where
  "outreach_of v = (if ve_level v = ''REJECT'' then ''rejected'' else if ve_ready v then ''outreach_ready'' else ''not_ready'')"

fun add_findings :: "time \<Rightarrow> str \<Rightarrow> str \<Rightarrow> finding list \<Rightarrow> leads \<Rightarrow> str + leads" where
  "add_findings now i source [] d = Inr d"
| "add_findings now i source (f # fs) d = (case add_lead_contact now i (fd_email f) (fd_status f) (fd_role f) source (fd_url f) d of
     Inl x \<Rightarrow> Inl x | Inr (added, d1) \<Rightarrow> add_findings now i source fs d1)"

definition emails_of :: "enrichment option \<Rightarrow> finding list" where "emails_of n = (case n of Some x \<Rightarrow> en_emails x | None \<Rightarrow> [])"

definition verdict_of :: "lead_env \<Rightarrow> lead_cand \<Rightarrow> enrichment option \<Rightarrow> lead_verdict" where
  "verdict_of e c n = qualify_lead (ev_bracket e) (ev_shown e) (ev_brands e) (asked_of c) n"

definition store_company :: "lead_env \<Rightarrow> time \<Rightarrow> str \<Rightarrow> lead_cand \<Rightarrow> enrichment option \<Rightarrow> leads \<Rightarrow> str + leads" where
  "store_company e now i c n d =
     (let v = verdict_of e c n in
      case insert_company (ev_bracket e) now i c
             \<lparr>nf_qualification = ve_level v, nf_reason = ve_reason v, nf_outreach = outreach_of v, nf_personalization = personalization_of c n,
              nf_historical = False, nf_enriched = (n \<noteq> None), nf_first = None, nf_last = None\<rparr> d of
        Inl x \<Rightarrow> Inl x
      | Inr d1 \<Rightarrow> (case add_findings now i (cd_source c) (emails_of n) d1 of
          Inl x \<Rightarrow> Inl x
        | Inr d2 \<Rightarrow> Inr (log_discovery (cd_source c) (cd_query c) (Some i) (if ve_level v = ''REJECT'' then ''rejected'' else ''new'') (ve_reason v) d2)))"

definition count_stored :: "lead_verdict \<Rightarrow> str \<Rightarrow> lead_cand \<Rightarrow> enrichment option \<Rightarrow> lead_stats \<Rightarrow> lead_stats" where
  "count_stored v i c n st =
     (let s = cd_source c; st1 = bump_source s ''new'' (st\<lparr>ts_new := ts_new st + 1\<rparr>);
          st2 = (if emails_of n \<noteq> [] then bump_source s ''with_email'' st1 else st1);
          st3 = (if list_ex (\<lambda>f. fd_status f = ''invalid'') (emails_of n) then bump_source s ''invalid_email'' st2 else st2);
          st4 = (if ve_level v = ''REJECT'' then bump_source s ''rejected'' (st3\<lparr>ts_rejected := ts_rejected st3 + 1\<rparr>)
                 else if ve_level v = ''LOW'' then bump_source s ''low'' (st3\<lparr>ts_low := ts_low st3 + 1\<rparr>)
                 else bump_source s ''qualified'' (st3\<lparr>ts_qualified := ts_qualified st3 + 1\<rparr>))
      in if outreach_of v = ''outreach_ready''
         then st4\<lparr>ts_ready := ts_ready st4 + 1, ts_samples := (if length (ts_samples st4) < 40 then ts_samples st4 @ [i] else ts_samples st4)\<rparr>
         else st4)"

text \<open>A row: the candidate, what its site gave, the id and the time of its transaction. The state: the counts, what is committed and what
  the open transaction holds; the first component is an exception.\<close>

fun store_rows ::
  "lead_env \<Rightarrow> nat option \<Rightarrow> (lead_cand \<times> enrichment option \<times> str \<times> time) list \<Rightarrow> lead_stats \<Rightarrow> leads \<Rightarrow> leads \<Rightarrow> str option \<times> lead_stats \<times> leads \<times> leads" where
  "store_rows e die [] st dc d = (if die = None then None else Some ''OperationalError'', st, dc, d)"
| "store_rows e die ((c, n, i, now) # rows) st dc d =
     (if die = Some 0 then (Some ''OperationalError'', st, dc, d)
      else let die1 = map_option (\<lambda>k. k - 1) die in
        case find_existing (ev_bracket e) d c (map fd_email (emails_of n)) of
          Some m \<Rightarrow> store_rows e die1 rows (bump_source (cd_source c) ''duplicate'' (st\<lparr>ts_duplicates := ts_duplicates st + 1\<rparr>)) dc
                      (log_discovery (cd_source c) (cd_query c) (Some (lm_company m)) ''duplicate'' (match_text (Some m)) d)
        | None \<Rightarrow> (case store_company e now i c n d of
            Inl x \<Rightarrow> (Some x, st, dc, d)
          | Inr d1 \<Rightarrow> store_rows e die1 rows (count_stored (verdict_of e c n) i c n st) d1 d1))"

subsection \<open>Old companies\<close>

definition old_company :: "lead \<Rightarrow> bool" where
  "old_company r \<longleftrightarrow> ld_is_historical r \<and> co_first_contacted r = None \<and> co_outreach r = ''not_ready'' \<and> ld_enriched r = None \<and> co_website r \<noteq> None"

definition history_candidates :: "nat \<Rightarrow> leads \<Rightarrow> lead list" where
  "history_candidates n d = take n (order_by co_discovered (filter old_company (ls_companies d)))"

definition no_cand :: lead_cand where
  "no_cand = \<lparr>cd_name = [], cd_website = [], cd_industry = [], cd_city = [], cd_region = [], cd_phone = [], cd_source = [], cd_query = [],
     cd_emails = [], cd_reviews = None, cd_rating = VNone, cd_brand = [], cd_extra = [], cd_historical = []\<rparr>"

definition email_clash :: "lead_env \<Rightarrow> leads \<Rightarrow> lead \<Rightarrow> enrichment \<Rightarrow> bool" where
  "email_clash e d r n = list_ex (\<lambda>f. case find_existing (ev_bracket e) d no_cand [fd_email f] of
     Some m \<Rightarrow> lm_company m \<noteq> co_id r | None \<Rightarrow> False) (en_emails n)"

definition history_verdict :: "lead_env \<Rightarrow> lead \<Rightarrow> enrichment \<Rightarrow> lead_verdict" where
  "history_verdict e r n = qualify_lead (ev_bracket e) (ev_shown e) (ev_brands e)
     \<lparr>as_name = co_name r, as_website = or_empty (co_website r), as_industry = (if or_empty (co_industry r) = [] then ''local'' else or_empty (co_industry r)),
      as_reviews = None, as_brand = []\<rparr> (Some n)"

definition recovered_row :: "lead_env \<Rightarrow> time \<Rightarrow> lead_verdict \<Rightarrow> bool \<Rightarrow> enrichment \<Rightarrow> lead \<Rightarrow> lead" where
  "recovered_row e now v clash n r = stamp_ready now (r\<lparr>ld_enriched := Some now,
     co_qualification := (if clash then ''REJECT'' else ve_level v),
     co_qual_reason := Some (if clash then ''recovered email belongs to an already-contacted company'' else ''recovered: '' @ ve_reason v),
     co_outreach := (if ve_ready v \<and> \<not> clash then ''outreach_ready'' else if ve_level v = ''REJECT'' \<or> clash then ''rejected'' else ''not_ready''),
     co_personalization := VDict (personalization_of (no_cand\<lparr>cd_name := co_name r\<rparr>) (Some n))\<rparr>)"

definition recover_company :: "lead_env \<Rightarrow> time \<Rightarrow> lead \<Rightarrow> enrichment \<Rightarrow> leads \<Rightarrow> str + leads" where
  "recover_company e now r n d =
     (let v = history_verdict e r n; clash = email_clash e d r n;
          d1 = map_companies (upd_where (\<lambda>x. co_id x = co_id r) (recovered_row e now v clash n)) d
      in case add_findings now (co_id r) ''history_recovery'' (en_emails n) d1 of
          Inl x \<Rightarrow> Inl x
        | Inr d2 \<Rightarrow> Inr (log_discovery ''history_recovery'' ''recheck'' (Some (co_id r)) (if ve_ready v \<and> \<not> clash then ''new'' else ''rejected'') (ve_reason v) d2))"

definition count_recovered :: "bool \<Rightarrow> enrichment \<Rightarrow> lead_stats \<Rightarrow> lead_stats" where
  "count_recovered ready n st =
     (let st1 = (if ready then bump_source ''history_recovery'' ''qualified'' (st\<lparr>ts_recovered := ts_recovered st + 1, ts_ready := ts_ready st + 1\<rparr>) else st)
      in if en_emails n \<noteq> [] then bump_source ''history_recovery'' ''with_email'' st1 else st1)"

fun apply_history :: "lead_env \<Rightarrow> nat option \<Rightarrow> (lead \<times> enrichment \<times> time) list \<Rightarrow> lead_stats \<Rightarrow> leads \<Rightarrow> str option \<times> lead_stats \<times> leads" where
  "apply_history e die [] st d = (if die = None then None else Some ''OperationalError'', st, d)"
| "apply_history e die ((r, n, now) # rows) st d =
     (if die = Some 0 then (Some ''OperationalError'', st, d)
      else let st1 = bump_source ''history_recovery'' ''raw'' st in
        case recover_company e now r n d of
          Inl x \<Rightarrow> (Some x, st1, d)
        | Inr d1 \<Rightarrow> apply_history e (map_option (\<lambda>k. k - 1) die) rows
                      (count_recovered (ve_ready (history_verdict e r n) \<and> \<not> email_clash e d r n) n st1) d1)"

subsection \<open>A run of discovery\<close>

datatype searched = Found "lead_cand list" | Source_error str | Search_raised str

text \<open>What a run meets. The clock is looked at again and again: \<open>de_late k\<close> tells whether the deadline has passed at the \<open>k\<close>th look. The
  attempts on the database are counted too: \<open>de_now\<close> is the time of each, \<open>de_dies\<close> the point where its connection dies, \<open>de_id\<close> the ids
  it makes. \<open>de_search\<close> is the answer of a source at that count, \<open>de_text\<close> the text of an exception.\<close>

record disc_env =
  de_lead :: lead_env
  de_web :: web
  de_policy :: failure_policy
  de_per_source :: nat
  de_repeat :: time
  de_batch :: nat
  de_feedback :: "nat \<Rightarrow> (str \<times> str) list option"
  de_catalog :: "str \<Rightarrow> lead_query list"
  de_search :: "nat \<Rightarrow> str \<Rightarrow> lead_query \<Rightarrow> searched"
  de_late :: "nat \<Rightarrow> bool"
  de_late_site :: "nat \<Rightarrow> lead_cand \<Rightarrow> bool"
  de_now :: "nat \<Rightarrow> time"
  de_dies :: "nat \<Rightarrow> nat option"
  de_id :: "nat \<Rightarrow> nat \<Rightarrow> str"
  de_until :: "time \<Rightarrow> str option \<Rightarrow> str"
  de_text :: "str \<Rightarrow> str"

record disc =
  dc_db :: leads
  dc_stats :: lead_stats
  dc_exhausted :: "str list"
  dc_looks :: nat
  dc_calls :: nat

definition late :: "disc_env \<Rightarrow> disc \<Rightarrow> bool \<times> disc" where
  "late e s = (de_late e (dc_looks s), s\<lparr>dc_looks := dc_looks s + 1\<rparr>)"

definition exn_text :: "disc_env \<Rightarrow> str \<Rightarrow> str" where "exn_text e x = x @ '': '' @ take 160 (de_text e x)"

definition fail_with :: "str \<Rightarrow> str \<Rightarrow> disc \<Rightarrow> disc" where "fail_with k t s = s\<lparr>dc_stats := note_error k t (dc_stats s)\<rparr>"

definition bump_disc :: "str \<Rightarrow> str \<Rightarrow> disc \<Rightarrow> disc" where "bump_disc source k s = s\<lparr>dc_stats := bump_source source k (dc_stats s)\<rparr>"

definition exhaust :: "str \<Rightarrow> disc \<Rightarrow> disc" where
  "exhaust source s = s\<lparr>dc_exhausted := (if source \<in> set (dc_exhausted s) then dc_exhausted s else dc_exhausted s @ [source])\<rparr>"

text \<open>\<open>_db_call\<close>: one unit of database work, tried again once when the connection dropped. What it left in memory and what it committed stays.\<close>

definition attempt :: "disc_env \<Rightarrow> (nat option \<Rightarrow> disc \<Rightarrow> (str + 'a) \<times> disc) \<Rightarrow> disc \<Rightarrow> (str + 'a) \<times> disc" where
  "attempt e f s = (case f (de_dies e (dc_calls s)) s of (r, s1) \<Rightarrow> (r, s1\<lparr>dc_calls := dc_calls s + 1\<rparr>))"

definition db_call :: "disc_env \<Rightarrow> (nat option \<Rightarrow> disc \<Rightarrow> (str + 'a) \<times> disc) \<Rightarrow> disc \<Rightarrow> (str + 'a) \<times> disc" where
  "db_call e f s =
     (case attempt e f s of
        (Inl x, s1) \<Rightarrow> if x = ''OperationalError'' then attempt e f s1 else (Inl x, s1)
      | (Inr a, s1) \<Rightarrow> (Inr a, s1))"

text \<open>A unit whose only write is committed at its end.\<close>

definition unit_of :: "(leads \<Rightarrow> 'a \<times> leads) \<Rightarrow> nat option \<Rightarrow> disc \<Rightarrow> (str + 'a) \<times> disc" where
  "unit_of f die s = (if die \<noteq> None then (Inl ''OperationalError'', s) else case f (dc_db s) of (a, d) \<Rightarrow> (Inr a, s\<lparr>dc_db := d\<rparr>))"

definition plan_batch :: "disc_env \<Rightarrow> str \<Rightarrow> nat option \<Rightarrow> disc \<Rightarrow> (str + str option \<times> lead_query list) \<times> disc" where
  "plan_batch e name die s = unit_of (\<lambda>d. let k = dc_calls s in
     (case source_benched (de_now e k) name d of
        Some (t, err) \<Rightarrow> (Some (de_until e t err), [])
      | None \<Rightarrow> (None, next_queries (de_feedback e k) (de_now e k) (de_repeat e) name (de_catalog e name) (de_per_source e) d), d)) die s"

definition record_failure :: "disc_env \<Rightarrow> str \<Rightarrow> lead_query \<Rightarrow> str \<Rightarrow> nat option \<Rightarrow> disc \<Rightarrow> (str + int \<times> time option) \<times> disc" where
  "record_failure e name q err die s = unit_of (\<lambda>d. let t = de_now e (dc_calls s) in
     (case source_failure t t name err (de_policy e) d of (h, d1) \<Rightarrow> (h, mark_query t name q 0 0 err d1))) die s"

definition take_fresh :: "disc_env \<Rightarrow> str \<Rightarrow> lead_cand list \<Rightarrow> nat option \<Rightarrow> disc \<Rightarrow> (str + lead_cand list) \<times> disc" where
  "take_fresh e name cs die s =
     (case screen (de_lead e) die cs ([], []) (dc_stats s) (source_success (de_now e (dc_calls s)) name (dc_db s)) of
        (fresh, st, d, done') \<Rightarrow> if done' then (Inr fresh, s\<lparr>dc_stats := st, dc_db := d\<rparr>) else (Inl ''OperationalError'', s\<lparr>dc_stats := st\<rparr>))"

definition numbered :: "disc_env \<Rightarrow> nat \<Rightarrow> lead_cand list \<Rightarrow> enrichment option list \<Rightarrow> (lead_cand \<times> enrichment option \<times> str \<times> time) list" where
  "numbered e k fresh ns = map (\<lambda>(j, c, n). (c, n, de_id e k j, de_now e k)) (List.enumerate 0 (zip fresh ns))"

definition store_batch ::
  "disc_env \<Rightarrow> str \<Rightarrow> lead_query \<Rightarrow> nat \<Rightarrow> nat \<Rightarrow> lead_cand list \<Rightarrow> enrichment option list \<Rightarrow> nat option \<Rightarrow> disc \<Rightarrow> (str + unit) \<times> disc" where
  "store_batch e name q found before fresh ns die s =
     (case store_rows (de_lead e) die (numbered e (dc_calls s) fresh ns) (dc_stats s) (dc_db s) (dc_db s) of
        (x, st, dc, d) \<Rightarrow>
          (if x = Some ''OperationalError'' then (Inl ''OperationalError'', s\<lparr>dc_stats := st, dc_db := dc\<rparr>)
           else let st1 = (case x of Some y \<Rightarrow> note_error (name @ '':batch'') (exn_text e y) st | None \<Rightarrow> st);
                    d1 = (if x = None then d else dc)
                in (Inr (), s\<lparr>dc_stats := st1,
                      dc_db := mark_query (de_now e (dc_calls s)) name q (int found) (int (ts_new st1) - int before) [] d1\<rparr>)))"

datatype flow = Next_query | Leave_batch | Progressed | Run_raised str

definition search_failed :: "disc_env \<Rightarrow> str \<Rightarrow> lead_query \<Rightarrow> str \<Rightarrow> disc \<Rightarrow> flow \<times> disc" where
  "search_failed e name q err s =
     (case db_call e (record_failure e name q err) s of
        (Inl x, s1) \<Rightarrow> (Leave_batch, fail_with name (exn_text e x) s1)
      | (Inr (n, until), s1) \<Rightarrow>
          (let s2 = bump_disc name ''errors'' (fail_with name err s1)
           in if until \<noteq> None then (Leave_batch, exhaust name s2) else (Next_query, s2)))"

definition keep_found :: "disc_env \<Rightarrow> str \<Rightarrow> lead_query \<Rightarrow> lead_cand list \<Rightarrow> disc \<Rightarrow> flow \<times> disc" where
  "keep_found e name q cs s =
     (case db_call e (take_fresh e name cs) s of
        (Inl x, s1) \<Rightarrow> (Next_query, fail_with name (exn_text e x) s1)
      | (Inr fresh, s1) \<Rightarrow>
          (let before = ts_new (dc_stats s1); ns = enrich_all (de_web e) (de_late_site e (dc_calls s1)) fresh;
               s2 = (if ns = None then fail_with (name @ '':batch'') (exn_text e ''ValueError'') s1 else s1)
           in case db_call e (store_batch e name q (length cs) before fresh (case ns of Some xs \<Rightarrow> xs | None \<Rightarrow> replicate (length fresh) None)) s2 of
                (Inl x, s3) \<Rightarrow> (Next_query, fail_with (name @ '':batch'') (exn_text e x) s3)
              | (Inr u, s3) \<Rightarrow> (Progressed, bump_disc name ''queries'' (s3\<lparr>dc_stats := (dc_stats s3)\<lparr>ts_queries := ts_queries (dc_stats s3) + 1\<rparr>\<rparr>))))"

definition run_query :: "disc_env \<Rightarrow> str \<Rightarrow> lead_query \<Rightarrow> disc \<Rightarrow> flow \<times> disc" where
  "run_query e name q s = (case de_search e (dc_calls s) name q of
     Search_raised x \<Rightarrow> (Run_raised x, s) | Source_error err \<Rightarrow> search_failed e name q err s | Found cs \<Rightarrow> keep_found e name q cs s)"

text \<open>The queries of a batch; the boolean tells whether one made progress.\<close>

fun run_batch :: "disc_env \<Rightarrow> nat \<Rightarrow> str \<Rightarrow> lead_query list \<Rightarrow> bool \<Rightarrow> disc \<Rightarrow> (str + bool) \<times> disc" where
  "run_batch e target name [] progressed s = (Inr progressed, s)"
| "run_batch e target name (q # qs) progressed s =
     (case late e s of (l, s1) \<Rightarrow>
      if l \<or> target \<le> ts_ready (dc_stats s1) then (Inr progressed, s1)
      else (case run_query e name q s1 of
          (Run_raised x, s2) \<Rightarrow> (Inl x, s2)
        | (Leave_batch, s2) \<Rightarrow> (Inr progressed, s2)
        | (Next_query, s2) \<Rightarrow> run_batch e target name qs progressed s2
        | (Progressed, s2) \<Rightarrow> run_batch e target name qs True s2))"

fun run_sources :: "disc_env \<Rightarrow> nat \<Rightarrow> str list \<Rightarrow> bool \<Rightarrow> disc \<Rightarrow> (str + bool) \<times> disc" where
  "run_sources e target [] progressed s = (Inr progressed, s)"
| "run_sources e target (name # names) progressed s =
     (if name \<in> set (dc_exhausted s) then run_sources e target names progressed s
      else case late e s of (l, s1) \<Rightarrow>
        if l \<or> target \<le> ts_ready (dc_stats s1) then run_sources e target names progressed s1
        else (case db_call e (plan_batch e name) s1 of
            (Inl x, s2) \<Rightarrow> run_sources e target names progressed (fail_with name (exn_text e x) s2)
          | (Inr (Some why, qs), s2) \<Rightarrow> run_sources e target names progressed (exhaust name (fail_with name why s2))
          | (Inr (None, qs), s2) \<Rightarrow>
              if qs = [] then run_sources e target names progressed (exhaust name s2)
              else (case run_batch e target name qs progressed s2 of
                  (Inl x, s3) \<Rightarrow> (Inl x, s3)
                | (Inr p, s3) \<Rightarrow> run_sources e target names p s3)))"

text \<open>The rounds; \<open>None\<close> is a run that is not over after \<open>fuel\<close> of them.\<close>

fun run_rounds :: "disc_env \<Rightarrow> nat \<Rightarrow> str list \<Rightarrow> nat \<Rightarrow> disc \<Rightarrow> ((str + unit) \<times> disc) option" where
  "run_rounds e target active 0 s = None"
| "run_rounds e target active (Suc fuel) s =
     (case late e s of (l, s1) \<Rightarrow>
      if l \<or> target \<le> ts_ready (dc_stats s1) then Some (Inr (), s1)
      else (case run_sources e target active False s1 of
          (Inl x, s2) \<Rightarrow> Some (Inl x, s2)
        | (Inr p, s2) \<Rightarrow> if \<not> p \<and> list_all (\<lambda>n. n \<in> set (dc_exhausted s2)) active then Some (Inr (), s2)
                           else run_rounds e target active fuel s2))"

definition history_unit :: "disc_env \<Rightarrow> (lead \<times> enrichment) list \<Rightarrow> nat option \<Rightarrow> disc \<Rightarrow> (str + unit) \<times> disc" where
  "history_unit e rows die s =
     (case apply_history (de_lead e) die (map (\<lambda>(r, n). (r, n, de_now e (dc_calls s))) rows) (dc_stats s) (dc_db s) of
        (x, st, d) \<Rightarrow> (case x of Some y \<Rightarrow> Inl y | None \<Rightarrow> Inr (), s\<lparr>dc_stats := st, dc_db := d\<rparr>))"

definition enrich_old :: "web \<Rightarrow> lead list \<Rightarrow> (lead \<times> enrichment) list option" where
  "enrich_old w rows =
     (let ns = map (\<lambda>r. enrich_website w (or_empty (co_website r)) []) rows in if None \<in> set ns then None else Some (zip rows (map the ns)))"

definition recover_history :: "disc_env \<Rightarrow> disc \<Rightarrow> (str + unit) \<times> disc" where
  "recover_history e s =
     (case db_call e (unit_of (\<lambda>d. (history_candidates (de_batch e) d, d))) s of
        (Inl x, s1) \<Rightarrow> (Inl x, s1)
      | (Inr rows, s1) \<Rightarrow>
          (if rows = [] then (Inr (), s1)
           else case enrich_old (de_web e) rows of None \<Rightarrow> (Inl ''ValueError'', s1) | Some ns \<Rightarrow> db_call e (history_unit e ns) s1))"

definition history_step :: "disc_env \<Rightarrow> disc \<Rightarrow> disc" where
  "history_step e s0 =
     (let source = ''history_recovery''; s = exhaust source s0;
          r = (case recover_history e s of
                 (Inl x, s1) \<Rightarrow> (Inl x, s1)
               | (Inr u, s1) \<Rightarrow> db_call e (unit_of (\<lambda>d. ((), source_success (de_now e (dc_calls s1)) source d))) s1)
      in case r of
           (Inr u, s2) \<Rightarrow> s2
         | (Inl x, s2) \<Rightarrow> fail_with source (exn_text e x)
             (snd (db_call e (unit_of (\<lambda>d. let t = de_now e (dc_calls s2) in source_failure t t source (x @ '': '' @ de_text e x) (de_policy e) d)) s2)))"

definition discover :: "disc_env \<Rightarrow> nat \<Rightarrow> str list \<Rightarrow> nat \<Rightarrow> disc \<Rightarrow> ((str + unit) \<times> disc) option" where
  "discover e target active fuel s = run_rounds e target active fuel (if ''history_recovery'' \<in> set active then history_step e s else s)"

end
