(* ===== verification/OutreachCopy.thy ===== *)
theory OutreachCopy
  imports ConvActions ConvOps Json
begin

text \<open>
  \<open>src/cloudos/outreach/copy.py\<close>: the emails and their check. A row is a company; what the lead engine
  read about it is the JSON of its personalization. \<open>h32\<close> is the first 32 bits of SHA-256. In the texts
  a backtick stands for the source's apostrophe and a tilde for its quotation mark.
\<close>

record email =
  em_subject :: str
  em_body :: str
  em_variant :: str

definition INDUSTRY :: "(str \<times> str \<times> str \<times> str) list" where
  "INDUSTRY = [
     (''roofing'', ''roofing jobs'', ''old estimates'', ''booked jobs''),
     (''hvac'', ''service calls and installs'', ''past quotes and service customers'', ''booked jobs''),
     (''plumbing'', ''service calls'', ''past customers and open quotes'', ''booked jobs''),
     (''electrical'', ''new jobs'', ''past quotes'', ''booked jobs''),
     (''remodeling'', ''remodel projects'', ''estimates that never closed'', ''signed projects''),
     (''painting'', ''painting jobs'', ''estimates that went quiet'', ''booked jobs''),
     (''landscaping'', ''new clients'', ''past estimates and seasonal customers'', ''booked jobs''),
     (''cleaning'', ''new clients'', ''past one-time customers'', ''recurring clients''),
     (''pest_control'', ''new service customers'', ''past one-time treatments'', ''recurring plans''),
     (''gym'', ''new members'', ''past trial sign-ups and old members'', ''memberships''),
     (''martial_arts'', ''new students'', ''past trial-class sign-ups'', ''enrolled students''),
     (''dentist'', ''new patients'', ''patients overdue for a visit'', ''booked appointments''),
     (''med_spa'', ''new clients'', ''past consult requests'', ''booked treatments''),
     (''chiropractor'', ''new patients'', ''past patients who stopped coming'', ''booked visits''),
     (''auto_repair'', ''new customers'', ''past customers due for service'', ''booked repairs''),
     (''veterinary'', ''new clients'', ''pets overdue for a visit'', ''booked appointments''),
     (''law_firm'', ''new cases'', ''past inquiries that never signed'', ''signed clients''),
     (''accounting'', ''new clients'', ''past inquiries and lapsed clients'', ''signed clients''),
     (''real_estate'', ''new buyers and sellers'', ''old leads in your database'', ''closed deals''),
     (''insurance'', ''new policyholders'', ''old quotes that never bound'', ''written policies''),
     (''salon'', ''new clients'', pt ''clients who haven`t booked in a while'', ''booked appointments''),
     (''childcare'', ''new families'', pt ''families who toured but didn`t enroll'', ''enrollments'')]"

definition DEFAULT :: "str \<times> str \<times> str" where
  "DEFAULT = (''new customers'', ''old leads you already have'', ''booked jobs'')"

definition BANNED :: rx where
  "BANNED = rx flag_I (''~b(ai|a~.i~.|artificial intelligence|automat~w*|bots?|chat ?bots?|n8n|scrap~w*|agents?|''
     @ ''software|algorithm~w*|machine learning|llm|gpt|chatgpt|zapier|crm)~b'')"

definition PLACEHOLDER :: rx where
  "PLACEHOLDER = rx plain_flags ''~{|~}|~bNone~b|~bnull~b|~bundefined~b|~bnan~b''"

subsection \<open>Facts and names\<close>

definition lead_facts :: "company \<Rightarrow> pydict" where
  "lead_facts r = (case co_personalization r of
     VStr s \<Rightarrow> (case json_loads s of Some (VDict d) \<Rightarrow> d | _ \<Rightarrow> [])
   | VDict d \<Rightarrow> d
   | _ \<Rightarrow> [])"

definition is_alpha :: "char \<Rightarrow> bool" where
  "is_alpha c = (let n = of_char c :: nat in is_word c \<and> \<not> is_digit c \<and> n \<noteq> 95 \<and> n \<notin> {178, 179, 185, 188, 189, 190})"

definition cased :: "char \<Rightarrow> bool" where
  "cased c \<longleftrightarrow> py_lower_char c \<noteq> c \<or> py_upper_char c \<noteq> c \<or> c = CHR 0xDF"

definition py_isupper :: "str \<Rightarrow> bool" where
  "py_isupper s \<longleftrightarrow> list_ex cased s \<and> list_all (\<lambda>c. cased c \<longrightarrow> py_lower_char c \<noteq> c) s"

definition capitalize :: "str \<Rightarrow> str" where
  "capitalize w = (case w of [] \<Rightarrow> [] | c # s \<Rightarrow> py_upper_char c # py_lower s)"

definition AFTER_DASH :: rx where
  "AFTER_DASH = rx plain_flags (''~s*[,|~-'' @ [CHR 0x96, CHR 0x97] @ '':].*$'')"

definition LEGAL_SUFFIX :: rx where
  "LEGAL_SUFFIX = rx flag_I ''~b(llc|l~.l~.c~.|inc~.?|corp~.?|co~.|ltd~.?|pllc|p~.c~.)~s*$''"

definition KEEP_WORDS :: "str list" where
  "KEEP_WORDS = [''HVAC'', ''HVACR'', ''USA'', ''DDS'', ''DMD'', ''CPA'', ''PLLC'']"

definition SMALL_WORDS :: "(str \<times> str) list" where
  "SMALL_WORDS = [(''AND'', ''and''), (''THE'', ''the''), (''OF'', ''of''), (''&'', ''&'')]"

definition quiet_word :: "nat \<Rightarrow> str \<Rightarrow> str" where
  "quiet_word i w =
     (case map_of SMALL_WORDS w of
        Some s \<Rightarrow> if i = 0 then capitalize w else s
      | None \<Rightarrow> if w \<noteq> [] \<and> list_all is_alpha w \<and> 4 \<le> length w \<and> w \<notin> set KEEP_WORDS then capitalize w else w)"

definition display_name :: "str \<Rightarrow> str" where
  "display_name name =
     (let full = py_strip name;
          n0 = rx_sub AFTER_DASH (\<lambda>m. []) full;
          n1 = (if n0 = [] then full else n0);
          n2 = strip_by (\<lambda>c. c \<in> set '' ,.'') (rx_sub LEGAL_SUFFIX (\<lambda>m. []) n1);
          n3 = (if py_isupper n2 \<and> 4 < length n2
                then py_join '' '' (map (\<lambda>(i, w). quiet_word i w) (List.enumerate 0 (py_words n2))) else n2)
      in if clip 60 n3 = [] then ''your team'' else clip 60 n3)"

text \<open>\<open>float(s)\<close> and \<open>float(v)\<close>; an infinity or a \<open>nan\<close> has no rational and counts as an error.\<close>

definition FLOAT_RE :: rx where
  "FLOAT_RE = rx plain_flags ''([+-]?)(~d(?:_?~d)*)?(?:~.(~d(?:_?~d)*)?)?(?:[eE]([+-]?~d(?:_?~d)*))?''"

definition power_ten :: "int \<Rightarrow> rat" where
  "power_ten e = (if e < 0 then 1 / 10 ^ nat (- e) else 10 ^ nat e)"

definition py_float :: "str \<Rightarrow> rat option" where
  "py_float s0 =
     (let s = py_strip s0 in
      if \<not> rx_fullmatch FLOAT_RE s then None
      else case rx_match FLOAT_RE s of None \<Rightarrow> None | Some m \<Rightarrow>
        (let g = (\<lambda>n. case rm_group m n of Some t \<Rightarrow> filter (\<lambda>c. c \<noteq> CHR ''_'') t | None \<Rightarrow> []);
             e = (case py_int (g 4) of Some i \<Rightarrow> i | None \<Rightarrow> 0);
             v = (of_int (digits_val (g 2)) + frac_val (g 3)) * power_ten e
         in if g 2 = [] \<and> g 3 = [] then None else Some (if g 1 = ''-'' then - v else v)))"

fun py_float_v :: "pyv \<Rightarrow> rat option" where
  "py_float_v (VFloat q) = Some q"
| "py_float_v (VInt i) = Some (of_int i)"
| "py_float_v (VBool b) = Some (of_bool b)"
| "py_float_v (VStr s) = py_float s"
| "py_float_v v = None"

definition no_value :: "pyv \<Rightarrow> bool" where
  "no_value v \<longleftrightarrow> v = VNone \<or> v = VStr []"

text \<open>\<open>f"{q:g}"\<close> of a number with one digit before the point or more, less than a million: six
  significant digits, ties to even, without trailing zeros.\<close>

definition int_digits :: "rat \<Rightarrow> nat" where
  "int_digits q = length (show_int \<lfloor>q\<rfloor>)"

definition pad_zeros :: "nat \<Rightarrow> str \<Rightarrow> str" where
  "pad_zeros n s = replicate (n - length s) (CHR ''0'') @ s"

definition show_g :: "rat \<Rightarrow> str" where
  "show_g q =
     (let k = 6 - int_digits q;
          n = round_even (q * 10 ^ k);
          whole = show_int (n div 10 ^ k);
          frac = rstrip_by (\<lambda>c. c = CHR ''0'') (pad_zeros k (show_int (n mod 10 ^ k)))
      in if k = 0 \<or> frac = [] then whole else whole @ ''.'' @ frac)"

subsection \<open>What is true about the business\<close>

text \<open>The rating and the number of reviews; when one of them is no number, neither counts.\<close>

definition review_numbers :: "pydict \<Rightarrow> (int \<times> rat) option" where
  "review_numbers f =
     (let a = dget f ''google_reviews''; b = dget f ''google_rating'' in
      if no_value a \<or> no_value b then None
      else case (py_int_v a, py_float_v b) of (Some n, Some q) \<Rightarrow> Some (n, q) | _ \<Rightarrow> None)"

definition since_year :: "pydict \<Rightarrow> int option" where
  "since_year f = (let v = dget f ''since_year'' in if truthy v then py_int_v v else None)"

definition text_opt :: "str option \<Rightarrow> str" where
  "text_opt x = (case x of Some s \<Rightarrow> s | None \<Rightarrow> [])"

definition city_of :: "company \<Rightarrow> str" where "city_of r = py_strip (text_opt (co_city r))"

definition industry_of :: "company \<Rightarrow> str" where "industry_of r = py_lower (py_strip (text_opt (co_industry r)))"

datatype obs_tag = T_reviews | T_since | T_estimates | T_emergency | T_generic

fun tag_value :: "obs_tag \<Rightarrow> str" where
  "tag_value T_reviews = ''reviews''"
| "tag_value T_since = ''since''"
| "tag_value T_estimates = ''estimates''"
| "tag_value T_emergency = ''emergency''"
| "tag_value T_generic = ''generic''"

definition observation :: "company \<Rightarrow> str \<times> obs_tag" where
  "observation r =
     (let f = lead_facts r; name = display_name (co_name r); city = city_of r;
          good = (case review_numbers f of Some (n, q) \<Rightarrow> 20 \<le> n \<and> 9 / 2 \<le> q | None \<Rightarrow> False);
          old = (case since_year f of Some y \<Rightarrow> 1900 < y \<and> y < 2024 | None \<Rightarrow> False)
      in if good
         then (case review_numbers f of Some (n, q) \<Rightarrow>
                 (''I came across '' @ name @ '' and saw the '' @ show_int n @ '' Google reviews at '' @ show_g q
                  @ pt '' stars - that`s a reputation a lot of businesses would love to have.'', T_reviews))
         else if old
         then (case since_year f of Some y \<Rightarrow>
                 (''I came across '' @ name @ pt '' and noticed you`ve been at it since '' @ show_int y
                  @ '' - that kind of track record usually means a big list of past customers and inquiries.'', T_since))
         else if truthy (dget f ''free_estimate_offer'')
         then (''I came across '' @ name @ '' and saw you offer free estimates, which tells me a lot of your business starts with someone reaching out.'', T_estimates)
         else if truthy (dget f ''emergency_service'')
         then (''I came across '' @ name @ '' and saw you take emergency calls - in that business, how fast someone hears back usually decides who gets the job.'', T_emergency)
         else (''I came across '' @ name @ '' while looking at local businesses'' @ (if city = [] then [] else '' in '' @ city) @ ''.'', T_generic))"

subsection \<open>The arms\<close>

datatype copy_version = V2 | V3 | V4

fun version_value :: "copy_version \<Rightarrow> str" where
  "version_value V2 = ''v2''"
| "version_value V3 = ''v3''"
| "version_value V4 = ''v4''"

definition V3_MAX_WORDS :: nat where "V3_MAX_WORDS = 90"
definition V3_BRAND :: str where "V3_BRAND = ''BrightReach Media''"
definition V3_TRADE :: "(str \<times> str) list" where
  "V3_TRADE = [(''hvac'', ''HVAC company''), (''plumbing'', ''plumber''), (''roofing'', ''roofer''), (''electrical'', ''electrician'')]"
definition V4_MAX_WORDS :: nat where "V4_MAX_WORDS = 120"
definition V4_TRADE :: "(str \<times> str) list" where
  "V4_TRADE = [(''hvac'', ''HVAC company''), (''plumbing'', ''plumber''), (''roofing'', ''roofer'')]"
definition V4_TRADE_PLURAL :: "(str \<times> str) list" where
  "V4_TRADE_PLURAL = [(''hvac'', ''HVAC companies''), (''plumbing'', ''plumbers''), (''roofing'', ''roofers'')]"
definition V4_LEAD_COST :: "(str \<times> str \<times> str) list" where
  "V4_LEAD_COST = [(''hvac'', ''an A/C'', ''$128''), (''plumbing'', ''a plumbing'', ''$129''), (''roofing'', ''a roofing'', ''$228'')]"

definition DEMO_URL :: str where
  "DEMO_URL = ''https://mattumali579.github.io/office-agent-demo/missed-call/''"

definition URL :: rx where "URL = rx plain_flags ''https?://~S+''"

definition arm :: "(str \<Rightarrow> nat) \<Rightarrow> str \<Rightarrow> str \<Rightarrow> rat \<Rightarrow> str list \<Rightarrow> rat \<Rightarrow> str list \<Rightarrow> copy_version" where
  "arm h32 company_id industry share industries v4_share v4_industries =
     (let ind = py_lower (py_strip industry);
          bucket = of_nat (h32 company_id) / 4294967295 :: rat;
          v4 = (if map_of V4_TRADE ind \<noteq> None \<and> ind \<in> set v4_industries then v4_share else 0)
      in if map_of V3_TRADE ind = None then V2
         else if bucket < v4 then V4
         else if 0 < share \<and> ind \<in> set industries \<and> bucket < v4 + share then V3
         else V2)"

text \<open>\<open>urllib.parse.quote(s, safe='')\<close>: the UTF-8 bytes of a character, percent-encoded.\<close>

definition CODE_POINTS :: "(nat \<times> nat) list" where
  "CODE_POINTS = [(128, 0x20AC), (130, 0x201A), (131, 0x192), (132, 0x201E), (133, 0x2026), (134, 0x2020), (135, 0x2021), (136, 0x2C6),
     (137, 0x2030), (138, 0x160), (139, 0x2039), (140, 0x152), (142, 0x17D), (145, 0x2018), (146, 0x2019), (147, 0x201C),
     (148, 0x201D), (149, 0x2022), (150, 0x2013), (151, 0x2014), (152, 0x2DC), (153, 0x2122), (154, 0x161), (155, 0x203A),
     (156, 0x153), (158, 0x17E), (159, 0x178)]"

definition code_point :: "char \<Rightarrow> nat" where
  "code_point c = (let n = of_char c in case map_of CODE_POINTS n of Some k \<Rightarrow> k | None \<Rightarrow> n)"

definition utf8 :: "nat \<Rightarrow> nat list" where
  "utf8 k = (if k < 128 then [k] else if k < 2048 then [192 + k div 64, 128 + k mod 64]
     else [224 + k div 4096, 128 + k div 64 mod 64, 128 + k mod 64])"

definition upper_hex :: "nat \<Rightarrow> char" where
  "upper_hex n = py_upper_char (hex_char n)"

definition unreserved :: "char \<Rightarrow> bool" where
  "unreserved c \<longleftrightarrow> (let n = of_char c :: nat in n < 128 \<and> (is_word c \<or> c = CHR ''.'' \<or> c = CHR ''-'' \<or> c = CHR 0x7E))"

definition quote :: "str \<Rightarrow> str" where
  "quote s = concat (map (\<lambda>c. if unreserved c then [c]
     else concat (map (\<lambda>b. [CHR ''%'', upper_hex (b div 16), upper_hex (b mod 16)]) (utf8 (code_point c)))) s)"

definition demo_url :: "company \<Rightarrow> str" where
  "demo_url r = DEMO_URL @ ''?biz='' @ quote (display_name (co_name r)) @ ''&trade='' @ quote (industry_of r)"

definition v3_signature :: "str \<Rightarrow> str list" where
  "v3_signature sender = (if substr_in (py_lower V3_BRAND) (py_lower sender) then [sender] else [sender, V3_BRAND])"

definition v4_variant_b :: "(str \<Rightarrow> nat) \<Rightarrow> str \<Rightarrow> bool" where
  "v4_variant_b h32 company_id \<longleftrightarrow> h32 (''subj:'' @ company_id) mod 2 = 1"

definition greeting :: "str \<Rightarrow> str" where "greeting name = ''Hi '' @ name @ '' team,''"

definition STOP_FIRST :: str where
  "STOP_FIRST = pt ''If you`d rather not hear from me, reply ~stop~ and I won`t email you again.''"

definition STOP_LATER :: str where
  "STOP_LATER = pt ''Reply ~stop~ and you won`t hear from me again.''"

definition trade_of :: "(str \<times> str) list \<Rightarrow> str \<Rightarrow> str \<Rightarrow> str" where
  "trade_of t ind dflt = (case map_of t ind of Some x \<Rightarrow> x | None \<Rightarrow> dflt)"

subsection \<open>First touches\<close>

text \<open>The opening of a first touch, what it leads to, and the lines every email ends with.\<close>

definition ending :: "str list \<Rightarrow> str \<Rightarrow> str \<Rightarrow> str list" where
  "ending signature postal stop = [[]] @ signature @ [[], ''--'', postal, stop]"

definition V4_OFFER :: "str list" where
  "V4_OFFER = [[], ''I fix that: every missed caller gets a text from your business within seconds, it asks what they need, and you get the lead on your phone. Quotes that go quiet get three follow-up texts.'', [],
     pt ''If it doesn`t bring back at least 5 missed callers in your first 30 days, you don`t pay. No contract.'', [],
     pt ''Want a 1-minute demo with your company name on it? Just reply ~yes~.'']"

definition first_v4 :: "company \<Rightarrow> str \<Rightarrow> obs_tag \<Rightarrow> str" where
  "first_v4 r name tag =
     (let short = (length name \<le> 28); city = city_of r; trade = trade_of V4_TRADE (industry_of r) ''company'';
          who = (if city \<noteq> [] \<and> length city \<le> 20 then ''most people in '' @ city else ''most people'')
      in if tag = T_emergency
         then ''I saw '' @ (if short then name @ '' takes'' else ''you take'') @ '' emergency calls. When one of those goes to voicemail, ''
              @ who @ '' just call the next '' @ trade @ '' on the list.''
         else if tag = T_estimates
         then ''I saw '' @ (if short then name @ '' offers'' else ''you offer'')
              @ '' free estimates. When a call goes to voicemail, or an estimate goes quiet, '' @ who @ '' just go with the next '' @ trade @ ''.''
         else ''When a call to '' @ (if short then name else ''your shop'') @ '' goes to voicemail, '' @ who @ '' just call the next '' @ trade @ '' on the list.'')"

definition first_touch_v4 :: "(str \<Rightarrow> nat) \<Rightarrow> company \<Rightarrow> str \<Rightarrow> str \<Rightarrow> email" where
  "first_touch_v4 h32 r sender postal =
     (let name = display_name (co_name r); tag = snd (observation r); short = (length name \<le> 28); b = v4_variant_b h32 (co_id r)
      in \<lparr>em_subject = (if b then (if short then ''Quick question about '' @ name else ''Quick question about your missed calls'')
            else (if short then ''Missed calls at '' @ name else ''Missed calls'')),
          em_body = lines_of ([greeting name, [], first_v4 r name tag] @ V4_OFFER @ ending (v3_signature sender) postal STOP_FIRST),
          em_variant = version_value V4 @ ''-'' @ tag_value tag @ (if b then ''-b'' else [])\<rparr>)"

definition first_touch_v3 :: "company \<Rightarrow> str \<Rightarrow> str \<Rightarrow> email" where
  "first_touch_v3 r sender postal =
     (let name = display_name (co_name r); tag = snd (observation r); short = (length name \<le> 28);
          trade = trade_of V3_TRADE (industry_of r) ''company'';
          first = (if tag = T_emergency then ''I saw '' @ name @ '' takes emergency calls. When one of those goes to voicemail''
                   else ''When a call to '' @ name @ '' goes to voicemail'');
          ls = (if tag = T_estimates
                then [''I saw '' @ name @ pt '' offers free estimates. Most estimates that end with ~let me think about it~ never get a second follow-up, and the job goes to whoever checks back first.'', [],
                      pt ''I make sure every estimate gets a same-day follow-up until it`s a clear yes or no.'']
                else [first @ '', most people just call the next '' @ trade @ '' on the list.'', [],
                      ''I set it up so every missed call gets a text back within a minute, so more of those callers book with you instead.''])
      in \<lparr>em_subject = (if tag = T_estimates then (if short then ''Estimates at '' @ name else ''Quiet estimates'')
            else (if short then ''Missed calls at '' @ name else ''Missed calls'')),
          em_body = lines_of ([greeting name, []] @ ls @ [[], ''Worth a short outline of how it would work for you? A yes or no is fine.'']
            @ ending (v3_signature sender) postal STOP_FIRST),
          em_variant = version_value V3 @ ''-'' @ (if tag = T_estimates then ''estimates'' else ''missed'')\<rparr>)"

definition industry_words :: "company \<Rightarrow> str \<times> str \<times> str" where
  "industry_words r = (case map_of INDUSTRY (industry_of r) of Some x \<Rightarrow> x | None \<Rightarrow> DEFAULT)"

text \<open>\<open>obs.split(" - ")[0]\<close>.\<close>

definition before_dash :: "str \<Rightarrow> str" where
  "before_dash s = hd (rx_split (rx plain_flags '' - '') s)"

definition v2_pitch :: "company \<Rightarrow> str \<Rightarrow> obs_tag \<Rightarrow> str \<Rightarrow> str \<times> str \<times> str" where
  "v2_pitch r name tag obs =
     (case industry_words r of (new, old, booked) \<Rightarrow>
      let short = (length name \<le> 28) in
      case tag of
        T_since \<Rightarrow> (before_dash obs @ ''.'',
          ''Businesses that have been around that long usually have a long list of '' @ old @ '' - and most of those people never hear from you again. I help owners reach back out to those people and turn some of them into ''
            @ booked @ '' - without new ad spend.'',
          if short then ''Old leads at '' @ name else ''Your old leads'')
      | T_estimates \<Rightarrow> (''I saw '' @ name @ '' offers free estimates.'',
          pt ''A lot of estimates end with ~let me think about it~ and then nobody follows up. I help businesses like yours follow up on every estimate and inquiry until it`s a clear yes or no, so fewer jobs go to whoever called back first.'',
          ''Estimates that go quiet'')
      | T_emergency \<Rightarrow> (''I saw '' @ name @ '' takes emergency calls.'',
          pt ''In that line of work, the company that gets back to people first usually gets the job. I help businesses like yours make sure every call and inquiry gets a fast reply and a real follow-up, so those jobs don`t go to the next name on the list.'',
          if short then ''Callbacks at '' @ name else ''Getting back to callers first'')
      | T_reviews \<Rightarrow> (before_dash obs @ ''.'',
          pt ''The hard part - earning people`s trust - is already done. I help businesses with a reputation like that get in front of more ''
            @ new @ '', and make sure those inquiries turn into '' @ booked @ ''.'',
          if short then ''More '' @ booked @ '' for '' @ name else ''More '' @ booked)
      | T_generic \<Rightarrow> (obs,
          ''Most businesses like yours have a pile of '' @ old @ '' - and most of those people never got a second call. I help owners reach back out to those people and turn some of them into ''
            @ booked @ '' - without new ad spend.'',
          if short then ''Old leads at '' @ name else ''Your old leads''))"

definition first_touch_v2 :: "company \<Rightarrow> str \<Rightarrow> str \<Rightarrow> email" where
  "first_touch_v2 r sender postal =
     (let name = display_name (co_name r) in
      case observation r of (obs, tag) \<Rightarrow> case v2_pitch r name tag obs of (opener, pitch, subject) \<Rightarrow>
        \<lparr>em_subject = subject,
         em_body = lines_of ([greeting name, [], opener @ '' '' @ pitch, [],
             ''Want me to send over how that would work for '' @ name @ ''? A one-word reply is fine.''] @ ending [sender] postal STOP_FIRST),
         em_variant = version_value V2 @ ''-'' @ tag_value tag\<rparr>)"

definition first_touch_copy :: "(str \<Rightarrow> nat) \<Rightarrow> company \<Rightarrow> str \<Rightarrow> str \<Rightarrow> copy_version \<Rightarrow> email" where
  "first_touch_copy h32 r sender postal v =
     (case v of V4 \<Rightarrow> first_touch_v4 h32 r sender postal | V3 \<Rightarrow> first_touch_v3 r sender postal
      | V2 \<Rightarrow> first_touch_v2 r sender postal)"

subsection \<open>Follow-ups\<close>

definition re_line :: "str \<Rightarrow> str" where
  "re_line subject = (if startswith (py_lower subject) ''re:'' then subject else ''Re: '' @ subject)"

definition followup_v4_lines :: "company \<Rightarrow> int \<Rightarrow> str list" where
  "followup_v4_lines r stp =
     (let ind = industry_of r; city = city_of r in
      if stp = 1
      then [''I built a quick demo with your name on it: '' @ demo_url r, [],
            pt ''Tap to miss the call, then watch the text conversation and the lead land on the owner`s phone. Takes about a minute.'', [],
            ''Same deal: at least 5 missed callers brought back in your first 30 days, or you pay nothing.'', [],
            pt ''Want it live for your shop? Reply ~yes~ and I`ll set up a 10-minute call.'']
      else if stp = 2
      then [(case map_of V4_LEAD_COST ind of
               Some (kind, cost) \<Rightarrow> ''Quick math: '' @ kind @ '' lead costs about '' @ cost
                 @ '' in ads (LocaliQ, 2025). Every unanswered call is that money handed to the next company.''
             | None \<Rightarrow> ''Every unanswered call is a lead you already paid for, handed to the next company.''), [],
            pt ''Want a free missed-call check? Pull up your phone`s recent calls and in 10 minutes I`ll count how many callers you missed last week. Nothing to install, nothing to buy.'', [],
            pt ''Reply ~check~ with a good time.'']
      else [pt ''Last note. I`m keeping this to 3 '' @ trade_of V4_TRADE_PLURAL ind ''shops''
              @ (if city = [] then '' per area'' else '' in '' @ city) @ pt '' so the shops I work with aren`t competing for the same callers.'', [],
            pt ''If missed calls ever cost you a job, reply ~rescue~. You pay nothing unless it brings back 5 missed callers in 30 days.''])"

definition followup_v3_lines :: "str \<Rightarrow> int \<Rightarrow> str list" where
  "followup_v3_lines name stp =
     (if stp = 1
      then [pt ''Quick follow-up. It`s one build that texts back every missed call and follows up every estimate the same day - $1,500 one time, and you own it.'', [],
            pt ''If it isn`t texting back missed calls and booking jobs within 30 days of going live, I keep working free until it does, or you get your money back.'', [],
            ''Want the one-page outline for '' @ name @ ''? A yes or no is fine.'']
      else [''Last note from me. If missed calls or quiet estimates ever cost '' @ name @ pt '' a job, reply ~outline~ and I`ll send it over.''])"

definition followup_v2_lines :: "company \<Rightarrow> str \<Rightarrow> int \<Rightarrow> str list" where
  "followup_v2_lines r name stp =
     (case industry_words r of (new, old, booked) \<Rightarrow>
      if stp = 1
      then [''Following up on my note below. Most owners I talk to have more '' @ old
              @ '' sitting around than they realize - reaching back out to them is usually the fastest way to add '' @ booked @ '' without new ad spend.'', [],
            ''Is getting more '' @ new @ '' a priority for you right now, or is the calendar already full?'']
      else [pt ''I don`t want to crowd your inbox, so this is my last note. If more '' @ booked
              @ pt '' ever becomes a priority, reply any time and I`ll show you what I`d do for '' @ name @ ''.''])"

definition followup :: "company \<Rightarrow> int \<Rightarrow> str \<Rightarrow> str \<Rightarrow> str \<Rightarrow> copy_version \<Rightarrow> email" where
  "followup r stp first_subject sender postal v =
     (let name = display_name (co_name r);
          ls = (case v of V4 \<Rightarrow> followup_v4_lines r stp | V3 \<Rightarrow> followup_v3_lines name stp | V2 \<Rightarrow> followup_v2_lines r name stp)
      in \<lparr>em_subject = re_line first_subject,
          em_body = lines_of ([greeting name, []] @ ls
            @ ending (if v = V2 then [sender] else v3_signature sender) postal STOP_LATER),
          em_variant = (if v = V2 then [] else version_value v @ ''-'') @ ''fu'' @ show_int stp\<rparr>)"

subsection \<open>The check\<close>

text \<open>The names are left out of the wording, the longer one first; the name as it stands comes first among equals.\<close>

definition own_names :: "str \<Rightarrow> str list" where
  "own_names cname =
     (let a = py_strip cname; b = display_name cname;
          ns = filter (\<lambda>n. n \<noteq> [] \<and> n \<noteq> ''your team'') (if a = b then [a] else [a, b])
      in order_by (\<lambda>n. - int (length n)) ns)"

definition wording :: "email \<Rightarrow> str \<Rightarrow> str \<Rightarrow> str" where
  "wording e postal cname =
     (let t = em_subject e @ [CHR 0x0A] @ em_body e;
          t1 = fold (\<lambda>n w. py_replace n '' '' w) (own_names cname) t;
          t2 = (if py_strip postal = [] then t1 else py_replace (py_strip postal) '' '' t1)
      in rx_sub URL (\<lambda>m. '' '') t2)"

definition above_footer :: "str \<Rightarrow> str" where
  "above_footer body = hd (rx_split (rx plain_flags ''~n--~n'') body)"

definition in_arm :: "copy_version \<Rightarrow> email \<Rightarrow> bool" where
  "in_arm v e \<longleftrightarrow> startswith (em_variant e) (version_value v @ ''-'')"

definition qa :: "email \<Rightarrow> str \<Rightarrow> str \<Rightarrow> str list" where
  "qa e postal cname =
     (let body = em_body e; p = py_strip postal in
      (if py_strip (em_subject e) = [] then [''empty subject''] else [])
      @ (if length (py_strip body) < 120 then [''body too short''] else [])
      @ (case rx_search BANNED (wording e postal cname) of
           Some m \<Rightarrow> [pt ''mentions the technology (`'' @ rm_text m @ pt ''`)''] | None \<Rightarrow> [])
      @ (if rx_found PLACEHOLDER (em_subject e @ [CHR 0x0A] @ body) then [''unfilled placeholder''] else [])
      @ (if p = [] \<or> \<not> substr_in p body then [''no postal address''] else [])
      @ (if substr_in (pt ''~stop~'') body then [] else [''no opt-out line''])
      @ (if 170 < length (py_words body) then [''too long''] else [])
      @ (if in_arm V3 e \<and> V3_MAX_WORDS < length (py_words (above_footer body)) then [''too long for v3''] else [])
      @ (if in_arm V4 e \<and> V4_MAX_WORDS < length (py_words (above_footer body)) then [''too long for v4''] else [])
      @ (if in_arm V4 e \<and> \<not> startswith (em_variant e) (version_value V4 @ ''-fu'') \<and> rx_found URL body then [''link in v4 first touch''] else []))"

subsection \<open>Facts about texts\<close>

lemma strip_by_Nil: "strip_by p s = [] \<longleftrightarrow> (\<forall>c\<in>set s. p c)"
proof -
  have "(\<forall>c\<in>set (dropWhile p s). p c) \<longleftrightarrow> (\<forall>c\<in>set s. p c)"
    by (metis dropWhile_eq_Nil_conv hd_dropWhile hd_in_set set_dropWhileD)
  then show ?thesis by (simp add: strip_by_def rstrip_by_def lstrip_by_def)
qed

lemma py_strip_Nil: "py_strip s = [] \<longleftrightarrow> (\<forall>c\<in>set s. py_isspace c)"
  unfolding py_strip_def by (rule strip_by_Nil)

lemma startswith_append [simp]: "startswith (p @ s) p"
  by (simp add: startswith_def)

lemma startswith_substr: "startswith s p \<Longrightarrow> substr_in p s"
  by (cases s) (auto simp: startswith_def)

lemma substr_in_front: "substr_in p (p @ s)"
  by (rule startswith_substr) simp

lemma substr_in_append: "substr_in p s \<Longrightarrow> substr_in p (a @ s)"
  by (induction a) auto

lemma startswith_more: "startswith s p \<Longrightarrow> startswith (s @ b) p"
  unfolding startswith_def by (metis append_eq_conv_conj append_take_drop_id append.assoc)

lemma substr_in_more: "substr_in p s \<Longrightarrow> substr_in p (s @ b)"
proof (induction s)
  case Nil
  then show ?case by (cases b) (simp_all add: startswith_def)
next
  case (Cons c s)
  then show ?case using startswith_more [of "c # s" p b] by auto
qed

lemma substr_in_mid: "substr_in p (a @ p @ b)"
  by (rule substr_in_append [OF substr_in_front])

lemma strip_infix: "\<exists>a b. s = a @ strip_by p s @ b"
proof -
  have l: "\<exists>a. t = a @ dropWhile p t" for t :: str by (metis takeWhile_dropWhile_id)
  obtain a where "s = a @ lstrip_by p s" using l [of s] by (auto simp: lstrip_by_def)
  moreover obtain b where "rev (lstrip_by p s) = b @ dropWhile p (rev (lstrip_by p s))" using l by blast
  then have "lstrip_by p s = rstrip_by p (lstrip_by p s) @ rev b" unfolding rstrip_by_def by (metis rev_append rev_rev_ident)
  ultimately show ?thesis unfolding strip_by_def by metis
qed

lemma join_infix: "l \<in> set ls \<Longrightarrow> \<exists>a b. py_join sep ls = a @ l @ b"
proof (induction sep ls rule: py_join.induct)
  case (2 sep x)
  then have "py_join sep [x] = [] @ l @ []" by simp
  then show ?case by blast
next
  case (3 sep x y xs)
  show ?case
  proof (cases "l = x")
    case True
    then show ?thesis by (metis append_Nil py_join.simps(3))
  next
    case False
    then obtain a b where "py_join sep (y # xs) = a @ l @ b" using 3 by auto
    then show ?thesis by (metis append.assoc py_join.simps(3))
  qed
qed auto

lemma line_in_text: "l \<in> set ls \<Longrightarrow> substr_in l (lines_of ls)"
  unfolding lines_of_def using join_infix substr_in_mid by metis

lemma strip_in_text: "l \<in> set ls \<Longrightarrow> substr_in (py_strip l) (lines_of ls)"
  unfolding lines_of_def py_strip_def using join_infix [of l ls] strip_infix [of l] substr_in_mid
  by (metis append.assoc)

lemma join_length: "sum_list (map length ls) \<le> length (py_join sep ls)"
  by (induction sep ls rule: py_join.induct) auto

lemma infix_in_text: "substr_in p l \<Longrightarrow> l \<in> set ls \<Longrightarrow> substr_in p (lines_of ls)"
  unfolding lines_of_def by (metis join_infix substr_in_append substr_in_more)

lemma join_last: "ls \<noteq> [] \<Longrightarrow> last ls \<noteq> [] \<Longrightarrow> py_join sep ls \<noteq> [] \<and> last (py_join sep ls) = last (last ls)"
  by (induction sep ls rule: py_join.induct) auto

lemma join_head: "x \<noteq> [] \<Longrightarrow> py_join sep (x # xs) \<noteq> [] \<and> hd (py_join sep (x # xs)) = hd x"
  by (cases xs) auto

lemma strip_id:
  assumes "s \<noteq> []" and "\<not> p (hd s)" and "\<not> p (last s)"
  shows "strip_by p s = s"
proof -
  have "dropWhile p s = s" using assms(1,2) by (cases s) auto
  moreover have "dropWhile p (rev s) = rev s" using assms(1,3) by (cases s rule: rev_cases) auto
  ultimately show ?thesis by (simp add: strip_by_def rstrip_by_def lstrip_by_def)
qed

subsection \<open>Every email is signed\<close>

text \<open>The problems an email cannot have when it ends the way the generators end it.\<close>

definition FRAME_PROBLEMS :: "str list" where
  "FRAME_PROBLEMS = [''empty subject'', ''body too short'', ''no postal address'', ''no opt-out line'']"

lemma parts_cases:
  assumes "x \<in> set ((case m of Some r \<Rightarrow> [f r] | None \<Rightarrow> []) @ (if c1 then [p1] else []) @ (if c2 then [p2] else [])
      @ (if c3 then [p3] else []) @ (if c4 then [p4] else []) @ (if c5 then [p5] else []))"
  shows "(\<exists>r. x = f r) \<or> x \<in> {p1, p2, p3, p4, p5}"
  using assms by (cases m) (auto split: if_splits)

lemma qa_frame:
  assumes "py_strip (em_subject e) \<noteq> []" and "120 \<le> length (py_strip (em_body e))"
    and "py_strip postal \<noteq> []" and "substr_in (py_strip postal) (em_body e)" and "substr_in (pt ''~stop~'') (em_body e)"
  shows "set (qa e postal cname) \<inter> set FRAME_PROBLEMS = {}"
proof -
  have long: "\<not> length (py_strip (em_body e)) < 120" using assms(2) by simp
  have "qa e postal cname = (case rx_search BANNED (wording e postal cname) of
           Some m \<Rightarrow> [pt ''mentions the technology (`'' @ rm_text m @ pt ''`)''] | None \<Rightarrow> [])
      @ (if rx_found PLACEHOLDER (em_subject e @ [CHR 0x0A] @ em_body e) then [''unfilled placeholder''] else [])
      @ (if 170 < length (py_words (em_body e)) then [''too long''] else [])
      @ (if in_arm V3 e \<and> V3_MAX_WORDS < length (py_words (above_footer (em_body e))) then [''too long for v3''] else [])
      @ (if in_arm V4 e \<and> V4_MAX_WORDS < length (py_words (above_footer (em_body e))) then [''too long for v4''] else [])
      @ (if in_arm V4 e \<and> \<not> startswith (em_variant e) (version_value V4 @ ''-fu'') \<and> rx_found URL (em_body e) then [''link in v4 first touch''] else [])"
    using assms long unfolding qa_def Let_def by (simp only: if_False if_True append_Nil simp_thms)
  then have some: "x \<in> set (qa e postal cname) \<Longrightarrow> (\<exists>m :: rmatch. x = pt ''mentions the technology (`'' @ rm_text m @ pt ''`)'')
      \<or> x \<in> {''unfilled placeholder'', ''too long'', ''too long for v3'', ''too long for v4'', ''link in v4 first touch''}" for x
    by (simp only:) (erule parts_cases [where f = "\<lambda>m. pt ''mentions the technology (`'' @ rm_text m @ pt ''`)''"])
  have tech: "pt ''mentions the technology (`'' @ t \<notin> set FRAME_PROBLEMS" for t
    by (simp add: FRAME_PROBLEMS_def pt_def)
  have other: "\<forall>x\<in>{''unfilled placeholder'', ''too long'', ''too long for v3'', ''too long for v4'', ''link in v4 first touch''}. x \<notin> set FRAME_PROBLEMS"
    by code_simp
  have "x \<notin> set FRAME_PROBLEMS" if "x \<in> set (qa e postal cname)" for x
    using some [OF that]
  proof
    assume "\<exists>m :: rmatch. x = pt ''mentions the technology (`'' @ rm_text m @ pt ''`)''"
    then show ?thesis by (elim exE) (simp only: tech not_False_eq_True)
  qed (rule bspec [OF other])
  then show ?thesis by blast
qed

lemma greeting_head: "greeting name \<noteq> [] \<and> \<not> py_isspace (hd (greeting name))"
proof -
  have "\<not> py_isspace (CHR ''H'')" by code_simp
  then show ?thesis by (simp add: greeting_def)
qed

text \<open>A text between a greeting and an ending whose last line is one of the two opt-out lines.\<close>

lemma framed:
  assumes "body = lines_of ([greeting name] @ mid @ ending sig postal stop)" and "stop \<in> {STOP_FIRST, STOP_LATER}"
    and "py_strip postal \<noteq> []" and "py_strip subject \<noteq> []" and "120 \<le> length stop + sum_list (map length mid)"
  shows "set (qa \<lparr>em_subject = subject, em_body = body, em_variant = v\<rparr> postal cname) \<inter> set FRAME_PROBLEMS = {}"
proof (rule qa_frame)
  let ?ls = "[greeting name] @ mid @ ending sig postal stop"
  have stop: "stop \<noteq> [] \<and> \<not> py_isspace (last stop) \<and> substr_in (pt ''~stop~'') stop"
  proof -
    have "STOP_FIRST \<noteq> [] \<and> \<not> py_isspace (last STOP_FIRST) \<and> substr_in (pt ''~stop~'') STOP_FIRST" by code_simp
    moreover have "STOP_LATER \<noteq> [] \<and> \<not> py_isspace (last STOP_LATER) \<and> substr_in (pt ''~stop~'') STOP_LATER" by code_simp
    ultimately show ?thesis using assms(2) by auto
  qed
  have last: "last ?ls = stop" "?ls \<noteq> []" by (simp_all add: ending_def)
  have h: "lines_of ?ls \<noteq> [] \<and> hd (lines_of ?ls) = hd (greeting name)"
    unfolding lines_of_def append.simps(2) by (rule join_head) (simp add: greeting_head)
  have "last (lines_of ?ls) = last stop"
    unfolding lines_of_def using join_last [OF last(2), of "[CHR 0x0A]"] stop last(1) by auto
  then have "py_strip (lines_of ?ls) = lines_of ?ls"
    unfolding py_strip_def using h greeting_head stop by (intro strip_id) auto
  moreover have "sum_list (map length ?ls) \<le> length (lines_of ?ls)" unfolding lines_of_def by (rule join_length)
  then have "120 \<le> length (lines_of ?ls)" using assms(5) by (simp add: ending_def)
  ultimately show "120 \<le> length (py_strip (em_body \<lparr>em_subject = subject, em_body = body, em_variant = v\<rparr>))"
    using assms(1) by simp
  have "postal \<in> set ?ls" "stop \<in> set ?ls" by (auto simp: ending_def)
  then have "substr_in (py_strip postal) (lines_of ?ls)" "substr_in (pt ''~stop~'') (lines_of ?ls)"
    using strip_in_text [of postal ?ls] infix_in_text [OF conjunct2 [OF conjunct2 [OF stop]], of ?ls] by blast+
  then show "substr_in (py_strip postal) (em_body \<lparr>em_subject = subject, em_body = body, em_variant = v\<rparr>)"
    and "substr_in (pt ''~stop~'') (em_body \<lparr>em_subject = subject, em_body = body, em_variant = v\<rparr>)"
    by (simp_all only: assms(1) email.simps)
qed (use assms in simp_all)


lemma starts_with_letter: "\<not> py_isspace c \<Longrightarrow> py_strip (c # cs) \<noteq> []"
  by (auto simp: py_strip_Nil)

lemma letters: "\<not> py_isspace (CHR ''Q'')" "\<not> py_isspace (CHR ''M'')" "\<not> py_isspace (CHR ''E'')" "\<not> py_isspace (CHR ''O'')"
    "\<not> py_isspace (CHR ''G'')" "\<not> py_isspace (CHR ''C'')" "\<not> py_isspace (CHR ''R'')" "\<not> py_isspace (CHR ''Y'')"
  by code_simp+

lemma lower_r: "py_lower_char c = CHR ''r'' \<Longrightarrow> \<not> py_isspace c"
  by (auto simp: py_isspace_def py_lower_char_def Let_def split: if_splits)

lemma re_line_signed: "py_strip (re_line s) \<noteq> []"
proof (cases "startswith (py_lower s) ''re:''")
  case True
  then have t: "take (length ''re:'') (map py_lower_char s) = ''re:''" by (simp only: startswith_def py_lower_def)
  then obtain c cs where s: "s = c # cs" by (cases s) auto
  with t have "py_lower_char c = CHR ''r''" by simp
  then show ?thesis using s True starts_with_letter lower_r by (simp only: re_line_def if_True not_False_eq_True)
next
  case False
  then show ?thesis using letters starts_with_letter by (simp add: re_line_def)
qed

lemma stop_lengths: "70 \<le> length STOP_FIRST" "45 \<le> length STOP_LATER"
  by (simp_all add: STOP_FIRST_def STOP_LATER_def pt_def)

lemma framed_first:
  assumes "body = lines_of ([greeting name] @ mid @ ending sig postal STOP_FIRST)"
    and "py_strip postal \<noteq> []" and "py_strip subject \<noteq> []" and "50 \<le> sum_list (map length mid)"
  shows "set (qa \<lparr>em_subject = subject, em_body = body, em_variant = v\<rparr> postal cname) \<inter> set FRAME_PROBLEMS = {}"
  using assms(4) stop_lengths(1) by (intro framed [OF assms(1) _ assms(2,3)]) simp_all

lemma framed_later:
  assumes "body = lines_of ([greeting name] @ mid @ ending sig postal STOP_LATER)"
    and "py_strip postal \<noteq> []" and "py_strip subject \<noteq> []" and "75 \<le> sum_list (map length mid)"
  shows "set (qa \<lparr>em_subject = subject, em_body = body, em_variant = v\<rparr> postal cname) \<inter> set FRAME_PROBLEMS = {}"
  using assms(4) stop_lengths(2) by (intro framed [OF assms(1) _ assms(2,3)]) simp_all

lemma v4_signed: "set (qa (first_touch_v4 h32 r sender postal) postal cname) \<inter> set FRAME_PROBLEMS = {}" if "py_strip postal \<noteq> []"
  unfolding first_touch_v4_def Let_def
  by (rule framed_first [where mid = "[[], first_v4 r (display_name (co_name r)) (snd (observation r))] @ V4_OFFER", OF _ that])
    (use starts_with_letter letters in \<open>simp_all add: V4_OFFER_def pt_def\<close>)

lemma v3_signed: "set (qa (first_touch_v3 r sender postal) postal cname) \<inter> set FRAME_PROBLEMS = {}" if "py_strip postal \<noteq> []"
  unfolding first_touch_v3_def Let_def append_assoc [symmetric]
  by (rule framed_first [where mid = "([[]] @ _) @ [[], ''Worth a short outline of how it would work for you? A yes or no is fine.'']", OF _ that])
    (use starts_with_letter letters in \<open>simp_all\<close>)

lemma v2_subject: "v2_pitch r name tag obs = (opener, pitch, subject) \<Longrightarrow> py_strip subject \<noteq> []"
  using starts_with_letter letters by (cases tag) (auto simp: v2_pitch_def Let_def split: prod.splits if_splits)

lemma v2_signed: "set (qa (first_touch_v2 r sender postal) postal cname) \<inter> set FRAME_PROBLEMS = {}" if "py_strip postal \<noteq> []"
proof -
  obtain obs tag where o: "observation r = (obs, tag)" by fastforce
  obtain opener pitch subject where v: "v2_pitch r (display_name (co_name r)) tag obs = (opener, pitch, subject)"
    by (cases "v2_pitch r (display_name (co_name r)) tag obs") auto
  show ?thesis unfolding first_touch_v2_def Let_def o v prod.case
    by (rule framed_first [where mid = "[[], opener @ '' '' @ pitch, [],
             ''Want me to send over how that would work for '' @ display_name (co_name r) @ ''? A one-word reply is fine.'']",
          OF _ that v2_subject [OF v]]) simp_all
qed

lemma later_lines: "75 \<le> sum_list (map length (case v of V4 \<Rightarrow> followup_v4_lines r stp | V3 \<Rightarrow> followup_v3_lines n stp | V2 \<Rightarrow> followup_v2_lines r n stp))"
proof (cases v)
  case V4 then show ?thesis by (simp add: followup_v4_lines_def Let_def pt_def split: option.split prod.split)
next
  case V3 then show ?thesis by (simp add: followup_v3_lines_def pt_def)
next
  case V2 then show ?thesis by (simp add: followup_v2_lines_def pt_def split: prod.split)
qed

lemma later_signed: "set (qa (followup r stp subj sender postal v) postal cname) \<inter> set FRAME_PROBLEMS = {}" if "py_strip postal \<noteq> []"
proof -
  let ?n = "display_name (co_name r)"
  let ?ls = "case v of V4 \<Rightarrow> followup_v4_lines r stp | V3 \<Rightarrow> followup_v3_lines ?n stp | V2 \<Rightarrow> followup_v2_lines r ?n stp"
  have "75 \<le> sum_list (map length ([[]] @ ?ls))" using later_lines [where v = v] by simp
  moreover have "lines_of ([greeting ?n, []] @ ?ls @ ending sig postal STOP_LATER)
      = lines_of ([greeting ?n] @ ([[]] @ ?ls) @ ending sig postal STOP_LATER)" for sig by simp
  ultimately show ?thesis unfolding followup_def Let_def using framed_later that re_line_signed by blast
qed

text \<open>C27. However the generators are asked to write - any company, any version, the first touch or any follow-up - the
  email is never rejected for an empty subject, a short body, a missing postal address or a missing opt-out line.\<close>

theorem copy_always_signed:
  assumes "py_strip postal \<noteq> []"
  shows "set (qa (first_touch_copy h32 r sender postal v) postal cname) \<inter> set FRAME_PROBLEMS = {}
    \<and> set (qa (followup r stp subj sender postal v) postal cname) \<inter> set FRAME_PROBLEMS = {}"
  using v4_signed [OF assms] v3_signed [OF assms] v2_signed [OF assms] later_signed [OF assms]
  by (cases v) (simp_all add: first_touch_copy_def)

definition demo_lead :: company where
  "demo_lead = \<lparr>co_id = ''c7'', co_name = ''AIRE TEXAS PLUMBING LLC'', co_domain = Some ''aire.com'', co_norm_domain = Some ''aire.com'', co_website = None,
     co_industry = Some ''plumbing'', co_city = Some ''Austin'', co_region = Some ''TX'', co_qualification = ''HIGH'', co_qual_reason = None,
     co_personalization = VDict [(''emergency'', VBool True)], co_first_contacted = None, co_last_contacted = None,
     co_outreach = ''outreach_ready'', co_handoff_ref = None, co_historical = [], co_active = True, co_ready_at = Some 0,
     co_discovered = 0, co_source = None\<rparr>"

theorem copy_always_signed_witness:
  "set (qa (first_touch_copy (\<lambda>_. 1) demo_lead ''Matt'' ''1 Main St'' V4) ''1 Main St'' (co_name demo_lead)) \<inter> set FRAME_PROBLEMS = {}
    \<and> set (qa (followup demo_lead 2 ''Missed calls'' ''Matt'' ''1 Main St'' V4) ''1 Main St'' (co_name demo_lead)) \<inter> set FRAME_PROBLEMS = {}"
proof -
  have "py_strip ''1 Main St'' \<noteq> []" by code_simp
  then show ?thesis by (rule copy_always_signed)
qed

end
