(* ===== verification/SenderPacing.thy ===== *)
theory SenderPacing
  imports OutreachCopy
begin

text \<open>
  The settings of the outreach sender and its pacing (\<open>src/cloudos/outreach/sender.py\<close>). The YAML file and
  the environment are records; a section or key the code reads with a default is optional or has the
  default's value. A time zone is three functions: the local day (counted from 1970-01-01) and the local
  minute of a time, and the time of a local day and minute. A random minute is an argument.
\<close>

record sender_cfg =
  sc_name_default :: str
  sc_campaign :: "str option"
  sc_send_days :: "int list"
  sc_window_start :: str
  sc_window_end :: str
  sc_business_days :: "int list"
  sc_daily_limit :: "int option"
  sc_cycle_limit :: "int option"
  sc_max_attempts :: int
  sc_followup_days :: "int list"
  sc_day_mode :: "str option"
  sc_stop_statuses :: "str list"
  sc_queue_ahead :: int
  sc_v4_queue_ahead :: int
  sc_limit_enabled :: bool
  sc_limit_industries :: "str list"
  sc_v4_share :: rat
  sc_v4_industries :: "str list"
  sc_v4_followup_days :: "int list"
  sc_v3_share :: rat
  sc_v3_industries :: "str list"

record sender_env =
  se_name :: "str option"
  se_postal :: "str option"
  se_daily_limit :: "str option"

record zone =
  z_day :: "time \<Rightarrow> int"
  z_minute :: "time \<Rightarrow> int"
  z_utc :: "int \<Rightarrow> int \<Rightarrow> time"

definition sender_name :: "sender_cfg \<Rightarrow> sender_env \<Rightarrow> str" where
  "sender_name cfg env = text_or (py_strip (text_opt (se_name env))) (sc_name_default cfg)"

definition postal_address :: "sender_env \<Rightarrow> str" where
  "postal_address env = py_strip (text_opt (se_postal env))"

definition industry_limit :: "sender_cfg \<Rightarrow> str list option" where
  "industry_limit cfg = (if sc_limit_enabled cfg \<and> sc_limit_industries cfg \<noteq> [] then Some (sc_limit_industries cfg) else None)"

definition v4_industries :: "sender_cfg \<Rightarrow> str list" where
  "v4_industries cfg = map (\<lambda>i. py_lower (py_strip i)) (filter (\<lambda>i. py_strip i \<noteq> []) (sc_v4_industries cfg))"

definition copy_arm :: "(str \<Rightarrow> nat) \<Rightarrow> sender_cfg \<Rightarrow> company \<Rightarrow> copy_version" where
  "copy_arm h32 cfg r = arm h32 (co_id r) (text_opt (co_industry r)) (sc_v3_share cfg) (sc_v3_industries cfg)
     (sc_v4_share cfg) (sc_v4_industries cfg)"

definition followup_days :: "sender_cfg \<Rightarrow> copy_version \<Rightarrow> int list" where
  "followup_days cfg v = (if v = V4 \<and> sc_v4_followup_days cfg \<noteq> [] then sc_v4_followup_days cfg else sc_followup_days cfg)"

subsection \<open>The window\<close>

definition weekday :: "int \<Rightarrow> int" where "weekday d = (d + 3) mod 7"

definition two_digits :: "int \<Rightarrow> str" where
  "two_digits n = (if n < 10 then ''0'' else []) @ show_int n"

definition clock_text :: "int \<Rightarrow> str" where
  "clock_text m = two_digits (m div 60) @ '':'' @ two_digits (m mod 60)"

definition in_window :: "zone \<Rightarrow> sender_cfg \<Rightarrow> time \<Rightarrow> bool" where
  "in_window z cfg now \<longleftrightarrow> weekday (z_day z now) \<in> set (sc_send_days cfg)
     \<and> sc_window_start cfg \<le> clock_text (z_minute z now) \<and> clock_text (z_minute z now) < sc_window_end cfg"

subsection \<open>Days\<close>

definition business_days :: "sender_cfg \<Rightarrow> int list" where
  "business_days cfg = (if sc_business_days cfg = [] then [0, 1, 2, 3, 4] else sc_business_days cfg)"

text \<open>The loop over days; \<open>None\<close> is a loop that never ends.\<close>

partial_function (option) business_walk :: "int list \<Rightarrow> int \<Rightarrow> int \<Rightarrow> int \<Rightarrow> int option" where
  "business_walk allowed days d added =
     (if added < days
      then business_walk allowed days (d + 1) (if weekday (d + 1) \<in> set allowed then added + 1 else added)
      else Some d)"

definition at_morning :: "zone \<Rightarrow> int \<Rightarrow> int \<Rightarrow> time" where
  "at_morning z d m = z_utc z d (60 * (9 + m div 60) + m mod 60)"

definition add_business_days :: "zone \<Rightarrow> int \<Rightarrow> sender_cfg \<Rightarrow> time \<Rightarrow> int \<Rightarrow> time option" where
  "add_business_days z m cfg start days =
     map_option (\<lambda>d. at_morning z d m) (business_walk (business_days cfg) days (z_day z start) 0)"

definition REVIEWS :: str where "REVIEWS = ''google_reviews_maps_299''"

definition add_sequence_days :: "zone \<Rightarrow> int \<Rightarrow> sender_cfg \<Rightarrow> str \<Rightarrow> time \<Rightarrow> int \<Rightarrow> time option" where
  "add_sequence_days z m cfg campaign start days =
     (if campaign = REVIEWS \<and> sc_day_mode cfg = Some ''calendar'' then Some (at_morning z (z_day z start + days) m)
      else add_business_days z m cfg start days)"

subsection \<open>Caps\<close>

definition MAILBOX_DAILY_CAP :: int where "MAILBOX_DAILY_CAP = 100"

definition explicit_daily_limit :: "sender_env \<Rightarrow> int option" where
  "explicit_daily_limit env =
     (case se_daily_limit env of None \<Rightarrow> None
      | Some raw \<Rightarrow> if py_strip raw = [] then None else map_option (max 0) (py_int (py_strip raw)))"

definition daily_cap :: "sender_cfg \<Rightarrow> sender_env \<Rightarrow> int" where
  "daily_cap cfg env =
     (case explicit_daily_limit env of Some n \<Rightarrow> n
      | None \<Rightarrow> max 0 (min (case sc_daily_limit cfg of Some n \<Rightarrow> n | None \<Rightarrow> MAILBOX_DAILY_CAP) MAILBOX_DAILY_CAP))"

definition plan_slots :: "sender_cfg \<Rightarrow> int \<Rightarrow> int \<Rightarrow> int option \<Rightarrow> int \<times> int" where
  "plan_slots cfg have have_v4 limit =
     (case limit of Some n \<Rightarrow> (max (n - have) 0, 0)
      | None \<Rightarrow> (max (sc_queue_ahead cfg - (have - have_v4)) 0,
                if sc_v4_queue_ahead cfg = 0 then 0 else max (sc_v4_queue_ahead cfg - have_v4) 0))"

subsection \<open>The walk ends on the right day\<close>

lemma weekday_reaches:
  assumes "0 \<le> w" and "w \<le> 6"
  shows "\<exists>x. d < x \<and> x \<le> d + 7 \<and> weekday x = w"
proof -
  let ?x = "d + 1 + (w - (d + 4)) mod 7"
  have "(d + 4 + (w - (d + 4)) mod 7) mod 7 = (d + 4 + (w - (d + 4))) mod 7" by (rule mod_add_right_eq)
  then have "weekday ?x = w" using assms by (simp add: weekday_def algebra_simps)
  moreover have "0 \<le> (w - (d + 4)) mod 7" "(w - (d + 4)) mod 7 < 7" by simp_all
  ultimately show ?thesis by (intro exI [of _ ?x]) linarith
qed

definition allowed_between :: "int list \<Rightarrow> int \<Rightarrow> int \<Rightarrow> int set" where
  "allowed_between allowed a b = {x. a < x \<and> x \<le> b \<and> weekday x \<in> set allowed}"

lemma finite_allowed [simp]: "finite (allowed_between allowed a b)"
  by (rule finite_subset [of _ "{a<..b}"]) (auto simp: allowed_between_def)

lemma allowed_none [simp]: "allowed_between allowed a a = {}"
  by (auto simp: allowed_between_def)

lemma allowed_step: "a < b \<Longrightarrow> int (card (allowed_between allowed a b))
    = (if weekday (a + 1) \<in> set allowed then 1 else 0) + int (card (allowed_between allowed (a + 1) b))"
proof -
  assume "a < b"
  then have "allowed_between allowed a b
      = (if weekday (a + 1) \<in> set allowed then insert (a + 1) (allowed_between allowed (a + 1) b) else allowed_between allowed (a + 1) b)"
    by (auto simp: allowed_between_def) (metis add1_zle_eq order_le_less)+
  moreover have "a + 1 \<notin> allowed_between allowed (a + 1) b" by (simp add: allowed_between_def)
  ultimately show ?thesis by simp
qed

lemma walk_sound:
  "business_walk allowed days d added = Some e \<Longrightarrow>
     d \<le> e \<and> (added \<le> days \<longrightarrow> int (card (allowed_between allowed d e)) = days - added)
     \<and> (d < e \<longrightarrow> weekday e \<in> set allowed)"
proof (induction rule: business_walk.raw_induct [rotated, consumes 1, case_names step])
  case (step walk allowed days d added e)
  show ?case
  proof (cases "added < days")
    case True
    let ?n = "if weekday (d + 1) \<in> set allowed then added + 1 else added"
    have r: "walk allowed days (d + 1) ?n = Some e" using step(2) True by simp
    have ih: "d + 1 \<le> e \<and> (?n \<le> days \<longrightarrow> int (card (allowed_between allowed (d + 1) e)) = days - ?n)
        \<and> (d + 1 < e \<longrightarrow> weekday e \<in> set allowed)" using step(1) [OF r] .
    have "weekday e \<in> set allowed" if "e = d + 1"
    proof (rule ccontr)
      assume "weekday e \<notin> set allowed"
      then have "int (card (allowed_between allowed e e)) = days - added" using ih that True by simp
      moreover have "allowed_between allowed e e = {}" by (auto simp: allowed_between_def)
      ultimately show False using True by simp
    qed
    then show ?thesis using ih True allowed_step [of d e allowed] by (auto split: if_splits)
  next
    case False
    then show ?thesis using step(2) by (auto split: if_splits)
  qed
qed

lemma walk_ends:
  assumes "\<exists>w\<in>set allowed. 0 \<le> w \<and> w \<le> 6"
  shows "\<exists>e. business_walk allowed days d added = Some e"
proof -
  have "\<exists>e. business_walk allowed days d added = Some e"
    if "x = nat (days - added)" and "weekday t \<in> set allowed" "d < t" and "y = nat (t - d)" for x y t d added
    using that
  proof (induction x arbitrary: y t d added rule: less_induct)
    case (less x)
    note outer = less.IH
    from less.prems show ?case
    proof (induction y arbitrary: d added rule: less_induct)
      case (less y)
      show ?case
      proof (cases "added < days")
        case True
        show ?thesis
        proof (cases "weekday (d + 1) \<in> set allowed")
          case allowed: True
          obtain w where "w \<in> set allowed" "0 \<le> w" "w \<le> 6" using assms by blast
          then obtain u where "d + 1 < u" "weekday u \<in> set allowed" using weekday_reaches [of w "d + 1"] by blast
          moreover have "nat (days - (added + 1)) < x" using True less.prems(1) by simp
          ultimately have "\<exists>e. business_walk allowed days (d + 1) (added + 1) = Some e" using outer by blast
          then show ?thesis using True allowed by (subst business_walk.simps) simp
        next
          case no: False
          then have "d + 1 < t" using less.prems(2,3) by (metis add1_zle_eq order_le_less)
          moreover have "nat (t - (d + 1)) < y" using less.prems(3,4) by simp
          ultimately have "\<exists>e. business_walk allowed days (d + 1) added = Some e"
            using less.IH less.prems(1,2) by blast
          then show ?thesis using True no by (subst business_walk.simps) simp
        qed
      qed (subst business_walk.simps, simp)
    qed
  qed
  moreover obtain w t where "w \<in> set allowed" "d < t" "weekday t = w" using assms weekday_reaches by blast
  ultimately show ?thesis by blast
qed

text \<open>Follow-ups land on the right day. The day loop returns exactly when no day is asked for or some
  configured business day is a weekday (a list of other numbers makes it loop forever), and then
  the day it returns lies as many business days after the start as were asked for, and is one itself.\<close>

theorem business_walk_exact:
  "((\<exists>e. business_walk allowed days d 0 = Some e) \<longleftrightarrow> days \<le> 0 \<or> (\<exists>w\<in>set allowed. 0 \<le> w \<and> w \<le> 6))
   \<and> (case business_walk allowed days d 0 of None \<Rightarrow> True
      | Some e \<Rightarrow> d \<le> e \<and> int (card (allowed_between allowed d e)) = max 0 days \<and> (if 0 < days then weekday e \<in> set allowed else e = d))"
proof (cases "days \<le> 0")
  case True
  then have "business_walk allowed days d 0 = Some d" by (subst business_walk.simps) simp
  then show ?thesis using True by simp
next
  case False
  have s: "d \<le> e \<and> int (card (allowed_between allowed d e)) = days \<and> weekday e \<in> set allowed"
    if "business_walk allowed days d 0 = Some e" for e
  proof -
    note w = walk_sound [OF that]
    then have "d \<noteq> e" using False by auto
    then show ?thesis using w False by auto
  qed
  have "\<exists>w\<in>set allowed. 0 \<le> w \<and> w \<le> 6" if "business_walk allowed days d 0 = Some e" for e
  proof -
    have "0 \<le> weekday e" "weekday e \<le> 6" by (simp_all add: weekday_def)
    then show ?thesis using s [OF that] by blast
  qed
  then have "(\<exists>e. business_walk allowed days d 0 = Some e) \<longleftrightarrow> (\<exists>w\<in>set allowed. 0 \<le> w \<and> w \<le> 6)"
    using walk_ends [of allowed days d 0] by blast
  then show ?thesis using s False by (simp split: option.split)
qed

end
