(* ===== verification/MailTransport.thy ===== *)
theory MailTransport
  imports ConvText
begin

text \<open>
  \<open>src/cloudos/outreach/transport.py\<close>: the mailbox. What the SMTP and IMAP servers do in one call of
  \<open>send\<close> or \<open>in_sent\<close> is an argument: the outcome of every command, a code with a text or the name of
  the exception it raised. A send also has a ghost: whether the server took the message.
\<close>

datatype send_kind = K_sent | K_auth | K_permanent | K_transient | K_throttled | K_unknown

record send_result =
  sr_ok :: bool
  sr_kind :: send_kind
  sr_detail :: str

subsection \<open>Refusals\<close>

definition THROTTLE :: rx where
  "THROTTLE = rx flag_I (''quota|limit|rate|too many|exceeded|try (again )?later|spam|policy|blocked|blacklist|''
     @ ''reputation|sender address rejected|not allowed to send|5~.7~.|4~.7~.|5~.4~.5'')"

definition NO_SUCH_USER :: rx where
  "NO_SUCH_USER = rx flag_I (''5~.1~.[0-3]~b|5~.1~.10~b|user unknown|unknown user|no such (user|mailbox|recipient)|''
     @ ''(mailbox|recipient|user|address)[^.]{0,30}(does not exist|not found|unavailable|invalid)|''
     @ ''invalid (recipient|mailbox|address)|recipient address rejected: user unknown'')"

definition DEAD_ADDRESS :: rx where "DEAD_ADDRESS = rx flag_I ''5~.1~.1~b|user unknown''"

definition classify_reject :: "int \<Rightarrow> str \<Rightarrow> send_kind" where
  "classify_reject code t =
     (if rx_found THROTTLE t \<and> \<not> rx_found DEAD_ADDRESS t then K_throttled
      else if 500 \<le> code \<and> code < 600 \<and> rx_found NO_SUCH_USER t then K_permanent
      else K_transient)"

subsection \<open>The message\<close>

text \<open>\<open>make_msgid\<close> is the random part; an address without an at sign is its own domain.\<close>

definition new_message_id :: "(str \<Rightarrow> str) \<Rightarrow> str \<Rightarrow> str" where
  "new_message_id make_msgid from_email =
     py_lower (strip_by (\<lambda>c. c = CHR ''<'' \<or> c = CHR ''>'') (make_msgid (after_last (CHR ''@'') from_email)))"

record out_mail =
  om_from_name :: str
  om_from :: str
  om_to :: str
  om_subject :: str
  om_date :: time
  om_headers :: "(str \<times> str) list"
  om_body :: str

definition angled :: "str \<Rightarrow> str" where "angled s = ''<'' @ s @ ''>''"

definition build :: "time \<Rightarrow> str \<Rightarrow> str \<Rightarrow> str \<Rightarrow> str \<Rightarrow> str \<Rightarrow> str \<Rightarrow> str option \<Rightarrow> str \<Rightarrow> int \<Rightarrow> out_mail" where
  "build now from_email from_name to subject body message_id in_reply_to company_id stp =
     \<lparr>om_from_name = from_name, om_from = from_email, om_to = to, om_subject = subject, om_date = now,
      om_headers = [(''Message-ID'', angled message_id)]
        @ (case in_reply_to of Some r \<Rightarrow> if r = [] then [] else [(''In-Reply-To'', angled r), (''References'', angled r)] | None \<Rightarrow> [])
        @ [(''Reply-To'', from_email), (''List-Unsubscribe'', ''<mailto:'' @ from_email @ ''?subject=stop>''),
           (''X-Leadgen-Outreach'', if stp = 0 then ''hostinger-first'' else ''hostinger-followup'')]
        @ (if company_id = [] then [] else [(''X-Leadgen-Company'', company_id)]),
      om_body = body\<rparr>"

subsection \<open>SMTP\<close>

datatype login = Login_ok | Login_refused str | Login_error str

type_synonym answer = "str + int \<times> str"

text \<open>\<open>sv_login\<close> and \<open>sv_alive\<close> are asked at attempt one and two; \<open>sv_took\<close> is the ghost.\<close>

record smtp_server =
  sv_login :: "nat \<Rightarrow> login"
  sv_alive :: "nat \<Rightarrow> bool"
  sv_helo :: "str option"
  sv_mail :: answer
  sv_rset :: "str option"
  sv_rcpt :: answer
  sv_data :: answer
  sv_took :: bool

definition not_sent :: "send_kind \<Rightarrow> str \<Rightarrow> send_result" where
  "not_sent k d = \<lparr>sr_ok = False, sr_kind = k, sr_detail = d\<rparr>"

definition short :: "str \<Rightarrow> str" where "short v = clip 160 v"

text \<open>A connection that is alive, or why there is none. The argument and the result tell whether
  the mailbox holds a connection.\<close>

definition connect_once :: "smtp_server \<Rightarrow> nat \<Rightarrow> bool \<Rightarrow> send_result + bool" where
  "connect_once sv n conn =
     (if conn then Inr (sv_alive sv n)
      else case sv_login sv n of
        Login_ok \<Rightarrow> Inr (sv_alive sv n)
      | Login_refused code \<Rightarrow> Inl (not_sent K_auth (''login refused ('' @ code @ '')''))
      | Login_error ty \<Rightarrow> Inl (not_sent K_transient (''connect: '' @ ty)))"

definition connect :: "smtp_server \<Rightarrow> bool \<Rightarrow> send_result option" where
  "connect sv conn =
     (case connect_once sv 1 conn of
        Inl r \<Rightarrow> Some r
      | Inr True \<Rightarrow> None
      | Inr False \<Rightarrow> (case connect_once sv 2 False of
          Inl r \<Rightarrow> Some r
        | Inr True \<Rightarrow> None
        | Inr False \<Rightarrow> Some (not_sent K_transient ''connection kept closing'')))"

definition before_data :: "str \<Rightarrow> send_result" where
  "before_data ty = not_sent K_transient (''before data: '' @ ty)"

text \<open>A refusal before the data: the session is reset, which may raise in turn.\<close>

definition refused :: "smtp_server \<Rightarrow> send_kind \<Rightarrow> str \<Rightarrow> send_result \<times> bool" where
  "refused sv k d = (case sv_rset sv of Some ty \<Rightarrow> (before_data ty, False) | None \<Rightarrow> (not_sent k d, True))"

definition sender_refused_kind :: "int \<Rightarrow> str \<Rightarrow> send_kind" where
  "sender_refused_kind code t = (if classify_reject code t = K_throttled \<or> 500 \<le> code then K_throttled else K_transient)"

text \<open>\<open>MAIL\<close> and \<open>RCPT\<close>: \<open>None\<close> when the server wants the data.\<close>

definition envelope :: "smtp_server \<Rightarrow> (send_result \<times> bool) option" where
  "envelope sv =
     (case sv_helo sv of Some ty \<Rightarrow> Some (before_data ty, False)
      | None \<Rightarrow> (case sv_mail sv of
          Inl ty \<Rightarrow> Some (before_data ty, False)
        | Inr (code, t) \<Rightarrow>
            if code \<noteq> 250
            then Some (refused sv (sender_refused_kind code (short t)) (''sender refused '' @ show_int code @ '' '' @ short t))
            else (case sv_rcpt sv of
                Inl ty \<Rightarrow> Some (before_data ty, False)
              | Inr (code, t) \<Rightarrow>
                  if code \<notin> {250, 251} then Some (refused sv (classify_reject code (short t)) (show_int code @ '' '' @ short t))
                  else None)))"

definition hand_over :: "smtp_server \<Rightarrow> send_result \<times> bool" where
  "hand_over sv =
     (case sv_data sv of
        Inl ty \<Rightarrow> (not_sent K_unknown (''during data: '' @ ty), False)
      | Inr (code, t) \<Rightarrow>
          if code = 250 then (\<lparr>sr_ok = True, sr_kind = K_sent, sr_detail = ''250 '' @ clip 80 (short t)\<rparr>, True)
          else (not_sent (classify_reject code (short t)) (show_int code @ '' '' @ short t), False))"

definition mail_send :: "smtp_server \<Rightarrow> bool \<Rightarrow> send_result \<times> bool" where
  "mail_send sv conn =
     (case connect sv conn of
        Some r \<Rightarrow> (r, False)
      | None \<Rightarrow> (case envelope sv of Some r \<Rightarrow> r | None \<Rightarrow> hand_over sv))"

text \<open>The ghost: the message reached the server's queue.\<close>

definition delivers :: "smtp_server \<Rightarrow> bool \<Rightarrow> bool" where
  "delivers sv conn \<longleftrightarrow> connect sv conn = None \<and> envelope sv = None \<and> sv_took sv"

text \<open>What SMTP promises: an answer to \<open>DATA\<close> tells whether the message was taken.\<close>

definition smtp_law :: "smtp_server \<Rightarrow> bool" where
  "smtp_law sv \<longleftrightarrow> (case sv_data sv of Inl ty \<Rightarrow> True | Inr (code, t) \<Rightarrow> sv_took sv = (code = 250))"

subsection \<open>IMAP\<close>

text \<open>A row of \<open>LIST\<close> that names no folder raises.\<close>

definition folder_name :: "str \<Rightarrow> str option" where
  "folder_name line =
     (if CHR 0x22 \<in> set line
      then Some (strip_by (\<lambda>c. c = CHR 0x22) (py_strip (last (rx_split (rx plain_flags [CHR '' '', CHR 0x22]) line))))
      else (case rev (filter (\<lambda>w. w \<noteq> []) (rx_split (rx plain_flags ''~s+'') line)) of [] \<Rightarrow> None | w # _ \<Rightarrow> Some w))"

definition SENT_NAME :: rx where "SENT_NAME = rx flag_I ''(^|[./])sent( items| messages)?$''"

fun find_sent :: "str option \<Rightarrow> str list \<Rightarrow> str option option" where
  "find_sent best [] = Some best"
| "find_sent best (line # rows) =
     (case folder_name line of None \<Rightarrow> None
      | Some n \<Rightarrow>
          if substr_in ([CHR 0x5C] @ ''Sent'') line then Some (Some n)
          else find_sent (if rx_found SENT_NAME n then (case best of Some b \<Rightarrow> if b = [] then Some n else Some b | None \<Rightarrow> Some n) else best) rows)"

definition sent_folder :: "str option \<Rightarrow> str list \<Rightarrow> str option" where
  "sent_folder known rows =
     (case known of Some f \<Rightarrow> Some f
      | None \<Rightarrow> map_option (\<lambda>best. case best of Some f \<Rightarrow> if f = [] then ''INBOX.Sent'' else f | None \<Rightarrow> ''INBOX.Sent'') (find_sent None rows))"

text \<open>A look into the folder: it raised, the folder was refused, or the search gave an answer: whether
  it was \<open>OK\<close> and the ids it found.\<close>

datatype look = Look_raised | Look_refused | Looked bool "str list"

fun in_sent :: "look \<Rightarrow> bool option" where
  "in_sent Look_raised = None"
| "in_sent Look_refused = None"
| "in_sent (Looked ok ids) = Some (ok \<and> ids \<noteq> [])"

subsection \<open>What a result tells\<close>

lemma refused_not_ok: "\<not> sr_ok (fst (refused sv k d))"
  by (simp add: refused_def not_sent_def before_data_def split: option.split)

lemma envelope_not_ok: "envelope sv = Some r \<Longrightarrow> \<not> sr_ok (fst r)"
  using refused_not_ok
  by (auto simp: envelope_def before_data_def not_sent_def split: option.splits sum.splits prod.splits if_splits)

lemma connect_not_ok: "connect sv conn = Some r \<Longrightarrow> \<not> sr_ok r"
  by (auto simp: connect_def connect_once_def not_sent_def split: sum.splits bool.splits if_splits login.splits)

lemma classify_known: "classify_reject code t \<noteq> K_unknown" "sender_refused_kind code t \<noteq> K_unknown"
  by (simp_all add: classify_reject_def sender_refused_kind_def)

lemma refused_known: "k \<noteq> K_unknown \<Longrightarrow> sr_kind (fst (refused sv k d)) \<noteq> K_unknown"
  by (simp add: refused_def not_sent_def before_data_def split: option.split)

lemma envelope_known: "envelope sv = Some r \<Longrightarrow> sr_kind (fst r) \<noteq> K_unknown"
  using refused_known classify_known
  by (auto simp: envelope_def before_data_def not_sent_def split: option.splits sum.splits prod.splits if_splits)

lemma connect_known: "connect sv conn = Some r \<Longrightarrow> sr_kind r \<noteq> K_unknown"
  by (auto simp: connect_def connect_once_def not_sent_def split: sum.splits bool.splits if_splits login.splits)

lemma hand_over_ok: "sr_ok (fst (hand_over sv)) \<longleftrightarrow> (\<exists>t. sv_data sv = Inr (250, t))"
  by (auto simp: hand_over_def not_sent_def split: sum.splits prod.splits)

lemma hand_over_unknown: "sr_kind (fst (hand_over sv)) = K_unknown \<longleftrightarrow> (\<exists>ty. sv_data sv = Inl ty)"
  using classify_known by (auto simp: hand_over_def not_sent_def split: sum.splits prod.splits)

lemma mail_send_honest:
  assumes "smtp_law sv"
  shows "(sr_ok (fst (mail_send sv conn)) \<longrightarrow> delivers sv conn)
    \<and> (\<not> sr_ok (fst (mail_send sv conn)) \<and> sr_kind (fst (mail_send sv conn)) \<noteq> K_unknown \<longrightarrow> \<not> delivers sv conn)
    \<and> (sr_kind (fst (mail_send sv conn)) = K_unknown \<longrightarrow>
         connect sv conn = None \<and> envelope sv = None \<and> (\<exists>ty. sv_data sv = Inl ty))"
proof (cases "connect sv conn")
  case (Some r)
  then show ?thesis using connect_not_ok connect_known by (auto simp: mail_send_def delivers_def)
next
  case c: None
  show ?thesis
  proof (cases "envelope sv")
    case (Some r)
    then show ?thesis using c envelope_not_ok envelope_known by (auto simp: mail_send_def delivers_def)
  next
    case None
    have m: "mail_send sv conn = hand_over sv" using c None by (simp add: mail_send_def)
    have "sv_took sv = sr_ok (fst (hand_over sv))" if "sr_kind (fst (hand_over sv)) \<noteq> K_unknown"
      using that assms unfolding hand_over_unknown hand_over_ok
      by (cases "sv_data sv") (auto simp: smtp_law_def)
    moreover have "sr_ok (fst (hand_over sv)) \<Longrightarrow> sr_kind (fst (hand_over sv)) \<noteq> K_unknown"
      unfolding hand_over_unknown hand_over_ok by auto
    ultimately show ?thesis using c None hand_over_unknown [of sv] unfolding m delivers_def by auto
  qed
qed

lemma mail_send_reports:
  "sr_ok (fst (mail_send sv conn)) \<longleftrightarrow> connect sv conn = None \<and> envelope sv = None \<and> (\<exists>t. sv_data sv = Inr (250, t))"
  "sr_kind (fst (mail_send sv conn)) = K_unknown \<longleftrightarrow> connect sv conn = None \<and> envelope sv = None \<and> (\<exists>ty. sv_data sv = Inl ty)"
proof -
  have "connect sv conn = Some r \<Longrightarrow> \<not> sr_ok r \<and> sr_kind r \<noteq> K_unknown" for r using connect_not_ok connect_known by blast
  moreover have "envelope sv = Some r \<Longrightarrow> \<not> sr_ok (fst r) \<and> sr_kind (fst r) \<noteq> K_unknown" for r using envelope_not_ok envelope_known by fastforce
  ultimately show "sr_ok (fst (mail_send sv conn)) \<longleftrightarrow> connect sv conn = None \<and> envelope sv = None \<and> (\<exists>t. sv_data sv = Inr (250, t))"
    "sr_kind (fst (mail_send sv conn)) = K_unknown \<longleftrightarrow> connect sv conn = None \<and> envelope sv = None \<and> (\<exists>ty. sv_data sv = Inl ty)"
    using hand_over_ok [of sv] hand_over_unknown [of sv] unfolding mail_send_def by (auto split: option.split)
qed

text \<open>C26. A send tells the truth, whatever the server does. It reports success exactly when the server wanted the data and answered
  them with 250, and then the server has taken the message; it reports an unknown outcome exactly when an exception came after
  the data began, and then the server may or may not have taken it; and on every other result the server has not taken the
  message, so sending it again duplicates nothing. (That a server which answers 250 has taken the message, and one
  which answers anything else has not, is what is relied on.)\<close>

theorem send_result_honest:
  assumes "smtp_law sv"
  shows "(sr_ok (fst (mail_send sv conn)) \<longleftrightarrow> connect sv conn = None \<and> envelope sv = None \<and> (\<exists>t. sv_data sv = Inr (250, t)))
    \<and> (sr_kind (fst (mail_send sv conn)) = K_unknown \<longleftrightarrow> connect sv conn = None \<and> envelope sv = None \<and> (\<exists>ty. sv_data sv = Inl ty))
    \<and> (if sr_ok (fst (mail_send sv conn)) then delivers sv conn
       else if sr_kind (fst (mail_send sv conn)) = K_unknown then True else \<not> delivers sv conn)"
  using mail_send_reports mail_send_honest [OF assms] by simp

definition demo_server :: smtp_server where
  "demo_server = \<lparr>sv_login = (\<lambda>n. Login_ok), sv_alive = (\<lambda>n. n = 2), sv_helo = None, sv_mail = Inr (250, []), sv_rset = None,
     sv_rcpt = Inr (251, []), sv_data = Inr (250, ''queued''), sv_took = True\<rparr>"

theorem send_result_honest_witness:
  "sr_ok (fst (mail_send demo_server True)) \<and> delivers demo_server True"
proof -
  have "smtp_law demo_server" by (simp add: smtp_law_def demo_server_def)
  moreover have "sr_ok (fst (mail_send demo_server True))" by code_simp
  ultimately show ?thesis using send_result_honest [of demo_server True] by simp
qed

end
