(* ===== verification/OutreachQueue.thy ===== *)
theory OutreachQueue
  imports SenderPacing SendGuard MailTransport
begin

text \<open>
  \<open>src/cloudos/outreach/sender.py\<close>, the queue of prepared emails: claiming, the last check, the send and
  what becomes of the row, recovery after a crash and the sweep. The state is the conversation memory with
  the tables of \<open>db/migrations/009\<close> and \<open>011\<close>. Each operation lists what it reads from outside: the time, whether
  the guard's query raises, fresh identifiers, the mail servers. An operation that raises leaves the state of
  its last commit.
\<close>

datatype qstate = Queued | Claimed | Sent | Failed | Cancelled | Ambiguous

record qrow =
  qr_id :: int
  qr_company :: str
  qr_step :: int
  qr_recipient :: str
  qr_subject :: str
  qr_body :: str
  qr_variant :: "str option"
  qr_root :: "str option"
  qr_state :: qstate
  qr_due :: time
  qr_msgid :: "str option"
  qr_by :: "str option"
  qr_claimed_at :: "time option"
  qr_attempts :: int
  qr_sent_at :: "time option"
  qr_response :: "str option"
  qr_message :: "str option"
  qr_reason :: "str option"
  qr_campaign :: str
  qr_source :: str
  qr_evidence :: pyv

record copy_row =
  cc_company :: str
  cc_campaign :: str
  cc_step :: int
  cc_subject :: str
  cc_body :: str
  cc_version :: str
  cc_evidence :: pyv
  cc_passed_at :: "time option"
  cc_updated :: time

record outbox =
  ob_conv :: conv
  ob_queue :: "qrow list"
  ob_copies :: "copy_row list"
  ob_keys :: "(str \<times> pyv) list"
  ob_next :: int

text \<open>An exception of the store, a broken constraint of the queue, or a loop that never ends.\<close>

datatype send_exn = Store_raised conv_exn | Queue_check | Hangs

definition lift_exn :: "conv_exn + 'a \<Rightarrow> send_exn + 'a" where
  "lift_exn r = (case r of Inl e \<Rightarrow> Inl (Store_raised e) | Inr x \<Rightarrow> Inr x)"

definition sbind :: "send_exn + 'a \<Rightarrow> ('a \<Rightarrow> send_exn + 'b) \<Rightarrow> send_exn + 'b" where
  "sbind r f = (case r of Inl e \<Rightarrow> Inl e | Inr x \<Rightarrow> f x)"

lemma sbind_simps [simp]: "sbind (Inr x) f = f x" "sbind (Inl e) f = Inl e"
  by (simp_all add: sbind_def)

lemma sbind_eq_Inr: "sbind r f = Inr y \<longleftrightarrow> (\<exists>x. r = Inr x \<and> f x = Inr y)"
  by (cases r) auto

lemma lift_exn_Inr [simp]: "lift_exn r = Inr x \<longleftrightarrow> r = Inr x"
  by (cases r) (simp_all add: lift_exn_def)

definition map_queue :: "(qrow list \<Rightarrow> qrow list) \<Rightarrow> outbox \<Rightarrow> outbox" where
  "map_queue f b = b\<lparr>ob_queue := f (ob_queue b)\<rparr>"

definition map_conv :: "(conv \<Rightarrow> conv) \<Rightarrow> outbox \<Rightarrow> outbox" where
  "map_conv f b = b\<lparr>ob_conv := f (ob_conv b)\<rparr>"

lemma map_queue_sel [simp]:
  "ob_queue (map_queue f b) = f (ob_queue b)" "ob_conv (map_queue f b) = ob_conv b" "ob_copies (map_queue f b) = ob_copies b"
  "ob_keys (map_queue f b) = ob_keys b" "ob_next (map_queue f b) = ob_next b"
  by (simp_all add: map_queue_def)

lemma map_conv_sel [simp]:
  "ob_queue (map_conv f b) = ob_queue b" "ob_conv (map_conv f b) = f (ob_conv b)" "ob_copies (map_conv f b) = ob_copies b"
  "ob_keys (map_conv f b) = ob_keys b" "ob_next (map_conv f b) = ob_next b"
  by (simp_all add: map_conv_def)

definition upd_id :: "int \<Rightarrow> (qrow \<Rightarrow> qrow) \<Rightarrow> outbox \<Rightarrow> outbox" where
  "upd_id i f = map_queue (upd_where (\<lambda>q. qr_id q = i) f)"

definition sent_last_24h :: "time \<Rightarrow> outbox \<Rightarrow> nat" where
  "sent_last_24h now b = count_where (\<lambda>q. qr_state q = Sent \<and> (case qr_sent_at q of Some t \<Rightarrow> now - day < t | None \<Rightarrow> False)) (ob_queue b)"

text \<open>\<open>INSERT \<dots> ON CONFLICT (company_id, step) DO NOTHING\<close>.\<close>

definition insert_row :: "qrow \<Rightarrow> outbox \<Rightarrow> send_exn + outbox" where
  "insert_row q b =
     (if \<not> (0 \<le> qr_step q \<and> qr_step q \<le> 5) then Inl Queue_check
      else if list_ex (\<lambda>x. qr_company x = qr_company q \<and> qr_step x = qr_step q) (ob_queue b) then Inr b
      else Inr (b\<lparr>ob_queue := ob_queue b @ [q\<lparr>qr_id := ob_next b\<rparr>], ob_next := ob_next b + 1\<rparr>))"

subsection \<open>Claiming\<close>

text \<open>\<open>copy_variant LIKE 'v4-%'\<close>; a missing variant makes the comparison null.\<close>

definition like_v4 :: "str option \<Rightarrow> bool" where
  "like_v4 v \<longleftrightarrow> (case v of Some s \<Rightarrow> startswith s (version_value V4 @ ''-'') | None \<Rightarrow> False)"

text \<open>The order of the claims: descending puts null first, then true, then false.\<close>

definition send_order :: "qrow \<Rightarrow> int \<times> int \<times> time \<times> int" where
  "send_order q = (if qr_step q = 0 \<and> qr_variant q = None then 0 else if qr_step q = 0 \<and> like_v4 (qr_variant q) then 1 else 2,
     - qr_step q, qr_due q, qr_id q)"

definition due_to_send :: "time \<Rightarrow> bool \<Rightarrow> qrow \<Rightarrow> bool" where
  "due_to_send now followups q \<longleftrightarrow> qr_state q = Queued \<and> qr_due q \<le> now \<and> (followups \<or> qr_step q = 0)"

definition claim_row :: "time \<Rightarrow> str \<Rightarrow> qrow \<Rightarrow> qrow" where
  "claim_row now who q = q\<lparr>qr_state := Claimed, qr_by := Some who, qr_claimed_at := Some now, qr_attempts := qr_attempts q + 1\<rparr>"

text \<open>\<open>locked\<close>: the rows another transaction holds, which the statement skips.\<close>

definition claim :: "time \<Rightarrow> str \<Rightarrow> bool \<Rightarrow> int list \<Rightarrow> outbox \<Rightarrow> qrow option \<times> outbox" where
  "claim now who followups locked b =
     (case least_by send_order (filter (\<lambda>q. due_to_send now followups q \<and> qr_id q \<notin> set locked) (ob_queue b)) of
        None \<Rightarrow> (None, b)
      | Some q \<Rightarrow> (Some (claim_row now who q), upd_id (qr_id q) (claim_row now who) b))"

definition release_row :: "time \<Rightarrow> time \<Rightarrow> bool \<Rightarrow> qrow \<Rightarrow> qrow" where
  "release_row now delay undo q =
     (if qr_state q = Claimed
      then q\<lparr>qr_state := Queued, qr_by := None, qr_claimed_at := None, qr_due := max (qr_due q) (now + delay),
             qr_attempts := qr_attempts q - (if undo then 1 else 0)\<rparr>
      else q)"

definition release :: "time \<Rightarrow> time \<Rightarrow> bool \<Rightarrow> int \<Rightarrow> outbox \<Rightarrow> outbox" where
  "release now delay undo i = upd_id i (release_row now delay undo)"

definition finish_row :: "qstate \<Rightarrow> str \<Rightarrow> qrow \<Rightarrow> qrow" where
  "finish_row s reason q = q\<lparr>qr_state := s, qr_reason := Some (clip 300 reason)\<rparr>"

text \<open>The statements that move a company only while it is ready.\<close>

definition mark_ready_company :: "str \<Rightarrow> str \<Rightarrow> conv \<Rightarrow> conv" where
  "mark_ready_company i oc c = c\<lparr>cv_companies := upd_where
     (\<lambda>r. co_id r = i \<and> (co_outreach r = ''outreach_ready'' \<or> co_outreach r = ''handed_off'')) (\<lambda>r. r\<lparr>co_outreach := oc\<rparr>) (cv_companies c)\<rparr>"

definition stamp_first :: "str \<Rightarrow> time \<Rightarrow> conv \<Rightarrow> conv" where
  "stamp_first i w c = c\<lparr>cv_companies := upd_where (\<lambda>r. co_id r = i)
     (\<lambda>r. r\<lparr>co_first_contacted := Some (case co_first_contacted r of Some t \<Rightarrow> t | None \<Rightarrow> w)\<rparr>) (cv_companies c)\<rparr>"

definition ambiguous_history :: "qrow \<Rightarrow> time \<Rightarrow> conv \<Rightarrow> conv" where
  "ambiguous_history q w c =
     (let k = ''ambiguous:'' @ show_int (qr_id q) in
      if list_ex (\<lambda>h. hi_key h = k) (cv_history c) then c
      else c\<lparr>cv_history := cv_history c @ [\<lparr>hi_company = Some (qr_company q), hi_email = Some (qr_recipient q),
                hi_campaign = ''ambiguous'', hi_sent_at = w, hi_status = ''sent'', hi_provider = ''hostinger'', hi_key = k\<rparr>]\<rparr>)"

definition may_have_gone :: "time \<Rightarrow> qrow \<Rightarrow> conv \<Rightarrow> conv" where
  "may_have_gone now q c =
     (let w = (case qr_claimed_at q of Some t \<Rightarrow> t | None \<Rightarrow> now); i = qr_company q
      in ambiguous_history q w (mark_ready_company i ''contacted'' (stamp_first i w c)))"

definition finish :: "time \<Rightarrow> qrow \<Rightarrow> qstate \<Rightarrow> str \<Rightarrow> outbox \<Rightarrow> outbox" where
  "finish now item s reason b =
     (let b1 = upd_id (qr_id item) (finish_row s reason) b
      in if s = Ambiguous then map_conv (may_have_gone now item) b1 else b1)"

subsection \<open>A recorded send\<close>

record send_env =
  sn_cfg :: sender_cfg
  sn_env :: sender_env
  sn_zone :: zone
  sn_h32 :: "str \<Rightarrow> nat"
  sn_addr :: "str \<Rightarrow> str"
  sn_footer :: str

definition kind_of :: "int \<Rightarrow> str" where "kind_of stp = (if stp = 0 then ''cold'' else ''followup'')"

definition send_record :: "str \<Rightarrow> time \<Rightarrow> qrow \<Rightarrow> str \<Rightarrow> confirmed" where
  "send_record from_email sent_at item hdr =
     \<lparr>cf_company = qr_company item, cf_recipient = qr_recipient item, cf_sender = from_email, cf_subject = qr_subject item,
      cf_body = qr_body item, cf_sent_at = sent_at, cf_provider = ''hostinger'', cf_provider_id = hdr,
      cf_thread = Some (text_or (text_opt (qr_root item)) hdr), cf_kind = kind_of (qr_step item), cf_offer = None,
      cf_variant = qr_variant item, cf_cta = None, cf_price = None, cf_draft = None\<rparr>"

text \<open>\<open>review_campaign.add_footer\<close>; \<open>sn_footer\<close> is the opt-out line of the campaign's YAML file.\<close>

definition add_footer :: "send_env \<Rightarrow> str \<Rightarrow> str \<Rightarrow> str" where
  "add_footer e body postal = lines_of [py_strip body, [], ''--'', py_strip postal, sn_footer e]"

definition qa_reason :: "str list \<Rightarrow> str" where "qa_reason ps = ''qa: '' @ py_join ''; '' ps"

text \<open>A row as the columns of an insert give it: the defaults of \<open>outreach_queue\<close>, then the problems of the check.\<close>

definition new_row :: "str \<Rightarrow> int \<Rightarrow> str \<Rightarrow> email \<Rightarrow> str list \<Rightarrow> time \<Rightarrow> qrow" where
  "new_row i stp to e problems due =
     \<lparr>qr_id = 0, qr_company = i, qr_step = stp, qr_recipient = to, qr_subject = em_subject e, qr_body = em_body e,
      qr_variant = Some (em_variant e), qr_root = None, qr_state = (if problems = [] then Queued else Cancelled), qr_due = due,
      qr_msgid = None, qr_by = None, qr_claimed_at = None, qr_attempts = 0, qr_sent_at = None, qr_response = None,
      qr_message = None, qr_reason = (if problems = [] then None else Some (qa_reason problems)), qr_campaign = ''legacy'',
      qr_source = ''python-generated'', qr_evidence = VDict []\<rparr>"

definition first_row :: "qrow \<Rightarrow> outbox \<Rightarrow> qrow" where
  "first_row item b =
     (if qr_step item = 0 then item
      else case find (\<lambda>q. qr_company q = qr_company item \<and> qr_step q = 0) (ob_queue b) of Some q \<Rightarrow> q | None \<Rightarrow> item)"

definition approved_copy :: "str \<Rightarrow> str \<Rightarrow> int \<Rightarrow> outbox \<Rightarrow> copy_row option" where
  "approved_copy i campaign stp b =
     find (\<lambda>k. cc_company k = i \<and> cc_campaign k = campaign \<and> cc_step k = stp \<and> cc_passed_at k \<noteq> None) (ob_copies b)"

definition named :: "str \<Rightarrow> conv \<Rightarrow> str" where
  "named i c = (case company_row c i of Some r \<Rightarrow> co_name r | None \<Rightarrow> [])"

definition or_hang :: "'a option \<Rightarrow> send_exn + 'a" where
  "or_hang x = (case x of Some y \<Rightarrow> Inr y | None \<Rightarrow> Inl Hangs)"

definition next_approved :: "send_env \<Rightarrow> int \<Rightarrow> qrow \<Rightarrow> str \<Rightarrow> time \<Rightarrow> qrow \<Rightarrow> outbox \<Rightarrow> send_exn + outbox" where
  "next_approved e m item rt sent_at first b =
     (let days = sc_followup_days (sn_cfg e); postal = postal_address (sn_env e); n = nat (qr_step item) in
      case approved_copy (qr_company item) REVIEWS (qr_step item + 1) b of
        None \<Rightarrow> Inr b
      | Some k \<Rightarrow>
          if \<not> qr_step item < int (length days) then Inr b
          else (let mail = \<lparr>em_subject = text_or (cc_subject k) (qr_subject first), em_body = add_footer e (cc_body k) postal,
                            em_variant = cc_version k\<rparr>;
                    problems = qa mail postal (named (qr_company item) (ob_conv b))
                in sbind (or_hang (add_sequence_days (sn_zone e) m (sn_cfg e) REVIEWS sent_at (days ! n))) (\<lambda>due.
                   insert_row ((new_row (qr_company item) (qr_step item + 1) (qr_recipient item) mail problems due)
                     \<lparr>qr_root := Some rt, qr_campaign := REVIEWS, qr_source := cc_version k,
                      qr_evidence := (if truthy (cc_evidence k) then cc_evidence k else VDict [])\<rparr>) b)))"

text \<open>The arm a follow-up stays in: the word before the first dash of the first touch's variant.\<close>

definition arm_of :: "str option \<Rightarrow> copy_version" where
  "arm_of v = (let w = takeWhile (\<lambda>c. c \<noteq> CHR ''-'') (text_opt v) in
     if w = version_value V3 then V3 else if w = version_value V4 then V4 else V2)"

definition next_generated :: "send_env \<Rightarrow> int \<Rightarrow> qrow \<Rightarrow> str \<Rightarrow> time \<Rightarrow> qrow \<Rightarrow> outbox \<Rightarrow> send_exn + outbox" where
  "next_generated e m item rt sent_at first b =
     (let v = arm_of (qr_variant first); days = followup_days (sn_cfg e) v; postal = postal_address (sn_env e)
      in if \<not> qr_step item < int (length days) then Inr b
         else (case company_row (ob_conv b) (qr_company item) of
             None \<Rightarrow> Inl (Store_raised (KeyErr ''company''))
           | Some r \<Rightarrow>
               (let mail = followup r (qr_step item + 1) (qr_subject first) (sender_name (sn_cfg e) (sn_env e)) postal v;
                    problems = qa mail postal (co_name r)
                in sbind (or_hang (add_sequence_days (sn_zone e) m (sn_cfg e) (text_or (qr_campaign first) ''legacy'') sent_at
                              (days ! nat (qr_step item)))) (\<lambda>due.
                   insert_row ((new_row (qr_company item) (qr_step item + 1) (qr_recipient item) mail problems due)
                     \<lparr>qr_root := Some rt\<rparr>) b))))"

definition sent_row :: "time \<Rightarrow> str \<Rightarrow> str \<Rightarrow> qrow \<Rightarrow> qrow" where
  "sent_row sent_at note mid q = q\<lparr>qr_state := Sent, qr_sent_at := Some sent_at, qr_response := Some (clip 200 note), qr_message := Some mid\<rparr>"

text \<open>\<open>record_sent\<close> of a row whose Message-ID is saved: one transaction.\<close>

definition record_sent ::
  "send_env \<Rightarrow> time \<Rightarrow> str \<Rightarrow> int \<Rightarrow> str \<Rightarrow> qrow \<Rightarrow> str \<Rightarrow> time \<Rightarrow> str \<Rightarrow> outbox \<Rightarrow> send_exn + outbox" where
  "record_sent e now newid m from_email item hdr sent_at note b =
     sbind (lift_exn (record_confirmed_send (sn_addr e) now newid (send_record from_email sent_at item hdr) (ob_conv b))) (\<lambda>(new, c1).
     sbind (case new of Some mid \<Rightarrow> Inr mid
        | None \<Rightarrow> (case message_by_provider_id c1 hdr of Some x \<Rightarrow> Inr (mg_id x) | None \<Rightarrow> Inl (Store_raised (KeyErr hdr)))) (\<lambda>mid.
     let b1 = upd_id (qr_id item) (sent_row sent_at note mid) (b\<lparr>ob_conv := c1\<rparr>);
         b2 = map_conv (mark_ready_company (qr_company item) ''contacted'') b1;
         first = first_row item b2; rt = text_or (text_opt (qr_root item)) hdr
     in if text_or (qr_campaign first) ''legacy'' = REVIEWS then next_approved e m item rt sent_at first b2
        else next_generated e m item rt sent_at first b2))"

end
