(* ===== verification/LeadPipeline.thy ===== *)
theory LeadPipeline
  imports LeadEngine OutreachQueue
begin

text \<open>
  \<open>src/cloudos/leadgen/pipeline.py\<close>: the unattended batch. It takes the lock of the checkpoint row (migration 012), goes through the companies that
  are not finished, or, when there are none, through what a public source finds, reads each website, qualifies, stores, stages a draft for
  whoever is ready, and gives the lock back. Each item is its own transaction. Websites, sitemaps and the source are parameters; the
  clock of the program and that of the database are one.
\<close>

record batch_sample =
  bs_id :: str
  bs_name :: str
  bs_website :: str
  bs_status :: str
  bs_level :: str
  bs_email :: str
  bs_count :: nat

record batch_report =
  br_status :: str
  br_source :: str
  br_before :: str
  br_after :: "str option"
  br_found :: nat
  br_accessed :: nat
  br_failed :: nat
  br_emails :: nat
  br_validated :: nat
  br_stored :: nat
  br_ready :: nat
  br_drafts :: nat
  br_duplicates :: nat
  br_errors :: "str list"
  br_samples :: "batch_sample list"

record checkpoint =
  cp_last :: "str option"
  cp_running :: bool
  cp_locked :: "time option"
  cp_token :: "str option"
  cp_items :: int
  cp_stats :: "batch_report option"

text \<open>The tables of a batch: leads, the queue of the sender with its next number, the checkpoint row, the runs.\<close>

record pipe =
  pp_leads :: leads
  pp_queue :: "qrow list"
  pp_next :: int
  pp_check :: "checkpoint option"
  pp_runs :: "batch_report list"

subsection \<open>The lock\<close>

definition lock_timeout :: time where "lock_timeout = 15 * minute"

definition checkpoint_row :: "pipe \<Rightarrow> checkpoint" where
  "checkpoint_row s = (case pp_check s of Some r \<Rightarrow> r
     | None \<Rightarrow> \<lparr>cp_last = None, cp_running = False, cp_locked = None, cp_token = None, cp_items = 0, cp_stats = None\<rparr>)"

definition lock_held :: "time \<Rightarrow> checkpoint \<Rightarrow> bool" where
  "lock_held now r \<longleftrightarrow> cp_running r \<and> (case cp_locked r of Some t \<Rightarrow> now - t < lock_timeout | None \<Rightarrow> False)"

text \<open>The answer: whether the lock was taken, and the row before.\<close>

definition acquire_batch_lock :: "time \<Rightarrow> str \<Rightarrow> pipe \<Rightarrow> (bool \<times> checkpoint) \<times> pipe" where
  "acquire_batch_lock now token s =
     (let r = checkpoint_row s in
      if lock_held now r then ((False, r), s\<lparr>pp_check := Some r\<rparr>)
      else ((True, r), s\<lparr>pp_check := Some (r\<lparr>cp_running := True, cp_locked := Some now, cp_token := Some token\<rparr>)\<rparr>))"

definition released :: "str option \<Rightarrow> nat \<Rightarrow> batch_report option \<Rightarrow> checkpoint \<Rightarrow> checkpoint" where
  "released mark n stats r =
     r\<lparr>cp_running := False, cp_locked := None, cp_token := None,
       cp_last := (case mark of Some i \<Rightarrow> if i = [] then cp_last r else Some i | None \<Rightarrow> cp_last r), cp_items := cp_items r + int n,
       cp_stats := (if stats = None then cp_stats r else stats)\<rparr>"

definition may_release :: "str \<Rightarrow> checkpoint \<Rightarrow> bool" where
  "may_release token r \<longleftrightarrow> token = [] \<or> cp_token r = Some token \<or> cp_token r = None"

definition release_batch_lock :: "str \<Rightarrow> str option \<Rightarrow> nat \<Rightarrow> batch_report option \<Rightarrow> pipe \<Rightarrow> pipe" where
  "release_batch_lock token mark n stats s =
     s\<lparr>pp_check := map_option (\<lambda>r. if may_release token r then released mark n stats r else r) (pp_check s)\<rparr>"

definition get_checkpoint_status :: "pipe \<Rightarrow> checkpoint \<times> pipe" where
  "get_checkpoint_status s = (checkpoint_row s, s\<lparr>pp_check := Some (checkpoint_row s)\<rparr>)"

subsection \<open>Reading a site\<close>

definition group2 :: "rmatch \<Rightarrow> str" where "group2 m = (case rm_group m 2 of Some g \<Rightarrow> g | None \<Rightarrow> [])"

definition ANCHOR :: rx where
  "ANCHOR = rx flag_IS (''<a[^>]+href=['' @ dq @ sq @ '']([^'' @ dq @ sq @ ''#]+)['' @ dq @ sq @ ''][^>]*>(.*?)</a>'')"

definition ANCHOR_TEXT :: rx where "ANCHOR_TEXT = rx flag_I ''contact|get in touch|about us|our team|locations?''"

definition LOC :: rx where "LOC = rx flag_I ''<loc>(https?://[^<]+)</loc>''"

definition add_page :: "str \<Rightarrow> str \<Rightarrow> str list \<Rightarrow> str list" where
  "add_page final u links = (if u \<notin> set links \<and> u \<noteq> final then links @ [u] else links)"

text \<open>\<open>ok\<close>: which addresses of the own domain are wanted.\<close>

fun own_pages :: "web \<Rightarrow> (str \<Rightarrow> bool) \<Rightarrow> str \<Rightarrow> str \<Rightarrow> str list \<Rightarrow> str list \<Rightarrow> str list option" where
  "own_pages w ok final reg [] links = Some links"
| "own_pages w ok final reg (h # hs) links =
     (case wb_join w final h of None \<Rightarrow> None
      | Some u \<Rightarrow> (case url_host w u of None \<Rightarrow> None
        | Some host \<Rightarrow> own_pages w ok final reg hs (if registrable_domain host = reg \<and> ok u then add_page final u links else links)))"

definition wanted_page :: "str \<Rightarrow> bool" where "wanted_page u \<longleftrightarrow> rx_found CONTACT_LINK u \<and> \<not> rx_found SKIP_LINK u"

definition anchors :: "str \<Rightarrow> str list" where
  "anchors html = map group1 (filter (\<lambda>m. rx_found ANCHOR_TEXT (py_strip (erased TAGS (group2 m)))) (rx_finditer ANCHOR html))"

definition discover_pages :: "web \<Rightarrow> str \<Rightarrow> str \<Rightarrow> str list option" where
  "discover_pages w final html =
     (case url_host w final of None \<Rightarrow> None
      | Some base \<Rightarrow> (let reg = registrable_domain base in
          case own_pages w wanted_page final reg (found_groups HREF html) [] of None \<Rightarrow> None
          | Some links \<Rightarrow> map_option (\<lambda>ls. take (nat (wb_max_pages w - 1)) (order_by link_order ls))
                            (own_pages w (\<lambda>u. \<not> rx_found SKIP_LINK u) final reg (anchors html) links)))"

text \<open>\<open>sm u\<close>: the text of a sitemap that answers 200, \<open>None\<close> for everything else.\<close>

definition sitemap_pages :: "(str \<Rightarrow> str option) \<Rightarrow> str \<Rightarrow> str list" where
  "sitemap_pages sm u = (case sm u of None \<Rightarrow> []
     | Some t \<Rightarrow> fold (\<lambda>loc ls. if wanted_page loc \<and> loc \<notin> set ls then ls @ [loc] else ls) (found_groups LOC t) [])"

definition batch_pages :: "web \<Rightarrow> (str \<Rightarrow> str option) \<Rightarrow> str \<Rightarrow> str \<Rightarrow> (str \<times> str) list option" where
  "batch_pages w sm final html =
     (if is_shared_host (wb_bracket w) final then Some []
      else case discover_pages w final html of None \<Rightarrow> None
      | Some links \<Rightarrow> (case (if links \<noteq> [] then Some links else map_option (sitemap_pages sm) (wb_join w final ''/sitemap.xml'')) of None \<Rightarrow> None
        | Some ls \<Rightarrow> Some (List.map_filter (\<lambda>u. case wb_get w u of Page a t \<Rightarrow> Some (a, t) | _ \<Rightarrow> None)
                            (take (nat (wb_max_pages w - 1)) (order_by link_order ls)))))"

definition after_at :: "str \<Rightarrow> str" where "after_at email = before_char (CHR ''@'') (after_char (CHR ''@'') email)"

definition batch_status :: "web \<Rightarrow> str \<Rightarrow> str" where
  "batch_status w email = (if after_at email \<noteq> [] \<and> wb_mx w (after_at email) then ''validated'' else ''invalid'')"

definition batch_finding :: "web \<Rightarrow> (str \<times> str) list \<Rightarrow> str \<times> str \<Rightarrow> finding" where
  "batch_finding w seen er = (finding_of w seen er)\<lparr>fd_status := batch_status w (fst er)\<rparr>"

definition batch_findings :: "web \<Rightarrow> (str \<times> str) list \<Rightarrow> str \<Rightarrow> finding list" where
  "batch_findings w seen site = order_by (\<lambda>f. if validated f then 0 else (1 :: nat)) (map (batch_finding w seen) (rank_emails (map fst seen) site))"

text \<open>What is read: the answer, and how many entries of its list of emails are no emails at all. That happens on a site that refuses reading,
  for each address of the listing.\<close>

definition read_for_batch :: "web \<Rightarrow> (str \<Rightarrow> str option) \<Rightarrow> str \<Rightarrow> (str \<times> str) list \<Rightarrow> str \<Rightarrow> str \<Rightarrow> enrichment option" where
  "read_for_batch w sm website extra final page =
     (let n = (new_enrichment website)\<lparr>en_final := final\<rparr>; t = visible_text w page in
      if rx_found PARKED (take 4000 t) \<or> length t < 80 then Some (n\<lparr>en_parked := True, en_error := ''parked or empty site''\<rparr>)
      else case batch_pages w sm final page of None \<Rightarrow> None
      | Some others \<Rightarrow> (case url_host w final of None \<Rightarrow> None
        | Some site \<Rightarrow>
            (let pages = (final, page) # others
             in Some (n\<lparr>en_pages := length pages, en_emails := batch_findings w (seen_emails w pages extra) site,
                  en_facts := page_facts w page (py_join '' '' (map (visible_text w \<circ> snd) pages)) @ [(''pages_read'', VInt (int (length pages)))],
                  en_ok := True\<rparr>))))"

definition enrich_with_sitemaps :: "web \<Rightarrow> (str \<Rightarrow> str option) \<Rightarrow> str \<Rightarrow> (str \<times> str) list \<Rightarrow> (enrichment \<times> nat) option" where
  "enrich_with_sitemaps w sm website extra =
     (case wb_get w (with_scheme website) of
        Fetch_raised ty \<Rightarrow> Some ((new_enrichment website)\<lparr>en_dead := True, en_error := ''unreachable: '' @ ty\<rparr>, 0)
      | No_page st robots \<Rightarrow>
          if refuses_reading st robots
          then Some ((new_enrichment website)\<lparr>en_blocked := True, en_error := ''site refuses automated reading ('' @ status_text w st robots @ '')''\<rparr>,
                     length (listed_emails extra))
          else Some ((new_enrichment website)\<lparr>en_dead := True, en_error := ''homepage not readable (status '' @ status_text w st robots @ '')''\<rparr>, 0)
      | Page final page \<Rightarrow> map_option (\<lambda>n. (n, 0)) (read_for_batch w sm website extra final page))"

subsection \<open>An item\<close>

text \<open>What is worked on: a company of the table (with its id), or a candidate of the source.\<close>

record batch_item =
  it_id :: "str option"
  it_name :: str
  it_website :: str
  it_industry :: str
  it_city :: str
  it_state :: str
  it_phone :: str
  it_emails :: "str list"
  it_facts :: pyv

record batch_env =
  be_lead :: lead_env
  be_web :: web
  be_sitemap :: "str \<Rightarrow> str option"
  be_number :: "pyv \<Rightarrow> str + str"
  be_postal :: str
  be_policy :: failure_policy
  be_repeat :: time
  be_feedback :: "(str \<times> str) list option"
  be_catalog :: "lead_query list"
  be_search :: "nat \<Rightarrow> lead_query \<Rightarrow> searched"
  be_backlog_fails :: "str option"
  be_dead :: "nat \<Rightarrow> bool"
  be_release_fails :: "str option"
  be_now :: "nat \<Rightarrow> time"
  be_id :: "nat \<Rightarrow> str"
  be_text :: "str \<Rightarrow> str"

text \<open>\<open>rating:g\<close> is \<open>be_number\<close>; it may raise.\<close>

definition draft_facts :: "pyv \<Rightarrow> pydict option" where
  "draft_facts v =
     (if \<not> truthy v then Some []
      else case v of VDict d \<Rightarrow> Some d
      | VStr s \<Rightarrow> (case json_loads s of None \<Rightarrow> Some [] | Some (VDict d) \<Rightarrow> Some d | Some x \<Rightarrow> None)
      | _ \<Rightarrow> None)"

definition draft_hook :: "batch_env \<Rightarrow> batch_item \<Rightarrow> pyv \<Rightarrow> pyv \<Rightarrow> str + str" where
  "draft_hook e it reviews rating =
     (let shown = fact_text (ev_shown (be_lead e)) reviews; start = ''I noticed '' @ it_name it @ '' has '' @ shown @ '' Google reviews'' in
      if truthy reviews \<and> truthy rating
      then (case be_number e rating of Inl x \<Rightarrow> Inl x | Inr g \<Rightarrow> Inr (start @ '' at '' @ g @ '' stars.''))
      else if truthy reviews then Inr (start @ ''.'')
      else Inr (''I was looking at '' @ (if it_industry it = [] then ''local'' else it_industry it) @ '' businesses in ''
             @ (if it_city it = [] then ''your area'' else it_city it) @ '' and came across '' @ it_name it @ ''.''))"

definition nl2 :: str where "nl2 = [CHR 0x0A, CHR 0x0A]"

definition draft_body :: "batch_env \<Rightarrow> batch_item \<Rightarrow> str \<Rightarrow> str" where
  "draft_body e it hook =
     ''Hi '' @ it_name it @ '' team,'' @ nl2 @ hook
     @ '' We help local service businesses get more Google reviews and increase their Google Maps visibility ''
     @ ''so more nearby homeowners call you first.'' @ nl2
     @ ''Would you be open to me sharing a 2-minute video breakdown of your local visibility?'' @ nl2
     @ ''Matt'' @ nl2 @ ''--'' @ [CHR 0x0A] @ be_postal e @ [CHR 0x0A]
     @ ''If you would rather not hear from me, reply '' @ dq @ ''stop'' @ dq @ '' and I will not email you again.''"

definition staged_row :: "time \<Rightarrow> str \<Rightarrow> str \<Rightarrow> str \<Rightarrow> str \<Rightarrow> pyv \<Rightarrow> qrow" where
  "staged_row now i to subject body evidence =
     \<lparr>qr_id = 0, qr_company = i, qr_step = 0, qr_recipient = to, qr_subject = subject, qr_body = body, qr_variant = Some ''reviews_v1'',
       qr_root = None, qr_state = Queued, qr_due = now, qr_msgid = None, qr_by = None, qr_claimed_at = None, qr_attempts = 0,
       qr_sent_at = None, qr_response = None, qr_message = None, qr_reason = None, qr_campaign = ''google_reviews_maps_299'',
       qr_source = ''deterministic_engine'', qr_evidence = evidence\<rparr>"

definition stage_row :: "qrow \<Rightarrow> pipe \<Rightarrow> bool \<times> pipe" where
  "stage_row q s =
     (if list_ex (\<lambda>x. qr_company x = qr_company q \<and> qr_step x = qr_step q) (pp_queue s) then (False, s)
      else (True, s\<lparr>pp_queue := pp_queue s @ [q\<lparr>qr_id := pp_next s\<rparr>], pp_next := pp_next s + 1\<rparr>))"

text \<open>\<open>_stage_outreach_draft_for_approval\<close>; an item of the source has no \<open>company_id\<close>.\<close>

definition stage_draft :: "batch_env \<Rightarrow> time \<Rightarrow> batch_item \<Rightarrow> str \<Rightarrow> pipe \<Rightarrow> str + bool \<times> pipe" where
  "stage_draft e now it email s =
     (if email = [] then Inr (False, s)
      else case it_id it of None \<Rightarrow> Inl ''KeyError''
      | Some i \<Rightarrow> (case draft_facts (it_facts it) of None \<Rightarrow> Inl ''AttributeError''
        | Some d \<Rightarrow> (let reviews = dget d ''google_reviews''; rating = dget d ''google_rating'' in
            case draft_hook e it reviews rating of Inl x \<Rightarrow> Inl x
            | Inr hook \<Rightarrow> Inr (stage_row (staged_row now i email (take 50 (''Google Reviews for '' @ it_name it)) (draft_body e it hook)
                (VDict [(''company'', VStr (it_name it)), (''reviews'', reviews), (''rating'', rating)])) s))))"

text \<open>The number of reviews as the item has it: a number, or something that cannot be compared with one. A fraction is rounded up, which
  compares with 3000 in the same way.\<close>

definition item_reviews :: "pyv \<Rightarrow> str + int option" where
  "item_reviews v = (case v of
     VDict d \<Rightarrow> (case dget d ''google_reviews'' of VNone \<Rightarrow> Inr None | VInt n \<Rightarrow> Inr (Some n) | VBool b \<Rightarrow> Inr (Some (if b then 1 else 0))
       | VFloat x \<Rightarrow> Inr (Some \<lceil>x\<rceil>) | _ \<Rightarrow> Inl ''TypeError'')
   | _ \<Rightarrow> Inr None)"

definition item_verdict :: "batch_env \<Rightarrow> batch_item \<Rightarrow> str \<Rightarrow> enrichment \<Rightarrow> str + lead_verdict" where
  "item_verdict e it website n =
     (let le = be_lead e; a = \<lparr>as_name = it_name it, as_website = website,
        as_industry = (if it_industry it = [] then ''local'' else it_industry it), as_reviews = None, as_brand = []\<rparr> in
      case listing_problem (ev_bracket le) (ev_brands le) a of Some why \<Rightarrow> Inr (rejected why)
      | None \<Rightarrow> (case item_reviews (it_facts it) of Inl x \<Rightarrow> Inl x
          | Inr k \<Rightarrow> Inr (qualify_lead (ev_bracket le) (ev_shown le) (ev_brands le) (a\<lparr>as_reviews := k\<rparr>) (Some n))))"

definition item_cand :: "batch_item \<Rightarrow> str \<Rightarrow> lead_cand" where
  "item_cand it website = no_cand\<lparr>cd_name := it_name it, cd_website := website, cd_industry := it_industry it, cd_city := it_city it,
     cd_region := it_state it, cd_phone := it_phone it, cd_source := ''osm'', cd_query := ''osm discovery''\<rparr>"

text \<open>\<open>a || b\<close> for \<open>jsonb\<close> values, \<open>b\<close> an object.\<close>

definition jsonb_join :: "pyv \<Rightarrow> pydict \<Rightarrow> pyv" where
  "jsonb_join a b = (case a of VDict d \<Rightarrow> VDict (fold (\<lambda>(k, v) acc. dput acc k v) b d) | VList xs \<Rightarrow> VList (xs @ [VDict b]) | x \<Rightarrow> VList [x, VDict b])"

definition batch_row :: "time \<Rightarrow> lead_verdict \<Rightarrow> enrichment \<Rightarrow> lead \<Rightarrow> lead" where
  "batch_row now v n r = stamp_ready now (r\<lparr>co_qualification := ve_level v, co_qual_reason := Some (ve_reason v), co_outreach := outreach_of v,
     ld_enriched := Some now, co_personalization := jsonb_join (co_personalization r) (en_facts n)\<rparr>)"

text \<open>Where the lead is stored: a repeat, or its id and the tables.\<close>

definition store_item :: "batch_env \<Rightarrow> time \<Rightarrow> str \<Rightarrow> batch_item \<Rightarrow> str \<Rightarrow> lead_verdict \<Rightarrow> enrichment \<Rightarrow> leads \<Rightarrow> str + (str \<times> leads) option" where
  "store_item e now i it website v n d =
     (case it_id it of
        Some j \<Rightarrow> Inr (Some (j, map_companies (upd_where (\<lambda>r. co_id r = j) (batch_row now v n)) d))
      | None \<Rightarrow> (let c = item_cand it website; br = ev_bracket (be_lead e) in
          if find_existing br d c (case best_email n of Some f \<Rightarrow> if fd_email f = [] then [] else [fd_email f] | None \<Rightarrow> []) \<noteq> None then Inr None
          else case insert_company br now i c
            \<lparr>nf_qualification = ve_level v, nf_reason = ve_reason v, nf_outreach = outreach_of v, nf_personalization = en_facts n,
             nf_historical = False, nf_enriched = True, nf_first = None, nf_last = None\<rparr> d of Inl x \<Rightarrow> Inl x | Inr d1 \<Rightarrow> Inr (Some (i, d1))))"

definition best_address :: "enrichment \<Rightarrow> str" where "best_address n = (case best_email n of Some f \<Rightarrow> fd_email f | None \<Rightarrow> [])"

definition count_read :: "str \<Rightarrow> enrichment \<Rightarrow> nat \<Rightarrow> batch_report \<Rightarrow> batch_report" where
  "count_read website n holes rp =
     (let r1 = (if en_ok n then rp\<lparr>br_accessed := br_accessed rp + 1\<rparr>
                else rp\<lparr>br_failed := br_failed rp + 1, br_errors := br_errors rp @ (if en_error n = [] then [] else [website @ '': '' @ en_error n])\<rparr>)
      in r1\<lparr>br_emails := br_emails r1 + length (en_emails n) + holes\<rparr>)"

definition save_contacts :: "time \<Rightarrow> str \<Rightarrow> enrichment \<Rightarrow> leads \<Rightarrow> str + leads" where
  "save_contacts now j n d = add_findings now j ''engine_collector'' (en_emails n) d"

definition item_ready :: "lead_verdict \<Rightarrow> bool" where "item_ready v \<longleftrightarrow> outreach_of v = ''outreach_ready''"

definition draft_if_ready :: "batch_env \<Rightarrow> time \<Rightarrow> batch_item \<Rightarrow> lead_verdict \<Rightarrow> enrichment \<Rightarrow> pipe \<Rightarrow> str + bool \<times> pipe" where
  "draft_if_ready e now it v n s =
     (if item_ready v \<and> best_address n \<noteq> [] \<and> be_postal e \<noteq> [] then stage_draft e now it (best_address n) s else Inr (False, s))"

definition item_sample :: "batch_item \<Rightarrow> str \<Rightarrow> str \<Rightarrow> lead_verdict \<Rightarrow> enrichment \<Rightarrow> batch_sample" where
  "item_sample it website j v n =
     \<lparr>bs_id = j, bs_name = it_name it, bs_website = website, bs_status = outreach_of v, bs_level = ve_level v, bs_email = best_address n,
       bs_count = length (en_emails n)\<rparr>"

text \<open>Contacts, draft and commit: the exception, the counts, the committed tables.\<close>

definition finish_item :: "batch_env \<Rightarrow> time \<Rightarrow> batch_item \<Rightarrow> str \<Rightarrow> str \<Rightarrow> lead_verdict \<Rightarrow> enrichment \<Rightarrow> leads \<Rightarrow> batch_report \<Rightarrow> pipe \<Rightarrow> str option \<times> batch_report \<times> pipe" where
  "finish_item e now it website j v n d rp s =
     (case save_contacts now j n d of
        Inl x \<Rightarrow> (Some x, rp, s)
      | Inr d1 \<Rightarrow>
          (let rep1 = (if item_ready v then rp\<lparr>br_ready := br_ready rp + 1\<rparr> else rp) in
           case draft_if_ready e now it v n (s\<lparr>pp_leads := d1\<rparr>) of
             Inl x \<Rightarrow> (Some x, rep1, s)
           | Inr (staged, s2) \<Rightarrow>
               (None, rep1\<lparr>br_drafts := br_drafts rep1 + (if staged then 1 else 0), br_samples := br_samples rep1 @ [item_sample it website j v n]\<rparr>, s2)))"

definition read_item :: "batch_env \<Rightarrow> batch_item \<Rightarrow> str \<Rightarrow> (enrichment \<times> nat) option" where
  "read_item e it website = enrich_with_sitemaps (be_web e) (be_sitemap e) website (map (\<lambda>x. (x, ''public listing'')) (it_emails it))"

text \<open>The answer also has \<open>latest_id\<close>.\<close>

definition process_item :: "batch_env \<Rightarrow> nat \<Rightarrow> batch_item \<Rightarrow> str option \<Rightarrow> batch_report \<Rightarrow> pipe \<Rightarrow> (str option \<times> str option) \<times> batch_report \<times> pipe" where
  "process_item e k it latest0 rp s =
     (let website = py_strip (it_website it); latest = (case it_id it of Some i \<Rightarrow> Some i | None \<Rightarrow> latest0); now = be_now e k in
      if website = [] then ((None, latest), rp, s)
      else case read_item e it website of
        None \<Rightarrow> ((Some ''ValueError'', latest), rp, s)
      | Some (n, holes) \<Rightarrow>
          (let rep1 = count_read website n holes rp in
           if 0 < holes then ((Some ''AttributeError'', latest), rep1, s)
           else let rep2 = rep1\<lparr>br_validated := br_validated rep1 + count_where validated (en_emails n)\<rparr> in
             case item_verdict e it website n of Inl x \<Rightarrow> ((Some x, latest), rep2, s)
             | Inr v \<Rightarrow>
                 if be_dead e k then ((Some ''OperationalError'', latest), rep2, s)
                 else (case store_item e now (be_id e k) it website v n (pp_leads s) of
                     Inl x \<Rightarrow> ((Some x, latest), rep2, s)
                   | Inr None \<Rightarrow> ((None, latest), rep2\<lparr>br_duplicates := br_duplicates rep2 + 1\<rparr>, s)
                   | Inr (Some (j, d)) \<Rightarrow>
                       (case finish_item e now it website j v n d (rep2\<lparr>br_stored := br_stored rep2 + 1\<rparr>) s of
                          (x, rep3, s1) \<Rightarrow> ((x, Some j), rep3, s1)))))"

fun process_items :: "batch_env \<Rightarrow> nat \<Rightarrow> batch_item list \<Rightarrow> str option \<Rightarrow> batch_report \<Rightarrow> pipe \<Rightarrow> (str option \<times> str option) \<times> batch_report \<times> pipe" where
  "process_items e k [] latest rp s = ((None, latest), rp, s)"
| "process_items e k (it # its) latest rp s =
     (case process_item e k it latest rp s of
        ((Some x, l), rep1, s1) \<Rightarrow> ((Some x, l), rep1, s1)
      | ((None, l), rep1, s1) \<Rightarrow> process_items e (Suc k) its l rep1 s1)"

subsection \<open>A batch\<close>

definition unfinished :: "leads \<Rightarrow> lead \<Rightarrow> bool" where
  "unfinished d r \<longleftrightarrow> co_active r \<and> co_first_contacted r = None \<and> co_website r \<noteq> None \<and> co_qualification r \<noteq> ''REJECT''
     \<and> (co_outreach r = ''not_ready'' \<or> ld_enriched r = None \<or> \<not> list_ex (\<lambda>k. ct_company k = co_id r) (ls_contacts d))"

definition backlog :: "nat \<Rightarrow> str option \<Rightarrow> leads \<Rightarrow> lead list" where
  "backlog limit mark d =
     (let rows = order_by co_id (filter (unfinished d) (ls_companies d)) in
      case mark of None \<Rightarrow> take limit rows
      | Some i \<Rightarrow> if i = [] then take limit rows
                  else (let a = take limit (filter (\<lambda>r. i < co_id r) rows) in a @ take (limit - length a) (filter (\<lambda>r. co_id r \<le> i) rows)))"

definition row_item :: "lead \<Rightarrow> batch_item" where
  "row_item r = \<lparr>it_id = Some (co_id r), it_name = co_name r, it_website = or_empty (co_website r), it_industry = or_empty (co_industry r),
     it_city = or_empty (co_city r), it_state = or_empty (co_region r), it_phone = or_empty (ld_phone r), it_emails = [], it_facts = co_personalization r\<rparr>"

definition cand_item :: "lead_cand \<Rightarrow> batch_item" where
  "cand_item c = \<lparr>it_id = None, it_name = cd_name c, it_website = cd_website c, it_industry = cd_industry c, it_city = cd_city c, it_state = cd_region c,
     it_phone = cd_phone c, it_emails = cd_emails c, it_facts = VDict []\<rparr>"

definition map_leads :: "(leads \<Rightarrow> leads) \<Rightarrow> pipe \<Rightarrow> pipe" where "map_leads f s = s\<lparr>pp_leads := f (pp_leads s)\<rparr>"

fun search_osm :: "batch_env \<Rightarrow> nat \<Rightarrow> nat \<Rightarrow> lead_query list \<Rightarrow> batch_item list \<Rightarrow> str list \<Rightarrow> pipe \<Rightarrow> (str option \<times> batch_item list \<times> str list) \<times> pipe" where
  "search_osm e k limit [] its errs s = ((None, its, errs), s)"
| "search_osm e k limit (q # qs) its errs s =
     (case be_search e k q of
        Search_raised x \<Rightarrow> ((Some x, its, errs), s)
      | Found cs \<Rightarrow>
          (let its1 = its @ map cand_item (filter (\<lambda>c. cd_website c \<noteq> []) cs); s1 = map_leads (source_success (be_now e k) ''osm'') s
           in if limit \<le> length its1 then ((None, its1, errs), s1) else search_osm e (Suc k) limit qs its1 errs s1)
      | Source_error err \<Rightarrow>
          (let errs1 = errs @ [''OSM query failed: '' @ err];
               s1 = map_leads (\<lambda>d. snd (source_failure (be_now e k) (be_now e k) ''osm'' err (be_policy e) d)) s
           in if limit \<le> length its then ((None, its, errs1), s1) else search_osm e (Suc k) limit qs its errs1 s1))"

text \<open>The items of a batch, and the name of where they come from.\<close>

definition gather :: "batch_env \<Rightarrow> nat \<Rightarrow> str option \<Rightarrow> pipe \<Rightarrow> (str option \<times> str \<times> batch_item list \<times> str list) \<times> pipe" where
  "gather e limit mark s =
     (case be_backlog_fails e of
        Some x \<Rightarrow> ((Some x, ''backlog'', [], []), s)
      | None \<Rightarrow>
          (let rows = backlog limit mark (pp_leads s) in
           if rows \<noteq> [] then ((None, ''backlog'', map row_item rows, []), s)
           else (case search_osm e 0 limit (next_queries (be_feedback e) (be_now e 0) (be_repeat e) ''osm'' (be_catalog e) 2 (pp_leads s)) [] [] s of
                ((x, its, errs), s1) \<Rightarrow> ((x, ''osm_discovery'', its, errs), s1))))"

definition new_report :: "str option \<Rightarrow> batch_report" where
  "new_report mark = \<lparr>br_status = ''running'', br_source = ''backlog'', br_before = or_empty mark, br_after = None, br_found = 0, br_accessed = 0,
     br_failed = 0, br_emails = 0, br_validated = 0, br_stored = 0, br_ready = 0, br_drafts = 0, br_duplicates = 0, br_errors = [], br_samples = []\<rparr>"

definition closed_report :: "batch_env \<Rightarrow> str option \<Rightarrow> str option \<Rightarrow> batch_report \<Rightarrow> batch_report" where
  "closed_report e x latest rp = (case x of
     None \<Rightarrow> rp\<lparr>br_after := Some (or_empty latest), br_status := ''completed''\<rparr>
   | Some y \<Rightarrow> rp\<lparr>br_status := ''error'', br_errors := br_errors rp @ [''Pipeline error: '' @ y @ '': '' @ be_text e y]\<rparr>)"

text \<open>The \<open>finally\<close> of a batch whose items were gathered.\<close>

definition close_batch :: "batch_env \<Rightarrow> str \<Rightarrow> str option \<Rightarrow> batch_report \<Rightarrow> pipe \<Rightarrow> (str + batch_report option) \<times> pipe" where
  "close_batch e token latest rp s =
     (case be_release_fails e of
        Some x \<Rightarrow> (Inl x, s)
      | None \<Rightarrow>
          (let mark = (if or_empty (br_after rp) = [] then latest else br_after rp);
               s1 = release_batch_lock token mark (br_stored rp) (Some rp) s
           in (Inr (Some rp), s1\<lparr>pp_runs := pp_runs s1 @ [rp]\<rparr>)))"

text \<open>An exception before the items are known finds \<open>latest_id\<close> unbound in the \<open>finally\<close>. \<open>Inr None\<close>: skipped.\<close>

definition run_lead_batch :: "batch_env \<Rightarrow> time \<Rightarrow> str \<Rightarrow> nat \<Rightarrow> pipe \<Rightarrow> (str + batch_report option) \<times> pipe" where
  "run_lead_batch e now token limit s =
     (case acquire_batch_lock now token s of
        ((False, r), s1) \<Rightarrow> (Inr None, s1)
      | ((True, r), s1) \<Rightarrow>
          (case gather e limit (cp_last r) s1 of
             ((Some x, source, its, errs), s2) \<Rightarrow> (Inl ''UnboundLocalError'', s2)
           | ((None, source, its, errs), s2) \<Rightarrow>
               (let rp = (new_report (cp_last r))\<lparr>br_source := source, br_found := length its, br_errors := errs\<rparr> in
                case process_items e 0 (take limit its) (cp_last r) rp s2 of
                  ((x, latest), rep1, s3) \<Rightarrow> close_batch e token latest (closed_report e x latest rep1) s3)))"

end
