(* ===== verification/OutreachSend.thy ===== *)
theory OutreachSend
  imports OutreachQueue
begin

text \<open>
  \<open>src/cloudos/outreach/sender.py\<close>, sending: the last check of a claimed row, \<open>send_item\<close>, the recovery of rows
  a dead worker left, the sweep, the run and the audit.
\<close>

subsection \<open>The last check\<close>

definition at_domain :: "str \<Rightarrow> str \<Rightarrow> bool" where
  "at_domain d e \<longleftrightarrow> split_part (CHR ''@'') 2 (py_lower e) = d"

definition queued_elsewhere :: "str \<Rightarrow> str \<Rightarrow> str \<Rightarrow> int option \<Rightarrow> qrow \<Rightarrow> bool" where
  "queued_elsewhere email dm i except q \<longleftrightarrow> qr_state q \<noteq> Cancelled \<and> qr_state q \<noteq> Failed \<and> Some (qr_id q) \<noteq> except
     \<and> (norm_email (qr_recipient q) = norm_email email \<or> dm \<noteq> [] \<and> at_domain dm (qr_recipient q)) \<and> qr_company q \<noteq> i"

definition contacted_company :: "company \<Rightarrow> bool" where
  "contacted_company r \<longleftrightarrow> co_first_contacted r \<noteq> None
     \<or> co_outreach r \<in> set [''contacted'', ''replied'', ''bounced'', ''unsubscribed'', ''do_not_contact'']"

definition domain_emailed :: "str \<Rightarrow> str \<Rightarrow> conv \<Rightarrow> bool" where
  "domain_emailed dm i c \<longleftrightarrow>
     list_ex (\<lambda>h. hi_status h = ''sent'' \<and> at_domain dm (email_or (hi_email h))) (cv_history c)
     \<or> list_ex (\<lambda>m. \<not> mg_inbound m \<and> at_domain dm (mg_recipient m)) (cv_messages c)
     \<or> list_ex (\<lambda>k. at_domain dm (ct_email k) \<and> ct_company k \<noteq> i
           \<and> (case company_row c (ct_company k) of Some r \<Rightarrow> contacted_company r | None \<Rightarrow> False)) (cv_contacts c)
     \<or> list_ex (\<lambda>s. su_domain s = Some dm) (cv_suppressions c)"

definition duplicate_in_queue :: "outbox \<Rightarrow> str \<Rightarrow> str \<Rightarrow> int option \<Rightarrow> bool" where
  "duplicate_in_queue b email i except =
     (let dm = business_domain email; row = list_ex (queued_elsewhere email dm i except) (ob_queue b)
      in if row \<or> dm = [] then row else domain_emailed dm i (ob_conv b))"

text \<open>The guard's query may raise (\<open>Some\<close> the exception's name).\<close>

definition guard_says :: "str option \<Rightarrow> conv \<Rightarrow> str \<Rightarrow> str \<Rightarrow> str \<Rightarrow> pydict" where
  "guard_says down c email kind i =
     check_fail_closed (case down of Some ty \<Rightarrow> Inl ty | None \<Rightarrow> Inr (guard_value (send_check c email kind (Some i))))"

definition verdict_allows :: "pydict \<Rightarrow> bool" where "verdict_allows d \<longleftrightarrow> dget d ''allowed'' = VBool True"

definition verdict_reasons :: "pydict \<Rightarrow> str list" where
  "verdict_reasons d = (case dget d ''reasons'' of VList (x # xs) \<Rightarrow> map text_of (x # xs) | _ \<Rightarrow> [''guard_error''])"

datatype send_refusal = R_guard_error | R_guard "str list" | R_duplicate | R_qa "str list"

definition row_email :: "qrow \<Rightarrow> email" where
  "row_email q = \<lparr>em_subject = qr_subject q, em_body = qr_body q, em_variant = text_opt (qr_variant q)\<rparr>"

definition refuse_row :: "send_env \<Rightarrow> str option \<Rightarrow> qrow \<Rightarrow> outbox \<Rightarrow> send_refusal option" where
  "refuse_row e down q b =
     (let d = guard_says down (ob_conv b) (qr_recipient q) (kind_of (qr_step q)) (qr_company q) in
      if \<not> verdict_allows d
      then Some (if ''guard_error'' \<in> set (verdict_reasons d) then R_guard_error else R_guard (verdict_reasons d))
      else if qr_step q = 0 \<and> duplicate_in_queue b (qr_recipient q) (qr_company q) (Some (qr_id q)) then Some R_duplicate
      else (let problems = qa (row_email q) (postal_address (sn_env e)) (named (qr_company q) (ob_conv b))
            in if problems = [] then None else Some (R_qa problems)))"

definition SAME_BUSINESS :: str where "SAME_BUSINESS = ''same business as a company already emailed or queued''"

definition refuse_text :: "send_refusal \<Rightarrow> str" where
  "refuse_text r = (case r of R_guard rs \<Rightarrow> ''guard: '' @ py_join '', '' rs | R_qa ps \<Rightarrow> qa_reason ps
     | R_duplicate \<Rightarrow> SAME_BUSINESS | R_guard_error \<Rightarrow> [])"

subsection \<open>One send\<close>

datatype send_outcome = O_sent | O_cancelled | O_failed | O_retry | O_ambiguous | O_throttled | O_auth

text \<open>The mailbox: whether it holds a connection, what is known of its filing, and, as a ghost, what the servers behind it have
  taken so far: the company, the step and the Message-ID of each mail, in the order of the calls.\<close>

record mailbox =
  mb_conn :: bool
  mb_files :: "bool option"
  mb_took :: "(str \<times> int \<times> str) list"

text \<open>What one send meets outside: the database's time, a guard that raises, the generator of Message-IDs, the
  id of a new message, a random minute, the SMTP server, and what looks into the Sent folder find.\<close>

record turn =
  tn_now :: time
  tn_down :: "str option"
  tn_make :: "str \<Rightarrow> str"
  tn_newid :: str
  tn_random :: int
  tn_server :: smtp_server
  tn_look :: look
  tn_filed :: look

definition keep :: "outbox \<Rightarrow> send_exn + outbox \<Rightarrow> 'a \<Rightarrow> (send_exn + 'a) \<times> outbox" where
  "keep b r x = (case r of Inl e \<Rightarrow> (Inl e, b) | Inr b' \<Rightarrow> (Inr x, b'))"

text \<open>The row that is refused.\<close>

definition after_refusal :: "turn \<Rightarrow> qrow \<Rightarrow> send_refusal \<Rightarrow> outbox \<Rightarrow> send_outcome \<times> outbox" where
  "after_refusal t item r b =
     (if r = R_guard_error then (O_retry, release (tn_now t) (10 * minute) True (qr_id item) b)
      else (O_cancelled, finish (tn_now t) item Cancelled (refuse_text r) b))"

text \<open>The Message-ID is saved before the server is called; it is unique in the table.\<close>

definition save_id :: "turn \<Rightarrow> str \<Rightarrow> qrow \<Rightarrow> outbox \<Rightarrow> send_exn + str \<times> outbox" where
  "save_id t from_email item b =
     (case given (qr_msgid item) of Some h \<Rightarrow> Inr (h, b)
      | None \<Rightarrow> (let h = new_message_id (tn_make t) from_email in
          if list_ex (\<lambda>q. qr_id q \<noteq> qr_id item \<and> qr_msgid q = Some h) (ob_queue b) then Inl Queue_check
          else Inr (h, upd_id (qr_id item) (\<lambda>q. q\<lparr>qr_msgid := Some h\<rparr>) b)))"

definition message_of :: "send_env \<Rightarrow> turn \<Rightarrow> str \<Rightarrow> qrow \<Rightarrow> str \<Rightarrow> out_mail" where
  "message_of e t from_email item h =
     build (tn_now t) from_email (sender_name (sn_cfg e) (sn_env e)) (qr_recipient item) (qr_subject item) (qr_body item) h
       (qr_root item) (qr_company item) (qr_step item)"

text \<open>An address the server rejected for good.\<close>

definition company_bounced :: "str \<Rightarrow> conv \<Rightarrow> conv" where
  "company_bounced i c = c\<lparr>cv_companies := upd_where (\<lambda>r. co_id r = i) (\<lambda>r. r\<lparr>co_outreach := ''bounced''\<rparr>) (cv_companies c)\<rparr>"

definition hard_bounce :: "time \<Rightarrow> qrow \<Rightarrow> conv \<Rightarrow> conv_exn + conv" where
  "hard_bounce now item c =
     ebind (update_state now (qr_company item) [F_bounced True, F_cold False, F_stop_reason ''address rejected'']
       (suppress ''hard_bounce'' (Some (qr_recipient item)) None None c)) (\<lambda>c1. Inr (company_bounced (qr_company item) c1))"

definition after_failure :: "send_env \<Rightarrow> turn \<Rightarrow> str \<Rightarrow> qrow \<Rightarrow> str \<Rightarrow> send_result \<Rightarrow> outbox \<Rightarrow> (send_exn + send_outcome) \<times> outbox" where
  "after_failure e t from_email item h res b =
     (case sr_kind res of
        K_unknown \<Rightarrow>
          if in_sent (tn_look t) = Some True
          then keep b (record_sent e (tn_now t) (tn_newid t) (tn_random t) from_email item h (tn_now t)
                 ''found in Sent after an interrupted hand-over'' b) O_sent
          else (Inr O_ambiguous, finish (tn_now t) item Ambiguous (''interrupted mid-send ('' @ sr_detail res @ '') - not resent'') b)
      | K_auth \<Rightarrow> (Inr O_auth, release (tn_now t) 0 True (qr_id item) b)
      | K_throttled \<Rightarrow> (Inr O_throttled, release (tn_now t) (60 * minute) True (qr_id item) b)
      | K_permanent \<Rightarrow>
          (let b1 = finish (tn_now t) item Failed (''rejected: '' @ sr_detail res) b in
           case hard_bounce (tn_now t) item (ob_conv b1) of
             Inl x \<Rightarrow> (Inl (Store_raised x), b1) | Inr c \<Rightarrow> (Inr O_failed, b1\<lparr>ob_conv := c\<rparr>))
      | _ \<Rightarrow>
          if sc_max_attempts (sn_cfg e) \<le> qr_attempts item
          then (Inr O_failed, finish (tn_now t) item Failed
                 (''gave up after '' @ show_int (qr_attempts item) @ '' tries: '' @ sr_detail res) b)
          else (Inr O_retry, release (tn_now t) (20 * qr_attempts item * minute) False (qr_id item)
                 (upd_id (qr_id item) (\<lambda>q. q\<lparr>qr_response := Some (clip 200 (sr_detail res))\<rparr>) b)))"

definition after_send :: "send_env \<Rightarrow> turn \<Rightarrow> str \<Rightarrow> qrow \<Rightarrow> str \<Rightarrow> send_result \<Rightarrow> outbox \<Rightarrow> (send_exn + send_outcome) \<times> outbox" where
  "after_send e t from_email item h res b =
     (if sr_ok res
      then keep b (record_sent e (tn_now t) (tn_newid t) (tn_random t) from_email item h (tn_now t) (sr_detail res) b) O_sent
      else after_failure e t from_email item h res b)"

text \<open>The one call of the server. What it takes is the mail of this row.\<close>

definition hand_mail :: "turn \<Rightarrow> qrow \<Rightarrow> str \<Rightarrow> mailbox \<Rightarrow> send_result \<times> mailbox" where
  "hand_mail t item h mb =
     (case mail_send (tn_server t) (mb_conn mb) of (res, conn) \<Rightarrow>
        (res, mb\<lparr>mb_conn := conn, mb_took := mb_took mb
           @ (if delivers (tn_server t) (mb_conn mb) then [(qr_company item, qr_step item, h)] else [])\<rparr>))"

text \<open>\<open>_file_copy\<close>: whether the mailbox files its own mail is found out once.\<close>

definition file_copy :: "turn \<Rightarrow> mailbox \<Rightarrow> mailbox" where
  "file_copy t mb = mb\<lparr>mb_files := (case mb_files mb of Some x \<Rightarrow> Some x | None \<Rightarrow> Some (in_sent (tn_filed t) = Some True))\<rparr>"

definition send_item :: "send_env \<Rightarrow> turn \<Rightarrow> str \<Rightarrow> qrow \<Rightarrow> mailbox \<Rightarrow> outbox \<Rightarrow> (send_exn + send_outcome) \<times> mailbox \<times> outbox" where
  "send_item e t from_email item mb b =
     (case refuse_row e (tn_down t) item b of
        Some r \<Rightarrow> (case after_refusal t item r b of (x, b1) \<Rightarrow> (Inr x, mb, b1))
      | None \<Rightarrow> (case save_id t from_email item b of
          Inl x \<Rightarrow> (Inl x, mb, b)
        | Inr (h, b1) \<Rightarrow> (case hand_mail t item h mb of (res, mb1) \<Rightarrow>
            case after_send e t from_email item h res b1 of
              (r, b2) \<Rightarrow> (r, if sr_ok res then file_copy t mb1 else mb1, b2))))"

subsection \<open>Recovery\<close>

definition STALE_CLAIM :: time where "STALE_CLAIM = 15 * minute"

definition stale :: "time \<Rightarrow> qrow \<Rightarrow> bool" where
  "stale now q \<longleftrightarrow> qr_state q = Claimed \<and> (case qr_claimed_at q of Some t \<Rightarrow> t < now - STALE_CLAIM | None \<Rightarrow> False)"

datatype recovered = R_released | R_proven | R_ambiguous | R_unknown

text \<open>\<open>looks\<close>: what a look for each row's Message-ID finds, when there is a mailbox.\<close>

definition recover_one ::
  "send_env \<Rightarrow> time \<Rightarrow> (int \<Rightarrow> str) \<Rightarrow> int \<Rightarrow> str \<Rightarrow> (int \<Rightarrow> look) option \<Rightarrow> qrow \<Rightarrow> outbox \<Rightarrow> (send_exn + recovered) \<times> outbox" where
  "recover_one e now newid m from_email looks r b =
     (case given (qr_msgid r) of
        None \<Rightarrow> (Inr R_released, release now 0 False (qr_id r) b)
      | Some h \<Rightarrow> (case looks of None \<Rightarrow> (Inr R_unknown, b)
        | Some f \<Rightarrow> (case in_sent (f (qr_id r)) of
            Some True \<Rightarrow> keep b (record_sent e now (newid (qr_id r)) m from_email r h
                (case qr_claimed_at r of Some t \<Rightarrow> t | None \<Rightarrow> now) ''recovered from Sent folder'' b) R_proven
          | Some False \<Rightarrow> (Inr R_ambiguous, finish now r Ambiguous ''worker stopped mid-send and Sent has no copy - not resent'' b)
          | None \<Rightarrow> (Inr R_unknown, b))))"

fun recover_rows ::
  "send_env \<Rightarrow> time \<Rightarrow> (int \<Rightarrow> str) \<Rightarrow> int \<Rightarrow> str \<Rightarrow> (int \<Rightarrow> look) option \<Rightarrow> qrow list \<Rightarrow> outbox \<Rightarrow> (send_exn + recovered list) \<times> outbox" where
  "recover_rows e now newid m from_email looks [] b = (Inr [], b)"
| "recover_rows e now newid m from_email looks (r # rs) b =
     (case recover_one e now newid m from_email looks r b of
        (Inl x, b1) \<Rightarrow> (Inl x, b1)
      | (Inr a, b1) \<Rightarrow> (case recover_rows e now newid m from_email looks rs b1 of
          (Inl x, b2) \<Rightarrow> (Inl x, b2) | (Inr os, b2) \<Rightarrow> (Inr (a # os), b2)))"

definition recover :: "send_env \<Rightarrow> time \<Rightarrow> (int \<Rightarrow> str) \<Rightarrow> int \<Rightarrow> str \<Rightarrow> (int \<Rightarrow> look) option \<Rightarrow> outbox \<Rightarrow> (send_exn + recovered list) \<times> outbox" where
  "recover e now newid m from_email looks b =
     recover_rows e now newid m from_email looks (filter (stale now) (ob_queue b)) b"

subsection \<open>The sweep\<close>

definition sweep_reason :: "conv_state \<Rightarrow> str" where
  "sweep_reason s = ''sequence stopped: '' @ cstatus_value (cs_status s)
     @ (if cs_dnc s then '' (do not contact)'' else if cs_bounced s then '' (bounced)'' else [])"

definition sequence_over :: "sender_cfg \<Rightarrow> conv \<Rightarrow> conv_state \<Rightarrow> bool" where
  "sequence_over cfg c s \<longleftrightarrow> cs_dnc s \<or> cs_bounced s \<or> cstatus_value (cs_status s) \<in> set (sc_stop_statuses cfg)
     \<or> list_ex (human_reply (cs_company s)) (cv_messages c)"

definition to_sweep :: "sender_cfg \<Rightarrow> conv \<Rightarrow> qrow \<Rightarrow> bool" where
  "to_sweep cfg c q \<longleftrightarrow> qr_state q = Queued \<and> 0 < qr_step q
     \<and> (case state_row c (qr_company q) of Some s \<Rightarrow> sequence_over cfg c s | None \<Rightarrow> False)"

definition sweep_row :: "conv \<Rightarrow> qrow \<Rightarrow> qrow" where
  "sweep_row c q = q\<lparr>qr_state := Cancelled, qr_reason := map_option sweep_reason (state_row c (qr_company q))\<rparr>"

definition sweep :: "sender_cfg \<Rightarrow> outbox \<Rightarrow> nat \<times> outbox" where
  "sweep cfg b = (let p = to_sweep cfg (ob_conv b) in
     (count_where p (ob_queue b), map_queue (upd_where p (sweep_row (ob_conv b))) b))"

end
