(* ===== verification/SenderSystem.thy ===== *)
theory SenderSystem
  imports OutreachSend
begin

text \<open>
  Several runs of the sender on one queue, as a step relation. A row is claimed, checked, given its Message-ID,
  handed to the SMTP server and settled in separate steps, each of them one transaction or one call, and a run
  may die between any two. \<open>sy_sent\<close> is a ghost: what the server took, with the company, the step and the
  Message-ID. The steps say what is relied on: the server's answers to \<open>DATA\<close> are honest (\<open>smtp_law\<close>),
  the Sent folder holds only mail the server took (\<open>sent_law\<close>), a Message-ID is not empty, a recovery runs while
  no live run holds a stale row (claims are stale after fifteen minutes; the workflow has one run at a time).
\<close>

datatype phase = Idle | Holding qrow | Marked qrow str | Handed qrow str send_result | Dead

record sys =
  sy_box :: outbox
  sy_at :: "nat \<Rightarrow> phase"
  sy_sent :: "(str \<times> int \<times> str) list"

fun held :: "phase \<Rightarrow> qrow option" where
  "held (Holding q) = Some q"
| "held (Marked q h) = Some q"
| "held (Handed q h res) = Some q"
| "held _ = None"

definition sent_law :: "(str \<times> int \<times> str) list \<Rightarrow> str \<Rightarrow> look \<Rightarrow> bool" where
  "sent_law d h l \<longleftrightarrow> (in_sent l = Some True \<longrightarrow> h \<in> (\<lambda>(i, stp, m). m) ` set d)"

text \<open>What preparing does to the table (\<open>plan\<close>, \<open>rerender_queued_v4\<close>, \<open>refresh_queued\<close>, \<open>queue_approved\<close>):
  a new row, other words or a cancellation for rows no send has touched, and the removal of cancelled rows.\<close>

definition untouched :: "qrow \<Rightarrow> bool" where
  "untouched q \<longleftrightarrow> qr_state q = Queued \<and> qr_attempts q = 0 \<and> qr_msgid q = None"

definition reword :: "email \<Rightarrow> str list \<Rightarrow> qrow \<Rightarrow> qrow" where
  "reword e problems q = q\<lparr>qr_subject := em_subject e, qr_body := em_body e, qr_variant := Some (em_variant e),
     qr_state := (if problems = [] then Queued else Cancelled), qr_reason := (if problems = [] then None else Some (qa_reason problems))\<rparr>"

definition fresh_row :: "qrow \<Rightarrow> bool" where
  "fresh_row q \<longleftrightarrow> qr_msgid q = None \<and> (qr_state q = Queued \<or> qr_state q = Cancelled)"

lemma fresh_new [simp]: "fresh_row (new_row i stp to mail problems due)"
  by (simp add: fresh_row_def new_row_def)

inductive sender_step :: "send_env \<Rightarrow> str \<Rightarrow> sys \<Rightarrow> sys \<Rightarrow> bool" for e :: send_env and from_email :: str where
  s_claim: "sy_at s w = Idle \<Longrightarrow> claim now who followups locked (sy_box s) = (Some q, b) \<Longrightarrow>
     sender_step e from_email s (s\<lparr>sy_box := b, sy_at := (sy_at s)(w := Holding q)\<rparr>)"
| s_refuse: "sy_at s w = Holding q \<Longrightarrow> refuse_row e (tn_down t) q (sy_box s) = Some r \<Longrightarrow>
     after_refusal t q r (sy_box s) = (x, b) \<Longrightarrow>
     sender_step e from_email s (s\<lparr>sy_box := b, sy_at := (sy_at s)(w := Idle)\<rparr>)"
| s_save: "sy_at s w = Holding q \<Longrightarrow> refuse_row e (tn_down t) q (sy_box s) = None \<Longrightarrow>
     save_id t from_email q (sy_box s) = Inr (h, b) \<Longrightarrow> h \<noteq> [] \<Longrightarrow>
     sender_step e from_email s (s\<lparr>sy_box := b, sy_at := (sy_at s)(w := Marked q h)\<rparr>)"
| s_hand: "sy_at s w = Marked q h \<Longrightarrow> smtp_law sv \<Longrightarrow> mail_send sv conn = (res, conn') \<Longrightarrow>
     sender_step e from_email s (s\<lparr>sy_at := (sy_at s)(w := Handed q h res),
       sy_sent := (if delivers sv conn then sy_sent s @ [(qr_company q, qr_step q, h)] else sy_sent s)\<rparr>)"
| s_settle: "sy_at s w = Handed q h res \<Longrightarrow> sent_law (sy_sent s) h (tn_look t) \<Longrightarrow>
     after_send e t from_email q h res (sy_box s) = (r, b) \<Longrightarrow>
     sender_step e from_email s (s\<lparr>sy_box := b, sy_at := (sy_at s)(w := (case r of Inl x \<Rightarrow> Dead | Inr x \<Rightarrow> Idle))\<rparr>)"
| s_crash: "sender_step e from_email s (s\<lparr>sy_at := (sy_at s)(w := Dead)\<rparr>)"
| s_recover: "r \<in> set (ob_queue (sy_box s)) \<Longrightarrow> stale now r \<Longrightarrow> (\<forall>w q. held (sy_at s w) = Some q \<longrightarrow> qr_id q \<noteq> qr_id r) \<Longrightarrow>
     (\<forall>f h. looks = Some f \<longrightarrow> qr_msgid r = Some h \<longrightarrow> sent_law (sy_sent s) h (f (qr_id r))) \<Longrightarrow>
     recover_one e now newid m from_email looks r (sy_box s) = (x, b) \<Longrightarrow>
     sender_step e from_email s (s\<lparr>sy_box := b\<rparr>)"
| s_sweep: "sender_step e from_email s (s\<lparr>sy_box := snd (sweep (sn_cfg e) (sy_box s))\<rparr>)"
| s_prepare: "insert_row q (sy_box s) = Inr b \<Longrightarrow> fresh_row q \<Longrightarrow>
     sender_step e from_email s (s\<lparr>sy_box := b\<rparr>)"
| s_reword: "(\<forall>q. p q \<longrightarrow> untouched q) \<Longrightarrow>
     sender_step e from_email s (s\<lparr>sy_box := map_queue (upd_where p (\<lambda>q. reword (mail q) (problems q) q)) (sy_box s)\<rparr>)"
| s_clear: "(\<forall>q. p q \<longrightarrow> qr_state q = Cancelled) \<Longrightarrow>
     sender_step e from_email s (s\<lparr>sy_box := map_queue (del_where p) (sy_box s)\<rparr>)"
| s_world: "ob_queue b = ob_queue (sy_box s) \<Longrightarrow> ob_next b = ob_next (sy_box s) \<Longrightarrow>
     sender_step e from_email s (s\<lparr>sy_box := b\<rparr>)"

definition sender_start :: "sys \<Rightarrow> bool" where
  "sender_start s \<longleftrightarrow> ob_queue (sy_box s) = [] \<and> sy_at s = (\<lambda>w. Idle) \<and> sy_sent s = []"

subsection \<open>The invariant\<close>

definition row_key :: "qrow \<Rightarrow> str \<times> int" where "row_key q = (qr_company q, qr_step q)"

definition took :: "(str \<times> int \<times> str) list \<Rightarrow> qrow \<Rightarrow> bool" where
  "took d q \<longleftrightarrow> (\<exists>h. (qr_company q, qr_step q, h) \<in> set d)"

text \<open>The table: ids and keys are unique, new ids are fresh, Message-IDs are unique and not empty.\<close>

definition queue_wf :: "qrow list \<Rightarrow> int \<Rightarrow> bool" where
  "queue_wf t n \<longleftrightarrow> distinct (map qr_id t) \<and> distinct (map row_key t) \<and> (\<forall>q\<in>set t. qr_id q < n \<and> qr_msgid q \<noteq> Some [])
     \<and> (\<forall>p\<in>set t. \<forall>q\<in>set t. qr_msgid p = qr_msgid q \<and> qr_msgid p \<noteq> None \<longrightarrow> qr_id p = qr_id q)"

text \<open>What the state of a row says about the mail.\<close>

definition row_honest :: "(str \<times> int \<times> str) list \<Rightarrow> qrow \<Rightarrow> bool" where
  "row_honest d q \<longleftrightarrow> (case qr_state q of Sent \<Rightarrow> took d q | Claimed \<Rightarrow> True | Ambiguous \<Rightarrow> True | _ \<Rightarrow> \<not> took d q)"

text \<open>Every mail the server took has its row, with its Message-ID.\<close>

definition tracked :: "(str \<times> int \<times> str) list \<Rightarrow> qrow list \<Rightarrow> bool" where
  "tracked d t \<longleftrightarrow> (\<forall>(i, stp, h)\<in>set d. \<exists>q\<in>set t. row_key q = (i, stp) \<and> qr_msgid q = Some h)"

definition holder_ok :: "(str \<times> int \<times> str) list \<Rightarrow> qrow list \<Rightarrow> phase \<Rightarrow> bool" where
  "holder_ok d t ph \<longleftrightarrow>
     (case held ph of None \<Rightarrow> True
      | Some q \<Rightarrow> \<exists>r\<in>set t. qr_id r = qr_id q \<and> row_key r = row_key q \<and> qr_state r = Claimed
          \<and> (case ph of Holding q \<Rightarrow> qr_msgid r = qr_msgid q \<and> \<not> took d r
             | Marked q h \<Rightarrow> qr_msgid r = Some h \<and> \<not> took d r
             | Handed q h res \<Rightarrow> qr_msgid r = Some h \<and> (took d r \<longrightarrow> sr_ok res \<or> sr_kind res = K_unknown) \<and> (sr_ok res \<longrightarrow> took d r)
             | _ \<Rightarrow> True))"

definition one_holder :: "(nat \<Rightarrow> phase) \<Rightarrow> bool" where
  "one_holder ph \<longleftrightarrow> (\<forall>w v q p. held (ph w) = Some q \<and> held (ph v) = Some p \<and> qr_id p = qr_id q \<longrightarrow> w = v)"

definition sane :: "(str \<times> int \<times> str) list \<Rightarrow> qrow list \<Rightarrow> int \<Rightarrow> bool" where
  "sane d t n \<longleftrightarrow> queue_wf t n \<and> (\<forall>q\<in>set t. row_honest d q) \<and> tracked d t \<and> distinct (map (\<lambda>(i, stp, h). (i, stp)) d)"

definition sender_inv :: "sys \<Rightarrow> bool" where
  "sender_inv s \<longleftrightarrow> sane (sy_sent s) (ob_queue (sy_box s)) (ob_next (sy_box s))
     \<and> (\<forall>w. holder_ok (sy_sent s) (ob_queue (sy_box s)) (sy_at s w)) \<and> one_holder (sy_at s)"

subsection \<open>Tables stay sane\<close>

lemma queue_wfI:
  assumes "distinct (map qr_id t)" "distinct (map row_key t)" "\<And>q. q \<in> set t \<Longrightarrow> qr_id q < n" "\<And>q. q \<in> set t \<Longrightarrow> qr_msgid q \<noteq> Some []"
    and "\<And>p q h. p \<in> set t \<Longrightarrow> q \<in> set t \<Longrightarrow> qr_msgid p = Some h \<Longrightarrow> qr_msgid q = Some h \<Longrightarrow> qr_id p = qr_id q"
  shows "queue_wf t n"
proof -
  have "qr_id p = qr_id q" if pq: "p \<in> set t" "q \<in> set t" and eq: "qr_msgid p = qr_msgid q \<and> qr_msgid p \<noteq> None" for p q
  proof -
    obtain h where "qr_msgid p = Some h" using eq by (metis not_None_eq)
    then have "qr_msgid p = Some h" "qr_msgid q = Some h" using eq by simp_all
    then show ?thesis using assms(5) pq by blast
  qed
  then show ?thesis unfolding queue_wf_def using assms(1-4) by blast
qed

lemma sane_wf: "sane d t n \<Longrightarrow> queue_wf t n"
  by (simp add: sane_def)

lemma saneD:
  assumes "sane d t n"
  shows "distinct (map qr_id t)" "distinct (map row_key t)" "\<And>q. q \<in> set t \<Longrightarrow> qr_id q < n" "\<And>q. q \<in> set t \<Longrightarrow> qr_msgid q \<noteq> Some []"
    "\<And>p q h. p \<in> set t \<Longrightarrow> q \<in> set t \<Longrightarrow> qr_msgid p = Some h \<Longrightarrow> qr_msgid q = Some h \<Longrightarrow> qr_id p = qr_id q"
    "\<And>q. q \<in> set t \<Longrightarrow> row_honest d q" "tracked d t"
proof -
  note w = sane_wf [OF assms, unfolded queue_wf_def]
  show "distinct (map qr_id t)" "distinct (map row_key t)" using w by simp_all
  show "qr_id q < n" "qr_msgid q \<noteq> Some []" if "q \<in> set t" for q using w that by simp_all
  show "qr_id p = qr_id q" if "p \<in> set t" "q \<in> set t" "qr_msgid p = Some h" "qr_msgid q = Some h" for p q h
    using w that by (metis option.distinct(1))
  show "row_honest d q" if "q \<in> set t" for q using assms that by (simp add: sane_def)
  show "tracked d t" using assms by (simp add: sane_def)
qed

lemma sane_same_id: "sane d t n \<Longrightarrow> p \<in> set t \<Longrightarrow> q \<in> set t \<Longrightarrow> qr_id p = qr_id q \<Longrightarrow> p = q"
  using saneD(1) distinct_key_eq by metis

lemma sane_same_key: "sane d t n \<Longrightarrow> p \<in> set t \<Longrightarrow> q \<in> set t \<Longrightarrow> row_key p = row_key q \<Longrightarrow> p = q"
  using saneD(2) distinct_key_eq by metis

lemma took_key: "row_key p = row_key q \<Longrightarrow> took d p = took d q"
  by (auto simp: row_key_def took_def)

lemma took_msgid:
  assumes "sane d t n" and "q \<in> set t" and "took d q"
  shows "\<exists>h. qr_msgid q = Some h \<and> h \<noteq> [] \<and> (qr_company q, qr_step q, h) \<in> set d"
proof -
  obtain h where h: "(qr_company q, qr_step q, h) \<in> set d" using assms(3) by (auto simp: took_def)
  then obtain p where "p \<in> set t" "row_key p = row_key q" "qr_msgid p = Some h"
    using saneD(7) [OF assms(1)] by (auto simp: tracked_def row_key_def)
  then show ?thesis using sane_same_key [OF assms(1)] assms(2) saneD(4) [OF assms(1)] h by blast
qed

lemma sane_map:
  assumes "sane d t n" and g: "\<And>q. q \<in> set t \<Longrightarrow> qr_id (g q) = qr_id q \<and> row_key (g q) = row_key q \<and> row_honest d (g q)"
    and m: "\<And>q. q \<in> set t \<Longrightarrow> qr_msgid (g q) = qr_msgid q \<or>
        (\<not> took d q \<and> (\<exists>h. qr_msgid (g q) = Some h \<and> h \<noteq> [] \<and> (\<forall>p\<in>set t. qr_msgid (g p) = Some h \<longrightarrow> p = q)))"
  shows "sane d (map g t) n"
proof -
  have ids: "map qr_id (map g t) = map qr_id t" "map row_key (map g t) = map row_key t" using g by (simp_all add: comp_def)
  have "queue_wf (map g t) n"
  proof (rule queue_wfI)
    show "distinct (map qr_id (map g t))" "distinct (map row_key (map g t))"
      unfolding ids using saneD(1,2) [OF assms(1)] by simp_all
    show "qr_id q < n" "qr_msgid q \<noteq> Some []" if "q \<in> set (map g t)" for q
      using that g m saneD(3,4) [OF assms(1)] by fastforce+
    show "qr_id p' = qr_id q'" if in_t: "p' \<in> set (map g t)" "q' \<in> set (map g t)" and h: "qr_msgid p' = Some h" "qr_msgid q' = Some h" for p' q' h
    proof -
      obtain p q where pq: "p \<in> set t" "q \<in> set t" "p' = g p" "q' = g q" using in_t by auto
      consider "qr_msgid (g p) = qr_msgid p" "qr_msgid (g q) = qr_msgid q" | "p = q"
        using m [OF pq(1)] m [OF pq(2)] pq h by (metis option.inject)
      then show ?thesis using saneD(5) [OF assms(1) pq(1,2)] h pq g by cases metis+
    qed
  qed
  moreover have "tracked d (map g t)"
    unfolding tracked_def
  proof clarify
    fix i stp h
    assume d: "(i, stp, h) \<in> set d"
    then obtain q where q: "q \<in> set t" "row_key q = (i, stp)" "qr_msgid q = Some h"
      using saneD(7) [OF assms(1)] by (auto simp: tracked_def)
    then have "took d q" using d by (auto simp: took_def row_key_def)
    then show "\<exists>q\<in>set (map g t). row_key q = (i, stp) \<and> qr_msgid q = Some h" using q g m by fastforce
  qed
  ultimately show ?thesis using assms(1) g by (auto simp: sane_def)
qed

lemma sane_upd:
  assumes "sane d t n" and r: "r \<in> set t" and "qr_id (f r) = qr_id r" "row_key (f r) = row_key r" "row_honest d (f r)"
    and m: "qr_msgid (f r) = qr_msgid r \<or> (\<not> took d r \<and> (\<exists>h. qr_msgid (f r) = Some h \<and> h \<noteq> [] \<and> (\<forall>p\<in>set t. p \<noteq> r \<longrightarrow> qr_msgid p \<noteq> Some h)))"
  shows "sane d (upd_where (\<lambda>q. qr_id q = qr_id r) f t) n"
proof -
  have only: "q = r" if "q \<in> set t" "qr_id q = qr_id r" for q using sane_same_id [OF assms(1) that(1) r that(2)] .
  show ?thesis unfolding upd_where_def
  proof (rule sane_map [OF assms(1)])
    fix q assume q: "q \<in> set t"
    show "qr_id (if qr_id q = qr_id r then f q else q) = qr_id q \<and> row_key (if qr_id q = qr_id r then f q else q) = row_key q
        \<and> row_honest d (if qr_id q = qr_id r then f q else q)"
      using only [OF q] assms(3-5) saneD(6) [OF assms(1) q] by auto
    show "qr_msgid (if qr_id q = qr_id r then f q else q) = qr_msgid q \<or> (\<not> took d q \<and>
        (\<exists>h. qr_msgid (if qr_id q = qr_id r then f q else q) = Some h \<and> h \<noteq> [] \<and>
          (\<forall>p\<in>set t. qr_msgid (if qr_id p = qr_id r then f p else p) = Some h \<longrightarrow> p = q)))"
      using only [OF q] only m by (cases "q = r") auto
  qed
qed

lemma sane_add:
  assumes "sane d t n" and "qr_id q = n" and "row_key q \<notin> row_key ` set t" and "qr_msgid q = None"
    and "qr_state q = Queued \<or> qr_state q = Cancelled"
  shows "sane d (t @ [q]) (n + 1)"
proof -
  have "\<not> took d q"
  proof
    assume "took d q"
    then obtain p where "p \<in> set t" "row_key p = row_key q"
      using saneD(7) [OF assms(1)] by (auto simp: took_def tracked_def row_key_def)
    then show False using assms(3) by (metis imageI)
  qed
  then have "row_honest d q" using assms(5) by (auto simp: row_honest_def)
  moreover have "queue_wf (t @ [q]) (n + 1)"
  proof (rule queue_wfI)
    show "distinct (map qr_id (t @ [q]))" using saneD(1) [OF assms(1)] saneD(3) [OF assms(1)] assms(2) by fastforce
    show "distinct (map row_key (t @ [q]))" using saneD(2) [OF assms(1)] assms(3) by simp
    show "qr_id p < n + 1" "qr_msgid p \<noteq> Some []" if "p \<in> set (t @ [q])" for p
      using that saneD(3) [OF assms(1), of p] saneD(4) [OF assms(1), of p] assms(2,4) by auto
    show "qr_id p = qr_id r" if "p \<in> set (t @ [q])" "r \<in> set (t @ [q])" and h: "qr_msgid p = Some h" "qr_msgid r = Some h" for p r h
    proof -
      have "p \<in> set t" "r \<in> set t" using that assms(4) by auto
      then show ?thesis using saneD(5) [OF assms(1)] h by blast
    qed
  qed
  ultimately show ?thesis using assms(1) by (auto simp: sane_def tracked_def)
qed

lemma sane_clear:
  assumes "sane d t n" and "\<forall>q. p q \<longrightarrow> qr_state q = Cancelled"
  shows "sane d (del_where p t) n"
proof -
  have "queue_wf (del_where p t) n"
  proof (rule queue_wfI)
    show "distinct (map qr_id (del_where p t))" "distinct (map row_key (del_where p t))"
      using saneD(1,2) [OF assms(1)] by (simp_all add: del_where_def distinct_map_filter)
  qed (use saneD(3-5) [OF assms(1)] in \<open>auto simp: set_del_where\<close>)
  moreover have "tracked d (del_where p t)"
    unfolding tracked_def
  proof clarify
    fix i stp h
    assume d: "(i, stp, h) \<in> set d"
    then obtain q where q: "q \<in> set t" "row_key q = (i, stp)" "qr_msgid q = Some h"
      using saneD(7) [OF assms(1)] by (auto simp: tracked_def)
    then have "took d q" using d by (auto simp: took_def row_key_def)
    then have "\<not> p q" using saneD(6) [OF assms(1) q(1)] assms(2) by (auto simp: row_honest_def)
    then show "\<exists>q\<in>set (del_where p t). row_key q = (i, stp) \<and> qr_msgid q = Some h" using q by (auto simp: set_del_where)
  qed
  ultimately show ?thesis using assms(1) by (auto simp: sane_def set_del_where)
qed

lemma took_more: "took (d @ [(i, stp, h)]) q \<longleftrightarrow> took d q \<or> row_key q = (i, stp)"
  by (auto simp: took_def row_key_def)

lemma sane_took:
  assumes "sane d t n" and r: "r \<in> set t" and "qr_state r = Claimed" and "\<not> took d r" and "qr_msgid r = Some h"
  shows "sane (d @ [(qr_company r, qr_step r, h)]) t n"
proof -
  have "row_honest (d @ [(qr_company r, qr_step r, h)]) q" if "q \<in> set t" for q
  proof (cases "q = r")
    case False
    then have "row_key q \<noteq> row_key r" using sane_same_key [OF assms(1) that r] by blast
    then have "took (d @ [(qr_company r, qr_step r, h)]) q = took d q" by (auto simp: took_more row_key_def)
    then show ?thesis using saneD(6) [OF assms(1) that] by (simp only: row_honest_def)
  qed (simp add: row_honest_def assms(3))
  moreover have "tracked (d @ [(qr_company r, qr_step r, h)]) t"
    using saneD(7) [OF assms(1)] r assms(5) by (auto simp: tracked_def row_key_def)
  moreover have "distinct (map (\<lambda>(i, stp, h). (i, stp)) (d @ [(qr_company r, qr_step r, h)]))"
    using assms(1,4) by (auto simp: sane_def took_def)
  ultimately show ?thesis using assms(1) by (simp add: sane_def)
qed

subsection \<open>What the operations do to the table\<close>

text \<open>A follow-up is a new row that nobody has touched, or none.\<close>

definition adds_row :: "qrow list \<Rightarrow> int \<Rightarrow> qrow list \<Rightarrow> int \<Rightarrow> bool" where
  "adds_row t n t' n' \<longleftrightarrow> t' = t \<and> n' = n
     \<or> (\<exists>q. t' = t @ [q] \<and> n' = n + 1 \<and> qr_id q = n \<and> row_key q \<notin> row_key ` set t \<and> qr_msgid q = None
          \<and> (qr_state q = Queued \<or> qr_state q = Cancelled))"

lemma adds_refl [simp]: "adds_row t n t n"
  by (simp add: adds_row_def)

lemma sane_adds: "sane d t n \<Longrightarrow> adds_row t n t' n' \<Longrightarrow> sane d t' n'"
  using sane_add by (auto simp: adds_row_def)

lemma adds_subset: "adds_row t n t' n' \<Longrightarrow> set t \<subseteq> set t'"
  by (auto simp: adds_row_def)

lemma insert_row_adds:
  assumes "insert_row q b = Inr b'" and "qr_msgid q = None" and "qr_state q = Queued \<or> qr_state q = Cancelled"
  shows "adds_row (ob_queue b) (ob_next b) (ob_queue b') (ob_next b')"
proof (cases "list_ex (\<lambda>x. qr_company x = qr_company q \<and> qr_step x = qr_step q) (ob_queue b)")
  case False
  then have "row_key (q\<lparr>qr_id := ob_next b\<rparr>) \<notin> row_key ` set (ob_queue b)" by (auto simp: row_key_def list_ex_iff)
  then show ?thesis using assms False by (auto simp: insert_row_def adds_row_def split: if_splits)
qed (use assms in \<open>auto simp: insert_row_def adds_row_def split: if_splits\<close>)

lemma new_row_sel [simp]:
  "qr_msgid (new_row i stp to mail problems due) = None"
  "qr_state (new_row i stp to mail problems due) = (if problems = [] then Queued else Cancelled)"
  by (simp_all add: new_row_def)

lemma next_adds:
  assumes "next_approved e m item rt w first b = Inr b' \<or> next_generated e m item rt w first b = Inr b'"
  shows "adds_row (ob_queue b) (ob_next b) (ob_queue b') (ob_next b')"
  using assms
proof
  assume "next_approved e m item rt w first b = Inr b'"
  then show ?thesis
    by (auto simp: next_approved_def Let_def sbind_eq_Inr
        split: option.splits if_splits elim!: insert_row_adds)
next
  assume "next_generated e m item rt w first b = Inr b'"
  then show ?thesis
    by (auto simp: next_generated_def Let_def sbind_eq_Inr
        split: option.splits if_splits elim!: insert_row_adds)
qed

lemma upd_id_sel [simp]: "ob_queue (upd_id i f b) = upd_where (\<lambda>q. qr_id q = i) f (ob_queue b)" "ob_next (upd_id i f b) = ob_next b"
  "ob_conv (upd_id i f b) = ob_conv b"
  by (simp_all add: upd_id_def)

lemma record_sent_table:
  assumes "record_sent e now newid m from_email item h w note b = Inr b'"
  shows "\<exists>mid. adds_row (upd_where (\<lambda>q. qr_id q = qr_id item) (sent_row w note mid) (ob_queue b)) (ob_next b) (ob_queue b') (ob_next b')"
proof -
  obtain c1 mid rt first where
    "next_approved e m item rt w first (map_conv (mark_ready_company (qr_company item) ''contacted'')
        (upd_id (qr_id item) (sent_row w note mid) (b\<lparr>ob_conv := c1\<rparr>))) = Inr b'
     \<or> next_generated e m item rt w first (map_conv (mark_ready_company (qr_company item) ''contacted'')
        (upd_id (qr_id item) (sent_row w note mid) (b\<lparr>ob_conv := c1\<rparr>))) = Inr b'"
    using assms unfolding record_sent_def by (auto simp: sbind_eq_Inr Let_def split: if_splits prod.splits)
  from next_adds [OF this] show ?thesis by auto
qed

lemma finish_table: "ob_queue (finish now item st reason b) = upd_where (\<lambda>q. qr_id q = qr_id item) (finish_row st reason) (ob_queue b)"
    "ob_next (finish now item st reason b) = ob_next b"
  by (simp_all add: finish_def Let_def)

lemma release_table: "ob_queue (release now delay undo i b) = upd_where (\<lambda>q. qr_id q = i) (release_row now delay undo) (ob_queue b)"
    "ob_next (release now delay undo i b) = ob_next b"
  by (simp_all add: release_def)

subsection \<open>Holders\<close>

lemma holder_kept:
  assumes "holder_ok d t ph" and "\<And>r q. r \<in> set t \<Longrightarrow> held ph = Some q \<Longrightarrow> qr_id r = qr_id q \<Longrightarrow> qr_state r = Claimed \<Longrightarrow> r \<in> set t'"
    and "\<And>r q. r \<in> set t \<Longrightarrow> held ph = Some q \<Longrightarrow> qr_id r = qr_id q \<Longrightarrow> took d' r = took d r"
  shows "holder_ok d' t' ph"
proof (cases "held ph")
  case (Some q)
  then obtain r where r: "r \<in> set t" "qr_id r = qr_id q" "row_key r = row_key q" "qr_state r = Claimed"
    and c: "case ph of Holding q \<Rightarrow> qr_msgid r = qr_msgid q \<and> \<not> took d r
             | Marked q h \<Rightarrow> qr_msgid r = Some h \<and> \<not> took d r
             | Handed q h res \<Rightarrow> qr_msgid r = Some h \<and> (took d r \<longrightarrow> sr_ok res \<or> sr_kind res = K_unknown) \<and> (sr_ok res \<longrightarrow> took d r)
             | _ \<Rightarrow> True"
    using assms(1) by (auto simp: holder_ok_def)
  then have "r \<in> set t'" "took d' r = took d r" using assms(2,3) Some by blast+
  then show ?thesis using r c Some by (auto simp: holder_ok_def split: phase.splits)
qed (simp add: holder_ok_def)

lemma holder_upd:
  assumes "holder_ok d t ph" and "\<And>q. held ph = Some q \<Longrightarrow> qr_id q \<noteq> i" and "set (upd_where (\<lambda>q. qr_id q = i) f t) \<subseteq> set t'"
  shows "holder_ok d t' ph"
  using assms by (intro holder_kept [OF assms(1)]) (force simp: set_upd_where)+

subsection \<open>Every step keeps the invariant\<close>

lemma inv_table: "sender_inv s \<Longrightarrow> sane (sy_sent s) (ob_queue (sy_box s)) (ob_next (sy_box s))"
  by (simp add: sender_inv_def)

lemma inv_holder: "sender_inv s \<Longrightarrow> holder_ok (sy_sent s) (ob_queue (sy_box s)) (sy_at s w)"
  by (simp add: sender_inv_def)

lemma inv_others: "sender_inv s \<Longrightarrow> held (sy_at s w) = Some q \<Longrightarrow> v \<noteq> w \<Longrightarrow> held (sy_at s v) = Some p \<Longrightarrow> qr_id p \<noteq> qr_id q"
  by (auto simp: sender_inv_def one_holder_def)

text \<open>A run works on the row it holds, and may add a follow-up.\<close>

lemma inv_one:
  assumes inv: "sender_inv s" and held: "held (sy_at s w) = Some q" and r: "r \<in> set (ob_queue (sy_box s))" "qr_id r = qr_id q"
    and f: "qr_id (f r) = qr_id r" "row_key (f r) = row_key r" "row_honest (sy_sent s) (f r)"
      "qr_msgid (f r) = qr_msgid r \<or> (\<not> took (sy_sent s) r \<and> (\<exists>h. qr_msgid (f r) = Some h \<and> h \<noteq> []
         \<and> (\<forall>p\<in>set (ob_queue (sy_box s)). p \<noteq> r \<longrightarrow> qr_msgid p \<noteq> Some h)))"
    and b: "adds_row (upd_where (\<lambda>p. qr_id p = qr_id q) f (ob_queue (sy_box s))) (ob_next (sy_box s)) (ob_queue b) (ob_next b)"
    and ph: "holder_ok (sy_sent s) (ob_queue b) ph" "held ph = None \<or> held ph = Some q"
  shows "sender_inv (s\<lparr>sy_box := b, sy_at := (sy_at s)(w := ph)\<rparr>)"
proof -
  have "sane (sy_sent s) (ob_queue b) (ob_next b)"
    using sane_adds [OF sane_upd [where f = f, OF inv_table [OF inv] r(1) f(1-4)]] b unfolding r(2) .
  moreover have "holder_ok (sy_sent s) (ob_queue b) (sy_at s v)" if "v \<noteq> w" for v
    by (rule holder_upd [OF inv_holder [OF inv] inv_others [OF inv held that] adds_subset [OF b]])
  moreover have "one_holder ((sy_at s)(w := ph))"
    using ph(2) held inv by (auto simp: sender_inv_def one_holder_def)
  ultimately show ?thesis using ph(1) by (simp add: sender_inv_def)
qed

lemma holder_row:
  assumes "sender_inv s" and "held (sy_at s w) = Some q"
  obtains r where "r \<in> set (ob_queue (sy_box s))" "qr_id r = qr_id q" "row_key r = row_key q" "qr_state r = Claimed"
  using inv_holder [OF assms(1), of w] assms(2) by (auto simp: holder_ok_def)

lemma one_holder_new:
  assumes "one_holder ph" and "\<And>v p. held (ph v) = Some p \<Longrightarrow> qr_id p \<noteq> qr_id q"
  shows "one_holder (ph(w := Holding q))"
  unfolding one_holder_def
proof (intro allI impI, elim conjE)
  fix a b x y
  assume h: "held ((ph(w := Holding q)) a) = Some x" "held ((ph(w := Holding q)) b) = Some y" "qr_id y = qr_id x"
  show "a = b"
  proof (cases "a = w \<or> b = w")
    case True
    then show ?thesis using h assms(2) by (auto split: if_splits)
  next
    case False
    then show ?thesis using h assms(1) by (auto simp: one_holder_def)
  qed
qed

lemma inv_claim:
  assumes inv: "sender_inv s" and "sy_at s w = Idle" and "claim now who followups locked (sy_box s) = (Some q, b)"
  shows "sender_inv (s\<lparr>sy_box := b, sy_at := (sy_at s)(w := Holding q)\<rparr>)"
proof -
  obtain r where l: "least_by send_order (filter (\<lambda>q. due_to_send now followups q \<and> qr_id q \<notin> set locked) (ob_queue (sy_box s))) = Some r"
    and q: "q = claim_row now who r" and b: "b = upd_id (qr_id r) (claim_row now who) (sy_box s)"
    using assms(3) by (auto simp: claim_def split: option.splits)
  have r: "r \<in> set (ob_queue (sy_box s))" "qr_state r = Queued" using least_by_Some_in [OF l] by (auto simp: due_to_send_def)
  note t = inv_table [OF inv]
  have nt: "\<not> took (sy_sent s) r" using saneD(6) [OF t r(1)] r(2) by (simp add: row_honest_def)
  have "sane (sy_sent s) (ob_queue b) (ob_next b)"
    unfolding b upd_id_sel by (rule sane_upd [OF t r(1)]) (simp_all add: claim_row_def row_key_def row_honest_def)
  moreover have free: "qr_id p \<noteq> qr_id r" if h: "held (sy_at s v) = Some p" for v p
  proof
    assume e: "qr_id p = qr_id r"
    obtain x where "x \<in> set (ob_queue (sy_box s))" "qr_id x = qr_id p" "qr_state x = Claimed" by (rule holder_row [OF inv h])
    then have "x = r" using sane_same_id [OF t _ r(1)] e by simp
    then show False using \<open>qr_state x = Claimed\<close> r(2) by simp
  qed
  then have "holder_ok (sy_sent s) (ob_queue b) (sy_at s v)" for v
    unfolding b upd_id_sel by (intro holder_upd [OF inv_holder [OF inv]]) auto
  moreover have "holder_ok (sy_sent s) (ob_queue b) (Holding q)"
  proof -
    have "q \<in> set (ob_queue b)" using r(1) unfolding b q upd_id_sel by (force simp: set_upd_where)
    moreover have "qr_state q = Claimed" "\<not> took (sy_sent s) q" using nt by (simp_all add: q claim_row_def took_def)
    ultimately show ?thesis by (auto simp: holder_ok_def)
  qed
  moreover have "one_holder ((sy_at s)(w := Holding q))"
    using inv free by (intro one_holder_new) (auto simp: sender_inv_def q claim_row_def)
  ultimately show ?thesis by (simp add: sender_inv_def)
qed

text \<open>A run lets its row go.\<close>

lemma inv_let_go:
  assumes inv: "sender_inv s" and held: "held (sy_at s w) = Some q"
    and f: "\<And>r. qr_id (f r) = qr_id r \<and> row_key (f r) = row_key r \<and> qr_msgid (f r) = qr_msgid r"
    and h: "\<And>r. r \<in> set (ob_queue (sy_box s)) \<Longrightarrow> qr_id r = qr_id q \<Longrightarrow> row_honest (sy_sent s) (f r)"
    and b: "adds_row (upd_where (\<lambda>p. qr_id p = qr_id q) f (ob_queue (sy_box s))) (ob_next (sy_box s)) (ob_queue b) (ob_next b)"
    and ph: "held ph = None"
  shows "sender_inv (s\<lparr>sy_box := b, sy_at := (sy_at s)(w := ph)\<rparr>)"
proof -
  obtain r where r: "r \<in> set (ob_queue (sy_box s))" "qr_id r = qr_id q" by (rule holder_row [OF inv held])
  show ?thesis by (rule inv_one [OF inv held r _ _ h [OF r] _ b]) (simp_all add: f ph holder_ok_def)
qed

lemma took_same_key: "row_key (f r) = row_key r \<Longrightarrow> took d (f r) = took d r"
  by (rule took_key)

lemma rows_keep:
  "qr_id (release_row now delay undo r) = qr_id r" "row_key (release_row now delay undo r) = row_key r"
  "qr_msgid (release_row now delay undo r) = qr_msgid r"
  "qr_id (finish_row st reason r) = qr_id r" "row_key (finish_row st reason r) = row_key r"
  "qr_msgid (finish_row st reason r) = qr_msgid r"
  "qr_id (sent_row t note mid r) = qr_id r" "row_key (sent_row t note mid r) = row_key r" "qr_msgid (sent_row t note mid r) = qr_msgid r"
  by (simp_all add: release_row_def finish_row_def sent_row_def row_key_def)

lemma rows_honest:
  "\<not> took d r \<Longrightarrow> qr_state r = Claimed \<Longrightarrow> row_honest d (release_row now delay undo r)"
  "\<not> took d r \<Longrightarrow> st = Cancelled \<or> st = Failed \<Longrightarrow> row_honest d (finish_row st reason r)"
  "row_honest d (finish_row Ambiguous reason r)"
  "took d r \<Longrightarrow> row_honest d (sent_row t note mid r)"
  by (auto simp: row_honest_def release_row_def finish_row_def sent_row_def took_def)

lemma holder_clause:
  assumes "sender_inv s" and "held (sy_at s w) = Some q" and "r \<in> set (ob_queue (sy_box s))" and "qr_id r = qr_id q"
  shows "qr_state r = Claimed" "row_key r = row_key q"
    "sy_at s w = Holding q \<Longrightarrow> qr_msgid r = qr_msgid q \<and> \<not> took (sy_sent s) r"
    "sy_at s w = Marked q h \<Longrightarrow> qr_msgid r = Some h \<and> \<not> took (sy_sent s) r"
    "sy_at s w = Handed q h res \<Longrightarrow> qr_msgid r = Some h
       \<and> (took (sy_sent s) r \<longrightarrow> sr_ok res \<or> sr_kind res = K_unknown) \<and> (sr_ok res \<longrightarrow> took (sy_sent s) r)"
proof -
  obtain x where x: "x \<in> set (ob_queue (sy_box s))" "qr_id x = qr_id q" "row_key x = row_key q" "qr_state x = Claimed"
    and c: "case sy_at s w of Holding q \<Rightarrow> qr_msgid x = qr_msgid q \<and> \<not> took (sy_sent s) x
             | Marked q h \<Rightarrow> qr_msgid x = Some h \<and> \<not> took (sy_sent s) x
             | Handed q h res \<Rightarrow> qr_msgid x = Some h \<and> (took (sy_sent s) x \<longrightarrow> sr_ok res \<or> sr_kind res = K_unknown)
                 \<and> (sr_ok res \<longrightarrow> took (sy_sent s) x)
             | _ \<Rightarrow> True"
    using inv_holder [OF assms(1), of w] assms(2) by (auto simp: holder_ok_def)
  have "x = r" using sane_same_id [OF inv_table [OF assms(1)] x(1) assms(3)] x(2) assms(4) by simp
  then show "qr_state r = Claimed" "row_key r = row_key q"
    "sy_at s w = Holding q \<Longrightarrow> qr_msgid r = qr_msgid q \<and> \<not> took (sy_sent s) r"
    "sy_at s w = Marked q h \<Longrightarrow> qr_msgid r = Some h \<and> \<not> took (sy_sent s) r"
    "sy_at s w = Handed q h res \<Longrightarrow> qr_msgid r = Some h
       \<and> (took (sy_sent s) r \<longrightarrow> sr_ok res \<or> sr_kind res = K_unknown) \<and> (sr_ok res \<longrightarrow> took (sy_sent s) r)"
    using x c by auto
qed

lemma inv_refuse:
  assumes inv: "sender_inv s" and w: "sy_at s w = Holding q" and "after_refusal t q r (sy_box s) = (x, b)"
  shows "sender_inv (s\<lparr>sy_box := b, sy_at := (sy_at s)(w := Idle)\<rparr>)"
proof -
  have held: "held (sy_at s w) = Some q" using w by simp
  note c = holder_clause [OF inv held]
  show ?thesis
  proof (cases "r = R_guard_error")
    case True
    then have b: "b = release (tn_now t) (10 * minute) True (qr_id q) (sy_box s)" using assms(3) by (simp add: after_refusal_def)
    show ?thesis
      by (rule inv_let_go [OF inv held, where f = "release_row (tn_now t) (10 * minute) True"])
        (simp_all add: b release_table rows_keep rows_honest c w)
  next
    case False
    then have b: "b = finish (tn_now t) q Cancelled (refuse_text r) (sy_box s)" using assms(3) by (simp add: after_refusal_def)
    show ?thesis
      by (rule inv_let_go [OF inv held, where f = "finish_row Cancelled (refuse_text r)"])
        (simp_all add: b finish_table rows_keep rows_honest c w)
  qed
qed

lemma upd_where_same: "upd_where p (\<lambda>q. q) t = t"
  by (simp add: upd_where_def)

lemma inv_save:
  assumes inv: "sender_inv s" and w: "sy_at s w = Holding q" and "save_id t from_email q (sy_box s) = Inr (h, b)" and "h \<noteq> []"
  shows "sender_inv (s\<lparr>sy_box := b, sy_at := (sy_at s)(w := Marked q h)\<rparr>)"
proof -
  have held: "held (sy_at s w) = Some q" using w by simp
  obtain r where r: "r \<in> set (ob_queue (sy_box s))" "qr_id r = qr_id q" by (rule holder_row [OF inv held])
  note c = holder_clause [OF inv held r]
  note t = inv_table [OF inv]
  show ?thesis
  proof (cases "given (qr_msgid q)")
    case (Some g)
    then have m: "qr_msgid q = Some h" "b = sy_box s"
      using assms(3) by (auto simp: save_id_def given_def split: option.splits if_splits)
    show ?thesis
      by (rule inv_one [OF inv held r, where f = "\<lambda>q. q"])
        (use m r c w saneD(6) [OF t r(1)] in \<open>auto simp: upd_where_same holder_ok_def\<close>)
  next
    case None
    then have n: "qr_msgid r = None"
      using c(3) [OF w] saneD(4) [OF t r(1)] by (auto simp: given_def split: option.splits if_splits)
    let ?f = "\<lambda>q. q\<lparr>qr_msgid := Some h\<rparr>"
    have b: "b = upd_id (qr_id q) ?f (sy_box s)" and fresh: "\<not> list_ex (\<lambda>p. qr_id p \<noteq> qr_id q \<and> qr_msgid p = Some h) (ob_queue (sy_box s))"
      using assms(3) None by (auto simp: save_id_def Let_def split: if_splits)
    have fresh': "\<forall>p\<in>set (ob_queue (sy_box s)). p \<noteq> r \<longrightarrow> qr_msgid p \<noteq> Some h"
      using fresh sane_same_id [OF t _ r(1)] r(2) by (auto simp: list_ex_iff)
    show ?thesis
    proof (rule inv_one [OF inv held r, where f = ?f])
      show "row_honest (sy_sent s) (?f r)" using c(1) by (simp add: row_honest_def)
      show "qr_msgid (?f r) = qr_msgid r \<or> \<not> took (sy_sent s) r \<and> (\<exists>h. qr_msgid (?f r) = Some h \<and> h \<noteq> []
          \<and> (\<forall>p\<in>set (ob_queue (sy_box s)). p \<noteq> r \<longrightarrow> qr_msgid p \<noteq> Some h))"
        using c(3) [OF w] fresh' assms(4) by auto
      have "?f r \<in> set (ob_queue b)" using r by (force simp: b set_upd_where)
      moreover have "took (sy_sent s) (?f r) = took (sy_sent s) r" by (rule took_key) (simp add: row_key_def)
      ultimately show "holder_ok (sy_sent s) (ob_queue b) (Marked q h)"
        using c(1,2) c(3) [OF w] r(2) by (auto simp: holder_ok_def row_key_def intro!: bexI [of _ "?f r"])
    qed (simp_all add: b row_key_def)
  qed
qed

lemma inv_hand:
  assumes inv: "sender_inv s" and w: "sy_at s w = Marked q h" and law: "smtp_law sv" and send: "mail_send sv conn = (res, conn')"
  shows "sender_inv (s\<lparr>sy_at := (sy_at s)(w := Handed q h res),
       sy_sent := (if delivers sv conn then sy_sent s @ [(qr_company q, qr_step q, h)] else sy_sent s)\<rparr>)"
proof -
  have held: "held (sy_at s w) = Some q" using w by simp
  obtain r where r: "r \<in> set (ob_queue (sy_box s))" "qr_id r = qr_id q" by (rule holder_row [OF inv held])
  note c = holder_clause [OF inv held r] and t = inv_table [OF inv]
  define d where "d = (if delivers sv conn then sy_sent s @ [(qr_company q, qr_step q, h)] else sy_sent s)"
  have key: "qr_company q = qr_company r" "qr_step q = qr_step r" using c(2) by (simp_all add: row_key_def)
  have "sane d (ob_queue (sy_box s)) (ob_next (sy_box s))"
    using sane_took [OF t r(1) c(1)] c(4) [OF w] t by (simp add: d_def key)
  moreover have "holder_ok d (ob_queue (sy_box s)) (sy_at s v)" if "v \<noteq> w" for v
  proof (rule holder_kept [OF inv_holder [OF inv]])
    fix x p assume x: "x \<in> set (ob_queue (sy_box s))" "held (sy_at s v) = Some p" "qr_id x = qr_id p"
    then have "x \<noteq> r" using inv_others [OF inv held that] r(2) by auto
    then have "row_key x \<noteq> row_key r" using sane_same_key [OF t x(1) r(1)] by blast
    then show "took d x = took (sy_sent s) x" by (auto simp: d_def key took_more row_key_def)
  qed
  moreover have "holder_ok d (ob_queue (sy_box s)) (Handed q h res)"
  proof -
    have "took d r \<longleftrightarrow> delivers sv conn" using c(4) [OF w] by (simp add: d_def key took_more row_key_def)
    then show ?thesis using mail_send_honest [OF law, of conn] send r c(1,2) c(4) [OF w] by (auto simp: holder_ok_def)
  qed
  moreover have "one_holder ((sy_at s)(w := Handed q h res))"
    using inv held by (auto simp: sender_inv_def one_holder_def)
  ultimately show ?thesis unfolding d_def [symmetric] by (simp add: sender_inv_def)
qed

text \<open>A Message-ID found in the Sent folder is that of a mail the server took.\<close>

lemma found_took:
  assumes "sane d t n" and "r \<in> set t" and "qr_msgid r = Some h" and "sent_law d h l" and "in_sent l = Some True"
  shows "took d r"
proof -
  obtain i stp where "(i, stp, h) \<in> set d" using assms(4,5) by (auto simp: sent_law_def)
  then obtain p where p: "p \<in> set t" "row_key p = (i, stp)" "qr_msgid p = Some h"
    using saneD(7) [OF assms(1)] by (auto simp: tracked_def)
  then have "p = r" using sane_same_id [OF assms(1) p(1) assms(2)] saneD(5) [OF assms(1) p(1) assms(2) p(3) assms(3)] by simp
  then show ?thesis using p(2) \<open>(i, stp, h) \<in> set d\<close> by (auto simp: took_def row_key_def)
qed

lemma inv_recorded:
  assumes inv: "sender_inv s" and held: "held (sy_at s w) = Some q"
    and took: "\<And>r. r \<in> set (ob_queue (sy_box s)) \<Longrightarrow> qr_id r = qr_id q \<Longrightarrow> took (sy_sent s) r"
    and "keep (sy_box s) (record_sent e now newid m from_email q h t note (sy_box s)) x = (res, b)" and "held ph = None"
  shows "sender_inv (s\<lparr>sy_box := b, sy_at := (sy_at s)(w := ph)\<rparr>)"
proof (cases "record_sent e now newid m from_email q h t note (sy_box s)")
  case (Inl y)
  then have b: "b = sy_box s" using assms(4) by (simp add: keep_def)
  show ?thesis
    by (rule inv_let_go [OF inv held, where f = "\<lambda>r. r"])
      (simp_all add: b upd_where_same assms(5) saneD(6) [OF inv_table [OF inv]])
next
  case (Inr b')
  then have "b' = b" using assms(4) by (simp add: keep_def)
  then obtain mid where a: "adds_row (upd_where (\<lambda>p. qr_id p = qr_id q) (sent_row t note mid) (ob_queue (sy_box s)))
      (ob_next (sy_box s)) (ob_queue b) (ob_next b)"
    using record_sent_table [OF Inr] by auto
  show ?thesis by (rule inv_let_go [OF inv held _ _ a]) (simp_all add: rows_keep rows_honest took assms(5))
qed

lemma upd_where_twice:
  "(\<And>q. qr_id (g q) = qr_id q) \<Longrightarrow> upd_where (\<lambda>q. qr_id q = i) f (upd_where (\<lambda>q. qr_id q = i) g t) = upd_where (\<lambda>q. qr_id q = i) (\<lambda>q. f (g q)) t"
  by (auto simp: upd_where_def)

lemma inv_settle:
  assumes inv: "sender_inv s" and w: "sy_at s w = Handed q h res" and law: "sent_law (sy_sent s) h (tn_look t)"
    and after: "after_send e t from_email q h res (sy_box s) = (x, b)" and ph: "held ph = None"
  shows "sender_inv (s\<lparr>sy_box := b, sy_at := (sy_at s)(w := ph)\<rparr>)"
proof -
  have held: "held (sy_at s w) = Some q" using w by simp
  note c = holder_clause [OF inv held] and t = inv_table [OF inv]
  show ?thesis
  proof (cases "sr_ok res")
    case True
    then show ?thesis using after c(5) w ph unfolding after_send_def by (intro inv_recorded [OF inv held]) auto
  next
    case no: False
    then have fail: "after_failure e t from_email q h res (sy_box s) = (x, b)" using after by (simp add: after_send_def)
    show ?thesis
    proof (cases "sr_kind res = K_unknown")
      case unk: True
      show ?thesis
      proof (cases "in_sent (tn_look t) = Some True")
        case True
        then have "took (sy_sent s) r" if "r \<in> set (ob_queue (sy_box s))" "qr_id r = qr_id q" for r
          using found_took [OF t that(1) _ law] c(5) [OF that w] by blast
        then show ?thesis using fail True unk ph unfolding after_failure_def by (intro inv_recorded [OF inv held]) auto
      next
        case False
        then have b: "b = finish (tn_now t) q Ambiguous (''interrupted mid-send ('' @ sr_detail res @ '') - not resent'') (sy_box s)"
          using fail unk by (simp add: after_failure_def)
        show ?thesis unfolding b
          by (rule inv_let_go [OF inv held _ _ _ ph,
                where f = "finish_row Ambiguous (''interrupted mid-send ('' @ sr_detail res @ '') - not resent'')"])
            (simp_all only: finish_table rows_keep rows_honest adds_refl simp_thms)
      qed
    next
      case known: False
      have nt: "\<not> took (sy_sent s) r" "qr_state r = Claimed" if "r \<in> set (ob_queue (sy_box s))" "qr_id r = qr_id q" for r
        using c(5) [OF that w] c(1) [OF that] no known by auto
      have go: "sender_inv (s\<lparr>sy_box := b, sy_at := (sy_at s)(w := ph)\<rparr>)"
        if "ob_queue b = upd_where (\<lambda>p. qr_id p = qr_id q) f (ob_queue (sy_box s))" "ob_next b = ob_next (sy_box s)"
          and "\<And>r. qr_id (f r) = qr_id r \<and> row_key (f r) = row_key r \<and> qr_msgid (f r) = qr_msgid r"
          and "\<And>r. \<not> took (sy_sent s) r \<Longrightarrow> qr_state r = Claimed \<Longrightarrow> row_honest (sy_sent s) (f r)" for f
        by (rule inv_let_go [OF inv held that(3) that(4) _ ph]) (simp_all add: nt that(1,2))
      consider (release) delay undo where "b = release (tn_now t) delay undo (qr_id q) (sy_box s)"
        | (failed) reason where "ob_queue b = ob_queue (finish (tn_now t) q Failed reason (sy_box s))" "ob_next b = ob_next (sy_box s)"
        | (retry) delay where "b = release (tn_now t) delay False (qr_id q)
            (upd_id (qr_id q) (\<lambda>p. p\<lparr>qr_response := Some (clip 200 (sr_detail res))\<rparr>) (sy_box s))"
        using fail known unfolding after_failure_def Let_def
        by (auto split: send_kind.splits sum.splits if_splits simp: finish_table)
      then show ?thesis
      proof cases
        case release
        show ?thesis by (rule go [of "release_row (tn_now t) delay undo"]) (simp_all add: release release_table rows_keep rows_honest)
      next
        case failed
        show ?thesis by (rule go [of "finish_row Failed reason"]) (simp_all add: failed finish_table rows_keep rows_honest)
      next
        case retry
        let ?g = "\<lambda>p. p\<lparr>qr_response := Some (clip 200 (sr_detail res))\<rparr>"
        show ?thesis
          by (rule go [of "\<lambda>p. release_row (tn_now t) delay False (?g p)"])
            (simp_all add: retry release_table upd_where_twice rows_keep row_honest_def took_def release_row_def row_key_def)
      qed
    qed
  qed
qed

lemma inv_free:
  assumes inv: "sender_inv s" and r: "r \<in> set (ob_queue (sy_box s))" and free: "\<forall>w q. held (sy_at s w) = Some q \<longrightarrow> qr_id q \<noteq> qr_id r"
    and f: "qr_id (f r) = qr_id r" "row_key (f r) = row_key r" "qr_msgid (f r) = qr_msgid r" "row_honest (sy_sent s) (f r)"
    and b: "adds_row (upd_where (\<lambda>p. qr_id p = qr_id r) f (ob_queue (sy_box s))) (ob_next (sy_box s)) (ob_queue b) (ob_next b)"
  shows "sender_inv (s\<lparr>sy_box := b\<rparr>)"
proof -
  have "sane (sy_sent s) (ob_queue b) (ob_next b)"
    using sane_adds [OF sane_upd [where f = f, OF inv_table [OF inv] r f(1,2,4) disjI1 [OF f(3)]] b] .
  moreover have "holder_ok (sy_sent s) (ob_queue b) (sy_at s v)" for v
    by (rule holder_upd [OF inv_holder [OF inv] _ adds_subset [OF b]]) (use free in blast)
  ultimately show ?thesis using inv by (simp add: sender_inv_def)
qed

lemma inv_recover:
  assumes inv: "sender_inv s" and r: "r \<in> set (ob_queue (sy_box s))" and "stale now r"
    and free: "\<forall>w q. held (sy_at s w) = Some q \<longrightarrow> qr_id q \<noteq> qr_id r"
    and law: "\<forall>f h. looks = Some f \<longrightarrow> qr_msgid r = Some h \<longrightarrow> sent_law (sy_sent s) h (f (qr_id r))"
    and rec: "recover_one e now newid m from_email looks r (sy_box s) = (x, b)"
  shows "sender_inv (s\<lparr>sy_box := b\<rparr>)"
proof -
  note t = inv_table [OF inv]
  have claimed: "qr_state r = Claimed" using assms(3) by (simp add: stale_def)
  have same: "sender_inv (s\<lparr>sy_box := b\<rparr>)" if "b = sy_box s" using inv that by simp
  show ?thesis
  proof (cases "given (qr_msgid r)")
    case None
    then have "\<not> took (sy_sent s) r" using took_msgid [OF t r] by (auto simp: given_def split: if_splits)
    then show ?thesis using rec None claimed
      by (intro inv_free [OF inv r free, where f = "release_row now 0 False"])
        (auto simp: recover_one_def release_table rows_keep rows_honest)
  next
    case (Some h)
    then have h: "qr_msgid r = Some h" by (auto simp: given_def split: option.splits if_splits)
    show ?thesis
    proof (cases looks)
      case None
      then show ?thesis using rec Some same by (simp add: recover_one_def)
    next
      case looks: (Some f)
      consider "in_sent (f (qr_id r)) = Some True" | "in_sent (f (qr_id r)) = Some False" | "in_sent (f (qr_id r)) = None"
        by (cases "in_sent (f (qr_id r))") auto
      then show ?thesis
      proof cases
        case 1
        have took: "took (sy_sent s) r" using found_took [OF t r h _ 1] law looks h by blast
        define w where "w = (case qr_claimed_at r of Some t \<Rightarrow> t | None \<Rightarrow> now)"
        have k: "keep (sy_box s) (record_sent e now (newid (qr_id r)) m from_email r h w ''recovered from Sent folder'' (sy_box s)) R_proven = (x, b)"
          using rec Some looks 1 by (simp add: recover_one_def w_def)
        show ?thesis
        proof (cases "record_sent e now (newid (qr_id r)) m from_email r h w ''recovered from Sent folder'' (sy_box s)")
          case (Inl y)
          then show ?thesis using k same by (simp add: keep_def)
        next
          case (Inr b')
          then have "b' = b" using k by (simp add: keep_def)
          then obtain mid where a: "adds_row (upd_where (\<lambda>p. qr_id p = qr_id r) (sent_row w ''recovered from Sent folder'' mid)
              (ob_queue (sy_box s))) (ob_next (sy_box s)) (ob_queue b) (ob_next b)"
            using record_sent_table [OF Inr] by auto
          show ?thesis by (rule inv_free [OF inv r free _ _ _ _ a]) (simp_all add: rows_keep rows_honest took)
        qed
      next
        case 2
        then have b: "b = finish now r Ambiguous ''worker stopped mid-send and Sent has no copy - not resent'' (sy_box s)"
          using rec Some looks by (simp add: recover_one_def)
        show ?thesis unfolding b
          by (rule inv_free [OF inv r free, where f = "finish_row Ambiguous ''worker stopped mid-send and Sent has no copy - not resent''"])
            (simp_all only: finish_table rows_keep rows_honest adds_refl)
      next
        case 3
        then show ?thesis using rec Some looks same by (simp add: recover_one_def)
      qed
    qed
  qed
qed

lemma inv_map:
  assumes inv: "sender_inv s" and "ob_queue b = map g (ob_queue (sy_box s))" "ob_next b = ob_next (sy_box s)"
    and g: "\<And>q. q \<in> set (ob_queue (sy_box s)) \<Longrightarrow> g q = q \<or> (qr_state q = Queued \<and> qr_id (g q) = qr_id q \<and> row_key (g q) = row_key q
        \<and> qr_msgid (g q) = qr_msgid q \<and> (qr_state (g q) = Queued \<or> qr_state (g q) = Cancelled))"
  shows "sender_inv (s\<lparr>sy_box := b\<rparr>)"
proof -
  note t = inv_table [OF inv]
  have honest: "row_honest (sy_sent s) (g q)" if "q \<in> set (ob_queue (sy_box s))" for q
    using g [OF that]
  proof
    assume "g q = q"
    then show ?thesis using saneD(6) [OF t that] by simp
  next
    assume c: "qr_state q = Queued \<and> qr_id (g q) = qr_id q \<and> row_key (g q) = row_key q
        \<and> qr_msgid (g q) = qr_msgid q \<and> (qr_state (g q) = Queued \<or> qr_state (g q) = Cancelled)"
    then have "\<not> took (sy_sent s) (g q)"
      using saneD(6) [OF t that] took_key [of "g q" q "sy_sent s"] by (simp add: row_honest_def)
    then show ?thesis using c by (auto simp: row_honest_def)
  qed
  have "sane (sy_sent s) (map g (ob_queue (sy_box s))) (ob_next (sy_box s))"
    by (rule sane_map [OF t]) (use g honest in fastforce)+
  moreover have "holder_ok (sy_sent s) (map g (ob_queue (sy_box s))) (sy_at s v)" for v
    by (rule holder_kept [OF inv_holder [OF inv]]) (use g in force)+
  ultimately show ?thesis using inv assms(2,3) by (simp add: sender_inv_def)
qed

lemma inv_clear:
  assumes inv: "sender_inv s" and p: "\<forall>q. p q \<longrightarrow> qr_state q = Cancelled"
  shows "sender_inv (s\<lparr>sy_box := map_queue (del_where p) (sy_box s)\<rparr>)"
proof -
  have "holder_ok (sy_sent s) (del_where p (ob_queue (sy_box s))) (sy_at s v)" for v
    by (rule holder_kept [OF inv_holder [OF inv]]) (use p in \<open>auto simp: set_del_where\<close>)
  then show ?thesis using inv sane_clear [OF inv_table [OF inv] p] by (simp add: sender_inv_def)
qed

lemma inv_crash: "sender_inv s \<Longrightarrow> sender_inv (s\<lparr>sy_at := (sy_at s)(w := Dead)\<rparr>)"
  by (auto simp: sender_inv_def one_holder_def holder_ok_def)

lemma inv_prepare:
  assumes inv: "sender_inv s" and "insert_row q (sy_box s) = Inr b" and "fresh_row q"
  shows "sender_inv (s\<lparr>sy_box := b\<rparr>)"
proof -
  have a: "adds_row (ob_queue (sy_box s)) (ob_next (sy_box s)) (ob_queue b) (ob_next b)"
    using insert_row_adds [OF assms(2)] assms(3) by (simp add: fresh_row_def)
  have "holder_ok (sy_sent s) (ob_queue b) (sy_at s v)" for v
    by (rule holder_kept [OF inv_holder [OF inv]]) (use adds_subset [OF a] in blast)+
  then show ?thesis using inv sane_adds [OF inv_table [OF inv] a] by (simp add: sender_inv_def)
qed

lemma sender_step_inv: "sender_step e from_email s s' \<Longrightarrow> sender_inv s \<Longrightarrow> sender_inv s'"
proof (induction rule: sender_step.induct)
  case (s_claim s w now who followups locked q b) then show ?case by (intro inv_claim)
next
  case (s_refuse s w q t r x b) then show ?case by (intro inv_refuse)
next
  case (s_save s w q t h b) then show ?case by (intro inv_save)
next
  case (s_hand s w q h sv conn res conn') then show ?case by (intro inv_hand)
next
  case (s_settle s w q h res t r b) then show ?case by (intro inv_settle [where x = r]) (auto split: sum.split)
next
  case (s_crash s w) then show ?case by (rule inv_crash)
next
  case (s_recover r s now looks newid m x b) then show ?case by (intro inv_recover)
next
  case (s_sweep s) then show ?case
    by (rule inv_map [where g = "\<lambda>q. if to_sweep (sn_cfg e) (ob_conv (sy_box s)) q then sweep_row (ob_conv (sy_box s)) q else q"])
      (auto simp: sweep_def Let_def upd_where_def to_sweep_def sweep_row_def row_key_def)
next
  case (s_prepare q s b) then show ?case by (intro inv_prepare)
next
  case (s_reword p s mail problems) then show ?case
    by (intro inv_map [where g = "\<lambda>q. if p q then reword (mail q) (problems q) q else q"])
      (auto simp: upd_where_def untouched_def reword_def row_key_def)
next
  case (s_clear p s) then show ?case by (intro inv_clear)
next
  case (s_world b s) then show ?case by (simp add: sender_inv_def)
qed

lemma sender_reachable_inv:
  assumes "sender_start s0" and "(sender_step e from_email)\<^sup>*\<^sup>* s0 s"
  shows "sender_inv s"
  using assms(2)
proof (induction rule: rtranclp_induct)
  case base
  then show ?case using assms(1)
    by (auto simp: sender_start_def sender_inv_def sane_def queue_wf_def tracked_def holder_ok_def one_holder_def)
next
  case (step s' s)
  then show ?case by (blast intro: sender_step_inv)
qed

subsection \<open>What holds of every run\<close>

text \<open>C1. Nobody is written to twice: however the runs of the sender interleave, wherever they die, whatever the guard and
  the mailbox answer, the server takes at most one mail for each company and step.\<close>

theorem sends_at_most_once:
  assumes "sender_start s0" and "(sender_step e from_email)\<^sup>*\<^sup>* s0 s"
  shows "distinct (map (\<lambda>(i, stp, h). (i, stp)) (sy_sent s))"
proof -
  have "sender_inv s" using sender_reachable_inv [OF assms] .
  then show ?thesis by (simp add: sender_inv_def sane_def)
qed

text \<open>C2. The queue tells the truth: in every reachable state a row that is queued, cancelled or failed has not been taken by the
  server, a row that is sent has been, and a mail that was taken has a row with its Message-ID. Only a row that is
  being sent or is marked ambiguous leaves it open.\<close>

theorem queue_tells_truth:
  assumes "sender_start s0" and "(sender_step e from_email)\<^sup>*\<^sup>* s0 s"
  shows "(\<forall>q\<in>set (ob_queue (sy_box s)). case qr_state q of Sent \<Rightarrow> took (sy_sent s) q | Claimed \<Rightarrow> True | Ambiguous \<Rightarrow> True
        | _ \<Rightarrow> \<not> took (sy_sent s) q)
    \<and> (\<forall>(i, stp, h)\<in>set (sy_sent s). \<exists>q\<in>set (ob_queue (sy_box s)). row_key q = (i, stp) \<and> qr_msgid q = Some h)"
proof -
  have "sender_inv s" using sender_reachable_inv [OF assms] .
  then show ?thesis by (simp add: sender_inv_def sane_def row_honest_def tracked_def)
qed

subsection \<open>A run that sends\<close>

definition demo_cfg :: sender_cfg where
  "demo_cfg = \<lparr>sc_name_default = ''Matt'', sc_campaign = None, sc_send_days = [0, 1, 2, 3, 4], sc_window_start = ''08:00'',
     sc_window_end = ''17:30'', sc_business_days = [], sc_daily_limit = Some 100, sc_cycle_limit = Some 30, sc_max_attempts = 3,
     sc_followup_days = [], sc_day_mode = None, sc_stop_statuses = [''replied''], sc_queue_ahead = 300, sc_v4_queue_ahead = 0,
     sc_limit_enabled = False, sc_limit_industries = [], sc_v4_share = 0, sc_v4_industries = [], sc_v4_followup_days = [],
     sc_v3_share = 0, sc_v3_industries = []\<rparr>"

definition demo_env :: send_env where
  "demo_env = \<lparr>sn_cfg = demo_cfg, sn_env = \<lparr>se_name = None, se_postal = Some ''1 Main St'', se_daily_limit = None\<rparr>,
     sn_zone = \<lparr>z_day = day_of, z_minute = (\<lambda>t. (t mod day) div minute), z_utc = (\<lambda>d m. d * day + m * minute)\<rparr>,
     sn_h32 = (\<lambda>_. 0), sn_addr = (\<lambda>s. s), sn_footer = ''Reply stop.''\<rparr>"

definition demo_email :: email where
  "demo_email = \<lparr>em_subject = ''Missed calls'', em_body = ''Hi team,'' @ replicate 100 (CHR ''.'') @ ''1 Main St '' @ pt ''~stop~'',
     em_variant = ''v2-generic''\<rparr>"

definition demo_start :: sys where
  "demo_start = \<lparr>sy_box = \<lparr>ob_conv = \<lparr>cv_companies = [demo_lead\<lparr>co_name := ''Joe''\<rparr>], cv_contacts = [], cv_messages = [], cv_states = [], cv_transitions = [],
       cv_facts = [], cv_suppressions = [], cv_attention = [], cv_drafts = [], cv_history = [], cv_deals = [], cv_notes = [],
       cv_analyses = []\<rparr>, ob_queue = [], ob_copies = [], ob_keys = [], ob_next = 1\<rparr>, sy_at = (\<lambda>w. Idle), sy_sent = []\<rparr>"

definition demo_turn :: turn where
  "demo_turn = \<lparr>tn_now = 5, tn_down = None, tn_make = (\<lambda>d. ''<1@'' @ d @ ''>''), tn_newid = ''m1'', tn_random = 0,
     tn_server = demo_server, tn_look = Look_raised, tn_filed = Look_raised\<rparr>"

definition demo_queued :: "send_exn + outbox" where
  "demo_queued = insert_row (new_row ''c7'' 0 ''joe@aire.com'' demo_email [] 0) (sy_box demo_start)"

definition demo_claim :: "qrow option \<times> outbox" where
  "demo_claim = (case demo_queued of Inr b \<Rightarrow> claim 1 ''w'' True [] b | Inl _ \<Rightarrow> (None, sy_box demo_start))"

definition demo_item :: qrow where "demo_item = the (fst demo_claim)"

definition demo_saved :: "send_exn + str \<times> outbox" where
  "demo_saved = save_id demo_turn ''me@b.com'' demo_item (snd demo_claim)"

definition demo_done :: "(send_exn + send_outcome) \<times> outbox" where
  "demo_done = (case demo_saved of Inr (h, b) \<Rightarrow> after_send demo_env demo_turn ''me@b.com'' demo_item h (fst (mail_send demo_server True)) b
     | Inl x \<Rightarrow> (Inl x, snd demo_claim))"

lemma demo_facts:
  "\<not> isl demo_queued" "fst demo_claim \<noteq> None"
  "\<not> isl demo_saved \<and> fst (projr demo_saved) = ''1@b.com''"
  "map qr_state (ob_queue (snd demo_done)) = [Sent]"
  "qr_company demo_item = ''c7''" "qr_step demo_item = 0"
  by code_simp+
lemma demo_done_sent: "(case fst demo_done of Inr x \<Rightarrow> x = O_sent | Inl _ \<Rightarrow> False)"
  by code_simp
lemma demo_allowed: "refuse_row demo_env None demo_item (snd demo_claim) = None"
  by code_simp

lemma demo_delivers: "delivers demo_server True" "smtp_law demo_server"
  by (code_simp, simp add: smtp_law_def demo_server_def)

text \<open>One row prepared, claimed, checked, handed over and recorded.\<close>

lemma demo_run:
  "\<exists>s. (sender_step demo_env ''me@b.com'')\<^sup>*\<^sup>* demo_start s \<and> sy_sent s = [(''c7'', 0, ''1@b.com'')] \<and> map qr_state (ob_queue (sy_box s)) = [Sent]"
proof -
  obtain b1 where b1: "demo_queued = Inr b1" using sum.collapse(2) [OF demo_facts(1)] by metis
  obtain q where "fst demo_claim = Some q" using demo_facts(2) by auto
  then have claimed: "claim 1 ''w'' True [] b1 = (Some demo_item, snd demo_claim)"
  proof -
    have "demo_claim = claim 1 ''w'' True [] b1" unfolding demo_claim_def b1 sum.case ..
    then show ?thesis using \<open>fst demo_claim = Some q\<close> unfolding demo_item_def by (metis option.sel prod.collapse)
  qed
  obtain b2 where saved: "demo_saved = Inr (''1@b.com'', b2)"
    using demo_facts(3) by (metis prod.collapse sum.collapse(2))
  obtain res conn where send: "mail_send demo_server True = (res, conn)" by fastforce
  obtain r b3 where fin: "after_send demo_env demo_turn ''me@b.com'' demo_item ''1@b.com'' res b2 = (r, b3)" by fastforce
  then have dn: "demo_done = (r, b3)" unfolding demo_done_def saved send sum.case prod.case fst_conv .
  have law: "sent_law d h (tn_look demo_turn)" for d h by (simp add: sent_law_def demo_turn_def)
  let ?step = "sender_step demo_env ''me@b.com''"
  let ?s1 = "demo_start\<lparr>sy_box := b1\<rparr>"
  let ?s2 = "?s1\<lparr>sy_box := snd demo_claim, sy_at := (sy_at ?s1)(0 := Holding demo_item)\<rparr>"
  let ?s3 = "?s2\<lparr>sy_box := b2, sy_at := (sy_at ?s2)(0 := Marked demo_item ''1@b.com'')\<rparr>"
  let ?s4 = "?s3\<lparr>sy_at := (sy_at ?s3)(0 := Handed demo_item ''1@b.com'' res),
      sy_sent := (if delivers demo_server True then sy_sent ?s3 @ [(qr_company demo_item, qr_step demo_item, ''1@b.com'')] else sy_sent ?s3)\<rparr>"
  let ?s5 = "?s4\<lparr>sy_box := b3, sy_at := (sy_at ?s4)(0 := (case r of Inl x \<Rightarrow> Dead | Inr x \<Rightarrow> Idle))\<rparr>"
  have "?step demo_start ?s1" by (rule s_prepare) (rule b1 [unfolded demo_queued_def], rule fresh_new)
  moreover have "?step ?s1 ?s2" by (rule s_claim [where now = 1 and who = "''w''" and followups = True and locked = "[]"]) (simp_all add: demo_start_def claimed)
  moreover have "?step ?s2 ?s3"
    by (rule s_save [where t = demo_turn]) (use saved demo_allowed in \<open>simp_all add: demo_saved_def demo_turn_def\<close>)
  moreover have "?step ?s3 ?s4" by (rule s_hand [OF _ demo_delivers(2) send]) simp
  moreover have "?step ?s4 ?s5"
  proof (rule s_settle [where t = demo_turn])
    show "after_send demo_env demo_turn ''me@b.com'' demo_item ''1@b.com'' res (sy_box ?s4) = (r, b3)"
      by (rule ssubst [of "sy_box ?s4" b2]) (simp, rule fin)
  qed (simp, rule law)
  ultimately have run: "?step\<^sup>*\<^sup>* demo_start ?s5" by (meson rtranclp.rtrancl_into_rtrancl rtranclp.rtrancl_refl)
  have snt: "sy_sent ?s5 = [(''c7'', 0, ''1@b.com'')]" using demo_delivers(1) demo_facts(5,6) by (simp add: demo_start_def)
  have st: "map qr_state (ob_queue (sy_box ?s5)) = [Sent]" using demo_facts(4) [unfolded dn snd_conv] by simp
  show ?thesis by (rule exI [of _ ?s5]) (intro conjI run snt st)
qed

lemma demo_starts: "sender_start demo_start"
  by (simp add: sender_start_def demo_start_def)

theorem sends_at_most_once_witness:
  "\<exists>s :: sys. sy_sent s = [(''c7'', 0, ''1@b.com'')] \<and> distinct (map (\<lambda>(i, stp, h). (i, stp)) (sy_sent s))"
proof -
  obtain s where s: "(sender_step demo_env ''me@b.com'')\<^sup>*\<^sup>* demo_start s" "sy_sent s = [(''c7'', 0, ''1@b.com'')]" using demo_run by blast
  then show ?thesis using sends_at_most_once [OF demo_starts s(1)] by blast
qed

theorem queue_tells_truth_witness:
  "\<exists>s :: sys. map qr_state (ob_queue (sy_box s)) = [Sent] \<and> (\<exists>q\<in>set (ob_queue (sy_box s)). took (sy_sent s) q)"
proof -
  obtain s where s: "(sender_step demo_env ''me@b.com'')\<^sup>*\<^sup>* demo_start s" "map qr_state (ob_queue (sy_box s)) = [Sent]"
    using demo_run by (elim exE conjE)
  have "set (map qr_state (ob_queue (sy_box s))) = {Sent}" unfolding s(2) by simp
  then have "Sent \<in> qr_state ` set (ob_queue (sy_box s))" unfolding set_map by blast
  then obtain q where q: "q \<in> set (ob_queue (sy_box s))" and sent: "qr_state q = Sent" by (metis imageE)
  have "case qr_state q of Sent \<Rightarrow> took (sy_sent s) q | Claimed \<Rightarrow> True | Ambiguous \<Rightarrow> True | _ \<Rightarrow> \<not> took (sy_sent s) q"
    by (rule bspec [OF conjunct1 [OF queue_tells_truth [OF demo_starts s(1)]] q])
  then have "took (sy_sent s) q" unfolding sent qstate.case .
  then show ?thesis by (intro exI [of _ s] conjI bexI [of _ q] s(2) q)
qed

end
