(* ===== verification/ReviewScore.thy ===== *)
theory ReviewScore
  imports OutreachSend
begin

text \<open>
  \<open>src/cloudos/outreach/review_campaign.py\<close>, the Google reviews campaign: the score of a lead, the checks of
  written copy and the generator of copy. A lead is the dictionary the code builds; the campaign's YAML file is a
  record. Texts and patterns use a tilde where the source has a backslash, in texts (\<open>pt\<close>) a backtick for an
  apostrophe and a tilde for a quotation mark.
\<close>

record campaign_cfg =
  cp_industries :: "str list"
  cp_target :: int
  cp_minimum :: int
  cp_max_words :: nat
  cp_subject_words :: nat

definition OLD_OFFER :: rx where
  "OLD_OFFER = rx flag_I (''missed[- ]?call|missed callers?|quote follow[- ]?up|~$497|~$1,?500|5 recovered|5 missed|''
     @ ''text[- ]?back|booking link|office-agent-demo'')"

definition LINK :: rx where "LINK = rx flag_I ''https?://|www~.''"

definition GENERIC :: rx where
  "GENERIC = rx flag_I (''~bwe help businesses~b|~bunlock~b|~bleverage~b|~brevolutioni[sz]e~b|~bcutting[- ]edge~b|''
     @ ''~bgame[- ]changer~b|~bsynerg~w*~b|~bboost your online presence~b'')"

definition UNSUPPORTED :: rx where
  "UNSUPPORTED = rx flag_I (''~bodds are~b|~bjust (?:have not|haven'' @ [CHR 0x27] @ ''t) been asked~b|~bmust not be asking~b|''
     @ ''~bprobably because~b|~busually comes? down to~b|~bgoogle penalizes~b|''
     @ ''~bguarantee(?:d|s)?~b|~bwill rank~b|~btop[- ]?3~b'')"

definition REVIEW_GATING :: rx where
  "REVIEW_GATING = rx flag_IS (''~b(?:happy|satisfied) (?:customer|client|patient)s?~b|''
     @ ''~bonly (?:ask|request|invite)~w*~b.{0,30}~b(?:happy|satisfied)~b'')"

subsection \<open>The score\<close>

definition number_int :: "pyv \<Rightarrow> int option" where
  "number_int v = (if no_value v then None else py_int_v v)"

definition number_rat :: "pyv \<Rightarrow> rat option" where
  "number_rat v = (if no_value v then None else py_float_v v)"

text \<open>\<open>or 0\<close>.\<close>

definition or_zero :: "int option \<Rightarrow> int" where
  "or_zero x = (case x of Some n \<Rightarrow> n | None \<Rightarrow> 0)"

record review_score =
  rs_value :: int
  rs_signal :: str
  rs_evidence :: str
  rs_context :: str
  rs_hook :: str
  rs_source :: pyv

text \<open>A signal: its points and its words.\<close>

type_synonym signal = "int \<times> str"

definition rating_signal :: "rat \<Rightarrow> signal list" where
  "rating_signal q =
     (let t = show_g q @ ''-star rating'' in
      if q \<le> 4 then [(4, t)] else if q \<le> 43 / 10 then [(3, t)] else if q \<le> 46 / 10 then [(2, t)]
      else if q \<le> 48 / 10 then [(1, t)] else [])"

definition count_signal :: "int \<Rightarrow> signal list" where
  "count_signal n =
     (let t = show_int n @ '' Google reviews'' in
      if n < 20 then [(4, ''only '' @ t)] else if n < 50 then [(3, ''only '' @ t)] else if n < 100 then [(2, t)]
      else if n < 200 then [(1, t)] else [])"

definition negative_signal :: "int \<Rightarrow> int \<Rightarrow> signal list" where
  "negative_signal unanswered negatives =
     (if unanswered \<noteq> 0 then [(2, show_int unanswered @ '' sampled recent negative review(s) without an owner response'')]
      else if negatives \<noteq> 0 then [(1, show_int negatives @ '' sampled recent negative review(s)'')] else [])"

definition gap_points :: "int \<Rightarrow> int \<Rightarrow> int" where
  "gap_points mine theirs =
     (let ratio = of_int mine / of_int theirs :: rat in
      if ratio \<le> 2 / 10 then 5 else if ratio \<le> 45 / 100 then 4 else if ratio \<le> 7 / 10 then 3 else if ratio \<le> 9 / 10 then 2 else 0)"

text \<open>An absent city prints as \<open>None\<close>.\<close>

definition city_text :: "company \<Rightarrow> company \<Rightarrow> str" where
  "city_text c r = (case given (co_city c) of Some s \<Rightarrow> s | None \<Rightarrow> (case co_city r of Some s \<Rightarrow> s | None \<Rightarrow> ''None''))"

definition competitor_gap :: "company \<Rightarrow> int \<Rightarrow> company \<Rightarrow> (int \<times> int) option" where
  "competitor_gap r reviews c =
     (let n = or_zero (number_int (dget (lead_facts c) ''google_reviews'')) in
      if n \<noteq> 0 \<and> reviews < n \<and> gap_points reviews n \<noteq> 0 then Some (n, gap_points reviews n) else None)"

definition competitor_sentence :: "company \<Rightarrow> company \<Rightarrow> int \<Rightarrow> str" where
  "competitor_sentence r c n =
     co_name c @ '' in '' @ city_text c r @ '' has '' @ show_int n @ '' Google reviews''
     @ (case number_rat (dget (lead_facts c) ''google_rating'') of Some q \<Rightarrow> if q \<noteq> 0 then '' at '' @ show_g q @ '' stars'' else []
        | None \<Rightarrow> []) @ ''.''"

definition strongest :: "signal list \<Rightarrow> str" where
  "strongest ss = (case ss of [] \<Rightarrow> ''Google Maps profile opportunity'' | s # rest \<Rightarrow> snd (fold max rest s))"

definition points_of :: "signal list \<Rightarrow> int" where "points_of ss = sum_list (map fst ss)"

text \<open>What research found: its own dictionary, or the facts.\<close>

definition research_of :: "pydict \<Rightarrow> pydict" where
  "research_of f = (case dget f ''review_research'' of VDict d \<Rightarrow> d | _ \<Rightarrow> f)"

definition first_true :: "pyv list \<Rightarrow> pyv \<Rightarrow> pyv" where
  "first_true vs dflt = (case find truthy vs of Some v \<Rightarrow> v | None \<Rightarrow> dflt)"

definition evidence_text :: "int \<Rightarrow> rat \<Rightarrow> int \<Rightarrow> str" where
  "evidence_text n q unanswered =
     ''Google Maps shows '' @ show_g q @ '' stars from '' @ show_int n @ '' reviews.''
     @ (if unanswered \<noteq> 0 then '' The sampled review feed includes '' @ show_int unanswered
          @ '' negative review(s) without an owner response.'' else [])"

definition hook_text :: "(pyv \<Rightarrow> str) \<Rightarrow> company \<Rightarrow> company option \<Rightarrow> int \<Rightarrow> rat \<Rightarrow> int \<Rightarrow> str \<Rightarrow> str" where
  "hook_text shown r competitor n q unanswered context =
     (let start = ''I noticed '' @ co_name r @ '' has '' @ show_int n @ '' Google reviews at '' @ show_g q @ '' stars'' in
      if unanswered \<noteq> 0
      then start @ '', and the sampled review feed includes '' @ show_int unanswered @ '' negative review(s) without an owner response.''
      else if context \<noteq> []
      then start @ '', while '' @ (case competitor of Some c \<Rightarrow> co_name c @ '' has '' @ shown (dget (lead_facts c) ''google_reviews'')
              | None \<Rightarrow> []) @ ''.''
      else if n < 100 then start @ ''.''
      else ''I noticed '' @ co_name r @ '' is at '' @ show_g q @ '' stars on Google from '' @ show_int n @ '' reviews.'')"

text \<open>\<open>shown\<close> prints a JSON value the way an f-string does.\<close>

definition score :: "(pyv \<Rightarrow> str) \<Rightarrow> company \<Rightarrow> company option \<Rightarrow> review_score" where
  "score shown r competitor =
     (let f = lead_facts r in
      case (number_rat (dget f ''google_rating''), number_int (dget f ''google_reviews'')) of
        (Some q, Some n) \<Rightarrow>
          (let unanswered = or_zero (number_int (dget (research_of f) ''recent_unanswered_negative_reviews''));
               negatives = or_zero (number_int (dget (research_of f) ''recent_negative_reviews''));
               gap = (case competitor of Some c \<Rightarrow> competitor_gap r n c | None \<Rightarrow> None);
               context = (case (competitor, gap) of (Some c, Some (m, p)) \<Rightarrow> competitor_sentence r c m | _ \<Rightarrow> []);
               signals = rating_signal q @ count_signal n @ negative_signal unanswered negatives
                 @ (case gap of Some (m, p) \<Rightarrow> [(p, ''local competitor has '' @ show_int m @ '' reviews'')] | None \<Rightarrow> [])
           in \<lparr>rs_value = min (points_of signals) 10, rs_signal = strongest signals, rs_evidence = evidence_text n q unanswered,
               rs_context = context, rs_hook = hook_text shown r competitor n q unanswered context,
               rs_source = first_true [dget f ''google_profile_url'', dget f ''evidence_url'', vopt VStr (co_website r)]
                 (VStr ''Google Maps'')\<rparr>)
      | _ \<Rightarrow> \<lparr>rs_value = 0, rs_signal = ''missing Google Maps evidence'', rs_evidence = [], rs_context = [], rs_hook = [],
               rs_source = VStr (text_opt (co_source r))\<rparr>)"

lemma gap_points_range: "0 \<le> gap_points m n \<and> gap_points m n \<le> 5"
  by (simp add: gap_points_def Let_def)

lemma signals_positive:
  "0 \<le> points_of (rating_signal q)" "0 \<le> points_of (count_signal n)" "0 \<le> points_of (negative_signal u m)"
  by (simp_all add: points_of_def rating_signal_def count_signal_def negative_signal_def Let_def)

lemma points_append [simp]: "points_of (xs @ ys) = points_of xs + points_of ys" "points_of [] = 0" "points_of [(p, t)] = p"
  by (simp_all add: points_of_def)

text \<open>A score is a number from 0 to 10; it is 0 when the listing has no rating or no number of reviews, and knowing a
  competitor never lowers it.\<close>

theorem score_bounds:
  "0 \<le> rs_value (score shown r competitor) \<and> rs_value (score shown r competitor) \<le> 10
   \<and> rs_value (score shown r None) \<le> rs_value (score shown r competitor)
   \<and> (if number_rat (dget (lead_facts r) ''google_rating'') = None \<or> number_int (dget (lead_facts r) ''google_reviews'') = None
      then rs_value (score shown r competitor) = 0 else True)"
proof -
  have gap: "0 \<le> points_of (case g of Some (m, p) \<Rightarrow> [(p, ''local competitor has '' @ show_int m @ '' reviews'')] | None \<Rightarrow> [])"
    if "g = (case competitor of Some c \<Rightarrow> competitor_gap r n c | None \<Rightarrow> None)" for g n
    using that gap_points_range by (auto simp: competitor_gap_def Let_def split: option.splits if_splits)
  have add: "0 \<le> p \<Longrightarrow> min (a + (b + c)) 10 \<le> min (a + (b + (c + p))) (10 :: int)" for a b c p by simp
  show ?thesis
  proof (cases "number_rat (dget (lead_facts r) ''google_rating'')")
    case (Some q)
    show ?thesis
    proof (cases "number_int (dget (lead_facts r) ''google_reviews'')")
      case n: (Some n)
      show ?thesis
        using signals_positive(1) [of q] signals_positive(2) [of n]
          signals_positive(3) [of "or_zero (number_int (dget (research_of (lead_facts r)) ''recent_unanswered_negative_reviews''))"
            "or_zero (number_int (dget (research_of (lead_facts r)) ''recent_negative_reviews''))"] gap [OF refl, of n]
        unfolding score_def Let_def Some n by simp
    qed (simp add: score_def Some)
  qed (simp add: score_def)
qed

subsection \<open>The checks of written copy\<close>

definition CTA :: rx where
  "CTA = rx flag_IS (''~b(send|sent|share)~b.{0,35}~b(video|breakdown)~b|~b(video|breakdown)~b.{0,35}~b(send|sent|share)~b'')"

definition SIGNED :: rx where "SIGNED = rx flag_M ''^Matt~s*$''"

definition NUMBER :: rx where "NUMBER = rx plain_flags ''~b~d+(?:~.~d+)?~b''"

definition numbers_in :: "str \<Rightarrow> str list" where "numbers_in s = map rm_text (rx_finditer NUMBER s)"

definition NUMBER_WORDS :: "(str \<times> str list) list" where
  "NUMBER_WORDS = [(''0'', [''zero'']), (''1'', [''one'', ''single'']), (''2'', [''two'']), (''3'', [''three'']), (''4'', [''four'']),
     (''5'', [''five'']), (''6'', [''six'']), (''7'', [''seven'']), (''8'', [''eight'']), (''9'', [''nine'']), (''10'', [''ten'']),
     (''11'', [''eleven'']), (''12'', [''twelve''])]"

text \<open>\<open>re.escape\<close> of a number: its point is escaped; a word stands for itself.\<close>

definition word_rx :: "str \<Rightarrow> rx" where
  "word_rx w = rx plain_flags (''~b'' @ concat (map (\<lambda>c. if c = CHR ''.'' then ''~.'' else [c]) w) @ ''~b'')"

text \<open>\<open>casefold\<close>: lower case, and the sharp s as two letters.\<close>

definition casefold :: "str \<Rightarrow> str" where
  "casefold s = concat (map (\<lambda>c. if c = CHR 0xDF then ''ss'' else [py_lower_char c]) s)"

definition grounded :: "str \<Rightarrow> str list \<Rightarrow> bool" where
  "grounded body ns \<longleftrightarrow> list_ex (\<lambda>n. rx_found (word_rx n) body
     \<or> list_ex (\<lambda>w. rx_found (word_rx w) (casefold body)) (case map_of NUMBER_WORDS n of Some ws \<Rightarrow> ws | None \<Rightarrow> [])) ns"

definition TOKEN :: rx where "TOKEN = rx plain_flags ''[a-z0-9]+''"

definition tokens :: "str \<Rightarrow> str list" where "tokens s = map rm_text (rx_finditer TOKEN (casefold s))"

definition company_anchor :: "str \<Rightarrow> str" where
  "company_anchor company = py_join '' '' (take 2 (tokens (py_strip company)))"

text \<open>\<open>lead.get(key) or ""\<close>.\<close>

definition lead_text :: "pydict \<Rightarrow> str \<Rightarrow> str" where "lead_text l k = text_of (dget l k)"

definition lead_evidence :: "pydict \<Rightarrow> str" where
  "lead_evidence l = py_join '' '' (filter (\<lambda>s. s \<noteq> []) [lead_text l ''exact_evidence'', lead_text l ''competitor_context''])"

definition count_char :: "char \<Rightarrow> str \<Rightarrow> nat" where "count_char c s = length (filter (\<lambda>x. x = c) s)"

definition problem :: "bool \<Rightarrow> str \<Rightarrow> str list" where "problem b s = (if b then [s] else [])"

definition qa_copy :: "campaign_cfg \<Rightarrow> str \<Rightarrow> str \<Rightarrow> pydict \<Rightarrow> str list" where
  "qa_copy cfg subject0 body0 l =
     (let subject = py_strip subject0; body = py_strip body0; all = subject @ [CHR 0x0A] @ body;
          ns = numbers_in (lead_evidence l); company = lead_text l ''company'' in
      problem (subject = []) ''empty subject''
      @ problem (cp_subject_words cfg < length (py_words subject)) ''subject too long''
      @ problem (cp_max_words cfg < length (py_words body)) ''over 80 words before footer''
      @ problem (rx_found LINK all) ''link in first touch''
      @ problem (rx_found OLD_OFFER all) ''old offer language''
      @ problem (rx_found GENERIC body) ''generic marketing language''
      @ problem (rx_found UNSUPPORTED body) ''unsupported speculative claim''
      @ problem (rx_found REVIEW_GATING body) ''review gating language''
      @ problem (count_char (CHR ''?'') body \<noteq> 1) ''must contain exactly one CTA question''
      @ problem (\<not> rx_found CTA body) ''CTA does not ask permission to send the video''
      @ problem (\<not> rx_found SIGNED body) ''not signed as Matt''
      @ problem (ns \<noteq> [] \<and> \<not> grounded body ns) ''no verifiable evidence from the lead record''
      @ problem (\<not> set (numbers_in body) \<subseteq> set ns \<union> set (numbers_in company)) ''unsupported numeric claim''
      @ problem (company_anchor company \<noteq> [] \<and> \<not> substr_in (company_anchor company) (py_join '' '' (tokens body)))
          ''company name missing from body'')"

definition qa_followup :: "campaign_cfg \<Rightarrow> str \<Rightarrow> str \<Rightarrow> str list" where
  "qa_followup cfg subject body =
     problem (py_strip subject = []) ''empty subject''
     @ problem (cp_max_words cfg < length (py_words body)) ''follow-up over 80 words before footer''
     @ problem (rx_found OLD_OFFER (subject @ [CHR 0x0A] @ body)) ''old offer language''
     @ problem (rx_found GENERIC body) ''generic marketing language''
     @ problem (1 < count_char (CHR ''?'') body) ''multiple CTA questions''
     @ problem (\<not> rx_found SIGNED body) ''not signed as Matt''"

text \<open>\<open>s.replace(old, " ")\<close> also for an empty \<open>old\<close>, which goes between all characters.\<close>

definition erase_text :: "str \<Rightarrow> str \<Rightarrow> str" where
  "erase_text old s = (if old = [] then '' '' @ concat (map (\<lambda>c. [c, CHR '' '']) s) else py_replace old '' '' s)"

definition fingerprint :: "str \<Rightarrow> pydict \<Rightarrow> str" where
  "fingerprint body l =
     (let v0 = rx_sub (rx plain_flags ''~W+'') (\<lambda>m. '' '') (py_lower body);
          v1 = fold (\<lambda>i v. erase_text (py_lower i) v) [lead_text l ''company'', lead_text l ''city'', lead_text l ''state''] v0
      in py_join '' '' (py_words (rx_sub NUMBER (\<lambda>m. ''#'') v1)))"

end
