(* ===== verification/ReviewTemplates.thy ===== *)
theory ReviewTemplates
  imports ReviewScore
begin

text \<open>
  The generator of campaign copy (\<open>generate_unique_copies\<close>): texts with named fields, chosen by the place of
  the lead in its batch. A copy is a dictionary, as it is written to JSON.
\<close>

text \<open>\<open>text.format(...)\<close>: a name in braces becomes its value; the texts have no other braces.\<close>

fun fill :: "(str \<times> str) list \<Rightarrow> str \<Rightarrow> str" where
  "fill vs [] = []"
| "fill vs (c # s) =
     (if c = CHR 0x7B
      then (case map_of vs (takeWhile (\<lambda>x. x \<noteq> CHR 0x7D) s) of Some v \<Rightarrow> v | None \<Rightarrow> [])
             @ fill vs (drop (Suc (length (takeWhile (\<lambda>x. x \<noteq> CHR 0x7D) s))) s)
      else c # fill vs s)"

definition OPENERS :: "str list" where
  "OPENERS = map (\<lambda>t. t @ [CHR 0x0A, CHR 0x0A])
     [''Hi {comp} team,'', ''Hello {comp} team,'', ''Hi {comp},'', ''Hello {comp},'', ''Hi there,'', ''Hello,'']"

definition OBSERVED :: "str list" where
  "OBSERVED = map (\<lambda>t. t @ [CHR 0x0A, CHR 0x0A])
     [''I was looking at Google Maps in your area and noticed {comp} has {r} reviews at {s} stars{comp_phrase}.'',
      ''While reviewing local search results, I saw {comp} currently has {r} Google reviews with a {s}-star rating{comp_phrase}.'',
      ''I came across {comp} on Google Maps with {r} reviews at {s} stars{comp_phrase}.'',
      ''I noticed {comp} has accumulated {r} Google reviews at {s} stars{comp_phrase}.'',
      ''Checking local visibility in your area, I noticed {comp} sits at {r} reviews and {s} stars{comp_phrase}.'',
      ''I was checking Google business listings and saw {comp} has {r} reviews at {s} stars{comp_phrase}.'',
      ''I saw {comp} on Google Maps showing {r} reviews at {s} stars{comp_phrase}.'',
      ''While browsing local map profiles, I noticed {comp} has {r} Google reviews at {s} stars{comp_phrase}.'',
      ''I took a look at {comp} on Google Maps and saw {r} reviews at {s} stars{comp_phrase}.'',
      ''I noticed {comp} has {r} Google reviews with an average of {s} stars{comp_phrase}.'']"

definition INSIGHTS :: "str list" where
  "INSIGHTS =
     [''A steady flow of fresh reviews helps local businesses capture more direct calls. '',
      ''Most homeowners compare the top few profiles before deciding who to call. '',
      ''Recent review activity plays a big role in where Google places your business. '',
      ''Closing the review gap usually makes a noticeable difference in inbound inquiries. '',
      ''Local searchers tend to reach out to the listings with the most recent feedback. '',
      ''Building up review count consistently is one of the fastest ways to win more jobs. '',
      ''Many potential customers check overall review volume before picking up the phone. '',
      ''Staying ahead in review numbers helps ensure searchers click your listing first. '',
      ''A stronger review profile helps convert searchers into booked calls. '',
      ''Keeping a steady pace of new reviews gives local profiles a distinct advantage. '']"

definition BREAKDOWNS :: "str list" where
  "BREAKDOWNS =
     [''I recorded a short personalized video breakdown of your listing. '',
      ''I put together a quick video breakdown of your local visibility. '',
      ''I filmed a short video breakdown showing how to improve your presence. '',
      ''I made a brief video breakdown looking at your local search profile. '',
      ''I created a short video breakdown comparing your profile to competitors. '',
      ''I prepared a quick video breakdown analyzing your search positioning. '',
      ''I recorded a brief video breakdown of your Google profile. '',
      ''I put together a short video breakdown showing practical steps to rank higher. '',
      ''I filmed a concise video breakdown covering your local map placement. '',
      ''I put together a quick video breakdown on increasing your inbound calls. '']"

definition CTAS :: "str list" where
  "CTAS = map (\<lambda>t. t @ [CHR 0x0A, CHR 0x0A] @ ''Matt'')
     [''Can I send the video over?'', ''Would you like me to share the breakdown?'', ''Should I send the video to your team?'',
      ''Want me to send the breakdown?'', ''May I send over the video?'', ''Would it be helpful if I share the video?'',
      ''Can I share the breakdown with you?'', ''Would you like me to send the video breakdown?'',
      ''Can I send over the video breakdown?'', ''Should I share the video breakdown?'']"

definition SUBJECTS :: "str list" where
  "SUBJECTS =
     [''Google reviews for {comp}'', ''Local review note for {comp}'', ''Google Maps presence for {comp}'',
      ''Quick question regarding {comp} reviews'', ''Local search visibility for {comp}'', ''Google profile breakdown: {comp}'',
      ''Quick review note for {comp}'', ''{comp} Google listing note'']"

definition REVIEWS_SHOWN :: rx where "REVIEWS_SHOWN = rx flag_I ''(~d+)~s+reviews?''"
definition STARS_SHOWN :: rx where "STARS_SHOWN = rx flag_I ''(~d+(?:~.~d+)?)~s+stars?''"
definition RIVAL :: rx where "RIVAL = rx flag_I ''^(.+?)~s+(?:in~s+.+?~s+)?has~s+(~d+)~s+Google reviews''"

definition group_or :: "rx \<Rightarrow> str \<Rightarrow> nat \<Rightarrow> str \<Rightarrow> str" where
  "group_or p s n dflt = (case rx_search p s of None \<Rightarrow> dflt | Some m \<Rightarrow> (case rm_group m n of Some t \<Rightarrow> t | None \<Rightarrow> dflt))"

definition rival_phrase :: "str \<Rightarrow> str" where
  "rival_phrase context = (case rx_search RIVAL context of None \<Rightarrow> []
     | Some m \<Rightarrow> '', while '' @ py_strip (text_opt (rm_group m 1)) @ '' has '' @ text_opt (rm_group m 2) @ '' reviews'')"

text \<open>The texts a place in the batch takes: opener, observation, insight, breakdown and question.\<close>

definition choice :: "nat \<Rightarrow> nat \<times> nat \<times> nat \<times> nat \<times> nat" where
  "choice i =
     (let o' = length OPENERS; b = length OBSERVED; n = length INSIGHTS; d = length BREAKDOWNS; c = length CTAS in
      (i mod o', (i div o') mod b, (i div (o' * b)) mod n, (i div (o' * b * n)) mod d, (i div (o' * b * n * d)) mod c))"

definition short_subject :: "str \<Rightarrow> str" where
  "short_subject s = (let ws = py_words s in if 8 < length ws then py_join '' '' (take 8 ws) else s)"

definition copy_body :: "nat \<Rightarrow> pydict \<Rightarrow> str" where
  "copy_body i l =
     (let company = py_strip (lead_text l ''company''); evidence = lead_text l ''exact_evidence'';
          vs = [(''comp'', company), (''r'', group_or REVIEWS_SHOWN evidence 1 ''10''), (''s'', group_or STARS_SHOWN evidence 1 ''4.5''),
                (''comp_phrase'', rival_phrase (lead_text l ''competitor_context''))]
      in case choice i of (a, b, n, d, c) \<Rightarrow>
           fill vs (OPENERS ! a) @ fill vs (OBSERVED ! b) @ INSIGHTS ! n @ BREAKDOWNS ! d @ CTAS ! c)"

definition copy_subject :: "nat \<Rightarrow> pydict \<Rightarrow> str" where
  "copy_subject i l = short_subject (fill [(''comp'', py_strip (lead_text l ''company''))] (SUBJECTS ! (i mod length SUBJECTS)))"

definition copy_of :: "nat \<Rightarrow> pydict \<Rightarrow> pyv" where
  "copy_of i l = VDict [(''company_id'', dget l ''company_id''), (''step'', VInt 0), (''subject'', VStr (copy_subject i l)),
     (''body'', VStr (copy_body i l))]"

definition generate_unique_copies :: "pydict list \<Rightarrow> pyv list" where
  "generate_unique_copies ls = map (\<lambda>(i, l). copy_of i l) (List.enumerate 0 ls)"

subsection \<open>The choices\<close>

lemma choice_eval: "choice i = (i mod 6, i div 6 mod 10, i div 60 mod 10, i div 600 mod 10, i div 6000 mod 10)"
  by (simp add: choice_def OPENERS_def OBSERVED_def INSIGHTS_def BREAKDOWNS_def CTAS_def Let_def)

lemma digits_mod: "(i :: nat) mod 60000 = i mod 6 + 6 * (i div 6 mod 10) + 60 * (i div 60 mod 10) + 600 * (i div 600 mod 10) + 6000 * (i div 6000 mod 10)"
  using mod_mult2_eq [of i 6 10] mod_mult2_eq [of i 60 10] mod_mult2_eq [of i 600 10] mod_mult2_eq [of i 6000 10] by simp

text \<open>Two places of a batch take the same texts exactly when they lie a multiple of 60000 apart: within a batch (at
  most 60 leads when the queue replenishes itself) no two leads get the same texts, and a place gets the same texts in every batch.\<close>

theorem choices_distinct: "choice i = choice j \<longleftrightarrow> i mod 60000 = j mod 60000"
proof
  assume "choice i = choice j"
  then show "i mod 60000 = j mod 60000" unfolding choice_eval digits_mod [of i] digits_mod [of j] by simp
next
  assume e: "i mod 60000 = j mod 60000"
  have d: "(k mod (a * b)) div a mod 10 = k div a mod 10" if "10 dvd b" "0 < a" for k a b :: nat
  proof -
    have "k mod (a * b) div a = k div a mod b" using that(2) by (simp add: mod_mult2_eq)
    then show ?thesis using mod_mod_cancel [OF that(1)] by simp
  qed
  have "k mod 60000 mod 6 = k mod 6" for k :: nat by (rule mod_mod_cancel) simp
  moreover have "k mod 60000 div 6 mod 10 = k div 6 mod 10" for k :: nat using d [of 10000 6 k] by simp
  moreover have "k mod 60000 div 60 mod 10 = k div 60 mod 10" for k :: nat using d [of 1000 60 k] by simp
  moreover have "k mod 60000 div 600 mod 10 = k div 600 mod 10" for k :: nat using d [of 100 600 k] by simp
  moreover have "k mod 60000 div 6000 mod 10 = k div 6000 mod 10" for k :: nat using d [of 10 6000 k] by simp
  ultimately have "choice (k mod 60000) = choice k" for k unfolding choice_eval by simp
  then show "choice i = choice j" using e by metis
qed

end
