(* ===== verification/ReviewCampaign.thy ===== *)
theory ReviewCampaign
  imports ReviewTemplates
begin

text \<open>
  \<open>src/cloudos/outreach/review_campaign.py\<close>, the campaign on the database: choosing leads, storing copy that passes
  its check and queueing it. An operation returns an exception, by its type's name, or a value, and the state of its
  last commit. Where a statement leaves the order open the rows come in the order of the table, and
  texts are ordered by their characters.
\<close>

text \<open>What a call meets outside: the settings, the time of each transaction of \<open>queue_approved\<close> (the first queueing,
  the choice, the look at the guard, the import, the second queueing), the guard raising for a company there, and
  the text of a JSON value in an f-string.\<close>

record camp_env =
  ce_cfg :: campaign_cfg
  ce_send :: send_env
  ce_now :: "nat \<Rightarrow> time"
  ce_down :: "nat \<Rightarrow> str \<Rightarrow> str option"
  ce_shown :: "pyv \<Rightarrow> str"

definition REPLENISH_BELOW :: nat where "REPLENISH_BELOW = 50"
definition REPLENISH_BATCH :: int where "REPLENISH_BATCH = 60"
definition ENQUEUE_CAP :: nat where "ENQUEUE_CAP = 300"
definition COPY_VERSION :: str where "COPY_VERSION = ''claude-review-v1''"

definition SUPPRESSED :: "str list" where
  "SUPPRESSED = [''email_suppressed'', ''domain_suppressed'', ''company_suppressed'', ''do_not_contact'', ''bounced'']"

definition obind :: "str + 'a \<Rightarrow> ('a \<Rightarrow> str + 'b) \<Rightarrow> str + 'b" where
  "obind r f = (case r of Inl x \<Rightarrow> Inl x | Inr a \<Rightarrow> f a)"

lemma obind_simps [simp]: "obind (Inr a) f = f a" "obind (Inl x) f = Inl x"
  by (simp_all add: obind_def)

lemma obind_eq_Inr: "obind r f = Inr b \<longleftrightarrow> (\<exists>a. r = Inr a \<and> f a = Inr b)"
  by (cases r) simp_all

fun each_ok :: "('a \<Rightarrow> str + 'b) \<Rightarrow> 'a list \<Rightarrow> str + 'b list" where
  "each_ok f [] = Inr []"
| "each_ok f (x # xs) = obind (f x) (\<lambda>y. obind (each_ok f xs) (\<lambda>ys. Inr (y # ys)))"

subsection \<open>JSON in the database\<close>

text \<open>\<open>v ? k\<close>, \<open>v -> k\<close> (a missing value and a JSON null both as \<open>VNone\<close>) and \<open>jsonb_set(v, '{k}', x, true)\<close>.\<close>

definition jsonb_has :: "pyv \<Rightarrow> str \<Rightarrow> bool" where
  "jsonb_has v k = (case v of VDict d \<Rightarrow> map_of d k \<noteq> None | VList xs \<Rightarrow> VStr k \<in> set xs | VStr s \<Rightarrow> s = k | _ \<Rightarrow> False)"

definition jsonb_get :: "pyv \<Rightarrow> str \<Rightarrow> pyv" where
  "jsonb_get v k = (case v of VDict d \<Rightarrow> dget d k | _ \<Rightarrow> VNone)"

definition jsonb_put :: "pyv \<Rightarrow> str \<Rightarrow> pyv \<Rightarrow> str + pyv" where
  "jsonb_put v k x = (case v of VDict d \<Rightarrow> Inr (VDict (dput d k x)) | VList xs \<Rightarrow> Inl ''InvalidTextRepresentation''
     | _ \<Rightarrow> Inl ''InvalidParameterValue'')"

text \<open>\<open>(v ->> k)::int\<close> and \<open>(v ->> k)::boolean\<close>; a null stays null.\<close>

definition int4 :: "int \<Rightarrow> str + int option" where
  "int4 n = (if - (2 ^ 31) \<le> n \<and> n < 2 ^ 31 then Inr (Some n) else Inl ''NumericValueOutOfRange'')"

definition cast_int :: "pyv \<Rightarrow> str + int option" where
  "cast_int v = (case v of VNone \<Rightarrow> Inr None | VInt n \<Rightarrow> int4 n
     | VStr s \<Rightarrow> (case py_int s of Some n \<Rightarrow> int4 n | None \<Rightarrow> Inl ''InvalidTextRepresentation'')
     | _ \<Rightarrow> Inl ''InvalidTextRepresentation'')"

definition TRUE_WORDS :: "str list" where
  "TRUE_WORDS = [''t'', ''tr'', ''tru'', ''true'', ''y'', ''ye'', ''yes'', ''on'', ''1'']"

definition FALSE_WORDS :: "str list" where
  "FALSE_WORDS = [''f'', ''fa'', ''fal'', ''fals'', ''false'', ''n'', ''no'', ''of'', ''off'', ''0'']"

definition cast_bool :: "pyv \<Rightarrow> str + bool option" where
  "cast_bool v = (case v of VNone \<Rightarrow> Inr None | VBool b \<Rightarrow> Inr (Some b)
     | VInt n \<Rightarrow> if n = 1 then Inr (Some True) else if n = 0 then Inr (Some False) else Inl ''InvalidTextRepresentation''
     | VStr s \<Rightarrow> (let w = py_lower (py_strip s) in
         if w \<in> set TRUE_WORDS then Inr (Some True) else if w \<in> set FALSE_WORDS then Inr (Some False)
         else Inl ''InvalidTextRepresentation'')
     | _ \<Rightarrow> Inl ''InvalidTextRepresentation'')"

subsection \<open>Leads\<close>

text \<open>The contact a first touch may go to: validated before published, then by role (descending order puts a missing
  role first, then a generic one), then the oldest.\<close>

definition usable_contact :: "conv \<Rightarrow> str \<Rightarrow> contact option" where
  "usable_contact c i = least_by (\<lambda>k. (if ct_status k = ''validated'' then 0 else (1 :: int),
       (case ct_role k of None \<Rightarrow> 0 | Some r \<Rightarrow> if r = ''generic'' then 1 else (2 :: int)), ct_discovered k))
     (filter (\<lambda>k. ct_company k = i \<and> (ct_status k = ''validated'' \<or> ct_status k = ''published'')) (cv_contacts c))"

definition in_flight :: "outbox \<Rightarrow> str \<Rightarrow> bool" where
  "in_flight b i \<longleftrightarrow> list_ex (\<lambda>q. qr_company q = i \<and> (qr_state q = Sent \<or> qr_state q = Queued \<or> qr_state q = Claimed)) (ob_queue b)"

definition in_industry :: "str list \<Rightarrow> company \<Rightarrow> bool" where
  "in_industry inds r \<longleftrightarrow> (case co_industry r of Some x \<Rightarrow> x \<in> set inds | None \<Rightarrow> False)"

definition has_listing :: "company \<Rightarrow> bool" where
  "has_listing r \<longleftrightarrow> jsonb_has (co_personalization r) ''google_reviews'' \<and> jsonb_has (co_personalization r) ''google_rating''"

definition DONE_STATUSES :: "str list" where
  "DONE_STATUSES = [''contacted'', ''replied'', ''bounced'', ''unsubscribed'', ''do_not_contact'']"

definition eligible :: "str list \<Rightarrow> outbox \<Rightarrow> company \<Rightarrow> bool" where
  "eligible inds b r \<longleftrightarrow> (let c = ob_conv b; i = co_id r in
     usable_contact c i \<noteq> None \<and> co_active r \<and> co_first_contacted r = None \<and> in_industry inds r \<and> has_listing r
     \<and> co_outreach r \<notin> set DONE_STATUSES \<and> \<not> in_flight b i
     \<and> \<not> list_ex (\<lambda>k. cc_company k = i \<and> cc_campaign k = REVIEWS \<and> cc_passed_at k \<noteq> None) (ob_copies b)
     \<and> \<not> list_ex (\<lambda>h. hi_company h = Some i \<and> hi_status h = ''sent'') (cv_history c)
     \<and> \<not> list_ex (\<lambda>m. mg_company m = Some i \<and> \<not> mg_inbound m) (cv_messages c))"

definition eligible_rows :: "str list \<Rightarrow> nat \<Rightarrow> outbox \<Rightarrow> company list" where
  "eligible_rows inds limit b = take limit
     (order_by (\<lambda>r. ((case co_ready_at r of None \<Rightarrow> (1 :: int, 0) | Some t \<Rightarrow> (0, - t)), - co_discovered r))
        (filter (eligible inds b) (cv_companies (ob_conv b))))"

subsection \<open>Local leaders\<close>

definition market_city :: "company \<Rightarrow> str" where "market_city r = py_lower (sql_trim (text_opt (co_city r)))"

definition market_of :: "company \<Rightarrow> str \<times> str" where
  "market_of r = (py_lower (sql_trim (text_opt (co_industry r))), market_city r)"

text \<open>The number of reviews, when its text is all digits.\<close>

definition listed_reviews :: "company \<Rightarrow> int option" where
  "listed_reviews r = (case jsonb_get (co_personalization r) ''google_reviews'' of
     VInt n \<Rightarrow> if 0 \<le> n then Some n else None
   | VStr s \<Rightarrow> if s \<noteq> [] \<and> list_all is_digit s then Some (digits_val s) else None
   | _ \<Rightarrow> None)"

definition peer_key :: "company \<Rightarrow> (int \<times> int) \<times> str" where
  "peer_key r = ((case listed_reviews r of None \<Rightarrow> (1, 0) | Some n \<Rightarrow> (0, - n)), co_id r)"

definition peer :: "str list \<Rightarrow> str list \<Rightarrow> company \<Rightarrow> bool" where
  "peer inds cities r \<longleftrightarrow> co_active r \<and> in_industry inds r \<and> co_qualification r \<noteq> ''REJECT'' \<and> has_listing r
     \<and> co_city r \<noteq> None \<and> market_city r \<in> set cities"

definition peer_rows :: "str list \<Rightarrow> str list \<Rightarrow> outbox \<Rightarrow> str + company list" where
  "peer_rows inds cities b =
     (let rows = filter (peer inds cities) (cv_companies (ob_conv b)) in
      if cities = [] then Inr []
      else if list_ex (\<lambda>r. case listed_reviews r of Some n \<Rightarrow> 2 ^ 31 \<le> n | None \<Rightarrow> False) rows then Inl ''NumericValueOutOfRange''
      else Inr (filter (\<lambda>r. count_where (\<lambda>p. market_of p = market_of r \<and> peer_key p < peer_key r) rows < 2) rows))"

subsection \<open>Choosing\<close>

definition same_market :: "company \<Rightarrow> company \<Rightarrow> bool" where
  "same_market r p \<longleftrightarrow> co_industry p = co_industry r \<and> py_lower (text_opt (co_city p)) = py_lower (text_opt (co_city r))"

definition review_count :: "company \<Rightarrow> int" where
  "review_count p = (let n = or_zero (number_int (dget (lead_facts p) ''google_reviews'')) in if n = 0 then -1 else n)"

definition competitor_of :: "company list \<Rightarrow> company \<Rightarrow> company option" where
  "competitor_of peers r = least_by (\<lambda>p. - review_count p) (filter (\<lambda>p. same_market r p \<and> co_id p \<noteq> co_id r) peers)"

text \<open>The place of an industry in the configured order; of one that is listed twice, the later.\<close>

definition industry_rank :: "str list \<Rightarrow> company \<Rightarrow> nat" where
  "industry_rank inds r = (case co_industry r of None \<Rightarrow> 999
     | Some x \<Rightarrow> (case map_of (rev (zip inds [0..<length inds])) x of Some n \<Rightarrow> n | None \<Rightarrow> 999))"

definition scored_rows :: "camp_env \<Rightarrow> company list \<Rightarrow> company list \<Rightarrow> (company \<times> review_score) list" where
  "scored_rows e peers rows =
     order_by (\<lambda>(r, s). (- rs_value s, industry_rank (cp_industries (ce_cfg e)) r, py_lower (co_name r)))
       (map (\<lambda>r. (r, score (ce_shown e) r (competitor_of peers r))) rows)"

definition score_payload :: "review_score \<Rightarrow> pyv" where
  "score_payload s = VDict [(''campaign'', VStr REVIEWS), (''selected'', VBool True), (''score'', VInt (rs_value s)),
     (''strongest_signal'', VStr (rs_signal s)), (''exact_evidence'', VStr (rs_evidence s)),
     (''competitor_context'', VStr (rs_context s)), (''email_hook'', VStr (rs_hook s)), (''source'', rs_source s)]"

text \<open>The update, with the trigger that stamps a company that becomes ready.\<close>

definition choose_row :: "time \<Rightarrow> int \<Rightarrow> review_score \<Rightarrow> pyv \<Rightarrow> company \<Rightarrow> company" where
  "choose_row now minimum s p r = r\<lparr>co_personalization := p,
     co_qualification := (if 8 \<le> rs_value s then ''HIGH'' else if minimum \<le> rs_value s then ''MEDIUM'' else co_qualification r),
     co_outreach := ''outreach_ready'', co_ready_at := Some (case co_ready_at r of Some t \<Rightarrow> t | None \<Rightarrow> now)\<rparr>"

definition choose_company :: "time \<Rightarrow> int \<Rightarrow> company \<times> review_score \<Rightarrow> conv \<Rightarrow> str + conv" where
  "choose_company now minimum rs c = (case rs of (r, s) \<Rightarrow>
     obind (jsonb_put (co_personalization r) ''review_campaign'' (score_payload s)) (\<lambda>p.
       Inr (c\<lparr>cv_companies := upd_where (\<lambda>x. co_id x = co_id r) (choose_row now minimum s p) (cv_companies c)\<rparr>)))"

fun choose_all :: "time \<Rightarrow> int \<Rightarrow> (company \<times> review_score) list \<Rightarrow> conv \<Rightarrow> str + conv" where
  "choose_all now minimum [] c = Inr c"
| "choose_all now minimum (x # xs) c = obind (choose_company now minimum x c) (choose_all now minimum xs)"

record qualify_out =
  qf_raw :: nat
  qf_strong :: nat
  qf_selected :: nat
  qf_by_industry :: "(str \<times> nat) list"

definition strong :: "camp_env \<Rightarrow> company \<times> review_score \<Rightarrow> bool" where
  "strong e rs \<longleftrightarrow> cp_minimum (ce_cfg e) \<le> rs_value (snd rs)"

definition batch_cap :: "camp_env \<Rightarrow> int option \<Rightarrow> nat" where
  "batch_cap e limit = nat (case limit of Some n \<Rightarrow> n | None \<Rightarrow> cp_target (ce_cfg e))"

text \<open>Python's set of the cities, in order.\<close>

definition cities_of :: "company list \<Rightarrow> str list" where
  "cities_of rows = remdups (order_by id (filter (\<lambda>s. s \<noteq> []) (map (\<lambda>r. py_lower (py_strip (text_opt (co_city r)))) rows)))"

definition chosen_rows :: "camp_env \<Rightarrow> int option \<Rightarrow> outbox \<Rightarrow> company list \<Rightarrow> (company \<times> review_score) list" where
  "chosen_rows e limit b peers = take (batch_cap e limit)
     (filter (strong e) (scored_rows e peers (eligible_rows (cp_industries (ce_cfg e)) (2 * batch_cap e limit) b)))"

definition qualify_report :: "camp_env \<Rightarrow> company list \<Rightarrow> company list \<Rightarrow> (company \<times> review_score) list \<Rightarrow> qualify_out" where
  "qualify_report e rows peers chosen =
     \<lparr>qf_raw = length rows, qf_strong = count_where (strong e) (scored_rows e peers rows), qf_selected = length chosen,
      qf_by_industry = map (\<lambda>i. (i, count_where (\<lambda>x. co_industry (fst x) = Some i) chosen)) (cp_industries (ce_cfg e))\<rparr>"

definition qualify :: "camp_env \<Rightarrow> int option \<Rightarrow> outbox \<Rightarrow> (str + qualify_out) \<times> outbox" where
  "qualify e limit b =
     (let inds = cp_industries (ce_cfg e); rows = eligible_rows inds (2 * batch_cap e limit) b in
      case obind (peer_rows inds (cities_of rows) b) (\<lambda>peers.
             obind (choose_all (ce_now e 1) (cp_minimum (ce_cfg e)) (chosen_rows e limit b peers) (ob_conv b)) (\<lambda>c.
               Inr (qualify_report e rows peers (chosen_rows e limit b peers), c))) of
        Inl x \<Rightarrow> (Inl x, b)
      | Inr (out, c) \<Rightarrow> (Inr out, b\<lparr>ob_conv := c\<rparr>))"

subsection \<open>The chosen leads\<close>

text \<open>A lead of the campaign: the company, what was stored about it and the contact.\<close>

definition campaign_data :: "company \<Rightarrow> pyv" where
  "campaign_data r = jsonb_get (co_personalization r) ''review_campaign''"

definition lead_dict :: "company \<Rightarrow> str \<Rightarrow> pydict" where
  "lead_dict r to =
     (let g = jsonb_get (campaign_data r) in
      [(''company_id'', VStr (co_id r)), (''company'', VStr (co_name r)), (''first_name'', VStr []), (''email'', VStr to),
       (''vertical'', vopt VStr (co_industry r)), (''city'', vopt VStr (co_city r)), (''state'', vopt VStr (co_region r)),
       (''score'', g ''score''), (''strongest_signal'', g ''strongest_signal''), (''exact_evidence'', g ''exact_evidence''),
       (''competitor_context'', g ''competitor_context''), (''email_hook'', g ''email_hook''), (''source'', g ''source'')])"

definition in_campaign :: "company \<Rightarrow> bool" where
  "in_campaign r \<longleftrightarrow> jsonb_get (campaign_data r) ''campaign'' = VStr REVIEWS"

definition open_lead :: "outbox \<Rightarrow> company \<Rightarrow> bool" where
  "open_lead b r \<longleftrightarrow> in_campaign r \<and> co_first_contacted r = None \<and> co_active r \<and> \<not> in_flight b (co_id r)
     \<and> usable_contact (ob_conv b) (co_id r) \<noteq> None"

text \<open>A row, whether it is selected, and its score, which orders the rows (a null first).\<close>

definition with_score :: "company \<Rightarrow> str + company \<times> bool \<times> int option" where
  "with_score r = obind (cast_bool (jsonb_get (campaign_data r) ''selected'')) (\<lambda>sel.
     if sel = Some True then obind (cast_int (jsonb_get (campaign_data r) ''score'')) (\<lambda>n. Inr (r, True, n))
     else Inr (r, False, None))"

definition first_rows :: "int option \<Rightarrow> 'a list \<Rightarrow> str + 'a list" where
  "first_rows limit xs = (case limit of None \<Rightarrow> Inr xs
     | Some n \<Rightarrow> if n < 0 then Inl ''InvalidRowCountInLimitClause'' else Inr (take (nat n) xs))"

definition contact_text :: "conv \<Rightarrow> company \<Rightarrow> str" where
  "contact_text c r = (case usable_contact c (co_id r) of Some k \<Rightarrow> ct_email k | None \<Rightarrow> [])"

definition selected :: "int option \<Rightarrow> outbox \<Rightarrow> str + pydict list" where
  "selected limit b =
     obind (each_ok with_score (filter (open_lead b) (cv_companies (ob_conv b)))) (\<lambda>rows.
     obind (first_rows limit (order_by (\<lambda>(r, sel, n). ((case n of None \<Rightarrow> (0 :: int, 0) | Some m \<Rightarrow> (1, - m)), co_name r))
                               (filter (\<lambda>(r, sel, n). sel) rows))) (\<lambda>rows.
       Inr (map (\<lambda>(r, sel, n). lead_dict r (contact_text (ob_conv b) r)) rows)))"

text \<open>\<open>_sendable\<close>: one transaction; a guard that raises rolls it back to \<open>b0\<close>.\<close>

definition guard_reasons_of :: "pydict \<Rightarrow> str list" where
  "guard_reasons_of d = (case dget d ''reasons'' of VList xs \<Rightarrow> map text_of xs | _ \<Rightarrow> [])"

definition blocked_status :: "str list \<Rightarrow> str option" where
  "blocked_status rs = (if list_ex (\<lambda>x. x \<in> set SUPPRESSED) rs then Some ''do_not_contact''
     else if ''already_contacted'' \<in> set rs then Some ''contacted'' else None)"

definition lead_company :: "pydict \<Rightarrow> str" where "lead_company l = lead_text l ''company_id''"

fun sendable :: "camp_env \<Rightarrow> outbox \<Rightarrow> pydict list \<Rightarrow> outbox \<Rightarrow> pydict list \<times> outbox" where
  "sendable e b0 [] b = ([], b)"
| "sendable e b0 (l # ls) b =
     (let i = lead_company l; down = ce_down e 2 i; d = guard_says down (ob_conv b) (lead_text l ''email'') ''cold'' i;
          b1 = (if down = None then b else b0); rs = guard_reasons_of d in
      if verdict_allows d then (case sendable e b0 ls b1 of (kept, b2) \<Rightarrow> (l # kept, b2))
      else if ''guard_error'' \<in> set rs then sendable e b0 ls b1
      else (case blocked_status rs of
              Some oc \<Rightarrow> sendable e b0 ls (map_conv (mark_ready_company i oc) b1)
            | None \<Rightarrow> sendable e b0 ls b1))"

subsection \<open>Importing copy\<close>

text \<open>\<open>s.splitlines()\<close>: also at a vertical tab, a form feed and three separators; a carriage return with a line
  feed is one break.\<close>

definition ends_line :: "char \<Rightarrow> bool" where
  "ends_line c \<longleftrightarrow> (of_char c :: nat) \<in> set [10, 11, 12, 13, 28, 29, 30]"

fun split_lines :: "str \<Rightarrow> str \<Rightarrow> str list" where
  "split_lines acc [] = (if acc = [] then [] else [rev acc])"
| "split_lines acc (c # s) =
     (if c = CHR 0x0D \<and> s \<noteq> [] \<and> hd s = CHR 0x0A then split_lines acc s
      else if ends_line c then rev acc # split_lines [] s else split_lines (c # acc) s)"

definition json_line :: "str \<Rightarrow> str + pyv" where
  "json_line s = (case json_loads s of Some v \<Rightarrow> Inr v | None \<Rightarrow> Inl ''JSONDecodeError'')"

definition records_of :: "str \<Rightarrow> str + pyv list" where
  "records_of text0 =
     (let s = py_strip text0 in
      if s = [] then Inr []
      else case json_loads s of
          Some (VList xs) \<Rightarrow> Inr xs
        | Some v \<Rightarrow> Inr [v]
        | None \<Rightarrow> each_ok json_line (filter (\<lambda>l. py_strip l \<noteq> []) (split_lines [] s)))"

record import_out =
  im_received :: nat
  im_stored :: nat
  im_failed :: nat
  im_failures :: "(str \<times> str list) list"

definition import_zero :: import_out where
  "import_zero = \<lparr>im_received = 0, im_stored = 0, im_failed = 0, im_failures = []\<rparr>"

definition note_failure :: "str \<Rightarrow> str list \<Rightarrow> import_out \<Rightarrow> import_out" where
  "note_failure k ps out = out\<lparr>im_received := im_received out + 1, im_failed := im_failed out + 1,
     im_failures := dput (im_failures out) k ps\<rparr>"

text \<open>\<open>str(item.get(k) or "")\<close>.\<close>

definition item_text :: "camp_env \<Rightarrow> pydict \<Rightarrow> str \<Rightarrow> str" where
  "item_text e d k = (let v = dget d k in if \<not> truthy v then []
     else case v of VStr s \<Rightarrow> s | VInt n \<Rightarrow> show_int n | _ \<Rightarrow> ce_shown e v)"

definition item_step :: "pydict \<Rightarrow> str + int" where
  "item_step d = (let v = por (dget d ''step'') (VInt 0) in
     case py_int_v v of Some n \<Rightarrow> Inr n
     | None \<Rightarrow> Inl (case v of VStr s \<Rightarrow> ''ValueError'' | _ \<Rightarrow> ''TypeError''))"

definition upsert_copy :: "copy_row \<Rightarrow> copy_row list \<Rightarrow> copy_row list" where
  "upsert_copy k t =
     (let same = (\<lambda>x. cc_company x = cc_company k \<and> cc_campaign x = cc_campaign k \<and> cc_step x = cc_step k)
      in if list_ex same t then upd_where same (\<lambda>x. k) t else t @ [k])"

definition copy_problems :: "camp_env \<Rightarrow> (str \<times> str) list \<Rightarrow> str \<Rightarrow> int \<Rightarrow> str \<Rightarrow> str \<Rightarrow> pydict \<Rightarrow> str list" where
  "copy_problems e seen i stp subject body l =
     (if stp = 0
      then qa_copy (ce_cfg e) subject body l
             @ (case map_of seen (fingerprint body l) of Some j \<Rightarrow> if j \<noteq> i then [''simple mail-merge duplicate''] else [] | None \<Rightarrow> [])
      else qa_followup (ce_cfg e) subject body)"

definition stored_copy :: "time \<Rightarrow> str \<Rightarrow> int \<Rightarrow> str \<Rightarrow> str \<Rightarrow> pydict \<Rightarrow> str list \<Rightarrow> copy_row" where
  "stored_copy now i stp subject body l problems =
     \<lparr>cc_company = i, cc_campaign = REVIEWS, cc_step = stp, cc_subject = subject, cc_body = body, cc_version = COPY_VERSION,
      cc_evidence = VDict l, cc_passed_at = (if problems = [] then Some now else None), cc_updated = now\<rparr>"

definition import_item ::
  "camp_env \<Rightarrow> pydict list \<Rightarrow> pyv \<Rightarrow> (str \<times> str) list \<times> copy_row list \<times> import_out \<Rightarrow> str + (str \<times> str) list \<times> copy_row list \<times> import_out" where
  "import_item e leads item st =
     (case (item, st) of
        (VDict d, (seen, t, out)) \<Rightarrow>
          (let i = item_text e d ''company_id'' in
           case find (\<lambda>l. lead_company l = i) leads of
             None \<Rightarrow> Inr (seen, t, note_failure (text_or i ''missing_company_id'') [''not a selected lead''] out)
           | Some l \<Rightarrow> obind (item_step d) (\<lambda>stp.
               if stp \<notin> {0, 1, 2, 3} then Inr (seen, t, note_failure (i @ '':step'') [''step must be 0, 1, 2 or 3''] out)
               else (let subject = py_strip (item_text e d ''subject''); body = py_strip (item_text e d ''body'');
                         problems = copy_problems e seen i stp subject body l;
                         t1 = upsert_copy (stored_copy (ce_now e 3) i stp subject body l problems) t;
                         seen1 = (if stp = 0 then dput seen (fingerprint body l) i else seen)
                     in Inr (seen1, t1, if problems = [] then out\<lparr>im_received := im_received out + 1, im_stored := im_stored out + 1\<rparr>
                          else note_failure (i @ '':'' @ show_int stp) problems out))))
      | _ \<Rightarrow> Inl ''AttributeError'')"

fun import_items ::
  "camp_env \<Rightarrow> pydict list \<Rightarrow> pyv list \<Rightarrow> (str \<times> str) list \<times> copy_row list \<times> import_out \<Rightarrow> str + (str \<times> str) list \<times> copy_row list \<times> import_out" where
  "import_items e leads [] st = Inr st"
| "import_items e leads (x # xs) st = obind (import_item e leads x st) (import_items e leads xs)"

definition passed_first :: "copy_row \<Rightarrow> bool" where
  "passed_first k \<longleftrightarrow> cc_campaign k = REVIEWS \<and> cc_step k = 0 \<and> cc_passed_at k \<noteq> None"

text \<open>The fingerprints of the copy that passed before, of leads still open.\<close>

definition seen_before :: "pydict list \<Rightarrow> copy_row list \<Rightarrow> (str \<times> str) list" where
  "seen_before leads t = fold (\<lambda>k seen. case find (\<lambda>l. lead_company l = cc_company k) leads of
       Some l \<Rightarrow> dput seen (fingerprint (cc_body k) l) (cc_company k) | None \<Rightarrow> seen) (filter passed_first t) []"

definition import_records :: "camp_env \<Rightarrow> (str + pyv list) \<Rightarrow> outbox \<Rightarrow> (str + import_out) \<times> outbox" where
  "import_records e records b =
     (case obind (selected None b) (\<lambda>leads. obind records (\<lambda>items.
             import_items e leads items (seen_before leads (ob_copies b), ob_copies b, import_zero))) of
        Inl x \<Rightarrow> (Inl x, b)
      | Inr (seen, t, out) \<Rightarrow> (Inr out, b\<lparr>ob_copies := t\<rparr>))"

definition import_copy :: "camp_env \<Rightarrow> str \<Rightarrow> outbox \<Rightarrow> (str + import_out) \<times> outbox" where
  "import_copy e txt b = import_records e (records_of txt) b"

subsection \<open>Queueing\<close>

definition ready_copy :: "outbox \<Rightarrow> copy_row \<Rightarrow> bool" where
  "ready_copy b k \<longleftrightarrow> passed_first k \<and> \<not> in_flight b (cc_company k)
     \<and> (case company_row (ob_conv b) (cc_company k) of Some r \<Rightarrow> co_first_contacted r = None \<and> co_active r | None \<Rightarrow> False)"

definition approved_count :: "outbox \<Rightarrow> nat" where
  "approved_count b = count_where (ready_copy b) (ob_copies b)"

definition with_evidence :: "copy_row \<Rightarrow> str + copy_row \<times> int option" where
  "with_evidence k = obind (cast_int (jsonb_get (cc_evidence k) ''score'')) (\<lambda>n. Inr (k, n))"

definition ready_rows :: "nat \<Rightarrow> outbox \<Rightarrow> str + copy_row list" where
  "ready_rows n b = obind (each_ok with_evidence (filter (\<lambda>k. ready_copy b k \<and> usable_contact (ob_conv b) (cc_company k) \<noteq> None) (ob_copies b)))
     (\<lambda>rows. Inr (map fst (take n (order_by (\<lambda>(k, m). ((case m of None \<Rightarrow> (1 :: int, 0) | Some x \<Rightarrow> (0, - x)), cc_updated k)) rows))))"

definition recipient_of :: "outbox \<Rightarrow> copy_row \<Rightarrow> str" where
  "recipient_of b k = (case usable_contact (ob_conv b) (cc_company k) of Some x \<Rightarrow> ct_email x | None \<Rightarrow> [])"

definition campaign_mail :: "camp_env \<Rightarrow> str \<Rightarrow> copy_row \<Rightarrow> email" where
  "campaign_mail e postal k =
     \<lparr>em_subject = cc_subject k, em_body = add_footer (ce_send e) (cc_body k) postal, em_variant = cc_version k\<rparr>"

definition campaign_row :: "camp_env \<Rightarrow> str \<Rightarrow> time \<Rightarrow> str \<Rightarrow> copy_row \<Rightarrow> qrow" where
  "campaign_row e postal now to k = (new_row (cc_company k) 0 to (campaign_mail e postal k) [] now)
     \<lparr>qr_campaign := REVIEWS, qr_source := COPY_VERSION,
      qr_evidence := (if truthy (cc_evidence k) then cc_evidence k else VDict [])\<rparr>"

text \<open>\<open>_enqueue_approved\<close>, in a transaction that began at \<open>b0\<close>: \<open>ph\<close> tells which of the two it is. A guard that raises
  rolls the transaction back, and the loop goes on. The first component of the counts is \<open>queued\<close>.\<close>

fun enqueue_rows ::
  "camp_env \<Rightarrow> nat \<Rightarrow> str \<Rightarrow> outbox \<Rightarrow> (copy_row \<times> str \<times> str) list \<Rightarrow> outbox \<Rightarrow> nat \<times> nat \<Rightarrow> str + (nat \<times> nat) \<times> outbox" where
  "enqueue_rows e ph postal b0 [] b n = Inr (n, b)"
| "enqueue_rows e ph postal b0 ((k, to, name) # rows) b (queued, blocked) =
     (let i = cc_company k; down = ce_down e ph i; b1 = (if down = None then b else b0) in
      if \<not> verdict_allows (guard_says down (ob_conv b) to ''cold'' i) then enqueue_rows e ph postal b0 rows b1 (queued, Suc blocked)
      else if qa (campaign_mail e postal k) postal name \<noteq> [] then enqueue_rows e ph postal b0 rows b1 (queued, Suc blocked)
      else (case insert_row (campaign_row e postal (ce_now e ph) to k) b1 of
              Inl x \<Rightarrow> Inl ''CheckViolation''
            | Inr b2 \<Rightarrow> enqueue_rows e ph postal b0 rows b2 (if ob_next b2 = ob_next b1 then queued else Suc queued, blocked)))"

definition enqueue_approved :: "camp_env \<Rightarrow> nat \<Rightarrow> str \<Rightarrow> int option \<Rightarrow> outbox \<Rightarrow> outbox \<Rightarrow> str + (nat \<times> nat) \<times> outbox" where
  "enqueue_approved e ph postal limit b0 b =
     obind (ready_rows (case limit of None \<Rightarrow> ENQUEUE_CAP | Some n \<Rightarrow> nat n) b) (\<lambda>ks.
       enqueue_rows e ph postal b0 (map (\<lambda>k. (k, recipient_of b k, named (cc_company k) (ob_conv b))) ks) b (0, 0))"

subsection \<open>The status, a batch and the whole step\<close>

record camp_status =
  st_selected :: nat
  st_written :: nat
  st_passed :: nat
  st_ready :: nat
  st_sent :: nat

definition campaign_queue :: "qstate \<Rightarrow> outbox \<Rightarrow> nat" where
  "campaign_queue s b = count_where (\<lambda>q. qr_campaign q = REVIEWS \<and> qr_step q = 0 \<and> qr_state q = s) (ob_queue b)"

definition camp_status_of :: "outbox \<Rightarrow> str + camp_status" where
  "camp_status_of b =
     obind (each_ok (\<lambda>r. cast_bool (jsonb_get (campaign_data r) ''selected'')) (filter in_campaign (cv_companies (ob_conv b)))) (\<lambda>flags.
       Inr \<lparr>st_selected = count_where (\<lambda>f. f = Some True) flags,
            st_written = count_where (\<lambda>k. cc_campaign k = REVIEWS \<and> cc_step k = 0) (ob_copies b),
            st_passed = approved_count b, st_ready = campaign_queue Queued b, st_sent = campaign_queue Sent b\<rparr>)"

record prepared =
  pr_qualified :: qualify_out
  pr_imported :: import_out
  pr_status :: camp_status

text \<open>\<open>json.loads\<close> gives back the copies that \<open>json.dumps\<close> wrote.\<close>

definition auto_prepare_campaign :: "camp_env \<Rightarrow> int option \<Rightarrow> outbox \<Rightarrow> (str + prepared) \<times> outbox" where
  "auto_prepare_campaign e limit b =
     (let batch = (case limit of Some n \<Rightarrow> n | None \<Rightarrow> REPLENISH_BATCH) in
      case qualify e (Some batch) b of
        (Inl x, b1) \<Rightarrow> (Inl x, b1)
      | (Inr ql, b1) \<Rightarrow> (case selected (if batch \<noteq> 0 then Some batch else None) b1 of
          Inl x \<Rightarrow> (Inl x, b1)
        | Inr leads \<Rightarrow> (case sendable e b1 leads b1 of (kept, b2) \<Rightarrow>
            (case import_records e (Inr (generate_unique_copies kept)) b2 of
               (Inl x, b3) \<Rightarrow> (Inl x, b3)
             | (Inr im, b3) \<Rightarrow> (case camp_status_of b3 of
                 Inl x \<Rightarrow> (Inl x, b3)
               | Inr st \<Rightarrow> (Inr \<lparr>pr_qualified = ql, pr_imported = im, pr_status = st\<rparr>, b3))))))"

record queue_out =
  qp_queued :: nat
  qp_blocked :: nat
  qp_stopped :: bool
  qp_replenished :: "(nat \<times> nat \<times> nat) option"
  qp_error :: "str option"

definition queue_zero :: queue_out where
  "queue_zero = \<lparr>qp_queued = 0, qp_blocked = 0, qp_stopped = False, qp_replenished = None, qp_error = None\<rparr>"

definition clear_cancelled :: "outbox \<Rightarrow> outbox" where
  "clear_cancelled = map_queue (del_where (\<lambda>q. qr_campaign q = REVIEWS \<and> qr_state q = Cancelled))"

definition replenish :: "camp_env \<Rightarrow> str \<Rightarrow> int option \<Rightarrow> queue_out \<Rightarrow> outbox \<Rightarrow> queue_out \<times> outbox" where
  "replenish e postal limit out b =
     (let batch = (case limit of None \<Rightarrow> REPLENISH_BATCH | Some n \<Rightarrow> max (min n REPLENISH_BATCH) 0) in
      if REPLENISH_BELOW \<le> approved_count b \<or> batch = 0 then (out, b)
      else (case auto_prepare_campaign e (Some batch) b of
          (Inl x, b1) \<Rightarrow> (out\<lparr>qp_error := Some x\<rparr>, b1)
        | (Inr p, b1) \<Rightarrow>
            (let out1 = out\<lparr>qp_replenished := Some (qf_raw (pr_qualified p), qf_selected (pr_qualified p), im_stored (pr_imported p))\<rparr> in
             case enqueue_approved e 4 postal limit b1 b1 of
               Inl x \<Rightarrow> (out1\<lparr>qp_error := Some x\<rparr>, b1)
             | Inr ((q, bl), b2) \<Rightarrow> (out1\<lparr>qp_queued := qp_queued out1 + q, qp_blocked := qp_blocked out1 + bl\<rparr>, b2))))"

definition queue_approved :: "camp_env \<Rightarrow> str \<Rightarrow> int option \<Rightarrow> outbox \<Rightarrow> (str + queue_out) \<times> outbox" where
  "queue_approved e postal limit b =
     (if py_strip postal = [] then (Inr (queue_zero\<lparr>qp_stopped := True\<rparr>), b)
      else (case enqueue_approved e 0 postal limit b (clear_cancelled b) of
          Inl x \<Rightarrow> (Inl x, b)
        | Inr ((q, bl), b1) \<Rightarrow>
            (case replenish e postal limit (queue_zero\<lparr>qp_queued := q, qp_blocked := bl\<rparr>) b1 of (out, b2) \<Rightarrow> (Inr out, b2))))"

end
