(* ===== verification/ReviewSafe.thy ===== *)
theory ReviewSafe
  imports ReviewCampaign
begin

text \<open>
  What the review campaign guarantees: which rows it queues, which copy it stores as passed, which leads it chooses, and what a
  guard that fails in the middle of a queueing step does to the rows queued before.
\<close>

subsection \<open>What is queued\<close>

lemma guard_cleared:
  assumes "verdict_allows (guard_says down c to kind i)"
  shows "down = None" "ga_allowed (send_check c to kind (Some i))"
proof -
  show d: "down = None"
  proof (cases down)
    case (Some ty)
    have False using assms unfolding guard_says_def Some verdict_allows_def check_fail_closed_def option.case sum.case
      by (simp add: dget_def)
    then show ?thesis ..
  qed
  show "ga_allowed (send_check c to kind (Some i))"
    using assms unfolding guard_says_def d verdict_allows_def check_fail_closed_def option.case sum.case guard_value_def pyv.case
    by (auto simp: dget_def split: if_splits)
qed

text \<open>A row the campaign may queue.\<close>

definition cleared_row :: "camp_env \<Rightarrow> str \<Rightarrow> conv \<Rightarrow> copy_row list \<Rightarrow> qrow \<Rightarrow> bool" where
  "cleared_row e postal c copies q \<longleftrightarrow>
     (\<exists>k\<in>set copies. passed_first k \<and> qr_company q = cc_company k \<and> qr_step q = 0 \<and> qr_state q = Queued \<and> qr_msgid q = None
        \<and> row_email q = campaign_mail e postal k \<and> qa (row_email q) postal (named (qr_company q) c) = []
        \<and> ga_allowed (send_check c (qr_recipient q) ''cold'' (Some (qr_company q)))
        \<and> (\<exists>x. usable_contact c (qr_company q) = Some x \<and> qr_recipient q = ct_email x)
        \<and> (\<exists>r. company_row c (qr_company q) = Some r \<and> co_active r \<and> co_first_contacted r = None))"

text \<open>A source of rows for the queueing loop: the copy, its contact and the name.\<close>

definition ready_source :: "conv \<Rightarrow> copy_row list \<Rightarrow> copy_row \<times> str \<times> str \<Rightarrow> bool" where
  "ready_source c copies = (\<lambda>(k, to, name). k \<in> set copies \<and> passed_first k \<and> name = named (cc_company k) c
     \<and> (\<exists>x. usable_contact c (cc_company k) = Some x \<and> to = ct_email x)
     \<and> (\<exists>r. company_row c (cc_company k) = Some r \<and> co_active r \<and> co_first_contacted r = None))"

lemma campaign_row_cleared:
  assumes "ready_source c copies (k, to, name)" "verdict_allows (guard_says down c to ''cold'' (cc_company k))"
    and "qa (campaign_mail e postal k) postal name = []"
  shows "cleared_row e postal c copies ((campaign_row e postal now to k)\<lparr>qr_id := n\<rparr>)"
proof -
  let ?q = "(campaign_row e postal now to k)\<lparr>qr_id := n\<rparr>"
  have sel: "qr_company ?q = cc_company k" "qr_step ?q = 0" "qr_state ?q = Queued" "qr_recipient ?q = to" "qr_msgid ?q = None"
    "row_email ?q = campaign_mail e postal k"
    by (simp_all add: campaign_row_def new_row_def row_email_def campaign_mail_def text_opt_def)
  show ?thesis
    using assms(1,3) guard_cleared(2) [OF assms(2)]
    unfolding cleared_row_def sel ready_source_def prod.case by metis
qed

lemma insert_row_same [simp]:
  assumes "insert_row q b = Inr b'"
  shows "ob_conv b' = ob_conv b" "ob_copies b' = ob_copies b" "set (ob_queue b') \<subseteq> set (ob_queue b) \<union> {q\<lparr>qr_id := ob_next b\<rparr>}"
  using assms by (auto simp: insert_row_def split: if_splits)

lemma enqueue_rows_cleared:
  assumes "enqueue_rows e ph postal b0 rows b n = Inr (n', b')"
    and "ob_conv b = ob_conv b0" "ob_copies b = ob_copies b0" and "\<And>x. x \<in> set rows \<Longrightarrow> ready_source (ob_conv b0) (ob_copies b0) x"
  shows "ob_conv b' = ob_conv b0 \<and> ob_copies b' = ob_copies b0
    \<and> set (ob_queue b') \<subseteq> set (ob_queue b) \<union> set (ob_queue b0) \<union> {q. cleared_row e postal (ob_conv b0) (ob_copies b0) q}"
  using assms
proof (induction e ph postal b0 rows b n rule: enqueue_rows.induct)
  case (2 e ph postal b0 k to name rows b queued blocked)
  let ?d = "ce_down e ph (cc_company k)"
  let ?b1 = "if ?d = None then b else b0"
  have b1: "ob_conv ?b1 = ob_conv b0" "ob_copies ?b1 = ob_copies b0" "set (ob_queue ?b1) \<subseteq> set (ob_queue b) \<union> set (ob_queue b0)"
    using 2(5,6) by auto
  have rows: "\<And>x. x \<in> set rows \<Longrightarrow> ready_source (ob_conv b0) (ob_copies b0) x" using 2(7) by simp
  show ?case
  proof (cases "verdict_allows (guard_says ?d (ob_conv b) to ''cold'' (cc_company k))")
    case False
    then have "enqueue_rows e ph postal b0 rows ?b1 (queued, Suc blocked) = Inr (n', b')"
      using 2(4) by (simp add: Let_def)
    from 2(1) [OF refl refl refl False this b1(1,2) rows] show ?thesis using b1(3) by blast
  next
    case ok: True
    show ?thesis
    proof (cases "qa (campaign_mail e postal k) postal name = []")
      case False
      then have "enqueue_rows e ph postal b0 rows ?b1 (queued, Suc blocked) = Inr (n', b')"
        using 2(4) ok by (simp add: Let_def)
      from 2(2) [OF refl refl refl _ False this b1(1,2) rows] ok show ?thesis using b1(3) by blast
    next
      case clean: True
      obtain b2 where ins: "insert_row (campaign_row e postal (ce_now e ph) to k) ?b1 = Inr b2"
        and go: "enqueue_rows e ph postal b0 rows b2 (if ob_next b2 = ob_next ?b1 then queued else Suc queued, blocked) = Inr (n', b')"
        using 2(4) ok clean by (auto simp: Let_def split: sum.splits)
      have src: "ready_source (ob_conv b0) (ob_copies b0) (k, to, name)" using 2(7) by simp
      have "ob_conv b2 = ob_conv b0" "ob_copies b2 = ob_copies b0" using insert_row_same(1,2) [OF ins] b1 by simp_all
      from 2(3) [OF refl refl refl _ _ ins go this rows] ok clean
      have ih: "ob_conv b' = ob_conv b0 \<and> ob_copies b' = ob_copies b0
          \<and> set (ob_queue b') \<subseteq> set (ob_queue b2) \<union> set (ob_queue b0) \<union> {q. cleared_row e postal (ob_conv b0) (ob_copies b0) q}"
        by blast
      have "cleared_row e postal (ob_conv b0) (ob_copies b0) ((campaign_row e postal (ce_now e ph) to k)\<lparr>qr_id := ob_next ?b1\<rparr>)"
        using campaign_row_cleared [OF src ok [unfolded 2(5)] clean] .
      then show ?thesis using ih insert_row_same(3) [OF ins] b1(3) by blast
    qed
  qed
qed auto


lemma each_ok_fst:
  assumes "each_ok f xs = Inr ys" and "\<And>x y. f x = Inr y \<Longrightarrow> fst y = x"
  shows "map fst ys = xs"
  using assms(1)
proof (induction xs arbitrary: ys)
  case (Cons x xs)
  then obtain y zs where "f x = Inr y" "each_ok f xs = Inr zs" "ys = y # zs" by (auto simp: obind_eq_Inr)
  then show ?case using Cons.IH assms(2) by simp
qed simp

lemma with_evidence_fst: "with_evidence k = Inr y \<Longrightarrow> fst y = k"
  by (auto simp: with_evidence_def obind_eq_Inr)

lemma with_score_fst: "with_score r = Inr y \<Longrightarrow> fst y = r"
  by (auto simp: with_score_def obind_eq_Inr split: if_splits)

lemma ready_rows_ready:
  assumes "ready_rows n b = Inr ks" and "k \<in> set ks"
  shows "k \<in> set (ob_copies b)" "ready_copy b k" "usable_contact (ob_conv b) (cc_company k) \<noteq> None"
proof -
  let ?p = "\<lambda>k. ready_copy b k \<and> usable_contact (ob_conv b) (cc_company k) \<noteq> None"
  obtain rows where r: "each_ok with_evidence (filter ?p (ob_copies b)) = Inr rows" and k': "ks = map fst (take n (order_by (\<lambda>(k, m). ((case m of None \<Rightarrow> (1 :: int, 0) | Some x \<Rightarrow> (0, - x)), cc_updated k)) rows))"
    using assms(1) unfolding ready_rows_def obind_eq_Inr by blast
  have ks: "set ks \<subseteq> fst ` set rows" unfolding k' order_by_def using set_take_subset by fastforce
  have "fst ` set rows = set (filter ?p (ob_copies b))"
    using each_ok_fst [OF r with_evidence_fst] by (metis list.set_map)
  then have "k \<in> set (filter ?p (ob_copies b))" using ks assms(2) by blast
  then show "k \<in> set (ob_copies b)" "ready_copy b k" "usable_contact (ob_conv b) (cc_company k) \<noteq> None" by simp_all
qed

lemma enqueue_approved_cleared:
  assumes "enqueue_approved e ph postal limit b0 b = Inr (n, b')" and "ob_conv b = ob_conv b0" "ob_copies b = ob_copies b0"
  shows "ob_conv b' = ob_conv b0 \<and> ob_copies b' = ob_copies b0
    \<and> set (ob_queue b') \<subseteq> set (ob_queue b) \<union> set (ob_queue b0) \<union> {q. cleared_row e postal (ob_conv b0) (ob_copies b0) q}"
proof -
  obtain ks where ks: "ready_rows (case limit of None \<Rightarrow> ENQUEUE_CAP | Some n \<Rightarrow> nat n) b = Inr ks"
    and go: "enqueue_rows e ph postal b0 (map (\<lambda>k. (k, recipient_of b k, named (cc_company k) (ob_conv b))) ks) b (0, 0) = Inr (n, b')"
    using assms(1) by (auto simp: enqueue_approved_def obind_eq_Inr)
  have "ready_source (ob_conv b0) (ob_copies b0) (k, recipient_of b k, named (cc_company k) (ob_conv b))" if k: "k \<in> set ks" for k
    using ready_rows_ready [OF ks k] assms(2,3)
    by (auto simp: ready_source_def ready_copy_def recipient_of_def split: option.splits)
  then show ?thesis using enqueue_rows_cleared [OF go assms(2,3)] by auto
qed

subsection \<open>Only the campaign's queueing touches the queue\<close>

lemma qualify_keeps: "ob_queue (snd (qualify e limit b)) = ob_queue b \<and> ob_copies (snd (qualify e limit b)) = ob_copies b
    \<and> ob_next (snd (qualify e limit b)) = ob_next b"
  by (simp add: qualify_def Let_def split: sum.split prod.split)

definition same_tables :: "outbox \<Rightarrow> outbox \<Rightarrow> bool" where
  "same_tables b b' \<longleftrightarrow> ob_queue b' = ob_queue b \<and> ob_copies b' = ob_copies b \<and> ob_next b' = ob_next b"

lemma sendable_step:
  "\<exists>b'. snd (sendable e b0 (l # ls) b) = snd (sendable e b0 ls b') \<and> (same_tables b b' \<or> same_tables b0 b')"
proof -
  let ?down = "ce_down e 2 (lead_company l)"
  let ?d = "guard_says ?down (ob_conv b) (lead_text l ''email'') ''cold'' (lead_company l)"
  let ?b1 = "if ?down = None then b else b0"
  have one: "same_tables b ?b1 \<or> same_tables b0 ?b1" by (simp add: same_tables_def)
  have marked: "same_tables b (map_conv f ?b1) \<or> same_tables b0 (map_conv f ?b1)" for f by (simp add: same_tables_def)
  show ?thesis
  proof (cases "verdict_allows ?d")
    case True
    then have "snd (sendable e b0 (l # ls) b) = snd (sendable e b0 ls ?b1)"
      by (simp only: sendable.simps Let_def if_True split: prod.split) (simp add: case_prod_beta)
    then show ?thesis using one by blast
  next
    case refused: False
    show ?thesis
    proof (cases "''guard_error'' \<in> set (guard_reasons_of ?d)")
      case True
      then have "snd (sendable e b0 (l # ls) b) = snd (sendable e b0 ls ?b1)" using refused
        by (simp only: sendable.simps Let_def if_True if_False)
      then show ?thesis using one by blast
    next
      case False
      show ?thesis
      proof (cases "blocked_status (guard_reasons_of ?d)")
        case None
        then have "snd (sendable e b0 (l # ls) b) = snd (sendable e b0 ls ?b1)" using refused False
          by (simp only: sendable.simps Let_def if_False option.case)
        then show ?thesis using one by blast
      next
        case (Some oc)
        then have "snd (sendable e b0 (l # ls) b)
            = snd (sendable e b0 ls (map_conv (mark_ready_company (lead_company l) oc) ?b1))" using refused False
          by (simp only: sendable.simps Let_def if_False option.case)
        then show ?thesis using marked by blast
      qed
    qed
  qed
qed

lemma sendable_keeps: "same_tables b0 b \<Longrightarrow> same_tables b0 (snd (sendable e b0 ls b))"
proof (induction ls arbitrary: b)
  case (Cons l ls)
  obtain b' where b': "snd (sendable e b0 (l # ls) b) = snd (sendable e b0 ls b')" "same_tables b b' \<or> same_tables b0 b'"
    using sendable_step by blast
  then have "same_tables b0 b'" using Cons.prems by (auto simp: same_tables_def)
  then show ?case unfolding b'(1) by (rule Cons.IH)
qed simp

lemma import_keeps: "ob_queue (snd (import_records e rs b)) = ob_queue b \<and> ob_conv (snd (import_records e rs b)) = ob_conv b
    \<and> ob_next (snd (import_records e rs b)) = ob_next b"
  by (simp add: import_records_def split: sum.split prod.split)

lemma prepare_keeps:
  "ob_queue (snd (auto_prepare_campaign e limit b)) = ob_queue b \<and> ob_next (snd (auto_prepare_campaign e limit b)) = ob_next b"
proof -
  define batch where "batch = (case limit of Some n \<Rightarrow> n | None \<Rightarrow> REPLENISH_BATCH)"
  obtain q b1 where q: "qualify e (Some batch) b = (q, b1)" by fastforce
  have k1: "ob_queue b1 = ob_queue b" "ob_next b1 = ob_next b" using qualify_keeps [of e "Some batch" b] by (simp_all add: q)
  have k2: "ob_queue (snd (sendable e b1 ls b1)) = ob_queue b1" "ob_next (snd (sendable e b1 ls b1)) = ob_next b1" for ls
    using sendable_keeps [of b1 b1 e ls] by (simp_all add: same_tables_def)
  have k3: "ob_queue (snd (import_records e rs b2)) = ob_queue b2" "ob_next (snd (import_records e rs b2)) = ob_next b2" for rs b2
    using import_keeps [of e rs b2] by simp_all
  have "ob_queue b3 = ob_queue b" "ob_next b3 = ob_next b"
    if "sendable e b1 ls b1 = (kept, b2)" "import_records e rs b2 = (r, b3)" for ls kept b2 rs r b3
    using k1 k2 [of ls] k3 [of rs b2] that by simp_all
  then show ?thesis
    unfolding auto_prepare_campaign_def Let_def batch_def [symmetric] q using k1
    by (auto split: sum.split prod.split)
qed

text \<open>C8. Only copy that passed its check is queued, and only for a lead the guard lets mail go to: whatever the guard, the
  tables and the limits are, each row that queueing the campaign adds is a queued first touch of copy that passed, with a
  text the sender's own check passes, to the usable contact of an active company that was not written to, allowed by the
  guard on the tables as they are before or after the call.\<close>

theorem campaign_queues_cleared:
  "set (ob_queue (snd (queue_approved e postal limit b)))
     \<subseteq> set (ob_queue b) \<union> {q. cleared_row e postal (ob_conv b) (ob_copies b) q}
        \<union> {q. cleared_row e postal (ob_conv (snd (queue_approved e postal limit b))) (ob_copies (snd (queue_approved e postal limit b))) q}"
proof (cases "py_strip postal = []")
  case False
  let ?b0 = "clear_cancelled b"
  have c0: "ob_conv ?b0 = ob_conv b" "ob_copies ?b0 = ob_copies b" "set (ob_queue ?b0) \<subseteq> set (ob_queue b)"
    by (simp_all add: clear_cancelled_def set_del_where)
  show ?thesis
  proof (cases "enqueue_approved e 0 postal limit b ?b0")
    case (Inl x)
    then show ?thesis using False by (simp add: queue_approved_def)
  next
    case (Inr y)
    then obtain q bl b1 where y: "enqueue_approved e 0 postal limit b ?b0 = Inr ((q, bl), b1)" by (cases y) auto
    note first = enqueue_approved_cleared [OF y c0(1,2)]
    let ?out = "queue_zero\<lparr>qp_queued := q, qp_blocked := bl\<rparr>"
    obtain out b2 where rep: "replenish e postal limit ?out b1 = (out, b2)" by fastforce
    have end_state: "snd (queue_approved e postal limit b) = b2" using False y rep by (simp add: queue_approved_def)
    have "set (ob_queue b2) \<subseteq> set (ob_queue b1) \<union> {q. cleared_row e postal (ob_conv b2) (ob_copies b2) q}"
    proof (cases "REPLENISH_BELOW \<le> approved_count b1 \<or> (case limit of None \<Rightarrow> REPLENISH_BATCH | Some n \<Rightarrow> max (min n REPLENISH_BATCH) 0) = 0")
      case True
      then show ?thesis using rep by (auto simp: replenish_def Let_def)
    next
      case replenishing: False
      define batch where "batch = (case limit of None \<Rightarrow> REPLENISH_BATCH | Some n \<Rightarrow> max (min n REPLENISH_BATCH) 0)"
      obtain p b3 where p: "auto_prepare_campaign e (Some batch) b1 = (p, b3)" by fastforce
      have k: "ob_queue b3 = ob_queue b1" using prepare_keeps [of e "Some batch" b1] by (simp add: p)
      have no: "\<not> (REPLENISH_BELOW \<le> approved_count b1 \<or> batch = 0)" using replenishing unfolding batch_def .
      have rep': "(case p of Inl x \<Rightarrow> (?out\<lparr>qp_error := Some x\<rparr>, b3)
        | Inr p \<Rightarrow> (let out1 = ?out\<lparr>qp_replenished := Some (qf_raw (pr_qualified p), qf_selected (pr_qualified p), im_stored (pr_imported p))\<rparr> in
             case enqueue_approved e 4 postal limit b3 b3 of
               Inl x \<Rightarrow> (out1\<lparr>qp_error := Some x\<rparr>, b3)
             | Inr ((q, bl), b2) \<Rightarrow> (out1\<lparr>qp_queued := qp_queued out1 + q, qp_blocked := qp_blocked out1 + bl\<rparr>, b2))) = (out, b2)"
        using rep no unfolding replenish_def Let_def batch_def [symmetric] p by (cases p) (simp_all add: Let_def)
      show ?thesis
      proof (cases p)
        case (Inl x)
        then have "b2 = b3" using rep' by simp
        then show ?thesis using k by auto
      next
        case (Inr pr)
        show ?thesis
        proof (cases "enqueue_approved e 4 postal limit b3 b3")
          case l: (Inl x)
          then have "b2 = b3" using rep' Inr by (simp add: Let_def)
          then show ?thesis using k by auto
        next
          case r: (Inr z)
          then obtain q4 bl4 b4 where z: "enqueue_approved e 4 postal limit b3 b3 = Inr ((q4, bl4), b4)" by (cases z) auto
          then have "b2 = b4" using rep' Inr by (simp add: Let_def)
          then show ?thesis using enqueue_approved_cleared [OF z refl refl] k by auto
        qed
      qed
    qed
    then show ?thesis using first c0(3) unfolding end_state by blast
  qed
qed (simp add: queue_approved_def)

subsection \<open>A guard that fails\<close>

lemma guard_down_refuses: "\<not> verdict_allows (guard_says (Some ty) c to kind i)"
  using guard_cleared(1) by blast

text \<open>C9. A guard that fails on a lead undoes the rows queued before it in the same step: the transaction falls back to where it
  began, while the count of queued rows that is reported keeps them.\<close>

theorem failing_guard_loses_rows:
  "(if ce_down e ph (cc_company k) = None then True
    else enqueue_rows e ph postal b0 (rows @ [(k, to, name)]) b n
      = (case enqueue_rows e ph postal b0 rows b n of Inl x \<Rightarrow> Inl x | Inr ((q, bl), b') \<Rightarrow> Inr ((q, Suc bl), b0)))"
proof (cases "ce_down e ph (cc_company k)")
  case (Some ty)
  have "enqueue_rows e ph postal b0 (rows @ [(k, to, name)]) b n
      = (case enqueue_rows e ph postal b0 rows b n of Inl x \<Rightarrow> Inl x | Inr ((q, bl), b') \<Rightarrow> Inr ((q, Suc bl), b0))"
  proof (induction rows arbitrary: b n)
    case Nil
    then show ?case using Some guard_down_refuses by (cases n) (simp add: Let_def)
  next
    case (Cons x rows)
    then show ?case by (cases x, cases n) (simp add: Let_def split: sum.split)
  qed
  then show ?thesis by simp
qed simp

subsection \<open>What is stored\<close>

definition checked_copy :: "camp_env \<Rightarrow> pydict list \<Rightarrow> copy_row \<Rightarrow> bool" where
  "checked_copy e leads k \<longleftrightarrow> cc_passed_at k = None
     \<or> (\<exists>l\<in>set leads. cc_company k = lead_company l \<and> cc_evidence k = VDict l
          \<and> (if cc_step k = 0 then qa_copy (ce_cfg e) (cc_subject k) (cc_body k) l = []
             else cc_step k \<in> {1, 2, 3} \<and> qa_followup (ce_cfg e) (cc_subject k) (cc_body k) = []))"

lemma upsert_set: "set (upsert_copy k t) \<subseteq> insert k (set t)"
  by (auto simp: upsert_copy_def Let_def set_upd_where)

lemma copy_problems_none:
  "copy_problems e seen i stp subject body l = [] \<Longrightarrow>
     (if stp = 0 then qa_copy (ce_cfg e) subject body l = [] else qa_followup (ce_cfg e) subject body = [])"
  by (cases "stp = 0") (simp_all add: copy_problems_def)

lemma import_item_checked:
  assumes "import_item e leads item (seen, t, out) = Inr (seen', t', out')"
  shows "set t' \<subseteq> set t \<union> Collect (checked_copy e leads)"
proof -
  obtain d where d: "item = VDict d" using assms by (cases item) (simp_all add: import_item_def)
  let ?i = "item_text e d ''company_id''"
  show ?thesis
  proof (cases "find (\<lambda>l. lead_company l = ?i) leads")
    case None
    then show ?thesis using assms by (simp add: import_item_def d Let_def)
  next
    case (Some l)
    then have l: "l \<in> set leads" "lead_company l = ?i" using find_Some_in by fast+
    obtain stp where stp: "item_step d = Inr stp" using assms by (cases "item_step d") (simp_all add: import_item_def d Let_def Some)
    show ?thesis
    proof (cases "stp \<notin> {0, 1, 2, 3}")
      case True
      then show ?thesis using assms unfolding import_item_def d Let_def prod.case pyv.case Some option.case stp obind_simps by simp
    next
      case False
      define subject where "subject = py_strip (item_text e d ''subject'')"
      define body where "body = py_strip (item_text e d ''body'')"
      define problems where "problems = copy_problems e seen ?i stp subject body l"
      let ?k = "stored_copy (ce_now e 3) ?i stp subject body l problems"
      have t': "t' = upsert_copy ?k t"
        using assms unfolding import_item_def d Let_def prod.case pyv.case Some option.case stp obind_simps
          subject_def [symmetric] body_def [symmetric] problems_def [symmetric] if_not_P [OF False] by simp
      have "checked_copy e leads ?k"
      proof (cases "problems = []")
        case True
        then show ?thesis using copy_problems_none [of e seen ?i stp subject body l] l False
          unfolding checked_copy_def problems_def by (auto simp: stored_copy_def)
      qed (simp add: checked_copy_def stored_copy_def)
      then show ?thesis unfolding t' using upsert_set by fast
    qed
  qed
qed

lemma import_items_checked:
  "import_items e leads xs (seen, t, out) = Inr (seen', t', out') \<Longrightarrow> set t' \<subseteq> set t \<union> Collect (checked_copy e leads)"
proof (induction xs arbitrary: seen t out)
  case (Cons x xs)
  then obtain s1 t1 o1 where one: "import_item e leads x (seen, t, out) = Inr (s1, t1, o1)"
    and "import_items e leads xs (s1, t1, o1) = Inr (seen', t', out')" by (auto simp: obind_eq_Inr)
  then have "set t' \<subseteq> set t1 \<union> Collect (checked_copy e leads)" using Cons.IH by simp
  then show ?case using import_item_checked [OF one] by blast
qed simp

text \<open>Copy passes only by its check: whatever text is imported - of no lead, of a wrong step, a duplicate, no JSON - the rows
  of the copy table are the rows from before, rows that did not pass, and rows of a selected lead, stored with that lead as evidence,
  in which the campaign's check of a first touch, or that of a follow-up for steps 1 to 3, finds no problem.\<close>

theorem imported_copy_checked:
  "set (ob_copies (snd (import_copy e txt b)))
     \<subseteq> set (ob_copies b) \<union> (case selected None b of Inl x \<Rightarrow> {} | Inr leads \<Rightarrow> Collect (checked_copy e leads))"
proof (cases "selected None b")
  case (Inl x)
  then show ?thesis by (simp add: import_copy_def import_records_def)
next
  case (Inr leads)
  show ?thesis
  proof (cases "obind (records_of txt) (\<lambda>items. import_items e leads items (seen_before leads (ob_copies b), ob_copies b, import_zero))")
    case l: (Inl x)
    then show ?thesis by (simp add: import_copy_def import_records_def Inr)
  next
    case r: (Inr y)
    then obtain seen t out where y: "y = (seen, t, out)" by (cases y) auto
    then obtain items where "import_items e leads items (seen_before leads (ob_copies b), ob_copies b, import_zero) = Inr (seen, t, out)"
      using r by (auto simp: obind_eq_Inr)
    from import_items_checked [OF this] show ?thesis using r y by (simp add: import_copy_def import_records_def Inr)
  qed
qed

subsection \<open>What is chosen\<close>

text \<open>A company as the choice leaves it.\<close>

definition chosen_from :: "camp_env \<Rightarrow> outbox \<Rightarrow> company \<Rightarrow> bool" where
  "chosen_from e b r' \<longleftrightarrow> co_outreach r' = ''outreach_ready'' \<and> co_ready_at r' \<noteq> None
     \<and> (\<exists>r\<in>set (cv_companies (ob_conv b)). \<exists>competitor. co_id r' = co_id r \<and> eligible (cp_industries (ce_cfg e)) b r
          \<and> cp_minimum (ce_cfg e) \<le> rs_value (score (ce_shown e) r competitor))"

lemma choose_all_companies:
  assumes "choose_all now mn xs c = Inr c'"
  shows "set (cv_companies c') \<subseteq> set (cv_companies c) \<union> {r'. \<exists>(r, s)\<in>set xs. co_id r' = co_id r \<and> co_outreach r' = ''outreach_ready'' \<and> co_ready_at r' \<noteq> None}"
  using assms
proof (induction xs arbitrary: c)
  case (Cons x xs)
  obtain r s where x: "x = (r, s)" by (cases x)
  then obtain p where p: "jsonb_put (co_personalization r) ''review_campaign'' (score_payload s) = Inr p"
    and go: "choose_all now mn xs (c\<lparr>cv_companies := upd_where (\<lambda>y. co_id y = co_id r) (choose_row now mn s p) (cv_companies c)\<rparr>) = Inr c'"
    using Cons.prems by (auto simp: obind_eq_Inr choose_company_def)
  have "co_outreach (choose_row now mn s p y) = ''outreach_ready''" "co_ready_at (choose_row now mn s p y) \<noteq> None"
    "co_id (choose_row now mn s p y) = co_id y" for y by (simp_all add: choose_row_def)
  then show ?case using Cons.IH [OF go] unfolding x by (fastforce simp: set_upd_where)
qed simp

lemma eligible_row_eligible: "r \<in> set (eligible_rows inds n b) \<Longrightarrow> r \<in> set (cv_companies (ob_conv b)) \<and> eligible inds b r"
  by (auto simp: eligible_rows_def order_by_def dest: in_set_takeD)

lemma chosen_row_strong:
  assumes "(r, s) \<in> set (chosen_rows e limit b peers)"
  shows "cp_minimum (ce_cfg e) \<le> rs_value s" "s = score (ce_shown e) r (competitor_of peers r)"
    "r \<in> set (cv_companies (ob_conv b))" "eligible (cp_industries (ce_cfg e)) b r"
proof -
  have "(r, s) \<in> set (filter (strong e) (scored_rows e peers (eligible_rows (cp_industries (ce_cfg e)) (2 * batch_cap e limit) b)))"
    using assms in_set_takeD unfolding chosen_rows_def by fast
  then have "strong e (r, s)" and m: "(r, s) \<in> (\<lambda>r. (r, score (ce_shown e) r (competitor_of peers r)))
      ` set (eligible_rows (cp_industries (ce_cfg e)) (2 * batch_cap e limit) b)"
    by (simp_all add: scored_rows_def order_by_def)
  then show "cp_minimum (ce_cfg e) \<le> rs_value s" by (simp add: strong_def)
  show "s = score (ce_shown e) r (competitor_of peers r)" using m by blast
  have "r \<in> set (eligible_rows (cp_industries (ce_cfg e)) (2 * batch_cap e limit) b)" using m by blast
  then show "r \<in> set (cv_companies (ob_conv b))" "eligible (cp_industries (ce_cfg e)) b r"
    using eligible_row_eligible by blast+
qed

text \<open>The choice of leads is bounded and earned: at most the cap is chosen, and every company that the call changes was eligible
  - a usable contact, active, never written to, not in flight, without copy that passed - with a score of the configured
  minimum or more; it is ready afterwards, with the time it became so. A call that raises changes nothing.\<close>

theorem choice_bounded:
  "(case fst (qualify e limit b) of Inl x \<Rightarrow> snd (qualify e limit b) = b | Inr out \<Rightarrow> qf_selected out \<le> batch_cap e limit)
   \<and> set (cv_companies (ob_conv (snd (qualify e limit b)))) \<subseteq> set (cv_companies (ob_conv b)) \<union> Collect (chosen_from e b)"
proof (cases "peer_rows (cp_industries (ce_cfg e)) (cities_of (eligible_rows (cp_industries (ce_cfg e)) (2 * batch_cap e limit) b)) b")
  case (Inl x)
  then show ?thesis by (simp add: qualify_def)
next
  case peers: (Inr peers)
  show ?thesis
  proof (cases "choose_all (ce_now e 1) (cp_minimum (ce_cfg e)) (chosen_rows e limit b peers) (ob_conv b)")
    case (Inl x)
    then have "qualify e limit b = (Inl x, b)" unfolding qualify_def Let_def peers obind_simps by simp
    then show ?thesis by simp
  next
    case (Inr c)
    have "set (cv_companies c) \<subseteq> set (cv_companies (ob_conv b)) \<union> Collect (chosen_from e b)"
      using choose_all_companies [OF Inr] chosen_row_strong [of _ _ e limit b peers] unfolding chosen_from_def by blast
    moreover have "length (chosen_rows e limit b peers) \<le> batch_cap e limit" by (simp add: chosen_rows_def)
    moreover have "\<exists>out. qualify e limit b = (Inr out, b\<lparr>ob_conv := c\<rparr>) \<and> qf_selected out = length (chosen_rows e limit b peers)"
      unfolding qualify_def Let_def peers obind_simps Inr by (simp add: qualify_report_def)
    ultimately show ?thesis by auto
  qed
qed

end
