(* ===== verification/OutreachPlan.thy ===== *)
theory OutreachPlan
  imports SenderSystem ReviewSafe
begin

text \<open>
  \<open>src/cloudos/outreach/sender.py\<close>: preparing first touches (\<open>plan\<close>), rewriting rows no send has touched, the counts and the
  audit, and the loop that sends (\<open>run\<close>). The time and the guard of a planning call are those of the first transaction of
  \<open>camp_env\<close>.
\<close>

subsection \<open>Candidates\<close>

definition ready_company :: "company \<Rightarrow> bool" where
  "ready_company r \<longleftrightarrow> (co_outreach r = ''outreach_ready'' \<or> co_outreach r = ''handed_off'') \<and> co_first_contacted r = None \<and> co_active r
     \<and> (co_qualification r = ''HIGH'' \<or> co_qualification r = ''MEDIUM'')"

definition unqueued :: "outbox \<Rightarrow> str \<Rightarrow> bool" where
  "unqueued b i \<longleftrightarrow> \<not> list_ex (\<lambda>q. qr_company q = i) (ob_queue b)"

definition candidate :: "str list option \<Rightarrow> outbox \<Rightarrow> company \<Rightarrow> bool" where
  "candidate inds b r \<longleftrightarrow> usable_contact (ob_conv b) (co_id r) \<noteq> None \<and> ready_company r \<and> unqueued b (co_id r)
     \<and> (case inds of None \<Rightarrow> True | Some xs \<Rightarrow> in_industry xs r)"

definition candidates :: "nat \<Rightarrow> str list option \<Rightarrow> outbox \<Rightarrow> company list" where
  "candidates n inds b = take n
     (order_by (\<lambda>r. (if co_qualification r = ''HIGH'' then 0 else (1 :: int),
                     (case co_ready_at r of None \<Rightarrow> (1 :: int, 0) | Some t \<Rightarrow> (0, t)), co_discovered r))
        (filter (candidate inds b) (cv_companies (ob_conv b))))"

text \<open>All queued first touches, and those on v4 copy.\<close>

definition queued_first :: "qrow \<Rightarrow> bool" where "queued_first q \<longleftrightarrow> qr_state q = Queued \<and> qr_step q = 0"

definition first_touch_counts :: "outbox \<Rightarrow> nat \<times> nat" where
  "first_touch_counts b = (count_where queued_first (ob_queue b), count_where (\<lambda>q. queued_first q \<and> like_v4 (qr_variant q)) (ob_queue b))"

definition trade_key :: "company \<Rightarrow> str option" where
  "trade_key r = map_option (\<lambda>x. py_lower (sql_trim x)) (co_industry r)"

definition suppressed_for :: "conv \<Rightarrow> str \<Rightarrow> str \<Rightarrow> bool" where
  "suppressed_for c to i \<longleftrightarrow> list_ex (\<lambda>s. (case su_email s of Some x \<Rightarrow> norm_email x = norm_email to | None \<Rightarrow> False)
     \<or> (case su_domain s of Some d \<Rightarrow> d \<noteq> [] \<and> d = split_part (CHR ''@'') 2 (py_lower (sql_trim to)) | None \<Rightarrow> False)
     \<or> su_company s = Some i) (cv_suppressions c)"

definition trade_ready :: "str list \<Rightarrow> outbox \<Rightarrow> company \<Rightarrow> bool" where
  "trade_ready inds b r \<longleftrightarrow> ready_company r \<and> (case trade_key r of Some x \<Rightarrow> x \<in> set inds | None \<Rightarrow> False)
     \<and> (case usable_contact (ob_conv b) (co_id r) of Some k \<Rightarrow> \<not> suppressed_for (ob_conv b) (ct_email k) (co_id r) | None \<Rightarrow> False)"

record trades =
  td_ready :: nat
  td_unqueued :: nat
  td_queued_v4 :: nat
  td_by :: "(str \<times> nat \<times> nat) list"

definition trade_counts :: "sender_cfg \<Rightarrow> outbox \<Rightarrow> trades" where
  "trade_counts cfg b =
     (let inds = v4_industries cfg; rows = filter (trade_ready inds b) (cv_companies (ob_conv b));
          of' = (\<lambda>i r. trade_key r = Some i);
          by' = map (\<lambda>i. (i, count_where (of' i) rows, count_where (\<lambda>r. of' i r \<and> unqueued b (co_id r)) rows)) (remdups inds)
      in if inds = [] then \<lparr>td_ready = 0, td_unqueued = 0, td_queued_v4 = 0, td_by = []\<rparr>
         else \<lparr>td_ready = sum_list (map (fst \<circ> snd) by'), td_unqueued = sum_list (map (snd \<circ> snd) by'),
               td_queued_v4 = snd (first_touch_counts b), td_by = by'\<rparr>)"

subsection \<open>Other words for rows no send has touched\<close>

definition COPY_RERENDER_V4 :: str where "COPY_RERENDER_V4 = ''copy_rerender:v4''"

definition company_of :: "outbox \<Rightarrow> qrow \<Rightarrow> company option" where
  "company_of b q = company_row (ob_conv b) (qr_company q)"

definition version_of :: "send_env \<Rightarrow> company \<Rightarrow> copy_version" where
  "version_of e r = copy_arm (sn_h32 e) (sn_cfg e) r"

definition first_mail :: "send_env \<Rightarrow> company \<Rightarrow> copy_version \<Rightarrow> email" where
  "first_mail e r v = first_touch_copy (sn_h32 e) r (sender_name (sn_cfg e) (sn_env e)) (postal_address (sn_env e)) v"

definition mail_problems :: "send_env \<Rightarrow> company \<Rightarrow> email \<Rightarrow> str list" where
  "mail_problems e r m = qa m (postal_address (sn_env e)) (co_name r)"

text \<open>A row no send has touched, with generated copy, of a company that is there.\<close>

definition generated :: "outbox \<Rightarrow> qrow \<Rightarrow> bool" where
  "generated b q \<longleftrightarrow> untouched q \<and> qr_step q = 0 \<and> qr_campaign q = ''legacy'' \<and> qr_source q = ''python-generated''
     \<and> company_of b q \<noteq> None"

definition old_trade_copy :: "sender_cfg \<Rightarrow> outbox \<Rightarrow> qrow \<Rightarrow> bool" where
  "old_trade_copy cfg b q \<longleftrightarrow> generated b q \<and> \<not> like_v4 (qr_variant q)
     \<and> (case company_of b q of Some r \<Rightarrow> co_first_contacted r = None
          \<and> (case trade_key r of Some x \<Rightarrow> x \<in> set (v4_industries cfg) | None \<Rightarrow> False) | None \<Rightarrow> False)
     \<and> \<not> list_ex (\<lambda>x. qr_company x = qr_company q \<and> (qr_state x = Sent \<or> qr_state x = Ambiguous \<or> qr_state x = Claimed)) (ob_queue b)
     \<and> \<not> list_ex (\<lambda>m. mg_company m = Some (qr_company q) \<and> \<not> mg_inbound m) (cv_messages (ob_conv b))"

text \<open>Rewriting the rows \<open>p\<close>: the row's mail in the version of its company, and how many passed and failed.\<close>

definition row_version :: "send_env \<Rightarrow> outbox \<Rightarrow> qrow \<Rightarrow> copy_version" where
  "row_version e b q = (case company_of b q of Some r \<Rightarrow> version_of e r | None \<Rightarrow> V2)"

definition row_mail :: "send_env \<Rightarrow> outbox \<Rightarrow> qrow \<Rightarrow> email" where
  "row_mail e b q = (case company_of b q of Some r \<Rightarrow> first_mail e r (row_version e b q) | None \<Rightarrow> row_email q)"

definition row_problems :: "send_env \<Rightarrow> outbox \<Rightarrow> qrow \<Rightarrow> str list" where
  "row_problems e b q = (case company_of b q of Some r \<Rightarrow> mail_problems e r (row_mail e b q) | None \<Rightarrow> [])"

definition rewrite_rows :: "send_env \<Rightarrow> (qrow \<Rightarrow> bool) \<Rightarrow> outbox \<Rightarrow> (nat \<times> nat) \<times> outbox" where
  "rewrite_rows e p b =
     ((count_where (\<lambda>q. p q \<and> row_problems e b q = []) (ob_queue b), count_where (\<lambda>q. p q \<and> row_problems e b q \<noteq> []) (ob_queue b)),
      map_queue (upd_where p (\<lambda>q. reword (row_mail e b q) (row_problems e b q) q)) b)"

datatype rerendered = V4_off | Already_done | No_postal | Rerendered nat nat

definition rerender_queued_v4 :: "send_env \<Rightarrow> outbox \<Rightarrow> rerendered \<times> outbox" where
  "rerender_queued_v4 e b =
     (let cfg = sn_cfg e in
      if sc_v4_share cfg \<le> 0 \<or> v4_industries cfg = [] then (V4_off, b)
      else if map_of (ob_keys b) COPY_RERENDER_V4 \<noteq> None then (Already_done, b)
      else if postal_address (sn_env e) = [] then (No_postal, b)
      else (case rewrite_rows e (\<lambda>q. old_trade_copy cfg b q \<and> row_version e b q = V4) b of
              ((n, m), b1) \<Rightarrow> (Rerendered n m, b1\<lparr>ob_keys := ob_keys b1 @ [(COPY_RERENDER_V4,
                 VDict [(''version'', VStr (version_value V4)), (''rewritten'', VInt (int n)), (''qa_failed'', VInt (int m))])]\<rparr>)))"

definition older_words :: "send_env \<Rightarrow> outbox \<Rightarrow> qrow \<Rightarrow> bool" where
  "older_words e b q \<longleftrightarrow> generated b q \<and> \<not> startswith (text_opt (qr_variant q)) (version_value (row_version e b q) @ ''-'')"

definition refresh_queued :: "send_env \<Rightarrow> outbox \<Rightarrow> (nat \<times> nat) \<times> outbox" where
  "refresh_queued e b = (if postal_address (sn_env e) = [] then ((0, 0), b) else rewrite_rows e (older_words e b) b)"

subsection \<open>Planning\<close>

record plan_out =
  pn_queued :: nat
  pn_blocked :: "(str \<times> nat) list"
  pn_qa_failed :: nat
  pn_waiting :: nat
  pn_v4_waiting :: nat
  pn_trades :: trades
  pn_rerender :: rerendered
  pn_refreshed :: "nat \<times> nat"
  pn_stopped :: bool

definition bump :: "(str \<times> nat) list \<Rightarrow> str \<Rightarrow> (str \<times> nat) list" where
  "bump d k = dput d k (case map_of d k of Some n \<Rightarrow> Suc n | None \<Rightarrow> 1)"

definition block_key :: "str list \<Rightarrow> str" where
  "block_key rs = (if list_ex (\<lambda>x. x \<in> set SUPPRESSED) rs then ''suppressed''
     else if ''already_contacted'' \<in> set rs then ''already_contacted'' else hd (order_by id rs))"

definition reject_company :: "str \<Rightarrow> conv \<Rightarrow> conv" where
  "reject_company i c = c\<lparr>cv_companies := upd_where (\<lambda>r. co_id r = i)
     (\<lambda>r. r\<lparr>co_outreach := ''rejected'', co_qual_reason := Some SAME_BUSINESS\<rparr>) (cv_companies c)\<rparr>"

text \<open>One candidate: \<open>Inl\<close> a guard that failed, which ends the planning; else what became of the company.\<close>

datatype planned = Blocked str | Duplicate | Written bool

definition plan_row :: "camp_env \<Rightarrow> company \<times> str \<Rightarrow> outbox \<Rightarrow> (unit + planned) \<times> outbox" where
  "plan_row e x b =
     (case x of (r, to) \<Rightarrow>
        let se = ce_send e; i = co_id r; d = guard_says (ce_down e 0 i) (ob_conv b) to ''cold'' i; rs = verdict_reasons d in
        if \<not> verdict_allows d then
          (if ''guard_error'' \<in> set rs then (Inl (), b)
           else (Inr (Blocked (block_key rs)),
                 if block_key rs = ''suppressed'' then map_conv (mark_ready_company i ''do_not_contact'') b
                 else if block_key rs = ''already_contacted'' then map_conv (mark_ready_company i ''contacted'') b else b))
        else if duplicate_in_queue b to i None then (Inr Duplicate, map_conv (reject_company i) b)
        else (let m = first_mail se r (version_of se r); ps = mail_problems se r m in
              case insert_row (new_row i 0 to m ps (ce_now e 0)) b of
                Inl y \<Rightarrow> (Inl (), b)
              | Inr b1 \<Rightarrow> (Inr (Written (ps = [])), b1)))"

text \<open>The loop; \<open>v4_on\<close> is the separate budget, the counters are what was added to each budget.\<close>

fun plan_rows ::
  "camp_env \<Rightarrow> bool \<Rightarrow> int \<times> int \<Rightarrow> (company \<times> str) list \<Rightarrow> int \<times> int \<Rightarrow> plan_out \<Rightarrow> outbox \<Rightarrow> plan_out \<times> outbox" where
  "plan_rows e v4_on slots [] added out b = (out, b)"
| "plan_rows e v4_on (other, v4) (x # xs) (n, n4) out b =
     (let use4 = (v4_on \<and> version_of (ce_send e) (fst x) = V4) in
      if v4 \<le> n4 \<and> other \<le> n then (out, b)
      else if (if use4 then v4 \<le> n4 else other \<le> n) then plan_rows e v4_on (other, v4) xs (n, n4) out b
      else (case plan_row e x b of
          (Inl u, b1) \<Rightarrow> (out\<lparr>pn_blocked := bump (pn_blocked out) ''guard_error''\<rparr>, b1)
        | (Inr (Blocked k), b1) \<Rightarrow> plan_rows e v4_on (other, v4) xs (n, n4) (out\<lparr>pn_blocked := bump (pn_blocked out) k\<rparr>) b1
        | (Inr Duplicate, b1) \<Rightarrow>
            plan_rows e v4_on (other, v4) xs (n, n4) (out\<lparr>pn_blocked := bump (pn_blocked out) ''duplicate_business''\<rparr>) b1
        | (Inr (Written ok), b1) \<Rightarrow>
            if ok then plan_rows e v4_on (other, v4) xs (if use4 then (n, n4 + 1) else (n + 1, n4)) (out\<lparr>pn_queued := pn_queued out + 1\<rparr>) b1
            else plan_rows e v4_on (other, v4) xs (n, n4) (out\<lparr>pn_qa_failed := pn_qa_failed out + 1\<rparr>) b1))"

datatype plan_result = Campaign queue_out | Legacy plan_out

definition plan_legacy :: "camp_env \<Rightarrow> int option \<Rightarrow> outbox \<Rightarrow> plan_out \<times> outbox" where
  "plan_legacy e limit b =
     (let se = ce_send e; cfg = sn_cfg se in
      case rerender_queued_v4 se b of (mg, b1) \<Rightarrow> (case refresh_queued se b1 of (rf, b2) \<Rightarrow> (case first_touch_counts b2 of (have', have4) \<Rightarrow>
        let slots = plan_slots cfg (int have') (int have4) limit;
            out = \<lparr>pn_queued = 0, pn_blocked = [], pn_qa_failed = 0, pn_waiting = have', pn_v4_waiting = have4,
                   pn_trades = trade_counts cfg b2, pn_rerender = mg, pn_refreshed = rf, pn_stopped = False\<rparr>
        in if fst slots = 0 \<and> snd slots = 0 then (out, b2)
           else if postal_address (sn_env se) = [] then (out\<lparr>pn_stopped := True\<rparr>, b2)
           else plan_rows e (limit = None \<and> 0 < sc_v4_queue_ahead cfg) slots
                  (map (\<lambda>r. (r, py_lower (py_strip (contact_text (ob_conv b2) r))))
                     (candidates (nat ((fst slots + snd slots) * 2)) (industry_limit cfg) b2)) (0, 0) out b2)))"

definition plan :: "camp_env \<Rightarrow> int option \<Rightarrow> outbox \<Rightarrow> (str + plan_result) \<times> outbox" where
  "plan e limit b =
     (if sc_campaign (sn_cfg (ce_send e)) = Some REVIEWS
      then (case queue_approved e (postal_address (sn_env (ce_send e))) limit b of
              (Inl x, b1) \<Rightarrow> (Inl x, b1) | (Inr out, b1) \<Rightarrow> (Inr (Campaign out), b1))
      else (case plan_legacy e limit b of (out, b1) \<Rightarrow> (Inr (Legacy out), b1)))"

end
