(* ===== verification/OutreachRun.thy ===== *)
theory OutreachRun
  imports OutreachPlan
begin

text \<open>
  \<open>src/cloudos/outreach/sender.py\<close>: the audit of the queue and \<open>run\<close>, the loop that sends. A run meets a list of laps, one per
  round of the loop; when they are used up the time of the run is over. A lap is what one round meets: the clock of the worker, rows
  other transactions hold, what the send meets (\<open>turn\<close>), and whether the pause after a send still fits.
\<close>

subsection \<open>The audit\<close>

record audit_out =
  ad_audited :: nat
  ad_passing :: nat
  ad_failing :: nat
  ad_failures :: "(str \<times> nat) list"
  ad_guard :: "(str \<times> nat) list"
  ad_qa :: "(str \<times> nat) list"
  ad_postal :: bool

definition AUDIT_LABEL :: rx where "AUDIT_LABEL = rx plain_flags ''[a-z_]+''"

definition refusal_name :: "send_refusal \<Rightarrow> str" where
  "refusal_name r = (case r of R_guard_error \<Rightarrow> ''guard_error'' | R_guard rs \<Rightarrow> ''guard'' | R_duplicate \<Rightarrow> ''duplicate_business'' | R_qa ps \<Rightarrow> ''qa'')"

definition still_usable :: "outbox \<Rightarrow> qrow \<Rightarrow> bool" where
  "still_usable b q \<longleftrightarrow> list_ex (\<lambda>k. ct_company k = qr_company q \<and> py_lower (sql_trim (ct_email k)) = qr_recipient q
     \<and> (ct_status k = ''validated'' \<or> ct_status k = ''published'')) (cv_contacts (ob_conv b))"

text \<open>\<open>None\<close> passes; \<open>Some None\<close> is a contact that may no longer be written to.\<close>

definition audit_refusal :: "send_env \<Rightarrow> str option \<Rightarrow> outbox \<Rightarrow> qrow \<Rightarrow> send_refusal option option" where
  "audit_refusal e down b q =
     (let r = refuse_row e down q b in
      if (case r of None \<Rightarrow> True | Some x \<Rightarrow> refusal_name x = ''duplicate_business'' \<or> refusal_name x = ''qa'') \<and> \<not> still_usable b q
      then Some None else map_option Some r)"

definition qa_label :: "str \<Rightarrow> str" where "qa_label p = hd (rx_split (rx plain_flags '' ~('') p)"

definition bump_all :: "str list \<Rightarrow> (str \<times> nat) list \<Rightarrow> (str \<times> nat) list" where
  "bump_all ks d = fold (\<lambda>k d. bump d k) ks d"

definition audit_row :: "send_env \<Rightarrow> (str \<Rightarrow> str option) \<Rightarrow> outbox \<Rightarrow> qrow \<Rightarrow> audit_out \<Rightarrow> audit_out" where
  "audit_row e down b q out =
     (let out1 = out\<lparr>ad_audited := ad_audited out + 1\<rparr> in
      case audit_refusal e (down (qr_company q)) b q of
        None \<Rightarrow> out1\<lparr>ad_passing := ad_passing out + 1\<rparr>
      | Some f \<Rightarrow>
          (let out2 = out1\<lparr>ad_failing := ad_failing out + 1,
                 ad_failures := bump (ad_failures out) (case f of None \<Rightarrow> ''contact_not_eligible'' | Some r \<Rightarrow> refusal_name r)\<rparr>
           in case f of
                Some (R_guard rs) \<Rightarrow> out2\<lparr>ad_guard := bump_all (map (\<lambda>x. if rx_fullmatch AUDIT_LABEL x then x else ''other'') rs) (ad_guard out)\<rparr>
              | Some (R_qa ps) \<Rightarrow> out2\<lparr>ad_qa := bump_all (map qa_label ps) (ad_qa out)\<rparr>
              | _ \<Rightarrow> out2))"

definition audit_queue :: "send_env \<Rightarrow> (str \<Rightarrow> str option) \<Rightarrow> outbox \<Rightarrow> audit_out" where
  "audit_queue e down b =
     fold (audit_row e down b) (order_by qr_id (filter queued_first (ob_queue b)))
       \<lparr>ad_audited = 0, ad_passing = 0, ad_failing = 0, ad_failures = [], ad_guard = [], ad_qa = [],
        ad_postal = (postal_address (sn_env e) \<noteq> [])\<rparr>"

subsection \<open>The run\<close>

record lap =
  lp_now :: time
  lp_locked :: "int list"
  lp_turn :: turn
  lp_pause :: bool

datatype stopped = Ran_out | Cycle_limit | Daily_cap | Window_closed | Nothing_due | Auth_failed | Limit_reached | Bad_run

record run_out =
  rn_sent :: nat
  rn_cancelled :: nat
  rn_failed :: nat
  rn_retry :: nat
  rn_ambiguous :: nat
  rn_throttled :: nat
  rn_cap :: int
  rn_before :: nat
  rn_in_window :: bool
  rn_stop :: stopped

definition count_outcome :: "send_outcome \<Rightarrow> run_out \<Rightarrow> run_out" where
  "count_outcome o' out =
     (case o' of O_sent \<Rightarrow> out\<lparr>rn_sent := rn_sent out + 1\<rparr> | O_cancelled \<Rightarrow> out\<lparr>rn_cancelled := rn_cancelled out + 1\<rparr>
      | O_failed \<Rightarrow> out\<lparr>rn_failed := rn_failed out + 1\<rparr> | O_retry \<Rightarrow> out\<lparr>rn_retry := rn_retry out + 1\<rparr>
      | O_ambiguous \<Rightarrow> out\<lparr>rn_ambiguous := rn_ambiguous out + 1\<rparr> | O_throttled \<Rightarrow> out\<lparr>rn_throttled := rn_throttled out + 1\<rparr>
      | O_auth \<Rightarrow> out)"

definition bad_after :: "send_outcome \<Rightarrow> nat \<Rightarrow> nat" where
  "bad_after o' n = (if o' = O_failed \<or> o' = O_retry then Suc n else 0)"

fun send_loop ::
  "send_env \<Rightarrow> str \<Rightarrow> str \<Rightarrow> bool \<Rightarrow> lap list \<Rightarrow> nat \<Rightarrow> run_out \<Rightarrow> mailbox \<Rightarrow> outbox \<Rightarrow> (send_exn + run_out) \<times> mailbox \<times> outbox" where
  "send_loop e who from_email followups [] bad out mb b = (Inr (out\<lparr>rn_stop := Ran_out\<rparr>), mb, b)"
| "send_loop e who from_email followups (l # ls) bad out mb b =
     (let t = lp_turn l; cycle = (case sc_cycle_limit (sn_cfg e) of Some n \<Rightarrow> n | None \<Rightarrow> 30) in
      if cycle \<le> int (rn_sent out) then (Inr (out\<lparr>rn_stop := Cycle_limit\<rparr>), mb, b)
      else if rn_cap out \<le> int (sent_last_24h (tn_now t) b) then (Inr (out\<lparr>rn_stop := Daily_cap\<rparr>), mb, b)
      else if \<not> in_window (sn_zone e) (sn_cfg e) (lp_now l) then (Inr (out\<lparr>rn_stop := Window_closed\<rparr>), mb, b)
      else (case claim (tn_now t) who followups (lp_locked l) b of
          (None, b1) \<Rightarrow> (Inr (out\<lparr>rn_stop := Nothing_due\<rparr>), mb, b1)
        | (Some q, b1) \<Rightarrow> (case send_item e t from_email q mb b1 of
            (Inl x, mb2, b2) \<Rightarrow> (Inl x, mb2, b2)
          | (Inr o', mb2, b2) \<Rightarrow>
              (let out1 = count_outcome o' out; bad1 = bad_after o' bad in
               if o' = O_auth then (Inr (out\<lparr>rn_stop := Auth_failed\<rparr>), mb2, b2)
               else if o' = O_throttled then (Inr (out1\<lparr>rn_stop := Limit_reached\<rparr>), mb2, b2)
               else if 3 \<le> bad1 then (Inr (out1\<lparr>rn_stop := Bad_run\<rparr>), mb2, b2)
               else if o' = O_sent \<and> \<not> lp_pause l then (Inr (out1\<lparr>rn_stop := Ran_out\<rparr>), mb2, b2)
               else send_loop e who from_email followups ls bad1 out1 mb2 b2))))"

definition run_start :: "send_env \<Rightarrow> time \<Rightarrow> time \<Rightarrow> outbox \<Rightarrow> run_out" where
  "run_start e db_now now b =
     \<lparr>rn_sent = 0, rn_cancelled = 0, rn_failed = 0, rn_retry = 0, rn_ambiguous = 0, rn_throttled = 0,
      rn_cap = daily_cap (sn_cfg e) (sn_env e), rn_before = sent_last_24h db_now b,
      rn_in_window = in_window (sn_zone e) (sn_cfg e) now, rn_stop = Window_closed\<rparr>"

definition run :: "send_env \<Rightarrow> str \<Rightarrow> str \<Rightarrow> bool \<Rightarrow> time \<Rightarrow> time \<Rightarrow> lap list \<Rightarrow> mailbox \<Rightarrow> outbox \<Rightarrow> (send_exn + run_out) \<times> mailbox \<times> outbox" where
  "run e who from_email followups db_now now laps mb b =
     (let out = run_start e db_now now b in
      if rn_in_window out then send_loop e who from_email followups laps 0 out mb b else (Inr out, mb, b))"

subsection \<open>A call as steps\<close>

text \<open>What a turn is relied on for: the server's answers are honest, the generated Message-ID is not empty, and when the outcome
  is unknown a copy in the Sent folder means that the server took the message.\<close>

definition turn_law :: "str \<Rightarrow> turn \<Rightarrow> bool" where
  "turn_law from_email t \<longleftrightarrow> smtp_law (tn_server t) \<and> new_message_id (tn_make t) from_email \<noteq> []
     \<and> (\<forall>conn. sr_kind (fst (mail_send (tn_server t) conn)) = K_unknown \<and> in_sent (tn_look t) = Some True \<longrightarrow> delivers (tn_server t) conn)"

lemma after_send_no_look:
  assumes "sr_ok res \<or> sr_kind res \<noteq> K_unknown"
  shows "after_send e (t\<lparr>tn_look := l\<rparr>) from_email q h res b = after_send e t from_email q h res b"
  using assms by (auto simp: after_send_def after_failure_def split: send_kind.split)

lemma given_not_empty: "given x = Some h \<Longrightarrow> h \<noteq> []"
  by (auto simp: given_def split: option.splits if_splits)

lemma sent_law_raised [simp]: "sent_law d h Look_raised"
  by (simp add: sent_law_def)

lemma settle_turn:
  assumes "turn_law from_email t" and send: "mail_send (tn_server t) conn = (res, conn')"
    and "h \<in> (\<lambda>(i, stp, m). m) ` set d \<or> \<not> delivers (tn_server t) conn"
  shows "\<exists>t'. sent_law d h (tn_look t') \<and> (\<forall>q b. after_send e t' from_email q h res b = after_send e t from_email q h res b)"
proof (cases "\<not> sr_ok res \<and> sr_kind res = K_unknown")
  case True
  then have "in_sent (tn_look t) = Some True \<longrightarrow> delivers (tn_server t) conn"
    using assms(1) send unfolding turn_law_def by (metis fst_conv)
  then have "sent_law d h (tn_look t)" using assms(3) unfolding sent_law_def by blast
  then show ?thesis by blast
next
  case False
  then show ?thesis using after_send_no_look [where t = t and l = Look_raised] by (intro exI [of _ "t\<lparr>tn_look := Look_raised\<rparr>"]) simp
qed

definition mail_cost :: "send_exn + send_outcome \<Rightarrow> nat" where
  "mail_cost r = (case r of Inl x \<Rightarrow> 1 | Inr o' \<Rightarrow> if o' = O_sent \<or> o' = O_ambiguous then 1 else 0)"

text \<open>Where a call leaves the system: the tables, its worker free or dead, the others as they were; and the mails taken are, mail
  by mail, those the servers behind the call's own mailbox took.\<close>

definition left_by :: "nat \<Rightarrow> sys \<Rightarrow> send_exn + 'a \<Rightarrow> mailbox \<Rightarrow> outbox \<Rightarrow> sys \<Rightarrow> bool" where
  "left_by w s r mb b s' \<longleftrightarrow> sy_box s' = b \<and> sy_at s' = (sy_at s)(w := (case r of Inl x \<Rightarrow> Dead | Inr x \<Rightarrow> Idle))
     \<and> sy_sent s' = mb_took mb"

text \<open>One call takes at most one mail: none without an outcome that may mean one, and one when the row is sent.\<close>

definition took_mail :: "send_exn + send_outcome \<Rightarrow> mailbox \<Rightarrow> mailbox \<Rightarrow> bool" where
  "took_mail r mb mb' \<longleftrightarrow> length (mb_took mb') \<le> length (mb_took mb) + mail_cost r
     \<and> length (mb_took mb) + (if r = Inr O_sent then 1 else 0) \<le> length (mb_took mb')"

lemma after_send_cost:
  assumes "after_send e t from_email q h res b = (r, b')" and "sr_ok res \<or> sr_kind res = K_unknown"
  shows "mail_cost r = 1"
  using assms by (auto simp: after_send_def after_failure_def mail_cost_def keep_def split: if_splits sum.splits)

lemma after_send_sent:
  assumes "after_send e t from_email q h res b = (Inr O_sent, b')"
  shows "sr_ok res \<or> sr_kind res = K_unknown \<and> in_sent (tn_look t) = Some True"
  using assms by (auto simp: after_send_def after_failure_def keep_def Let_def split: if_splits sum.splits send_kind.splits)

lemma file_copy_took [simp]: "mb_took (file_copy t mb) = mb_took mb"
  by (simp add: file_copy_def)

lemma hand_mail_took:
  assumes "turn_law from_email t" and send: "mail_send (tn_server t) (mb_conn mb) = (res, conn)"
    and "hand_mail t q h mb = (res', mb')" and aft: "after_send e t from_email q h res b = (r, b')"
  shows "took_mail r mb mb'"
proof -
  let ?took = "delivers (tn_server t) (mb_conn mb)"
  have mb': "mb_took mb' = mb_took mb @ (if ?took then [(qr_company q, qr_step q, h)] else [])"
    using assms(3) send by (auto simp: hand_mail_def)
  have law: "smtp_law (tn_server t)" using assms(1) by (simp add: turn_law_def)
  have "?took \<Longrightarrow> mail_cost r = 1"
    using mail_send_honest [OF law, of "mb_conn mb"] send after_send_cost [OF aft] by auto
  moreover have "?took" if "r = Inr O_sent"
    using after_send_sent [OF aft [unfolded that]] mail_send_honest [OF law, of "mb_conn mb"] send assms(1)
    unfolding turn_law_def by (metis fst_conv)
  ultimately show ?thesis unfolding took_mail_def mb' by auto
qed

lemma send_item_steps:
  assumes w: "sy_at s w = Holding q" and law: "turn_law from_email t" and same: "sy_sent s = mb_took mb"
    and call: "send_item e t from_email q mb (sy_box s) = (r, mb', b')"
  shows "\<exists>s'. (sender_step e from_email)\<^sup>*\<^sup>* s s' \<and> left_by w s r mb' b' s' \<and> took_mail r mb mb'"
proof (cases "refuse_row e (tn_down t) q (sy_box s)")
  case (Some rf)
  obtain x b1 where a: "after_refusal t q rf (sy_box s) = (x, b1)" by fastforce
  then have r: "r = Inr x" "b' = b1" "mb' = mb" using call Some by (simp_all add: send_item_def)
  have "x \<noteq> O_sent" using a by (auto simp: after_refusal_def split: if_splits)
  then have "left_by w s r mb' b' (s\<lparr>sy_box := b1, sy_at := (sy_at s)(w := Idle)\<rparr>)" "took_mail r mb mb'"
    using same by (simp_all add: left_by_def took_mail_def r)
  then show ?thesis using s_refuse [OF w Some a] by blast
next
  case None
  show ?thesis
  proof (cases "save_id t from_email q (sy_box s)")
    case (Inl x)
    then have r: "r = Inl x" "b' = sy_box s" "mb' = mb" using call None by (simp_all add: send_item_def)
    have "left_by w s r mb' b' (s\<lparr>sy_at := (sy_at s)(w := Dead)\<rparr>)" "took_mail r mb mb'"
      using same by (simp_all add: left_by_def took_mail_def r)
    then show ?thesis using s_crash by blast
  next
    case (Inr y)
    then obtain h b1 where saved: "save_id t from_email q (sy_box s) = Inr (h, b1)" by (cases y) auto
    have h: "h \<noteq> []"
      using saved law given_not_empty by (auto simp: save_id_def turn_law_def Let_def split: option.splits if_splits)
    obtain res conn where send: "mail_send (tn_server t) (mb_conn mb) = (res, conn)" by fastforce
    obtain mb1 where hand: "hand_mail t q h mb = (res, mb1)" using send by (simp add: hand_mail_def)
    obtain r2 b2 where aft: "after_send e t from_email q h res b1 = (r2, b2)" by fastforce
    have r: "r = r2" "b' = b2" "mb_took mb' = mb_took mb1" using call None saved hand aft by (auto simp: send_item_def)
    have log: "mb_took mb1 = mb_took mb @ (if delivers (tn_server t) (mb_conn mb) then [(qr_company q, qr_step q, h)] else [])"
      using hand send by (auto simp: hand_mail_def)
    let ?s1 = "s\<lparr>sy_box := b1, sy_at := (sy_at s)(w := Marked q h)\<rparr>"
    let ?took = "delivers (tn_server t) (mb_conn mb)"
    let ?s2 = "?s1\<lparr>sy_at := (sy_at ?s1)(w := Handed q h res),
        sy_sent := (if ?took then sy_sent ?s1 @ [(qr_company q, qr_step q, h)] else sy_sent ?s1)\<rparr>"
    have one: "sender_step e from_email s ?s1" by (rule s_save [OF w None saved h])
    have two: "sender_step e from_email ?s1 ?s2" by (rule s_hand [OF _ _ send]) (use law in \<open>simp_all add: turn_law_def\<close>)
    have "h \<in> (\<lambda>(i, stp, m). m) ` set (sy_sent ?s2) \<or> \<not> ?took" by simp
    then obtain t' where t': "sent_law (sy_sent ?s2) h (tn_look t')" "\<And>q b. after_send e t' from_email q h res b = after_send e t from_email q h res b"
      using settle_turn [OF law send] by blast
    let ?s3 = "?s2\<lparr>sy_box := b2, sy_at := (sy_at ?s2)(w := (case r2 of Inl x \<Rightarrow> Dead | Inr x \<Rightarrow> Idle))\<rparr>"
    have "after_send e t' from_email q h res (sy_box ?s2) = (r2, b2)" using trans [OF t'(2) aft] by simp
    then have three: "sender_step e from_email ?s2 ?s3" by (intro s_settle [OF _ t'(1)]) simp_all
    have "left_by w s r mb' b' ?s3" using log same by (simp add: left_by_def r)
    moreover have "took_mail r mb mb'" using hand_mail_took [OF law send hand aft] by (simp add: took_mail_def r)
    moreover have "(sender_step e from_email)\<^sup>*\<^sup>* s ?s3"
      using one two three by (meson rtranclp.rtrancl_into_rtrancl rtranclp.rtrancl_refl)
    ultimately show ?thesis by blast
  qed
qed

text \<open>The mails a loop's outcome accounts for.\<close>

definition accounted :: "run_out \<Rightarrow> nat" where "accounted out = rn_sent out + rn_ambiguous out"

lemma accounted_simps [simp]:
  "accounted (out\<lparr>rn_stop := x\<rparr>) = accounted out" "mail_cost (Inr O_auth) = 0"
  by (simp_all add: accounted_def mail_cost_def)

lemma accounted_outcome [simp]: "o' \<noteq> O_auth \<Longrightarrow> accounted (count_outcome o' out) = accounted out + mail_cost (Inr o')"
  by (cases o') (simp_all add: accounted_def count_outcome_def mail_cost_def)

text \<open>The mails a loop takes, against what it counts.\<close>

definition growth :: "send_exn + run_out \<Rightarrow> run_out \<Rightarrow> nat \<Rightarrow> mailbox \<Rightarrow> mailbox \<Rightarrow> bool" where
  "growth r out n mb mb' \<longleftrightarrow> (case r of
       Inl x \<Rightarrow> length (mb_took mb') \<le> length (mb_took mb) + n
     | Inr out' \<Rightarrow> length (mb_took mb') + accounted out \<le> length (mb_took mb) + accounted out'
         \<and> length (mb_took mb) + rn_sent out' \<le> length (mb_took mb') + rn_sent out)"

lemma sent_outcome [simp]: "rn_sent (count_outcome o' out) = rn_sent out + (if o' = O_sent then 1 else 0)"
  by (cases o') (simp_all add: count_outcome_def)

lemma mail_cost_le: "mail_cost r \<le> 1"
  by (simp add: mail_cost_def split: sum.split)

lemma growth_first: "took_mail r1 mb mb1 \<Longrightarrow> r1 = Inr o' \<Longrightarrow> o' \<noteq> O_auth \<Longrightarrow> growth r (count_outcome o' out) n mb1 mb' \<Longrightarrow> growth r out (Suc n) mb mb'"
  using mail_cost_le [of r1] unfolding growth_def took_mail_def by (auto split: sum.splits if_splits)

lemma run_loop_steps:
  assumes "sy_at s w = Idle" and "\<And>l. l \<in> set laps \<Longrightarrow> turn_law from_email (lp_turn l)" and "sy_sent s = mb_took mb"
    and "send_loop e who from_email followups laps bad out mb (sy_box s) = (r, mb', b')"
  shows "\<exists>s'. (sender_step e from_email)\<^sup>*\<^sup>* s s' \<and> left_by w s r mb' b' s' \<and> growth r out (length laps) mb mb'"
  using assms
proof (induction laps arbitrary: s bad out mb)
  case Nil
  then show ?case by (intro exI [of _ s]) (auto simp: growth_def left_by_def)
next
  case (Cons l ls)
  let ?t = "lp_turn l"
  let ?cycle = "case sc_cycle_limit (sn_cfg e) of Some n \<Rightarrow> n | None \<Rightarrow> 30"
  let ?goal = "\<exists>s'. (sender_step e from_email)\<^sup>*\<^sup>* s s' \<and> left_by w s r mb' b' s' \<and> growth r out (length (l # ls)) mb mb'"
  have stay: ?goal if "r = Inr (out\<lparr>rn_stop := x\<rparr>)" "b' = sy_box s" "mb' = mb" for x
    using that Cons.prems(1,3) by (intro exI [of _ s]) (auto simp: growth_def left_by_def)
  show ?case
  proof (cases "?cycle \<le> int (rn_sent out) \<or> rn_cap out \<le> int (sent_last_24h (tn_now ?t) (sy_box s))
      \<or> \<not> in_window (sn_zone e) (sn_cfg e) (lp_now l)")
    case True
    then have "\<exists>x. r = Inr (out\<lparr>rn_stop := x\<rparr>) \<and> b' = sy_box s \<and> mb' = mb" using Cons.prems(4) by (auto simp: Let_def split: if_splits)
    then show ?thesis using stay by blast
  next
    case go: False
    obtain c b1 where claimed: "claim (tn_now ?t) who followups (lp_locked l) (sy_box s) = (c, b1)" by fastforce
    show ?thesis
    proof (cases c)
      case None
      then have "b1 = sy_box s" using claimed by (auto simp: claim_def split: option.splits)
      then have "r = Inr (out\<lparr>rn_stop := Nothing_due\<rparr>)" "b' = sy_box s" "mb' = mb" using Cons.prems(4) go claimed None by (auto simp: Let_def)
      then show ?thesis using stay by blast
    next
      case (Some q)
      let ?s1 = "s\<lparr>sy_box := b1, sy_at := (sy_at s)(w := Holding q)\<rparr>"
      have one: "sender_step e from_email s ?s1" by (rule s_claim [OF Cons.prems(1)]) (use claimed Some in simp)
      obtain r1 mb1 b2 where call: "send_item e ?t from_email q mb b1 = (r1, mb1, b2)" by (metis prod_cases3)
      have tl: "turn_law from_email ?t" using Cons.prems(2) by simp
      obtain s2 where s2: "(sender_step e from_email)\<^sup>*\<^sup>* ?s1 s2" "left_by w ?s1 r1 mb1 b2 s2" and took: "took_mail r1 mb mb1"
        using send_item_steps [where s = ?s1 and w = w and mb = mb, OF _ tl] call Cons.prems(3) by fastforce
      have path: "(sender_step e from_email)\<^sup>*\<^sup>* s s2" using one s2(1) by (rule converse_rtranclp_into_rtranclp)
      have at2: "sy_box s2 = b2" "sy_at s2 = (sy_at s)(w := (case r1 of Inl x \<Rightarrow> Dead | Inr x \<Rightarrow> Idle))" "sy_sent s2 = mb_took mb1"
        using s2(2) by (simp_all add: left_by_def)
      show ?thesis
      proof (cases r1)
        case (Inl x)
        then have "r = Inl x" "b' = b2" "mb' = mb1" using Cons.prems(4) go claimed Some call by (auto simp: Let_def)
        then show ?thesis using path at2 Inl took mail_cost_le [of r1] by (intro exI [of _ s2]) (simp add: growth_def left_by_def took_mail_def)
      next
        case (Inr o')
        let ?out1 = "count_outcome o' out"
        consider (over) x where "o' \<noteq> O_auth" "r = Inr (?out1\<lparr>rn_stop := x\<rparr>)" "b' = b2" "mb' = mb1"
          | (auth) "o' = O_auth" "r = Inr (out\<lparr>rn_stop := Auth_failed\<rparr>)" "b' = b2" "mb' = mb1"
          | (more) "o' \<noteq> O_auth" "send_loop e who from_email followups ls (bad_after o' bad) ?out1 mb1 b2 = (r, mb', b')"
          using Cons.prems(4) go claimed Some call Inr by (auto simp: Let_def split: if_splits)
        then show ?thesis
        proof cases
          case over
          then show ?thesis using path at2 Inr took by (intro exI [of _ s2]) (auto simp: growth_def left_by_def took_mail_def)
        next
          case auth
          then show ?thesis using path at2 Inr took by (intro exI [of _ s2]) (simp add: growth_def left_by_def took_mail_def)
        next
          case more
          have "sy_at s2 w = Idle" using at2(2) Inr by simp
          from Cons.IH [OF this _ at2(3), of "bad_after o' bad" ?out1] obtain s3 where s3: "(sender_step e from_email)\<^sup>*\<^sup>* s2 s3"
            "left_by w s2 r mb' b' s3" "growth r ?out1 (length ls) mb1 mb'"
            using Cons.prems(2) more(2) unfolding at2(1) by (metis list.set_intros(2))
          have "growth r out (length (l # ls)) mb mb'" using growth_first [OF took Inr more(1) s3(3)] by simp
          moreover have "left_by w s r mb' b' s3" using s3(2) at2(2) by (simp add: left_by_def)
          moreover have "(sender_step e from_email)\<^sup>*\<^sup>* s s3" using path s3(1) by (rule rtranclp_trans)
          ultimately show ?thesis by blast
        qed
      qed
    qed
  qed
qed

text \<open>C4. A run of the sender is a sequence of the system's steps, so what holds of all interleavings holds of it. From any state in
  which its worker is free, with honest servers, and with the mailbox's account \<open>mb_took\<close> the mails taken so far: the run ends in a state
  the steps reach, its worker free - or dead when it raises - and the others as they were, and the mails taken then are exactly
  those the servers behind the run's mailbox took, call by call. They are at least as many more as the run counts as sent and at most as
  many as it counts as sent or ambiguous; a run that raises took at most one for each lap.\<close>

theorem run_is_steps:
  assumes "sy_at s w = Idle" and "\<forall>l\<in>set laps. turn_law from_email (lp_turn l)" and "mb_took mb = sy_sent s"
    and "run e who from_email followups db_now now laps mb (sy_box s) = (r, mb', b')"
  shows "(\<exists>s'. (sender_step e from_email)\<^sup>*\<^sup>* s s' \<and> sy_box s' = b' \<and> sy_sent s' = mb_took mb'
       \<and> sy_at s' = (sy_at s)(w := (case r of Inl x \<Rightarrow> Dead | Inr x \<Rightarrow> Idle)))
    \<and> (case r of Inl x \<Rightarrow> length (mb_took mb') \<le> length (mb_took mb) + length laps
       | Inr out \<Rightarrow> length (mb_took mb) + rn_sent out \<le> length (mb_took mb')
           \<and> length (mb_took mb') \<le> length (mb_took mb) + rn_sent out + rn_ambiguous out)"
proof (cases "rn_in_window (run_start e db_now now (sy_box s))")
  case True
  then have "send_loop e who from_email followups laps 0 (run_start e db_now now (sy_box s)) mb (sy_box s) = (r, mb', b')"
    using assms(4) by (simp add: run_def Let_def)
  from run_loop_steps [OF assms(1) _ assms(3) [symmetric] this] assms(2) obtain s' where "(sender_step e from_email)\<^sup>*\<^sup>* s s'"
    "left_by w s r mb' b' s'" "growth r (run_start e db_now now (sy_box s)) (length laps) mb mb'" by blast
  then show ?thesis
    by (auto simp: growth_def accounted_def run_start_def left_by_def split: sum.splits)
next
  case False
  then have "r = Inr (run_start e db_now now (sy_box s))" "b' = sy_box s" "mb' = mb" using assms(4) by (auto simp: run_def Let_def)
  then show ?thesis using assms(1,3) by (intro conjI exI [of _ s]) (auto simp: run_start_def)
qed

subsection \<open>The limits of a run\<close>




subsection \<open>Follow-ups stay where they are\<close>

text \<open>An operation on one row: it changes the rows with that id, keeping the id, and may add a row with the next id.\<close>

definition touches :: "int \<Rightarrow> outbox \<Rightarrow> outbox \<Rightarrow> bool" where
  "touches i b b' \<longleftrightarrow> (\<exists>f. (\<forall>p. qr_id (f p) = qr_id p)
     \<and> adds_row (upd_where (\<lambda>p. qr_id p = i) f (ob_queue b)) (ob_next b) (ob_queue b') (ob_next b'))"

definition ids_ok :: "outbox \<Rightarrow> bool" where
  "ids_ok b \<longleftrightarrow> distinct (map qr_id (ob_queue b)) \<and> (\<forall>q\<in>set (ob_queue b). qr_id q < ob_next b)"

lemma touches_upd:
  assumes "ob_queue b' = upd_where (\<lambda>p. qr_id p = i) f (ob_queue b)" "ob_next b' = ob_next b" "\<And>p. qr_id (f p) = qr_id p"
  shows "touches i b b'"
  using assms by (auto simp: touches_def intro: exI [of _ f])

lemma touches_refl: "ob_queue b' = ob_queue b \<Longrightarrow> ob_next b' = ob_next b \<Longrightarrow> touches i b b'"
  by (rule touches_upd [of _ _ "\<lambda>q. q"]) (simp_all add: upd_where_same)

lemma touches_upd_then:
  assumes "touches i b1 b'" and "ob_queue b1 = upd_where (\<lambda>p. qr_id p = i) g (ob_queue b)" "ob_next b1 = ob_next b" "\<And>p. qr_id (g p) = qr_id p"
  shows "touches i b b'"
proof -
  obtain f where f: "\<forall>p. qr_id (f p) = qr_id p" and a: "adds_row (upd_where (\<lambda>p. qr_id p = i) f (ob_queue b1)) (ob_next b1) (ob_queue b') (ob_next b')"
    using assms(1) unfolding touches_def by blast
  have "adds_row (upd_where (\<lambda>p. qr_id p = i) (\<lambda>q. f (g q)) (ob_queue b)) (ob_next b) (ob_queue b') (ob_next b')"
    using a unfolding assms(2,3) by (simp only: upd_where_twice [where g = g, OF assms(4)])
  then show ?thesis using f assms(4) unfolding touches_def by (intro exI [of _ "\<lambda>q. f (g q)"]) simp
qed

lemma touches_keep:
  assumes "keep b (record_sent e now newid m from_email q h t note b) x = (res, b')"
  shows "touches (qr_id q) b b'"
proof (cases "record_sent e now newid m from_email q h t note b")
  case (Inl y)
  then show ?thesis using assms by (auto simp: keep_def intro: touches_refl)
next
  case (Inr b1)
  then have "b' = b1" using assms by (simp add: keep_def)
  then show ?thesis using record_sent_table [OF Inr] rows_keep(7) unfolding touches_def by metis
qed

lemma touches_finish: "touches (qr_id q) b (finish now q st reason b)"
  by (rule touches_upd [OF finish_table]) (rule rows_keep)

lemma touches_release: "touches i b (release now delay undo i b)"
  by (rule touches_upd [OF release_table]) (rule rows_keep)

lemma touches_conv: "touches i b b' \<Longrightarrow> touches i b (b'\<lparr>ob_conv := c\<rparr>)"
  by (simp add: touches_def)

lemma touches_after_send: "after_send e t from_email q h res b = (r, b') \<Longrightarrow> touches (qr_id q) b b'"
proof -
  assume a: "after_send e t from_email q h res b = (r, b')"
  have retry: "touches (qr_id q) b (release now delay undo (qr_id q) (upd_id (qr_id q) (\<lambda>p. p\<lparr>qr_response := x\<rparr>) b))" for now delay undo x
    by (rule touches_upd_then [OF touches_release, where g = "\<lambda>p. p\<lparr>qr_response := x\<rparr>"]) simp_all
  show ?thesis
  proof (cases "sr_ok res")
    case True
    then show ?thesis using a touches_keep unfolding after_send_def by auto
  next
    case False
    then have "after_failure e t from_email q h res b = (r, b')" using a by (simp add: after_send_def)
    then show ?thesis unfolding after_failure_def Let_def
      by (auto split: send_kind.splits sum.splits if_splits
          intro: touches_keep touches_finish touches_release touches_conv retry)
  qed
qed

lemma touches_save: "save_id t from_email q b = Inr (h, b') \<Longrightarrow> \<exists>f. ob_queue b' = upd_where (\<lambda>p. qr_id p = qr_id q) f (ob_queue b)
    \<and> ob_next b' = ob_next b \<and> (\<forall>p. qr_id (f p) = qr_id p)"
proof (cases "given (qr_msgid q)")
  case None
  assume "save_id t from_email q b = Inr (h, b')"
  then have "b' = upd_id (qr_id q) (\<lambda>p. p\<lparr>qr_msgid := Some h\<rparr>) b" using None by (auto simp: save_id_def Let_def split: if_splits)
  then show ?thesis by (intro exI [of _ "\<lambda>p. p\<lparr>qr_msgid := Some h\<rparr>"]) simp
next
  case (Some g)
  assume "save_id t from_email q b = Inr (h, b')"
  then have "b' = b" using Some by (auto simp: save_id_def)
  then show ?thesis by (intro exI [of _ "\<lambda>p. p"]) (simp add: upd_where_same)
qed

lemma touches_send_item:
  assumes "send_item e t from_email q mb b = (r, mb', b')"
  shows "touches (qr_id q) b b'"
proof (cases "refuse_row e (tn_down t) q b")
  case (Some rf)
  then have "b' = snd (after_refusal t q rf b)" using assms by (cases "after_refusal t q rf b") (simp add: send_item_def)
  then show ?thesis using touches_release touches_finish by (auto simp: after_refusal_def)
next
  case None
  show ?thesis
  proof (cases "save_id t from_email q b")
    case (Inl x)
    then show ?thesis using assms None touches_refl by (auto simp: send_item_def)
  next
    case (Inr y)
    then obtain h b1 where saved: "save_id t from_email q b = Inr (h, b1)" by (cases y) auto
    obtain res mb1 where hand: "hand_mail t q h mb = (res, mb1)" by fastforce
    obtain r2 b2 where aft: "after_send e t from_email q h res b1 = (r2, b2)" by fastforce
    then have "b' = b2" using assms None saved hand by (simp add: send_item_def)
    then show ?thesis using touches_upd_then [OF touches_after_send [OF aft]] touches_save [OF saved] by blast
  qed
qed

lemma touches_ids: "touches i b b' \<Longrightarrow> ids_ok b \<Longrightarrow> ids_ok b'"
proof -
  assume t: "touches i b b'" and ok: "ids_ok b"
  obtain f where f: "\<forall>p. qr_id (f p) = qr_id p" and a: "adds_row (upd_where (\<lambda>p. qr_id p = i) f (ob_queue b)) (ob_next b) (ob_queue b') (ob_next b')"
    using t unfolding touches_def by blast
  let ?t = "upd_where (\<lambda>p. qr_id p = i) f (ob_queue b)"
  have ids: "map qr_id ?t = map qr_id (ob_queue b)" using f by (simp add: upd_where_def)
  have lt: "\<forall>q\<in>set ?t. qr_id q < ob_next b"
    using ok f unfolding ids_ok_def by (auto simp: set_upd_where)
  have "distinct (map qr_id ?t)" using ok unfolding ids ids_ok_def by simp
  then show "ids_ok b'" using a lt unfolding ids_ok_def adds_row_def by fastforce
qed

lemma touches_other: "touches i b b' \<Longrightarrow> x \<in> set (ob_queue b) \<Longrightarrow> qr_id x \<noteq> i \<Longrightarrow> x \<in> set (ob_queue b')"
  unfolding touches_def using adds_subset by (fastforce simp: set_upd_where)

lemma claim_first_only:
  assumes "claim now who False locked b = (c, b')" and "ids_ok b" and "x \<in> set (ob_queue b)" "qr_step x \<noteq> 0"
  shows "x \<in> set (ob_queue b') \<and> ids_ok b' \<and> (case c of None \<Rightarrow> True | Some q \<Rightarrow> qr_id x \<noteq> qr_id q)"
proof (cases "least_by send_order (filter (\<lambda>q. due_to_send now False q \<and> qr_id q \<notin> set locked) (ob_queue b))")
  case None
  then show ?thesis using assms by (auto simp: claim_def)
next
  case (Some r)
  then have r: "r \<in> set (ob_queue b)" "qr_step r = 0" using least_by_Some_in [OF Some] by (auto simp: due_to_send_def)
  then have "qr_id x \<noteq> qr_id r" using assms(2-4) distinct_key_eq unfolding ids_ok_def by metis
  moreover have "c = Some (claim_row now who r)" "b' = upd_id (qr_id r) (claim_row now who) b" using assms(1) Some by (auto simp: claim_def)
  moreover have "touches (qr_id r) b (upd_id (qr_id r) (claim_row now who) b)"
    by (rule touches_upd [where f = "claim_row now who"]) (simp_all add: claim_row_def)
  ultimately show ?thesis using touches_other touches_ids assms(2,3) by (auto simp: claim_row_def set_upd_where)
qed

lemma run_loop_no_followups:
  "send_loop e who from_email False laps bad out mb b = (r, mb', b') \<Longrightarrow> ids_ok b \<Longrightarrow> x \<in> set (ob_queue b) \<Longrightarrow> qr_step x \<noteq> 0 \<Longrightarrow>
     x \<in> set (ob_queue b')"
proof (induction laps arbitrary: bad out mb b)
  case (Cons l ls)
  let ?t = "lp_turn l"
  obtain c b1 where claimed: "claim (tn_now ?t) who False (lp_locked l) b = (c, b1)" by fastforce
  note cl = claim_first_only [OF claimed Cons.prems(2-4)]
  show ?case
  proof (cases c)
    case None
    then show ?thesis using Cons.prems claimed cl by (auto simp: Let_def split: if_splits)
  next
    case (Some q)
    obtain r1 mb1 b2 where call: "send_item e ?t from_email q mb b1 = (r1, mb1, b2)" by (metis prod_cases3)
    have x1: "x \<in> set (ob_queue b1)" "ids_ok b1" "qr_id x \<noteq> qr_id q" using cl Some by simp_all
    then have b2: "x \<in> set (ob_queue b2)" "ids_ok b2" using touches_send_item [OF call] touches_other touches_ids by blast+
    consider "b' = b" | "b' = b2" | bad' out' where "send_loop e who from_email False ls bad' out' mb1 b2 = (r, mb', b')"
      using Cons.prems(1) claimed Some call by (cases r1) (auto simp: Let_def split: if_splits)
    then show ?thesis using Cons.IH b2 Cons.prems(3,4) by cases auto
  qed
qed simp

text \<open>C6. A run that could not read the replies sends no follow-up: with follow-ups off every row of a later step is still in the queue
  afterwards, exactly as it was - neither claimed nor changed - whatever the run meets. (Row ids are distinct, as the primary key
  says, and below the next one.)\<close>

theorem blind_run_spares_followups:
  assumes "ids_ok b"
  shows "{q \<in> set (ob_queue b). qr_step q \<noteq> 0} \<subseteq> set (ob_queue (snd (snd (run e who from_email False db_now now laps mb b))))"
proof clarify
  fix x assume x: "x \<in> set (ob_queue b)" "qr_step x \<noteq> 0"
  obtain r mb' b' where run: "run e who from_email False db_now now laps mb b = (r, mb', b')" by (metis prod_cases3)
  show "x \<in> set (ob_queue (snd (snd (run e who from_email False db_now now laps mb b))))"
  proof (cases "rn_in_window (run_start e db_now now b)")
    case True
    then have "send_loop e who from_email False laps 0 (run_start e db_now now b) mb b = (r, mb', b')"
      using run by (simp add: run_def Let_def)
    from run_loop_no_followups [OF this assms x] show ?thesis by (simp add: run)
  next
    case False
    then show ?thesis using x by (simp add: run_def Let_def)
  qed
qed

subsection \<open>The daily cap\<close>









subsection \<open>A run on a prepared row\<close>

definition demo_noon :: time where "demo_noon = 4 * day + 12 * hour"

definition demo_lap :: lap where "demo_lap = \<lparr>lp_now = demo_noon, lp_locked = [], lp_turn = demo_turn, lp_pause = True\<rparr>"

definition demo_mailbox :: mailbox where "demo_mailbox = \<lparr>mb_conn = True, mb_files = None, mb_took = []\<rparr>"

definition demo_box :: outbox where
  "demo_box = (case demo_queued of Inr b \<Rightarrow> b\<lparr>ob_keys := [(''selftest'', VDict [(''ok'', VBool True)])]\<rparr> | Inl x \<Rightarrow> sy_box demo_start)"

definition demo_ran :: "(send_exn + run_out) \<times> mailbox \<times> outbox" where
  "demo_ran = run demo_env ''w'' ''me@b.com'' True 5 demo_noon [demo_lap] demo_mailbox demo_box"

lemma demo_ran_sent: "(case fst demo_ran of Inr out \<Rightarrow> rn_sent out = 1 \<and> rn_ambiguous out = 0 | Inl x \<Rightarrow> False)"
  by code_simp

lemma demo_turn_law: "turn_law ''me@b.com'' demo_turn"
proof -
  have "new_message_id (tn_make demo_turn) ''me@b.com'' \<noteq> []" by code_simp
  moreover have "tn_look demo_turn = Look_raised" "tn_server demo_turn = demo_server" by (simp_all add: demo_turn_def)
  ultimately show ?thesis using demo_delivers(2) by (simp add: turn_law_def)
qed

lemma demo_idle: "sy_at (demo_start\<lparr>sy_box := demo_box\<rparr>) 0 = Idle" "sy_sent (demo_start\<lparr>sy_box := demo_box\<rparr>) = []"
  by (simp_all add: demo_start_def)

theorem run_is_steps_witness:
  "\<exists>s' out. (sender_step demo_env ''me@b.com'')\<^sup>*\<^sup>* (demo_start\<lparr>sy_box := demo_box\<rparr>) s' \<and> fst demo_ran = Inr out \<and> rn_sent out = 1
     \<and> sy_box s' = snd (snd demo_ran) \<and> length (sy_sent s') = 1 \<and> sy_sent s' = mb_took (fst (snd demo_ran))"
proof -
  obtain out where out: "fst demo_ran = Inr out" "rn_sent out = 1" "rn_ambiguous out = 0"
    using demo_ran_sent by (cases "fst demo_ran") auto
  have mb: "mb_took demo_mailbox = []" by (simp add: demo_mailbox_def)
  have "run demo_env ''w'' ''me@b.com'' True 5 demo_noon [demo_lap] demo_mailbox (sy_box (demo_start\<lparr>sy_box := demo_box\<rparr>))
      = (Inr out, fst (snd demo_ran), snd (snd demo_ran))"
    using out(1) by (simp add: demo_ran_def [symmetric] prod_eq_iff)
  from run_is_steps [OF demo_idle(1) _ _ this] demo_turn_law demo_idle(2) mb obtain s' where
    "(sender_step demo_env ''me@b.com'')\<^sup>*\<^sup>* (demo_start\<lparr>sy_box := demo_box\<rparr>) s'" "sy_box s' = snd (snd demo_ran)"
    "sy_sent s' = mb_took (fst (snd demo_ran))" "rn_sent out \<le> length (mb_took (fst (snd demo_ran)))"
    "length (mb_took (fst (snd demo_ran))) \<le> rn_sent out + rn_ambiguous out"
    by (auto simp: demo_lap_def)
  then show ?thesis using out by (intro exI [of _ s'] exI [of _ out]) simp
qed


definition demo_follow :: qrow where "demo_follow = new_row ''c7'' 1 ''joe@aire.com'' demo_email [] 0"

theorem blind_run_spares_followups_witness:
  "demo_follow \<in> set (ob_queue (snd (snd (run demo_env ''w'' ''me@b.com'' False 5 demo_noon [demo_lap] demo_mailbox
     (demo_box\<lparr>ob_queue := [demo_follow], ob_next := 1\<rparr>)))))"
proof -
  have "ids_ok (demo_box\<lparr>ob_queue := [demo_follow], ob_next := 1\<rparr>)" by (simp add: ids_ok_def demo_follow_def new_row_def)
  from blind_run_spares_followups [OF this] show ?thesis by (rule subsetD) (simp add: demo_follow_def new_row_def)
qed

end
