(* ===== verification/OutreachCycle.thy ===== *)
theory OutreachCycle
  imports OutreachRun
begin

text \<open>
  Preparing and recovering as steps of the sender's system, and one cycle of \<open>src/outreach_sender.py\<close>: sweep, plan, login, recovery,
  reading replies, a second sweep, the self-test and the run, each surviving a failure of the one before.
\<close>

subsection \<open>Preparing as steps\<close>

definition prepares :: "send_env \<Rightarrow> str \<Rightarrow> outbox \<Rightarrow> outbox \<Rightarrow> bool" where
  "prepares e from_email b b' \<longleftrightarrow> (\<forall>s. sy_box s = b \<longrightarrow> (sender_step e from_email)\<^sup>*\<^sup>* s (s\<lparr>sy_box := b'\<rparr>))"

lemma prepares_refl [simp]: "prepares e from_email b b"
  by (auto simp: prepares_def)

lemma prepares_trans: "prepares e from_email b b1 \<Longrightarrow> prepares e from_email b1 b2 \<Longrightarrow> prepares e from_email b b2"
  unfolding prepares_def
proof (intro allI impI)
  fix s :: sys
  assume h: "\<forall>s. sy_box s = b \<longrightarrow> (sender_step e from_email)\<^sup>*\<^sup>* s (s\<lparr>sy_box := b1\<rparr>)"
    "\<forall>s :: sys. sy_box s = b1 \<longrightarrow> (sender_step e from_email)\<^sup>*\<^sup>* s (s\<lparr>sy_box := b2\<rparr>)" "sy_box s = b"
  have "(sender_step e from_email)\<^sup>*\<^sup>* (s\<lparr>sy_box := b1\<rparr>) (s\<lparr>sy_box := b1, sy_box := b2\<rparr>)"
    using spec [OF h(2), of "s\<lparr>sy_box := b1\<rparr>"] by simp
  then show "(sender_step e from_email)\<^sup>*\<^sup>* s (s\<lparr>sy_box := b2\<rparr>)" using h(1,3) by (auto intro: rtranclp_trans)
qed

lemma prepares_step: "(\<And>s. sy_box s = b \<Longrightarrow> sender_step e from_email s (s\<lparr>sy_box := b'\<rparr>)) \<Longrightarrow> prepares e from_email b b'"
  by (simp add: prepares_def r_into_rtranclp)

lemma prepares_world: "ob_queue b' = ob_queue b \<Longrightarrow> ob_next b' = ob_next b \<Longrightarrow> prepares e from_email b b'"
  by (rule prepares_step) (rule s_world, simp_all)

lemma prepares_insert: "insert_row q b = Inr b' \<Longrightarrow> fresh_row q \<Longrightarrow> prepares e from_email b b'"
  by (rule prepares_step) (rule s_prepare, simp_all)

lemma prepares_reword: "(\<And>q. p q \<Longrightarrow> untouched q) \<Longrightarrow>
    prepares e from_email b (map_queue (upd_where p (\<lambda>q. reword (mail q) (problems q) q)) b)"
  by (rule prepares_step) (use s_reword in blast)

lemma prepares_clear: "(\<And>q. p q \<Longrightarrow> qr_state q = Cancelled) \<Longrightarrow> prepares e from_email b (map_queue (del_where p) b)"
  by (rule prepares_step) (use s_clear in blast)

lemma prepares_rewrite: "(\<And>q. p q \<Longrightarrow> generated b q) \<Longrightarrow> prepares e from_email b (snd (rewrite_rows se p b))"
  unfolding rewrite_rows_def snd_conv by (rule prepares_reword) (simp add: generated_def)

lemma prepares_rerender: "prepares e from_email b (snd (rerender_queued_v4 se b))"
proof -
  let ?p = "\<lambda>q. old_trade_copy (sn_cfg se) b q \<and> row_version se b q = V4"
  obtain n m b1 where rw: "rewrite_rows se ?p b = ((n, m), b1)" by (metis prod.collapse)
  have "prepares e from_email b b1" using prepares_rewrite [of ?p b e from_email se] unfolding rw by (simp add: old_trade_copy_def)
  then have "prepares e from_email b (b1\<lparr>ob_keys := ks\<rparr>)" for ks by (rule prepares_trans) (rule prepares_world, simp_all)
  then show ?thesis by (simp add: rerender_queued_v4_def Let_def rw)
qed

lemma prepares_refresh: "prepares e from_email b (snd (refresh_queued se b))"
  by (auto simp: refresh_queued_def older_words_def intro!: prepares_rewrite)

lemma fresh_campaign [simp]: "fresh_row (campaign_row ce postal now to k)"
  by (simp add: fresh_row_def campaign_row_def new_row_def)

lemma prepares_plan_row: "plan_row ce x b = (r, b') \<Longrightarrow> prepares e from_email b b'"
proof -
  assume a: "plan_row ce x b = (r, b')"
  obtain c to where x: "x = (c, to)" by (cases x)
  let ?i = "co_id c"
  let ?d = "guard_says (ce_down ce 0 ?i) (ob_conv b) to ''cold'' ?i"
  let ?m = "first_mail (ce_send ce) c (version_of (ce_send ce) c)"
  consider (same) "b' = b" | (conv) f where "b' = map_conv f b"
    | (ins) "insert_row (new_row ?i 0 to ?m (mail_problems (ce_send ce) c ?m) (ce_now ce 0)) b = Inr b'"
    using a unfolding plan_row_def x prod.case Let_def by (auto split: if_splits sum.splits)
  then show ?thesis
  proof cases
    case conv
    then show ?thesis by (intro prepares_world) simp_all
  next
    case ins
    then show ?thesis by (rule prepares_insert) simp
  qed simp
qed

text \<open>A round of the loop ends it, or goes on with what it left.\<close>

lemma plan_rows_round:
  assumes "plan_row ce x b = (r, b1)"
  shows "(\<exists>out'. plan_rows ce v4_on slots (x # xs) n out b = (out', b) \<or> plan_rows ce v4_on slots (x # xs) n out b = (out', b1))
    \<or> (\<exists>n' out' b'. plan_rows ce v4_on slots (x # xs) n out b = plan_rows ce v4_on slots xs n' out' b' \<and> (b' = b \<or> b' = b1))"
proof -
  obtain other v4 where sl: "slots = (other, v4)" by (cases slots)
  obtain k k4 where n: "n = (k, k4)" by (cases n)
  let ?use4 = "v4_on \<and> version_of (ce_send ce) (fst x) = V4"
  note eq = plan_rows.simps(2) [of ce v4_on other v4 x xs k k4 out b, unfolded Let_def, unfolded assms prod.case]
  show ?thesis
  proof (cases "v4 \<le> k4 \<and> other \<le> k")
    case True
    then show ?thesis unfolding sl n eq if_P [OF True] by blast
  next
    case A: False
    show ?thesis
    proof (cases "if ?use4 then v4 \<le> k4 else other \<le> k")
      case True
      show ?thesis unfolding sl n eq if_not_P [OF A] if_P [OF True] by blast
    next
      case B: False
      note eq' = eq [unfolded if_not_P [OF A] if_not_P [OF B]]
      show ?thesis
      proof (cases r)
        case (Inl u)
        show ?thesis unfolding sl n eq' Inl sum.case by blast
      next
        case (Inr o')
        show ?thesis
        proof (cases o')
          case (Written ok)
          show ?thesis unfolding sl n eq' Inr sum.case Written planned.case by (cases ok) (simp_all only: if_True if_False, blast+)
        next
          case (Blocked u)
          show ?thesis unfolding sl n eq' Inr sum.case Blocked planned.case by blast
        next
          case Duplicate
          show ?thesis unfolding sl n eq' Inr sum.case Duplicate planned.case by blast
        qed
      qed
    qed
  qed
qed

lemma prepares_plan_rows: "prepares e from_email b (snd (plan_rows ce v4_on slots xs n out b))"
proof (induction xs arbitrary: n out b)
  case (Cons x xs)
  obtain r b1 where one: "plan_row ce x b = (r, b1)" by fastforce
  note p1 = prepares_plan_row [OF one, of e from_email]
  from plan_rows_round [OF one, of v4_on slots xs n out] show ?case
  proof (elim disjE exE conjE)
    fix n' out' b' assume "plan_rows ce v4_on slots (x # xs) n out b = plan_rows ce v4_on slots xs n' out' b'" and b': "b' = b1"
    then have "snd (plan_rows ce v4_on slots (x # xs) n out b) = snd (plan_rows ce v4_on slots xs n' out' b1)" by simp
    then show ?thesis using prepares_trans [OF p1 Cons.IH] by simp
  next
    fix n' out' b' assume "plan_rows ce v4_on slots (x # xs) n out b = plan_rows ce v4_on slots xs n' out' b'" and "b' = b"
    then have "snd (plan_rows ce v4_on slots (x # xs) n out b) = snd (plan_rows ce v4_on slots xs n' out' b)" by simp
    then show ?thesis using Cons.IH by simp
  qed (use p1 in simp_all)
qed (cases slots; simp)

lemma prepares_legacy: "prepares e from_email b (snd (plan_legacy ce limit b))"
proof -
  obtain mg b1 where one: "rerender_queued_v4 (ce_send ce) b = (mg, b1)" by fastforce
  obtain rf b2 where two: "refresh_queued (ce_send ce) b1 = (rf, b2)" by fastforce
  have "prepares e from_email b b1" "prepares e from_email b1 b2"
    using prepares_rerender [of e from_email b "ce_send ce"] prepares_refresh [of e from_email b1 "ce_send ce"] by (simp_all add: one two)
  then have "prepares e from_email b b2" by (rule prepares_trans)
  then show ?thesis
    unfolding plan_legacy_def Let_def one two prod.case
    by (auto split: prod.split intro: prepares_trans [OF _ prepares_plan_rows])
qed

text \<open>A queueing transaction: after a guard that failed it starts again from where it began.\<close>

lemma prepares_enqueue_rows:
  "enqueue_rows ce ph postal b0 rows b n = Inr (n', b') \<Longrightarrow> prepares e from_email b0 b \<Longrightarrow> prepares e from_email b0 b'"
proof (induction rows arbitrary: b n)
  case (Cons x rows)
  obtain k to name where x: "x = (k, to, name)" by (cases x)
  obtain q bl where n: "n = (q, bl)" by (cases n)
  let ?b1 = "if ce_down ce ph (cc_company k) = None then b else b0"
  have b1: "prepares e from_email b0 ?b1" using Cons.prems(2) by simp
  consider m where "enqueue_rows ce ph postal b0 rows ?b1 m = Inr (n', b')"
    | b2 m where "insert_row (campaign_row ce postal (ce_now ce ph) to k) ?b1 = Inr b2" "enqueue_rows ce ph postal b0 rows b2 m = Inr (n', b')"
    using Cons.prems(1) unfolding x n enqueue_rows.simps(2) Let_def by (auto split: if_splits sum.splits)
  then show ?case
  proof cases
    case 1
    then show ?thesis using Cons.IH b1 by blast
  next
    case 2
    have "prepares e from_email b0 b2" by (rule prepares_trans [OF b1 prepares_insert [OF 2(1)]]) simp
    then show ?thesis using Cons.IH 2(2) by blast
  qed
qed simp

lemma prepares_enqueue:
  assumes "enqueue_approved ce ph postal limit b0 b = Inr (n', b')" and "prepares e from_email b0 b"
  shows "prepares e from_email b0 b'"
proof -
  obtain ks where "enqueue_rows ce ph postal b0 (map (\<lambda>k. (k, recipient_of b k, named (cc_company k) (ob_conv b))) ks) b (0, 0) = Inr (n', b')"
    using assms(1) unfolding enqueue_approved_def obind_eq_Inr by blast
  then show ?thesis using assms(2) by (rule prepares_enqueue_rows)
qed

lemma prepares_replenish: "prepares e from_email b (snd (replenish ce postal limit out b))"
proof -
  define batch where "batch = (case limit of None \<Rightarrow> REPLENISH_BATCH | Some n \<Rightarrow> max (min n REPLENISH_BATCH) 0)"
  obtain p b1 where p: "auto_prepare_campaign ce (Some batch) b = (p, b1)" by fastforce
  have "prepares e from_email b b1" using prepare_keeps [of ce "Some batch" b] by (intro prepares_world) (simp_all add: p)
  moreover have "prepares e from_email b1 b2" if "enqueue_approved ce 4 postal limit b1 b1 = Inr (n', b2)" for n' b2
    using that by (rule prepares_enqueue) simp
  ultimately show ?thesis
    unfolding replenish_def Let_def batch_def [symmetric] p
    by (auto split: sum.split prod.split intro: prepares_trans)
qed

lemma prepares_campaign: "prepares e from_email b (snd (queue_approved ce postal limit b))"
proof -
  have clear: "prepares e from_email b (clear_cancelled b)" unfolding clear_cancelled_def by (rule prepares_clear) simp
  show ?thesis
  proof (cases "py_strip postal = [] \<or> isl (enqueue_approved ce 0 postal limit b (clear_cancelled b))")
    case True
    then show ?thesis by (auto simp: queue_approved_def isl_def)
  next
    case False
    then obtain q bl b1 where one: "enqueue_approved ce 0 postal limit b (clear_cancelled b) = Inr ((q, bl), b1)"
      by (metis prod.collapse sum.collapse(2))
    let ?out = "queue_zero\<lparr>qp_queued := q, qp_blocked := bl\<rparr>"
    have "snd (queue_approved ce postal limit b) = snd (replenish ce postal limit ?out b1)"
      using False one by (simp add: queue_approved_def split: prod.split)
    then show ?thesis using prepares_trans [OF prepares_enqueue [OF one clear] prepares_replenish [of e from_email b1 ce postal limit ?out]] by simp
  qed
qed

text \<open>C7. Preparing is harmless: whatever it meets - guards that fail in the middle, copy that does not pass, exceptions - what a call
  of the planner does to the tables is a sequence of the system's preparing steps: new rows nobody sent, other words for rows no
  send touched, removal of cancelled rows. So all that holds of the sender's runs holds with planners in between.\<close>

theorem plan_is_steps:
  "(sender_step e from_email)\<^sup>*\<^sup>* s (s\<lparr>sy_box := snd (plan ce limit (sy_box s))\<rparr>)"
proof -
  have "prepares e from_email (sy_box s) (snd (plan ce limit (sy_box s)))"
    using prepares_campaign [of e from_email "sy_box s" ce "postal_address (sn_env (ce_send ce))" limit]
      prepares_legacy [of e from_email "sy_box s" ce limit]
    unfolding plan_def by (auto split: sum.split prod.split)
  then show ?thesis by (simp add: prepares_def)
qed

subsection \<open>Recovering as steps\<close>

definition looks_law :: "(str \<times> int \<times> str) list \<Rightarrow> (int \<Rightarrow> look) option \<Rightarrow> outbox \<Rightarrow> bool" where
  "looks_law d looks b \<longleftrightarrow> (\<forall>r\<in>set (ob_queue b). \<forall>f h. looks = Some f \<longrightarrow> qr_msgid r = Some h \<longrightarrow> sent_law d h (f (qr_id r)))"

lemma touches_recover: "recover_one e now newid m from_email looks r b = (x, b') \<Longrightarrow> touches (qr_id r) b b'"
  unfolding recover_one_def
  by (auto split: option.splits bool.splits intro: touches_keep touches_finish touches_release touches_refl)

lemma recover_rows_steps:
  assumes "\<And>v. held (sy_at s v) = None" and "distinct (map qr_id rs)" and "\<And>r. r \<in> set rs \<Longrightarrow> r \<in> set (ob_queue (sy_box s)) \<and> stale now r"
    and "\<And>r f h. r \<in> set rs \<Longrightarrow> looks = Some f \<Longrightarrow> qr_msgid r = Some h \<Longrightarrow> sent_law (sy_sent s) h (f (qr_id r))"
  shows "(sender_step e from_email)\<^sup>*\<^sup>* s (s\<lparr>sy_box := snd (recover_rows e now newid m from_email looks rs (sy_box s))\<rparr>)"
  using assms
proof (induction rs arbitrary: s)
  case (Cons r rs)
  obtain x b1 where one: "recover_one e now newid m from_email looks r (sy_box s) = (x, b1)" by fastforce
  have r: "r \<in> set (ob_queue (sy_box s))" "stale now r" using Cons.prems(3) [of r] by simp_all
  have step: "sender_step e from_email s (s\<lparr>sy_box := b1\<rparr>)"
    by (rule s_recover [OF r _ _ one]) (use Cons.prems(1,4) in auto)
  show ?case
  proof (cases x)
    case (Inl y)
    then have "snd (recover_rows e now newid m from_email looks (r # rs) (sy_box s)) = b1" using one by simp
    then show ?thesis using step by simp
  next
    case (Inr o')
    then have snd': "snd (recover_rows e now newid m from_email looks (r # rs) (sy_box s)) = snd (recover_rows e now newid m from_email looks rs b1)"
      using one by (simp split: prod.split sum.split)
    let ?s1 = "s\<lparr>sy_box := b1\<rparr>"
    have "(sender_step e from_email)\<^sup>*\<^sup>* ?s1 (?s1\<lparr>sy_box := snd (recover_rows e now newid m from_email looks rs (sy_box ?s1))\<rparr>)"
    proof (rule Cons.IH)
      show "held (sy_at ?s1 v) = None" for v using Cons.prems(1) by simp
      show "distinct (map qr_id rs)" using Cons.prems(2) by simp
      show "r' \<in> set (ob_queue (sy_box ?s1)) \<and> stale now r'" if r': "r' \<in> set rs" for r'
      proof -
        have "qr_id r' \<noteq> qr_id r" using Cons.prems(2) r' by (metis distinct.simps(2) image_eqI list.set_map list.simps(9))
        then show ?thesis using Cons.prems(3) [of r'] r' touches_other [OF touches_recover [OF one]] by simp
      qed
      show "sent_law (sy_sent ?s1) h (f (qr_id r'))" if "r' \<in> set rs" "looks = Some f" "qr_msgid r' = Some h" for r' f h
        using Cons.prems(4) [of r' f h] that by simp
    qed
    then show ?thesis using step unfolding snd' by (simp add: converse_rtranclp_into_rtranclp)
  qed
qed simp

lemma recover_steps:
  assumes "\<And>v. held (sy_at s v) = None" and "ids_ok (sy_box s)" and "looks_law (sy_sent s) looks (sy_box s)"
  shows "(sender_step e from_email)\<^sup>*\<^sup>* s (s\<lparr>sy_box := snd (recover e now newid m from_email looks (sy_box s))\<rparr>)"
  unfolding recover_def
proof (rule recover_rows_steps [OF assms(1)])
  show "distinct (map qr_id (filter (stale now) (ob_queue (sy_box s))))"
    using assms(2) unfolding ids_ok_def by (metis distinct_map_filter)
qed (use assms(3) in \<open>auto simp: looks_law_def\<close>)

subsection \<open>One cycle\<close>

datatype login_state = No_mailbox | Refused | Unreachable | Logged_in

text \<open>What a cycle meets: the planner's outside, the login, the looks of the recovery, reading the replies (an exception, or how many
  messages were skipped, and the conversation memory it leaves), the self-test's server and looks, and the laps of the run.\<close>

record cycle_env =
  cy_camp :: camp_env
  cy_from :: str
  cy_who :: str
  cy_login :: login_state
  cy_now :: time
  cy_clock :: time
  cy_newid :: "int \<Rightarrow> str"
  cy_random :: int
  cy_looks :: "int \<Rightarrow> look"
  cy_poll :: "conv \<Rightarrow> (str + nat) \<times> conv"
  cy_self_id :: str
  cy_self_server :: smtp_server
  cy_self_filed :: look
  cy_self_looks :: "look list"
  cy_laps :: "lap list"
  cy_mailbox :: mailbox

definition SELFTEST_SENT_CHECKS :: nat where "SELFTEST_SENT_CHECKS = 6"

definition wait_in_sent :: "look list \<Rightarrow> bool" where
  "wait_in_sent looks = list_ex (\<lambda>l. in_sent l = Some True) (take SELFTEST_SENT_CHECKS looks)"

definition set_state :: "str \<Rightarrow> pyv \<Rightarrow> outbox \<Rightarrow> outbox" where
  "set_state k v b = b\<lparr>ob_keys := dput (ob_keys b) k v\<rparr>"

definition self_tested :: "outbox \<Rightarrow> bool" where
  "self_tested b \<longleftrightarrow> (case map_of (ob_keys b) ''selftest'' of Some (VDict d) \<Rightarrow> truthy (dget d ''ok'') | _ \<Rightarrow> False)"

definition selftest :: "str \<Rightarrow> time \<Rightarrow> smtp_server \<Rightarrow> look \<Rightarrow> look list \<Rightarrow> mailbox \<Rightarrow> outbox \<Rightarrow> bool \<times> mailbox \<times> outbox" where
  "selftest h now sv filed looks mb b =
     (case mail_send sv (mb_conn mb) of (res, conn) \<Rightarrow>
        let good = sr_ok res \<and> wait_in_sent looks;
            files = (case mb_files mb of Some x \<Rightarrow> Some x | None \<Rightarrow> Some (in_sent filed = Some True));
            mb1 = (if sr_ok res then mb\<lparr>mb_conn := conn, mb_files := files\<rparr> else mb\<lparr>mb_conn := conn\<rparr>);
            out = [(''ok'', VBool good), (''accepted'', VBool (sr_ok res)), (''detail'', VStr (sr_detail res)), (''in_sent'', VBool good)]
        in (good, mb1, if good then set_state ''selftest'' (VDict ([(''message_id'', VStr h), (''at'', VInt now)] @ out)) b else b))"

record cycle_out =
  cr_swept :: nat
  cr_plan :: "str + plan_result"
  cr_recover :: "(send_exn + recovered list) option"
  cr_replies :: "(str + nat) option"
  cr_swept_again :: nat
  cr_send :: "(send_exn + run_out) option"

text \<open>The cycle's mailbox is returned with its account of what the servers took; the self-test's mail, to the sender's own address,
  is for no company and is not in it.\<close>

definition cycle_ready :: "cycle_env \<Rightarrow> cycle_out \<Rightarrow> outbox \<Rightarrow> cycle_out \<times> mailbox \<times> outbox" where
  "cycle_ready c out b =
     (let e = ce_send (cy_camp c) in
      case recover e (cy_now c) (cy_newid c) (cy_random c) (cy_from c) (Some (cy_looks c)) b of (rc, b1) \<Rightarrow>
      case cy_poll c (ob_conv b1) of (rp, conv1) \<Rightarrow>
      case sweep (sn_cfg e) (b1\<lparr>ob_conv := conv1\<rparr>) of (n, b2) \<Rightarrow>
      case (if self_tested b2 then (True, cy_mailbox c, b2)
            else selftest (cy_self_id c) (cy_now c) (cy_self_server c) (cy_self_filed c) (cy_self_looks c) (cy_mailbox c) b2) of (good, mb, b3) \<Rightarrow>
        let out1 = out\<lparr>cr_recover := Some rc, cr_replies := Some rp, cr_swept_again := n\<rparr>
        in if self_tested b3
           then (case run e (cy_who c) (cy_from c) (\<not> isl rp) (cy_now c) (cy_clock c) (cy_laps c) mb b3 of
                   (r, mb1, b4) \<Rightarrow> (out1\<lparr>cr_send := Some r\<rparr>, mb1, b4))
           else (out1, mb, b3))"

definition cycle :: "cycle_env \<Rightarrow> outbox \<Rightarrow> cycle_out \<times> mailbox \<times> outbox" where
  "cycle c b =
     (case sweep (sn_cfg (ce_send (cy_camp c))) b of (n, b1) \<Rightarrow>
      case plan (cy_camp c) None b1 of (p, b2) \<Rightarrow>
        let out = \<lparr>cr_swept = n, cr_plan = p, cr_recover = None, cr_replies = None, cr_swept_again = 0, cr_send = None\<rparr>
        in if cy_login c = Logged_in then cycle_ready c out b2 else (out, cy_mailbox c, b2))"

lemma inv_ids: "sender_inv s \<Longrightarrow> ids_ok (sy_box s)"
  by (auto simp: sender_inv_def sane_def queue_wf_def ids_ok_def)

lemma steps_inv: "(sender_step e from_email)\<^sup>*\<^sup>* s s' \<Longrightarrow> sender_inv s \<Longrightarrow> sender_inv s'"
  by (induction rule: rtranclp_induct) (auto intro: sender_step_inv)

text \<open>The tables a recovery of the cycle finds.\<close>

definition planned_box :: "cycle_env \<Rightarrow> outbox \<Rightarrow> outbox" where
  "planned_box c b = snd (plan (cy_camp c) None (snd (sweep (sn_cfg (ce_send (cy_camp c))) b)))"

text \<open>Where a cycle leaves the system.\<close>

definition cycled :: "cycle_env \<Rightarrow> sys \<Rightarrow> cycle_out \<times> mailbox \<times> outbox \<Rightarrow> bool" where
  "cycled c s x \<longleftrightarrow> (case x of (out, mb, b) \<Rightarrow>
     \<exists>s'. (sender_step (ce_send (cy_camp c)) (cy_from c))\<^sup>*\<^sup>* s s' \<and> sy_box s' = b \<and> sy_sent s' = mb_took mb)"

lemma cycled_after:
  assumes "(sender_step (ce_send (cy_camp c)) (cy_from c))\<^sup>*\<^sup>* s s1" and "cycled c s1 x"
  shows "cycled c s x"
  using assms unfolding cycled_def by (auto intro: rtranclp_trans)

lemma run_cycled:
  assumes "run (ce_send (cy_camp c)) who (cy_from c) followups db_now now (cy_laps c) mb (sy_box s) = (r, mb', b')"
    and "sy_at s w = Idle" and "\<forall>l\<in>set (cy_laps c). turn_law (cy_from c) (lp_turn l)" and "mb_took mb = sy_sent s"
  shows "cycled c s (out, mb', b')"
proof (cases "rn_in_window (run_start (ce_send (cy_camp c)) db_now now (sy_box s))")
  case True
  then have "send_loop (ce_send (cy_camp c)) who (cy_from c) followups (cy_laps c) 0 (run_start (ce_send (cy_camp c)) db_now now (sy_box s)) mb (sy_box s) = (r, mb', b')"
    using assms(1) by (simp add: run_def Let_def)
  from run_loop_steps [OF assms(2) _ assms(4) [symmetric] this] assms(3) show ?thesis by (auto simp: cycled_def left_by_def)
next
  case False
  then have "mb' = mb" "b' = sy_box s" using assms(1) by (auto simp: run_def Let_def)
  then show ?thesis using assms(4) by (auto simp: cycled_def)
qed

lemma selftest_keeps:
  assumes "(if self_tested b then (True, cy_mailbox c, b)
      else selftest (cy_self_id c) (cy_now c) (cy_self_server c) (cy_self_filed c) (cy_self_looks c) (cy_mailbox c) b) = (good, mb, b')"
  shows "ob_queue b' = ob_queue b \<and> ob_next b' = ob_next b \<and> mb_took mb = mb_took (cy_mailbox c)"
  using assms by (auto simp: selftest_def set_state_def Let_def split: if_splits prod.splits)

lemma cycle_ready_steps:
  assumes inv: "sender_inv s" and free: "\<forall>v. held (sy_at s v) = None" and w: "sy_at s w = Idle"
    and looks: "looks_law (sy_sent s) (Some (cy_looks c)) (sy_box s)"
    and laps: "\<forall>l\<in>set (cy_laps c). turn_law (cy_from c) (lp_turn l)" and mb0: "mb_took (cy_mailbox c) = sy_sent s"
  shows "cycled c s (cycle_ready c out (sy_box s))"
proof -
  let ?e = "ce_send (cy_camp c)"
  let ?steps = "(sender_step ?e (cy_from c))\<^sup>*\<^sup>*"
  obtain rc b1 where rc: "recover ?e (cy_now c) (cy_newid c) (cy_random c) (cy_from c) (Some (cy_looks c)) (sy_box s) = (rc, b1)" by fastforce
  obtain rp conv1 where rp: "cy_poll c (ob_conv b1) = (rp, conv1)" by fastforce
  obtain n b2 where sw: "sweep (sn_cfg ?e) (b1\<lparr>ob_conv := conv1\<rparr>) = (n, b2)" by fastforce
  obtain good mb b3 where st: "(if self_tested b2 then (True, cy_mailbox c, b2)
      else selftest (cy_self_id c) (cy_now c) (cy_self_server c) (cy_self_filed c) (cy_self_looks c) (cy_mailbox c) b2) = (good, mb, b3)" by (metis prod_cases3)
  note kept = selftest_keeps [OF st]
  have one: "?steps s (s\<lparr>sy_box := b1\<rparr>)"
    using recover_steps [OF spec [OF free] inv_ids [OF inv] looks, of ?e "cy_from c" "cy_now c" "cy_newid c" "cy_random c"] unfolding rc by simp
  let ?s2 = "s\<lparr>sy_box := b1\<lparr>ob_conv := conv1\<rparr>\<rparr>"
  have "sender_step ?e (cy_from c) (s\<lparr>sy_box := b1\<rparr>) (s\<lparr>sy_box := b1, sy_box := b1\<lparr>ob_conv := conv1\<rparr>\<rparr>)" by (rule s_world) simp_all
  then have two: "?steps s ?s2" using one by simp
  have "sender_step ?e (cy_from c) ?s2 (?s2\<lparr>sy_box := snd (sweep (sn_cfg ?e) (sy_box ?s2))\<rparr>)" by (rule s_sweep)
  then have three: "?steps s (s\<lparr>sy_box := b2\<rparr>)" using two by (simp add: sw)
  have "sender_step ?e (cy_from c) (s\<lparr>sy_box := b2\<rparr>) (s\<lparr>sy_box := b2, sy_box := b3\<rparr>)" using kept by (intro s_world) simp_all
  then have four: "?steps s (s\<lparr>sy_box := b3\<rparr>)" using three by simp
  note eq = cycle_ready_def [of c out "sy_box s", unfolded Let_def, unfolded rc prod.case rp, unfolded prod.case sw, unfolded prod.case st, unfolded prod.case]
  have took: "mb_took mb = sy_sent (s\<lparr>sy_box := b3\<rparr>)" using kept mb0 by simp
  show ?thesis
  proof (cases "self_tested b3")
    case False
    have "cycled c (s\<lparr>sy_box := b3\<rparr>) (out', mb, b3)" for out' unfolding cycled_def using took by auto
    then show ?thesis using cycled_after [OF four] unfolding eq if_not_P [OF False] by blast
  next
    case True
    obtain r mb1 b4 where ran: "run ?e (cy_who c) (cy_from c) (\<not> isl rp) (cy_now c) (cy_clock c) (cy_laps c) mb b3 = (r, mb1, b4)" by (metis prod_cases3)
    have "cycled c (s\<lparr>sy_box := b3\<rparr>) (out', mb1, b4)" for out'
      by (rule run_cycled [OF _ _ laps took]) (use ran w in simp_all)
    then show ?thesis using cycled_after [OF four] unfolding eq if_P [OF True] ran prod.case by blast
  qed
qed

lemma planned_steps:
  "(sender_step (ce_send (cy_camp c)) (cy_from c))\<^sup>*\<^sup>* s (s\<lparr>sy_box := planned_box c (sy_box s)\<rparr>)"
proof -
  let ?e = "ce_send (cy_camp c)"
  let ?b1 = "snd (sweep (sn_cfg ?e) (sy_box s))"
  have "sender_step ?e (cy_from c) s (s\<lparr>sy_box := ?b1\<rparr>)" by (rule s_sweep)
  moreover have "prepares ?e (cy_from c) ?b1 (planned_box c (sy_box s))"
    using prepares_campaign [of ?e "cy_from c" ?b1 "cy_camp c" "postal_address (sn_env ?e)" None]
      prepares_legacy [of ?e "cy_from c" ?b1 "cy_camp c" None]
    unfolding planned_box_def plan_def by (auto split: sum.split prod.split)
  then have "(sender_step ?e (cy_from c))\<^sup>*\<^sup>* (s\<lparr>sy_box := ?b1\<rparr>) (s\<lparr>sy_box := ?b1, sy_box := planned_box c (sy_box s)\<rparr>)"
    unfolding prepares_def by (rule allE [of _ "s\<lparr>sy_box := ?b1\<rparr>"]) simp
  ultimately show ?thesis by (simp add: converse_rtranclp_into_rtranclp)
qed

text \<open>C3. A whole cycle keeps the promise. Let it start in a state the system can reach, while no other run holds a row, with honest
  servers, a Sent folder that holds only what was taken, and the mailbox's account \<open>mb_took\<close> of what was taken so far. Then, whatever of
  the cycle fails: the servers behind its mailbox have taken at most one mail for each company and step, those of earlier cycles included;
  a row that is sent was taken and one that is queued, cancelled or failed was not; and the tables and the mails taken are
  those of a state the system can reach, so the next cycle keeps the promise too.\<close>

theorem cycle_keeps_promise:
  assumes "sender_start s0" and "(sender_step (ce_send (cy_camp c)) (cy_from c))\<^sup>*\<^sup>* s0 s"
    and "\<forall>v. held (sy_at s v) = None" and "sy_at s w = Idle"
    and "looks_law (sy_sent s) (Some (cy_looks c)) (planned_box c (sy_box s))"
    and "\<forall>l\<in>set (cy_laps c). turn_law (cy_from c) (lp_turn l)" and "mb_took (cy_mailbox c) = sy_sent s"
    and "cycle c (sy_box s) = (out, mb', b')"
  shows "distinct (map (\<lambda>(i, stp, h). (i, stp)) (mb_took mb'))
    \<and> (\<forall>q\<in>set (ob_queue b'). case qr_state q of Sent \<Rightarrow> took (mb_took mb') q | Claimed \<Rightarrow> True | Ambiguous \<Rightarrow> True
        | _ \<Rightarrow> \<not> took (mb_took mb') q)
    \<and> (\<exists>s'. (sender_step (ce_send (cy_camp c)) (cy_from c))\<^sup>*\<^sup>* s0 s' \<and> sy_box s' = b' \<and> sy_sent s' = mb_took mb')"
proof -
  let ?e = "ce_send (cy_camp c)"
  let ?s2 = "s\<lparr>sy_box := planned_box c (sy_box s)\<rparr>"
  have reach: "(sender_step ?e (cy_from c))\<^sup>*\<^sup>* s0 ?s2" using assms(2) planned_steps by (rule rtranclp_trans)
  have inv: "sender_inv ?s2" using sender_reachable_inv [OF assms(1) reach] .
  obtain n b1 where sw: "sweep (sn_cfg ?e) (sy_box s) = (n, b1)" by fastforce
  obtain p b2 where pl: "plan (cy_camp c) None b1 = (p, b2)" by fastforce
  have b2: "sy_box ?s2 = b2" by (simp add: planned_box_def sw pl)
  let ?out = "\<lparr>cr_swept = n, cr_plan = p, cr_recover = None, cr_replies = None, cr_swept_again = 0, cr_send = None\<rparr>"
  have eq: "(out, mb', b') = (if cy_login c = Logged_in then cycle_ready c ?out (sy_box ?s2) else (?out, cy_mailbox c, sy_box ?s2))"
    unfolding b2 assms(8) [symmetric] cycle_def sw prod.case pl Let_def ..
  have "cycled c ?s2 (out, mb', b')"
  proof (cases "cy_login c = Logged_in")
    case True
    show ?thesis unfolding eq if_P [OF True]
      by (rule cycle_ready_steps [OF inv _ _ _ assms(6)]) (use assms(3,4,5,7) in simp_all)
  next
    case False
    then show ?thesis using eq assms(7) by (auto simp: cycled_def)
  qed
  then have "cycled c s0 (out, mb', b')" by (rule cycled_after [OF reach])
  then obtain s' where s': "(sender_step ?e (cy_from c))\<^sup>*\<^sup>* s0 s'" "sy_box s' = b'" "sy_sent s' = mb_took mb'"
    unfolding cycled_def prod.case by blast
  have "sender_inv s'" using sender_reachable_inv [OF assms(1) s'(1)] .
  then show ?thesis using s' by (auto simp: sender_inv_def sane_def row_honest_def)
qed

definition demo_camp :: camp_env where
  "demo_camp = \<lparr>ce_cfg = \<lparr>cp_industries = [''hvac''], cp_target = 90, cp_minimum = 70, cp_max_words = 80, cp_subject_words = 5\<rparr>,
     ce_send = demo_env, ce_now = (\<lambda>n. 5), ce_down = (\<lambda>n i. None), ce_shown = (\<lambda>v. ''x'')\<rparr>"

definition demo_cycle :: cycle_env where
  "demo_cycle = \<lparr>cy_camp = demo_camp, cy_from = ''me@b.com'', cy_who = ''w'', cy_login = Logged_in, cy_now = 5, cy_clock = demo_noon,
     cy_newid = (\<lambda>i. ''m1''), cy_random = 0, cy_looks = (\<lambda>i. Look_raised), cy_poll = (\<lambda>v. (Inr 0, v)), cy_self_id = ''<2@b.com>'',
     cy_self_server = demo_server, cy_self_filed = Look_raised, cy_self_looks = [], cy_laps = [demo_lap], cy_mailbox = demo_mailbox\<rparr>"

lemma demo_prepared:
  "sweep demo_cfg demo_box = (0, demo_box)" "snd (plan demo_camp None demo_box) = demo_box"
  "snd (recover demo_env 5 (\<lambda>i. ''m1'') 0 ''me@b.com'' (Some (\<lambda>i. Look_raised)) demo_box) = demo_box" "self_tested demo_box"
  by code_simp+

lemma demo_cycle_runs:
  "cycle demo_cycle demo_box = (fst (cycle demo_cycle demo_box), fst (snd demo_ran), snd (snd demo_ran))"
  "cr_send (fst (cycle demo_cycle demo_box)) = Some (fst demo_ran)"
proof -
  obtain p where p: "plan demo_camp None demo_box = (p, demo_box)" using demo_prepared(2) by (metis prod.collapse)
  obtain rc where rc: "recover demo_env 5 (\<lambda>i. ''m1'') 0 ''me@b.com'' (Some (\<lambda>i. Look_raised)) demo_box = (rc, demo_box)"
    using demo_prepared(3) by (metis prod.collapse)
  have env: "sn_cfg demo_env = demo_cfg" "demo_box\<lparr>ob_conv := ob_conv demo_box\<rparr> = demo_box" by (simp_all add: demo_env_def)
  have out: "cy_camp demo_cycle = demo_camp" "ce_send demo_camp = demo_env" "cy_from demo_cycle = ''me@b.com''" "cy_who demo_cycle = ''w''"
    "cy_login demo_cycle = Logged_in" "cy_now demo_cycle = 5" "cy_clock demo_cycle = demo_noon" "cy_newid demo_cycle = (\<lambda>i. ''m1'')"
    "cy_random demo_cycle = 0" "cy_looks demo_cycle = (\<lambda>i. Look_raised)" "cy_poll demo_cycle = (\<lambda>v. (Inr 0, v))"
    "cy_laps demo_cycle = [demo_lap]" "cy_mailbox demo_cycle = demo_mailbox"
    by (simp_all only: demo_cycle_def demo_camp_def cycle_env.simps camp_env.simps)
  have "cycle demo_cycle demo_box = (fst (cycle demo_cycle demo_box), fst (snd demo_ran), snd (snd demo_ran))
      \<and> cr_send (fst (cycle demo_cycle demo_box)) = Some (fst demo_ran)"
    unfolding cycle_def cycle_ready_def Let_def out env p rc demo_prepared(1) prod.case
    by (simp add: env demo_prepared(1,4) demo_ran_def split: prod.split)
  then show "cycle demo_cycle demo_box = (fst (cycle demo_cycle demo_box), fst (snd demo_ran), snd (snd demo_ran))"
    "cr_send (fst (cycle demo_cycle demo_box)) = Some (fst demo_ran)" by blast+
qed

lemma demo_reached: "(sender_step demo_env ''me@b.com'')\<^sup>*\<^sup>* demo_start (demo_start\<lparr>sy_box := demo_box\<rparr>)"
proof -
  obtain b1 where b1: "demo_queued = Inr b1" using sum.collapse(2) [OF demo_facts(1)] by metis
  have "sender_step demo_env ''me@b.com'' demo_start (demo_start\<lparr>sy_box := b1\<rparr>)"
    by (rule s_prepare) (rule b1 [unfolded demo_queued_def], rule fresh_new)
  moreover have "sender_step demo_env ''me@b.com'' (demo_start\<lparr>sy_box := b1\<rparr>) (demo_start\<lparr>sy_box := b1, sy_box := demo_box\<rparr>)"
    by (rule s_world) (unfold demo_box_def b1 sum.case, simp_all)
  ultimately show ?thesis by (simp add: converse_rtranclp_into_rtranclp r_into_rtranclp)
qed

theorem cycle_keeps_promise_witness:
  "distinct (map (\<lambda>(i, stp, h). (i, stp)) (mb_took (fst (snd (cycle demo_cycle demo_box)))))
     \<and> (\<exists>s'. (sender_step demo_env ''me@b.com'')\<^sup>*\<^sup>* demo_start s' \<and> sy_sent s' = mb_took (fst (snd (cycle demo_cycle demo_box))))
     \<and> (\<exists>out. cr_send (fst (cycle demo_cycle demo_box)) = Some (Inr out) \<and> rn_sent out = 1)"
proof -
  let ?s = "demo_start\<lparr>sy_box := demo_box\<rparr>"
  have env: "ce_send (cy_camp demo_cycle) = demo_env" "cy_from demo_cycle = ''me@b.com''" "cy_laps demo_cycle = [demo_lap]"
    "cy_looks demo_cycle = (\<lambda>i. Look_raised)" "mb_took (cy_mailbox demo_cycle) = []"
    by (simp_all add: demo_cycle_def demo_camp_def demo_mailbox_def)
  have free: "\<forall>v. held (sy_at ?s v) = None" "sy_at ?s 0 = Idle" "mb_took (cy_mailbox demo_cycle) = sy_sent ?s"
    by (simp_all add: demo_start_def env(5))
  have looks: "looks_law (sy_sent ?s) (Some (cy_looks demo_cycle)) (planned_box demo_cycle (sy_box ?s))"
    unfolding env looks_law_def by simp
  have laps: "\<forall>l\<in>set (cy_laps demo_cycle). turn_law (cy_from demo_cycle) (lp_turn l)"
    unfolding env using demo_turn_law by (simp add: demo_lap_def)
  have ran: "cycle demo_cycle (sy_box ?s) = (fst (cycle demo_cycle demo_box), fst (snd demo_ran), snd (snd demo_ran))"
    using demo_cycle_runs(1) by simp
  note kept = cycle_keeps_promise [OF demo_starts, of demo_cycle ?s 0, unfolded env(1,2), OF demo_reached free(1,2) looks [unfolded env(1,2)] laps [unfolded env(2)] free(3) ran]
  have mb: "fst (snd (cycle demo_cycle demo_box)) = fst (snd demo_ran)" by (subst demo_cycle_runs(1)) (simp only: fst_conv snd_conv)
  obtain out where "fst demo_ran = Inr out" "rn_sent out = 1" using demo_ran_sent by (cases "fst demo_ran") auto
  then have "\<exists>out. cr_send (fst (cycle demo_cycle demo_box)) = Some (Inr out) \<and> rn_sent out = 1" unfolding demo_cycle_runs(2) by blast
  then show ?thesis using kept unfolding mb by blast
qed

end
