(* ===== verification/LeadSystem.thy ===== *)
theory LeadSystem
  imports LeadEngine OutreachCycle
begin

text \<open>
  What a run of discovery keeps, whatever the sources, the websites and the connection do: the interface of a property that the writes of
  the engine preserve, with the whole run proved once inside it, and its interpretations. At the end, leads as the sender sees them.
\<close>

subsection \<open>The interface\<close>

text \<open>\<open>keeps d\<close>: what is to be kept; \<open>allowed r\<close>: the old companies that may be recovered.\<close>

locale discovery_keeps =
  fixes keeps :: "leads \<Rightarrow> bool" and allowed :: "lead \<Rightarrow> bool"
  assumes keeps_log: "keeps d \<Longrightarrow> keeps (log_discovery source query i outcome detail d)"
    and keeps_query: "keeps d \<Longrightarrow> keeps (mark_query now source q results new error d)"
    and keeps_success: "keeps d \<Longrightarrow> keeps (source_success now source d)"
    and keeps_failure: "keeps d \<Longrightarrow> keeps (snd (source_failure now clock source error p d))"
    and keeps_store: "keeps d \<Longrightarrow> find_existing (ev_bracket e) d c (map fd_email (emails_of n)) = None \<Longrightarrow> store_company e now j c n d = Inr d' \<Longrightarrow> keeps d'"
    and keeps_recover: "keeps d \<Longrightarrow> allowed r \<Longrightarrow> recover_company e now r m d = Inr d' \<Longrightarrow> keeps d'"
    and may_recover: "keeps d \<Longrightarrow> r \<in> set (ls_companies d) \<Longrightarrow> old_company r \<Longrightarrow> allowed r"
begin

lemma screen_keeps: "keeps d \<Longrightarrow> screen e die cs fs st d = (fresh, st', d', x) \<Longrightarrow> keeps d'"
proof (induction e die cs fs st d rule: screen.induct)
  case (2 e die c cs fresh seen st d)
  then show ?case by (auto simp: Let_def keeps_log split: if_splits)
qed auto

lemma store_rows_keeps: "keeps dc \<Longrightarrow> keeps d \<Longrightarrow> store_rows e die rows st dc d = (x, st', dc', d') \<Longrightarrow> keeps dc' \<and> keeps d'"
proof (induction rows arbitrary: die st dc d)
  case (Cons r rows)
  obtain c n i now where r: "r = (c, n, i, now)" by (cases r)
  show ?case
  proof (cases "die = Some 0")
    case True
    then show ?thesis using Cons.prems by (simp add: r)
  next
    case False
    show ?thesis
    proof (cases "find_existing (ev_bracket e) d c (map fd_email (emails_of n))")
      case (Some m)
      then show ?thesis using Cons.prems False Cons.IH [OF Cons.prems(1) keeps_log [OF Cons.prems(2)]] by (simp add: r Let_def)
    next
      case None
      show ?thesis
      proof (cases "store_company e now i c n d")
        case (Inl y)
        then show ?thesis using Cons.prems False None by (simp add: r Let_def)
      next
        case (Inr d1)
        then have "keeps d1" using keeps_store [OF Cons.prems(2) None] by blast
        then show ?thesis using Cons.prems(3) False None Inr Cons.IH by (simp add: r Let_def)
      qed
    qed
  qed
qed auto

lemma apply_history_keeps:
  "keeps d \<Longrightarrow> (\<And>r n t. (r, n, t) \<in> set rows \<Longrightarrow> allowed r) \<Longrightarrow> apply_history e die rows st d = (x, st', d') \<Longrightarrow> keeps d'"
proof (induction rows arbitrary: die st d)
  case (Cons a rows)
  obtain r n now where a: "a = (r, n, now)" by (cases a)
  have al: "allowed r" "\<And>r n t. (r, n, t) \<in> set rows \<Longrightarrow> allowed r" using Cons.prems(2) a by auto
  show ?case
  proof (cases "recover_company e now r n d")
    case (Inl y)
    then show ?thesis using Cons.prems by (simp add: a Let_def split: if_splits)
  next
    case (Inr d1)
    then have "keeps d1" using keeps_recover [OF Cons.prems(1) al(1)] by blast
    then show ?thesis using Cons.prems(1,3) Inr Cons.IH al(2) by (simp add: a Let_def split: if_splits)
  qed
qed auto

lemma attempt_keeps:
  assumes "attempt e f s = (r, s')" and "keeps (dc_db s)" and "\<And>die s r s'. keeps (dc_db s) \<Longrightarrow> f die s = (r, s') \<Longrightarrow> keeps (dc_db s')"
  shows "keeps (dc_db s')"
  using assms by (auto simp: attempt_def split: prod.splits)

lemma db_call_keeps:
  assumes "db_call e f s = (r, s')" and "keeps (dc_db s)" and f: "\<And>die s r s'. keeps (dc_db s) \<Longrightarrow> f die s = (r, s') \<Longrightarrow> keeps (dc_db s')"
  shows "keeps (dc_db s')"
proof -
  obtain r1 s1 where one: "attempt e f s = (r1, s1)" by fastforce
  have "keeps (dc_db s1)" using attempt_keeps [OF one assms(2) f] .
  then show ?thesis using assms(1) one attempt_keeps [of e f s1 r s', OF _ _ f] unfolding db_call_def by (auto split: sum.splits if_splits)
qed

lemma unit_keeps: "(\<And>d. keeps d \<Longrightarrow> keeps (snd (f d))) \<Longrightarrow> keeps (dc_db s) \<Longrightarrow> unit_of f die s = (r, s') \<Longrightarrow> keeps (dc_db s')"
  unfolding unit_of_def by (auto split: if_splits prod.splits) (metis snd_conv)

lemma fields_keep [simp]:
  "dc_db (fail_with k t s) = dc_db s" "dc_db (bump_disc source k s) = dc_db s" "dc_db (exhaust source s) = dc_db s" "dc_db (snd (late e s)) = dc_db s"
  by (simp_all add: fail_with_def bump_disc_def exhaust_def late_def)

lemma plan_keeps: "db_call e (plan_batch e name) s = (r, s') \<Longrightarrow> keeps (dc_db s) \<Longrightarrow> keeps (dc_db s')"
  by (erule db_call_keeps) (auto simp: plan_batch_def Let_def elim!: unit_keeps [rotated 2] split: option.splits)

lemma failure_keeps: "db_call e (record_failure e name q err) s = (r, s') \<Longrightarrow> keeps (dc_db s) \<Longrightarrow> keeps (dc_db s')"
proof (erule db_call_keeps, assumption)
  fix die s r s'
  assume k: "keeps (dc_db s)" and f: "record_failure e name q err die s = (r, s')"
  show "keeps (dc_db s')"
  proof (rule unit_keeps [OF _ k f [unfolded record_failure_def Let_def]])
    fix d assume "keeps d"
    then show "keeps (snd (case source_failure (de_now e (dc_calls s)) (de_now e (dc_calls s)) name err (de_policy e) d of
        (h, d1) \<Rightarrow> (h, mark_query (de_now e (dc_calls s)) name q 0 0 err d1)))"
      using keeps_failure [of d] keeps_query by (auto split: prod.split) (metis snd_conv)
  qed
qed

lemma fresh_keeps: "db_call e (take_fresh e name cs) s = (r, s') \<Longrightarrow> keeps (dc_db s) \<Longrightarrow> keeps (dc_db s')"
proof (erule db_call_keeps, assumption)
  fix die s r s'
  assume k: "keeps (dc_db s)" and f: "take_fresh e name cs die s = (r, s')"
  then show "keeps (dc_db s')"
    using screen_keeps [OF keeps_success [OF k]] unfolding take_fresh_def by (auto split: prod.splits if_splits)
qed

lemma batch_keeps: "db_call e (store_batch e name q found before fresh ns) s = (r, s') \<Longrightarrow> keeps (dc_db s) \<Longrightarrow> keeps (dc_db s')"
proof (erule db_call_keeps, assumption)
  fix die s r s'
  assume k: "keeps (dc_db s)" and f: "store_batch e name q found before fresh ns die s = (r, s')"
  obtain x st dc d where rows: "store_rows (de_lead e) die (numbered e (dc_calls s) fresh ns) (dc_stats s) (dc_db s) (dc_db s) = (x, st, dc, d)"
    by (metis prod_cases4)
  have "keeps dc" "keeps d" using store_rows_keeps [OF k k rows] by simp_all
  then show "keeps (dc_db s')" using f keeps_query unfolding store_batch_def rows prod.case Let_def by (auto split: if_splits)
qed

lemma query_keeps: "run_query e name q s = (fl, s') \<Longrightarrow> keeps (dc_db s) \<Longrightarrow> keeps (dc_db s')"
proof (cases "de_search e (dc_calls s) name q")
  case (Found cs)
  assume run: "run_query e name q s = (fl, s')" and k: "keeps (dc_db s)"
  obtain r1 s1 where one: "db_call e (take_fresh e name cs) s = (r1, s1)" by fastforce
  have k1: "keeps (dc_db s1)" using fresh_keeps [OF one k] .
  show ?thesis
  proof (cases r1)
    case (Inl x)
    then show ?thesis using run Found one k1 by (auto simp: run_query_def keep_found_def)
  next
    case (Inr fresh)
    define ns where "ns = enrich_all (de_web e) (de_late_site e (dc_calls s1)) fresh"
    define s2 where "s2 = (if ns = None then fail_with (name @ '':batch'') (exn_text e ''ValueError'') s1 else s1)"
    define xs where "xs = (case ns of Some xs \<Rightarrow> xs | None \<Rightarrow> replicate (length fresh) None)"
    obtain r3 s3 where three: "db_call e (store_batch e name q (length cs) (ts_new (dc_stats s1)) fresh xs) s2 = (r3, s3)" by fastforce
    have "keeps (dc_db s2)" using k1 by (simp add: s2_def)
    then have "keeps (dc_db s3)" using batch_keeps [OF three] by simp
    moreover have "dc_db s' = dc_db s3"
      using run unfolding run_query_def Found searched.case keep_found_def one prod.case Inr sum.case Let_def
        ns_def [symmetric] s2_def [symmetric] xs_def [symmetric] three
      by (auto simp: bump_disc_def fail_with_def split: sum.splits)
    ultimately show ?thesis by simp
  qed
next
  case (Source_error err)
  assume run: "run_query e name q s = (fl, s')" and k: "keeps (dc_db s)"
  obtain r1 s1 where one: "db_call e (record_failure e name q err) s = (r1, s1)" by fastforce
  then show ?thesis using run Source_error failure_keeps [OF one k]
    by (auto simp: run_query_def search_failed_def Let_def split: sum.splits prod.splits if_splits)
qed (auto simp: run_query_def)

lemma late_keeps: "late e s = (l, s1) \<Longrightarrow> dc_db s1 = dc_db s"
  by (auto simp: late_def)

lemma run_batch_keeps: "run_batch e target name qs p s = (r, s') \<Longrightarrow> keeps (dc_db s) \<Longrightarrow> keeps (dc_db s')"
proof (induction qs arbitrary: p s)
  case (Cons q qs)
  obtain l s1 where l: "late e s = (l, s1)" by fastforce
  obtain fl s2 where q: "run_query e name q s1 = (fl, s2)" by fastforce
  have "keeps (dc_db s1)" using Cons.prems(2) late_keeps [OF l] by simp
  moreover from this have "keeps (dc_db s2)" using query_keeps [OF q] by simp
  ultimately show ?case using Cons.prems(1) Cons.IH by (auto simp: l q split: if_splits flow.splits)
qed simp

lemma run_sources_keeps: "run_sources e target names p s = (r, s') \<Longrightarrow> keeps (dc_db s) \<Longrightarrow> keeps (dc_db s')"
proof (induction names arbitrary: p s)
  case (Cons name names)
  obtain l s1 where l: "late e s = (l, s1)" by fastforce
  obtain r2 s2 where two: "db_call e (plan_batch e name) s1 = (r2, s2)" by fastforce
  have k1: "keeps (dc_db s1)" using Cons.prems(2) late_keeps [OF l] by simp
  have k2: "keeps (dc_db s2)" using plan_keeps [OF two k1] .
  have batch: "keeps (dc_db s3)" if "run_batch e target name qs p s2 = (x, s3)" for qs x s3 using run_batch_keeps [OF that k2] .
  show ?case using Cons.prems k1 k2 batch Cons.IH
    by (auto simp: l two split: if_splits sum.splits option.splits prod.splits)
qed simp

lemma run_rounds_keeps: "run_rounds e target active fuel s = Some (r, s') \<Longrightarrow> keeps (dc_db s) \<Longrightarrow> keeps (dc_db s')"
proof (induction fuel arbitrary: s)
  case (Suc fuel)
  obtain l s1 where l: "late e s = (l, s1)" by fastforce
  obtain r2 s2 where two: "run_sources e target active False s1 = (r2, s2)" by fastforce
  have "keeps (dc_db s1)" using Suc.prems(2) late_keeps [OF l] by simp
  moreover from this have "keeps (dc_db s2)" using run_sources_keeps [OF two] by simp
  ultimately show ?case using Suc.prems(1) Suc.IH by (auto simp: l two split: if_splits sum.splits)
qed simp

lemma history_keeps:
  assumes "db_call e (history_unit e rows) s = (r, s')" and "keeps (dc_db s)" and "\<And>r n. (r, n) \<in> set rows \<Longrightarrow> allowed r"
  shows "keeps (dc_db s')"
  using assms(1,2)
proof (rule db_call_keeps)
  fix die s r s'
  assume k: "keeps (dc_db s)" and f: "history_unit e rows die s = (r, s')"
  define ts where "ts = map (\<lambda>(r, n). (r, n, de_now e (dc_calls s))) rows"
  obtain x st d where run: "apply_history (de_lead e) die ts (dc_stats s) (dc_db s) = (x, st, d)" by (metis prod_cases3)
  have "allowed r" if "(r, n, t) \<in> set ts" for r n t using that assms(3) unfolding ts_def by auto
  then have "keeps d" using apply_history_keeps [OF k _ run] by blast
  then show "keeps (dc_db s')" using f unfolding history_unit_def ts_def [symmetric] run prod.case by auto
qed

lemma recover_history_keeps: "recover_history e s = (r, s') \<Longrightarrow> keeps (dc_db s) \<Longrightarrow> keeps (dc_db s')"
proof -
  assume run: "recover_history e s = (r, s')" and k: "keeps (dc_db s)"
  let ?f = "unit_of (\<lambda>d. (history_candidates (de_batch e) d, d))"
  obtain r1 s1 where one: "db_call e ?f s = (r1, s1)" by fastforce
  have k1: "keeps (dc_db s1)" by (rule db_call_keeps [OF one k]) (auto elim!: unit_keeps [rotated 2])
  have rows: "allowed x" if "r1 = Inr rows" "x \<in> set rows" for rows x
  proof -
    have "\<exists>d. keeps d \<and> rows = history_candidates (de_batch e) d"
      using one k that(1) unfolding db_call_def attempt_def unit_of_def by (auto split: prod.splits sum.splits if_splits)
    then show ?thesis using may_recover that(2) by (auto simp: history_candidates_def order_by_def dest!: in_set_takeD)
  qed
  show ?thesis
  proof (cases r1)
    case (Inl x)
    then show ?thesis using run one k1 by (auto simp: recover_history_def)
  next
    case (Inr xs)
    show ?thesis
    proof (cases "xs = [] \<or> enrich_old (de_web e) xs = None")
      case True
      then show ?thesis using run one k1 Inr by (auto simp: recover_history_def split: if_splits)
    next
      case False
      then obtain ns where ns: "enrich_old (de_web e) xs = Some ns" by blast
      have "db_call e (history_unit e ns) s1 = (r, s')" using run one Inr False ns by (simp add: recover_history_def)
      moreover have "allowed x" if "(x, n) \<in> set ns" for x n
        using rows [OF Inr] ns that unfolding enrich_old_def Let_def by (auto split: if_splits dest: set_zip_leftD)
      ultimately show ?thesis using history_keeps k1 by blast
    qed
  qed
qed

lemma history_step_keeps: "keeps (dc_db s) \<Longrightarrow> keeps (dc_db (history_step e s))"
proof -
  assume k: "keeps (dc_db s)"
  let ?s = "exhaust ''history_recovery'' s"
  obtain r1 s1 where one: "recover_history e ?s = (r1, s1)" by fastforce
  have k1: "keeps (dc_db s1)" using recover_history_keeps [OF one] k by simp
  define f where "f = unit_of (\<lambda>d. ((), source_success (de_now e (dc_calls s1)) ''history_recovery'' d))"
  have k2: "keeps (dc_db s2)" if "db_call e f s1 = (r2, s2)" for r2 s2
    by (rule db_call_keeps [OF that k1]) (auto simp: f_def keeps_success elim!: unit_keeps [rotated 2])
  obtain r3 s3 where three: "(case r1 of Inl x \<Rightarrow> (Inl x, s1) | Inr u \<Rightarrow> db_call e f s1) = (r3, s3)" by fastforce
  have k3: "keeps (dc_db s3)" using three k1 k2 by (auto split: sum.splits)
  show ?thesis
  proof (cases r3)
    case (Inl x)
    define g where "g = unit_of (\<lambda>d. source_failure (de_now e (dc_calls s3)) (de_now e (dc_calls s3)) ''history_recovery'' (x @ '': '' @ de_text e x) (de_policy e) d)"
    obtain r4 s4 where four: "db_call e g s3 = (r4, s4)" by fastforce
    have "keeps (dc_db s4)" by (rule db_call_keeps [OF four k3]) (auto simp: g_def keeps_failure elim!: unit_keeps [rotated 2])
    moreover have "history_step e s = fail_with ''history_recovery'' (exn_text e x) s4"
      unfolding history_step_def Let_def one prod.case f_def [symmetric] three [unfolded Inl] sum.case g_def [symmetric] four snd_conv ..
    ultimately show ?thesis by simp
  next
    case (Inr u)
    have "history_step e s = s3" unfolding history_step_def Let_def one prod.case f_def [symmetric] three [unfolded Inr] sum.case ..
    then show ?thesis using k3 by simp
  qed
qed

lemma discover_keeps: "discover e target active fuel s = Some (r, s') \<Longrightarrow> keeps (dc_db s) \<Longrightarrow> keeps (dc_db s')"
  unfolding discover_def using run_rounds_keeps history_step_keeps by (auto split: if_splits)

end

subsection \<open>The tables stay well-formed\<close>

lemma verdict_levels: "ve_level (qualify_lead br shown brands a n) \<in> set QUALIFICATIONS"
  unfolding qualify_lead_def site_verdict_def rejected_def low_def Let_def QUALIFICATIONS_def by (simp split: option.split)

lemma ready_site:
  assumes "ve_ready (site_verdict shown industry x)"
  obtains f where "best_email x = Some f" "fd_status f = ''validated''"
    "ve_level (site_verdict shown industry x) = ''HIGH'' \<or> ve_level (site_verdict shown industry x) = ''MEDIUM''"
proof (cases "best_email x")
  case None
  then show thesis using assms by (simp add: site_verdict_def rejected_def low_def Let_def split: if_splits)
next
  case (Some f)
  show thesis
    by (rule that [OF Some]) (use assms Some in \<open>simp_all add: site_verdict_def rejected_def low_def Let_def split: if_splits\<close>)
qed

lemma ready_lead:
  assumes "ve_ready (qualify_lead br shown brands a n)"
  obtains x f where "n = Some x" "best_email x = Some f" "fd_status f = ''validated''"
    "ve_level (qualify_lead br shown brands a n) = ''HIGH'' \<or> ve_level (qualify_lead br shown brands a n) = ''MEDIUM''"
proof (cases "listing_problem br brands a")
  case Some
  then show thesis using assms by (simp add: qualify_lead_def rejected_def)
next
  case l: None
  show thesis
  proof (cases n)
    case None
    then show thesis using assms l by (simp add: qualify_lead_def low_def)
  next
    case (Some x)
    have q: "qualify_lead br shown brands a n = site_verdict shown (as_industry a) x" using l Some by (simp add: qualify_lead_def)
    show thesis by (rule ready_site [OF assms [unfolded q]]) (rule that [unfolded q, OF Some])
  qed
qed

lemma outreach_levels: "outreach_of v \<in> {''rejected'', ''outreach_ready'', ''not_ready''}"
  by (simp add: outreach_of_def)

lemma statuses_known: "{''rejected'', ''outreach_ready'', ''not_ready''} \<subseteq> set OUTREACH_STATUSES"
  by (simp add: OUTREACH_STATUSES_def)

lemma reject_known: "''REJECT'' \<in> set QUALIFICATIONS" by (simp add: QUALIFICATIONS_def)

lemma add_findings_ok: "add_findings now i source fs d = Inr d' \<Longrightarrow> leads_ok d \<Longrightarrow> leads_ok d'"
  by (induction fs arbitrary: d) (auto split: sum.splits prod.splits dest: add_lead_contact_ok)

lemma store_company_ok: "store_company e now i c n d = Inr d' \<Longrightarrow> leads_ok d \<Longrightarrow> leads_ok d'"
  unfolding store_company_def Let_def by (auto split: sum.splits dest!: insert_company_ok add_findings_ok)

lemma recovered_row_fields [simp]:
  "co_id (recovered_row e now v clash n r) = co_id r" "co_norm_domain (recovered_row e now v clash n r) = co_norm_domain r"
  "co_first_contacted (recovered_row e now v clash n r) = co_first_contacted r"
  by (simp_all add: recovered_row_def)

lemma recovered_row_ok: "ve_level v \<in> set QUALIFICATIONS \<Longrightarrow> company_ok (recovered_row e now v clash n r)"
  unfolding recovered_row_def by (rule stamped_ok) (use statuses_known reject_known in auto)

lemma companies_ok_upd:
  assumes "companies_ok t" and "\<And>r. co_id (f r) = co_id r" and "\<And>r. co_norm_domain (f r) = co_norm_domain r" and "\<And>r. company_ok (f r)"
  shows "companies_ok (upd_where p f t)"
proof -
  have "List.map_filter co_norm_domain (upd_where p f t) = List.map_filter co_norm_domain t"
    unfolding upd_where_def by (induction t) (auto simp: List.map_filter_simps assms(3) split: option.split)
  moreover have "list_all company_ok (upd_where p f t)" using assms(1,4) by (auto simp: companies_ok_def list_all_iff upd_where_def)
  ultimately show ?thesis using assms(1) distinct_upd_where [of co_id f p t, OF assms(2)] by (simp add: companies_ok_def)
qed

lemma upd_companies_ok:
  assumes "leads_ok d" and "\<And>r. co_id (f r) = co_id r" and "\<And>r. co_norm_domain (f r) = co_norm_domain r" and "\<And>r. company_ok (f r)"
  shows "leads_ok (map_companies (upd_where p f) d)"
proof -
  have "co_id ` set (upd_where p f t) = co_id ` set t" for t using distinct_upd_where [of co_id f p t] assms(2) by (metis set_map)
  then show ?thesis using assms(1) companies_ok_upd [OF _ assms(2-4)] unfolding leads_ok_def by simp
qed

lemma recover_company_ok: "recover_company e now r n d = Inr d' \<Longrightarrow> leads_ok d \<Longrightarrow> leads_ok d'"
proof -
  assume run: "recover_company e now r n d = Inr d'" and ok: "leads_ok d"
  have v: "ve_level (history_verdict e r n) \<in> set QUALIFICATIONS" unfolding history_verdict_def by (rule verdict_levels)
  define d1 where "d1 = map_companies (upd_where (\<lambda>x. co_id x = co_id r) (recovered_row e now (history_verdict e r n) (email_clash e d r n) n)) d"
  have "leads_ok d1" unfolding d1_def by (rule upd_companies_ok [OF ok]) (simp_all add: recovered_row_ok [OF v])
  then show ?thesis using run unfolding recover_company_def Let_def d1_def [symmetric] by (auto split: sum.splits dest: add_findings_ok)
qed

interpretation sound: discovery_keeps leads_ok "\<lambda>r. True"
  by unfold_locales (auto simp: mark_query_ok health_keys source_failure_ok store_company_ok recover_company_ok)

subsection \<open>Who is spared\<close>

text \<open>A company as the engine leaves it when it touched it: never contacted, and ready only at level HIGH or MEDIUM, with the time it became so.\<close>

definition fresh_lead :: "lead \<Rightarrow> bool" where
  "fresh_lead r \<longleftrightarrow> co_first_contacted r = None \<and> co_outreach r \<in> {''rejected'', ''outreach_ready'', ''not_ready''}
     \<and> (co_outreach r = ''outreach_ready'' \<longrightarrow> (co_qualification r = ''HIGH'' \<or> co_qualification r = ''MEDIUM'') \<and> co_ready_at r \<noteq> None)"

text \<open>What was in \<open>d0\<close> is in \<open>d\<close>, rows of old companies apart; the rest is fresh.\<close>

definition spares :: "leads \<Rightarrow> leads \<Rightarrow> bool" where
  "spares d0 d \<longleftrightarrow> leads_ok d
     \<and> list_all (\<lambda>r. old_company r \<or> r \<in> set (ls_companies d)) (ls_companies d0)
     \<and> list_all (\<lambda>r. r \<in> set (ls_companies d0) \<or> fresh_lead r) (ls_companies d)
     \<and> take (length (ls_companies d0)) (map co_id (ls_companies d)) = map co_id (ls_companies d0)
     \<and> take (length (ls_contacts d0)) (ls_contacts d) = ls_contacts d0 \<and> ls_history d = ls_history d0"

definition may_touch :: "leads \<Rightarrow> lead \<Rightarrow> bool" where
  "may_touch d0 r \<longleftrightarrow> list_all (\<lambda>x. old_company x \<or> co_id x \<noteq> co_id r) (ls_companies d0)"

lemma spares_refl: "leads_ok d \<Longrightarrow> spares d d" by (simp add: spares_def list_all_iff)

lemma spares_mono:
  assumes "spares d0 d" and "leads_ok d'" and "ls_companies d' = ls_companies d" and "ls_history d' = ls_history d"
    and "\<exists>ks. ls_contacts d' = ls_contacts d @ ks"
  shows "spares d0 d'"
proof -
  have "take (length (ls_contacts d0)) (ls_contacts d) = ls_contacts d0" using assms(1) by (simp add: spares_def)
  then have "length (ls_contacts d0) \<le> length (ls_contacts d)" by (metis length_take min.absorb_iff2 min.commute nat_le_linear take_all)
  then show ?thesis using assms by (auto simp: spares_def)
qed

lemma add_lead_contact_rest:
  "add_lead_contact now i email st role source url d = Inr (x, d') \<Longrightarrow>
     ls_companies d' = ls_companies d \<and> ls_history d' = ls_history d \<and> (\<exists>ks. ls_contacts d' = ls_contacts d @ ks)"
  by (erule add_lead_contact_cases) auto

lemma add_findings_rest:
  "add_findings now i source fs d = Inr d' \<Longrightarrow>
     ls_companies d' = ls_companies d \<and> ls_history d' = ls_history d \<and> (\<exists>ks. ls_contacts d' = ls_contacts d @ ks)"
proof (induction fs arbitrary: d)
  case (Cons f fs)
  then obtain x d1 where one: "add_lead_contact now i (fd_email f) (fd_status f) (fd_role f) source (fd_url f) d = Inr (x, d1)" "add_findings now i source fs d1 = Inr d'"
    by (auto split: sum.splits)
  show ?case using add_lead_contact_rest [OF one(1)] Cons.IH [OF one(2)] by auto
qed auto

lemma log_rest [simp]:
  "ls_companies (log_discovery source query i outcome detail d) = ls_companies d" "ls_history (log_discovery source query i outcome detail d) = ls_history d"
  "ls_contacts (log_discovery source query i outcome detail d) = ls_contacts d"
  by (simp_all add: log_discovery_def)

lemma spares_findings: "spares d0 d \<Longrightarrow> add_findings now i source fs d = Inr d' \<Longrightarrow> spares d0 (log_discovery s q j o1 t d')"
proof -
  assume sp: "spares d0 d" and fs: "add_findings now i source fs d = Inr d'"
  have "leads_ok d'" using add_findings_ok [OF fs] sp by (simp add: spares_def)
  then show ?thesis using add_findings_rest [OF fs] by (intro spares_mono [OF sp]) simp_all
qed

lemma take_some: "take n xs = ys \<Longrightarrow> length ys = n \<Longrightarrow> take n (xs @ zs) = ys" by auto

lemma spares_insert:
  assumes "spares d0 d" and "insert_company br now i c f d = Inr d'" and "fresh_lead (stamp_ready now (new_company br now i c f))"
  shows "spares d0 d'"
proof -
  define r where "r = stamp_ready now (new_company br now i c f)"
  have d': "d' = map_companies (\<lambda>t. t @ [r]) d" using assms(2) unfolding insert_company_def r_def [symmetric] Let_def by (auto split: if_splits)
  have ok: "leads_ok d'" by (rule insert_company_ok [OF assms(2)]) (use assms(1) in \<open>simp add: spares_def\<close>)
  have t: "take (length (ls_companies d0)) (map co_id (ls_companies d) @ [co_id r]) = map co_id (ls_companies d0)"
    by (rule take_some) (use assms(1) in \<open>auto simp: spares_def\<close>)
  show ?thesis using assms(1) ok t assms(3) [folded r_def] unfolding spares_def d' by (auto simp: list_all_iff)
qed

lemma new_fresh:
  assumes "nf_first f = None" and "nf_outreach f = outreach_of v" and "nf_qualification f = ve_level v" and "ve_ready v \<Longrightarrow> ve_level v = ''HIGH'' \<or> ve_level v = ''MEDIUM''"
  shows "fresh_lead (stamp_ready now (new_company br now i c f))"
  using assms unfolding fresh_lead_def stamp_ready_def outreach_of_def by (simp add: new_company_def Let_def)

lemma store_company_spares:
  assumes "spares d0 d" and run: "store_company e now i c n d = Inr d'"
  shows "spares d0 d'"
proof -
  define v where "v = verdict_of e c n"
  define f where "f = \<lparr>nf_qualification = ve_level v, nf_reason = ve_reason v, nf_outreach = outreach_of v, nf_personalization = personalization_of c n,
     nf_historical = False, nf_enriched = (n \<noteq> None), nf_first = None, nf_last = None\<rparr>"
  obtain d1 where one: "insert_company (ev_bracket e) now i c f d = Inr d1"
    using run unfolding store_company_def Let_def v_def [symmetric] f_def [symmetric] by (auto split: sum.splits)
  obtain d2 where two: "add_findings now i (cd_source c) (emails_of n) d1 = Inr d2"
    and d': "\<exists>o1. d' = log_discovery (cd_source c) (cd_query c) (Some i) o1 (ve_reason v) d2"
    using run unfolding store_company_def Let_def v_def [symmetric] f_def [symmetric] one by (auto split: sum.splits)
  have lev: "ve_ready v \<Longrightarrow> ve_level v = ''HIGH'' \<or> ve_level v = ''MEDIUM''"
    unfolding v_def verdict_of_def by (erule ready_lead)
  have "fresh_lead (stamp_ready now (new_company (ev_bracket e) now i c f))"
    by (rule new_fresh [where v = v]) (simp_all add: f_def lev)
  then have "spares d0 d1" by (rule spares_insert [OF assms(1) one])
  then show ?thesis using spares_findings [OF _ two] d' by blast
qed

lemma recovered_fresh:
  assumes "co_first_contacted x = None" and "ve_ready v \<Longrightarrow> ve_level v = ''HIGH'' \<or> ve_level v = ''MEDIUM''"
  shows "fresh_lead (recovered_row e now v clash n x)"
  using assms unfolding fresh_lead_def recovered_row_def stamp_ready_def by simp

lemma spares_recover:
  assumes sp: "spares d0 d" and may: "may_touch d0 r"
    and f: "\<And>x. co_id (f x) = co_id x" "\<And>x. co_norm_domain (f x) = co_norm_domain x" "\<And>x. company_ok (f x)"
    and fr: "\<And>x. co_first_contacted x = None \<Longrightarrow> fresh_lead (f x)"
  shows "spares d0 (map_companies (upd_where (\<lambda>x. co_id x = co_id r) f) d)" (is "spares d0 ?d")
proof -
  have "leads_ok ?d" by (rule upd_companies_ok [OF _ f]) (use sp in \<open>simp add: spares_def\<close>)
  moreover have "map co_id (ls_companies ?d) = map co_id (ls_companies d)" by (simp add: distinct_upd_where f(1))
  moreover have "old_company x \<or> x \<in> set (ls_companies ?d)" if "x \<in> set (ls_companies d0)" for x
  proof (cases "old_company x")
    case False
    then have "x \<in> set (ls_companies d)" "co_id x \<noteq> co_id r" using sp may that by (auto simp: spares_def may_touch_def list_all_iff)
    then show ?thesis by (force simp: upd_where_def)
  qed simp
  moreover have "y \<in> set (ls_companies d0) \<or> fresh_lead y" if y: "y \<in> set (ls_companies ?d)" for y
  proof -
    obtain x where x: "x \<in> set (ls_companies d)" "y = (if co_id x = co_id r then f x else x)" using y by (auto simp: upd_where_def)
    have old: "x \<in> set (ls_companies d0) \<or> fresh_lead x" using sp x(1) by (auto simp: spares_def list_all_iff)
    show ?thesis
    proof (cases "co_id x = co_id r")
      case True
      have "co_first_contacted x = None" using old may True by (auto simp: may_touch_def list_all_iff old_company_def fresh_lead_def)
      then show ?thesis using fr x(2) True by simp
    qed (use old x in simp)
  qed
  ultimately show ?thesis using sp by (simp add: spares_def list_all_iff)
qed

lemma recover_company_spares:
  assumes "spares d0 d" and "may_touch d0 r" and run: "recover_company e now r n d = Inr d'"
  shows "spares d0 d'"
proof -
  define v where "v = history_verdict e r n"
  define d1 where "d1 = map_companies (upd_where (\<lambda>x. co_id x = co_id r) (recovered_row e now v (email_clash e d r n) n)) d"
  have "ve_level v \<in> set QUALIFICATIONS" unfolding v_def history_verdict_def by (rule verdict_levels)
  moreover have "ve_ready v \<Longrightarrow> ve_level v = ''HIGH'' \<or> ve_level v = ''MEDIUM''"
    unfolding v_def history_verdict_def by (erule ready_lead)
  ultimately have "spares d0 d1" unfolding d1_def
    by (intro spares_recover [OF assms(1,2)]) (simp_all add: recovered_row_ok recovered_fresh)
  moreover obtain d2 where two: "add_findings now (co_id r) ''history_recovery'' (en_emails n) d1 = Inr d2"
    and d': "\<exists>o1. d' = log_discovery ''history_recovery'' ''recheck'' (Some (co_id r)) o1 (ve_reason v) d2"
    using run unfolding recover_company_def Let_def v_def [symmetric] d1_def [symmetric] by (auto split: sum.splits)
  ultimately show ?thesis using spares_findings [OF _ two] d' by blast
qed

lemma may_touch_old: "spares d0 d \<Longrightarrow> r \<in> set (ls_companies d) \<Longrightarrow> old_company r \<Longrightarrow> may_touch d0 r"
proof -
  assume sp: "spares d0 d" and r: "r \<in> set (ls_companies d)" and old: "old_company r"
  have dist: "distinct (map co_id (ls_companies d))" using sp by (simp add: spares_def leads_ok_def companies_ok_def)
  have "old_company x \<or> co_id x \<noteq> co_id r" if x: "x \<in> set (ls_companies d0)" for x
  proof (rule ccontr)
    assume n: "\<not> (old_company x \<or> co_id x \<noteq> co_id r)"
    then have "x \<in> set (ls_companies d)" using sp x by (auto simp: spares_def list_all_iff)
    then have "x = r" using dist r n by (auto simp: distinct_map inj_on_def)
    then show False using n old by simp
  qed
  then show ?thesis by (simp add: may_touch_def list_all_iff)
qed

lemma rest_spares:
  assumes "spares d0 d"
  shows "spares d0 (mark_query now source q results new error d)" "spares d0 (source_success now source d)"
    "spares d0 (snd (source_failure now clock source error p d))" "spares d0 (log_discovery source query i outcome detail d)"
proof -
  have ok: "leads_ok d" using assms by (simp add: spares_def)
  show "spares d0 (mark_query now source q results new error d)"
    by (rule spares_mono [OF assms mark_query_ok [OF ok]]) (simp_all add: mark_query_def Let_def)
  show "spares d0 (source_success now source d)"
    by (rule spares_mono [OF assms health_keys(1) [OF ok]]) (simp_all add: source_success_def)
  show "spares d0 (snd (source_failure now clock source error p d))"
    by (rule spares_mono [OF assms source_failure_ok [OF ok]]) (simp_all add: source_failure_def count_failure_def Let_def)
  show "spares d0 (log_discovery source query i outcome detail d)"
    by (rule spares_mono [OF assms]) (simp_all add: ok)
qed

interpretation spare: discovery_keeps "spares d0" "may_touch d0" for d0
proof unfold_locales
  fix e now j c n d d'
  assume "spares d0 d" "store_company e now j c n d = Inr d'"
  then show "spares d0 d'" by (rule store_company_spares)
next
  fix e now r m d d'
  assume "spares d0 d" "may_touch d0 r" "recover_company e now r m d = Inr d'"
  then show "spares d0 d'" by (rule recover_company_spares)
qed (fact rest_spares may_touch_old)+

text \<open>C10. A run of discovery, whatever the sources, the websites and the connection do, keeps the tables well-formed and spares whoever was
  already there: every company other than an old import that was never contacted and never read keeps its row as it is, no id goes
  and no contact and no send of the history changes; what the run added or changed was never contacted, and is ready only at level HIGH or MEDIUM.\<close>

theorem discovery_spares_contacted:
  "(case discover e target active fuel s of None \<Rightarrow> True | Some (r, s') \<Rightarrow>
     if leads_ok (dc_db s)
     then leads_ok (dc_db s') \<and> ls_history (dc_db s') = ls_history (dc_db s)
       \<and> take (length (ls_contacts (dc_db s))) (ls_contacts (dc_db s')) = ls_contacts (dc_db s)
       \<and> set (map co_id (ls_companies (dc_db s))) \<subseteq> set (map co_id (ls_companies (dc_db s')))
       \<and> list_all (\<lambda>r. old_company r \<or> r \<in> set (ls_companies (dc_db s'))) (ls_companies (dc_db s))
       \<and> list_all (\<lambda>r. r \<in> set (ls_companies (dc_db s)) \<or> fresh_lead r) (ls_companies (dc_db s'))
     else True)"
proof (cases "discover e target active fuel s")
  case (Some x)
  obtain r s' where x: "x = (r, s')" by (cases x)
  show ?thesis
  proof (cases "leads_ok (dc_db s)")
    case True
    then have sp: "spares (dc_db s) (dc_db s')" using spare.discover_keeps [OF Some [unfolded x]] spares_refl by blast
    then have "set (map co_id (ls_companies (dc_db s))) \<subseteq> set (map co_id (ls_companies (dc_db s')))"
      unfolding spares_def by (metis set_take_subset)
    then show ?thesis using Some x sp True by (simp add: spares_def)
  qed (simp add: Some x)
qed simp

subsection \<open>A ready lead can be written to\<close>

lemma owner_found: "contacts_ok (co_id ` set (ls_companies d)) (ls_contacts d) \<Longrightarrow> k \<in> set (ls_contacts d) \<Longrightarrow> py_lower (ct_email k) = a \<Longrightarrow> email_owner d a \<noteq> None"
proof -
  assume ok: "contacts_ok (co_id ` set (ls_companies d)) (ls_contacts d)" and k: "k \<in> set (ls_contacts d)" "py_lower (ct_email k) = a"
  let ?p = "\<lambda>k. py_lower (ct_email k) = a \<and> list_ex (\<lambda>r. co_id r = ct_company k) (ls_companies d)"
  have "ct_company k \<in> co_id ` set (ls_companies d)" using ok k by (auto simp: contacts_ok_def list_all_iff)
  then have "?p k" using k by (force simp: list_ex_iff)
  then obtain k1 where k1: "find ?p (ls_contacts d) = Some k1" using k(1) find_None_iff [of ?p "ls_contacts d"] by (cases "find ?p (ls_contacts d)") auto
  then have "?p k1" by (auto simp: find_Some_iff)
  then have "find (\<lambda>r. co_id r = ct_company k1) (ls_companies d) \<noteq> None" by (auto simp: find_None_iff list_ex_iff)
  then show ?thesis by (simp add: email_owner_def k1)
qed

lemma free_email:
  assumes "leads_ok d" and "find_existing br d c es = None" and "a \<in> set es" and "normalize_email a \<noteq> []"
  shows "\<not> list_ex (\<lambda>k. py_lower (ct_email k) = normalize_email a) (ls_contacts d)"
proof
  assume "list_ex (\<lambda>k. py_lower (ct_email k) = normalize_email a) (ls_contacts d)"
  then have "email_owner d (normalize_email a) \<noteq> None" using owner_found assms(1) by (auto simp: list_ex_iff leads_ok_def)
  moreover have "(''email'', email_owner d (normalize_email a)) \<in> set (match_checks br d c es)"
    unfolding match_checks_def Let_def using assms(3,4) by auto
  ultimately show False using assms(2) by (auto simp: find_existing_def first_match_None list_all_iff)
qed

lemma validated_address: "mail_status w email = ''validated'' \<Longrightarrow> normalize_email email \<noteq> []"
  by (rule notI) (simp add: mail_status_def email_domain_def after_char_def Let_def)

lemma set_strip_by: "set (strip_by p s) \<subseteq> set s"
  unfolding strip_by_def rstrip_by_def lstrip_by_def by (auto dest!: set_dropWhileD)

lemma lower_subset: "set s \<subseteq> set (py_lower t) \<Longrightarrow> py_lower s = s"
  unfolding py_lower_def by (rule map_idI) auto

lemma normalize_email_lower [simp]: "py_lower (normalize_email email) = normalize_email email"
proof -
  define v where "v = py_lower (py_strip email)"
  define v1 where "v1 = (if startswith v ''mailto:'' then drop 7 v else v)"
  have "set (strip_by email_edge (py_strip (before_char (CHR ''?'') v1))) \<subseteq> set v1"
    using set_strip_by set_before_char unfolding py_strip_def by (meson order_trans)
  also have "set v1 \<subseteq> set v" unfolding v1_def by (auto dest: in_set_dropD)
  finally have "py_lower (strip_by email_edge (py_strip (before_char (CHR ''?'') v1))) = strip_by email_edge (py_strip (before_char (CHR ''?'') v1))"
    unfolding v_def by (rule lower_subset)
  then show ?thesis unfolding normalize_email_def Let_def v_def [symmetric] v1_def [symmetric] by (simp add: py_lower_def)
qed

lemma add_findings_in: "add_findings now i source fs d = Inr d' \<Longrightarrow> k \<in> set (ls_contacts d) \<Longrightarrow> k \<in> set (ls_contacts d')"
  using add_findings_rest by fastforce

text \<open>The sender works on the same tables.\<close>

definition sender_tables :: "leads \<Rightarrow> conv \<Rightarrow> conv" where
  "sender_tables d c = c\<lparr>cv_companies := map company.truncate (ls_companies d), cv_contacts := map contact.truncate (ls_contacts d), cv_history := ls_history d\<rparr>"

lemma first_finding_added:
  assumes "add_findings now i source (f # fs) d = Inr d'" and "normalize_email (fd_email f) \<noteq> []"
    and "\<not> list_ex (\<lambda>k. py_lower (ct_email k) = normalize_email (fd_email f)) (ls_contacts d)"
  shows "\<exists>k \<in> set (ls_contacts d'). ct_company k = i \<and> ct_status k = fd_status f \<and> ct_email k = normalize_email (fd_email f)"
proof -
  obtain x d1 where one: "add_lead_contact now i (fd_email f) (fd_status f) (fd_role f) source (fd_url f) d = Inr (x, d1)"
    and two: "add_findings now i source fs d1 = Inr d'"
    using assms(1) by (auto split: sum.splits)
  define k where "k = \<lparr>ct_company = i, ct_email = normalize_email (fd_email f), ct_status = fd_status f, ct_role = Some (fd_role f),
             ct_discovered = now, lc_source = source, lc_url = or_none (fd_url f)\<rparr>"
  have "d1 = d\<lparr>ls_contacts := ls_contacts d @ [k]\<rparr>"
    using one assms(2,3) unfolding add_lead_contact_def Let_def k_def by (auto split: if_splits)
  then have "k \<in> set (ls_contacts d')" by (intro add_findings_in [OF two]) simp
  then show ?thesis by (intro bexI [of _ k]) (simp_all add: k_def)
qed

lemma zero_below: "(if p then 0 else 1) \<le> (if True then 0 else (1 :: int)) \<Longrightarrow> p" by (simp split: if_splits)

lemma if_true_intro: "(p \<Longrightarrow> q) \<Longrightarrow> if p then q else True" by simp

lemma fst_mono: "(x :: 'a :: linorder \<times> 'b :: linorder) \<le> y \<Longrightarrow> fst x \<le> fst y"
  by (auto simp: less_eq_prod_def)

lemma truncated_contact [simp]:
  "ct_company (contact.truncate k) = ct_company k" "ct_status (contact.truncate k) = ct_status k" "ct_role (contact.truncate k) = ct_role k"
  "ct_email (contact.truncate k) = ct_email k" "ct_discovered (contact.truncate k) = ct_discovered k"
  by (simp_all add: contact.defs)

lemma validated_usable:
  assumes "k \<in> set (ls_contacts d)" and "ct_company k = i" and "ct_status k = ''validated''"
  obtains k' where "usable_contact (sender_tables d c) i = Some k'" "ct_company k' = i" "ct_status k' = ''validated''"
proof -
  define key where "key = (\<lambda>k :: contact. (if ct_status k = ''validated'' then 0 else (1 :: int),
       (case ct_role k of None \<Rightarrow> 0 | Some r \<Rightarrow> if r = ''generic'' then 1 else (2 :: int)), ct_discovered k))"
  define t where "t = filter (\<lambda>k. ct_company k = i \<and> (ct_status k = ''validated'' \<or> ct_status k = ''published'')) (cv_contacts (sender_tables d c))"
  have u: "usable_contact (sender_tables d c) i = least_by key t" by (simp add: usable_contact_def key_def t_def)
  have k: "contact.truncate k \<in> set t" "ct_status (contact.truncate k) = ''validated''"
    using assms imageI [OF assms(1), of contact.truncate] by (simp_all add: t_def sender_tables_def)
  then obtain k' where k': "least_by key t = Some k'" using least_by_None [of key t] by (cases "least_by key t") auto
  have in': "k' \<in> set t" by (rule least_by_Some_in [OF k'])
  have "fst (key k') \<le> fst (key (contact.truncate k))" by (rule fst_mono) (rule least_by_Some_le [OF k' k(1)])
  moreover have "fst (key x) = (if ct_status x = ''validated'' then 0 else 1)" for x by (simp only: key_def fst_conv)
  ultimately have "(if ct_status k' = ''validated'' then 0 else 1) \<le> (if True then 0 else (1 :: int))" by (simp only: k(2) refl)
  then have "ct_status k' = ''validated''" by (rule zero_below)
  moreover have "ct_company k' = i" using in' unfolding t_def by (simp only: set_filter mem_Collect_eq)
  ultimately show thesis using that u k' by (simp only:)
qed

text \<open>C11. A lead that is found ready can be sent to: when a candidate that is no company yet is stored with what its site gave and its verdict is
  ready, then, unless the insert itself is refused, the sender finds its company ready and never contacted and picks for it
  a contact with a validated address.\<close>

theorem ready_lead_reachable:
  "(case enrich_website w website extra of None \<Rightarrow> True | Some n \<Rightarrow>
     (case store_company e now i c (Some n) d of Inl x \<Rightarrow> True | Inr d' \<Rightarrow>
       if leads_ok d \<and> find_existing (ev_bracket e) d c (map fd_email (en_emails n)) = None \<and> ve_ready (verdict_of e c (Some n))
       then list_ex (\<lambda>r. co_id r = i \<and> ready_company r) (cv_companies (sender_tables d' b))
         \<and> (case usable_contact (sender_tables d' b) i of None \<Rightarrow> False | Some k \<Rightarrow> ct_company k = i \<and> ct_status k = ''validated'')
       else True))"
proof -
  have "list_ex (\<lambda>r. co_id r = i \<and> ready_company r) (cv_companies (sender_tables d' b))
         \<and> (case usable_contact (sender_tables d' b) i of None \<Rightarrow> False | Some k \<Rightarrow> ct_company k = i \<and> ct_status k = ''validated'')"
    if n: "enrich_website w website extra = Some n" and run: "store_company e now i c (Some n) d = Inr d'" and ok: "leads_ok d"
      and new: "find_existing (ev_bracket e) d c (map fd_email (en_emails n)) = None" and ready: "ve_ready (verdict_of e c (Some n))" for n d'
  proof -
    define v where "v = verdict_of e c (Some n)"
    obtain f where best: "best_email n = Some f" "fd_status f = ''validated''" and lev: "ve_level v = ''HIGH'' \<or> ve_level v = ''MEDIUM''"
      using ready unfolding v_def verdict_of_def by (elim ready_lead) auto
    then obtain fs where fs: "en_emails n = f # fs" by (auto simp: best_email_def split: list.splits)
    define nf where "nf = \<lparr>nf_qualification = ve_level v, nf_reason = ve_reason v, nf_outreach = outreach_of v,
      nf_personalization = personalization_of c (Some n), nf_historical = False, nf_enriched = (Some n \<noteq> None), nf_first = None, nf_last = None\<rparr>"
    obtain d1 where one: "insert_company (ev_bracket e) now i c nf d = Inr d1"
      using run unfolding store_company_def Let_def v_def [symmetric] nf_def [symmetric] by (auto split: sum.splits)
    obtain d2 where two: "add_findings now i (cd_source c) (f # fs) d1 = Inr d2"
      and d': "\<exists>o1. d' = log_discovery (cd_source c) (cd_query c) (Some i) o1 (ve_reason v) d2"
      using run unfolding store_company_def Let_def v_def [symmetric] nf_def [symmetric] one emails_of_def option.case fs by (auto split: sum.splits)
    define r where "r = stamp_ready now (new_company (ev_bracket e) now i c nf)"
    have d1: "d1 = map_companies (\<lambda>t. t @ [r]) d" using one unfolding insert_company_def r_def [symmetric] Let_def by (auto split: if_splits)
    have same: "ls_companies d' = ls_companies d1" "ls_contacts d' = ls_contacts d2" using d' add_findings_rest [OF two] by auto
    have "mail_status w (fd_email f) = ''validated''" using enriched_status [OF n, of f] best(2) fs by simp
    then have em: "normalize_email (fd_email f) \<noteq> []" by (rule validated_address)
    have "\<not> list_ex (\<lambda>k. py_lower (ct_email k) = normalize_email (fd_email f)) (ls_contacts d1)"
      using free_email [OF ok new _ em] by (simp add: d1 fs)
    then obtain k where k: "k \<in> set (ls_contacts d')" "ct_company k = i" "ct_status k = ''validated''"
      using first_finding_added [OF two em] best(2) same(2) by metis
    have "ready_company (company.truncate r)" "co_id (company.truncate r) = i"
      using ready lev unfolding v_def [symmetric] r_def ready_company_def stamp_ready_def
      by (simp_all add: new_company_def Let_def nf_def outreach_of_def company.defs) auto
    moreover have "company.truncate r \<in> set (cv_companies (sender_tables d' b))" by (simp add: sender_tables_def same(1) d1)
    moreover obtain k' where "usable_contact (sender_tables d' b) i = Some k'" "ct_company k' = i" "ct_status k' = ''validated''"
      by (rule validated_usable [OF k])
    ultimately show ?thesis by (auto simp: list_ex_iff)
  qed
  note reach = this
  show ?thesis
  proof (cases "enrich_website w website extra")
    case (Some n)
    show ?thesis
    proof (cases "store_company e now i c (Some n) d")
      case (Inr d')
      show ?thesis unfolding Some option.case Inr sum.case
        by (rule if_true_intro) (elim conjE, rule reach [OF Some Inr])
    qed (simp add: Some)
  qed simp
qed

subsection \<open>A run ends\<close>

text \<open>Work on the database does not look at the clock of the run.\<close>

lemma attempt_looks: "attempt e f s = (r, s') \<Longrightarrow> (\<And>die s r s'. f die s = (r, s') \<Longrightarrow> dc_looks s' = dc_looks s) \<Longrightarrow> dc_looks s' = dc_looks s"
  by (auto simp: attempt_def split: prod.splits)

lemma db_call_looks:
  assumes "db_call e f s = (r, s')" and f: "\<And>die s r s'. f die s = (r, s') \<Longrightarrow> dc_looks s' = dc_looks s"
  shows "dc_looks s' = dc_looks s"
proof -
  obtain r1 s1 where one: "attempt e f s = (r1, s1)" by fastforce
  have "dc_looks s1 = dc_looks s" using attempt_looks [OF one f] .
  then show ?thesis using assms(1) one attempt_looks [of e f s1 r s', OF _ f] unfolding db_call_def by (auto split: sum.splits if_splits)
qed

lemma unit_looks: "unit_of f die s = (r, s') \<Longrightarrow> dc_looks s' = dc_looks s"
  by (auto simp: unit_of_def split: if_splits prod.splits)

lemma units_look:
  "plan_batch e name die s = (r1, s') \<Longrightarrow> dc_looks s' = dc_looks s"
  "record_failure e name q err die s = (r2, s') \<Longrightarrow> dc_looks s' = dc_looks s"
  "take_fresh e name cs die s = (r3, s') \<Longrightarrow> dc_looks s' = dc_looks s"
  "store_batch e name q found before fresh ns die s = (r4, s') \<Longrightarrow> dc_looks s' = dc_looks s"
  "history_unit e rows die s = (r5, s') \<Longrightarrow> dc_looks s' = dc_looks s"
  unfolding plan_batch_def record_failure_def Let_def
  by (auto simp: take_fresh_def store_batch_def history_unit_def Let_def dest: unit_looks split: prod.splits if_splits)

lemma looks_same [simp]:
  "dc_looks (fail_with k t s) = dc_looks s" "dc_looks (bump_disc source k s) = dc_looks s" "dc_looks (exhaust source s) = dc_looks s"
  by (simp_all add: fail_with_def bump_disc_def exhaust_def)

lemma failed_looks: "search_failed e name q err s = (fl, s') \<Longrightarrow> dc_looks s' = dc_looks s"
proof -
  assume run: "search_failed e name q err s = (fl, s')"
  obtain r1 s1 where one: "db_call e (record_failure e name q err) s = (r1, s1)" by fastforce
  have "dc_looks s1 = dc_looks s" by (rule db_call_looks [OF one units_look(2)])
  then show ?thesis using run one by (auto simp: search_failed_def Let_def split: sum.splits prod.splits if_splits)
qed

lemma found_looks: "keep_found e name q cs s = (fl, s') \<Longrightarrow> dc_looks s' = dc_looks s"
proof -
  assume run: "keep_found e name q cs s = (fl, s')"
  obtain r1 s1 where one: "db_call e (take_fresh e name cs) s = (r1, s1)" by fastforce
  have l1: "dc_looks s1 = dc_looks s" by (rule db_call_looks [OF one units_look(3)])
  show ?thesis
  proof (cases r1)
    case (Inl x)
    then show ?thesis using run one l1 by (auto simp: keep_found_def)
  next
    case (Inr fresh)
    define ns where "ns = enrich_all (de_web e) (de_late_site e (dc_calls s1)) fresh"
    define s2 where "s2 = (if ns = None then fail_with (name @ '':batch'') (exn_text e ''ValueError'') s1 else s1)"
    define xs where "xs = (case ns of Some xs \<Rightarrow> xs | None \<Rightarrow> replicate (length fresh) None)"
    obtain r3 s3 where three: "db_call e (store_batch e name q (length cs) (ts_new (dc_stats s1)) fresh xs) s2 = (r3, s3)" by fastforce
    have "dc_looks s3 = dc_looks s2" by (rule db_call_looks [OF three units_look(4)])
    also have "dc_looks s2 = dc_looks s1" by (simp add: s2_def)
    finally show ?thesis using run l1 unfolding keep_found_def one prod.case Inr sum.case Let_def
        ns_def [symmetric] s2_def [symmetric] xs_def [symmetric] three
      by (auto simp: bump_disc_def fail_with_def split: sum.splits)
  qed
qed

lemma query_looks: "run_query e name q s = (fl, s') \<Longrightarrow> dc_looks s' = dc_looks s"
  by (auto simp: run_query_def dest: failed_looks found_looks split: searched.splits)

lemma late_looks: "late e s = (l, s') \<Longrightarrow> dc_looks s' = Suc (dc_looks s) \<and> l = de_late e (dc_looks s)"
  by (auto simp: late_def)

lemma run_batch_looks: "run_batch e target name qs p s = (r, s') \<Longrightarrow> dc_looks s \<le> dc_looks s'"
proof (induction qs arbitrary: p s)
  case (Cons q qs)
  obtain l s1 where l: "late e s = (l, s1)" by fastforce
  obtain fl s2 where q: "run_query e name q s1 = (fl, s2)" by fastforce
  have s2: "dc_looks s2 = Suc (dc_looks s)" using query_looks [OF q] late_looks [OF l] by simp
  have step: "dc_looks s \<le> dc_looks s'" if "run_batch e target name qs p1 s2 = (r, s')" for p1 using Cons.IH [OF that] s2 by simp
  show ?case using Cons.prems late_looks [OF l] s2 by (auto simp: l q elim: step split: if_splits flow.splits)
qed simp

lemma run_sources_looks: "run_sources e target names p s = (r, s') \<Longrightarrow> dc_looks s \<le> dc_looks s'"
proof (induction names arbitrary: p s)
  case (Cons name names)
  obtain l s1 where l: "late e s = (l, s1)" by fastforce
  obtain r2 s2 where two: "db_call e (plan_batch e name) s1 = (r2, s2)" by fastforce
  have s1: "dc_looks s1 = Suc (dc_looks s)" using late_looks [OF l] by simp
  have s2: "dc_looks s2 = dc_looks s1" by (rule db_call_looks [OF two units_look(1)])
  have step: "dc_looks s \<le> dc_looks s'" if "run_sources e target names p1 t = (r, s')" "dc_looks s \<le> dc_looks t" for p1 t
    using Cons.IH [OF that(1)] that(2) by simp
  have batch: "dc_looks s \<le> dc_looks s3" if "run_batch e target name qs p s2 = (x, s3)" for qs x s3 using run_batch_looks [OF that] s1 s2 by simp
  show ?case
    using Cons.prems s1 s2 by (auto simp: l two split: if_splits sum.splits option.splits prod.splits elim: step dest: batch)
qed simp

lemma run_rounds_end:
  assumes late: "\<And>k. N \<le> k \<Longrightarrow> de_late e k"
  shows "N \<le> dc_looks s + fuel \<Longrightarrow> run_rounds e target active (Suc fuel) s \<noteq> None"
proof (induction fuel arbitrary: s)
  case 0
  then show ?case using late [of "dc_looks s"] by (simp add: late_def)
next
  case (Suc fuel)
  obtain l s1 where l: "late e s = (l, s1)" by fastforce
  obtain r2 s2 where two: "run_sources e target active False s1 = (r2, s2)" by fastforce
  have "Suc (dc_looks s) \<le> dc_looks s2" using run_sources_looks [OF two] late_looks [OF l] by simp
  then have "run_rounds e target active (Suc fuel) s2 \<noteq> None" using Suc by simp
  then show ?case unfolding run_rounds.simps(2) [of e target active "Suc fuel" s] l two prod.case by (simp del: run_rounds.simps split: sum.split)
qed

text \<open>C12. A run of discovery ends: when the deadline has passed from the \<open>N\<close>th look at the clock on, more than \<open>N\<close> rounds are
  enough, whatever the sources answer and however often the connection dies.\<close>

theorem discovery_ends:
  assumes "\<And>k. N \<le> k \<Longrightarrow> de_late e k" and "N < fuel"
  shows "\<exists>r s'. discover e target active fuel s = Some (r, s')"
proof -
  obtain n where n: "fuel = Suc n" "N \<le> n" using assms(2) by (cases fuel) auto
  have "run_rounds e target active (Suc n) t \<noteq> None" for t
    by (rule run_rounds_end [where N = N, OF assms(1)]) (assumption, use n(2) in linarith)
  then show ?thesis unfolding discover_def n(1) by auto
qed

text \<open>A source whose one query finds nothing, and a deadline that has passed at the third look.\<close>

definition quiet_run :: disc_env where
  "quiet_run = \<lparr>de_lead = \<lparr>ev_bracket = (\<lambda>s. False), ev_shown = (\<lambda>v. []), ev_brands = []\<rparr>,
     de_web = \<lparr>wb_get = (\<lambda>u. No_page (Some 404) False), wb_unescape = id, wb_mx = (\<lambda>d. False), wb_join = (\<lambda>b u. None), wb_utf8 = (\<lambda>ns. []),
       wb_bracket = (\<lambda>s. False), wb_max_pages = 3\<rparr>,
     de_policy = \<lparr>fp_after = 3, fp_base = 10, fp_max = 60\<rparr>, de_per_source = 1, de_repeat = 0, de_batch = 5, de_feedback = (\<lambda>k. None),
     de_catalog = (\<lambda>s. [\<lparr>lq_query = ''roofers in Tampa'', lq_industry = None, lq_location = None, lq_extra = []\<rparr>]),
     de_search = (\<lambda>k s q. Found []), de_late = (\<lambda>k. 3 \<le> k), de_late_site = (\<lambda>k c. False), de_now = int, de_dies = (\<lambda>k. None),
     de_id = (\<lambda>k j. []), de_until = (\<lambda>t x. []), de_text = (\<lambda>x. [])\<rparr>"

definition no_leads :: disc where
  "no_leads = \<lparr>dc_db = \<lparr>ls_companies = [], ls_contacts = [], ls_log = [], ls_history = [], ls_queries = [], ls_health = []\<rparr>,
     dc_stats = \<lparr>ts_queries = 0, ts_raw = 0, ts_duplicates = 0, ts_new = 0, ts_qualified = 0, ts_ready = 0, ts_rejected = 0, ts_low = 0,
       ts_recovered = 0, ts_errors = [], ts_sources = [], ts_samples = []\<rparr>, dc_exhausted = [], dc_looks = 0, dc_calls = 0\<rparr>"

lemma discovery_ends_witness: "\<exists>r s'. discover quiet_run 10 [''osm''] 4 no_leads = Some (r, s')"
  by (rule discovery_ends [of 3]) (simp_all add: quiet_run_def)

end
