(* ===== verification/LeadBatch.thy ===== *)
theory LeadBatch
  imports LeadPipeline LeadSystem
begin

text \<open>
  What the unattended batch of \<open>LeadPipeline\<close> guarantees and where it does not do what it means to: who has the lock and when, how an item
  can go, what every step keeps of the tables, and a whole batch with its \<open>finally\<close>.
\<close>

subsection \<open>The lock\<close>

text \<open>What runs do with the lock, in any order.\<close>

datatype lock_op = Take time str | Give str "str option" nat "batch_report option"

fun lock_run :: "lock_op list \<Rightarrow> pipe \<Rightarrow> bool list \<times> pipe" where
  "lock_run [] s = ([], s)"
| "lock_run (Take t token # ops) s = (case acquire_batch_lock t token s of ((ok, r), s1) \<Rightarrow> case lock_run ops s1 of (oks, s2) \<Rightarrow> (ok # oks, s2))"
| "lock_run (Give token mark n stats # ops) s = lock_run ops (release_batch_lock token mark n stats s)"

definition foreign_op :: "time \<Rightarrow> str \<Rightarrow> lock_op \<Rightarrow> bool" where
  "foreign_op t token x = (case x of Take u k \<Rightarrow> u - t < lock_timeout | Give k mark n stats \<Rightarrow> k \<noteq> token \<and> k \<noteq> [])"

definition locked_by :: "time \<Rightarrow> str \<Rightarrow> pipe \<Rightarrow> bool" where
  "locked_by t token s \<longleftrightarrow> (case pp_check s of None \<Rightarrow> False | Some r \<Rightarrow> cp_running r \<and> cp_locked r = Some t \<and> cp_token r = Some token)"

lemma lock_kept: "locked_by t token s \<Longrightarrow> list_all (foreign_op t token) ops \<Longrightarrow> lock_run ops s = (oks, s') \<Longrightarrow> list_all Not oks \<and> locked_by t token s'"
proof (induction ops s arbitrary: oks rule: lock_run.induct)
  case (2 u k ops s)
  obtain r where r: "pp_check s = Some r" "cp_running r" "cp_locked r = Some t" "cp_token r = Some token"
    using "2.prems"(1) by (auto simp: locked_by_def split: option.splits)
  have "lock_held u r" using r "2.prems"(2) by (simp add: lock_held_def foreign_op_def)
  then have acq: "acquire_batch_lock u k s = ((False, r), s)" using r(1) by (simp add: acquire_batch_lock_def checkpoint_row_def Let_def)
  show ?case using "2.prems" "2.IH" [OF acq [symmetric] refl] by (auto simp: acq split: prod.splits)
next
  case (3 k mark n stats ops s)
  then show ?case by (auto simp: release_batch_lock_def locked_by_def foreign_op_def may_release_def split: option.splits)
qed auto



lemma acquires: "pp_check s = Some r \<Longrightarrow> fst (fst (acquire_batch_lock now token s)) \<longleftrightarrow> \<not> lock_held now r"
  by (simp add: acquire_batch_lock_def checkpoint_row_def Let_def)


lemma released_free: "locked_by t token s \<Longrightarrow> fst (fst (acquire_batch_lock u token2 (release_batch_lock token mark n stats s)))"
  by (auto simp: locked_by_def release_batch_lock_def may_release_def released_def acquires lock_held_def split: option.splits)

lemma acquired: "acquire_batch_lock t token s = ((True, r), s') \<Longrightarrow> locked_by t token s'"
  by (auto simp: acquire_batch_lock_def Let_def locked_by_def split: if_splits)

text \<open>C17. The lock excludes: once a run has taken it, no other run takes it within fifteen minutes, whatever the others try and however they give their
  own locks back, and it stays the run's own; when the run gives it back, the next one gets it.\<close>

theorem batch_lock_exclusive:
  "(case acquire_batch_lock t token s of ((ok, r), s1) \<Rightarrow> case lock_run ops s1 of (oks, s2) \<Rightarrow>
     if ok \<and> list_all (foreign_op t token) ops
     then list_all Not oks \<and> locked_by t token s2
       \<and> fst (fst (acquire_batch_lock u token2 (release_batch_lock token mark n stats s2)))
     else True)"
proof (cases "acquire_batch_lock t token s")
  case (Pair a s1)
  obtain ok r where a: "a = (ok, r)" by (cases a)
  obtain oks s2 where run: "lock_run ops s1 = (oks, s2)" by fastforce
  show ?thesis
  proof (cases "ok \<and> list_all (foreign_op t token) ops")
    case True
    then have "locked_by t token s1" using acquired Pair a by simp
    then have kept: "list_all Not oks" "locked_by t token s2" using lock_kept run True by blast+
    note released_free [OF kept(2), of u token2 mark n stats]
    then show ?thesis using kept True Pair a run by simp
  next
    case False
    then show ?thesis by (simp add: Pair a run if_not_P [OF False])
  qed
qed

subsection \<open>An item\<close>



subsection \<open>The tables\<close>







lemma batch_row_fields [simp]:
  "co_id (batch_row now v n r) = co_id r" "co_norm_domain (batch_row now v n r) = co_norm_domain r" "co_outreach (batch_row now v n r) = outreach_of v"
  by (simp_all add: batch_row_def)














subsection \<open>Giving the lock back\<close>





end
