(* ===== verification/Spec2Isabelle.thy ===== *)
theory Spec2Isabelle
  imports QueueSystem Handlers RouterPolicy ConvReply LeadBatch
begin

text \<open>
  Cloud AI OS. A verification development for the parts of the program that decide: the job queue and
  its workers, the router to AI subscriptions with its privacy gate, the conversation memory with
  the send guard, the reply classifier and the reply pipeline, the outreach sender with its campaign, and the
  lead engine.

  \<^bold>\<open>The program.\<close> Jobs enter a Postgres table through the API (\<open>api/store.py\<close>); worker processes
  (\<open>worker/loop.py\<close>) claim them with \<open>SELECT \<dots> FOR UPDATE SKIP LOCKED\<close> (\<open>worker/queue.py\<close>), dispatch them
  to handlers (\<open>worker/handlers.py\<close>, \<open>worker/task_exec.py\<close>) and settle them. Handlers that need a model call the
  router (\<open>router/levels.py\<close>), which asks the privacy gate (\<open>privacy/\<close>) and then the subscription
  command-line tools in turn (\<open>router/providers/\<close>), counting usage (\<open>router/quota.py\<close>). Old rows are pruned
  (\<open>worker/retention.py\<close>), the owner is told through a notification table (\<open>notify.py\<close>). Beside the queue,
  emails to companies are guarded and remembered (\<open>conversations/\<close>): every sender asks the guard, a
  database function, and confirms its send to the store; every reply is matched to a company, classified
  against the thread, and moves the one status the company has. The companies come from the lead engine
  (\<open>leadgen/\<close>): it asks sources for candidates, tells whether one is known, reads its website, decides its level
  and stores it with the emails found; an unattended batch goes over the unfinished ones again. Every ten minutes a cycle
  (\<open>outreach_sender.py\<close>) prepares first emails (\<open>outreach/sender.py\<close>, \<open>outreach/review_campaign.py\<close>, texts from
  \<open>outreach/copy.py\<close>), recovers what a dead run left, reads the replies and sends what is due through SMTP
  (\<open>outreach/transport.py\<close>).

  \<^bold>\<open>The theories\<close>, each after the file it models, with the source's names.
  \<^item> \<open>CloudPrelude\<close>: Python strings and values, tables as lists of rows, the statements on them, time.
    \<open>Regex\<close>: the parser and matcher of \<open>re\<close>. \<open>Json\<close>: \<open>json.dumps\<close> and \<open>json.loads\<close>.
  \<^item> \<open>Contracts\<close> (\<open>contracts.py\<close>), \<open>Config\<close> (\<open>config.py\<close>), \<open>Db\<close> (the tables of \<open>db/migrations\<close>).
  \<^item> \<open>Queue\<close>, \<open>JobApi\<close>, \<open>Retention\<close>, \<open>Notify\<close>, \<open>Worker\<close>, \<open>TaskExec\<close>, \<open>Handlers\<close>: the queue side.
    \<open>QueueSystem\<close>: many workers on one table, as a step relation in which the claiming select and its
    commit are two steps.
  \<^item> \<open>Privacy\<close>, \<open>Providers\<close>, \<open>Quota\<close>, \<open>Router\<close>: the router. \<open>RouterPolicy\<close>: the abstract policy it
    refines.
  \<^item> \<open>ConvStatus\<close>, \<open>ConvText\<close>, \<open>ConvStore\<close>, \<open>ConvNotify\<close>, \<open>SendGuard\<close>, \<open>ConvOps\<close>, \<open>ConvMatch\<close>, \<open>ClassifyRules\<close>,
    \<open>ConvClassify\<close>, \<open>ConvActions\<close>, \<open>ConvPipeline\<close>: \<open>conversations/status.py\<close>, \<open>text.py\<close>, \<open>store.py\<close>,
    \<open>notify.py\<close>, the SQL function of migration 008, \<open>guard.py\<close>, \<open>match.py\<close>, \<open>classify.py\<close> (patterns, then code),
    \<open>actions.py\<close>, \<open>pipeline.py\<close>. \<open>ConvSystem\<close>: every operation of the store, in any order, as a step
    relation. \<open>ConvReply\<close>: what one run of the reply pipeline promises.
  \<^item> \<open>OutreachCopy\<close> (\<open>outreach/copy.py\<close>), \<open>MailTransport\<close> (\<open>outreach/transport.py\<close>), \<open>SenderPacing\<close>, \<open>OutreachQueue\<close>,
    \<open>OutreachSend\<close>, \<open>OutreachPlan\<close>, \<open>OutreachRun\<close> (\<open>outreach/sender.py\<close>: when to send, the table, one send and the
    recovery, preparing, the audit and the loop). \<open>SenderSystem\<close>: runs, recoveries, sweeps and planners
    on one table, with a ghost list of what the server took, as a step relation in which a run may die between
    any two commits. \<open>ReviewScore\<close>, \<open>ReviewTemplates\<close>, \<open>ReviewCampaign\<close>, \<open>ReviewSafe\<close> (\<open>outreach/review_campaign.py\<close>:
    score and checks, texts, the statements, what they guarantee). \<open>OutreachCycle\<close> (\<open>outreach_sender.py\<close>): a whole
    cycle, and that planner, recovery and cycle are sequences of steps of the system.
  \<^item> \<open>LeadNormalize\<close>, \<open>LeadQualify\<close>, \<open>LeadEnrich\<close>, \<open>LeadStore\<close>, \<open>LeadEngine\<close>, \<open>LeadPipeline\<close>: \<open>leadgen/normalize.py\<close>, \<open>qualify.py\<close>,
    \<open>enrich.py\<close>, \<open>store.py\<close>, \<open>engine.py\<close>, \<open>pipeline.py\<close>. \<open>LeadSystem\<close>: a whole run of discovery, over a locale of what
    its writes keep, and leads as the sender sees them. \<open>LeadBatch\<close>: the lock and a whole batch.

  \<^bold>\<open>State.\<close> A table is a list of records with the columns the code reads or writes; its check
  constraints and unique indexes are part of the statements. Functions take the state and return the
  new one; a Python exception is an \<open>Inl\<close>, and leaves no state, as the transaction is rolled back. The
  clock, fresh ids, the relay that posts messages, the commands on the machine, the parser of address
  headers, loaded YAML files and the environment are arguments.

  \<^bold>\<open>What is proved.\<close>
  \<^item> Queue: a claim takes the right job; no interleaving gives one job to two workers; the status moves
    only along its edges; at most 31 attempts end, more never do; a fail-closed error blocks and tells the owner; deferral uses no
    attempt; the loop leaves nothing running; a prune removes only old finished jobs.
  \<^item> Router: it refines the policy; private and secret prompts reach no command, internal ones only
    trusted providers; nothing is ever spent; metered credentials have no effect. Privacy: when the gate
    lets a text go, what a scan reports, which paths a glob covers.
  \<^item> Conversations: what is refused for good, as the locale \<open>sticky_block\<close> (a condition no operation
    undoes and that makes the guard refuse) with one interpretation for each reason (blocked address,
    mailbox written to, company written to, reply received, opted out); moves of the status are
    legal and keep the table's constraints; safe matches are unambiguous; the posts of an
    event are its lost marks and at most one more; when the
    classifier fails and what a label rests on; the pipeline is a sequence of store operations,
    processes a message once, and acts on an opt-out to the end.
  \<^item> Sender: the server takes at most one mail for each company and step, however runs interleave and
    wherever they die, and the queue tells the truth about it; a run of the loop, the planner and a whole cycle
    refine the step relation, with the ghost list of mails tied to the account the mailbox keeps of what its servers
    took (\<open>mb_took\<close>); a run stays within the limit of its cycle, and the mails of the last day within the daily cap; without the replies
    no follow-up moves; the result of a send is honest; generated copy passes its own check; the campaign
    chooses, stores and queues only what its rules allow.
  \<^item> Leads: a lead is ready exactly when it passed each check; the emails of a readable site stand on its pages or in
    the listing; a stored company is found again; a run of discovery spares whoever was contacted, and ends; a ready lead is
    one the sender reaches; the lock of a batch excludes, and when a batch gives it back.
  \<^item> Where the code does not do what it means to, a theorem states what it does: an early proposal is
    not recorded, an early reply is not processed, the classifier has an uncaught key, a secret
    at the start of a line passes the outbound scan, a line break in a file name hides a blocked path, a
    guard that fails while the campaign queues undoes rows that stay counted, a job with more than 31 attempts
    is never settled, a lost mark tells an event again, a batch that fails early keeps its lock.

  \<^bold>\<open>Hypotheses on the outside.\<close> \<open>smtp_law\<close> and \<open>turn_law\<close>: a mail was taken exactly when the server says so
    after the data, and when the answer was lost only a mail that was taken is found in the Sent folder;
    a Message-ID is not empty. \<open>sent_law\<close> and \<open>looks_law\<close>: a look into the Sent folder finds only what was taken. One cycle runs at a time, as the
    workflow's concurrency group makes sure.

  \<^bold>\<open>Bounds.\<close> A repetition of the matcher has as fuel the length of the rest of the subject plus its
  obligatory rounds; every round after these makes progress, so it is never used up. \<open>finditer\<close> has twice
  the length and two, as every step moves on or turns an empty match into a longer one. The JSON
  reader's fuel is the length of the text, of which every call takes a character. The poll loop runs for
  a given number of iterations; its theorem is for every number. A sending run meets a list of laps, one for each
  round of its loop, and ends with it: the end of the list is the end of its minutes.
  A run of discovery has a number of rounds as fuel; more rounds than looks at the clock before the deadline are enough.
  Delays of retries and deferrals are four-byte integers, as \<open>make_interval\<close> takes them; a larger one makes the statement raise.

  \<^bold>\<open>Abstractions.\<close> A string is a list of one-byte characters in Windows-1252, with the case mapping of its letters;
  text outside of it is not represented, and the arrow of the reply card is written with two characters. Floats
  are rationals or reals: the entropy of the secret scanner is over the reals, and differs from the code's where rounding
  decides at the threshold. The
  router's prompt is a value of the contract, and the privacy gate can be imported. Notifications are flushed by
  one process at a time. A query without an order takes the first row in insertion order.

  \<^bold>\<open>Not modelled.\<close> Fetching from Gmail, Airtable and Discord, HTTP routes, command-line entry points, HTML and
  read-only reports (input and output); notices and mirrors of the sender, whose statements touch other tables; the sources of leads, their hand-off to
  Airtable and the import of old sheets; the job agent, second brain and research scripts (separate products). The project's manifest
  lists every part.
\<close>

end
